(* ===== verification/Go_Prelude.thy ===== *)
theory Go_Prelude
  imports Complex_Main "HOL-Library.Word" "HOL-Library.Signed_Division"
begin

text \<open>
  The ground the component theories share: Go's error values, the result type of a
  fallible function, machine integers at their width, and generic facts about lists.

  A Go function that returns \<open>(T, error)\<close> is modelled by a function into
  \<open>go_error + 'a\<close>: \<open>Inl e\<close> is a return with a non-nil error, \<open>Inr x\<close> a return with
  a nil one. A run-time panic (nil dereference, index out of range) is the error value
  \<open>Panic\<close>, which no handler of the modelled code inspects.
\<close>

section \<open>Hints shared by the components\<close>

named_theorems res_simps \<open>evaluation of result-valued pipelines\<close>
named_theorems go_defs \<open>definitions to unfold when a model is evaluated on a concrete input\<close>

section \<open>Types\<close>

text \<open>A Go string is a sequence of bytes; a \<open>char\<close> of HOL is one byte.\<close>

type_synonym byte = "8 word"
type_synonym int32 = "32 word"
type_synonym uint32 = "32 word"
type_synonym int64 = "64 word"
type_synonym uint64 = "64 word"

text \<open>
  What horizon reports in an error response: the HTTP status, the problem document as
  printed by \<open>%+v\<close>, and the result codes. \<open>result_codes = None\<close> stands for
  \<open>ResultCodes()\<close> returning an error (no such field, or one that does not decode).
\<close>

record horizon_error =
  hz_status :: int
  hz_problem :: string
  hz_codes :: "(string \<times> string list) option"

record url_error =
  ue_url :: string
  ue_text :: string
  ue_timeout :: bool

text \<open>
  Error values. The sentinels of \<open>errors.go\<close> and \<open>stellar_uri.go\<close> are constructors of
  their own; \<open>NewError\<close> is \<open>errors.New\<close>; \<open>Errorf\<close> is \<open>fmt.Errorf\<close> with its format
  and arguments kept as data; \<open>Wrapped\<close> is a \<open>pkg/errors\<close> wrapper, which
  \<open>perrors.Cause\<close> removes.
\<close>

datatype go_error =
    ErrResourceNotFound | ErrSourceAccountNotFound | ErrDestinationAccountNotFound
  | ErrAddressNotSeed | ErrSeedNotAddress | ErrUnknownKeypairType
  | ErrAssetNotFound | ErrMemoExists | ErrTimeBoundsExist
  | ErrTxOpFull | ErrNoOps | ErrAssetAlreadyExists
  | ErrMissingParameter string | ErrInvalidParameter string
  | ErrNetworkWellKnownOrigin go_error | ErrInvalidWellKnownOrigin go_error
  | ErrInvalidScheme | ErrInvalidOperation | ErrBadSignature
  | ErrInvalidVersionByte | ErrInvalidChecksum | ErrCannotSign | ErrInvalidSignature
  | StellarError string string "horizon_error option" "go_error option"
  | HorizonError horizon_error
  | UrlError url_error
  | NewError string
  | Errorf string "fmt_arg list"
  | Wrapped string go_error
  | Panic string
and fmt_arg = AStr string | AInt int | AErr go_error

type_synonym 'a res = "go_error + 'a"

section \<open>Sequencing\<close>

text \<open>\<open>x, err := m; if err != nil { return err }; f(x)\<close>\<close>

definition and_then :: "'a res \<Rightarrow> ('a \<Rightarrow> 'b res) \<Rightarrow> 'b res" where
  "and_then m f = (case m of Inl e \<Rightarrow> Inl e | Inr x \<Rightarrow> f x)"

text \<open>A handler that replaces the error before it returns it.\<close>

definition map_err :: "(go_error \<Rightarrow> go_error) \<Rightarrow> 'a res \<Rightarrow> 'a res" where
  "map_err h m = (case m of Inl e \<Rightarrow> Inl (h e) | Inr x \<Rightarrow> Inr x)"

definition is_ok :: "'a res \<Rightarrow> bool" where
  "is_ok m = (case m of Inl _ \<Rightarrow> False | Inr _ \<Rightarrow> True)"

lemma and_then_Inl [simp, res_simps]: "and_then (Inl e) f = Inl e"
  by (simp add: and_then_def)

lemma and_then_Inr [simp, res_simps]: "and_then (Inr x) f = f x"
  by (simp add: and_then_def)

lemma and_then_eq_Inr: "and_then m f = Inr y \<longleftrightarrow> (\<exists>x. m = Inr x \<and> f x = Inr y)"
  by (cases m) auto

lemma and_then_eq_Inl:
  "and_then m f = Inl e \<longleftrightarrow> m = Inl e \<or> (\<exists>x. m = Inr x \<and> f x = Inl e)"
  by (cases m) auto

lemma and_then_assoc: "and_then (and_then m f) g = and_then m (\<lambda>x. and_then (f x) g)"
  by (cases m) auto

lemma and_then_cong [fundef_cong]:
  "m = m' \<Longrightarrow> (\<And>x. m' = Inr x \<Longrightarrow> f x = f' x) \<Longrightarrow> and_then m f = and_then m' f'"
  by (cases m') auto

lemma map_err_simps [simp, res_simps]:
  "map_err h (Inl e) = Inl (h e)" "map_err h (Inr x) = Inr x"
  by (simp_all add: map_err_def)

lemma map_err_eq_Inr [simp]: "map_err h m = Inr y \<longleftrightarrow> m = Inr y"
  by (cases m) auto

lemma is_ok_simps [simp, res_simps]: "\<not> is_ok (Inl e)" "is_ok (Inr x)"
  by (simp_all add: is_ok_def)

lemma is_ok_iff: "is_ok m \<longleftrightarrow> (\<exists>x. m = Inr x)"
  by (cases m) auto

lemma not_is_ok_iff: "\<not> is_ok m \<longleftrightarrow> (\<exists>e. m = Inl e)"
  by (cases m) auto

lemma is_ok_map_err [simp]: "is_ok (map_err h m) = is_ok m"
  by (cases m) auto

lemma is_ok_and_then: "is_ok (and_then m f) \<longleftrightarrow> (\<exists>x. m = Inr x \<and> is_ok (f x))"
  by (cases m) auto

text \<open>Reading through a pointer: \<open>nil\<close> panics.\<close>

definition deref :: "'a option \<Rightarrow> 'a res" where
  "deref p = (case p of Some x \<Rightarrow> Inr x | None \<Rightarrow> Inl (Panic ''nil pointer dereference''))"

lemma deref_simps [simp, res_simps]: "deref (Some x) = Inr x" "deref None = Inl (Panic ''nil pointer dereference'')"
  by (simp_all add: deref_def)

lemma deref_eq_Inr: "deref p = Inr x \<longleftrightarrow> p = Some x"
  by (cases p) auto

text \<open>A loop that runs a fallible body over a slice and collects the results.\<close>

fun map_res :: "('a \<Rightarrow> 'b res) \<Rightarrow> 'a list \<Rightarrow> 'b list res" where
  "map_res f [] = Inr []"
| "map_res f (x # xs) = and_then (f x) (\<lambda>y. and_then (map_res f xs) (\<lambda>ys. Inr (y # ys)))"

lemma map_res_Inr_length: "map_res f xs = Inr ys \<Longrightarrow> length ys = length xs"
  by (induction xs arbitrary: ys) (auto simp: and_then_eq_Inr)

lemma map_res_Inr_nth:
  "map_res f xs = Inr ys \<Longrightarrow> i < length xs \<Longrightarrow> f (xs ! i) = Inr (ys ! i)"
  by (induction xs arbitrary: ys i) (auto simp: and_then_eq_Inr nth_Cons split: nat.splits)

lemma map_res_ok_iff: "is_ok (map_res f xs) \<longleftrightarrow> (\<forall>x \<in> set xs. is_ok (f x))"
proof (induction xs)
  case (Cons x xs)
  then show ?case by (cases "f x"; cases "map_res f xs") auto
qed simp

lemma map_res_all: "(\<And>x. x \<in> set xs \<Longrightarrow> f x = Inr (g x)) \<Longrightarrow> map_res f xs = Inr (map g xs)"
  by (induction xs) auto

section \<open>Signed 64-bit integers\<close>

text \<open>The range of Go's \<open>int64\<close>, and the reading of a word in two's complement.\<close>

definition int64_min :: int where "int64_min = - 9223372036854775808"
definition int64_max :: int where "int64_max = 9223372036854775807"

definition in_int64 :: "int \<Rightarrow> bool" where
  "in_int64 i \<longleftrightarrow> int64_min \<le> i \<and> i \<le> int64_max"

lemma sint_in_int64 [simp]: "in_int64 (sint (w :: int64))"
  using sint_ge [of w] sint_lt [of w]
  by (simp add: in_int64_def int64_min_def int64_max_def)

lemma sint_of_int_in_int64 [simp]: "in_int64 i \<Longrightarrow> sint (word_of_int i :: int64) = i"
  by (simp add: in_int64_def int64_min_def int64_max_def sint_sbintrunc' signed_take_bit_int_eq_self)

lemma sint_int64_inject: "sint (a :: int64) = sint b \<longleftrightarrow> a = b"
  using signed_word_eqI by blast

end
