(* ===== verification/Go_Text.thy ===== *)
theory Go_Text
  imports Go_Prelude "HOL-Library.Char_ord"
begin

text \<open>
  Bytes, decimal text and the parts of Go's \<open>strings\<close>, \<open>strconv\<close> and
  \<open>encoding/hex\<close> packages the program calls: printing and reading of decimal integers
  (\<open>strconv.ParseInt\<close>, \<open>strconv.ParseUint\<close>, \<open>%d\<close>), splitting, trimming and
  hexadecimal text, with the round-trip laws the components rest on.
\<close>

section \<open>Bytes\<close>

definition byte_of :: "char \<Rightarrow> byte" where
  "byte_of c = word_of_nat (of_char c)"

definition char_of_byte :: "byte \<Rightarrow> char" where
  "char_of_byte b = char_of (unat b)"

lemma char_of_byte_byte_of [simp]: "char_of_byte (byte_of c) = c"
proof -
  have "(of_char c :: nat) < 256"
    by (rule nat_of_char_less_256)
  then show ?thesis
    by (simp add: char_of_byte_def byte_of_def unat_of_nat)
qed

lemma byte_of_char_of_byte [simp]: "byte_of (char_of_byte b) = b"
proof -
  have "unat b < 256"
    using unsigned_less [of b] by simp
  then show ?thesis
    by (simp add: char_of_byte_def byte_of_def)
qed

lemma byte_of_inject: "byte_of c = byte_of d \<longleftrightarrow> c = d"
  by (metis char_of_byte_byte_of)

section \<open>Decimal digits\<close>

definition is_digit :: "char \<Rightarrow> bool" where
  "is_digit c \<longleftrightarrow> CHR ''0'' \<le> c \<and> c \<le> CHR ''9''"

definition digit_val :: "char \<Rightarrow> nat" where
  "digit_val c = of_char c - 48"

definition digit_char :: "nat \<Rightarrow> char" where
  "digit_char d = char_of (48 + d)"

lemma is_digit_iff: "is_digit c \<longleftrightarrow> 48 \<le> (of_char c :: nat) \<and> (of_char c :: nat) \<le> 57"
  by (simp add: is_digit_def less_eq_char_def)

lemma digit_val_less [simp]: "is_digit c \<Longrightarrow> digit_val c < 10"
  by (auto simp: is_digit_iff digit_val_def)

lemma of_char_digit_char: "d < 10 \<Longrightarrow> (of_char (digit_char d) :: nat) = 48 + d"
  by (simp add: digit_char_def)

lemma is_digit_digit_char [simp]: "d < 10 \<Longrightarrow> is_digit (digit_char d)"
  by (simp add: is_digit_iff of_char_digit_char)

lemma digit_val_digit_char [simp]: "d < 10 \<Longrightarrow> digit_val (digit_char d) = d"
  by (simp add: digit_val_def of_char_digit_char)

lemma digit_char_digit_val [simp]: "is_digit c \<Longrightarrow> digit_char (digit_val c) = c"
  by (simp add: is_digit_iff digit_val_def digit_char_def)

lemma not_digit_simps [simp]:
  "\<not> is_digit CHR ''.''" "\<not> is_digit CHR ''-''" "\<not> is_digit CHR '',''" "\<not> is_digit CHR ''+''"
  by (simp_all add: is_digit_iff)

text \<open>The value of a digit string, most significant digit first.\<close>

definition digits_val :: "string \<Rightarrow> nat" where
  "digits_val s = foldl (\<lambda>n c. 10 * n + digit_val c) 0 s"

lemma foldl_digits:
  "foldl (\<lambda>n c. 10 * n + digit_val c) a s = a * 10 ^ length s + digits_val s"
proof (induction s arbitrary: a)
  case (Cons c s)
  have "foldl (\<lambda>n c. 10 * n + digit_val c) 0 (c # s) = digit_val c * 10 ^ length s + digits_val s"
    using Cons[of "digit_val c"] by simp
  then show ?case
    using Cons[of "10 * a + digit_val c"] by (simp add: digits_val_def algebra_simps)
qed (simp add: digits_val_def)

lemma digits_val_Nil [simp]: "digits_val [] = 0"
  by (simp add: digits_val_def)

lemma digits_val_Cons [simp]: "digits_val (c # s) = digit_val c * 10 ^ length s + digits_val s"
  using foldl_digits [of "digit_val c" s] by (simp add: digits_val_def)

lemma digits_val_append: "digits_val (s @ t) = digits_val s * 10 ^ length t + digits_val t"
  using foldl_digits [of "digits_val s" t] by (simp add: digits_val_def)

lemma digits_val_less: "\<forall>c \<in> set s. is_digit c \<Longrightarrow> digits_val s < 10 ^ length s"
proof (induction s)
  case (Cons c s)
  then have d: "digit_val c \<le> 9" and "digits_val s < 10 ^ length s"
    using digit_val_less [of c] by (auto simp: less_Suc_eq_le numeral_eq_Suc)
  moreover from d have "digit_val c * 10 ^ length s \<le> 9 * 10 ^ length s"
    by (rule mult_le_mono1)
  ultimately show ?case unfolding digits_val_Cons length_Cons power_Suc by linarith
qed simp

lemma digits_val_zeros [simp]: "digits_val (replicate n CHR ''0'') = 0"
  by (induction n) (simp_all add: digit_val_def)

section \<open>Printing natural numbers and integers\<close>

fun show_nat :: "nat \<Rightarrow> string" where
  "show_nat n = (if n < 10 then [digit_char n] else show_nat (n div 10) @ [digit_char (n mod 10)])"

declare show_nat.simps [simp del]

lemma show_nat_small: "n < 10 \<Longrightarrow> show_nat n = [digit_char n]"
  by (subst show_nat.simps) simp

lemma show_nat_step: "10 \<le> n \<Longrightarrow> show_nat n = show_nat (n div 10) @ [digit_char (n mod 10)]"
  by (subst show_nat.simps) simp

lemma show_nat_digits: "\<forall>c \<in> set (show_nat n). is_digit c"
proof (induction n rule: show_nat.induct)
  case (1 n)
  show ?case
    by (cases "n < 10") (use 1 in \<open>auto simp: show_nat_small show_nat_step\<close>)
qed

lemma show_nat_not_Nil [simp]: "show_nat n \<noteq> []"
  by (cases "n < 10") (simp_all add: show_nat_small show_nat_step)

lemma digits_val_show_nat [simp]: "digits_val (show_nat n) = n"
proof (induction n rule: show_nat.induct)
  case (1 n)
  show ?case
    by (cases "n < 10") (use 1 in \<open>simp_all add: show_nat_small show_nat_step digits_val_append\<close>)
qed

lemma show_nat_inject: "show_nat m = show_nat n \<longleftrightarrow> m = n"
  by (metis digits_val_show_nat)

lemma length_show_nat: "n < 10 ^ k \<Longrightarrow> 0 < k \<Longrightarrow> length (show_nat n) \<le> k"
proof (induction n arbitrary: k rule: show_nat.induct)
  case (1 n)
  show ?case
  proof (cases "n < 10")
    case True
    with 1 show ?thesis by (simp add: show_nat_small)
  next
    case False
    with "1.prems" obtain j where k: "k = Suc j" and j: "0 < j"
      by (cases k; cases "k - 1") auto
    from "1.prems" k have "n div 10 < 10 ^ j" by auto
    with False 1 j have "length (show_nat (n div 10)) \<le> j" by simp
    with False k show ?thesis by (simp add: show_nat_step)
  qed
qed

lemma show_nat_eq_zero: "show_nat n = ''0'' \<longleftrightarrow> n = 0"
proof -
  have "show_nat 0 = ''0''" by code_simp
  then show ?thesis using show_nat_inject [of n 0] by simp
qed

text \<open>Evaluation on concrete text, for \<open>simp\<close>.\<close>

lemma digit_char_eval [go_defs]:
  "digit_char 0 = CHR ''0''"
  "digit_char (Suc 0) = CHR ''1''"
  "digit_char 2 = CHR ''2''"
  "digit_char 3 = CHR ''3''"
  "digit_char 4 = CHR ''4''"
  "digit_char 5 = CHR ''5''"
  "digit_char 6 = CHR ''6''"
  "digit_char 7 = CHR ''7''"
  "digit_char 8 = CHR ''8''"
  "digit_char 9 = CHR ''9''"
  by code_simp+

lemma digit_val_eval [go_defs]:
  "digit_val CHR ''0'' = 0"
  "digit_val CHR ''1'' = Suc 0"
  "digit_val CHR ''2'' = 2"
  "digit_val CHR ''3'' = 3"
  "digit_val CHR ''4'' = 4"
  "digit_val CHR ''5'' = 5"
  "digit_val CHR ''6'' = 6"
  "digit_val CHR ''7'' = 7"
  "digit_val CHR ''8'' = 8"
  "digit_val CHR ''9'' = 9"
  by code_simp+

lemma is_digit_eval [go_defs]:
  "is_digit CHR ''0''"
  "is_digit CHR ''1''"
  "is_digit CHR ''2''"
  "is_digit CHR ''3''"
  "is_digit CHR ''4''"
  "is_digit CHR ''5''"
  "is_digit CHR ''6''"
  "is_digit CHR ''7''"
  "is_digit CHR ''8''"
  "is_digit CHR ''9''"
  by code_simp+

lemmas show_nat_eval [go_defs] = show_nat_small show_nat_step

text \<open>\<open>strconv.FormatInt(i, 10)\<close>, \<open>big.Int.String\<close> and \<open>%d\<close>.\<close>

definition show_int :: "int \<Rightarrow> string" where
  "show_int i = (if i < 0 then CHR ''-'' # show_nat (nat (- i)) else show_nat (nat i))"

section \<open>Reading integers\<close>

text \<open>
  \<open>strconv.ParseUint(s, 10, bits)\<close> accepts digits only; \<open>strconv.ParseInt(s, 10, bits)\<close>
  also one leading sign. The digits are read from the left and the first digit that takes
  the value out of range ends the loop, so \<open>Inl True\<close> (range) can win over \<open>Inl False\<close>
  (syntax). \<open>ParseInt\<close> reads the magnitude with \<open>ParseUint\<close> at the same width.
\<close>

fun uint_loop :: "nat \<Rightarrow> nat \<Rightarrow> string \<Rightarrow> bool + nat" where
  "uint_loop bits n [] = Inr n"
| "uint_loop bits n (c # s) =
     (if \<not> is_digit c then Inl False
      else if 2 ^ bits \<le> 10 * n + digit_val c then Inl True
      else uint_loop bits (10 * n + digit_val c) s)"

definition parse_uint :: "nat \<Rightarrow> string \<Rightarrow> nat res" where
  "parse_uint bits s =
     (case (if s = [] then Inl False else uint_loop bits 0 s) of
        Inr n \<Rightarrow> Inr n
      | Inl False \<Rightarrow> Inl (Errorf ''strconv.ParseUint: parsing %q: invalid syntax'' [AStr s])
      | Inl True \<Rightarrow> Inl (Errorf ''strconv.ParseUint: parsing %q: value out of range'' [AStr s]))"

definition split_sign :: "string \<Rightarrow> bool \<times> string" where
  "split_sign s = (case s of
       c # t \<Rightarrow> if c = CHR ''-'' then (True, t) else if c = CHR ''+'' then (False, t) else (False, s)
     | [] \<Rightarrow> (False, []))"

definition parse_int :: "nat \<Rightarrow> string \<Rightarrow> int res" where
  "parse_int bits s =
     (let (neg, t) = split_sign s in
      case (if t = [] then Inl False else uint_loop bits 0 t) of
        Inl False \<Rightarrow> Inl (Errorf ''strconv.ParseInt: parsing %q: invalid syntax'' [AStr s])
      | Inl True \<Rightarrow> Inl (Errorf ''strconv.ParseInt: parsing %q: value out of range'' [AStr s])
      | Inr n \<Rightarrow>
          if (if neg then n \<le> 2 ^ (bits - 1) else n < 2 ^ (bits - 1))
          then Inr (if neg then - int n else int n)
          else Inl (Errorf ''strconv.ParseInt: parsing %q: value out of range'' [AStr s]))"

lemma uint_loop_eq_Inr:
  "n < 2 ^ bits \<Longrightarrow> uint_loop bits n s = Inr m \<longleftrightarrow>
     list_all is_digit s \<and> m = n * 10 ^ length s + digits_val s \<and> m < 2 ^ bits"
proof (induction s arbitrary: n)
  case (Cons c s)
  show ?case
  proof (cases "10 * n + digit_val c < 2 ^ bits")
    case True
    with Cons.IH [of "10 * n + digit_val c"] show ?thesis
      by (auto simp: algebra_simps)
  next
    case False
    have "10 * n + digit_val c \<le> (10 * n + digit_val c) * 10 ^ length s + digits_val s"
      by (simp add: trans_le_add1)
    with False have "\<not> n * 10 ^ length (c # s) + digits_val (c # s) < 2 ^ bits"
      by (simp add: algebra_simps)
    with False show ?thesis by auto
  qed
qed auto

lemma list_all_show_nat [simp]: "list_all is_digit (show_nat n)"
  using show_nat_digits by (simp add: list_all_iff)

lemma split_sign_digit: "is_digit c \<Longrightarrow> split_sign (c # t) = (False, c # t)"
  by (auto simp: split_sign_def is_digit_iff)

lemma split_sign_show_nat [simp]: "split_sign (show_nat n) = (False, show_nat n)"
proof (cases "show_nat n")
  case (Cons c t)
  with show_nat_digits [of n] have "is_digit c" by simp
  with Cons show ?thesis by (simp add: split_sign_digit)
qed simp

lemma parse_uint_eq_Inr:
  "parse_uint bits s = Inr n \<longleftrightarrow> s \<noteq> [] \<and> list_all is_digit s \<and> digits_val s = n \<and> n < 2 ^ bits"
  using uint_loop_eq_Inr [of 0 bits s n]
  by (auto simp: parse_uint_def split: sum.splits bool.splits)

lemma parse_uint_show_nat [simp]: "n < 2 ^ bits \<Longrightarrow> parse_uint bits (show_nat n) = Inr n"
  by (simp add: parse_uint_eq_Inr)

lemma parse_int_eq_Inr:
  assumes "0 < bits"
  shows "parse_int bits s = Inr i \<longleftrightarrow>
     (\<exists>neg t. split_sign s = (neg, t) \<and> t \<noteq> [] \<and> list_all is_digit t \<and>
        i = (if neg then - int (digits_val t) else int (digits_val t)) \<and>
        - (2 ^ (bits - 1)) \<le> i \<and> i < 2 ^ (bits - 1))"
proof -
  obtain neg t where st: "split_sign s = (neg, t)" by (cases "split_sign s")
  have bound: "(if neg then n \<le> 2 ^ (bits - 1) else n < 2 ^ (bits - 1)) \<longleftrightarrow>
      - (2 ^ (bits - 1)) \<le> (if neg then - int n else int n) \<and> (if neg then - int n else int n) < 2 ^ (bits - 1)" for n
  proof -
    have le: "n \<le> 2 ^ (bits - 1) \<longleftrightarrow> int n \<le> 2 ^ (bits - 1)"
      using of_nat_le_iff [where ?'a = int, of n "2 ^ (bits - 1)"] by simp
    have less: "n < 2 ^ (bits - 1) \<longleftrightarrow> int n < 2 ^ (bits - 1)"
      using of_nat_less_iff [where ?'a = int, of n "2 ^ (bits - 1)"] by simp
    have pos: "(0::int) < 2 ^ (bits - 1)" by simp
    show ?thesis
    proof (cases neg)
      case True
      then show ?thesis unfolding le using pos by (simp only: if_True) linarith
    next
      case False
      then show ?thesis unfolding less using pos by (simp only: if_False) linarith
    qed
  qed
  have small: "n \<le> 2 ^ (bits - 1) \<Longrightarrow> n < 2 ^ bits" for n :: nat
    using assms by (rule_tac le_less_trans) (auto intro: power_strict_increasing)
  show ?thesis
  proof (cases "t = []")
    case False
    have ok: "uint_loop bits 0 t = Inr n \<longleftrightarrow> list_all is_digit t \<and> n = digits_val t \<and> n < 2 ^ bits" for n
      using uint_loop_eq_Inr [of 0 bits t n] by simp
    show ?thesis
    proof (cases "uint_loop bits 0 t")
      case (Inl e)
      have "\<not> (list_all is_digit t \<and> digits_val t \<le> 2 ^ (bits - 1))"
        using ok [of "digits_val t"] Inl small by auto
      moreover have "parse_int bits s \<noteq> Inr i"
        using False Inl by (cases e) (simp_all add: st parse_int_def)
      ultimately show ?thesis using bound [of "digits_val t"] by (auto simp: st split: if_splits)
    next
      case (Inr n)
      then have "list_all is_digit t" "n = digits_val t" using ok by auto
      with False Inr bound [of n] show ?thesis by (auto simp: st parse_int_def split: if_splits)
    qed
  qed (simp add: st parse_int_def)
qed

lemma split_sign_show_int: "split_sign (show_int i) = (i < 0, show_nat (nat \<bar>i\<bar>))"
  by (simp add: show_int_def) (simp add: split_sign_def)

lemma parse_int_show_int [simp]:
  "0 < bits \<Longrightarrow> - (2 ^ (bits - 1)) \<le> i \<Longrightarrow> i < 2 ^ (bits - 1) \<Longrightarrow> parse_int bits (show_int i) = Inr i"
  by (simp add: parse_int_eq_Inr split_sign_show_int)

lemma parse_int_bounds:
  "0 < bits \<Longrightarrow> parse_int bits s = Inr i \<Longrightarrow> - (2 ^ (bits - 1)) \<le> i \<and> i < 2 ^ (bits - 1)"
  by (auto simp: parse_int_eq_Inr)

end
