(* ===== verification/Base32.thy ===== *)
theory Base32
  imports Go_Text
begin

unbundle bit_operations_syntax

text \<open>
  Go's \<open>encoding/base32\<close> as \<open>strkey\<close> uses it: the standard alphabet without padding.
  A quantum of five bytes is eight characters of five bits; a last quantum of one to four
  bytes is two, four, five or seven characters. \<open>Decode\<close> drops carriage returns and
  newlines first. Go represents "no padding" by the character code -1, which as a byte is
  \<open>0xFF\<close>, and its decoder still treats that byte as padding near the end of the input.
\<close>

section \<open>Encoding\<close>

definition b32_alphabet :: string where "b32_alphabet = ''ABCDEFGHIJKLMNOPQRSTUVWXYZ234567''"

definition b32_char :: "byte \<Rightarrow> char" where "b32_char v = b32_alphabet ! unat v"

definition b32_quantum_out :: "byte \<Rightarrow> byte \<Rightarrow> byte \<Rightarrow> byte \<Rightarrow> byte \<Rightarrow> byte list" where
  "b32_quantum_out s0 s1 s2 s3 s4 =
     [drop_bit 3 s0,
      (push_bit 2 s0 AND 0x1F) OR (drop_bit 6 s1 AND 0x1F),
      drop_bit 1 s1 AND 0x1F,
      (push_bit 4 s1 AND 0x1F) OR (drop_bit 4 s2 AND 0x1F),
      (push_bit 1 s2 AND 0x1F) OR drop_bit 7 s3,
      drop_bit 2 s3 AND 0x1F,
      (push_bit 3 s3 AND 0x1F) OR drop_bit 5 s4,
      s4 AND 0x1F]"

fun b32_vals :: "byte list \<Rightarrow> byte list" where
  "b32_vals (s0 # s1 # s2 # s3 # s4 # bs) = b32_quantum_out s0 s1 s2 s3 s4 @ b32_vals bs"
| "b32_vals [s0, s1, s2, s3] = take 7 (b32_quantum_out s0 s1 s2 s3 0)"
| "b32_vals [s0, s1, s2] = take 5 (b32_quantum_out s0 s1 s2 0 0)"
| "b32_vals [s0, s1] = take 4 (b32_quantum_out s0 s1 0 0 0)"
| "b32_vals [s0] = take 2 (b32_quantum_out s0 0 0 0 0)"
| "b32_vals [] = []"

definition base32_EncodeToString :: "byte list \<Rightarrow> string" where
  "base32_EncodeToString bs = map b32_char (b32_vals bs)"

section \<open>Decoding\<close>

definition decodingTable :: "char \<Rightarrow> byte" where
  "decodingTable c =
     (case map_of (zip b32_alphabet (map word_of_nat [0..<32])) c of None \<Rightarrow> 0xFF | Some v \<Rightarrow> v)"

definition CorruptInputError :: "int \<Rightarrow> go_error" where
  "CorruptInputError i = Errorf ''illegal base32 data at input byte %d'' [AInt i]"

text \<open>
  One round of the decoder's inner loop: it collects up to eight values, starting from those
  in \<open>buf\<close>, and returns them with the flag \<open>end\<close> and the unread input. \<open>olen\<close> is the
  length of the whole input.
\<close>

fun b32_quantum :: "nat \<Rightarrow> byte list \<Rightarrow> string \<Rightarrow> (byte list \<times> bool \<times> string) res" where
  "b32_quantum olen buf [] = Inr (buf, length buf < 8, [])"
| "b32_quantum olen buf (c # src) =
     (if length buf = 8 then Inr (buf, False, c # src)
      else if c = CHR 0xFF \<and> 2 \<le> length buf \<and> length src < 8 then
        if length src + length buf < 7 then Inl (CorruptInputError (int olen))
        else (case filter (\<lambda>k. k < length src \<and> src ! k \<noteq> CHR 0xFF) [0..<7 - length buf] of
                k # _ \<Rightarrow> Inl (CorruptInputError (int olen - int (length src) + int k - 1))
              | [] \<Rightarrow>
                 if length buf \<in> {1, 3, 6} then Inl (CorruptInputError (int olen - int (length src) - 1))
                 else Inr (buf, True, src))
      else if decodingTable c = 0xFF then Inl (CorruptInputError (int olen - int (length src) - 1))
      else b32_quantum olen (buf @ [decodingTable c]) src)"

definition b32_nth :: "byte list \<Rightarrow> nat \<Rightarrow> byte" where
  "b32_nth vs i = (if i < length vs then vs ! i else 0)"

definition b32_pack :: "byte list \<Rightarrow> byte list" where
  "b32_pack vs =
     take (if length vs = 8 then 5 else if length vs = 7 then 4 else if length vs = 5 then 3
           else if length vs = 4 then 2 else if length vs = 2 then 1 else 0)
      [push_bit 3 (b32_nth vs 0) OR drop_bit 2 (b32_nth vs 1),
       push_bit 6 (b32_nth vs 1) OR push_bit 1 (b32_nth vs 2) OR drop_bit 4 (b32_nth vs 3),
       push_bit 4 (b32_nth vs 3) OR drop_bit 1 (b32_nth vs 4),
       push_bit 7 (b32_nth vs 4) OR push_bit 2 (b32_nth vs 5) OR drop_bit 3 (b32_nth vs 6),
       push_bit 5 (b32_nth vs 6) OR b32_nth vs 7]"

lemma b32_quantum_shrinks:
  "b32_quantum olen buf src = Inr (vs, e, rest) \<Longrightarrow> length rest \<le> length src \<and>
    (src \<noteq> [] \<longrightarrow> length buf < 8 \<longrightarrow> length rest < length src)"
  by (induction olen buf src rule: b32_quantum.induct)
    (fastforce split: if_splits list.splits simp del: filter.simps)+

function b32_decode :: "nat \<Rightarrow> string \<Rightarrow> byte list res" where
  "b32_decode olen src =
     (if src = [] then Inr []
      else case b32_quantum olen [] src of
          Inl e \<Rightarrow> Inl e
        | Inr (vs, end, rest) \<Rightarrow>
            if end then Inr (b32_pack vs)
            else and_then (b32_decode olen rest) (\<lambda>bs. Inr (b32_pack vs @ bs)))"
  by pat_completeness auto
termination
  by (relation "measure (\<lambda>(olen, src). length src)") (auto dest: b32_quantum_shrinks)

declare b32_decode.simps [simp del]

definition stripNewlines :: "string \<Rightarrow> string" where
  "stripNewlines = filter (\<lambda>c. c \<noteq> CHR 0x0D \<and> c \<noteq> CHR 0x0A)"

definition base32_Decode :: "string \<Rightarrow> byte list res" where
  "base32_Decode s = (let buf = stripNewlines s in b32_decode (length buf) buf)"

section \<open>Quanta, bit by bit\<close>

lemma byte_eqI:
  assumes "bit a 0 = bit b 0" "bit a 1 = bit b 1" "bit a 2 = bit b 2" "bit a 3 = bit b 3"
    "bit a 4 = bit b 4" "bit a 5 = bit b 5" "bit a 6 = bit b 6" "bit a 7 = bit b 7"
  shows "a = (b :: byte)"
proof (rule bit_word_eqI)
  fix n :: nat assume "n < LENGTH(8)"
  then have "n \<in> {0, 1, 2, 3, 4, 5, 6, 7}" by auto
  with assms show "bit a n = bit b n" by auto
qed

lemma bit_byte_beyond:
  "\<not> bit (a :: byte) 8" "\<not> bit (a :: byte) 9" "\<not> bit (a :: byte) 10" "\<not> bit (a :: byte) 11"
  "\<not> bit (a :: byte) 12" "\<not> bit (a :: byte) 13" "\<not> bit (a :: byte) 14" "\<not> bit (a :: byte) 15"
  by (auto dest: bit_imp_le_length)

lemma mask_5_byte: "(31 :: byte) = mask 5"
  by (simp add: mask_eq_exp_minus_1)

lemma b32_nth_simps [simp]:
  "b32_nth (v # vs) 0 = v" "b32_nth (v # vs) (Suc i) = b32_nth vs i" "b32_nth [] i = 0"
  "b32_nth (v # vs) (numeral n) = b32_nth vs (pred_numeral n)"
  by (simp_all add: b32_nth_def numeral_eq_Suc)

lemma b32_pack_8:
  "b32_pack [v0, v1, v2, v3, v4, v5, v6, v7] =
    [push_bit 3 v0 OR drop_bit 2 v1, push_bit 6 v1 OR push_bit 1 v2 OR drop_bit 4 v3,
     push_bit 4 v3 OR drop_bit 1 v4, push_bit 7 v4 OR push_bit 2 v5 OR drop_bit 3 v6, push_bit 5 v6 OR v7]"
  by (simp add: b32_pack_def)

lemmas byte_bits = bit_simps bit_byte_beyond mask_5_byte len_num1 len_bit0 len_num0 Nat.add_0_right

lemma b32_pack_quantum: "b32_pack (b32_quantum_out s0 s1 s2 s3 s4) = [s0, s1, s2, s3, s4]"
  unfolding b32_quantum_out_def mask_5_byte b32_pack_8 list.inject
  by (intro conjI byte_eqI;
      (simp only: byte_bits; simp add: bit_byte_beyond bit_simps flip: push_bit_eq_mult del: One_nat_def plus_1_eq_Suc; simp)?)

lemma b32_pack_short:
  "b32_pack [v0, v1, v2, v3, v4, v5, v6] = take 4 (b32_pack [v0, v1, v2, v3, v4, v5, v6, 0])"
  "b32_pack [v0, v1, v2, v3, v4] = take 3 (b32_pack [v0, v1, v2, v3, v4, 0, 0, 0])"
  "b32_pack [v0, v1, v2, v3] = take 2 (b32_pack [v0, v1, v2, v3, 0, 0, 0, 0])"
  "b32_pack [v0, v1] = take 1 (b32_pack [v0, v1, 0, 0, 0, 0, 0, 0])"
  by (simp_all add: b32_pack_def)

lemma b32_quantum_zeros:
  "b32_quantum_out s0 s1 s2 s3 0 = take 7 (b32_quantum_out s0 s1 s2 s3 0) @ [0]"
  "b32_quantum_out s0 s1 s2 0 0 = take 5 (b32_quantum_out s0 s1 s2 0 0) @ [0, 0, 0]"
  "b32_quantum_out s0 s1 0 0 0 = take 4 (b32_quantum_out s0 s1 0 0 0) @ [0, 0, 0, 0]"
  "b32_quantum_out s0 0 0 0 0 = take 2 (b32_quantum_out s0 0 0 0 0) @ [0, 0, 0, 0, 0, 0]"
  by (simp_all add: b32_quantum_out_def)

section \<open>The alphabet and the round trips\<close>

lemma less_32_iff: "v < 32 \<longleftrightarrow> v AND 0x1F = (v :: byte)"
proof -
  have "v AND 0x1F = v \<longleftrightarrow> take_bit 5 (unat v) = unat v"
    by (simp only: mask_5_byte word_unat_eq_iff unsigned_take_bit_eq flip: take_bit_eq_mask)
  then show ?thesis by (simp add: take_bit_nat_eq_self_iff word_less_nat_alt)
qed

lemma b32_quantum_less: "v \<in> set (b32_quantum_out s0 s1 s2 s3 s4) \<Longrightarrow> v < 32"
proof -
  have "\<forall>v \<in> set (b32_quantum_out s0 s1 s2 s3 s4). v AND 0x1F = v"
    unfolding b32_quantum_out_def list.set ball_simps mask_5_byte
    by (intro conjI byte_eqI;
      (simp only: byte_bits; simp add: bit_byte_beyond bit_simps flip: push_bit_eq_mult del: One_nat_def plus_1_eq_Suc; simp)?)
  then show "v \<in> set (b32_quantum_out s0 s1 s2 s3 s4) \<Longrightarrow> v < 32" by (simp add: less_32_iff)
qed
lemma b32_vals_less: "v \<in> set (b32_vals bs) \<Longrightarrow> v < 32"
  by (induction bs rule: b32_vals.induct) (auto dest: b32_quantum_less in_set_takeD)

lemma decodingTable_char: 
  assumes "v < 32" shows "decodingTable (b32_char v) = v"
proof -
  have "\<forall>n \<in> set [0..<32]. decodingTable (b32_alphabet ! n) = word_of_nat n"
    by code_simp
  moreover have "unat v < 32" using assms by (simp add: word_less_nat_alt)
  ultimately have "decodingTable (b32_alphabet ! unat v) = word_of_nat (unat v)" by fastforce
  then show ?thesis by (simp add: b32_char_def)
qed
lemma b32_char_decodingTable: assumes "decodingTable c \<noteq> 0xFF" shows "b32_char (decodingTable c) = c \<and> decodingTable c < 32"
proof -
  have "\<forall>c \<in> set b32_alphabet. b32_char (decodingTable c) = c \<and> decodingTable c < 32"
    by code_simp
  moreover have "c \<in> set b32_alphabet"
    using assms by (auto simp: decodingTable_def split: option.splits dest!: map_of_SomeD set_zip_leftD)
  ultimately show ?thesis by blast
qed
lemma b32_alphabet_plain: "\<forall>c \<in> set b32_alphabet. c \<noteq> CHR 0x0D \<and> c \<noteq> CHR 0x0A \<and> c \<noteq> CHR 0xFF"
  by code_simp
lemma b32_char_in: "v < 32 \<Longrightarrow> b32_char v \<in> set b32_alphabet"
  by (simp add: b32_char_def word_less_nat_alt b32_alphabet_def del: list.set)

lemma b32_char_plain:
  assumes "v < 32" shows "b32_char v \<noteq> CHR 0x0D" "b32_char v \<noteq> CHR 0x0A" "b32_char v \<noteq> CHR 0xFF" "decodingTable (b32_char v) \<noteq> 0xFF"
proof -
  show "b32_char v \<noteq> CHR 0x0D" "b32_char v \<noteq> CHR 0x0A" "b32_char v \<noteq> CHR 0xFF"
    using b32_char_in [OF assms] b32_alphabet_plain by blast+
  show "decodingTable (b32_char v) \<noteq> 0xFF" using assms by (auto simp: decodingTable_char)
qed

lemma b32_pack_Nil [simp]: "b32_pack [] = []" by (simp add: b32_pack_def)

text \<open>The decoder on alphabet characters, without its error exits.\<close>

fun b32_bytes :: "byte list \<Rightarrow> byte list" where
  "b32_bytes (v0 # v1 # v2 # v3 # v4 # v5 # v6 # v7 # vs) = b32_pack [v0, v1, v2, v3, v4, v5, v6, v7] @ b32_bytes vs"
| "b32_bytes vs = b32_pack vs"

lemma b32_quantum_chars:
  "\<forall>v \<in> set vs. v < 32 \<Longrightarrow> length buf \<le> 8 \<Longrightarrow>
   b32_quantum olen buf (map b32_char vs) =
     Inr (buf @ take (8 - length buf) vs, length buf + length vs < 8, map b32_char (drop (8 - length buf) vs))"
proof (induction vs arbitrary: buf)
  case (Cons v vs)
  show ?case
  proof (cases "length buf = 8")
    case False
    with Cons.prems have "8 - length buf = Suc (8 - length (buf @ [v]))" "length buf < 8" by auto
    with Cons.IH [of "buf @ [v]"] Cons.prems show ?thesis
      by (auto simp: b32_char_plain decodingTable_char)
  qed (simp add: Cons.prems)
qed simp

lemma b32_decode_short:
  "length vs < 8 \<Longrightarrow> \<forall>v \<in> set vs. v < 32 \<Longrightarrow>
    b32_decode olen (map b32_char vs) = Inr (b32_pack vs)"
  by (subst b32_decode.simps) (auto simp: b32_quantum_chars)

lemma b32_decode_chars: "\<forall>v \<in> set vs. v < 32 \<Longrightarrow> b32_decode olen (map b32_char vs) = Inr (b32_bytes vs)"
proof (induction vs rule: b32_bytes.induct)
  case (1 v0 v1 v2 v3 v4 v5 v6 v7 vs)
  then show ?case
    using b32_quantum_chars [of "v0 # v1 # v2 # v3 # v4 # v5 # v6 # v7 # vs" "[]" olen]
    by (simp add: b32_decode.simps [of olen "b32_char _ # _"])
qed ((subst b32_decode_short; simp)+)

lemma b32_bytes_vals: "b32_bytes (b32_vals bs) = bs"
proof (induction bs rule: b32_vals.induct)
  case (1 s0 s1 s2 s3 s4 bs)
  have "b32_bytes (b32_quantum_out s0 s1 s2 s3 s4 @ vs) = b32_pack (b32_quantum_out s0 s1 s2 s3 s4) @ b32_bytes vs" for vs
    by (simp add: b32_quantum_out_def)
  with 1 show ?case by (simp add: b32_pack_quantum)
next
  case (2 s0 s1 s2 s3)
  then show ?case using b32_pack_quantum [of s0 s1 s2 s3 0] by (simp add: b32_quantum_out_def b32_pack_short)
next
  case (3 s0 s1 s2)
  then show ?case using b32_pack_quantum [of s0 s1 s2 0 0] by (simp add: b32_quantum_out_def b32_pack_short)
next
  case (4 s0 s1)
  then show ?case using b32_pack_quantum [of s0 s1 0 0 0] by (simp add: b32_quantum_out_def b32_pack_short)
next
  case (5 s0)
  then show ?case using b32_pack_quantum [of s0 0 0 0 0] by (simp add: b32_quantum_out_def b32_pack_short)
qed simp

lemma stripNewlines_chars: "\<forall>v \<in> set vs. v < 32 \<Longrightarrow> stripNewlines (map b32_char vs) = map b32_char vs"
  by (induction vs) (simp_all add: stripNewlines_def b32_char_plain)

lemma base32_roundtrip: "base32_Decode (base32_EncodeToString bs) = Inr bs"
  using b32_vals_less [of _ bs]
  by (simp add: base32_Decode_def base32_EncodeToString_def stripNewlines_chars b32_decode_chars b32_bytes_vals Let_def)

lemma b32_quantum_pack:
  assumes "v0 < 32" "v1 < 32" "v2 < 32" "v3 < 32" "v4 < 32" "v5 < 32" "v6 < 32" "v7 < 32"
    and "b32_pack [v0, v1, v2, v3, v4, v5, v6, v7] = [s0, s1, s2, s3, s4]"
  shows "b32_quantum_out s0 s1 s2 s3 s4 = [v0, v1, v2, v3, v4, v5, v6, v7]"
proof -
  have hi: "\<not> bit v 5 \<and> \<not> bit v 6 \<and> \<not> bit v 7" if "v < 32" for v :: byte
  proof -
    have "bit v i = bit (v AND mask 5) i" for i using that by (simp add: less_32_iff mask_5_byte)
    from this [of 5] this [of 6] this [of 7] show ?thesis by (simp add: bit_simps)
  qed
  have s: "s0 = push_bit 3 v0 OR drop_bit 2 v1" "s1 = push_bit 6 v1 OR push_bit 1 v2 OR drop_bit 4 v3"
     "s2 = push_bit 4 v3 OR drop_bit 1 v4" "s3 = push_bit 7 v4 OR push_bit 2 v5 OR drop_bit 3 v6" "s4 = push_bit 5 v6 OR v7"
    using assms(9) by (simp_all only: b32_pack_8 list.inject)
  show ?thesis
    unfolding b32_quantum_out_def mask_5_byte list.inject s
    apply (intro conjI byte_eqI;
      (simp only: byte_bits; simp add: bit_byte_beyond bit_simps assms(1-8) [THEN hi] flip: push_bit_eq_mult del: One_nat_def plus_1_eq_Suc; simp)?)
    done
qed

lemma push_bit_eq_0: "v AND mask (8 - n) = 0 \<Longrightarrow> push_bit n v = (0 :: byte)"
proof (rule bit_word_eqI)
  fix m assume z: "v AND mask (8 - n) = 0" and m: "m < LENGTH(8)"
  have "\<not> bit (v AND mask (8 - n)) (m - n)" by (simp add: z)
  then show "bit (push_bit n v) m = bit 0 m" using m by (auto simp: bit_simps)
qed

lemma b32_quantum_pack_8:
  assumes "v0 < 32" "v1 < 32" "v2 < 32" "v3 < 32" "v4 < 32" "v5 < 32" "v6 < 32" "v7 < 32"
  shows "b32_vals (b32_pack [v0, v1, v2, v3, v4, v5, v6, v7] @ bs) = [v0, v1, v2, v3, v4, v5, v6, v7] @ b32_vals bs"
  using b32_quantum_pack [OF assms b32_pack_8] by (simp add: b32_pack_8)

lemma b32_quantum_pack_short:
  "v0 < 32 \<Longrightarrow> v1 < 32 \<Longrightarrow> v1 AND mask 2 = 0 \<Longrightarrow> b32_vals (b32_pack [v0, v1]) = [v0, v1]"
  "v0 < 32 \<Longrightarrow> v1 < 32 \<Longrightarrow> v2 < 32 \<Longrightarrow> v3 < 32 \<Longrightarrow> v3 AND mask 4 = 0 \<Longrightarrow>
    b32_vals (b32_pack [v0, v1, v2, v3]) = [v0, v1, v2, v3]"
  "v0 < 32 \<Longrightarrow> v1 < 32 \<Longrightarrow> v2 < 32 \<Longrightarrow> v3 < 32 \<Longrightarrow> v4 < 32 \<Longrightarrow> v4 AND mask 1 = 0 \<Longrightarrow>
    b32_vals (b32_pack [v0, v1, v2, v3, v4]) = [v0, v1, v2, v3, v4]"
  "v0 < 32 \<Longrightarrow> v1 < 32 \<Longrightarrow> v2 < 32 \<Longrightarrow> v3 < 32 \<Longrightarrow> v4 < 32 \<Longrightarrow> v5 < 32 \<Longrightarrow> v6 < 32 \<Longrightarrow> v6 AND mask 3 = 0 \<Longrightarrow>
    b32_vals (b32_pack [v0, v1, v2, v3, v4, v5, v6]) = [v0, v1, v2, v3, v4, v5, v6]"
  subgoal
    using b32_quantum_pack [of v0 v1 0 0 0 0 0 0, OF _ _ _ _ _ _ _ _ b32_pack_8] push_bit_eq_0 [of v1 6]
    by (simp add: b32_pack_short b32_pack_8)
  subgoal
    using b32_quantum_pack [of v0 v1 v2 v3 0 0 0 0, OF _ _ _ _ _ _ _ _ b32_pack_8] push_bit_eq_0 [of v3 4]
    by (simp add: b32_pack_short b32_pack_8)
  subgoal
    using b32_quantum_pack [of v0 v1 v2 v3 v4 0 0 0, OF _ _ _ _ _ _ _ _ b32_pack_8] push_bit_eq_0 [of v4 7]
    by (simp add: b32_pack_short b32_pack_8)
  subgoal
    using b32_quantum_pack [of v0 v1 v2 v3 v4 v5 v6 0, OF _ _ _ _ _ _ _ _ b32_pack_8] push_bit_eq_0 [of v6 5]
    by (simp add: b32_pack_short b32_pack_8)
  done

text \<open>No unused character and no stray bit at the end: such a text is the only one of its bytes.\<close>

definition b32_canonical :: "byte list \<Rightarrow> bool" where
  "b32_canonical vs =
     (let lb = 5 * length vs mod 8 in lb < 5 \<and> (lb = 0 \<or> last vs AND mask lb = 0))"

lemma b32_vals_bytes: "\<forall>v \<in> set vs. v < 32 \<Longrightarrow> b32_canonical vs \<Longrightarrow> b32_vals (b32_bytes vs) = vs"
proof (induction vs rule: b32_bytes.induct)
  case (1 v0 v1 v2 v3 v4 v5 v6 v7 vs)
  have "5 * length (v0 # v1 # v2 # v3 # v4 # v5 # v6 # v7 # vs) mod 8 = 5 * length vs mod 8"
    by simp presburger
  then have "b32_canonical vs"
    using "1.prems"(2) unfolding b32_canonical_def Let_def by (cases vs) simp_all
  with 1 show ?case by (simp add: b32_quantum_pack_8)
qed (simp_all add: b32_canonical_def b32_quantum_pack_short)
lemma push_bit_and_mask: "(push_bit n s AND m) AND mask n = (0 :: byte)"
  by (rule bit_word_eqI) (simp add: bit_simps)

lemma b32_vals_canonical: "b32_canonical (b32_vals bs)"
proof (induction bs rule: b32_vals.induct)
  case (1 s0 s1 s2 s3 s4 bs)
  have "5 * length (b32_vals (s0 # s1 # s2 # s3 # s4 # bs)) mod 8 = 5 * length (b32_vals bs) mod 8"
    by (simp add: b32_quantum_out_def) presburger
  with 1 show ?case
    unfolding b32_canonical_def Let_def
    by (cases "b32_vals bs = []") (simp_all add: b32_quantum_out_def)
next
  case (2 s0 s1 s2 s3)
  show ?case by (simp add: b32_canonical_def b32_quantum_out_def push_bit_and_mask)
next
  case (3 s0 s1 s2)
  have "(push_bit 1 s2 AND 0x1F) AND mask 1 = (0 :: byte)" by (rule push_bit_and_mask)
  then show ?case by (simp add: b32_canonical_def b32_quantum_out_def)
next
  case (4 s0 s1)
  have "(push_bit 4 s1 AND 0x1F) AND mask 4 = (0::byte)"
    by (rule push_bit_and_mask)
  then show ?case by (simp add: b32_canonical_def b32_quantum_out_def)
next
  case (5 s0)
  have "(push_bit 2 s0 AND 0x1F) AND mask 2 = (0 :: byte)" by (rule push_bit_and_mask)
  then show ?case by (simp add: b32_canonical_def b32_quantum_out_def)
qed (simp add: b32_canonical_def)

lemma length_b32_vals: "length (b32_vals bs) = (8 * length bs + 4) div 5"
  by (induction bs rule: b32_vals.induct) (simp_all add: b32_quantum_out_def)

lemma b32_quantum_alphabet:
  "b32_quantum olen buf src = Inr (vs, e, rest) \<Longrightarrow> CHR 0xFF \<notin> set src \<Longrightarrow>
    \<exists>used. src = used @ rest \<and> (\<forall>c \<in> set used. decodingTable c \<noteq> 0xFF) \<and> (e \<longrightarrow> rest = [])"
proof (induction olen buf src rule: b32_quantum.induct)
  case (2 olen buf c src)
  show ?case
  proof (cases "length buf = 8")
    case False
    with 2 have "b32_quantum olen (buf @ [decodingTable c]) src = Inr (vs, e, rest)" "decodingTable c \<noteq> 0xFF"
      by (auto split: if_splits)
    with 2 False obtain used where "src = used @ rest" "\<forall>c \<in> set used. decodingTable c \<noteq> 0xFF" "e \<longrightarrow> rest = []"
      by auto
    with \<open>decodingTable c \<noteq> 0xFF\<close> show ?thesis by (intro exI [of _ "c # used"]) simp
  qed (use 2 in auto)
qed simp

lemma b32_decode_alphabet:
  "b32_decode olen src = Inr bs \<Longrightarrow> CHR 0xFF \<notin> set src \<Longrightarrow> c \<in> set src \<Longrightarrow> decodingTable c \<noteq> 0xFF"
proof (induction olen src arbitrary: bs rule: b32_decode.induct)
  case (1 olen src)
  then have "src \<noteq> []" by auto
  with 1 obtain vs e rest where q: "b32_quantum olen [] src = Inr (vs, e, rest)"
    by (auto simp: b32_decode.simps [of olen src] split: sum.splits)
  from b32_quantum_alphabet [OF q "1.prems"(2)] obtain used where
    used: "src = used @ rest" "\<forall>c \<in> set used. decodingTable c \<noteq> 0xFF" "e \<longrightarrow> rest = []" by blast
  show ?case
  proof (cases "c \<in> set used")
    case False
    with used 1 have "\<not> e" "c \<in> set rest" by auto
    with "1.prems"(1) q \<open>src \<noteq> []\<close> obtain bs' where "b32_decode olen rest = Inr bs'"
      by (auto simp: b32_decode.simps [of olen src] and_then_eq_Inr)
    with "1.IH" [OF \<open>src \<noteq> []\<close> q] used "1.prems" \<open>\<not> e\<close> \<open>c \<in> set rest\<close> show ?thesis by auto
  qed (use used in blast)
qed

text \<open>
  The byte \<open>0xFF\<close> ends an input only in a quantum that is not full, of one to four bytes: what
  decodes to whole quanta has no character outside the alphabet.
\<close>

lemma b32_quantum_full: "b32_quantum olen buf src = Inr (vs, False, rest) \<Longrightarrow> length buf \<le> 8 \<Longrightarrow> length vs = 8"
  by (induction olen buf src rule: b32_quantum.induct) (auto split: if_splits list.splits simp del: filter.simps)

lemma b32_quantum_used:
  "b32_quantum olen buf src = Inr (vs, e, rest) \<Longrightarrow> length buf \<le> 8 \<Longrightarrow>
    (\<exists>used. src = used @ rest \<and> (\<forall>c \<in> set used. decodingTable c \<noteq> 0xFF) \<and> (e \<longrightarrow> rest = [])) \<or>
    e \<and> length vs \<in> {2, 4, 5, 7}"
proof (induction olen buf src rule: b32_quantum.induct)
  case (2 olen buf c src)
  consider (full) "length buf = 8" | (pad) "length buf \<noteq> 8" "c = CHR 0xFF \<and> 2 \<le> length buf \<and> length src < 8"
    | (char) "length buf \<noteq> 8" "\<not> (c = CHR 0xFF \<and> 2 \<le> length buf \<and> length src < 8)" by blast
  then show ?case
  proof cases
    case full
    then show ?thesis using 2(2) by auto
  next
    case pad
    then have "e \<and> vs = buf \<and> length buf \<notin> {1, 3, 6}" using 2(2) by (auto split: if_splits list.splits simp del: filter.simps)
    then show ?thesis using pad 2(3) by auto
  next
    case char
    with 2 have q: "b32_quantum olen (buf @ [decodingTable c]) src = Inr (vs, e, rest)" "decodingTable c \<noteq> 0xFF"
      by (auto split: if_splits)
    have "length (buf @ [decodingTable c]) \<le> 8" using char(1) 2(3) by simp
    with 2(1) [OF char _ q(1)] q(2) show ?thesis
      by (metis (no_types, lifting) append_Cons set_ConsD)
  qed
qed simp

lemma b32_decode_whole:
  "b32_decode olen src = Inr bs \<Longrightarrow> length bs mod 5 = 0 \<Longrightarrow> c \<in> set src \<Longrightarrow> decodingTable c \<noteq> 0xFF"
proof (induction olen src arbitrary: bs rule: b32_decode.induct)
  case (1 olen src)
  then have "src \<noteq> []" by auto
  with 1 obtain vs e rest where q: "b32_quantum olen [] src = Inr (vs, e, rest)"
    by (auto simp: b32_decode.simps [of olen src] split: sum.splits)
  have "length vs \<in> {2, 4, 5, 7} \<Longrightarrow> length (b32_pack vs) \<in> {1, 2, 3, 4}" by (auto simp: b32_pack_def)
  moreover have "e \<Longrightarrow> bs = b32_pack vs" using "1.prems"(1) q \<open>src \<noteq> []\<close> by (simp add: b32_decode.simps [of olen src])
  ultimately have "\<not> (e \<and> length vs \<in> {2, 4, 5, 7})" using "1.prems"(2) by fastforce
  with b32_quantum_used [OF q] obtain used where
    used: "src = used @ rest" "\<forall>c \<in> set used. decodingTable c \<noteq> 0xFF" "e \<longrightarrow> rest = []" by auto
  show ?case
  proof (cases "c \<in> set used")
    case False
    with used 1 have "\<not> e" "c \<in> set rest" by auto
    with "1.prems"(1) q \<open>src \<noteq> []\<close> obtain bs' where d: "b32_decode olen rest = Inr bs'" "bs = b32_pack vs @ bs'"
      by (auto simp: b32_decode.simps [of olen src] and_then_eq_Inr)
    have "length vs = 8" using b32_quantum_full [of olen "[]" src vs rest] q \<open>\<not> e\<close> by simp
    then have "length (b32_pack vs) = 5" by (simp add: b32_pack_def)
    then have "length bs' mod 5 = 0" using "1.prems"(2) d(2) by simp
    with "1.IH" [OF \<open>src \<noteq> []\<close> q] d(1) \<open>\<not> e\<close> \<open>c \<in> set rest\<close> show ?thesis by auto
  qed (use used in blast)
qed

end
