(* ===== verification/Strkey.thy ===== *)
theory Strkey
  imports Base32
begin

text \<open>
  The vendored \<open>strkey\<close> package: a key is written as base32 of a version byte, the
  payload and a CRC-16 of both (\<open>Encode\<close>); \<open>Decode\<close> checks that the text is in
  canonical base32, the version and the checksum.
\<close>

section \<open>CRC-16 (\<open>strkey/internal/crc16\<close>)\<close>

type_synonym uint16 = "16 word"

definition crc16tab :: "uint16 list" where
  "crc16tab =
    [0x0000, 0x1021, 0x2042, 0x3063, 0x4084, 0x50a5, 0x60c6, 0x70e7,
     0x8108, 0x9129, 0xa14a, 0xb16b, 0xc18c, 0xd1ad, 0xe1ce, 0xf1ef,
     0x1231, 0x0210, 0x3273, 0x2252, 0x52b5, 0x4294, 0x72f7, 0x62d6,
     0x9339, 0x8318, 0xb37b, 0xa35a, 0xd3bd, 0xc39c, 0xf3ff, 0xe3de,
     0x2462, 0x3443, 0x0420, 0x1401, 0x64e6, 0x74c7, 0x44a4, 0x5485,
     0xa56a, 0xb54b, 0x8528, 0x9509, 0xe5ee, 0xf5cf, 0xc5ac, 0xd58d,
     0x3653, 0x2672, 0x1611, 0x0630, 0x76d7, 0x66f6, 0x5695, 0x46b4,
     0xb75b, 0xa77a, 0x9719, 0x8738, 0xf7df, 0xe7fe, 0xd79d, 0xc7bc,
     0x48c4, 0x58e5, 0x6886, 0x78a7, 0x0840, 0x1861, 0x2802, 0x3823,
     0xc9cc, 0xd9ed, 0xe98e, 0xf9af, 0x8948, 0x9969, 0xa90a, 0xb92b,
     0x5af5, 0x4ad4, 0x7ab7, 0x6a96, 0x1a71, 0x0a50, 0x3a33, 0x2a12,
     0xdbfd, 0xcbdc, 0xfbbf, 0xeb9e, 0x9b79, 0x8b58, 0xbb3b, 0xab1a,
     0x6ca6, 0x7c87, 0x4ce4, 0x5cc5, 0x2c22, 0x3c03, 0x0c60, 0x1c41,
     0xedae, 0xfd8f, 0xcdec, 0xddcd, 0xad2a, 0xbd0b, 0x8d68, 0x9d49,
     0x7e97, 0x6eb6, 0x5ed5, 0x4ef4, 0x3e13, 0x2e32, 0x1e51, 0x0e70,
     0xff9f, 0xefbe, 0xdfdd, 0xcffc, 0xbf1b, 0xaf3a, 0x9f59, 0x8f78,
     0x9188, 0x81a9, 0xb1ca, 0xa1eb, 0xd10c, 0xc12d, 0xf14e, 0xe16f,
     0x1080, 0x00a1, 0x30c2, 0x20e3, 0x5004, 0x4025, 0x7046, 0x6067,
     0x83b9, 0x9398, 0xa3fb, 0xb3da, 0xc33d, 0xd31c, 0xe37f, 0xf35e,
     0x02b1, 0x1290, 0x22f3, 0x32d2, 0x4235, 0x5214, 0x6277, 0x7256,
     0xb5ea, 0xa5cb, 0x95a8, 0x8589, 0xf56e, 0xe54f, 0xd52c, 0xc50d,
     0x34e2, 0x24c3, 0x14a0, 0x0481, 0x7466, 0x6447, 0x5424, 0x4405,
     0xa7db, 0xb7fa, 0x8799, 0x97b8, 0xe75f, 0xf77e, 0xc71d, 0xd73c,
     0x26d3, 0x36f2, 0x0691, 0x16b0, 0x6657, 0x7676, 0x4615, 0x5634,
     0xd94c, 0xc96d, 0xf90e, 0xe92f, 0x99c8, 0x89e9, 0xb98a, 0xa9ab,
     0x5844, 0x4865, 0x7806, 0x6827, 0x18c0, 0x08e1, 0x3882, 0x28a3,
     0xcb7d, 0xdb5c, 0xeb3f, 0xfb1e, 0x8bf9, 0x9bd8, 0xabbb, 0xbb9a,
     0x4a75, 0x5a54, 0x6a37, 0x7a16, 0x0af1, 0x1ad0, 0x2ab3, 0x3a92,
     0xfd2e, 0xed0f, 0xdd6c, 0xcd4d, 0xbdaa, 0xad8b, 0x9de8, 0x8dc9,
     0x7c26, 0x6c07, 0x5c64, 0x4c45, 0x3ca2, 0x2c83, 0x1ce0, 0x0cc1,
     0xef1f, 0xff3e, 0xcf5d, 0xdf7c, 0xaf9b, 0xbfba, 0x8fd9, 0x9ff8,
     0x6e17, 0x7e36, 0x4e55, 0x5e74, 0x2e93, 0x3eb2, 0x0ed1, 0x1ef0]"

definition crc16_step :: "uint16 \<Rightarrow> byte \<Rightarrow> uint16" where
  "crc16_step crc b =
     (push_bit 8 crc AND 0xFFFF) XOR crc16tab ! unat ((drop_bit 8 crc XOR ucast b) AND 0x00FF)"

text \<open>The two bytes of the checksum are written in little-endian order.\<close>

definition crc16_Checksum :: "byte list \<Rightarrow> byte list" where
  "crc16_Checksum data =
     (let crc = foldl crc16_step 0 data in [ucast crc, ucast (drop_bit 8 crc)])"

definition crc16_Validate :: "byte list \<Rightarrow> byte list \<Rightarrow> unit res" where
  "crc16_Validate data expected =
     (if crc16_Checksum data = expected then Inr () else Inl ErrInvalidChecksum)"

section \<open>Encoding and decoding\<close>

definition VersionByteAccountID :: byte where "VersionByteAccountID = push_bit 3 6"
definition VersionByteSeed :: byte where "VersionByteSeed = push_bit 3 18"
definition VersionByteMuxedAccount :: byte where "VersionByteMuxedAccount = push_bit 3 12"
definition VersionByteHashTx :: byte where "VersionByteHashTx = push_bit 3 19"
definition VersionByteHashX :: byte where "VersionByteHashX = push_bit 3 23"

definition checkValidVersionByte :: "byte \<Rightarrow> unit res" where
  "checkValidVersionByte version =
     (if version \<in> {VersionByteAccountID, VersionByteMuxedAccount, VersionByteSeed, VersionByteHashTx, VersionByteHashX}
      then Inr () else Inl ErrInvalidVersionByte)"

definition strkey_Encode :: "byte \<Rightarrow> byte list \<Rightarrow> string res" where
  "strkey_Encode version src =
     and_then (checkValidVersionByte version) (\<lambda>_.
       let raw = version # src in Inr (base32_EncodeToString (raw @ crc16_Checksum raw)))"

definition decodeString :: "string \<Rightarrow> byte list res" where
  "decodeString src =
     (if length src < 5 then
        Inl (Errorf ''strkey is %d bytes long; minimum valid length is 5'' [AInt (int (length src))])
      else
        let leftoverBits = (length src * 5) mod 8 in
        if 5 \<le> leftoverBits then Inl (NewError ''non-canonical strkey; unused leftover character'')
        else
          let decodedLastChar = decodingTable (last src) in
          if 0 < leftoverBits \<and> decodedLastChar = 0xFF then
            Inl (Wrapped ''base32 decode failed'' (CorruptInputError (int (length src))))
          else if 0 < leftoverBits \<and> decodedLastChar AND drop_bit (4 - leftoverBits) 0x0F \<noteq> 0 then
            Inl (NewError ''non-canonical strkey; unused bits should be set to 0'')
          else map_err (Wrapped ''base32 decode failed'') (base32_Decode src))"

definition strkey_Decode :: "byte \<Rightarrow> string \<Rightarrow> byte list res" where
  "strkey_Decode expected src =
     and_then (checkValidVersionByte expected) (\<lambda>_.
     and_then (decodeString src) (\<lambda>raw.
       if length raw < 3 then Inl (NewError ''decoded string is too short'')
       else
         let version = hd raw; vp = take (length raw - 2) raw;
             payload = tl (take (length raw - 2) raw); checksum = drop (length raw - 2) raw
         in if version \<noteq> expected then Inl ErrInvalidVersionByte
            else and_then (crc16_Validate vp checksum) (\<lambda>_. Inr payload)))"

definition IsValidEd25519PublicKey :: "string \<Rightarrow> bool" where
  "IsValidEd25519PublicKey enc = is_ok (strkey_Decode VersionByteAccountID enc)"

definition IsValidEd25519SecretSeed :: "string \<Rightarrow> bool" where
  "IsValidEd25519SecretSeed enc = is_ok (strkey_Decode VersionByteSeed enc)"

section \<open>Round trips\<close>

lemma drop_bit_mask_4: "lb \<in> {1,2,3,4} \<Longrightarrow> drop_bit (4 - lb) 0x0F = (mask lb :: byte)"
  by (auto simp: mask_eq_exp_minus_1)

lemma decodeString_chars:
  assumes "\<forall>v \<in> set vs. v < 32" "5 \<le> length vs"
  shows "decodeString (map b32_char vs) = Inr bs \<longleftrightarrow> b32_canonical vs \<and> bs = b32_bytes vs"
proof -
  have "base32_Decode (map b32_char vs) = Inr (b32_bytes vs)"
    using assms by (simp add: base32_Decode_def stripNewlines_chars b32_decode_chars)
  moreover have "decodingTable (last (map b32_char vs)) = last vs" "last vs \<noteq> 0xFF"
  proof -
    have "vs \<noteq> []" using assms(2) by auto
    then have "last vs < 32" using assms(1) by simp
    with \<open>vs \<noteq> []\<close> show "decodingTable (last (map b32_char vs)) = last vs" "last vs \<noteq> 0xFF"
      by (auto simp: last_map decodingTable_char)
  qed
  moreover have "length vs * 5 mod 8 = 5 * length vs mod 8" by (simp add: mult.commute)
  moreover have "drop_bit (4 - lb) 0x0F = (mask lb :: byte)" if "0 < lb" "lb < 5" for lb
  proof -
    have "lb \<in> {1, 2, 3, 4}" using that by simp presburger
    then show ?thesis by (rule drop_bit_mask_4)
  qed
  ultimately show ?thesis
    using assms(2) unfolding decodeString_def Let_def b32_canonical_def
    by (cases "5 * length vs mod 8 = 0"; cases "5 * length vs mod 8 < 5") auto
qed

text \<open>A text without line breaks (and without the byte the decoder takes for padding).\<close>

definition plain_text :: "string \<Rightarrow> bool" where
  "plain_text s \<longleftrightarrow> (\<forall>c \<in> set s. c \<noteq> CHR 0x0A \<and> c \<noteq> CHR 0x0D \<and> c \<noteq> CHR 0xFF)"

lemma stripNewlines_plain: "plain_text s \<Longrightarrow> stripNewlines s = s"
  by (auto simp: stripNewlines_def plain_text_def)

lemma decodeString_alphabet:
  assumes "stripNewlines s = s" "\<forall>c \<in> set s. decodingTable c \<noteq> 0xFF" "decodeString s = Inr raw"
  shows "s = base32_EncodeToString raw"
proof -
  let ?vs = "map decodingTable s"
  have "5 \<le> length s" using assms(3) by (auto simp: decodeString_def Let_def split: if_splits)
  have s: "map b32_char ?vs = s" and vs: "\<forall>v \<in> set ?vs. v < 32"
    using b32_char_decodingTable assms(2) by (auto simp: map_idI)
  have "b32_canonical ?vs \<and> raw = b32_bytes ?vs"
    using decodeString_chars [OF vs, of raw] s \<open>5 \<le> length s\<close> assms(3) by simp
  then show ?thesis using b32_vals_bytes [OF vs] s by (simp add: base32_EncodeToString_def)
qed

lemma decodeString_base32: "stripNewlines s = s \<Longrightarrow> decodeString s = Inr raw \<Longrightarrow> b32_decode (length s) s = Inr raw"
  by (auto simp: decodeString_def base32_Decode_def Let_def split: if_splits)

lemma decodeString_plain:
  assumes "plain_text s" "decodeString s = Inr raw"
  shows "s = base32_EncodeToString raw"
  using decodeString_alphabet [OF stripNewlines_plain [OF assms(1)] _ assms(2)] assms(1)
    b32_decode_alphabet [OF decodeString_base32 [OF stripNewlines_plain [OF assms(1)] assms(2)]]
  by (auto simp: plain_text_def)

text \<open>A text on one line; the byte \<open>0xFF\<close> does no harm when the bytes are whole quanta, as those of a key are.\<close>

definition one_line :: "string \<Rightarrow> bool" where
  "one_line s \<longleftrightarrow> CHR 0x0A \<notin> set s \<and> CHR 0x0D \<notin> set s"

lemma stripNewlines_line: "one_line s \<Longrightarrow> stripNewlines s = s"
  by (auto simp: stripNewlines_def one_line_def intro!: filter_True)

lemma decodeString_whole:
  assumes "one_line s" "decodeString s = Inr raw" "length raw mod 5 = 0"
  shows "s = base32_EncodeToString raw"
  using decodeString_alphabet [OF stripNewlines_line [OF assms(1)] _ assms(2)]
    b32_decode_whole [OF decodeString_base32 [OF stripNewlines_line [OF assms(1)] assms(2)] assms(3)] by blast

lemma decodeString_encode: "3 \<le> length raw \<Longrightarrow> decodeString (base32_EncodeToString raw) = Inr raw"
  using decodeString_chars [of "b32_vals raw" raw] b32_vals_less [of _ raw]
  by (auto simp: base32_EncodeToString_def length_b32_vals b32_vals_canonical b32_bytes_vals)

lemma length_crc16_Checksum [simp]: "length (crc16_Checksum bs) = 2"
  by (simp add: crc16_Checksum_def Let_def)

text \<open>
  The decoder inverts the encoder for every version byte it knows and every payload;
  for another version byte both refuse.
\<close>

lemma strkey_roundtrip:
  "and_then (strkey_Encode v bs) (strkey_Decode v) = and_then (checkValidVersionByte v) (\<lambda>_. Inr bs)"
proof (cases "checkValidVersionByte v")
  case (Inr u)
  then show ?thesis
    by (simp add: strkey_Encode_def strkey_Decode_def decodeString_encode crc16_Validate_def Let_def)
qed (simp add: strkey_Encode_def)

lemma strkey_canonical_text:
  assumes "one_line s" "CHR 0xFF \<notin> set s \<or> length bs mod 5 = 2" "strkey_Decode v s = Inr bs"
  shows "strkey_Encode v bs = Inr s"
proof -
  from assms(3) obtain raw where v: "checkValidVersionByte v = Inr ()" and raw: "decodeString s = Inr raw"
    and len: "3 \<le> length raw" and ver: "hd raw = v" 
    and crc: "crc16_Checksum (take (length raw - 2) raw) = drop (length raw - 2) raw"
    and bs: "bs = tl (take (length raw - 2) raw)"
    by (auto simp: strkey_Decode_def and_then_eq_Inr Let_def crc16_Validate_def split: if_splits)
  have "take (length raw - 2) raw \<noteq> []" "hd (take (length raw - 2) raw) = v" using len ver by (auto simp: hd_take)
  then have "v # bs = take (length raw - 2) raw" using bs by (metis list.collapse)
  then have "(v # bs) @ crc16_Checksum (v # bs) = raw" using crc by (metis append_take_drop_id)
  moreover have "s = base32_EncodeToString raw" using assms(2)
  proof
    assume "CHR 0xFF \<notin> set s"
    then have "plain_text s" using assms(1) by (auto simp: plain_text_def one_line_def)
    then show ?thesis by (rule decodeString_plain [OF _ raw])
  next
    assume "length bs mod 5 = 2"
    moreover have "length raw = length bs + 3" using len bs by simp
    ultimately have "length raw mod 5 = 0" by presburger
    then show ?thesis by (rule decodeString_whole [OF assms(1) raw])
  qed
  ultimately show ?thesis using v by (simp add: strkey_Encode_def Let_def)
qed

lemma strkey_canonical: "plain_text s \<Longrightarrow> strkey_Decode v s = Inr bs \<Longrightarrow> strkey_Encode v bs = Inr s"
  by (rule strkey_canonical_text) (auto simp: plain_text_def one_line_def)

lemma strkey_newlines: "strkey_Decode v s = Inr bs \<Longrightarrow> strkey_Decode v (replicate 8 CHR 0x0A @ s) = Inr bs"
proof -
  assume a: "strkey_Decode v s = Inr bs"
  then have l: "5 \<le> length s" by (auto simp: strkey_Decode_def and_then_eq_Inr decodeString_def split: if_splits)
  then have "s \<noteq> []" by auto
  have "(length s + 8) * 5 mod 8 = length s * 5 mod 8" by presburger
  moreover have "stripNewlines (replicate 8 CHR 0x0A @ s) = stripNewlines s" by (simp add: stripNewlines_def)
  moreover have "last (replicate 8 CHR 0x0A @ s) = last s" using \<open>s \<noteq> []\<close> by simp
  ultimately have "decodeString (replicate 8 CHR 0x0A @ s) = Inr raw" if "decodeString s = Inr raw" for raw
    using that l by (auto simp: decodeString_def Let_def base32_Decode_def add.commute split: if_splits)
  moreover obtain raw where "decodeString s = Inr raw" using a by (auto simp: strkey_Decode_def and_then_eq_Inr)
  ultimately have "decodeString (replicate 8 CHR 0x0A @ s) = decodeString s" by simp
  with a show ?thesis by (simp only: strkey_Decode_def)
qed


lemma checkValidVersionByte_simps [simp]: "checkValidVersionByte VersionByteAccountID = Inr ()" "checkValidVersionByte VersionByteSeed = Inr ()"
 "checkValidVersionByte VersionByteMuxedAccount = Inr ()" "VersionByteAccountID \<noteq> VersionByteSeed"
 by (simp_all add: checkValidVersionByte_def VersionByteAccountID_def VersionByteSeed_def VersionByteMuxedAccount_def)

lemma strkey_Decode_version:
  "strkey_Decode v s = Inr bs \<Longrightarrow> checkValidVersionByte w = Inr () \<Longrightarrow> w \<noteq> v \<Longrightarrow> strkey_Decode w s = Inl ErrInvalidVersionByte"
  by (auto simp: strkey_Decode_def and_then_eq_Inr Let_def split: if_splits)

lemma strkey_Encode_inject: "strkey_Encode v a = Inr s \<Longrightarrow> strkey_Encode v b = Inr s \<Longrightarrow> a = b"
  using strkey_roundtrip [of v a] strkey_roundtrip [of v b]
  by (cases "checkValidVersionByte v") (auto simp: strkey_Encode_def)

lemma length_strkey: "strkey_Encode v bs = Inr s \<Longrightarrow> length s = (8 * length bs + 28) div 5"
  by (auto simp: strkey_Encode_def and_then_eq_Inr Let_def base32_EncodeToString_def length_b32_vals)

lemma strkey_Encode_plain: "strkey_Encode v bs = Inr s \<Longrightarrow> plain_text s"
proof -
  have "plain_text (base32_EncodeToString raw)" for raw
    by (simp add: base32_EncodeToString_def plain_text_def b32_char_plain b32_vals_less [of _ raw])
  then show "strkey_Encode v bs = Inr s \<Longrightarrow> plain_text s"
    by (auto simp: strkey_Encode_def and_then_eq_Inr Let_def)
qed

lemma zero_address:
  "strkey_Encode VersionByteAccountID (replicate 32 0) =
    Inr ''GAAAAAAAAAAAAAAAAAAAAAAAAAAAAAAAAAAAAAAAAAAAAAAAAAAAAWHF''"
  by code_simp

end
