(* ===== verification/Keys.thy ===== *)
theory Keys
  imports Strkey
begin

text \<open>
  \<open>keys.go\<close> with the vendored \<open>keypair\<close> package and the account identifiers of
  \<open>xdr\<close>. Seeds and addresses are strings; a key pair is either full (it can sign) or an
  address alone. The primitives of \<open>crypto/ed25519\<close> and the hash are a parameter
  (\<open>go_crypto\<close>) of the definitions that use them.
\<close>

section \<open>Cryptographic primitives\<close>

text \<open>
  \<open>ed_public\<close> gives the public key of a 32-byte seed, \<open>ed_sign\<close> signs a message with
  the key of a seed, \<open>ed_verify\<close> checks a signature against a public key.
\<close>

record go_crypto =
  ed_public :: "byte list \<Rightarrow> byte list"
  ed_sign :: "byte list \<Rightarrow> byte list \<Rightarrow> byte list"
  ed_verify :: "byte list \<Rightarrow> byte list \<Rightarrow> byte list \<Rightarrow> bool"
  sha256 :: "byte list \<Rightarrow> byte list"

text \<open>
  The documented behaviour of the primitives: the sizes of keys, signatures and hashes,
  and that a signature made with a seed verifies under its public key.
\<close>

definition crypto_ok :: "go_crypto \<Rightarrow> bool" where
  "crypto_ok C \<longleftrightarrow>
     (\<forall>seed. length seed = 32 \<longrightarrow> length (ed_public C seed) = 32) \<and>
     (\<forall>seed m. length seed = 32 \<longrightarrow> length (ed_sign C seed m) = 64) \<and>
     (\<forall>seed m. length seed = 32 \<longrightarrow> ed_verify C (ed_public C seed) m (ed_sign C seed m)) \<and>
     (\<forall>m. length (sha256 C m) = 32)"

section \<open>Key pairs (\<open>keypair\<close>)\<close>

datatype KP =
    FromAddress (kp_Address: string) (kp_publicKey: "byte list")
  | Full (kp_Address: string) (kp_Seed: string) (kp_publicKey: "byte list") (kp_privateKey: "byte list")

text \<open>\<open>ed25519.GenerateKey(reader)\<close> reads exactly 32 bytes; the rest is left unread.\<close>

definition ed25519_GenerateKey :: "go_crypto \<Rightarrow> byte list \<Rightarrow> (byte list \<times> byte list) res" where
  "ed25519_GenerateKey C reader =
     (if reader = [] then Inl (NewError ''EOF'')
      else if length reader < 32 then Inl (NewError ''unexpected EOF'')
      else let seed = take 32 reader; pub = ed_public C seed in Inr (pub, seed @ pub))"

definition newFull :: "go_crypto \<Rightarrow> string \<Rightarrow> KP res" where
  "newFull C seed =
     and_then (strkey_Decode VersionByteSeed seed) (\<lambda>rawSeed.
     and_then (ed25519_GenerateKey C rawSeed) (\<lambda>(pub, priv).
     and_then (strkey_Encode VersionByteAccountID pub) (\<lambda>address.
       Inr (Full address seed pub priv))))"

definition newFullFromRawSeed :: "go_crypto \<Rightarrow> byte list \<Rightarrow> KP res" where
  "newFullFromRawSeed C rawSeed =
     and_then (strkey_Encode VersionByteSeed rawSeed) (\<lambda>seed.
     and_then (ed25519_GenerateKey C rawSeed) (\<lambda>(pub, priv).
     and_then (strkey_Encode VersionByteAccountID pub) (\<lambda>address.
       Inr (Full address seed pub priv))))"

definition newFromAddress :: "string \<Rightarrow> KP res" where
  "newFromAddress address =
     and_then (strkey_Decode VersionByteAccountID address) (\<lambda>payload. Inr (FromAddress address payload))"

definition keypair_Parse :: "go_crypto \<Rightarrow> string \<Rightarrow> KP res" where
  "keypair_Parse C addressOrSeed =
     (case newFromAddress addressOrSeed of
        Inr addr \<Rightarrow> Inr addr
      | Inl err \<Rightarrow> if err \<noteq> ErrInvalidVersionByte then Inl err else newFull C addressOrSeed)"

text \<open>\<open>copy(r[:], kp.publicKey[28:])\<close> panics on a shorter key.\<close>

definition kp_Hint :: "KP \<Rightarrow> byte list res" where
  "kp_Hint kp =
     (if length (kp_publicKey kp) < 28 then Inl (Panic ''slice bounds out of range'')
      else Inr (take 4 (drop 28 (kp_publicKey kp) @ replicate 4 0)))"

definition kp_Verify :: "go_crypto \<Rightarrow> KP \<Rightarrow> byte list \<Rightarrow> byte list \<Rightarrow> unit res" where
  "kp_Verify C kp input sig =
     (if length sig \<noteq> 64 then Inl ErrInvalidSignature
      else if length (kp_publicKey kp) \<noteq> 32 then Inl (Panic ''ed25519: bad public key length'')
      else if \<not> ed_verify C (kp_publicKey kp) input sig then Inl ErrInvalidSignature
      else Inr ())"

definition kp_Sign :: "go_crypto \<Rightarrow> KP \<Rightarrow> byte list \<Rightarrow> byte list res" where
  "kp_Sign C kp input =
     (case kp of
        FromAddress _ _ \<Rightarrow> Inl ErrCannotSign
      | Full _ _ _ priv \<Rightarrow> Inr (ed_sign C (take 32 priv) input))"

record DecoratedSignature =
  Hint :: "byte list"
  Signature :: "byte list"

definition kp_SignDecorated :: "go_crypto \<Rightarrow> KP \<Rightarrow> byte list \<Rightarrow> DecoratedSignature res" where
  "kp_SignDecorated C kp input =
     and_then (kp_Sign C kp input) (\<lambda>sig.
     and_then (kp_Hint kp) (\<lambda>hint. Inr \<lparr>Hint = hint, Signature = sig\<rparr>))"

section \<open>Seeds and addresses (\<open>keys.go\<close>)\<close>

text \<open>
  \<open>keypair.Random\<close> reads its 32 bytes from \<open>crypto/rand\<close>: the bytes are the argument.
\<close>

definition NewKeyPair :: "go_crypto \<Rightarrow> byte list \<Rightarrow> KP res" where
  "NewKeyPair C rawSeed = newFullFromRawSeed C rawSeed"

type_synonym SeedStr = string
type_synonym AddressStr = string

definition NewSeedStr :: "go_crypto \<Rightarrow> string \<Rightarrow> SeedStr res" where
  "NewSeedStr C s =
     and_then (keypair_Parse C s) (\<lambda>kp.
       case kp of Full _ _ _ _ \<Rightarrow> Inr s | FromAddress _ _ \<Rightarrow> Inl ErrAddressNotSeed)"

definition SeedStr_String :: "SeedStr \<Rightarrow> string" where
  "SeedStr_String s = ''DONOTLOGDONOTLOGDONOTLOGDONOTLOGDONOTLOGDONOTLOGDONOTLOG''"

definition SecureNoLogString :: "SeedStr \<Rightarrow> string" where
  "SecureNoLogString s = s"

definition SeedStr_Address :: "go_crypto \<Rightarrow> SeedStr \<Rightarrow> AddressStr res" where
  "SeedStr_Address C s = and_then (keypair_Parse C (SecureNoLogString s)) (\<lambda>kp. Inr (kp_Address kp))"

definition NewAddressStr :: "go_crypto \<Rightarrow> string \<Rightarrow> AddressStr res" where
  "NewAddressStr C s =
     and_then (keypair_Parse C s) (\<lambda>kp.
       case kp of FromAddress _ _ \<Rightarrow> Inr s | Full _ _ _ _ \<Rightarrow> Inl ErrSeedNotAddress)"

section \<open>Account identifiers (\<open>xdr\<close>)\<close>

datatype AccountId = AccountId (accountId_Ed25519: "byte list")

definition AccountId_Address :: "AccountId \<Rightarrow> string res" where
  "AccountId_Address aid = strkey_Encode VersionByteAccountID (accountId_Ed25519 aid)"

definition AccountId_SetAddress :: "string \<Rightarrow> AccountId res" where
  "AccountId_SetAddress address =
     and_then (strkey_Decode VersionByteAccountID address) (\<lambda>raw.
       if length raw \<noteq> 32 then Inl (NewError ''invalid address'') else Inr (AccountId raw))"

datatype MuxedAccount =
    KeyTypeEd25519 (muxed_Ed25519: "byte list")
  | KeyTypeMuxedEd25519 (muxed_Id: uint64) (muxed_Ed25519: "byte list")

text \<open>\<open>Uint64\<close> in XDR is eight bytes, the most significant first.\<close>

definition be_uint64 :: "byte list \<Rightarrow> uint64" where
  "be_uint64 bs = foldl (\<lambda>n b. push_bit 8 n OR ucast b) 0 bs"

definition uint64_be :: "uint64 \<Rightarrow> byte list" where
  "uint64_be n = map (\<lambda>i. ucast (drop_bit (8 * (7 - i)) n)) [0..<8]"

definition MuxedAccount_SetAddress :: "string \<Rightarrow> MuxedAccount res" where
  "MuxedAccount_SetAddress address =
     (if length address = 56 then
        and_then (strkey_Decode VersionByteAccountID address) (\<lambda>raw.
          if length raw \<noteq> 32 then Inl (Errorf ''invalid binary length: %d'' [AInt (int (length raw))])
          else Inr (KeyTypeEd25519 raw))
      else if length address = 69 then
        and_then (strkey_Decode VersionByteMuxedAccount address) (\<lambda>raw.
          if length raw \<noteq> 40 then Inl (Errorf ''invalid binary length: %d'' [AInt (int (length raw))])
          else Inr (KeyTypeMuxedEd25519 (be_uint64 (drop 32 raw)) (take 32 raw)))
      else Inl (NewError ''invalid address length''))"

definition MuxedAccount_Address :: "MuxedAccount \<Rightarrow> string res" where
  "MuxedAccount_Address m =
     (case m of
        KeyTypeEd25519 ed \<Rightarrow> strkey_Encode VersionByteAccountID ed
      | KeyTypeMuxedEd25519 i ed \<Rightarrow> strkey_Encode VersionByteMuxedAccount (ed @ uint64_be i))"

definition AddressStr_AccountID :: "AddressStr \<Rightarrow> AccountId res" where
  "AddressStr_AccountID s = AccountId_SetAddress s"

definition AddressStr_MuxedAccount :: "AddressStr \<Rightarrow> MuxedAccount res" where
  "AddressStr_MuxedAccount s = MuxedAccount_SetAddress s"

section \<open>Parsing\<close>

lemma version_bytes_distinct [simp]: "VersionByteSeed \<noteq> VersionByteAccountID"
  by (simp add: VersionByteAccountID_def VersionByteSeed_def)

lemma newFromAddress_eq_Inr:
  "newFromAddress s = Inr kp \<longleftrightarrow> (\<exists>raw. strkey_Decode VersionByteAccountID s = Inr raw \<and> kp = FromAddress s raw)"
  by (auto simp: newFromAddress_def and_then_eq_Inr)

lemma newFromAddress_eq_Inl: "newFromAddress s = Inl e \<longleftrightarrow> strkey_Decode VersionByteAccountID s = Inl e"
  by (auto simp: newFromAddress_def and_then_eq_Inl)

lemma ed25519_GenerateKey_eq_Inr:
  "ed25519_GenerateKey C r = Inr (pub, priv) \<longleftrightarrow>
     32 \<le> length r \<and> pub = ed_public C (take 32 r) \<and> priv = take 32 r @ ed_public C (take 32 r)"
  by (auto simp: ed25519_GenerateKey_def Let_def)

lemma strkey_Encode_AccountID: "strkey_Encode VersionByteAccountID bs =
    Inr (base32_EncodeToString ((VersionByteAccountID # bs) @ crc16_Checksum (VersionByteAccountID # bs)))"
  by (simp add: strkey_Encode_def Let_def)

text \<open>The address of a public key, which is always defined.\<close>

definition address_of :: "byte list \<Rightarrow> string" where
  "address_of pub = base32_EncodeToString ((VersionByteAccountID # pub) @ crc16_Checksum (VersionByteAccountID # pub))"

lemma strkey_Encode_address_of [simp]: "strkey_Encode VersionByteAccountID pub = Inr (address_of pub)"
  by (simp only: strkey_Encode_AccountID address_of_def)

lemma strkey_Decode_address_of [simp]: "strkey_Decode VersionByteAccountID (address_of pub) = Inr pub"
  using strkey_roundtrip [of VersionByteAccountID pub] by simp

lemma length_address_of: "length (address_of pub) = (8 * length pub + 28) div 5"
  by (rule length_strkey [OF strkey_Encode_address_of])

lemma plain_address_of [simp]: "plain_text (address_of pub)"
  by (rule strkey_Encode_plain [OF strkey_Encode_address_of])

lemma address_of_inject [simp]: "address_of a = address_of b \<longleftrightarrow> a = b"
  by (metis strkey_Decode_address_of sum.inject(2))

lemma newFull_eq_Inr:
  "newFull C s = Inr kp \<longleftrightarrow>
     (\<exists>raw. strkey_Decode VersionByteSeed s = Inr raw \<and> 32 \<le> length raw \<and>
        kp = Full (address_of (ed_public C (take 32 raw))) s (ed_public C (take 32 raw))
               (take 32 raw @ ed_public C (take 32 raw)))"
  by (auto simp: newFull_def and_then_eq_Inr ed25519_GenerateKey_eq_Inr)

lemma keypair_Parse_eq_Inr:
  "keypair_Parse C s = Inr kp \<longleftrightarrow>
     (\<exists>raw. strkey_Decode VersionByteAccountID s = Inr raw \<and> kp = FromAddress s raw) \<or>
     (\<exists>raw. strkey_Decode VersionByteSeed s = Inr raw \<and> 32 \<le> length raw \<and>
        kp = Full (address_of (ed_public C (take 32 raw))) s (ed_public C (take 32 raw))
               (take 32 raw @ ed_public C (take 32 raw)))"
proof (cases "newFromAddress s")
  case (Inl e)
  have "strkey_Decode VersionByteAccountID s = Inl ErrInvalidVersionByte"
    if "strkey_Decode VersionByteSeed s = Inr raw" for raw
    using strkey_Decode_version [OF that, of VersionByteAccountID] by simp
  with Inl newFromAddress_eq_Inl [THEN iffD1, OF Inl] show ?thesis
    by (auto simp: keypair_Parse_def newFull_eq_Inr)
next
  case (Inr a)
  then obtain raw where r: "strkey_Decode VersionByteAccountID s = Inr raw" by (auto simp: newFromAddress_eq_Inr)
  have "strkey_Decode VersionByteSeed s = Inl ErrInvalidVersionByte"
    using strkey_Decode_version [OF r, of VersionByteSeed] by simp
  with r show ?thesis by (auto simp: keypair_Parse_def newFromAddress_def)
qed

lemma NewAddressStr_eq_Inr:
  "NewAddressStr C s = Inr a \<longleftrightarrow> a = s \<and> (\<exists>raw. strkey_Decode VersionByteAccountID s = Inr raw)"
proof (cases "strkey_Decode VersionByteAccountID s")
  case (Inl e)
  then show ?thesis by (auto simp: NewAddressStr_def and_then_eq_Inr keypair_Parse_eq_Inr)
next
  case (Inr raw)
  then have "keypair_Parse C s = Inr (FromAddress s raw)" by (simp add: keypair_Parse_eq_Inr)
  with Inr show ?thesis by (auto simp: NewAddressStr_def)
qed

lemma NewSeedStr_eq_Inr:
  "NewSeedStr C s = Inr sd \<longleftrightarrow> sd = s \<and> (\<exists>raw. strkey_Decode VersionByteSeed s = Inr raw \<and> 32 \<le> length raw)"
proof (cases "strkey_Decode VersionByteSeed s")
  case (Inl e)
  then show ?thesis by (auto simp: NewSeedStr_def and_then_eq_Inr keypair_Parse_eq_Inr)
next
  case (Inr raw)
  then have "strkey_Decode VersionByteAccountID s = Inl ErrInvalidVersionByte"
    using strkey_Decode_version [OF Inr, of VersionByteAccountID] by simp
  with Inr show ?thesis by (auto simp: NewSeedStr_def and_then_eq_Inr keypair_Parse_eq_Inr)
qed

lemma AccountId_SetAddress_eq_Inr:
  "AccountId_SetAddress s = Inr aid \<longleftrightarrow>
     (\<exists>raw. strkey_Decode VersionByteAccountID s = Inr raw \<and> length raw = 32 \<and> aid = AccountId raw)"
  by (auto simp: AccountId_SetAddress_def and_then_eq_Inr)

lemma MuxedAccount_SetAddress_56:
  "length s = 56 \<Longrightarrow> MuxedAccount_SetAddress s = Inr m \<longleftrightarrow>
     (\<exists>raw. strkey_Decode VersionByteAccountID s = Inr raw \<and> length raw = 32 \<and> m = KeyTypeEd25519 raw)"
  by (auto simp: MuxedAccount_SetAddress_def and_then_eq_Inr)

section \<open>Signing with a seed\<close>

text \<open>
  What the transaction builder and the URI signer rely on: a signature made with a seed
  carries the hint of the seed's address and verifies under it, provided the primitives
  do what they document.
\<close>

locale signing_keys =
  fixes ok :: "'c \<Rightarrow> bool"
    and parse :: "'c \<Rightarrow> string \<Rightarrow> 'k res"
    and address :: "'k \<Rightarrow> string"
    and sign_decorated :: "'c \<Rightarrow> 'k \<Rightarrow> byte list \<Rightarrow> DecoratedSignature res"
    and hint :: "'k \<Rightarrow> byte list res"
    and check :: "'c \<Rightarrow> 'k \<Rightarrow> byte list \<Rightarrow> byte list \<Rightarrow> unit res"
  assumes address_parses:
      "ok c \<Longrightarrow> parse c s = Inr k \<Longrightarrow> sign_decorated c k m = Inr d \<Longrightarrow> is_ok (parse c (address k))"
    and signed_hint:
      "ok c \<Longrightarrow> parse c s = Inr k \<Longrightarrow> sign_decorated c k m = Inr d \<Longrightarrow> parse c (address k) = Inr v \<Longrightarrow>
        hint v = Inr (Hint d)"
    and signed_check:
      "ok c \<Longrightarrow> parse c s = Inr k \<Longrightarrow> sign_decorated c k m = Inr d \<Longrightarrow> parse c (address k) = Inr v \<Longrightarrow>
        check c v m (Signature d) = Inr ()"
begin

lemma signature_accepted:
  assumes "ok c" "parse c s = Inr k" "sign_decorated c k m = Inr d"
  shows "\<exists>v. parse c (address k) = Inr v \<and> hint v = Inr (Hint d) \<and> check c v m (Signature d) = Inr ()"
proof -
  obtain v where "parse c (address k) = Inr v" using address_parses [OF assms] by (auto simp: is_ok_iff)
  with assms signed_hint signed_check show ?thesis by blast
qed

end

lemma kp_SignDecorated_eq_Inr:
  assumes "crypto_ok C" "keypair_Parse C s = Inr kp"
  shows "kp_SignDecorated C kp m = Inr d \<longleftrightarrow>
    (\<exists>raw. strkey_Decode VersionByteSeed s = Inr raw \<and> 32 \<le> length raw \<and>
       kp = Full (address_of (ed_public C (take 32 raw))) s (ed_public C (take 32 raw))
              (take 32 raw @ ed_public C (take 32 raw)) \<and>
       d = \<lparr>Hint = drop 28 (ed_public C (take 32 raw)), Signature = ed_sign C (take 32 raw) m\<rparr>)"
proof -
  from assms(2) [unfolded keypair_Parse_eq_Inr] consider
    (addr) raw where "kp = FromAddress s raw"
  | (full) raw where "strkey_Decode VersionByteSeed s = Inr raw" "32 \<le> length raw"
      "kp = Full (address_of (ed_public C (take 32 raw))) s (ed_public C (take 32 raw))
              (take 32 raw @ ed_public C (take 32 raw))"
    by blast
  then show ?thesis
  proof cases
    case full
    have "length (ed_public C (take 32 raw)) = 32" using assms(1) full(2) by (simp add: crypto_ok_def)
    then have "kp_SignDecorated C kp m =
        Inr \<lparr>Hint = drop 28 (ed_public C (take 32 raw)), Signature = ed_sign C (take 32 raw) m\<rparr>"
      using full(2) by (simp add: full(3) kp_SignDecorated_def kp_Sign_def kp_Hint_def)
    with full show ?thesis by auto
  qed (simp add: kp_SignDecorated_def kp_Sign_def)
qed

interpretation keypairs: signing_keys crypto_ok keypair_Parse kp_Address kp_SignDecorated kp_Hint kp_Verify
proof unfold_locales
  fix C s kp m d
  assume "crypto_ok C" "keypair_Parse C s = Inr kp" "kp_SignDecorated C kp m = Inr d"
  then obtain raw where r: "32 \<le> length raw" "kp_Address kp = address_of (ed_public C (take 32 raw))"
    "d = \<lparr>Hint = drop 28 (ed_public C (take 32 raw)), Signature = ed_sign C (take 32 raw) m\<rparr>"
    by (auto simp: kp_SignDecorated_eq_Inr)
  have p: "keypair_Parse C (kp_Address kp) = Inr (FromAddress (kp_Address kp) (ed_public C (take 32 raw)))"
    using r(2) by (simp add: keypair_Parse_eq_Inr)
  then show "is_ok (keypair_Parse C (kp_Address kp))" by simp
  show "kp_Hint v = Inr (Hint d)" "kp_Verify C v m (Signature d) = Inr ()" if "keypair_Parse C (kp_Address kp) = Inr v" for v
    using that p r \<open>crypto_ok C\<close> by (auto simp: kp_Hint_def kp_Verify_def crypto_ok_def)
qed

text \<open>Primitives with the sizes of the real ones, on which hypotheses are discharged.\<close>

definition plain_crypto :: go_crypto where
  "plain_crypto = \<lparr>
     ed_public = (\<lambda>seed. map NOT seed),
     ed_sign = (\<lambda>seed m. seed @ seed),
     ed_verify = (\<lambda>pub m sig. sig = map NOT pub @ map NOT pub),
     sha256 = (\<lambda>m. replicate 32 (word_of_nat (length m)))\<rparr>"

lemma zero_seed:
  "strkey_Decode VersionByteSeed ''SAAAAAAAAAAAAAAAAAAAAAAAAAAAAAAAAAAAAAAAAAAAAAAAAAAABSU2'' = Inr (replicate 32 0)"
proof -
  have "strkey_Encode VersionByteSeed (replicate 32 0) = Inr ''SAAAAAAAAAAAAAAAAAAAAAAAAAAAAAAAAAAAAAAAAAAAAAAAAAAABSU2''"
    by code_simp
  then show ?thesis using strkey_roundtrip [of VersionByteSeed "replicate 32 0"] by simp
qed

lemma zero_address_decodes:
  "strkey_Decode VersionByteAccountID ''GAAAAAAAAAAAAAAAAAAAAAAAAAAAAAAAAAAAAAAAAAAAAAAAAAAAAWHF'' = Inr (replicate 32 0)"
  using strkey_roundtrip [of VersionByteAccountID "replicate 32 0"] unfolding zero_address by simp

lemma plain_crypto_ok: "crypto_ok plain_crypto"
  by (simp add: crypto_ok_def plain_crypto_def map_idI)

section \<open>Properties\<close>

text \<open>
  C13. \<open>strkey\<close> decoding inverts encoding for every version byte it knows and every
  payload; for any other version byte the encoder refuses.
\<close>

theorem strkey_Decode_Encode:
  "and_then (strkey_Encode v bs) (strkey_Decode v) = and_then (checkValidVersionByte v) (\<lambda>_. Inr bs)"
  by (rule strkey_roundtrip)

text \<open>
  C22. A key text on one line is the only one of its payload: what \<open>Decode\<close> accepts is what
  \<open>Encode\<close> writes. This holds for every payload of 32 bytes, as keys have; for a payload whose
  length leaves a last quantum to fill (\<open>length bs mod 5 \<noteq> 2\<close>), when the text is also free of the
  byte \<open>0xFF\<close>, which the decoder of Go takes for padding there.
\<close>

theorem strkey_Encode_Decode:
  assumes "CHR 0x0A \<notin> set s" and "CHR 0x0D \<notin> set s" and "CHR 0xFF \<notin> set s \<or> length bs mod 5 = 2"
    and "strkey_Decode v s = Inr bs"
  shows "strkey_Encode v bs = Inr s"
  using strkey_canonical_text [OF _ assms(3,4)] assms(1,2) by (simp add: one_line_def)

theorem strkey_Encode_Decode_witness:
  "strkey_Encode VersionByteAccountID (replicate 32 0) =
    Inr ''GAAAAAAAAAAAAAAAAAAAAAAAAAAAAAAAAAAAAAAAAAAAAAAAAAAAAWHF''"
proof (rule strkey_Encode_Decode)
  show "CHR 0x0A \<notin> set ''GAAAAAAAAAAAAAAAAAAAAAAAAAAAAAAAAAAAAAAAAAAAAAAAAAAAAWHF''" by simp
  show "CHR 0x0D \<notin> set ''GAAAAAAAAAAAAAAAAAAAAAAAAAAAAAAAAAAAAAAAAAAAAAAAAAAAAWHF''" by simp
  show "CHR 0xFF \<notin> set ''GAAAAAAAAAAAAAAAAAAAAAAAAAAAAAAAAAAAAAAAAAAAAAAAAAAAAWHF'' \<or> length (replicate 32 (0 :: byte)) mod 5 = 2"
    by simp
  show "strkey_Decode VersionByteAccountID ''GAAAAAAAAAAAAAAAAAAAAAAAAAAAAAAAAAAAAAAAAAAAAAAAAAAAAWHF'' =
      Inr (replicate 32 0)"
    by (rule zero_address_decodes)
qed

text \<open>
  C23. No text is both a seed and an address, \<open>NewAddressStr\<close> accepts exactly the texts
  that decode as an account address, and \<open>NewSeedStr\<close> exactly those that decode as a
  seed of at least 32 bytes; both return the text unchanged.
\<close>

theorem seeds_and_addresses_disjoint:
  "(NewAddressStr C s = Inr a \<longleftrightarrow> a = s \<and> IsValidEd25519PublicKey s) \<and>
   (NewSeedStr C s = Inr sd \<longleftrightarrow> sd = s \<and> (\<exists>raw. strkey_Decode VersionByteSeed s = Inr raw \<and> 32 \<le> length raw)) \<and>
   \<not> (is_ok (NewAddressStr C s) \<and> is_ok (NewSeedStr C s))"
proof -
  have "strkey_Decode VersionByteSeed s = Inl ErrInvalidVersionByte" if "strkey_Decode VersionByteAccountID s = Inr r" for r
    using strkey_Decode_version [OF that, of VersionByteSeed] by simp
  then show ?thesis
    by (auto simp: NewAddressStr_eq_Inr NewSeedStr_eq_Inr IsValidEd25519PublicKey_def is_ok_iff)
qed

text \<open>
  The address of an accepted seed is itself an accepted address; it converts to the
  account identifier and to the unmultiplexed account of the seed's public key, and the
  identifier prints as that address again.
\<close>

theorem seed_address_usable:
  assumes "crypto_ok C" and "NewSeedStr C s = Inr sd"
  shows "\<exists>a pub. SeedStr_Address C sd = Inr a \<and> NewAddressStr C a = Inr a \<and>
    AddressStr_AccountID a = Inr (AccountId pub) \<and> AddressStr_MuxedAccount a = Inr (KeyTypeEd25519 pub) \<and>
    AccountId_Address (AccountId pub) = Inr a"
proof -
  from assms(2) obtain raw where raw: "sd = s" "strkey_Decode VersionByteSeed s = Inr raw" "32 \<le> length raw"
    by (auto simp: NewSeedStr_eq_Inr)
  let ?pub = "ed_public C (take 32 raw)"
  have l: "length ?pub = 32" using assms(1) raw(3) by (simp add: crypto_ok_def)
  have "length (address_of ?pub) = 56" by (simp add: length_address_of l)
  then have "AddressStr_MuxedAccount (address_of ?pub) = Inr (KeyTypeEd25519 ?pub)"
    by (simp add: AddressStr_MuxedAccount_def MuxedAccount_SetAddress_56 l)
  moreover have "SeedStr_Address C sd = Inr (address_of ?pub)"
    using raw by (auto simp: SeedStr_Address_def SecureNoLogString_def and_then_eq_Inr keypair_Parse_eq_Inr)
  ultimately show ?thesis
    by (auto simp: NewAddressStr_eq_Inr AddressStr_AccountID_def AccountId_SetAddress_eq_Inr AccountId_Address_def l)
qed

theorem seed_address_usable_witness:
  "\<exists>a. SeedStr_Address plain_crypto ''SAAAAAAAAAAAAAAAAAAAAAAAAAAAAAAAAAAAAAAAAAAAAAAAAAAABSU2'' = Inr a \<and>
     NewAddressStr plain_crypto a = Inr a"
proof -
  have "NewSeedStr plain_crypto ''SAAAAAAAAAAAAAAAAAAAAAAAAAAAAAAAAAAAAAAAAAAAAAAAAAAABSU2'' =
      Inr ''SAAAAAAAAAAAAAAAAAAAAAAAAAAAAAAAAAAAAAAAAAAAAAAAAAAABSU2''"
    by (simp only: NewSeedStr_eq_Inr zero_seed) simp
  from seed_address_usable [OF plain_crypto_ok this] show ?thesis by blast
qed

text \<open>
  A signature made with a seed carries the hint of the seed's address and verifies
  under that address.
\<close>

theorem signature_of_seed_verifies:
  assumes "crypto_ok C" and "keypair_Parse C s = Inr kp" and "kp_SignDecorated C kp m = Inr d"
  shows "\<exists>v. keypair_Parse C (kp_Address kp) = Inr v \<and> kp_Hint v = Inr (Hint d) \<and> kp_Verify C v m (Signature d) = Inr ()"
  using assms by (rule keypairs.signature_accepted)

theorem signature_of_seed_verifies_witness:
  "\<exists>kp d v. keypair_Parse plain_crypto ''SAAAAAAAAAAAAAAAAAAAAAAAAAAAAAAAAAAAAAAAAAAAAAAAAAAABSU2'' = Inr kp \<and>
     kp_SignDecorated plain_crypto kp [1, 2] = Inr d \<and> keypair_Parse plain_crypto (kp_Address kp) = Inr v \<and>
     kp_Verify plain_crypto v [1, 2] (Signature d) = Inr ()"
proof -
  obtain kp where kp: "keypair_Parse plain_crypto ''SAAAAAAAAAAAAAAAAAAAAAAAAAAAAAAAAAAAAAAAAAAAAAAAAAAABSU2'' = Inr kp"
    "\<exists>d. kp_SignDecorated plain_crypto kp [1, 2] = Inr d"
    using keypair_Parse_eq_Inr [of plain_crypto "''SAAAAAAAAAAAAAAAAAAAAAAAAAAAAAAAAAAAAAAAAAAAAAAAAAAABSU2''"]
      kp_SignDecorated_eq_Inr [OF plain_crypto_ok, of "''SAAAAAAAAAAAAAAAAAAAAAAAAAAAAAAAAAAAAAAAAAAAAAAAAAAABSU2''"]
    unfolding zero_seed by fastforce
  with signature_of_seed_verifies [OF plain_crypto_ok kp(1)] show ?thesis by blast
qed

text \<open>
  The decoder drops line breaks before it checks anything else, so a text that is not
  canonical passes as an address: eight newlines before an address leave it accepted, with
  the same account identifier, while the conversion to a muxed account, which looks at the
  length, refuses it.
\<close>

theorem address_with_newlines:
  "length pub = 32 \<Longrightarrow> let s = replicate 8 CHR 0x0A @ address_of pub in
     NewAddressStr C s = Inr s \<and> AddressStr_AccountID s = Inr (AccountId pub) \<and>
     AddressStr_MuxedAccount s = Inl (NewError ''invalid address length'')"
  using strkey_newlines [OF strkey_Decode_address_of, of pub]
  by (simp add: NewAddressStr_eq_Inr AddressStr_AccountID_def AccountId_SetAddress_eq_Inr
      AddressStr_MuxedAccount_def MuxedAccount_SetAddress_def length_address_of Let_def)

theorem address_with_newlines_witness:
  "NewAddressStr plain_crypto (replicate 8 CHR 0x0A @ address_of (replicate 32 0)) =
    Inr (replicate 8 CHR 0x0A @ address_of (replicate 32 0))"
  using address_with_newlines [of "replicate 32 0" plain_crypto] by (simp add: Let_def)

end
