(* ===== verification/Go_Rat.thy ===== *)
theory Go_Rat
  imports Go_Text
begin

text \<open>
  The part of Go's \<open>math/big\<close> rationals the program uses: \<open>Rat.SetString\<close> on decimal
  notation and \<open>Rat.FloatString\<close>. A \<open>*big.Rat\<close> is a rational number, which HOL also keeps
  in lowest terms with a positive denominator (\<open>quotient_of\<close>).
\<close>

section \<open>Reading\<close>

text \<open>
  \<open>SetString\<close> on an optional sign, digits and at most one point with at least one digit;
  every caller checks with a regular expression first that no exponent, fraction bar, base
  prefix or underscore occurs, and on such input anything else is not a number.
\<close>

definition rat_SetString :: "string \<Rightarrow> rat option" where
  "rat_SetString s =
     (let (neg, t) = split_sign s; a = takeWhile is_digit t; r = dropWhile is_digit t in
      case r of
        [] \<Rightarrow> if a = [] then None
              else Some (if neg then - of_nat (digits_val a) else of_nat (digits_val a))
      | c # b \<Rightarrow>
          if c = CHR ''.'' \<and> list_all is_digit b \<and> (a \<noteq> [] \<or> b \<noteq> [])
          then Some (if neg then - (of_nat (digits_val (a @ b)) / 10 ^ length b)
                     else of_nat (digits_val (a @ b)) / 10 ^ length b)
          else None)"

lemma takeWhile_digits_append:
  "list_all is_digit a \<Longrightarrow> \<not> is_digit c \<Longrightarrow>
     takeWhile is_digit (a @ c # b) = a \<and> dropWhile is_digit (a @ c # b) = c # b"
  by (induction a) auto

lemma takeWhile_digits: "list_all is_digit a \<Longrightarrow> takeWhile is_digit a = a \<and> dropWhile is_digit a = []"
  by (induction a) auto

lemmas rat_SetString_eval [go_defs] = rat_SetString_def split_sign_def Let_def

section \<open>Printing\<close>

definition pad_zeros :: "nat \<Rightarrow> string \<Rightarrow> string" where
  "pad_zeros n s = replicate (n - length s) CHR ''0'' @ s"

text \<open>
  \<open>x.FloatString(prec)\<close>: an integer prints its digits and \<open>prec\<close> zeros; otherwise the
  magnitude is divided out, the fraction scaled by \<open>10 ^ prec\<close> and rounded half up, with
  the carry into the integral part.
\<close>

definition FloatString :: "nat \<Rightarrow> rat \<Rightarrow> string" where
  "FloatString prec x =
     (let (n, d) = quotient_of x; a = nat \<bar>n\<bar>; b = nat d; neg = (n < 0) in
      if d = 1
      then show_int n @ (if 0 < prec then CHR ''.'' # replicate prec CHR ''0'' else [])
      else
        let q = a div b; r = a mod b; p = (if 0 < prec then 10 ^ prec else 1);
            r1 = r * p div b; r2 = 2 * (r * p mod b);
            (q', r') = (if b \<le> r2 then (if p \<le> r1 + 1 then (q + 1, r1 + 1 - p) else (q, r1 + 1))
                        else (q, r1))
        in (if neg then ''-'' else []) @ show_nat q' @
           (if 0 < prec then CHR ''.'' # pad_zeros prec (show_nat r') else []))"

declare pad_zeros_def [go_defs]

text \<open>The decimal text of \<open>N / 10 ^ prec\<close>, and rounding half away from zero.\<close>

definition fixed_text :: "bool \<Rightarrow> nat \<Rightarrow> nat \<Rightarrow> string" where
  "fixed_text neg prec N =
     (if neg then ''-'' else []) @ show_nat (N div 10 ^ prec) @ CHR ''.'' # pad_zeros prec (show_nat (N mod 10 ^ prec))"

definition round_half_up :: "nat \<Rightarrow> nat \<Rightarrow> nat" where
  "round_half_up a b = (2 * a + b) div (2 * b)"

lemma round_half_up_add:
  assumes "0 < b"
  shows "round_half_up (k * b + a) b = k + round_half_up a b"
proof -
  have "2 * (k * b + a) + b = (2 * a + b) + k * (2 * b)" by (simp add: algebra_simps)
  moreover have "((2 * a + b) + k * (2 * b)) div (2 * b) = k + (2 * a + b) div (2 * b)"
    using assms by (intro div_mult_self1) simp
  ultimately show ?thesis unfolding round_half_up_def by (simp only:)
qed

lemma round_half_up_exact:
  assumes "0 < b"
  shows "round_half_up (k * b) b = k"
proof -
  have "round_half_up 0 b = 0" using assms by (simp add: round_half_up_def)
  then show ?thesis using round_half_up_add [OF assms, of k 0] by simp
qed

lemma round_half_up_div:
  assumes "0 < b"
  shows "round_half_up a b = (if b \<le> 2 * (a mod b) then a div b + 1 else a div b)"
proof -
  have "round_half_up a b = a div b + round_half_up (a mod b) b"
    using round_half_up_add [OF assms, of "a div b" "a mod b"] by simp
  moreover have "round_half_up (a mod b) b = (if b \<le> 2 * (a mod b) then 1 else 0)"
  proof -
    have "a mod b < b" using assms by simp
    then show ?thesis
      by (auto simp: round_half_up_def div_eq_0_iff intro!: div_nat_eqI)
  qed
  ultimately show ?thesis by simp
qed

lemma round_half_up_bounds:
  assumes "0 < b"
  shows "2 * round_half_up a b * b \<le> 2 * a + b" and "2 * a < 2 * round_half_up a b * b + b"
proof -
  have "(2 * a + b) div (2 * b) * (2 * b) \<le> 2 * a + b" by (rule div_times_less_eq_dividend)
  then show "2 * round_half_up a b * b \<le> 2 * a + b" by (simp add: round_half_up_def algebra_simps)
  have "2 * a + b < ((2 * a + b) div (2 * b) + 1) * (2 * b)"
    using assms dividend_less_div_times [of "2 * b" "2 * a + b"] by (simp add: algebra_simps)
  then show "2 * a < 2 * round_half_up a b * b + b" by (simp add: round_half_up_def algebra_simps)
qed

lemma length_pad_zeros: "length s \<le> n \<Longrightarrow> length (pad_zeros n s) = n"
  by (simp add: pad_zeros_def)

lemma digits_val_pad_zeros [simp]: "digits_val (pad_zeros n s) = digits_val s"
  by (simp add: pad_zeros_def digits_val_append)

lemma list_all_pad_zeros [simp]: "list_all is_digit (pad_zeros n s) = list_all is_digit s"
  by (auto simp: pad_zeros_def list_all_iff is_digit_iff)

lemma pad_zeros_zero: "0 < n \<Longrightarrow> pad_zeros n (show_nat 0) = replicate n CHR ''0''"
proof -
  have "show_nat 0 = ''0''" by code_simp
  moreover assume "0 < n"
  ultimately show ?thesis by (cases n) (simp_all add: pad_zeros_def replicate_append_same)
qed

text \<open>\<open>FloatString\<close> prints the nearest multiple of \<open>10 ^ -prec\<close>, ties away from zero.\<close>

lemma FloatString_eq:
  assumes prec: "0 < prec" and q: "quotient_of x = (n, d)"
  shows "FloatString prec x = fixed_text (n < 0) prec (round_half_up (nat \<bar>n\<bar> * 10 ^ prec) (nat d))"
proof -
  define a b where "a = nat \<bar>n\<bar>" and "b = nat d"
  have d: "0 < d" using quotient_of_denom_pos [OF q] .
  then have b: "0 < b" by (simp add: b_def)
  let ?p = "10 ^ prec :: nat"
  let ?r = "a mod b * ?p"
  have N: "round_half_up (a * ?p) b = a div b * ?p + round_half_up ?r b"
  proof -
    have "a * ?p = a div b * ?p * b + ?r"
      by (metis add_mult_distrib div_mult_mod_eq mult.assoc mult.commute)
    then show ?thesis using round_half_up_add [OF b, of "a div b * ?p" ?r] by simp
  qed
  show ?thesis
  proof (cases "d = 1")
    case True
    then have "round_half_up (a * ?p) b = a * ?p"
      using round_half_up_exact [of 1 "a * ?p"] by (simp add: b_def)
    with True prec show ?thesis
      by (auto simp: FloatString_def q fixed_text_def a_def b_def pad_zeros_zero show_int_def)
  next
    case False
    have le: "round_half_up ?r b \<le> ?p"
    proof -
      have "a mod b \<le> b" using b by (simp add: less_imp_le)
      then have "?r \<le> ?p * b" by (metis mult.commute mult_le_mono1)
      then have "(2 * ?r + b) div (2 * b) \<le> (2 * (?p * b) + b) div (2 * b)"
        by (intro div_le_mono) simp
      then show ?thesis using round_half_up_exact [OF b, of ?p] by (simp add: round_half_up_def)
    qed
    have r1: "round_half_up ?r b = (if b \<le> 2 * (?r mod b) then ?r div b + 1 else ?r div b)"
      by (rule round_half_up_div [OF b])
    have lt: "?r div b < ?p"
      using b by (simp add: less_mult_imp_div_less mult.commute)
    have unfolded: "FloatString prec x =
        (let (q', r') = (if b \<le> 2 * (?r mod b) then (if ?p \<le> ?r div b + 1 then (a div b + 1, ?r div b + 1 - ?p)
            else (a div b, ?r div b + 1)) else (a div b, ?r div b))
         in (if n < 0 then ''-'' else []) @ show_nat q' @ CHR ''.'' # pad_zeros prec (show_nat r'))"
      using False prec by (simp add: FloatString_def q Let_def a_def b_def)
    have goal: "fixed_text (n < 0) prec (round_half_up (a * ?p) b) =
        (if n < 0 then ''-'' else []) @ show_nat ((a div b * ?p + round_half_up ?r b) div ?p) @
        CHR ''.'' # pad_zeros prec (show_nat ((a div b * ?p + round_half_up ?r b) mod ?p))"
      unfolding N fixed_text_def ..
    show ?thesis
    proof (cases "b \<le> 2 * (?r mod b) \<and> ?p \<le> ?r div b + 1")
      case True
      then have "round_half_up ?r b = ?p" "?r div b + 1 = ?p" using lt r1 by auto
      with True show ?thesis unfolding a_def [symmetric] b_def [symmetric] goal unfolded by simp
    next
      case carry: False
      then have "round_half_up ?r b < ?p" using lt r1 by (auto split: if_splits)
      with carry r1 show ?thesis unfolding a_def [symmetric] b_def [symmetric] goal unfolded by simp
    qed
  qed
qed

section \<open>Printed text read back\<close>

lemma split_sign_fixed_text:
  "split_sign (fixed_text neg prec N) = (neg, fixed_text False prec N)"
proof (cases "show_nat (N div 10 ^ prec)")
  case (Cons c t)
  with show_nat_digits [of "N div 10 ^ prec"] have "is_digit c" by simp
  with Cons show ?thesis
    by (cases neg) (auto simp: fixed_text_def split_sign_def is_digit_iff)
qed simp

lemma rat_SetString_fixed_text:
  assumes "0 < prec"
  shows "rat_SetString (fixed_text neg prec N) =
    Some (if neg then - (of_nat N / 10 ^ prec) else of_nat N / 10 ^ prec)"
proof -
  let ?a = "show_nat (N div 10 ^ prec)" and ?b = "pad_zeros prec (show_nat (N mod 10 ^ prec))"
  have len: "length ?b = prec"
    using assms by (intro length_pad_zeros length_show_nat) simp_all
  have val: "digits_val (?a @ ?b) = N"
    by (simp only: digits_val_append len digits_val_pad_zeros digits_val_show_nat div_mult_mod_eq)
  have parts: "takeWhile is_digit (?a @ CHR ''.'' # ?b) = ?a"
      "dropWhile is_digit (?a @ CHR ''.'' # ?b) = CHR ''.'' # ?b"
    using takeWhile_digits_append [of ?a "CHR ''.''" ?b] by simp_all
  show ?thesis
    unfolding rat_SetString_def split_sign_fixed_text
    by (simp add: fixed_text_def Let_def parts val len)
qed

definition round_rat :: "nat \<Rightarrow> rat \<Rightarrow> rat" where
  "round_rat prec x =
     (let (n, d) = quotient_of x; m = of_nat (round_half_up (nat \<bar>n\<bar> * 10 ^ prec) (nat d)) / 10 ^ prec
      in if n < 0 then - m else m)"

lemma SetString_FloatString:
  "0 < prec \<Longrightarrow> rat_SetString (FloatString prec x) = Some (round_rat prec x)"
  by (cases "quotient_of x") (simp add: FloatString_eq rat_SetString_fixed_text round_rat_def)

lemma quotient_of_abs:
  "quotient_of x = (n, d) \<Longrightarrow> \<bar>x\<bar> = of_nat (nat \<bar>n\<bar>) / of_nat (nat d)"
  using quotient_of_div [of x n d] quotient_of_denom_pos [of x n d] by (simp add: abs_divide)

lemma quotient_of_neg_iff: "quotient_of x = (n, d) \<Longrightarrow> n < 0 \<longleftrightarrow> x < 0"
  using quotient_of_div [of x n d] quotient_of_denom_pos [of x n d]
  by (simp add: divide_less_0_iff)

text \<open>The printed value is within half a unit of the last place, and exact when it can be.\<close>

lemma quotient_close:
  fixes K B A P :: rat
  assumes "0 < B" "0 < P" "2 * K * B \<le> 2 * (A * P) + B" "2 * (A * P) < 2 * K * B + B"
  shows "\<bar>K / P - A / B\<bar> \<le> 1 / (2 * P)"
proof -
  have "K / P \<le> A / B + 1 / (2 * P)" "A / B \<le> K / P + 1 / (2 * P)"
    using assms by (simp_all add: field_simps)
  then show ?thesis by (simp add: abs_le_iff)
qed

lemma round_rat_close: "\<bar>round_rat prec x - x\<bar> \<le> 1 / (2 * 10 ^ prec)"
proof -
  obtain n d where q: "quotient_of x = (n, d)" by (cases "quotient_of x")
  define a b p where "a = nat \<bar>n\<bar>" and "b = nat d" and "p = (10 ^ prec :: nat)"
  have b: "0 < b" using quotient_of_denom_pos [OF q] by (simp add: b_def)
  have p: "0 < p" by (simp add: p_def)
  let ?k = "round_half_up (a * p) b"
  have "2 * ?k * b \<le> 2 * (a * p) + b" and "2 * (a * p) < 2 * ?k * b + b"
    using round_half_up_bounds [OF b, of "a * p"] by simp_all
  then have "rat_of_nat (2 * ?k * b) \<le> of_nat (2 * (a * p) + b)"
    and "rat_of_nat (2 * (a * p)) < of_nat (2 * ?k * b + b)"
    by (simp_all only: of_nat_le_iff of_nat_less_iff)
  then have "\<bar>rat_of_nat ?k / of_nat p - of_nat a / of_nat b\<bar> \<le> 1 / (2 * of_nat p)"
    using b p by (intro quotient_close) simp_all
  moreover have "\<bar>x\<bar> = of_nat a / of_nat b" using quotient_of_abs [OF q] by (simp add: a_def b_def)
  moreover have "x < 0 \<longleftrightarrow> n < 0" using quotient_of_neg_iff [OF q] by simp
  ultimately show ?thesis
    by (auto simp: round_rat_def q a_def b_def p_def abs_if split: if_splits)
qed

lemma round_half_up_of_int:
  assumes x: "x * 10 ^ prec = of_int k" and q: "quotient_of x = (n, d)"
  shows "round_half_up (nat \<bar>n\<bar> * 10 ^ prec) (nat d) = nat \<bar>k\<bar>"
proof -
  define a b where "a = nat \<bar>n\<bar>" and "b = nat d"
  have b: "0 < b" using quotient_of_denom_pos [OF q] by (simp add: b_def)
  have ab: "\<bar>x\<bar> = of_nat a / of_nat b" using quotient_of_abs [OF q] by (simp add: a_def b_def)
  have "\<bar>x\<bar> * 10 ^ prec = of_int \<bar>k\<bar>" using arg_cong [OF x, of abs] by (simp add: abs_mult)
  then have "rat_of_nat (a * 10 ^ prec) = of_nat (nat \<bar>k\<bar> * b)"
    using b by (simp add: ab field_simps)
  then have "a * 10 ^ prec = nat \<bar>k\<bar> * b" using of_nat_eq_iff by blast
  then show ?thesis using round_half_up_exact [OF b, of "nat \<bar>k\<bar>"] by (simp add: a_def b_def)
qed

lemma FloatString_of_int:
  assumes "0 < prec" and x: "x * 10 ^ prec = of_int k"
  shows "FloatString prec x = fixed_text (k < 0) prec (nat \<bar>k\<bar>)"
proof -
  obtain n d where q: "quotient_of x = (n, d)" by (cases "quotient_of x")
  have "k < 0 \<longleftrightarrow> x < 0" using x by (metis mult_less_0_iff of_int_less_0_iff zero_less_numeral zero_less_power less_asym)
  then show ?thesis
    using FloatString_eq [OF \<open>0 < prec\<close> q] round_half_up_of_int [OF x q] quotient_of_neg_iff [OF q] by simp
qed

lemma FloatString_0_of_int: "quotient_of x = (n, 1) \<Longrightarrow> FloatString 0 x = show_int n"
  by (simp add: FloatString_def)

lemma quotient_of_integral: "snd (quotient_of x) = 1 \<longleftrightarrow> (\<exists>n. x = of_int n)"
proof
  assume "snd (quotient_of x) = 1"
  then have "quotient_of x = (fst (quotient_of x), 1)" by (metis prod.collapse)
  then show "\<exists>n. x = of_int n" using quotient_of_div by fastforce
next
  assume "\<exists>n. x = of_int n"
  then show "snd (quotient_of x) = 1" by auto
qed

lemma round_rat_exact:
  assumes "x * 10 ^ prec = of_int k"
  shows "round_rat prec x = x"
proof -
  obtain n d where q: "quotient_of x = (n, d)" by (cases "quotient_of x")
  have "\<bar>x\<bar> * 10 ^ prec = of_int \<bar>k\<bar>" using arg_cong [OF assms, of abs] by (simp add: abs_mult)
  then have "of_nat (nat \<bar>k\<bar>) / 10 ^ prec = \<bar>x\<bar>" by (simp add: field_simps)
  then show ?thesis
    using round_half_up_of_int [OF assms q] quotient_of_neg_iff [OF q] by (auto simp: round_rat_def q)
qed

end
