(* ===== verification/Go_Regexp.thy ===== *)
theory Go_Regexp
  imports Go_Text
begin

text \<open>
  Regular expressions, for the anchored patterns the program compiles with \<open>regexp\<close>: a
  matcher by derivatives, and its agreement with the language of the expression. The
  components write their patterns down as terms of type \<open>rx\<close> and obtain closed
  characterisations from the language.
\<close>

section \<open>Syntax and language\<close>

datatype rx =
    Fail
  | Eps
  | Cls "char \<Rightarrow> bool"
  | Seq rx rx
  | Alt rx rx
  | Star rx

definition Lit :: "char \<Rightarrow> rx" where "Lit c = Cls (\<lambda>d. d = c)"
definition Opt :: "rx \<Rightarrow> rx" where "Opt r = Alt r Eps"
definition Plus :: "rx \<Rightarrow> rx" where "Plus r = Seq r (Star r)"

text \<open>\<open>r{1,n}\<close>\<close>

primrec Repeat1 :: "nat \<Rightarrow> rx \<Rightarrow> rx" where
  "Repeat1 0 r = Fail"
| "Repeat1 (Suc n) r = Seq r (Alt Eps (Repeat1 n r))"

inductive_set star :: "string set \<Rightarrow> string set" for A where
  star_Nil: "[] \<in> star A"
| star_append: "u \<in> A \<Longrightarrow> v \<in> star A \<Longrightarrow> u @ v \<in> star A"

primrec lang :: "rx \<Rightarrow> string set" where
  "lang Fail = {}"
| "lang Eps = {[]}"
| "lang (Cls p) = {[c] | c. p c}"
| "lang (Seq r q) = {u @ v | u v. u \<in> lang r \<and> v \<in> lang q}"
| "lang (Alt r q) = lang r \<union> lang q"
| "lang (Star r) = star (lang r)"

lemma mem_lang_Seq: "s \<in> lang (Seq r q) \<longleftrightarrow> (\<exists>u v. s = u @ v \<and> u \<in> lang r \<and> v \<in> lang q)"
  by simp

section \<open>The matcher\<close>

primrec nullable :: "rx \<Rightarrow> bool" where
  "nullable Fail = False"
| "nullable Eps = True"
| "nullable (Cls p) = False"
| "nullable (Seq r q) = (nullable r \<and> nullable q)"
| "nullable (Alt r q) = (nullable r \<or> nullable q)"
| "nullable (Star r) = True"

primrec deriv :: "char \<Rightarrow> rx \<Rightarrow> rx" where
  "deriv c Fail = Fail"
| "deriv c Eps = Fail"
| "deriv c (Cls p) = (if p c then Eps else Fail)"
| "deriv c (Seq r q) =
     (if nullable r then Alt (Seq (deriv c r) q) (deriv c q) else Seq (deriv c r) q)"
| "deriv c (Alt r q) = Alt (deriv c r) (deriv c q)"
| "deriv c (Star r) = Seq (deriv c r) (Star r)"

text \<open>\<open>regexp.MustCompile("^r$").MatchString(s)\<close>\<close>

primrec MatchString :: "rx \<Rightarrow> string \<Rightarrow> bool" where
  "MatchString r [] = nullable r"
| "MatchString r (c # s) = MatchString (deriv c r) s"

lemma nullable_iff: "nullable r \<longleftrightarrow> [] \<in> lang r"
  by (induction r) (auto intro: star_Nil)

lemma star_Cons_iff: "c # s \<in> star A \<longleftrightarrow> (\<exists>u v. s = u @ v \<and> c # u \<in> A \<and> v \<in> star A)"
proof
  assume "c # s \<in> star A"
  then show "\<exists>u v. s = u @ v \<and> c # u \<in> A \<and> v \<in> star A"
  proof (induction "c # s")
    case (star_append u v)
    then show ?case by (cases u) auto
  qed
next
  assume "\<exists>u v. s = u @ v \<and> c # u \<in> A \<and> v \<in> star A"
  then obtain u v where "s = u @ v" "c # u \<in> A" "v \<in> star A" by blast
  then show "c # s \<in> star A" using star_append [of "c # u" A v] by simp
qed

lemma lang_deriv: "s \<in> lang (deriv c r) \<longleftrightarrow> c # s \<in> lang r"
proof (induction r arbitrary: s)
  case (Seq r q)
  then show ?case by (cases "nullable r") (auto simp: Cons_eq_append_conv nullable_iff)
next
  case (Star r)
  then show ?case by (auto simp: star_Cons_iff)
qed auto

theorem MatchString_iff: "MatchString r s \<longleftrightarrow> s \<in> lang r"
  by (induction s arbitrary: r) (simp_all add: nullable_iff lang_deriv)

declare MatchString.simps [simp del]

section \<open>Languages of the common patterns\<close>

lemma lang_Lit [simp]: "lang (Lit c) = {[c]}"
  by (auto simp: Lit_def)

lemma lang_Opt [simp]: "lang (Opt r) = insert [] (lang r)"
  by (auto simp: Opt_def)

lemma lang_Seq_Opt_Lit:
  "s \<in> lang (Seq (Opt (Lit c)) r) \<longleftrightarrow> s \<in> lang r \<or> (\<exists>t. s = c # t \<and> t \<in> lang r)"
proof -
  have "s = [] @ s" and "\<And>t. c # t = [c] @ t" by simp_all
  then show ?thesis
    unfolding lang.simps(4) lang_Opt lang_Lit mem_Collect_eq insert_iff empty_iff by (metis append_Cons append_Nil)
qed

lemma star_Cls: "star {[c] | c. p c} = {s. list_all p s}"
proof (intro set_eqI iffI)
  fix s assume "s \<in> star {[c] | c. p c}"
  then show "s \<in> {s. list_all p s}" by induction auto
next
  fix s assume "s \<in> {s. list_all p s}"
  then have "list_all p s" by simp
  then show "s \<in> star {[c] | c. p c}"
  proof (induction s)
    case (Cons c s)
    then show ?case using star_append [of "[c]" "{[c] | c. p c}" s] by simp
  qed (simp add: star_Nil)
qed

lemma lang_Star_Cls [simp]: "lang (Star (Cls p)) = {s. list_all p s}"
  by (simp add: star_Cls)

lemma lang_Seq_Cls: "lang (Seq (Cls p) q) = {c # v | c v. p c \<and> v \<in> lang q}"
proof (intro set_eqI iffI)
  fix s assume "s \<in> {c # v | c v. p c \<and> v \<in> lang q}"
  then obtain c v where "s = [c] @ v" "p c" "v \<in> lang q" by auto
  then have "s = [c] @ v \<and> [c] \<in> lang (Cls p) \<and> v \<in> lang q" by simp
  then show "s \<in> lang (Seq (Cls p) q)" unfolding lang.simps(4) by blast
qed auto

lemma lang_Plus_Cls [simp]: "lang (Plus (Cls p)) = {s. s \<noteq> [] \<and> list_all p s}"
proof -
  have "s \<in> lang (Plus (Cls p)) \<longleftrightarrow> s \<noteq> [] \<and> list_all p s" for s
    by (cases s) (simp_all add: Plus_def lang_Seq_Cls star_Cls del: lang.simps(4))
  then show ?thesis by blast
qed

lemma lang_Repeat1_Cls [simp]:
  "lang (Repeat1 n (Cls p)) = {s. s \<noteq> [] \<and> length s \<le> n \<and> list_all p s}"
proof (induction n)
  case (Suc n)
  have "s \<in> lang (Repeat1 (Suc n) (Cls p)) \<longleftrightarrow> s \<noteq> [] \<and> length s \<le> Suc n \<and> list_all p s" for s
    by (cases s) (auto simp: lang_Seq_Cls Suc simp del: lang.simps(4))
  then show ?case by blast
qed simp

end
