(* ===== verification/Amounts.thy ===== *)
theory Amounts
  imports Go_Rat Go_Regexp
begin

text \<open>
  \<open>amounts.go\<close> and the parts of the vendored \<open>stellar/go/amount\<close> it calls: decimal text
  against 64-bit amounts in stroops (\<open>10 ^ -7\<close> of a unit), conversion with an exchange
  rate, comparison, and the 105% bound of path payments.
\<close>

section \<open>The patterns\<close>

definition Digits :: rx where "Digits = Star (Cls is_digit)"
definition Digits1 :: rx where "Digits1 = Plus (Cls is_digit)"
definition Minus :: rx where "Minus = Opt (Lit CHR ''-'')"
definition Point :: rx where "Point = Opt (Lit CHR ''.'')"

text \<open>\<open>^-?((\d+\.?\d*)|(\d*\.?\d+))$\<close>\<close>

definition decimalStrictRE :: rx where
  "decimalStrictRE = Seq Minus (Alt (Seq Digits1 (Seq Point Digits)) (Seq Digits (Seq Point Digits1)))"

text \<open>\<open>^-?[.0-9]{1,20}$\<close>\<close>

definition validAmountSimple :: rx where
  "validAmountSimple = Seq Minus (Repeat1 20 (Cls (\<lambda>c. c = CHR ''.'' \<or> is_digit c)))"

section \<open>Parsing and printing\<close>

definition StroopsPerLumen :: rat where "StroopsPerLumen = 10000000"

definition validateNumericalString :: "string \<Rightarrow> bool res" where
  "validateNumericalString s =
     (if s = [] then Inl (Errorf ''expected decimal number but found empty string'' [])
      else if \<not> MatchString decimalStrictRE s then Inl (Errorf ''expected decimal number: %s'' [AStr s])
      else Inr True)"

text \<open>\<open>amount.ParseInt64\<close> of the vendored package; its errors come from \<open>support/errors\<close>.\<close>

definition amount_ParseInt64 :: "string \<Rightarrow> int64 res" where
  "amount_ParseInt64 v =
     (if \<not> MatchString validAmountSimple v then Inl (Errorf ''invalid amount format: %s'' [AStr v])
      else case rat_SetString v of
        None \<Rightarrow> Inl (Errorf ''cannot parse amount: %s'' [AStr v])
      | Some x \<Rightarrow>
          let r = x * StroopsPerLumen in
          if snd (quotient_of r) \<noteq> 1 then Inl (Errorf ''more than 7 significant digits: %s'' [AStr v])
          else case parse_int 64 (FloatString 0 r) of
              Inl e \<Rightarrow> Inl (Wrapped (''amount outside bounds of int64: '' @ v) e)
            | Inr i \<Rightarrow> Inr (word_of_int i))"

text \<open>\<open>amount.StringFromInt64\<close>\<close>

definition amount_StringFromInt64 :: "int64 \<Rightarrow> string" where
  "amount_StringFromInt64 v = FloatString 7 (of_int (sint v) / StroopsPerLumen)"

definition ParseStellarAmount :: "string \<Rightarrow> int64 res" where
  "ParseStellarAmount s = and_then (validateNumericalString s) (\<lambda>_. amount_ParseInt64 s)"

definition StringFromStellarAmount :: "int64 \<Rightarrow> string" where
  "StringFromStellarAmount v = amount_StringFromInt64 v"

definition StringFromStellarXdrAmount :: "int64 \<Rightarrow> string" where
  "StringFromStellarXdrAmount v = amount_StringFromInt64 v"

definition ParseAmount :: "string \<Rightarrow> rat res" where
  "ParseAmount s = and_then (validateNumericalString s) (\<lambda>_.
     case rat_SetString s of
       None \<Rightarrow> Inl (Errorf ''expected decimal number: %s'' [AStr s])
     | Some v \<Rightarrow> Inr v)"

section \<open>Conversion, comparison, bounds\<close>

definition parseExchangeRate :: "string \<Rightarrow> rat res" where
  "parseExchangeRate rate =
     (case ParseAmount rate of
        Inl _ \<Rightarrow> Inl (Errorf ''error parsing exchange rate: %q'' [AStr rate])
      | Inr rateRat \<Rightarrow>
          if 0 < rateRat then Inr rateRat
          else if rateRat = 0 then Inl (NewError ''zero-value exchange rate'')
          else Inl (NewError ''negative exchange rate''))"

definition ConvertXLMToOutside :: "string \<Rightarrow> string \<Rightarrow> string res" where
  "ConvertXLMToOutside xlmAmount rate =
     and_then (parseExchangeRate rate) (\<lambda>rateRat.
       case ParseStellarAmount xlmAmount of
         Inl e \<Rightarrow> Inl (Errorf ''parsing amount to convert: %q'' [AErr e])
       | Inr amountInt64 \<Rightarrow>
           Inr (FloatString 7 (of_int (sint amountInt64) / StroopsPerLumen * rateRat)))"

definition ConvertOutsideToXLM :: "string \<Rightarrow> string \<Rightarrow> string res" where
  "ConvertOutsideToXLM outsideAmount rate =
     and_then (parseExchangeRate rate) (\<lambda>rateRat.
       case ParseAmount outsideAmount of
         Inl e \<Rightarrow> Inl (Errorf ''parsing amount to convert: %q'' [AStr outsideAmount])
       | Inr acc \<Rightarrow> Inr (FloatString 7 (acc / rateRat)))"

definition CompareStellarAmounts :: "string \<Rightarrow> string \<Rightarrow> int res" where
  "CompareStellarAmounts amount1 amount2 =
     and_then (ParseStellarAmount amount1) (\<lambda>amountx.
     and_then (ParseStellarAmount amount2) (\<lambda>amounty.
       if sint amountx < sint amounty then Inr (-1)
       else if sint amountx > sint amounty then Inr 1
       else Inr 0))"

definition WithinFactorStellarAmounts :: "string \<Rightarrow> string \<Rightarrow> string \<Rightarrow> bool res" where
  "WithinFactorStellarAmounts amount1 amount2 maxFactor =
     and_then (ParseStellarAmount amount1) (\<lambda>a.
     and_then (ParseStellarAmount amount2) (\<lambda>b.
       case ParseAmount maxFactor of
         Inl e \<Rightarrow> Inl (Errorf ''error parsing factor: %q %v'' [AStr maxFactor, AErr e])
       | Inr fac \<Rightarrow>
           if fac < 0 then Inl (Errorf ''negative factor: %q'' [AStr maxFactor])
           else if a = 0 \<and> b = 0 then Inr True
           else if a = 0 \<or> b = 0 then Inr False
           else
             let ra = of_int (sint a) / StroopsPerLumen; rb = of_int (sint b) / StroopsPerLumen;
                 diff = ra - rb; left = \<bar>diff / ra\<bar>; right = \<bar>diff / rb\<bar>
             in Inr (left \<le> fac \<or> right \<le> fac)))"

text \<open>
  \<open>(105 * amtInt) / 100\<close> on \<open>int64\<close>: the product wraps around, the division truncates
  towards zero.
\<close>

definition PathPaymentMaxValue :: "string \<Rightarrow> string res" where
  "PathPaymentMaxValue amount =
     and_then (amount_ParseInt64 amount) (\<lambda>amtInt.
       let amtMax = word_of_int (sint (105 * amtInt) sdiv 100)
       in Inr (StringFromStellarAmount amtMax))"

definition FeeString :: "int32 \<Rightarrow> string" where
  "FeeString fee = FloatString 7 (of_int (sint fee) / StroopsPerLumen)"

definition GetStellarExchangeRate :: "string \<Rightarrow> string \<Rightarrow> string res" where
  "GetStellarExchangeRate source destination =
     (case ParseStellarAmount source of
        Inl e \<Rightarrow> Inl (Errorf ''parsing source amount: %q'' [AErr e])
      | Inr s \<Rightarrow>
          if s = 0 then Inl (Errorf ''cannot have a source amount of 0'' [])
          else case ParseStellarAmount destination of
              Inl e \<Rightarrow> Inl (Errorf ''parsing destination amount: %q'' [AErr e])
            | Inr d \<Rightarrow> Inr (FloatString 7 (of_int (sint d) / of_int (sint s))))"

section \<open>What the patterns accept\<close>

text \<open>A closed form of \<open>decimalStrictRE\<close>: optional minus, digits, at most one point.\<close>

definition unsigned_part :: "string \<Rightarrow> string" where
  "unsigned_part s = (case s of c # t \<Rightarrow> if c = CHR ''-'' then t else s | [] \<Rightarrow> [])"

definition decimal_digits :: "string \<Rightarrow> bool" where
  "decimal_digits t =
     (case dropWhile is_digit t of
        [] \<Rightarrow> t \<noteq> []
      | c # b \<Rightarrow> c = CHR ''.'' \<and> list_all is_digit b \<and> (takeWhile is_digit t \<noteq> [] \<or> b \<noteq> []))"

definition decimal_shape :: "string \<Rightarrow> bool" where
  "decimal_shape s = decimal_digits (unsigned_part s)"

lemma dropWhile_digits_Nil: "dropWhile is_digit t = [] \<longleftrightarrow> list_all is_digit t"
  by (induction t) auto

lemma decimal_digits_iff:
  "decimal_digits t \<longleftrightarrow>
     (t \<noteq> [] \<and> list_all is_digit t) \<or>
     (\<exists>a b. t = a @ CHR ''.'' # b \<and> list_all is_digit a \<and> list_all is_digit b \<and> (a \<noteq> [] \<or> b \<noteq> []))"
  (is "_ \<longleftrightarrow> ?int \<or> ?frac")
proof
  assume d: "decimal_digits t"
  show "?int \<or> ?frac"
  proof (cases "dropWhile is_digit t")
    case Nil
    with d have "t \<noteq> []" by (simp add: decimal_digits_def)
    with Nil show ?thesis by (auto simp: dropWhile_digits_Nil list_all_iff)
  next
    case (Cons c b)
    have "t = takeWhile is_digit t @ c # b" using Cons takeWhile_dropWhile_id [of is_digit t] by simp
    moreover have "list_all is_digit (takeWhile is_digit t)"
      by (auto simp: list_all_iff dest: set_takeWhileD)
    ultimately show ?thesis using d Cons by (auto simp: decimal_digits_def)
  qed
next
  assume "?int \<or> ?frac"
  then show "decimal_digits t"
  proof
    assume ?int
    then show ?thesis by (simp add: decimal_digits_def dropWhile_digits_Nil [THEN iffD2])
  next
    assume ?frac
    then show ?thesis by (auto simp: decimal_digits_def takeWhile_digits_append)
  qed
qed

lemma lang_integral:
  "t \<in> lang (Seq Digits1 (Seq Point Digits)) \<longleftrightarrow>
     (t \<noteq> [] \<and> list_all is_digit t) \<or>
     (\<exists>a b. t = a @ CHR ''.'' # b \<and> list_all is_digit a \<and> list_all is_digit b \<and> a \<noteq> [])"
  (is "_ \<longleftrightarrow> ?int \<or> ?frac")
proof -
  have "t \<in> lang (Seq Digits1 (Seq Point Digits)) \<longleftrightarrow>
      (\<exists>u v. t = u @ v \<and> (u \<noteq> [] \<and> list_all is_digit u) \<and>
         (list_all is_digit v \<or> (\<exists>b. v = CHR ''.'' # b \<and> list_all is_digit b)))"
    unfolding Digits1_def Digits_def Point_def mem_lang_Seq [of _ "Plus (Cls is_digit)"]
      lang_Plus_Cls lang_Seq_Opt_Lit lang_Star_Cls mem_Collect_eq ..
  also have "\<dots> \<longleftrightarrow> ?int \<or> ?frac"
  proof (intro iffI; elim exE conjE disjE)
    fix u v assume "t \<noteq> []" "list_all is_digit t"
    then have "t = t @ [] \<and> (t \<noteq> [] \<and> list_all is_digit t) \<and> list_all is_digit []" by simp
    then show "\<exists>u v. t = u @ v \<and> (u \<noteq> [] \<and> list_all is_digit u) \<and>
         (list_all is_digit v \<or> (\<exists>b. v = CHR ''.'' # b \<and> list_all is_digit b))" by blast
  qed auto
  finally show ?thesis .
qed

lemma lang_fractional:
  "t \<in> lang (Seq Digits (Seq Point Digits1)) \<longleftrightarrow>
     (t \<noteq> [] \<and> list_all is_digit t) \<or>
     (\<exists>a b. t = a @ CHR ''.'' # b \<and> list_all is_digit a \<and> list_all is_digit b \<and> b \<noteq> [])"
  (is "_ \<longleftrightarrow> ?int \<or> ?frac")
proof -
  have "t \<in> lang (Seq Digits (Seq Point Digits1)) \<longleftrightarrow>
      (\<exists>u v. t = u @ v \<and> list_all is_digit u \<and>
         ((v \<noteq> [] \<and> list_all is_digit v) \<or> (\<exists>b. v = CHR ''.'' # b \<and> b \<noteq> [] \<and> list_all is_digit b)))"
    unfolding Digits1_def Digits_def Point_def mem_lang_Seq [of _ "Star (Cls is_digit)"]
      lang_Plus_Cls lang_Seq_Opt_Lit lang_Star_Cls mem_Collect_eq by blast
  also have "\<dots> \<longleftrightarrow> ?int \<or> ?frac"
  proof (intro iffI; elim exE conjE disjE)
    fix u v assume "t \<noteq> []" "list_all is_digit t"
    then have "t = [] @ t \<and> list_all is_digit [] \<and> (t \<noteq> [] \<and> list_all is_digit t)" by simp
    then show "\<exists>u v. t = u @ v \<and> list_all is_digit u \<and>
         ((v \<noteq> [] \<and> list_all is_digit v) \<or> (\<exists>b. v = CHR ''.'' # b \<and> b \<noteq> [] \<and> list_all is_digit b))" by blast
  qed auto
  finally show ?thesis .
qed

lemma lang_body:
  "t \<in> lang (Alt (Seq Digits1 (Seq Point Digits)) (Seq Digits (Seq Point Digits1))) \<longleftrightarrow> decimal_digits t"
  unfolding lang.simps(5) Un_iff lang_integral lang_fractional decimal_digits_iff by blast

lemma lang_Minus: "s \<in> lang (Seq Minus r) \<longleftrightarrow> s \<in> lang r \<or> (\<exists>t. s = CHR ''-'' # t \<and> t \<in> lang r)"
  unfolding Minus_def by (rule lang_Seq_Opt_Lit)

lemma decimal_digits_not_minus: "\<not> decimal_digits (CHR ''-'' # t)"
  by (simp add: decimal_digits_def)

lemma unsigned_part_iff:
  "(\<not> P (CHR ''-'' # unsigned_part s)) \<Longrightarrow> (\<not> P []) \<Longrightarrow>
     P (unsigned_part s) \<longleftrightarrow> P s \<or> (\<exists>t. s = CHR ''-'' # t \<and> P t)"
  by (auto simp: unsigned_part_def split: list.splits)

theorem decimalStrictRE_iff: "MatchString decimalStrictRE s \<longleftrightarrow> decimal_shape s"
proof -
  have "\<not> decimal_digits []" by (simp add: decimal_digits_def)
  with unsigned_part_iff [of decimal_digits s] show ?thesis
    unfolding MatchString_iff decimalStrictRE_def lang_Minus lang_body decimal_shape_def
    by (simp add: decimal_digits_not_minus)
qed

lemma validAmountSimple_iff:
  "MatchString validAmountSimple s \<longleftrightarrow>
     unsigned_part s \<noteq> [] \<and> length (unsigned_part s) \<le> 20 \<and>
     list_all (\<lambda>c. c = CHR ''.'' \<or> is_digit c) (unsigned_part s)"
  unfolding MatchString_iff validAmountSimple_def lang_Minus lang_Repeat1_Cls
  by (auto simp: unsigned_part_def split: list.splits)

section \<open>What the parsers return\<close>

lemma decimal_shape_sign:
  "decimal_shape s \<Longrightarrow> \<exists>neg. split_sign s = (neg, unsigned_part s)"
  by (auto simp: decimal_shape_def unsigned_part_def split_sign_def decimal_digits_def split: list.splits)

lemma decimal_shape_SetString: "decimal_shape s \<Longrightarrow> \<exists>x. rat_SetString s = Some x"
proof -
  assume s: "decimal_shape s"
  then obtain neg where neg: "split_sign s = (neg, unsigned_part s)" using decimal_shape_sign by blast
  show ?thesis
  proof (cases "dropWhile is_digit (unsigned_part s)")
    case Nil
    then have "takeWhile is_digit (unsigned_part s) = unsigned_part s"
      by (metis append_Nil2 takeWhile_dropWhile_id)
    with s Nil show ?thesis
      unfolding decimal_shape_def decimal_digits_def rat_SetString_def neg Let_def prod.case
      by (simp del: dropWhile_eq_Nil_conv takeWhile_eq_all_conv)
  next
    case Cons
    with s show ?thesis by (auto simp: decimal_shape_def decimal_digits_def rat_SetString_def neg Let_def)
  qed
qed

lemma validateNumericalString_ok: "validateNumericalString s = Inr b \<longleftrightarrow> decimal_shape s \<and> b"
  by (auto simp: validateNumericalString_def decimalStrictRE_iff decimal_shape_def unsigned_part_def decimal_digits_def)

lemma ParseAmount_eq_Inr:
  "ParseAmount s = Inr x \<longleftrightarrow> decimal_shape s \<and> rat_SetString s = Some x"
  using decimal_shape_SetString [of s]
  by (auto simp: ParseAmount_def and_then_eq_Inr validateNumericalString_ok split: option.splits)

lemma ParseAmount_ok: "is_ok (ParseAmount s) \<longleftrightarrow> decimal_shape s"
  using decimal_shape_SetString [of s] by (auto simp: is_ok_iff ParseAmount_eq_Inr)

lemma amount_ParseInt64_eq_Inr:
  "amount_ParseInt64 s = Inr v \<longleftrightarrow>
     MatchString validAmountSimple s \<and> rat_SetString s = Some (of_int (sint v) / StroopsPerLumen)"
proof (cases "rat_SetString s")
  case (Some x)
  define r where "r = x * StroopsPerLumen"
  have x: "x = of_int i / StroopsPerLumen \<longleftrightarrow> r = of_int i" for i
    by (auto simp: r_def StroopsPerLumen_def)
  show ?thesis
  proof (cases "snd (quotient_of r) = 1")
    case True
    then obtain n where n: "r = of_int n" by (auto simp: quotient_of_integral)
    have shown: "FloatString 0 r = show_int n" by (simp add: FloatString_0_of_int n)
    have "parse_int 64 (show_int n) = Inr n" if "in_int64 n"
      using that by (simp add: in_int64_def int64_min_def int64_max_def)
    moreover have "\<exists>e. parse_int 64 (show_int n) = Inl e" if "\<not> in_int64 n"
    proof (cases "parse_int 64 (show_int n)")
      case (Inr i)
      then have "i = n" "in_int64 i"
        using parse_int_eq_Inr [of 64 "show_int n" i]
        by (auto simp: split_sign_show_int in_int64_def int64_min_def int64_max_def split: if_splits)
      with that show ?thesis by simp
    qed simp
    ultimately have "amount_ParseInt64 s = Inr v \<longleftrightarrow> MatchString validAmountSimple s \<and> in_int64 n \<and> v = word_of_int n"
      by (cases "in_int64 n") (auto simp: amount_ParseInt64_def Some r_def [symmetric] True shown)
    moreover have "in_int64 n \<and> v = word_of_int n \<longleftrightarrow> n = sint v"
      by (auto simp: sint_of_int_in_int64)
    ultimately show ?thesis unfolding Some option.inject x n of_int_eq_iff by blast
  next
    case False
    then have "\<nexists>n. r = of_int n" by (simp add: quotient_of_integral)
    then have "x \<noteq> of_int (sint v) / StroopsPerLumen" using x [of "sint v"] by blast
    with False show ?thesis by (auto simp: amount_ParseInt64_def Some r_def [symmetric])
  qed
qed (simp add: amount_ParseInt64_def)

lemma ParseStellarAmount_eq_Inr:
  "ParseStellarAmount s = Inr v \<longleftrightarrow>
     decimal_shape s \<and> length (unsigned_part s) \<le> 20 \<and>
     rat_SetString s = Some (of_int (sint v) / StroopsPerLumen)"
proof -
  have "decimal_shape s \<Longrightarrow> unsigned_part s \<noteq> [] \<and> list_all (\<lambda>c. c = CHR ''.'' \<or> is_digit c) (unsigned_part s)"
    unfolding decimal_shape_def decimal_digits_iff by (auto simp: list_all_iff)
  then show ?thesis
    by (auto simp: ParseStellarAmount_def and_then_eq_Inr validateNumericalString_ok amount_ParseInt64_eq_Inr
        validAmountSimple_iff)
qed

section \<open>Printed amounts\<close>

lemma amount_StringFromInt64_eq:
  "amount_StringFromInt64 v = fixed_text (sint v < 0) 7 (nat \<bar>sint v\<bar>)"
  unfolding amount_StringFromInt64_def by (rule FloatString_of_int) (simp_all add: StroopsPerLumen_def)

lemma unsigned_part_fixed_text: "unsigned_part (fixed_text neg prec N) = fixed_text False prec N"
proof (cases "show_nat (N div 10 ^ prec)")
  case (Cons c t)
  with show_nat_digits [of "N div 10 ^ prec"] have "is_digit c" by simp
  with Cons show ?thesis by (auto simp: unsigned_part_def fixed_text_def)
qed simp

lemma decimal_shape_fixed_text: "decimal_shape (fixed_text neg prec N)"
  unfolding decimal_shape_def unsigned_part_fixed_text decimal_digits_iff
  by (rule disjI2) (fastforce simp: fixed_text_def)

lemma length_fixed_text:
  assumes "0 < prec" "0 < k" "N < 10 ^ (k + prec)"
  shows "length (fixed_text False prec N) \<le> k + 1 + prec"
proof -
  have "N div 10 ^ prec < 10 ^ k"
    using assms by (simp add: less_mult_imp_div_less power_add)
  then have "length (show_nat (N div 10 ^ prec)) \<le> k" using assms by (intro length_show_nat)
  moreover have "length (pad_zeros prec (show_nat (N mod 10 ^ prec))) = prec"
    using assms by (intro length_pad_zeros length_show_nat) simp_all
  ultimately show ?thesis by (simp add: fixed_text_def)
qed

lemma nat_abs_int64_less: "nat \<bar>sint (v :: int64)\<bar> < 10 ^ (12 + 7)"
proof -
  have "\<bar>sint v\<bar> < 10 ^ (12 + 7)"
    using sint_in_int64 [of v] by (simp add: in_int64_def int64_min_def int64_max_def abs_less_iff)
  then show ?thesis by (simp add: nat_less_iff)
qed

lemma SetString_StringFromInt64:
  "rat_SetString (amount_StringFromInt64 v) = Some (of_int (sint v) / StroopsPerLumen)"
  by (simp add: amount_StringFromInt64_eq rat_SetString_fixed_text StroopsPerLumen_def)

lemma ParseStellarAmount_StringFromInt64: "ParseStellarAmount (amount_StringFromInt64 v) = Inr v"
  using length_fixed_text [OF _ _ nat_abs_int64_less [of v]]
  by (simp add: ParseStellarAmount_eq_Inr SetString_StringFromInt64)
    (simp add: amount_StringFromInt64_eq decimal_shape_fixed_text unsigned_part_fixed_text)

section \<open>The codec interface\<close>

text \<open>
  What a client of the amount functions relies on: printed amounts parse back, and both
  directions agree with the value of the text. Balances, fees and the 105% bound only use
  these laws.
\<close>

locale amount_codec =
  fixes parse :: "string \<Rightarrow> int64 res"
    and print :: "int64 \<Rightarrow> string"
    and units :: "string \<Rightarrow> rat option"
  assumes parse_print: "parse (print v) = Inr v"
    and parse_units: "parse s = Inr v \<Longrightarrow> units s = Some (of_int (sint v) / StroopsPerLumen)"
begin

lemma units_print: "units (print v) = Some (of_int (sint v) / StroopsPerLumen)"
  by (rule parse_units [OF parse_print])

lemma print_inject: "print v = print w \<longleftrightarrow> v = w"
  by (metis parse_print sum.inject(2))

lemma parse_same_units: "parse s = Inr v \<Longrightarrow> parse t = Inr w \<Longrightarrow> units s = units t \<Longrightarrow> v = w"
  using parse_units [of s v] parse_units [of t w]
  by (simp add: StroopsPerLumen_def) (metis of_int_eq_iff of_int_sint sint_int64_inject)

lemma reparse: "parse s = Inr v \<Longrightarrow> units (print v) = units s"
  by (simp add: parse_units units_print)

text \<open>A function that parses, works on stroops and prints: its result reads as the stroops.\<close>

lemma through:
  "and_then (parse s) (\<lambda>v. Inr (print (f v))) = Inr t \<Longrightarrow>
     \<exists>v. parse s = Inr v \<and> parse t = Inr (f v) \<and> units t = Some (of_int (sint (f v)) / StroopsPerLumen)"
  by (auto simp: and_then_eq_Inr parse_print units_print)

end

interpretation stellar: amount_codec ParseStellarAmount StringFromStellarAmount rat_SetString
  by unfold_locales
    (simp_all add: StringFromStellarAmount_def ParseStellarAmount_StringFromInt64 ParseStellarAmount_eq_Inr)

interpretation vendored: amount_codec amount_ParseInt64 amount_StringFromInt64 rat_SetString
proof unfold_locales
  fix v
  have "ParseStellarAmount (amount_StringFromInt64 v) = Inr v" by (rule ParseStellarAmount_StringFromInt64)
  then show "amount_ParseInt64 (amount_StringFromInt64 v) = Inr v"
    by (auto simp: ParseStellarAmount_def and_then_eq_Inr)
qed (simp add: amount_ParseInt64_eq_Inr)

text \<open>The checked parser of the package refuses nothing the vendored one reads exactly.\<close>

lemma ParseStellarAmount_vendored: "ParseStellarAmount s = Inr v \<Longrightarrow> amount_ParseInt64 s = Inr v"
  by (auto simp: ParseStellarAmount_def and_then_eq_Inr)

text \<open>Evaluation of the parser on concrete text, through its closed form.\<close>

lemmas amount_eval [go_defs] =
  amount_ParseInt64_eq_Inr ParseStellarAmount_eq_Inr validAmountSimple_iff unsigned_part_def StroopsPerLumen_def
  decimal_shape_def decimal_digits_def

section \<open>Properties\<close>

text \<open>
  C21. Printing an amount and parsing it back gives the amount, for every 64-bit value of
  stroops, the most negative one included.
\<close>

theorem stellar_amount_roundtrip: "ParseStellarAmount (StringFromStellarAmount v) = Inr v"
  by (rule stellar.parse_print)

text \<open>
  C20. \<open>ParseStellarAmount\<close> accepts exactly the decimal numbers of at most 20 characters
  (sign aside) that are a whole number of stroops within \<open>int64\<close>, and returns that number.
\<close>

theorem ParseStellarAmount_exact:
  "ParseStellarAmount s = Inr v \<longleftrightarrow>
     decimal_shape s \<and> length (unsigned_part s) \<le> 20 \<and>
     (\<exists>x. rat_SetString s = Some x \<and> x * 10000000 = of_int (sint v))"
  unfolding ParseStellarAmount_eq_Inr by (auto simp: StroopsPerLumen_def)

lemma parseExchangeRate_eq_Inr: "parseExchangeRate rate = Inr x \<longleftrightarrow> ParseAmount rate = Inr x \<and> 0 < x"
  by (auto simp: parseExchangeRate_def split: sum.splits)

lemma FloatString_close:
  "\<exists>y. rat_SetString (FloatString 7 x) = Some y \<and> \<bar>y - x\<bar> \<le> 1 / 20000000"
  using round_rat_close [of 7 x] by (simp add: SetString_FloatString)

text \<open>
  C35. \<open>ConvertXLMToOutside\<close> succeeds exactly when the amount parses and the rate is a
  positive decimal; the text it returns is within half of \<open>10 ^ -7\<close> of the exact product.
\<close>

theorem ConvertXLMToOutside_spec:
  "(case ConvertXLMToOutside xlm rate of
      Inr out \<Rightarrow> \<exists>v x y. ParseStellarAmount xlm = Inr v \<and> ParseAmount rate = Inr x \<and> 0 < x \<and>
        rat_SetString out = Some y \<and> \<bar>y - of_int (sint v) / 10000000 * x\<bar> \<le> 1 / 20000000
    | Inl e \<Rightarrow> \<not> (is_ok (ParseStellarAmount xlm) \<and> (\<exists>x. ParseAmount rate = Inr x \<and> 0 < x)))"
proof (cases "parseExchangeRate rate")
  case (Inr x)
  then have "ParseAmount rate = Inr x" "0 < x" by (simp_all add: parseExchangeRate_eq_Inr)
  with Inr show ?thesis
  proof (cases "ParseStellarAmount xlm")
    case ok: (Inr v)
    with Inr \<open>ParseAmount rate = Inr x\<close> \<open>0 < x\<close> FloatString_close [of "of_int (sint v) / StroopsPerLumen * x"]
    show ?thesis by (simp add: ConvertXLMToOutside_def StroopsPerLumen_def)
  qed (simp add: ConvertXLMToOutside_def)
next
  case (Inl e)
  then have "\<not> (\<exists>x. ParseAmount rate = Inr x \<and> 0 < x)" by (metis parseExchangeRate_eq_Inr sum.distinct(1))
  with Inl show ?thesis by (simp add: ConvertXLMToOutside_def)
qed

text \<open>
  C4. \<open>ConvertOutsideToXLM\<close> likewise returns the quotient by the rate, within half a
  stroop, and fails exactly when the amount or the rate is not usable.
\<close>

theorem ConvertOutsideToXLM_spec:
  "(case ConvertOutsideToXLM outside rate of
      Inr out \<Rightarrow> \<exists>a x y. ParseAmount outside = Inr a \<and> ParseAmount rate = Inr x \<and> 0 < x \<and>
        rat_SetString out = Some y \<and> \<bar>y - a / x\<bar> \<le> 1 / 20000000
    | Inl e \<Rightarrow> \<not> (is_ok (ParseAmount outside) \<and> (\<exists>x. ParseAmount rate = Inr x \<and> 0 < x)))"
proof (cases "parseExchangeRate rate")
  case (Inr x)
  then have "ParseAmount rate = Inr x" "0 < x" by (simp_all add: parseExchangeRate_eq_Inr)
  with Inr show ?thesis
  proof (cases "ParseAmount outside")
    case ok: (Inr a)
    with Inr \<open>ParseAmount rate = Inr x\<close> \<open>0 < x\<close> FloatString_close [of "a / x"]
    show ?thesis by (simp add: ConvertOutsideToXLM_def)
  qed (simp add: ConvertOutsideToXLM_def)
next
  case (Inl e)
  then have "\<not> (\<exists>x. ParseAmount rate = Inr x \<and> 0 < x)" by (metis parseExchangeRate_eq_Inr sum.distinct(1))
  with Inl show ?thesis by (simp add: ConvertOutsideToXLM_def)
qed

text \<open>
  C5. \<open>CompareStellarAmounts\<close> returns the sign of the difference of the two values, and
  an error exactly when one of the texts does not parse.
\<close>

theorem CompareStellarAmounts_spec:
  "CompareStellarAmounts s t = Inr c \<longleftrightarrow>
     (\<exists>v w. ParseStellarAmount s = Inr v \<and> ParseStellarAmount t = Inr w \<and> c = sgn (sint v - sint w))"
  by (cases "ParseStellarAmount s"; cases "ParseStellarAmount t")
    (auto simp: CompareStellarAmounts_def sgn_if)

lemma within_factor_max:
  fixes a b f :: rat
  assumes "a \<noteq> 0" "b \<noteq> 0" "0 \<le> f"
  shows "(\<bar>(a - b) / a\<bar> \<le> f \<or> \<bar>(a - b) / b\<bar> \<le> f) \<longleftrightarrow> \<bar>a - b\<bar> \<le> f * max \<bar>a\<bar> \<bar>b\<bar>"
proof -
  have "\<bar>(a - b) / a\<bar> \<le> f \<longleftrightarrow> \<bar>a - b\<bar> \<le> f * \<bar>a\<bar>" "\<bar>(a - b) / b\<bar> \<le> f \<longleftrightarrow> \<bar>a - b\<bar> \<le> f * \<bar>b\<bar>"
    using assms by (simp_all add: abs_divide pos_divide_le_eq)
  moreover have "f * max \<bar>a\<bar> \<bar>b\<bar> = max (f * \<bar>a\<bar>) (f * \<bar>b\<bar>)"
    using assms by (simp add: max_mult_distrib_left)
  ultimately show ?thesis by (simp add: le_max_iff_disj)
qed

lemma quotient_scaled:
  fixes a b c s :: rat
  assumes "s \<noteq> 0"
  shows "(a / s - b / s) / (c / s) = (a - b) / c"
  using assms by (simp flip: diff_divide_distrib)

text \<open>
  C36. \<open>WithinFactorStellarAmounts\<close>: for a non-negative decimal factor, two amounts are
  within the factor exactly when both are zero, or neither is and their difference is at
  most the factor times the larger magnitude (the bound is inclusive).
\<close>

theorem WithinFactorStellarAmounts_spec:
  "WithinFactorStellarAmounts s t f = Inr w \<longleftrightarrow>
     (\<exists>a b x. ParseStellarAmount s = Inr a \<and> ParseStellarAmount t = Inr b \<and> ParseAmount f = Inr x \<and> 0 \<le> x \<and>
        w = ((a = 0 \<and> b = 0) \<or>
             (a \<noteq> 0 \<and> b \<noteq> 0 \<and> rat_of_int \<bar>sint a - sint b\<bar> \<le> x * of_int (max \<bar>sint a\<bar> \<bar>sint b\<bar>))))"
proof -
  have scaled: "(\<bar>(of_int (sint a) / StroopsPerLumen - of_int (sint b) / StroopsPerLumen) / (of_int (sint a) / StroopsPerLumen)\<bar> \<le> x \<or>
       \<bar>(of_int (sint a) / StroopsPerLumen - of_int (sint b) / StroopsPerLumen) / (of_int (sint b) / StroopsPerLumen)\<bar> \<le> x) \<longleftrightarrow>
     rat_of_int \<bar>sint a - sint b\<bar> \<le> x * of_int (max \<bar>sint a\<bar> \<bar>sint b\<bar>)"
    if "a \<noteq> 0" "b \<noteq> 0" "0 \<le> x" for a b :: int64 and x
  proof -
    have q: "StroopsPerLumen \<noteq> 0" by (simp add: StroopsPerLumen_def)
    have "rat_of_int (sint a) \<noteq> 0" "rat_of_int (sint b) \<noteq> 0"
      using that sint_int64_inject [of _ 0] by (simp_all del: of_int_sint)
    then show ?thesis
      using within_factor_max [of "of_int (sint a)" "of_int (sint b)" x] that(3)
      unfolding quotient_scaled [OF q] of_int_abs of_int_diff of_int_max by blast
  qed
  have within: "WithinFactorStellarAmounts s t f =
      Inr ((a = 0 \<and> b = 0) \<or>
           (a \<noteq> 0 \<and> b \<noteq> 0 \<and> rat_of_int \<bar>sint a - sint b\<bar> \<le> x * of_int (max \<bar>sint a\<bar> \<bar>sint b\<bar>)))"
    if "ParseStellarAmount s = Inr a" "ParseStellarAmount t = Inr b" "ParseAmount f = Inr x" "0 \<le> x" for a b x
  proof (cases "a = 0 \<or> b = 0")
    case True
    with that show ?thesis by (auto simp: WithinFactorStellarAmounts_def)
  next
    case False
    with that scaled [of a b x] show ?thesis
      by (auto simp only: WithinFactorStellarAmounts_def Let_def and_then_Inr sum.case not_less
        if_False if_True if_not_P if_P simp_thms)
  qed
  show ?thesis
  proof (cases "\<exists>a b x. ParseStellarAmount s = Inr a \<and> ParseStellarAmount t = Inr b \<and> ParseAmount f = Inr x \<and> 0 \<le> x")
    case True
    then obtain a b x where "ParseStellarAmount s = Inr a" "ParseStellarAmount t = Inr b" "ParseAmount f = Inr x" "0 \<le> x"
      by blast
    with within [OF this] show ?thesis by auto
  next
    case False
    then have "\<not> is_ok (WithinFactorStellarAmounts s t f)"
      by (auto simp: WithinFactorStellarAmounts_def is_ok_and_then not_less split: sum.splits)
    with False show ?thesis by auto
  qed
qed

lemma in_int64_div: "in_int64 i \<Longrightarrow> 0 \<le> i \<Longrightarrow> in_int64 (i div 100)"
proof -
  have "0 \<le> i \<Longrightarrow> 0 \<le> i div 100 \<and> i div 100 \<le> i" by presburger
  then show "in_int64 i \<Longrightarrow> 0 \<le> i \<Longrightarrow> in_int64 (i div 100)"
    by (auto simp: in_int64_def int64_min_def)
qed

text \<open>
  C37. \<open>PathPaymentMaxValue\<close> returns 105% of a non-negative amount, rounded down to a
  stroop, as long as 105 times the stroops stay within \<open>int64\<close>.
\<close>

theorem PathPaymentMaxValue_105:
  assumes "amount_ParseInt64 s = Inr v" and "0 \<le> sint v" and "105 * sint v \<le> int64_max"
  shows "\<exists>t w. PathPaymentMaxValue s = Inr t \<and> ParseStellarAmount t = Inr w \<and> sint w = 105 * sint v div 100"
proof -
  have in105: "in_int64 (105 * sint v)" using assms by (simp add: in_int64_def int64_min_def)
  have "105 * v = word_of_int (105 * sint v)" by simp
  then have "sint (105 * v) = 105 * sint v" by (simp only: sint_of_int_in_int64 [OF in105])
  moreover have "(105 * sint v) sdiv 100 = 105 * sint v div 100"
    using assms(2) by (simp add: signed_divide_int_def sgn_if)
  moreover have "in_int64 (105 * sint v div 100)"
    using in_int64_div [OF in105] assms(2) by simp
  ultimately have "PathPaymentMaxValue s = Inr (StringFromStellarAmount (word_of_int (105 * sint v div 100)))"
    and "sint (word_of_int (105 * sint v div 100) :: int64) = 105 * sint v div 100"
    using assms(1) by (simp_all only: PathPaymentMaxValue_def and_then_Inr Let_def sint_of_int_in_int64)
  then show ?thesis using stellar.parse_print by blast
qed

theorem PathPaymentMaxValue_105_witness:
  "\<exists>t w. PathPaymentMaxValue ''2.000'' = Inr t \<and> ParseStellarAmount t = Inr w \<and> sint w = 21000000"
proof -
  have p: "amount_ParseInt64 ''2.000'' = Inr 20000000" by (simp add: go_defs)
  show ?thesis using PathPaymentMaxValue_105 [OF p] by (simp add: int64_max_def)
qed

text \<open>
  Above that bound the multiplication wraps around: for a payment of
  8784163844.6235961 units the maximum the sender agrees to spend is a negative amount.
\<close>

theorem PathPaymentMaxValue_wraps:
  "PathPaymentMaxValue ''8784163844.6235961'' = Inr ''-9223372036.8547757''"
proof -
  have "amount_ParseInt64 ''8784163844.6235961'' = Inr 87841638446235961" by (simp add: go_defs)
  moreover have "word_of_int (sint (105 * 87841638446235961 :: int64) sdiv 100) = (- 92233720368547757 :: int64)"
    by simp
  moreover have "StringFromStellarAmount (- 92233720368547757) = ''-9223372036.8547757''"
    by (simp add: StringFromStellarAmount_def amount_StringFromInt64_eq fixed_text_def go_defs)
  ultimately show ?thesis by (simp only: PathPaymentMaxValue_def and_then_Inr Let_def)
qed

text \<open>
  A fee in stroops prints as the amount text that parses back to the same number of
  stroops, for every 32-bit fee.
\<close>

theorem FeeString_roundtrip: "ParseStellarAmount (FeeString fee) = Inr (word_of_int (sint fee))"
proof -
  have "in_int64 (sint fee)"
    using sint_ge [of fee] sint_lt [of fee] by (simp add: in_int64_def int64_min_def int64_max_def)
  then have "FeeString fee = amount_StringFromInt64 (word_of_int (sint fee))"
    by (simp only: FeeString_def amount_StringFromInt64_def sint_of_int_in_int64)
  then show ?thesis by (simp add: ParseStellarAmount_StringFromInt64)
qed

text \<open>
  C7. \<open>GetStellarExchangeRate\<close> returns the quotient destination over source within half
  of \<open>10 ^ -7\<close>, and fails exactly when an amount does not parse or the source is zero.
\<close>

theorem GetStellarExchangeRate_spec:
  "(case GetStellarExchangeRate source destination of
      Inr out \<Rightarrow> \<exists>s d y. ParseStellarAmount source = Inr s \<and> ParseStellarAmount destination = Inr d \<and> s \<noteq> 0 \<and>
        rat_SetString out = Some y \<and> \<bar>y - of_int (sint d) / of_int (sint s)\<bar> \<le> 1 / 20000000
    | Inl e \<Rightarrow> \<not> ((\<exists>s. ParseStellarAmount source = Inr s \<and> s \<noteq> 0) \<and> is_ok (ParseStellarAmount destination)))"
  using FloatString_close
  by (cases "ParseStellarAmount source"; cases "ParseStellarAmount destination")
    (simp_all add: GetStellarExchangeRate_def)

end
