(* ===== verification/Errors.thy ===== *)
theory Errors
  imports Go_Prelude
begin

text \<open>
  \<open>errors.go\<close>: how the errors of horizon and of the network are turned into the
  package's own. The sentinels and the \<open>Error\<close> structure are constructors of
  \<open>go_error\<close>.
\<close>

section \<open>Unwrapping and messages\<close>

text \<open>\<open>perrors.Cause\<close> follows the wrappers to the error they hold.\<close>

fun errors_Cause :: "go_error \<Rightarrow> go_error" where
  "errors_Cause (Wrapped msg err) = errors_Cause err"
| "errors_Cause err = err"

definition Error_Verbose :: "string \<Rightarrow> string \<Rightarrow> string" where
  "Error_Verbose display details = display @ '' ['' @ details @ '']''"

definition isOpNoDestination :: "horizon_error \<Rightarrow> bool" where
  "isOpNoDestination herr =
     (case hz_codes herr of
        None \<Rightarrow> False
      | Some (txCode, opCodes) \<Rightarrow>
          if txCode \<noteq> ''tx_failed'' then False
          else if length opCodes \<noteq> 1 then False
          else opCodes ! 0 = ''op_no_destination'')"

section \<open>The map\<close>

text \<open>
  \<open>handler\<close> says whether \<open>TimeoutHandler\<close> is set; the second component of the result is
  the number of times it is called.
\<close>

definition errMap_run :: "bool \<Rightarrow> go_error \<Rightarrow> go_error \<times> nat" where
  "errMap_run handler err =
     (case errors_Cause err of
        StellarError display details horizon orig \<Rightarrow> (StellarError display details horizon orig, 0)
      | HorizonError xerr \<Rightarrow>
          if isOpNoDestination xerr then (ErrDestinationAccountNotFound, 0)
          else if hz_status xerr = 404 then (ErrResourceNotFound, 0)
          else (StellarError ''stellar network error'' (''horizon Problem: '' @ hz_problem xerr) (Some xerr) (Some err), 0)
      | UrlError xerr \<Rightarrow>
          if ue_timeout xerr then
            (StellarError ''stellar network timeout''
               (''stellar network timeout, url: '' @ ue_url xerr @ '', error: '' @ ue_text xerr) None (Some err),
             if handler then 1 else 0)
          else (UrlError xerr, 0)
      | _ \<Rightarrow> (err, 0))"

definition errMap :: "go_error \<Rightarrow> go_error" where
  "errMap err = fst (errMap_run False err)"

lemma fst_errMap_run: "fst (errMap_run handler err) = errMap err"
  by (simp add: errMap_def errMap_run_def split: go_error.split)

definition errMapAccount :: "go_error \<Rightarrow> go_error" where
  "errMapAccount err = (let xerr = errMap err in if xerr = ErrResourceNotFound then ErrSourceAccountNotFound else xerr)"

section \<open>Facts\<close>

lemma errors_Cause_not_Wrapped: "errors_Cause err \<noteq> Wrapped msg e"
  by (induction err rule: errors_Cause.induct) auto

lemma errMap_cases:
  "errMap err = errors_Cause err \<or> errMap err = err \<or> errMap err = ErrDestinationAccountNotFound \<or>
    errMap err = ErrResourceNotFound \<or> (\<exists>d t h orig. errMap err = StellarError d t h orig)"
  by (simp add: errMap_def errMap_run_def split: go_error.split)

lemma errMap_sentinel [simp]:
  "errMap ErrResourceNotFound = ErrResourceNotFound" "errMap ErrDestinationAccountNotFound = ErrDestinationAccountNotFound"
  "errMap ErrSourceAccountNotFound = ErrSourceAccountNotFound" "errMap ErrAssetNotFound = ErrAssetNotFound"
  "errMap ErrNoOps = ErrNoOps" "errMap ErrTxOpFull = ErrTxOpFull" "errMap ErrMemoExists = ErrMemoExists"
  "errMap ErrTimeBoundsExist = ErrTimeBoundsExist" "errMap (NewError s) = NewError s"
  "errMap (StellarError d t h orig) = StellarError d t h orig" "errMap (Errorf f as) = Errorf f as"
  by (simp_all add: errMap_def errMap_run_def)

lemma errMap_idem: "errMap (errMap err) = errMap err"
proof (cases "errors_Cause err")
  case (Wrapped m e)
  then show ?thesis by (simp add: errors_Cause_not_Wrapped)
qed (auto simp: errMap_def errMap_run_def)

lemma errMapAccount_not_resource: "errMapAccount err \<noteq> ErrResourceNotFound"
  by (simp add: errMapAccount_def Let_def)

text \<open>An error under any number of wrappers of \<open>perrors.Wrap\<close>, the outermost first.\<close>

definition wrapped :: "string list \<Rightarrow> go_error \<Rightarrow> go_error" where
  "wrapped msgs e = foldr Wrapped msgs e"

lemma errors_Cause_wrapped [simp]: "errors_Cause (wrapped msgs e) = errors_Cause e"
  by (induction msgs) (simp_all add: wrapped_def)

lemma wrapped_Cause: "\<exists>msgs. err = wrapped msgs (errors_Cause err)"
proof (induction err rule: errors_Cause.induct)
  case (1 msg err)
  then obtain msgs where "err = wrapped msgs (errors_Cause err)" by blast
  then have "Wrapped msg err = wrapped (msg # msgs) (errors_Cause (Wrapped msg err))" by (simp add: wrapped_def)
  then show ?case by blast
qed (auto simp: wrapped_def intro: exI [of _ "[]"])

lemma isOpNoDestination_iff: "isOpNoDestination h \<longleftrightarrow> hz_codes h = Some (''tx_failed'', [''op_no_destination''])"
  by (auto simp: isOpNoDestination_def length_Suc_conv split: option.splits prod.splits)

text \<open>
  C38. What the caller sees of an error under any wrappers. An error of horizon is the missing
  destination exactly when the transaction failed with that code for its one operation, else the
  missing resource when the status is 404, else a network error that keeps the problem, the
  error of horizon and the error as it came. An error of the transport is a timeout with the URL,
  which calls the handler once, or comes through without its wrappers, as the package's own error
  does. Every other error comes through as it is, wrappers included, and only a
  timeout calls the handler. Mapping twice changes nothing.
\<close>

theorem errMap_classification:
  "errMap (wrapped msgs (HorizonError h)) =
     (if hz_codes h = Some (''tx_failed'', [''op_no_destination'']) then ErrDestinationAccountNotFound
      else if hz_status h = 404 then ErrResourceNotFound
      else StellarError ''stellar network error'' (''horizon Problem: '' @ hz_problem h) (Some h)
        (Some (wrapped msgs (HorizonError h)))) \<and>
   errMap_run handler (wrapped msgs (UrlError u)) =
     (if ue_timeout u then
        (StellarError ''stellar network timeout''
           (''stellar network timeout, url: '' @ ue_url u @ '', error: '' @ ue_text u) None (Some (wrapped msgs (UrlError u))),
         if handler then 1 else 0)
      else (UrlError u, 0)) \<and>
   errMap (wrapped msgs (StellarError d t ho orig)) = StellarError d t ho orig \<and>
   ((\<exists>h. errors_Cause err = HorizonError h) \<or> (\<exists>u. errors_Cause err = UrlError u) \<or>
    (\<exists>d t ho orig. errors_Cause err = StellarError d t ho orig) \<or> errMap err = err) \<and>
   ((\<exists>u. errors_Cause err = UrlError u \<and> ue_timeout u) \<or> snd (errMap_run handler err) = 0) \<and>
   fst (errMap_run handler err) = errMap err \<and> errMap (errMap err) = errMap err"
proof (intro conjI)
  show "errMap (wrapped msgs (HorizonError h)) =
     (if hz_codes h = Some (''tx_failed'', [''op_no_destination'']) then ErrDestinationAccountNotFound
      else if hz_status h = 404 then ErrResourceNotFound
      else StellarError ''stellar network error'' (''horizon Problem: '' @ hz_problem h) (Some h)
        (Some (wrapped msgs (HorizonError h))))"
    by (simp add: errMap_def errMap_run_def isOpNoDestination_iff)
  show "errMap_run handler (wrapped msgs (UrlError u)) =
     (if ue_timeout u then
        (StellarError ''stellar network timeout''
           (''stellar network timeout, url: '' @ ue_url u @ '', error: '' @ ue_text u) None (Some (wrapped msgs (UrlError u))),
         if handler then 1 else 0)
      else (UrlError u, 0))"
    by (simp add: errMap_run_def)
  show "errMap (wrapped msgs (StellarError d t ho orig)) = StellarError d t ho orig" by (simp add: errMap_def errMap_run_def)
  show "(\<exists>h. errors_Cause err = HorizonError h) \<or> (\<exists>u. errors_Cause err = UrlError u) \<or>
      (\<exists>d t ho orig. errors_Cause err = StellarError d t ho orig) \<or> errMap err = err"
    by (simp add: errMap_def errMap_run_def split: go_error.split)
  show "(\<exists>u. errors_Cause err = UrlError u \<and> ue_timeout u) \<or> snd (errMap_run handler err) = 0"
    by (simp add: errMap_run_def split: go_error.split)
qed (rule fst_errMap_run errMap_idem)+

end
