(* ===== verification/Go_Strings.thy ===== *)
theory Go_Strings
  imports Go_Text
begin

unbundle bit_operations_syntax

text \<open>
  The parts of Go's \<open>strings\<close> and \<open>encoding/hex\<close> packages the program calls, on byte
  strings: trimming, lower case, joining, and hexadecimal text with its round trips.
\<close>

section \<open>\<open>strings\<close>\<close>

text \<open>
  \<open>unicode.IsSpace\<close> by UTF-8 encoding: the six ASCII spaces, then U+0085, U+00A0, U+1680,
  U+2000 to U+200A, U+2028, U+2029, U+202F, U+205F and U+3000.
\<close>

definition space_seqs :: "string list" where
  "space_seqs =
     [[CHR 0x09], [CHR 0x0A], [CHR 0x0B], [CHR 0x0C], [CHR 0x0D], '' '',
      [CHR 0xC2, CHR 0x85], [CHR 0xC2, CHR 0xA0], [CHR 0xE1, CHR 0x9A, CHR 0x80],
      [CHR 0xE2, CHR 0x80, CHR 0x80], [CHR 0xE2, CHR 0x80, CHR 0x81], [CHR 0xE2, CHR 0x80, CHR 0x82],
      [CHR 0xE2, CHR 0x80, CHR 0x83], [CHR 0xE2, CHR 0x80, CHR 0x84], [CHR 0xE2, CHR 0x80, CHR 0x85],
      [CHR 0xE2, CHR 0x80, CHR 0x86], [CHR 0xE2, CHR 0x80, CHR 0x87], [CHR 0xE2, CHR 0x80, CHR 0x88],
      [CHR 0xE2, CHR 0x80, CHR 0x89], [CHR 0xE2, CHR 0x80, CHR 0x8A], [CHR 0xE2, CHR 0x80, CHR 0xA8],
      [CHR 0xE2, CHR 0x80, CHR 0xA9], [CHR 0xE2, CHR 0x80, CHR 0xAF], [CHR 0xE2, CHR 0x81, CHR 0x9F],
      [CHR 0xE3, CHR 0x80, CHR 0x80]]"

definition HasPrefix :: "string \<Rightarrow> string \<Rightarrow> bool" where
  "HasPrefix s p = (take (length p) s = p)"

definition trim_step :: "string list \<Rightarrow> string \<Rightarrow> string" where
  "trim_step seqs s = (case filter (HasPrefix s) seqs of [] \<Rightarrow> s | p # _ \<Rightarrow> drop (length p) s)"

definition trim_left :: "string list \<Rightarrow> string \<Rightarrow> string" where
  "trim_left seqs s = (trim_step seqs ^^ length s) s"

definition TrimSpace :: "string \<Rightarrow> string" where
  "TrimSpace s = rev (trim_left (map rev space_seqs) (rev (trim_left space_seqs s)))"

text \<open>
  \<open>strings.ToLower\<close>, exact on the inputs whose result is ASCII text: the ASCII capitals,
  and the two other characters with an ASCII lower case, U+0130 and U+212A.
\<close>

fun ToLower :: "string \<Rightarrow> string" where
  "ToLower [] = []"
| "ToLower (c # s) =
     (if HasPrefix (c # s) [CHR 0xC4, CHR 0xB0] then CHR ''i'' # ToLower (drop 1 s)
      else if HasPrefix (c # s) [CHR 0xE2, CHR 0x84, CHR 0xAA] then CHR ''k'' # ToLower (drop 2 s)
      else if CHR ''A'' \<le> c \<and> c \<le> CHR ''Z'' then char_of (of_char c + 32 :: nat) # ToLower s
      else c # ToLower s)"

fun Join :: "string list \<Rightarrow> string \<Rightarrow> string" where
  "Join [] sep = []"
| "Join [x] sep = x"
| "Join (x # y # xs) sep = x @ sep @ Join (y # xs) sep"

lemma trim_left_fixed: "trim_step seqs s = s \<Longrightarrow> trim_left seqs s = s"
proof -
  assume a: "trim_step seqs s = s"
  have "(trim_step seqs ^^ n) s = s" for n by (induction n) (simp_all add: a)
  then show ?thesis by (simp add: trim_left_def)
qed

text \<open>A text whose first and last bytes cannot be part of a space is not changed.\<close>

definition tight :: "char \<Rightarrow> bool" where
  "tight c \<longleftrightarrow> CHR 0x21 \<le> c \<and> c \<le> CHR 0x7E"

lemma trim_step_tight: "tight c \<Longrightarrow> \<forall>p \<in> set seqs. p \<noteq> [] \<and> \<not> tight (hd p) \<Longrightarrow> trim_step seqs (c # s) = c # s"
proof -
  assume c: "tight c" and p: "\<forall>p \<in> set seqs. p \<noteq> [] \<and> \<not> tight (hd p)"
  have "\<not> HasPrefix (c # s) p" if "p \<in> set seqs" for p
    using p that c by (cases p) (auto simp: HasPrefix_def)
  then have "filter (HasPrefix (c # s)) seqs = []" by simp
  then show ?thesis by (simp add: trim_step_def)
qed

lemma TrimSpace_tight:
  assumes "s = [] \<or> (tight (hd s) \<and> tight (last s))"
  shows "TrimSpace s = s"
proof (cases s rule: rev_cases)
  case Nil
  then show ?thesis by (simp add: TrimSpace_def trim_left_def)
next
  case (snoc t d)
  have sp: "\<forall>p \<in> set space_seqs. p \<noteq> [] \<and> \<not> tight (hd p)"
    and rv: "\<forall>p \<in> set (map rev space_seqs). p \<noteq> [] \<and> \<not> tight (hd p)"
    by (simp_all add: space_seqs_def tight_def less_eq_char_def)
  obtain c u where c: "s = c # u" using snoc by (metis append_is_Nil_conv list.exhaust not_Cons_self2)
  have "trim_left space_seqs s = s"
    using assms c by (intro trim_left_fixed) (simp add: trim_step_tight [OF _ sp])
  moreover have "trim_left (map rev space_seqs) (rev s) = rev s"
    using assms snoc by (intro trim_left_fixed) (simp add: trim_step_tight [OF _ rv])
  ultimately show ?thesis by (simp add: TrimSpace_def)
qed

section \<open>\<open>encoding/hex\<close>\<close>

definition hex_digits :: string where "hex_digits = ''0123456789abcdef''"

definition fromHexChar :: "char \<Rightarrow> byte option" where
  "fromHexChar c =
     (if CHR ''0'' \<le> c \<and> c \<le> CHR ''9'' then Some (byte_of c - 48)
      else if CHR ''a'' \<le> c \<and> c \<le> CHR ''f'' then Some (byte_of c - 97 + 10)
      else if CHR ''A'' \<le> c \<and> c \<le> CHR ''F'' then Some (byte_of c - 65 + 10)
      else None)"

definition hex_EncodeToString :: "byte list \<Rightarrow> string" where
  "hex_EncodeToString bs = concat (map (\<lambda>b. [hex_digits ! unat (drop_bit 4 b), hex_digits ! unat (b AND 0x0F)]) bs)"

definition hex_invalid :: "char \<Rightarrow> go_error" where
  "hex_invalid c = Errorf ''encoding/hex: invalid byte: %#U'' [AInt (of_char c)]"

fun hex_DecodeString :: "string \<Rightarrow> byte list res" where
  "hex_DecodeString [] = Inr []"
| "hex_DecodeString [c] =
     (if fromHexChar c = None then Inl (hex_invalid c)
      else Inl (NewError ''encoding/hex: odd length hex string''))"
| "hex_DecodeString (c # d # s) =
     (case fromHexChar c of
        None \<Rightarrow> Inl (hex_invalid c)
      | Some a \<Rightarrow>
         (case fromHexChar d of
            None \<Rightarrow> Inl (hex_invalid d)
          | Some b \<Rightarrow> and_then (hex_DecodeString s) (\<lambda>bs. Inr ((push_bit 4 a OR b) # bs))))"

lemma fromHexChar_digit: "i < 16 \<Longrightarrow> fromHexChar (hex_digits ! i) = Some (word_of_nat i)"
proof -
  have "\<forall>i \<in> set [0..<16]. fromHexChar (hex_digits ! i) = Some (word_of_nat i)" by code_simp
  then show "i < 16 \<Longrightarrow> fromHexChar (hex_digits ! i) = Some (word_of_nat i)" by simp
qed

lemma nibbles: "push_bit 4 (drop_bit 4 b) OR (b AND 0x0F) = (b :: byte)"
proof -
  have m: "(0x0F :: byte) = mask 4" by (simp add: mask_eq_exp_minus_1)
  show ?thesis
    unfolding m by (intro bit_word_eqI) (auto simp only: bit_simps le_add_diff_inverse not_less possible_bit_word o_apply)
qed

lemma nibble_less: "unat (drop_bit 4 b) < 16" "unat (b AND 0x0F) < 16" for b :: byte
proof -
  have "unat b < 256" using unsigned_less [of b] by simp
  then show "unat (drop_bit 4 b) < 16" by (simp add: drop_bit_eq_div unat_div less_mult_imp_div_less)
  have "b AND 0x0F = take_bit 4 b" by (simp add: take_bit_eq_mask mask_eq_exp_minus_1)
  then show "unat (b AND 0x0F) < 16" using take_bit_nat_less_exp [of 4 "unat b"] by (simp add: unsigned_take_bit_eq)
qed

lemma hex_roundtrip: "hex_DecodeString (hex_EncodeToString bs) = Inr bs"
  by (induction bs) (simp_all add: hex_EncodeToString_def fromHexChar_digit nibble_less nibbles)

lemma length_hex_EncodeToString [simp]: "length (hex_EncodeToString bs) = 2 * length bs"
  by (induction bs) (simp_all add: hex_EncodeToString_def)

lemma hex_DecodeString_length: "hex_DecodeString s = Inr bs \<Longrightarrow> length s = 2 * length bs"
  by (induction s arbitrary: bs rule: hex_DecodeString.induct)
    (auto simp: and_then_eq_Inr split: option.splits if_splits)

lemma length_hex_digits: "length hex_digits = 16"
  by (simp add: hex_digits_def)

lemma hex_text_chars: "set (hex_EncodeToString bs) \<subseteq> set hex_digits"
proof -
  have "hex_digits ! unat (drop_bit 4 b) \<in> set hex_digits" "hex_digits ! unat (b AND 0x0F) \<in> set hex_digits" for b :: byte
    using nibble_less [of b] by (auto intro!: nth_mem simp: length_hex_digits)
  then show ?thesis by (auto simp: hex_EncodeToString_def)
qed

end
