(* ===== verification/Assets.thy ===== *)
theory Assets
  imports Keys Amounts Errors Go_Strings
begin

text \<open>
  \<open>assets.go\<close>: assets as the program names them (code and issuer), their XDR unions, the
  conversions between the two and their summaries. A union keeps its discriminant and its
  arms apart, as the generated Go code does, so a value whose arm does not fit its
  discriminant can be written down; reading a missing arm is a panic.
\<close>

section \<open>The XDR unions\<close>

definition AssetTypeNative :: int where "AssetTypeNative = 0"
definition AssetTypeCreditAlphanum4 :: int where "AssetTypeCreditAlphanum4 = 1"
definition AssetTypeCreditAlphanum12 :: int where "AssetTypeCreditAlphanum12 = 2"
definition AssetTypePoolShare :: int where "AssetTypePoolShare = 3"

lemmas asset_types [simp, go_defs] =
  AssetTypeNative_def AssetTypeCreditAlphanum4_def AssetTypeCreditAlphanum12_def AssetTypePoolShare_def

text \<open>\<open>AlphaNum4\<close> and \<open>AlphaNum12\<close> differ in the size of the code array only.\<close>

record AlphaNum =
  alpha_AssetCode :: "byte list"
  alpha_Issuer :: AccountId

record xdr_Asset =
  xa_Type :: int
  xa_AlphaNum4 :: "AlphaNum option"
  xa_AlphaNum12 :: "AlphaNum option"

record LiquidityPoolConstantProductParameters =
  lp_AssetA :: xdr_Asset
  lp_AssetB :: xdr_Asset
  lp_Fee :: int32

datatype LiquidityPoolParameters = LiquidityPoolConstantProduct LiquidityPoolConstantProductParameters

record xdr_ChangeTrustAsset =
  xc_Type :: int
  xc_AlphaNum4 :: "AlphaNum option"
  xc_AlphaNum12 :: "AlphaNum option"
  xc_LiquidityPool :: "LiquidityPoolParameters option"

text \<open>The dynamic value handed to a union's constructor; \<open>NoValue\<close> is \<open>nil\<close>.\<close>

datatype asset_value = NoValue | VAlphaNum4 AlphaNum | VAlphaNum12 AlphaNum | VLiquidityPoolParameters LiquidityPoolParameters

definition NewAsset :: "int \<Rightarrow> asset_value \<Rightarrow> xdr_Asset res" where
  "NewAsset aType value =
     (let result = \<lparr>xa_Type = aType, xa_AlphaNum4 = None, xa_AlphaNum12 = None\<rparr> in
      if aType = AssetTypeCreditAlphanum4 then
        (case value of VAlphaNum4 tv \<Rightarrow> Inr (result\<lparr>xa_AlphaNum4 := Some tv\<rparr>)
         | _ \<Rightarrow> Inl (NewError ''invalid value, must be AlphaNum4''))
      else if aType = AssetTypeCreditAlphanum12 then
        (case value of VAlphaNum12 tv \<Rightarrow> Inr (result\<lparr>xa_AlphaNum12 := Some tv\<rparr>)
         | _ \<Rightarrow> Inl (NewError ''invalid value, must be AlphaNum12''))
      else Inr result)"

definition NewChangeTrustAsset :: "int \<Rightarrow> asset_value \<Rightarrow> xdr_ChangeTrustAsset res" where
  "NewChangeTrustAsset aType value =
     (let result = \<lparr>xc_Type = aType, xc_AlphaNum4 = None, xc_AlphaNum12 = None, xc_LiquidityPool = None\<rparr> in
      if aType = AssetTypeCreditAlphanum4 then
        (case value of VAlphaNum4 tv \<Rightarrow> Inr (result\<lparr>xc_AlphaNum4 := Some tv\<rparr>)
         | _ \<Rightarrow> Inl (NewError ''invalid value, must be AlphaNum4''))
      else if aType = AssetTypeCreditAlphanum12 then
        (case value of VAlphaNum12 tv \<Rightarrow> Inr (result\<lparr>xc_AlphaNum12 := Some tv\<rparr>)
         | _ \<Rightarrow> Inl (NewError ''invalid value, must be AlphaNum12''))
      else if aType = AssetTypePoolShare then
        (case value of VLiquidityPoolParameters tv \<Rightarrow> Inr (result\<lparr>xc_LiquidityPool := Some tv\<rparr>)
         | _ \<Rightarrow> Inl (NewError ''invalid value, must be LiquidityPoolParameters''))
      else Inr result)"

section \<open>Assets by name\<close>

record AssetMinimal =
  AssetType :: string
  AssetCode :: string
  AssetIssuer :: string

record AssetSummary =
  UnverifiedWellKnownLink :: string
  as_AssetType :: string
  as_AssetCode :: string
  as_AssetIssuer :: string
  as_Amount :: string
  as_NumAccounts :: int

record PathAsset =
  pa_AssetType :: string
  pa_AssetCode :: string
  pa_AssetIssuer :: string

definition AssetSummary_TypeString :: "AssetSummary \<Rightarrow> string" where [simp]: "AssetSummary_TypeString a = as_AssetType a"
definition AssetSummary_CodeString :: "AssetSummary \<Rightarrow> string" where [simp]: "AssetSummary_CodeString a = as_AssetCode a"
definition AssetSummary_IssuerString :: "AssetSummary \<Rightarrow> string" where [simp]: "AssetSummary_IssuerString a = as_AssetIssuer a"

definition PathAsset_TypeString :: "PathAsset \<Rightarrow> string" where [simp]: "PathAsset_TypeString p = pa_AssetType p"
definition PathAsset_CodeString :: "PathAsset \<Rightarrow> string" where [simp]: "PathAsset_CodeString p = pa_AssetCode p"
definition PathAsset_IssuerString :: "PathAsset \<Rightarrow> string" where [simp]: "PathAsset_IssuerString p = pa_AssetIssuer p"

text \<open>The interface \<open>AssetBase\<close> by its implementations.\<close>

datatype AssetBase = Minimal AssetMinimal | Summary AssetSummary | Path PathAsset

fun TypeString :: "AssetBase \<Rightarrow> string" where
  "TypeString (Minimal a) = AssetType a"
| "TypeString (Summary a) = AssetSummary_TypeString a"
| "TypeString (Path p) = PathAsset_TypeString p"

fun CodeString :: "AssetBase \<Rightarrow> string" where
  "CodeString (Minimal a) = AssetCode a"
| "CodeString (Summary a) = AssetSummary_CodeString a"
| "CodeString (Path p) = PathAsset_CodeString p"

fun IssuerString :: "AssetBase \<Rightarrow> string" where
  "IssuerString (Minimal a) = AssetIssuer a"
| "IssuerString (Summary a) = AssetSummary_IssuerString a"
| "IssuerString (Path p) = PathAsset_IssuerString p"

definition assetCodeToType :: "string \<Rightarrow> string res" where
  "assetCodeToType code =
     (let x = length code in
      if x = 0 then Inr ''native''
      else if 1 \<le> x \<and> x \<le> 4 then Inr ''credit_alphanum4''
      else if 5 \<le> x \<and> x \<le> 12 then Inr ''credit_alphanum12''
      else Inl (NewError ''invalid assetCode length''))"

definition NewAssetMinimal :: "string \<Rightarrow> string \<Rightarrow> AssetMinimal res" where
  "NewAssetMinimal code issuer =
     (let a = \<lparr>AssetType = '''', AssetCode = code, AssetIssuer = issuer\<rparr> in
      if length code = 0 \<and> length issuer = 0 then Inr (a\<lparr>AssetType := ''native''\<rparr>)
      else and_then (assetCodeToType code) (\<lambda>ty. Inr (a\<lparr>AssetType := ty\<rparr>)))"

section \<open>Conversions\<close>

text \<open>\<open>copy(asset.AssetCode[:], []byte(code))\<close> into a zeroed array of \<open>n\<close> bytes.\<close>

definition copy_code :: "nat \<Rightarrow> string \<Rightarrow> byte list" where
  "copy_code n code = take n (map byte_of code @ replicate n 0)"

definition makeXDRChangeTrustAsset :: "string \<Rightarrow> AddressStr \<Rightarrow> xdr_ChangeTrustAsset res" where
  "makeXDRChangeTrustAsset assetCode issuerID =
     (if length assetCode = 0 \<and> length issuerID = 0 then NewChangeTrustAsset AssetTypeNative NoValue
      else and_then (AddressStr_AccountID issuerID) (\<lambda>issuer.
        let x = length assetCode in
        if 1 \<le> x \<and> x \<le> 4 then
          NewChangeTrustAsset AssetTypeCreditAlphanum4
            (VAlphaNum4 \<lparr>alpha_AssetCode = copy_code 4 assetCode, alpha_Issuer = issuer\<rparr>)
        else if 5 \<le> x \<and> x \<le> 1 then
          NewChangeTrustAsset AssetTypeCreditAlphanum12
            (VAlphaNum12 \<lparr>alpha_AssetCode = copy_code 12 assetCode, alpha_Issuer = issuer\<rparr>)
        else Inl (NewError ''invalid assetCode length'')))"

definition makeXDRAsset :: "string \<Rightarrow> AddressStr \<Rightarrow> xdr_Asset res" where
  "makeXDRAsset assetCode issuerID =
     (if length assetCode = 0 \<and> length issuerID = 0 then NewAsset AssetTypeNative NoValue
      else and_then (AddressStr_AccountID issuerID) (\<lambda>issuer.
        let x = length assetCode in
        if 1 \<le> x \<and> x \<le> 4 then
          NewAsset AssetTypeCreditAlphanum4
            (VAlphaNum4 \<lparr>alpha_AssetCode = copy_code 4 assetCode, alpha_Issuer = issuer\<rparr>)
        else if 5 \<le> x \<and> x \<le> 12 then
          NewAsset AssetTypeCreditAlphanum12
            (VAlphaNum12 \<lparr>alpha_AssetCode = copy_code 12 assetCode, alpha_Issuer = issuer\<rparr>)
        else Inl (NewError ''invalid assetCode length'')))"

definition assetBaseIssuer :: "go_crypto \<Rightarrow> AssetBase \<Rightarrow> AddressStr res" where
  "assetBaseIssuer C a = NewAddressStr C (IssuerString a)"

definition assetBaseToXDR :: "go_crypto \<Rightarrow> AssetBase \<Rightarrow> xdr_Asset res" where
  "assetBaseToXDR C a =
     (if length (CodeString a) = 0 \<and> length (IssuerString a) = 0 then NewAsset AssetTypeNative NoValue
      else
        and_then (assetBaseIssuer C a) (\<lambda>issuerAddress.
        and_then (AddressStr_AccountID issuerAddress) (\<lambda>issuerID.
          let x = length (CodeString a) in
          if 1 \<le> x \<and> x \<le> 4 then
            NewAsset AssetTypeCreditAlphanum4
              (VAlphaNum4 \<lparr>alpha_AssetCode = copy_code 4 (CodeString a), alpha_Issuer = issuerID\<rparr>)
          else if 5 \<le> x \<and> x \<le> 12 then
            NewAsset AssetTypeCreditAlphanum12
              (VAlphaNum12 \<lparr>alpha_AssetCode = copy_code 12 (CodeString a), alpha_Issuer = issuerID\<rparr>)
          else Inl (NewError ''invalid asset code length''))))"

text \<open>The code up to the first zero byte.\<close>

definition code_text :: "byte list \<Rightarrow> string" where
  "code_text bs = map char_of_byte (takeWhile (\<lambda>b. b \<noteq> 0) bs)"

text \<open>\<open>a.Issuer.Address()\<close> panics where \<open>GetAddress\<close> fails.\<close>

definition alpha_minimal :: "AlphaNum \<Rightarrow> AssetMinimal res" where
  "alpha_minimal a =
     and_then (AccountId_Address (alpha_Issuer a)) (\<lambda>issuer.
       Inr \<lparr>AssetType = '''', AssetCode = code_text (alpha_AssetCode a), AssetIssuer = issuer\<rparr>)"

definition XDRToAssetMinimal :: "xdr_Asset \<Rightarrow> AssetMinimal res" where
  "XDRToAssetMinimal x =
     (if xa_Type x = AssetTypeNative then Inr \<lparr>AssetType = '''', AssetCode = '''', AssetIssuer = ''''\<rparr>
      else if xa_Type x = AssetTypeCreditAlphanum4 then and_then (deref (xa_AlphaNum4 x)) alpha_minimal
      else if xa_Type x = AssetTypeCreditAlphanum12 then and_then (deref (xa_AlphaNum12 x)) alpha_minimal
      else Inl (NewError ''invalid xdr asset type''))"

definition ChangeTrustXDRToAssetMinimal :: "xdr_ChangeTrustAsset \<Rightarrow> AssetMinimal res" where
  "ChangeTrustXDRToAssetMinimal x =
     (if xc_Type x = AssetTypeNative then Inr \<lparr>AssetType = '''', AssetCode = '''', AssetIssuer = ''''\<rparr>
      else if xc_Type x = AssetTypeCreditAlphanum4 then and_then (deref (xc_AlphaNum4 x)) alpha_minimal
      else if xc_Type x = AssetTypeCreditAlphanum12 then and_then (deref (xc_AlphaNum12 x)) alpha_minimal
      else Inl (NewError ''invalid xdr asset type''))"

section \<open>Summaries\<close>

definition AssetBaseSummary :: "AssetBase \<Rightarrow> string" where
  "AssetBaseSummary a =
     (if TypeString a = ''native'' then ''XLM''
      else if CodeString a = '''' \<and> IssuerString a = '''' then ''XLM''
      else TrimSpace (CodeString a) @ ''/'' @ TrimSpace (IssuerString a))"

text \<open>An error becomes a text, a panic stays one.\<close>

definition asset_or_invalid :: "AssetMinimal res \<Rightarrow> string res" where
  "asset_or_invalid r =
     (case r of
        Inl (Panic msg) \<Rightarrow> Inl (Panic msg)
      | Inl _ \<Rightarrow> Inr ''invalid asset''
      | Inr a \<Rightarrow> Inr (AssetBaseSummary (Minimal a)))"

definition XDRAssetSummary :: "xdr_Asset \<Rightarrow> string res" where
  "XDRAssetSummary x = asset_or_invalid (XDRToAssetMinimal x)"

definition XDRAssetAmountSummary :: "int64 \<Rightarrow> xdr_Asset \<Rightarrow> string res" where
  "XDRAssetAmountSummary amt asset =
     and_then (XDRAssetSummary asset) (\<lambda>s. Inr (StringFromStellarXdrAmount amt @ '' '' @ s))"

definition XDRChangeTrustAssetSummary :: "xdr_ChangeTrustAsset \<Rightarrow> string res" where
  "XDRChangeTrustAssetSummary x = asset_or_invalid (ChangeTrustXDRToAssetMinimal x)"

section \<open>Facts\<close>

text \<open>The XDR form of a named asset, by the length of its code.\<close>

definition xdr_native :: xdr_Asset where
  "xdr_native = \<lparr>xa_Type = 0, xa_AlphaNum4 = None, xa_AlphaNum12 = None\<rparr>"

definition xdr_credit :: "string \<Rightarrow> AccountId \<Rightarrow> xdr_Asset" where
  "xdr_credit code issuer =
     (if length code \<le> 4
      then \<lparr>xa_Type = 1, xa_AlphaNum4 = Some \<lparr>alpha_AssetCode = copy_code 4 code, alpha_Issuer = issuer\<rparr>, xa_AlphaNum12 = None\<rparr>
      else \<lparr>xa_Type = 2, xa_AlphaNum4 = None, xa_AlphaNum12 = Some \<lparr>alpha_AssetCode = copy_code 12 code, alpha_Issuer = issuer\<rparr>\<rparr>)"

lemma makeXDRAsset_eq_Inr:
  "makeXDRAsset code issuer = Inr x \<longleftrightarrow>
     (code = [] \<and> issuer = [] \<and> x = xdr_native) \<or>
     (1 \<le> length code \<and> length code \<le> 12 \<and>
        (\<exists>aid. AddressStr_AccountID issuer = Inr aid \<and> x = xdr_credit code aid))"
proof (cases "code = [] \<and> issuer = []")
  case True
  then show ?thesis by (auto simp: makeXDRAsset_def NewAsset_def xdr_native_def)
next
  case False
  then show ?thesis
    by (cases "AddressStr_AccountID issuer")
      (auto simp: makeXDRAsset_def NewAsset_def xdr_credit_def Let_def)
qed

lemma makeXDRChangeTrustAsset_eq_Inr:
  "makeXDRChangeTrustAsset code issuer = Inr x \<longleftrightarrow>
     (code = [] \<and> issuer = [] \<and> x = \<lparr>xc_Type = 0, xc_AlphaNum4 = None, xc_AlphaNum12 = None, xc_LiquidityPool = None\<rparr>) \<or>
     (1 \<le> length code \<and> length code \<le> 4 \<and>
        (\<exists>aid. AddressStr_AccountID issuer = Inr aid \<and>
           x = \<lparr>xc_Type = 1, xc_AlphaNum4 = Some \<lparr>alpha_AssetCode = copy_code 4 code, alpha_Issuer = aid\<rparr>,
                xc_AlphaNum12 = None, xc_LiquidityPool = None\<rparr>))"
proof (cases "code = [] \<and> issuer = []")
  case True
  then show ?thesis by (auto simp: makeXDRChangeTrustAsset_def NewChangeTrustAsset_def)
next
  case False
  then show ?thesis
    by (cases "AddressStr_AccountID issuer")
      (auto simp: makeXDRChangeTrustAsset_def NewChangeTrustAsset_def Let_def)
qed

lemma AccountID_of_address: "AddressStr_AccountID s = Inr aid \<Longrightarrow> NewAddressStr C s = Inr s"
  by (auto simp: AddressStr_AccountID_def AccountId_SetAddress_eq_Inr NewAddressStr_eq_Inr)

lemma AccountID_Address:
  "plain_text s \<Longrightarrow> AddressStr_AccountID s = Inr aid \<Longrightarrow> AccountId_Address aid = Inr s"
  using strkey_canonical [of s VersionByteAccountID]
  by (auto simp: AddressStr_AccountID_def AccountId_SetAddress_eq_Inr AccountId_Address_def simp del: strkey_Encode_address_of)

lemma byte_of_eq_0: "byte_of c = 0 \<longleftrightarrow> c = CHR 0x00"
proof -
  have "byte_of (CHR 0x00) = 0" by (simp add: byte_of_def)
  then show ?thesis by (metis byte_of_inject)
qed

lemma code_text_copy:
  assumes "length code \<le> n" "CHR 0x00 \<notin> set code"
  shows "code_text (copy_code n code) = code"
proof -
  have "\<forall>b \<in> set (map byte_of code). b \<noteq> 0" using assms(2) by (auto simp: byte_of_eq_0)
  then have "takeWhile (\<lambda>b. b \<noteq> 0) (map byte_of code @ replicate k 0) = map byte_of code" for k
    by (cases k) (simp_all add: takeWhile_append2 del: set_map)
  with assms(1) show ?thesis by (simp add: code_text_def copy_code_def map_idI)
qed

lemma AccountId_Address_ok [simp]: "\<exists>s. AccountId_Address aid = Inr s"
  by (simp add: AccountId_Address_def)

lemma XDRToAssetMinimal_credit:
  assumes "1 \<le> length code" "length code \<le> 12" "CHR 0x00 \<notin> set code" "AccountId_Address aid = Inr issuer"
  shows "XDRToAssetMinimal (xdr_credit code aid) = Inr \<lparr>AssetType = '''', AssetCode = code, AssetIssuer = issuer\<rparr>"
  using assms by (simp add: XDRToAssetMinimal_def xdr_credit_def deref_def alpha_minimal_def code_text_copy)

text \<open>
  The code a credit asset is made from, in either direction: what \<open>makeXDRAsset\<close> builds,
  \<open>XDRToAssetMinimal\<close> names again.
\<close>

locale asset_naming =
  fixes make :: "string \<Rightarrow> string \<Rightarrow> 'x res" and name :: "'x \<Rightarrow> AssetMinimal res"
  assumes name_make:
    "CHR 0x00 \<notin> set code \<Longrightarrow> plain_text issuer \<Longrightarrow> make code issuer = Inr x \<Longrightarrow>
      name x = Inr \<lparr>AssetType = [], AssetCode = code, AssetIssuer = issuer\<rparr>"
begin

lemma make_inject:
  assumes "CHR 0x00 \<notin> set code" "plain_text issuer" "CHR 0x00 \<notin> set code'" "plain_text issuer'"
    and "make code issuer = Inr x" "make code' issuer' = Inr x"
  shows "code = code' \<and> issuer = issuer'"
  using name_make [OF assms(1,2,5)] name_make [OF assms(3,4,6)] by simp

end

interpretation assets: asset_naming makeXDRAsset XDRToAssetMinimal
proof unfold_locales
  fix code issuer x
  assume "CHR 0x00 \<notin> set code" "plain_text issuer" "makeXDRAsset code issuer = Inr x"
  then show "XDRToAssetMinimal x = Inr \<lparr>AssetType = [], AssetCode = code, AssetIssuer = issuer\<rparr>"
    by (auto simp: makeXDRAsset_eq_Inr XDRToAssetMinimal_credit AccountID_Address)
      (simp add: XDRToAssetMinimal_def xdr_native_def)
qed

interpretation trust_assets: asset_naming makeXDRChangeTrustAsset ChangeTrustXDRToAssetMinimal
proof unfold_locales
  fix code issuer x
  assume "CHR 0x00 \<notin> set code" "plain_text issuer" "makeXDRChangeTrustAsset code issuer = Inr x"
  then show "ChangeTrustXDRToAssetMinimal x = Inr \<lparr>AssetType = [], AssetCode = code, AssetIssuer = issuer\<rparr>"
    by (auto simp: makeXDRChangeTrustAsset_eq_Inr ChangeTrustXDRToAssetMinimal_def deref_def alpha_minimal_def
        code_text_copy AccountID_Address)
qed

section \<open>Properties\<close>

text \<open>
  C29. Two assets named without zero bytes and with addresses in canonical form have the
  same XDR form only if they have the same code and issuer, and the XDR form names them
  again (the type string is left empty).
\<close>

theorem makeXDRAsset_roundtrip:
  assumes "CHR 0x00 \<notin> set code" and "plain_text issuer" and "makeXDRAsset code issuer = Inr x"
  shows "XDRToAssetMinimal x = Inr \<lparr>AssetType = [], AssetCode = code, AssetIssuer = issuer\<rparr>"
  using assms by (rule assets.name_make)

theorem makeXDRAsset_roundtrip_witness:
  "\<exists>x. makeXDRAsset ''USD'' (address_of (replicate 32 0)) = Inr x \<and>
     XDRToAssetMinimal x = Inr \<lparr>AssetType = [], AssetCode = ''USD'', AssetIssuer = address_of (replicate 32 0)\<rparr>"
proof -
  have "makeXDRAsset ''USD'' (address_of (replicate 32 0)) = Inr (xdr_credit ''USD'' (AccountId (replicate 32 0)))"
    by (simp add: makeXDRAsset_eq_Inr AddressStr_AccountID_def AccountId_SetAddress_eq_Inr)
  from makeXDRAsset_roundtrip [OF _ _ this] this show ?thesis by simp
qed

text \<open>
  C14. The asset of a payment is built the same way whatever carries its name: converting an
  \<open>AssetBase\<close> gives what \<open>makeXDRAsset\<close> gives on its code and issuer, and succeeds
  exactly when both are empty or the issuer is an account identifier and the code has one
  to twelve bytes.
\<close>

theorem assetBaseToXDR_makeXDRAsset:
  "(assetBaseToXDR C a = Inr x \<longleftrightarrow> makeXDRAsset (CodeString a) (IssuerString a) = Inr x) \<and>
   (is_ok (assetBaseToXDR C a) \<longleftrightarrow>
      (CodeString a = [] \<and> IssuerString a = []) \<or>
      (1 \<le> length (CodeString a) \<and> length (CodeString a) \<le> 12 \<and> is_ok (AddressStr_AccountID (IssuerString a))))"
proof -
  have eq: "assetBaseToXDR C a = Inr y \<longleftrightarrow> makeXDRAsset (CodeString a) (IssuerString a) = Inr y" for y
  proof (cases "AddressStr_AccountID (IssuerString a)")
    case (Inl e)
    have "NewAddressStr C (IssuerString a) = Inr b \<Longrightarrow> b = IssuerString a" for b by (simp add: NewAddressStr_eq_Inr)
    with Inl show ?thesis
      by (cases "NewAddressStr C (IssuerString a)")
        (auto simp: assetBaseToXDR_def makeXDRAsset_def assetBaseIssuer_def)
  next
    case (Inr aid)
    then have "NewAddressStr C (IssuerString a) = Inr (IssuerString a)" by (rule AccountID_of_address)
    with Inr show ?thesis
      by (auto simp: assetBaseToXDR_def makeXDRAsset_def assetBaseIssuer_def Let_def)
  qed
  then show ?thesis by (auto simp: is_ok_iff makeXDRAsset_eq_Inr)
qed

text \<open>
  The asset of a trust line is refused for every code of five to twelve bytes, which a
  payment accepts: the guard of the twelve-byte branch can never hold.
\<close>

theorem change_trust_long_code:
  assumes "5 \<le> length code" and "length code \<le> 12" and "AddressStr_AccountID issuer = Inr aid"
  shows "makeXDRAsset code issuer = Inr (xdr_credit code aid) \<and>
    makeXDRChangeTrustAsset code issuer = Inl (NewError ''invalid assetCode length'')"
  using assms by (auto simp: makeXDRAsset_eq_Inr makeXDRChangeTrustAsset_def)

theorem change_trust_long_code_witness:
  "makeXDRChangeTrustAsset ''EURTX'' (address_of (replicate 32 0)) = Inl (NewError ''invalid assetCode length'')"
  using change_trust_long_code [of "''EURTX''" "address_of (replicate 32 0)" "AccountId (replicate 32 0)"]
  by (simp add: AddressStr_AccountID_def AccountId_SetAddress_eq_Inr)

text \<open>
  C21. \<open>NewAssetMinimal\<close> infers the type that the asset's XDR form has, for every asset
  that has one; it also accepts an issuer without a code, as a native asset, which has none.
\<close>

theorem NewAssetMinimal_type:
  "(\<forall>x. makeXDRAsset code issuer = Inr x \<longrightarrow>
      NewAssetMinimal code issuer = Inr \<lparr>AssetType =
        (if xa_Type x = AssetTypeNative then ''native''
         else if xa_Type x = AssetTypeCreditAlphanum4 then ''credit_alphanum4'' else ''credit_alphanum12''),
        AssetCode = code, AssetIssuer = issuer\<rparr>) \<and>
   (issuer \<noteq> [] \<longrightarrow> NewAssetMinimal [] issuer = Inr \<lparr>AssetType = ''native'', AssetCode = [], AssetIssuer = issuer\<rparr> \<and>
      \<not> is_ok (makeXDRAsset [] issuer))"
  by (auto simp: makeXDRAsset_eq_Inr NewAssetMinimal_def assetCodeToType_def Let_def xdr_native_def xdr_credit_def is_ok_iff)

theorem NewAssetMinimal_type_witness:
  "NewAssetMinimal ''USD'' (address_of (replicate 32 0)) =
     Inr \<lparr>AssetType = ''credit_alphanum4'', AssetCode = ''USD'', AssetIssuer = address_of (replicate 32 0)\<rparr>"
proof -
  have "makeXDRAsset ''USD'' (address_of (replicate 32 0)) = Inr (xdr_credit ''USD'' (AccountId (replicate 32 0)))"
    by (simp add: makeXDRAsset_eq_Inr AddressStr_AccountID_def AccountId_SetAddress_eq_Inr)
  with NewAssetMinimal_type [of "''USD''" "address_of (replicate 32 0)"] show ?thesis
    by (simp add: xdr_credit_def)
qed

end
