(* ===== verification/Memos.thy ===== *)
theory Memos
  imports Go_Strings
begin

text \<open>
  \<open>memo.go\<close>: the package's memo and its XDR union. A memo is a discriminant with one
  pointer per kind; reading an unset pointer is a panic.
\<close>

section \<open>Memos\<close>

definition MemoTypeNone :: int where "MemoTypeNone = 0"
definition MemoTypeText :: int where "MemoTypeText = 1"
definition MemoTypeID :: int where "MemoTypeID = 2"
definition MemoTypeHash :: int where "MemoTypeHash = 3"
definition MemoTypeReturn :: int where "MemoTypeReturn = 4"

lemmas memo_types [simp, go_defs] =
  MemoTypeNone_def MemoTypeText_def MemoTypeID_def MemoTypeHash_def MemoTypeReturn_def

type_synonym MemoHash = "byte list"

record Memo =
  memo_Type :: int
  memo_Text :: "string option"
  memo_ID :: "uint64 option"
  memo_Hash :: "MemoHash option"
  memo_ReturnHash :: "MemoHash option"

definition empty_memo :: Memo where
  "empty_memo = \<lparr>memo_Type = MemoTypeNone, memo_Text = None, memo_ID = None, memo_Hash = None, memo_ReturnHash = None\<rparr>"

definition NewMemoNone :: Memo where "NewMemoNone = empty_memo"

definition NewMemoText :: "string \<Rightarrow> Memo" where
  "NewMemoText s = empty_memo\<lparr>memo_Type := MemoTypeText, memo_Text := Some s\<rparr>"

definition NewMemoID :: "uint64 \<Rightarrow> Memo" where
  "NewMemoID n = empty_memo\<lparr>memo_Type := MemoTypeID, memo_ID := Some n\<rparr>"

definition NewMemoHash :: "MemoHash \<Rightarrow> Memo" where
  "NewMemoHash h = empty_memo\<lparr>memo_Type := MemoTypeHash, memo_Hash := Some h\<rparr>"

definition NewMemoReturn :: "MemoHash \<Rightarrow> Memo" where
  "NewMemoReturn h = empty_memo\<lparr>memo_Type := MemoTypeReturn, memo_ReturnHash := Some h\<rparr>"

text \<open>\<open>copy(h[:], decoded)\<close> into a zeroed array of 32 bytes.\<close>

definition copy_hash :: "byte list \<Rightarrow> MemoHash" where
  "copy_hash decoded = take 32 (decoded @ replicate 32 0)"

definition NewMemoFromStrings :: "string \<Rightarrow> string \<Rightarrow> Memo res" where
  "NewMemoFromStrings i kind =
     (let k = ToLower kind in
      if k = ''none'' \<or> k = [] then
        if i \<noteq> [] then Inl (NewError ''invalid memo: nonempty string for memo type none'') else Inr NewMemoNone
      else if k = ''text'' then Inr (NewMemoText i)
      else if k = ''id'' then
        (case parse_uint 64 i of
           Inl err \<Rightarrow> Inl (Errorf ''invalid memo: could not convert to uint64 id (%s)'' [AErr err])
         | Inr n \<Rightarrow> Inr (NewMemoID (word_of_nat n)))
      else if k = ''hash'' then
        (case hex_DecodeString i of
           Inl err \<Rightarrow> Inl (Errorf ''invalid memo: could not decode hex input string for hash (%s)'' [AErr err])
         | Inr decoded \<Rightarrow> Inr (NewMemoHash (copy_hash decoded)))
      else if k = ''return'' then
        (case hex_DecodeString i of
           Inl err \<Rightarrow> Inl (Errorf ''invalid memo: could not decode hex input string for hash (%s)'' [AErr err])
         | Inr decoded \<Rightarrow> Inr (NewMemoReturn (copy_hash decoded)))
      else Inl (NewError ''invalid memo:  unknown type''))"

section \<open>The XDR union\<close>

record xdr_Memo =
  xm_Type :: int
  xm_Text :: "string option"
  xm_Id :: "uint64 option"
  xm_Hash :: "byte list option"
  xm_RetHash :: "byte list option"

definition xdr_no_memo :: xdr_Memo where
  "xdr_no_memo = \<lparr>xm_Type = 0, xm_Text = None, xm_Id = None, xm_Hash = None, xm_RetHash = None\<rparr>"

datatype memo_value = MemoNil | MemoString string | MemoUint64 uint64 | MemoHashValue "byte list"

definition NewMemo :: "int \<Rightarrow> memo_value \<Rightarrow> xdr_Memo res" where
  "NewMemo aType value =
     (let result = xdr_no_memo\<lparr>xm_Type := aType\<rparr> in
      if aType = MemoTypeText then
        (case value of MemoString tv \<Rightarrow> Inr (result\<lparr>xm_Text := Some tv\<rparr>)
         | _ \<Rightarrow> Inl (NewError ''invalid value, must be string''))
      else if aType = MemoTypeID then
        (case value of MemoUint64 tv \<Rightarrow> Inr (result\<lparr>xm_Id := Some tv\<rparr>)
         | _ \<Rightarrow> Inl (NewError ''invalid value, must be Uint64''))
      else if aType = MemoTypeHash then
        (case value of MemoHashValue tv \<Rightarrow> Inr (result\<lparr>xm_Hash := Some tv\<rparr>)
         | _ \<Rightarrow> Inl (NewError ''invalid value, must be Hash''))
      else if aType = MemoTypeReturn then
        (case value of MemoHashValue tv \<Rightarrow> Inr (result\<lparr>xm_RetHash := Some tv\<rparr>)
         | _ \<Rightarrow> Inl (NewError ''invalid value, must be Hash''))
      else Inr result)"

definition Memo_toXDR :: "Memo \<Rightarrow> xdr_Memo res" where
  "Memo_toXDR m =
     (if memo_Type m = MemoTypeNone then NewMemo 0 MemoNil
      else if memo_Type m = MemoTypeText then and_then (deref (memo_Text m)) (\<lambda>s. NewMemo 1 (MemoString s))
      else if memo_Type m = MemoTypeID then and_then (deref (memo_ID m)) (\<lambda>n. NewMemo 2 (MemoUint64 n))
      else if memo_Type m = MemoTypeHash then and_then (deref (memo_Hash m)) (\<lambda>h. NewMemo 3 (MemoHashValue h))
      else if memo_Type m = MemoTypeReturn then and_then (deref (memo_ReturnHash m)) (\<lambda>h. NewMemo 4 (MemoHashValue h))
      else Inl (NewError ''unknown memo type''))"

section \<open>Facts\<close>

lemmas new_memos = NewMemoNone_def NewMemoText_def NewMemoID_def NewMemoHash_def NewMemoReturn_def empty_memo_def

text \<open>A memo the constructors can make: the pointer of its kind is set.\<close>

inductive built_memo :: "Memo \<Rightarrow> bool" where
  "built_memo NewMemoNone"
| "built_memo (NewMemoText s)"
| "built_memo (NewMemoID n)"
| "built_memo (NewMemoHash h)"
| "built_memo (NewMemoReturn h)"

lemma built_memo_toXDR: "built_memo m \<Longrightarrow> \<exists>x. Memo_toXDR m = Inr x \<and> xm_Type x = memo_Type m"
  by (induction rule: built_memo.induct) (simp_all add: Memo_toXDR_def NewMemo_def new_memos Let_def xdr_no_memo_def)

lemma NewMemoFromStrings_built: "NewMemoFromStrings i kind = Inr m \<Longrightarrow> built_memo m"
  by (auto simp: NewMemoFromStrings_def Let_def intro: built_memo.intros split: if_splits sum.splits)

lemma length_copy_hash [simp]: "length (copy_hash bs) = 32"
  by (simp add: copy_hash_def)

lemma copy_hash_32: "length bs = 32 \<Longrightarrow> copy_hash bs = bs"
  by (simp add: copy_hash_def)

section \<open>Properties\<close>

text \<open>
  Every memo read from strings has an XDR form of the same kind; it is read exactly when
  the kind, in any case, is empty or "none" (with no text), "text", "id" with a 64-bit
  decimal, or "hash" or "return" with hexadecimal text.
\<close>

theorem NewMemoFromStrings_accepts:
  "(case NewMemoFromStrings i kind of
      Inr m \<Rightarrow> \<exists>x. Memo_toXDR m = Inr x \<and> xm_Type x = memo_Type m \<and>
        (ToLower kind, memo_Type m) \<in> {([], 0), (''none'', 0), (''text'', 1), (''id'', 2), (''hash'', 3), (''return'', 4)}
    | Inl e \<Rightarrow>
        \<not> (ToLower kind \<in> {[], ''none''} \<and> i = []) \<and> ToLower kind \<noteq> ''text'' \<and>
        \<not> (ToLower kind = ''id'' \<and> is_ok (parse_uint 64 i)) \<and>
        \<not> (ToLower kind \<in> {''hash'', ''return''} \<and> is_ok (hex_DecodeString i)))"
proof (cases "NewMemoFromStrings i kind")
  case (Inl e)
  then show ?thesis by (auto simp: NewMemoFromStrings_def Let_def split: if_splits sum.splits)
next
  case (Inr m)
  moreover have "(ToLower kind, memo_Type m) \<in> {([], 0), (''none'', 0), (''text'', 1), (''id'', 2), (''hash'', 3), (''return'', 4)}"
    using Inr by (auto simp: NewMemoFromStrings_def Let_def new_memos split: if_splits sum.splits)
  ultimately show ?thesis using built_memo_toXDR [OF NewMemoFromStrings_built [OF Inr]] by auto
qed

text \<open>
  A memo identifier survives its decimal text and a 32-byte hash its hexadecimal text.
  A hash of any other length is also taken, silently cut or filled with zeros to 32 bytes.
\<close>

theorem memo_strings_roundtrip:
  "and_then (NewMemoFromStrings (show_nat (unat n)) ''id'') Memo_toXDR = NewMemo 2 (MemoUint64 n) \<and>
   and_then (NewMemoFromStrings (hex_EncodeToString h) ''hash'') Memo_toXDR =
     NewMemo 3 (MemoHashValue (take 32 (h @ replicate (32 - length h) 0))) \<and>
   and_then (NewMemoFromStrings (hex_EncodeToString h) ''return'') Memo_toXDR =
     NewMemo 4 (MemoHashValue (take 32 (h @ replicate (32 - length h) 0)))"
proof -
  have "unat n < 18446744073709551616" using unsigned_less [of n] by simp
  then have "parse_uint 64 (show_nat (unat n)) = Inr (unat n)" by simp
  moreover have "copy_hash h = take 32 (h @ replicate (32 - length h) 0)"
    by (simp add: copy_hash_def take_replicate)
  moreover have "ToLower ''id'' = ''id''" "ToLower ''hash'' = ''hash''" "ToLower ''return'' = ''return''"
    by (simp_all add: HasPrefix_def less_eq_char_def)
  ultimately show ?thesis
    by (simp add: NewMemoFromStrings_def hex_roundtrip Memo_toXDR_def new_memos Let_def)
qed

end
