(* ===== verification/Prices.thy ===== *)
theory Prices
  imports Amounts
begin

text \<open>
  The vendored \<open>price\<close> package, which the builder calls for the price of an offer:
  \<open>continuedFraction\<close> expands the price into its continued fraction until a numerator or
  denominator would leave \<open>int32\<close>. The last two convergents are the loop's state.
\<close>

section \<open>The loop\<close>

definition MaxInt32 :: int where "MaxInt32 = 2147483647"

record xdr_Price =
  price_N :: int32
  price_D :: int32

lemma fraction_denominator:
  assumes "x - of_int \<lfloor>x\<rfloor> \<noteq> (0 :: rat)"
  shows "quotient_of (1 / (x - of_int \<lfloor>x\<rfloor>)) = (snd (quotient_of x), fst (quotient_of x) mod snd (quotient_of x))"
    and "fst (quotient_of x) mod snd (quotient_of x) \<noteq> 0"
proof -
  obtain s t where q: "quotient_of x = (s, t)" by (cases "quotient_of x")
  then have t: "0 < t" and x: "x = of_int s / of_int t" and co: "coprime s t"
    using quotient_of_denom_pos quotient_of_div quotient_of_coprime by auto
  have fl: "\<lfloor>x\<rfloor> = s div t" by (simp add: x floor_divide_of_int_eq)
  have "rat_of_int s = of_int (s div t) * of_int t + of_int (s mod t)"
    by (metis div_mult_mod_eq of_int_add of_int_mult)
  then have f: "x - of_int \<lfloor>x\<rfloor> = of_int (s mod t) / of_int t"
    using t by (simp add: fl) (simp add: x field_simps)
  with assms have r: "s mod t \<noteq> 0" by auto
  moreover have "0 \<le> s mod t" using t by simp
  ultimately have "0 < s mod t" by simp
  moreover have "coprime t (s mod t)" using co t by (simp add: coprime_mod_right_iff coprime_commute)
  moreover have "1 / (x - of_int \<lfloor>x\<rfloor>) = Fract t (s mod t)" by (simp add: f Fract_of_int_quotient)
  ultimately show "quotient_of (1 / (x - of_int \<lfloor>x\<rfloor>)) = (snd (quotient_of x), fst (quotient_of x) mod snd (quotient_of x))"
    by (simp add: quotient_of_Fract Rat.normalize_def q)
  show "fst (quotient_of x) mod snd (quotient_of x) \<noteq> 0" using r by (simp add: q)
qed

function cf_loop :: "rat \<Rightarrow> int \<times> int \<Rightarrow> int \<times> int \<Rightarrow> int \<times> int" where
  "cf_loop number (h2, k2) (h1, k1) =
     (if of_int MaxInt32 < number then (h1, k1)
      else
        let a = \<lfloor>number\<rfloor>; f = number - of_int a; h = a * h1 + h2; k = a * k1 + k2 in
        if MaxInt32 < h \<or> MaxInt32 < k then (h1, k1)
        else if f = 0 then (h, k)
        else cf_loop (1 / f) (h1, k1) (h, k))"
  by pat_completeness auto
termination
proof (relation "measure (\<lambda>(number, _, _). nat (snd (quotient_of number)))", simp, goal_cases)
  case (1 number h2 k2 h1 k1 a f h k)
  then have "f = number - of_int \<lfloor>number\<rfloor>" "f \<noteq> 0" by auto
  then have "snd (quotient_of (1 / f)) = fst (quotient_of number) mod snd (quotient_of number)"
    using fraction_denominator(1) [of number] by simp
  moreover have "0 < snd (quotient_of number)" by (rule quotient_of_denom_pos')
  ultimately show ?case using pos_mod_bound [of "snd (quotient_of number)" "fst (quotient_of number)"] by simp
qed

declare cf_loop.simps [simp del]

definition price_Parse :: "string \<Rightarrow> xdr_Price res" where
  "price_Parse price =
     (if \<not> MatchString validAmountSimple price then Inl (Errorf ''invalid price format: %s'' [AStr price])
      else case rat_SetString price of
          None \<Rightarrow> Inl (Errorf ''cannot parse price: %s'' [AStr price])
        | Some number \<Rightarrow>
            let (n, d) = cf_loop number (0, 1) (1, 0) in
            if n = 0 \<or> d = 0 then Inl (NewError ''Couldn't find approximation'')
            else Inr \<lparr>price_N = word_of_int n, price_D = word_of_int d\<rparr>)"

section \<open>Exactness and accuracy\<close>

text \<open>A fraction that fits is found exactly: the convergents of \<open>p/q\<close> never exceed \<open>p\<close> and \<open>q\<close>.\<close>

lemma cf_loop_exact:
  assumes "quotient_of number = (s, t)" "0 < s" "p = s * h1 + t * h2" "q = s * k1 + t * k2"
    and "0 \<le> h1" "0 \<le> h2" "0 \<le> k1" "0 \<le> k2" "p \<le> MaxInt32" "q \<le> MaxInt32"
    and "(1 \<le> k1 \<and> t \<le> s) \<or> (k1 = 0 \<and> 1 \<le> h1 \<and> 1 \<le> k2)"
  shows "cf_loop number (h2, k2) (h1, k1) = (p, q)"
  using assms
proof (induction number "(h2, k2)" "(h1, k1)" arbitrary: s t h2 k2 h1 k1 rule: cf_loop.induct)
  case (1 number h2 k2 h1 k1)
  note st = "1.prems"(1) and sums = "1.prems"(3,4) and nonneg = "1.prems"(5-8) and fit = "1.prems"(9,10)
  have t: "0 < t" and x: "number = of_int s / of_int t" and co: "coprime s t"
    using st quotient_of_denom_pos quotient_of_div quotient_of_coprime by auto
  define a r where "a = s div t" and "r = s mod t"
  have fl: "\<lfloor>number\<rfloor> = a" by (simp add: x a_def floor_divide_of_int_eq)
  have sa: "s = a * t + r" and r: "0 \<le> r" "r < t" and a: "0 \<le> a"
    using t \<open>0 < s\<close> by (simp_all add: a_def r_def pos_imp_zdiv_nonneg_iff)
  have p: "p = t * (a * h1 + h2) + r * h1" and q: "q = t * (a * k1 + k2) + r * k1"
    by (simp_all add: sums sa algebra_simps)
  have "s \<le> MaxInt32"
  proof (cases "1 \<le> k1")
    case True
    then have "s * 1 \<le> s * k1" using \<open>0 < s\<close> by (intro mult_left_mono) auto
    then show ?thesis using sums fit nonneg t by (smt (verit) mult_nonneg_nonneg)
  next
    case False
    then have "1 \<le> h1" using "1.prems"(11) by auto
    then have "s * 1 \<le> s * h1" using \<open>0 < s\<close> by (intro mult_left_mono) auto
    then show ?thesis using sums fit nonneg t by (smt (verit) mult_nonneg_nonneg)
  qed
  then have "\<not> of_int MaxInt32 < number"
  proof -
    have "MaxInt32 * 1 \<le> MaxInt32 * t" using t by (intro mult_left_mono) (auto simp: MaxInt32_def)
    then have "s \<le> MaxInt32 * t" using \<open>s \<le> MaxInt32\<close> by simp
    then have "rat_of_int s \<le> of_int MaxInt32 * of_int t" by (metis of_int_le_iff of_int_mult)
    then show ?thesis using t by (simp add: x not_less pos_divide_le_eq)
  qed
  moreover have hk: "a * h1 + h2 \<le> p" "a * k1 + k2 \<le> q"
  proof -
    have le: "y \<le> t * y + r * z" if "0 \<le> y" "0 \<le> z" for y z
    proof -
      have "1 * y \<le> t * y" using t that by (intro mult_right_mono) simp_all
      moreover have "0 \<le> r * z" using r that by simp
      ultimately show ?thesis by linarith
    qed
    show "a * h1 + h2 \<le> p" "a * k1 + k2 \<le> q"
      unfolding p q using a nonneg by (simp_all add: le)
  qed
  moreover have "\<not> (MaxInt32 < a * h1 + h2 \<or> MaxInt32 < a * k1 + k2)" using hk fit by linarith
  moreover have f: "number - of_int a = of_int r / of_int t"
    using t by (simp add: x sa add_divide_distrib)
  moreover have "cf_loop number (h2, k2) (h1, k1) =
      (if of_int r / of_int t = (0 :: rat) then (a * h1 + h2, a * k1 + k2)
       else cf_loop (1 / (number - of_int a)) (h1, k1) (a * h1 + h2, a * k1 + k2))"
    using calculation by (subst cf_loop.simps) (simp only: fl f Let_def if_False)
  ultimately show ?case
  proof (cases "r = 0")
    case True
    then have "t = 1" using co sa t by simp
    with True p q \<open>cf_loop number (h2, k2) (h1, k1) = _\<close> show ?thesis by simp
  next
    case False
    have "cf_loop (1 / (number - of_int a)) (h1, k1) (a * h1 + h2, a * k1 + k2) = (p, q)"
    proof (rule "1.hyps")
      show "quotient_of (1 / (number - of_int a)) = (t, r)"
        using fraction_denominator(1) [of number] False f t by (simp add: fl st r_def)
      show "(1 \<le> a * k1 + k2 \<and> r \<le> t) \<or> (a * k1 + k2 = 0 \<and> 1 \<le> a * h1 + h2 \<and> 1 \<le> k1)"
      proof (cases "k1 = 0")
        case False
        with "1.prems"(11) have "1 \<le> k1" "t \<le> s" by auto
        then have "1 \<le> a" using t by (simp add: a_def int_one_le_iff_zero_less pos_imp_zdiv_pos_iff)
        then have "1 * 1 \<le> a * k1" using \<open>1 \<le> k1\<close> by (intro mult_mono) auto
        then show ?thesis using nonneg r by simp
      qed (use "1.prems"(11) r in auto)
    qed (use \<open>\<not> of_int MaxInt32 < number\<close> \<open>\<not> (MaxInt32 < _ \<or> _)\<close> False f t p q a nonneg fit fl in \<open>auto simp: algebra_simps\<close>)
    with False t \<open>cf_loop number (h2, k2) (h1, k1) = _\<close> show ?thesis by simp
  qed
qed

text \<open>Every result lies within a half of the squared denominator's reciprocal, and within range.\<close>

lemma cf_loop_close:
  assumes "x * (number * of_int k1 + of_int k2) = number * of_int h1 + of_int h2"
    and "\<bar>h2 * k1 - h1 * k2\<bar> = 1" and "0 \<le> number"
    and "(1 \<le> k1 \<and> 1 \<le> number) \<or> (k1 = 0 \<and> 1 \<le> k2)"
    and "0 \<le> h1" "0 \<le> h2" "0 \<le> k1" "0 \<le> k2" "h1 \<le> MaxInt32" "k1 \<le> MaxInt32"
    and "cf_loop number (h2, k2) (h1, k1) = (n, d)"
  shows "0 \<le> n \<and> n \<le> MaxInt32 \<and> 0 \<le> d \<and> d \<le> MaxInt32 \<and>
    (1 \<le> d \<longrightarrow> \<bar>x - of_int n / of_int d\<bar> \<le> 1 / (of_int d)\<^sup>2)"
  using assms
proof (induction number "(h2, k2)" "(h1, k1)" arbitrary: h2 k2 h1 k1 rule: cf_loop.induct)
  case (1 number h2 k2 h1 k1)
  define a where "a = \<lfloor>number\<rfloor>"
  have a: "0 \<le> a" "rat_of_int a \<le> number" "number < of_int a + 1" using "1.prems"(3) floor_correct [of number] by (simp_all add: a_def)
  let ?f = "number - of_int a" and ?h = "a * h1 + h2" and ?k = "a * k1 + k2"
  have step: "(n, d) =
      (if of_int MaxInt32 < number \<or> MaxInt32 < ?h \<or> MaxInt32 < ?k then (h1, k1)
       else if ?f = 0 then (?h, ?k) else cf_loop (1 / ?f) (h1, k1) (?h, ?k))"
    unfolding "1.prems"(11) [symmetric] by (subst cf_loop.simps) (simp only: a_def [symmetric] Let_def split: if_split, blast)
  have here: "\<bar>x - of_int h1 / of_int k1\<bar> \<le> 1 / (of_int k1)\<^sup>2" if "1 \<le> k1"
  proof -
    have k1: "(0 :: rat) < of_int k1" using that by simp
    have num: "1 \<le> number" using that "1.prems"(4) by auto
    have "1 * rat_of_int k1 \<le> number * of_int k1" using num k1 by (intro mult_right_mono) auto
    then have den: "of_int k1 \<le> number * of_int k1 + of_int k2" using "1.prems"(8) by (simp add: add_increasing2)
    then have pos: "0 < number * rat_of_int k1 + of_int k2" using k1 by linarith
    have "(x - of_int h1 / of_int k1) * (of_int k1 * (number * of_int k1 + of_int k2)) = of_int (h2 * k1 - h1 * k2)"
    proof -
      have "(x - of_int h1 / of_int k1) * (of_int k1 * (number * of_int k1 + of_int k2)) =
          x * (number * of_int k1 + of_int k2) * of_int k1 - of_int h1 * (number * of_int k1 + of_int k2)"
        using k1 by (simp add: field_simps)
      also have "\<dots> = of_int (h2 * k1 - h1 * k2)" unfolding "1.prems"(1) by (simp add: algebra_simps)
      finally show ?thesis .
    qed
    then have "\<bar>x - of_int h1 / of_int k1\<bar> * (of_int k1 * (number * of_int k1 + of_int k2)) = 1"
      using k1 pos "1.prems"(2) by (metis abs_mult abs_of_pos mult_pos_pos of_int_1 of_int_abs)
    moreover have "\<bar>x - of_int h1 / of_int k1\<bar> * (of_int k1 * of_int k1) \<le>
        \<bar>x - of_int h1 / of_int k1\<bar> * (of_int k1 * (number * of_int k1 + of_int k2))"
      using den k1 by (intro mult_left_mono) auto
    ultimately have "\<bar>x - of_int h1 / of_int k1\<bar> * (of_int k1 * of_int k1) \<le> 1" by linarith
    then show ?thesis using k1 by (simp add: pos_le_divide_eq power2_eq_square)
  qed
  consider (stop) "(n, d) = (h1, k1)"
    | (last) "?f = 0" "(n, d) = (?h, ?k)" "?h \<le> MaxInt32" "?k \<le> MaxInt32"
    | (more) "?f \<noteq> 0" "\<not> of_int MaxInt32 < number" "?h \<le> MaxInt32" "?k \<le> MaxInt32"
        "cf_loop (1 / ?f) (h1, k1) (?h, ?k) = (n, d)"
    using step by (auto split: if_splits)
  then show ?case
  proof cases
    case stop
    with here "1.prems"(5,7,9,10) show ?thesis by auto
  next
    case last
    then have "number = of_int a" by simp
    then have "x * of_int ?k = of_int ?h" using "1.prems"(1) by simp
    then have "x = of_int ?h / of_int ?k" if "1 \<le> ?k"
    proof -
      have "rat_of_int ?k \<noteq> 0" using that by (metis of_int_eq_0_iff not_one_le_zero)
      then show ?thesis using \<open>x * of_int ?k = of_int ?h\<close> by (rule nonzero_eq_divide_eq [THEN iffD2])
    qed
    with last a "1.prems"(5-8) show ?thesis by auto
  next
    case more
    have f: "0 < ?f" "?f < 1" using a more(1) by auto
    have k: "1 \<le> ?k"
    proof (cases "k1 = 0")
      case False
      with "1.prems"(4) have "1 \<le> k1" "1 \<le> a" by (auto simp: a_def le_floor_iff)
      then have "1 * 1 \<le> a * k1" by (intro mult_mono) auto
      then show ?thesis using "1.prems"(8) by simp
    qed (use "1.prems"(4) in auto)
    show ?thesis
    proof (rule "1.hyps" [OF _ a_def refl refl refl])
      have "x * (?f * of_int k1 + of_int ?k) = ?f * of_int h1 + of_int ?h"
        using "1.prems"(1) by (simp add: algebra_simps)
      then have "x * ((?f * of_int k1 + of_int ?k) / ?f) = (?f * of_int h1 + of_int ?h) / ?f" by simp
      then show "x * (1 / ?f * of_int ?k + of_int k1) = 1 / ?f * of_int ?h + of_int h1"
        using f by (simp add: add_divide_distrib add.commute)
      have "h1 * ?k - ?h * k1 = - (h2 * k1 - h1 * k2)" by (simp add: algebra_simps)
      then show "\<bar>h1 * ?k - ?h * k1\<bar> = 1" using "1.prems"(2) by simp
    qed (use more f k a "1.prems" in auto)
  qed
qed

section \<open>Properties\<close>

lemma sint_int32: "- 2147483648 \<le> i \<Longrightarrow> i \<le> MaxInt32 \<Longrightarrow> sint (word_of_int i :: int32) = i"
  by (simp add: MaxInt32_def sint_sbintrunc' signed_take_bit_int_eq_self)

text \<open>
  A positive price that is a fraction of two 32-bit integers is found exactly, in lowest
  terms.
\<close>

theorem price_Parse_exact:
  assumes "MatchString validAmountSimple s" and "rat_SetString s = Some x" and "0 < x"
    and "quotient_of x = (p, q)" and "p \<le> MaxInt32" and "q \<le> MaxInt32"
  shows "\<exists>r. price_Parse s = Inr r \<and> sint (price_N r) = p \<and> sint (price_D r) = q"
proof -
  have q: "0 < q" using assms(4) quotient_of_denom_pos by auto
  have "x = of_int p / of_int q" using assms(4) by (rule quotient_of_div)
  then have p: "0 < p" using assms(3) q by (simp add: zero_less_divide_iff)
  have "cf_loop x (0, 1) (1, 0) = (p, q)"
    by (rule cf_loop_exact [OF assms(4) p]) (use p q assms(5,6) in auto)
  with assms(1,2) p q show ?thesis by (simp add: price_Parse_def sint_int32 assms(5,6))
qed

theorem price_Parse_exact_witness:
  "\<exists>r. price_Parse ''2.50'' = Inr r \<and> sint (price_N r) = 5 \<and> sint (price_D r) = 2"
proof (rule price_Parse_exact)
  show "MatchString validAmountSimple ''2.50''" by (simp add: go_defs)
  show "rat_SetString ''2.50'' = Some (5 / 2)" by (simp add: go_defs)
  show "quotient_of (5 / 2) = (5, 2)" by (simp add: quotient_of_number rat_divide_code)
qed (simp_all add: MaxInt32_def)

text \<open>
  C32. For every non-negative price the fraction returned has a positive 32-bit numerator and
  denominator and is within the reciprocal of the squared denominator of the price.
\<close>

theorem price_Parse_close:
  assumes "price_Parse s = Inr r" and "rat_SetString s = Some x" and "0 \<le> x"
  shows "1 \<le> sint (price_N r) \<and> 1 \<le> sint (price_D r) \<and>
    \<bar>x - of_int (sint (price_N r)) / of_int (sint (price_D r))\<bar> \<le> 1 / (of_int (sint (price_D r)))\<^sup>2"
proof -
  obtain n d where nd: "cf_loop x (0, 1) (1, 0) = (n, d)" by (cases "cf_loop x (0, 1) (1, 0)")
  have b: "0 \<le> n \<and> n \<le> MaxInt32 \<and> 0 \<le> d \<and> d \<le> MaxInt32 \<and>
      (1 \<le> d \<longrightarrow> \<bar>x - of_int n / of_int d\<bar> \<le> 1 / (of_int d)\<^sup>2)"
    by (rule cf_loop_close [OF _ _ _ _ _ _ _ _ _ _ nd]) (use assms(3) in \<open>auto simp: MaxInt32_def\<close>)
  have "n \<noteq> 0" "d \<noteq> 0" "r = \<lparr>price_N = word_of_int n, price_D = word_of_int d\<rparr>"
    using assms(1,2) nd by (auto simp: price_Parse_def split: if_splits)
  with b show ?thesis by (auto simp: sint_int32 simp del: of_int_sint)
qed

theorem price_Parse_close_witness: "\<exists>r. price_Parse ''2.50'' = Inr r \<and> 1 \<le> sint (price_D r)"
proof -
  have s: "rat_SetString ''2.50'' = Some (5 / 2)" by (simp add: go_defs)
  moreover have "price_Parse ''2.50'' = Inr \<lparr>price_N = 5, price_D = 2\<rparr>"
  proof -
    have "MatchString validAmountSimple ''2.50''" by (simp add: go_defs)
    moreover have "cf_loop (5 / 2) (0, 1) (1, 0) = cf_loop 2 (1, 0) (2, 1)"
    proof -
      have "\<lfloor>5 / 2 :: rat\<rfloor> = 2" by (rule floor_unique) simp_all
      then show ?thesis by (subst cf_loop.simps) (simp add: MaxInt32_def Let_def)
    qed
    moreover have "cf_loop 2 (1, 0) (2, 1) = (5, 2)"
      by (subst cf_loop.simps) (simp add: MaxInt32_def Let_def)
    ultimately show ?thesis by (simp add: price_Parse_def s)
  qed
  ultimately show ?thesis using price_Parse_close [of "''2.50''"] by fastforce
qed

text \<open>
  A negative price is not refused, and its numerator is cut to 32 bits: the price
  -4294967295 is taken for 1.
\<close>

theorem price_Parse_negative: "price_Parse ''-4294967295'' = Inr \<lparr>price_N = 1, price_D = 1\<rparr>"
proof -
  have "rat_SetString ''-4294967295'' = Some (- 4294967295)" by (simp add: go_defs)
  moreover have "MatchString validAmountSimple ''-4294967295''" by (simp add: go_defs)
  moreover have "cf_loop (- 4294967295) (0, 1) (1, 0) = (- 4294967295, 1)"
    by (simp add: cf_loop.simps MaxInt32_def Let_def)
  ultimately show ?thesis by (simp add: price_Parse_def)
qed

end
