(* ===== verification/Base64.thy ===== *)
theory Base64
  imports Base32
begin

unbundle bit_operations_syntax

text \<open>
  Go's \<open>encoding/base64\<close> with the standard alphabet and padding (\<open>base64.StdEncoding\<close>).
  Three bytes are four characters of six bits; the decoder skips line breaks.
\<close>

definition b64_alphabet :: string where
  "b64_alphabet = ''ABCDEFGHIJKLMNOPQRSTUVWXYZabcdefghijklmnopqrstuvwxyz0123456789+/''"

definition b64_char :: "byte \<Rightarrow> char" where "b64_char v = b64_alphabet ! unat v"

definition b64_vals :: "byte \<Rightarrow> byte \<Rightarrow> byte \<Rightarrow> byte list" where
  "b64_vals b0 b1 b2 =
     [drop_bit 2 b0, (push_bit 4 b0 OR drop_bit 4 b1) AND 0x3F, (push_bit 2 b1 OR drop_bit 6 b2) AND 0x3F, b2 AND 0x3F]"

fun base64_EncodeToString :: "byte list \<Rightarrow> string" where
  "base64_EncodeToString (b0 # b1 # b2 # bs) = map b64_char (b64_vals b0 b1 b2) @ base64_EncodeToString bs"
| "base64_EncodeToString [b0, b1] = map b64_char (take 3 (b64_vals b0 b1 0)) @ ''=''"
| "base64_EncodeToString [b0] = map b64_char (take 2 (b64_vals b0 0 0)) @ ''==''"
| "base64_EncodeToString [] = []"

definition b64_decodeMap :: "char \<Rightarrow> byte" where
  "b64_decodeMap c = (case map_of (zip b64_alphabet (map word_of_nat [0..<64])) c of None \<Rightarrow> 0xFF | Some v \<Rightarrow> v)"

definition b64_newline :: "char \<Rightarrow> bool" where
  "b64_newline c \<longleftrightarrow> c = CHR 0x0A \<or> c = CHR 0x0D"

definition b64_corrupt :: "nat \<Rightarrow> go_error" where
  "b64_corrupt i = Errorf ''illegal base64 data at input byte %d'' [AInt (int i)]"

text \<open>
  One quantum: the values read so far are in \<open>buf\<close>, \<open>olen\<close> is the length of the whole
  input. The result is the values of the quantum, whether it ended the input, and the rest.
\<close>

fun b64_quantum :: "nat \<Rightarrow> byte list \<Rightarrow> string \<Rightarrow> (byte list \<times> string) res" where
  "b64_quantum olen buf [] =
     (if length buf = 4 \<or> buf = [] then Inr (buf, []) else Inl (b64_corrupt (olen - length buf)))"
| "b64_quantum olen buf (c # src) =
     (if length buf = 4 then Inr (buf, c # src)
      else if b64_decodeMap c \<noteq> 0xFF then b64_quantum olen (buf @ [b64_decodeMap c]) src
      else if b64_newline c then b64_quantum olen buf src
      else if c \<noteq> CHR ''='' \<or> length buf < 2 then Inl (b64_corrupt (olen - length src - 1))
      else if length buf = 2 then
        (case dropWhile b64_newline src of
           [] \<Rightarrow> Inl (b64_corrupt olen)
         | d # rest \<Rightarrow>
             if d \<noteq> CHR ''='' then Inl (b64_corrupt (olen - length (d # rest) - 1))
             else if dropWhile b64_newline rest \<noteq> [] then Inl (b64_corrupt (olen - length (dropWhile b64_newline rest)))
             else Inr (buf, []))
      else if dropWhile b64_newline src \<noteq> [] then Inl (b64_corrupt (olen - length (dropWhile b64_newline src)))
      else Inr (buf, []))"

definition b64_pack :: "byte list \<Rightarrow> byte list" where
  "b64_pack vs =
     take (length vs - 1)
      [push_bit 2 (b32_nth vs 0) OR drop_bit 4 (b32_nth vs 1),
       push_bit 4 (b32_nth vs 1) OR drop_bit 2 (b32_nth vs 2),
       push_bit 6 (b32_nth vs 2) OR b32_nth vs 3]"

lemma b64_quantum_shrinks:
  "b64_quantum olen buf src = Inr (vs, rest) \<Longrightarrow> length rest \<le> length src \<and>
    (src \<noteq> [] \<longrightarrow> length buf < 4 \<longrightarrow> length rest < length src)"
  by (induction olen buf src rule: b64_quantum.induct) (fastforce split: if_splits list.splits)+

function b64_decode :: "nat \<Rightarrow> string \<Rightarrow> byte list res" where
  "b64_decode olen src =
     (if src = [] then Inr []
      else case b64_quantum olen [] src of
          Inl e \<Rightarrow> Inl e
        | Inr (vs, rest) \<Rightarrow> and_then (b64_decode olen rest) (\<lambda>bs. Inr (b64_pack vs @ bs)))"
  by pat_completeness auto
termination
  by (relation "measure (\<lambda>(olen, src). length src)") (auto dest: b64_quantum_shrinks)

declare b64_decode.simps [simp del]

definition base64_DecodeString :: "string \<Rightarrow> byte list res" where
  "base64_DecodeString s = b64_decode (length s) s"

section \<open>Round trip\<close>

lemma b64_pack_vals:
  "b64_pack (b64_vals b0 b1 b2) = [b0, b1, b2]"
proof -
  have m: "(0x3F :: byte) = mask 6" by (simp add: mask_eq_exp_minus_1)
  have "b64_pack [v0, v1, v2, v3] = [push_bit 2 v0 OR drop_bit 4 v1, push_bit 4 v1 OR drop_bit 2 v2, push_bit 6 v2 OR v3]"
    for v0 v1 v2 v3 by (simp add: b64_pack_def)
  then show ?thesis
    unfolding b64_vals_def m
    by (simp only: list.inject)
      (intro conjI byte_eqI;
       (simp only: byte_bits; simp add: bit_byte_beyond bit_simps flip: push_bit_eq_mult del: One_nat_def plus_1_eq_Suc; simp)?)
qed

lemma b64_pack_short:
  "b64_pack (take 3 (b64_vals b0 b1 0)) = [b0, b1]" "b64_pack (take 2 (b64_vals b0 0 0)) = [b0]"
  using b64_pack_vals [of b0 b1 0] b64_pack_vals [of b0 0 0]
  by (simp_all add: b64_pack_def b64_vals_def)

lemma b64_decodeMap_char: "v < 64 \<Longrightarrow> b64_decodeMap (b64_char v) = v"
proof -
  assume v: "v < 64"
  have "\<forall>n \<in> set [0..<64]. b64_decodeMap (b64_alphabet ! n) = word_of_nat n" by code_simp
  moreover have "unat v < 64" using v by (simp add: word_less_nat_alt)
  ultimately have "b64_decodeMap (b64_alphabet ! unat v) = word_of_nat (unat v)" by fastforce
  then show ?thesis by (simp add: b64_char_def)
qed

lemma b64_vals_less: "v \<in> set (b64_vals b0 b1 b2) \<Longrightarrow> v < 64"
proof -
  have "drop_bit 2 b0 < (64 :: byte)"
  proof -
    have "unat b0 < 256" using unsigned_less [of b0] by simp
    then show ?thesis by (simp add: word_less_nat_alt drop_bit_eq_div unat_div less_mult_imp_div_less)
  qed
  moreover have "x AND 0x3F < (64 :: byte)" for x
  proof -
    have "x AND 0x3F = take_bit 6 x" by (simp add: take_bit_eq_mask mask_eq_exp_minus_1)
    then show ?thesis
      using take_bit_nat_less_exp [of 6 "unat x"] by (simp add: word_less_nat_alt unsigned_take_bit_eq)
  qed
  ultimately show "v \<in> set (b64_vals b0 b1 b2) \<Longrightarrow> v < 64" by (auto simp: b64_vals_def)
qed

lemma b64_quantum_chars:
  "\<forall>v \<in> set vs. v < 64 \<Longrightarrow> length buf + length vs \<le> 4 \<Longrightarrow>
    b64_quantum olen buf (map b64_char vs @ src) = b64_quantum olen (buf @ vs) src"
proof (induction vs arbitrary: buf)
  case (Cons v vs)
  then have "b64_decodeMap (b64_char v) = v" "v \<noteq> 0xFF" by (auto simp: b64_decodeMap_char)
  with Cons.IH [of "buf @ [v]"] Cons.prems show ?case by simp
qed simp

lemma b64_pad: "b64_decodeMap CHR ''='' = 0xFF" "\<not> b64_newline CHR ''=''"
  by (simp_all add: b64_decodeMap_def b64_newline_def b64_alphabet_def upt_rec)

lemma b64_quantum_4:
  "\<forall>v \<in> set vs. v < 64 \<Longrightarrow> length vs = 4 \<Longrightarrow> b64_quantum olen [] (map b64_char vs @ src) = Inr (vs, src)"
  using b64_quantum_chars [of vs "[]" olen src] by (cases src) simp_all

lemma b64_quantum_3:
  "\<forall>v \<in> set vs. v < 64 \<Longrightarrow> length vs = 3 \<Longrightarrow> b64_quantum olen [] (map b64_char vs @ ''='') = Inr (vs, [])"
  by (simp add: b64_quantum_chars b64_pad)

lemma b64_quantum_2:
  "\<forall>v \<in> set vs. v < 64 \<Longrightarrow> length vs = 2 \<Longrightarrow> b64_quantum olen [] (map b64_char vs @ ''=='') = Inr (vs, [])"
  by (simp add: b64_quantum_chars b64_pad)

lemma b64_decode_encode: "b64_decode olen (base64_EncodeToString bs) = Inr bs"
proof (induction bs rule: base64_EncodeToString.induct)
  case (1 b0 b1 b2 bs)
  have "b64_quantum olen [] (map b64_char (b64_vals b0 b1 b2) @ src) = Inr (b64_vals b0 b1 b2, src)" for src
    by (rule b64_quantum_4) (use b64_vals_less in blast, simp add: b64_vals_def)
  moreover have "map b64_char (b64_vals b0 b1 b2) @ src \<noteq> []" for src by (simp add: b64_vals_def)
  ultimately show ?case
    using 1 by (subst b64_decode.simps) (simp del: append_is_Nil_conv add: b64_pack_vals)
next
  case (2 b0 b1)
  have "b64_quantum olen [] (map b64_char (take 3 (b64_vals b0 b1 0)) @ ''='') = Inr (take 3 (b64_vals b0 b1 0), [])"
    by (rule b64_quantum_3) (use b64_vals_less in_set_takeD in fast, simp add: b64_vals_def)
  then show ?case
    by (subst b64_decode.simps) (simp add: b64_pack_short b64_decode.simps [of olen "[]"])
next
  case (3 b0)
  have "b64_quantum olen [] (map b64_char (take 2 (b64_vals b0 0 0)) @ ''=='') = Inr (take 2 (b64_vals b0 0 0), [])"
    by (rule b64_quantum_2) (use b64_vals_less in_set_takeD in fast, simp add: b64_vals_def)
  then show ?case
    by (subst b64_decode.simps) (simp add: b64_pack_short b64_decode.simps [of olen "[]"])
qed (simp add: b64_decode.simps)

lemma base64_roundtrip: "base64_DecodeString (base64_EncodeToString bs) = Inr bs"
  by (simp add: base64_DecodeString_def b64_decode_encode)

end
