(* ===== verification/Xdr_Tx.thy ===== *)
theory Xdr_Tx
  imports Assets Memos Prices Base64
begin

text \<open>
  The transaction types of the generated \<open>xdr\<close> package the program builds, signs, reads
  and summarises, their constructors, and the accessors of an envelope.
\<close>

section \<open>Operations\<close>

datatype OperationType =
    OpCreateAccount | OpPayment | OpPathPaymentStrictReceive | OpManageSellOffer | OpCreatePassiveSellOffer
  | OpSetOptions | OpChangeTrust | OpAllowTrust | OpAccountMerge | OpInflation | OpManageData | OpBumpSequence
  | OpManageBuyOffer | OpPathPaymentStrictSend | OpCreateClaimableBalance | OpClaimClaimableBalance
  | OpBeginSponsoringFutureReserves | OpEndSponsoringFutureReserves | OpRevokeSponsorship | OpClawback
  | OpClawbackClaimableBalance | OpSetTrustLineFlags | OpLiquidityPoolDeposit | OpLiquidityPoolWithdraw

record CreateAccountOp =
  ca_Destination :: AccountId
  ca_StartingBalance :: int64

record PaymentOp =
  pay_Destination :: MuxedAccount
  pay_Asset :: xdr_Asset
  pay_Amount :: int64

record PathPaymentStrictReceiveOp =
  pr_SendAsset :: xdr_Asset
  pr_SendMax :: int64
  pr_Destination :: MuxedAccount
  pr_DestAsset :: xdr_Asset
  pr_DestAmount :: int64
  pr_Path :: "xdr_Asset list"

record PathPaymentStrictSendOp =
  ps_SendAsset :: xdr_Asset
  ps_SendAmount :: int64
  ps_Destination :: MuxedAccount
  ps_DestAsset :: xdr_Asset
  ps_DestMin :: int64
  ps_Path :: "xdr_Asset list"

record ManageSellOfferOp =
  ms_Selling :: xdr_Asset
  ms_Buying :: xdr_Asset
  ms_Amount :: int64
  ms_Price :: xdr_Price
  ms_OfferId :: int64

record CreatePassiveSellOfferOp =
  cp_Selling :: xdr_Asset
  cp_Buying :: xdr_Asset
  cp_Amount :: int64
  cp_Price :: xdr_Price

datatype SignerKey = SignerEd25519 "byte list" | SignerPreAuthTx "byte list" | SignerHashX "byte list"

record SetOptionsOp =
  so_InflationDest :: "AccountId option"
  so_ClearFlags :: "uint32 option"
  so_SetFlags :: "uint32 option"
  so_MasterWeight :: "uint32 option"
  so_LowThreshold :: "uint32 option"
  so_MedThreshold :: "uint32 option"
  so_HighThreshold :: "uint32 option"
  so_HomeDomain :: "string option"
  so_Signer :: "(SignerKey \<times> uint32) option"

definition empty_SetOptionsOp :: SetOptionsOp where
  "empty_SetOptionsOp = \<lparr>so_InflationDest = None, so_ClearFlags = None, so_SetFlags = None, so_MasterWeight = None,
     so_LowThreshold = None, so_MedThreshold = None, so_HighThreshold = None, so_HomeDomain = None, so_Signer = None\<rparr>"

record ChangeTrustOp =
  ct_Line :: xdr_ChangeTrustAsset
  ct_Limit :: int64

record AllowTrustOp =
  at_Trustor :: AccountId
  at_AssetType :: int
  at_AssetCode4 :: "byte list option"
  at_AssetCode12 :: "byte list option"
  at_Authorize :: uint32

record ManageDataOp =
  md_DataName :: string
  md_DataValue :: "byte list option"

text \<open>The operations the program never makes; it reads and hashes envelopes that have them.\<close>

record BumpSequenceOp =
  bs_BumpTo :: int64

record ManageBuyOfferOp =
  mb_Selling :: xdr_Asset
  mb_Buying :: xdr_Asset
  mb_BuyAmount :: int64
  mb_Price :: xdr_Price
  mb_OfferId :: int64

datatype ClaimPredicate =
    ClaimUnconditional | ClaimAnd "ClaimPredicate list" | ClaimOr "ClaimPredicate list"
  | ClaimNot "ClaimPredicate option" | ClaimBeforeAbsoluteTime int64 | ClaimBeforeRelativeTime int64

record ClaimantV0 =
  cm_Destination :: AccountId
  cm_Predicate :: ClaimPredicate

datatype Claimant = ClaimantTypeV0 ClaimantV0

record CreateClaimableBalanceOp =
  cb_Asset :: xdr_Asset
  cb_Amount :: int64
  cb_Claimants :: "Claimant list"

datatype ClaimableBalanceId = ClaimableBalanceIdTypeV0 "byte list"

record ClaimClaimableBalanceOp =
  cc_BalanceId :: ClaimableBalanceId

record BeginSponsoringFutureReservesOp =
  bf_SponsoredId :: AccountId

datatype TrustLineAsset =
    TrustLineNative | TrustLineAlphaNum4 AlphaNum | TrustLineAlphaNum12 AlphaNum | TrustLinePoolShare "byte list"

record LedgerKeyTrustLine =
  lt_AccountId :: AccountId
  lt_Asset :: TrustLineAsset

record LedgerKeyOffer =
  lo_SellerId :: AccountId
  lo_OfferId :: int64

record LedgerKeyData =
  ld_AccountId :: AccountId
  ld_DataName :: string

text \<open>The arms of an account, a claimable balance and a pool are structs of one field, which stands for them.\<close>

datatype LedgerKey =
    LedgerEntryAccount AccountId | LedgerEntryTrustline LedgerKeyTrustLine | LedgerEntryOffer LedgerKeyOffer
  | LedgerEntryData LedgerKeyData | LedgerEntryClaimableBalance ClaimableBalanceId | LedgerEntryLiquidityPool "byte list"

record RevokeSponsorshipOpSigner =
  rs_AccountId :: AccountId
  rs_SignerKey :: SignerKey

datatype RevokeSponsorshipOp = RevokeSponsorshipLedgerEntry LedgerKey | RevokeSponsorshipSigner RevokeSponsorshipOpSigner

record ClawbackOp =
  cw_Asset :: xdr_Asset
  cw_From :: MuxedAccount
  cw_Amount :: int64

record ClawbackClaimableBalanceOp =
  cx_BalanceId :: ClaimableBalanceId

record SetTrustLineFlagsOp =
  sf_Trustor :: AccountId
  sf_Asset :: xdr_Asset
  sf_ClearFlags :: uint32
  sf_SetFlags :: uint32

record LiquidityPoolDepositOp =
  pd_LiquidityPoolId :: "byte list"
  pd_MaxAmountA :: int64
  pd_MaxAmountB :: int64
  pd_MinPrice :: xdr_Price
  pd_MaxPrice :: xdr_Price

record LiquidityPoolWithdrawOp =
  pw_LiquidityPoolId :: "byte list"
  pw_Amount :: int64
  pw_MinAmountA :: int64
  pw_MinAmountB :: int64

text \<open>The dynamic value handed to \<open>NewOperationBody\<close>, by its Go type.\<close>

datatype op_value =
    VCreateAccountOp CreateAccountOp | VPaymentOp PaymentOp
  | VPathPaymentStrictReceiveOp PathPaymentStrictReceiveOp | VPathPaymentStrictSendOp PathPaymentStrictSendOp
  | VManageSellOfferOp ManageSellOfferOp | VCreatePassiveSellOfferOp CreatePassiveSellOfferOp
  | VSetOptionsOp SetOptionsOp | VChangeTrustOp ChangeTrustOp | VAllowTrustOp AllowTrustOp
  | VManageDataOp ManageDataOp | VMuxedAccount MuxedAccount | VAccountId AccountId
  | VBumpSequenceOp BumpSequenceOp | VManageBuyOfferOp ManageBuyOfferOp | VCreateClaimableBalanceOp CreateClaimableBalanceOp
  | VClaimClaimableBalanceOp ClaimClaimableBalanceOp | VBeginSponsoringFutureReservesOp BeginSponsoringFutureReservesOp
  | VRevokeSponsorshipOp RevokeSponsorshipOp | VClawbackOp ClawbackOp | VClawbackClaimableBalanceOp ClawbackClaimableBalanceOp
  | VSetTrustLineFlagsOp SetTrustLineFlagsOp | VLiquidityPoolDepositOp LiquidityPoolDepositOp
  | VLiquidityPoolWithdrawOp LiquidityPoolWithdrawOp

text \<open>
  The union: its discriminant and the one arm that is set (\<open>None\<close> for a void arm or for
  none).
\<close>

record OperationBody =
  body_Type :: OperationType
  body_Arm :: "op_value option"

record Operation =
  op_SourceAccount :: "MuxedAccount option"
  op_Body :: OperationBody

definition must_be :: "string \<Rightarrow> go_error" where
  "must_be t = NewError (''invalid value, must be '' @ t)"

fun NewOperationBody :: "OperationType \<Rightarrow> op_value \<Rightarrow> OperationBody res" where
  "NewOperationBody OpCreateAccount v = (case v of VCreateAccountOp _ \<Rightarrow> Inr \<lparr>body_Type = OpCreateAccount, body_Arm = Some v\<rparr>
     | _ \<Rightarrow> Inl (must_be ''CreateAccountOp''))"
| "NewOperationBody OpPayment v = (case v of VPaymentOp _ \<Rightarrow> Inr \<lparr>body_Type = OpPayment, body_Arm = Some v\<rparr>
     | _ \<Rightarrow> Inl (must_be ''PaymentOp''))"
| "NewOperationBody OpPathPaymentStrictReceive v = (case v of
       VPathPaymentStrictReceiveOp _ \<Rightarrow> Inr \<lparr>body_Type = OpPathPaymentStrictReceive, body_Arm = Some v\<rparr>
     | _ \<Rightarrow> Inl (must_be ''PathPaymentStrictReceiveOp''))"
| "NewOperationBody OpManageSellOffer v = (case v of VManageSellOfferOp _ \<Rightarrow> Inr \<lparr>body_Type = OpManageSellOffer, body_Arm = Some v\<rparr>
     | _ \<Rightarrow> Inl (must_be ''ManageSellOfferOp''))"
| "NewOperationBody OpCreatePassiveSellOffer v = (case v of
       VCreatePassiveSellOfferOp _ \<Rightarrow> Inr \<lparr>body_Type = OpCreatePassiveSellOffer, body_Arm = Some v\<rparr>
     | _ \<Rightarrow> Inl (must_be ''CreatePassiveSellOfferOp''))"
| "NewOperationBody OpSetOptions v = (case v of VSetOptionsOp _ \<Rightarrow> Inr \<lparr>body_Type = OpSetOptions, body_Arm = Some v\<rparr>
     | _ \<Rightarrow> Inl (must_be ''SetOptionsOp''))"
| "NewOperationBody OpChangeTrust v = (case v of VChangeTrustOp _ \<Rightarrow> Inr \<lparr>body_Type = OpChangeTrust, body_Arm = Some v\<rparr>
     | _ \<Rightarrow> Inl (must_be ''ChangeTrustOp''))"
| "NewOperationBody OpAllowTrust v = (case v of VAllowTrustOp _ \<Rightarrow> Inr \<lparr>body_Type = OpAllowTrust, body_Arm = Some v\<rparr>
     | _ \<Rightarrow> Inl (must_be ''AllowTrustOp''))"
| "NewOperationBody OpAccountMerge v = (case v of VMuxedAccount _ \<Rightarrow> Inr \<lparr>body_Type = OpAccountMerge, body_Arm = Some v\<rparr>
     | _ \<Rightarrow> Inl (must_be ''MuxedAccount''))"
| "NewOperationBody OpInflation v = Inr \<lparr>body_Type = OpInflation, body_Arm = None\<rparr>"
| "NewOperationBody OpManageData v = (case v of VManageDataOp _ \<Rightarrow> Inr \<lparr>body_Type = OpManageData, body_Arm = Some v\<rparr>
     | _ \<Rightarrow> Inl (must_be ''ManageDataOp''))"
| "NewOperationBody OpBumpSequence v = (case v of
       VBumpSequenceOp _ \<Rightarrow> Inr \<lparr>body_Type = OpBumpSequence, body_Arm = Some v\<rparr>
     | _ \<Rightarrow> Inl (must_be ''BumpSequenceOp''))"
| "NewOperationBody OpManageBuyOffer v = (case v of
       VManageBuyOfferOp _ \<Rightarrow> Inr \<lparr>body_Type = OpManageBuyOffer, body_Arm = Some v\<rparr>
     | _ \<Rightarrow> Inl (must_be ''ManageBuyOfferOp''))"
| "NewOperationBody OpPathPaymentStrictSend v = (case v of
       VPathPaymentStrictSendOp _ \<Rightarrow> Inr \<lparr>body_Type = OpPathPaymentStrictSend, body_Arm = Some v\<rparr>
     | _ \<Rightarrow> Inl (must_be ''PathPaymentStrictSendOp''))"
| "NewOperationBody OpCreateClaimableBalance v = (case v of
       VCreateClaimableBalanceOp _ \<Rightarrow> Inr \<lparr>body_Type = OpCreateClaimableBalance, body_Arm = Some v\<rparr>
     | _ \<Rightarrow> Inl (must_be ''CreateClaimableBalanceOp''))"
| "NewOperationBody OpClaimClaimableBalance v = (case v of
       VClaimClaimableBalanceOp _ \<Rightarrow> Inr \<lparr>body_Type = OpClaimClaimableBalance, body_Arm = Some v\<rparr>
     | _ \<Rightarrow> Inl (must_be ''ClaimClaimableBalanceOp''))"
| "NewOperationBody OpBeginSponsoringFutureReserves v = (case v of
       VBeginSponsoringFutureReservesOp _ \<Rightarrow> Inr \<lparr>body_Type = OpBeginSponsoringFutureReserves, body_Arm = Some v\<rparr>
     | _ \<Rightarrow> Inl (must_be ''BeginSponsoringFutureReservesOp''))"
| "NewOperationBody OpEndSponsoringFutureReserves v = Inr \<lparr>body_Type = OpEndSponsoringFutureReserves, body_Arm = None\<rparr>"
| "NewOperationBody OpRevokeSponsorship v = (case v of
       VRevokeSponsorshipOp _ \<Rightarrow> Inr \<lparr>body_Type = OpRevokeSponsorship, body_Arm = Some v\<rparr>
     | _ \<Rightarrow> Inl (must_be ''RevokeSponsorshipOp''))"
| "NewOperationBody OpClawback v = (case v of
       VClawbackOp _ \<Rightarrow> Inr \<lparr>body_Type = OpClawback, body_Arm = Some v\<rparr>
     | _ \<Rightarrow> Inl (must_be ''ClawbackOp''))"
| "NewOperationBody OpClawbackClaimableBalance v = (case v of
       VClawbackClaimableBalanceOp _ \<Rightarrow> Inr \<lparr>body_Type = OpClawbackClaimableBalance, body_Arm = Some v\<rparr>
     | _ \<Rightarrow> Inl (must_be ''ClawbackClaimableBalanceOp''))"
| "NewOperationBody OpSetTrustLineFlags v = (case v of
       VSetTrustLineFlagsOp _ \<Rightarrow> Inr \<lparr>body_Type = OpSetTrustLineFlags, body_Arm = Some v\<rparr>
     | _ \<Rightarrow> Inl (must_be ''SetTrustLineFlagsOp''))"
| "NewOperationBody OpLiquidityPoolDeposit v = (case v of
       VLiquidityPoolDepositOp _ \<Rightarrow> Inr \<lparr>body_Type = OpLiquidityPoolDeposit, body_Arm = Some v\<rparr>
     | _ \<Rightarrow> Inl (must_be ''LiquidityPoolDepositOp''))"
| "NewOperationBody OpLiquidityPoolWithdraw v = (case v of
       VLiquidityPoolWithdrawOp _ \<Rightarrow> Inr \<lparr>body_Type = OpLiquidityPoolWithdraw, body_Arm = Some v\<rparr>
     | _ \<Rightarrow> Inl (must_be ''LiquidityPoolWithdrawOp''))"


section \<open>Transactions and envelopes\<close>

record TimeBounds =
  MinTime :: uint64
  MaxTime :: uint64

text \<open>\<open>tx_SourceAccount = None\<close> is the zero value of the union, which has no key.\<close>

record xdr_Transaction =
  tx_SourceAccount :: "MuxedAccount option"
  tx_Fee :: uint32
  tx_SeqNum :: int64
  tx_TimeBounds :: "TimeBounds option"
  tx_Memo :: xdr_Memo
  tx_Operations :: "Operation list"

definition empty_Transaction :: xdr_Transaction where
  "empty_Transaction = \<lparr>tx_SourceAccount = None, tx_Fee = 0, tx_SeqNum = 0, tx_TimeBounds = None,
     tx_Memo = xdr_no_memo, tx_Operations = []\<rparr>"

record TransactionV1Envelope =
  v1_Tx :: xdr_Transaction
  v1_Signatures :: "DecoratedSignature list"

record TransactionV0 =
  v0_SourceAccountEd25519 :: "byte list"
  v0_Fee :: uint32
  v0_SeqNum :: int64
  v0_TimeBounds :: "TimeBounds option"
  v0_Memo :: xdr_Memo
  v0_Operations :: "Operation list"

record TransactionV0Envelope =
  v0_Tx :: TransactionV0
  v0_Signatures :: "DecoratedSignature list"

record FeeBumpTransaction =
  fb_FeeSource :: MuxedAccount
  fb_Fee :: int64
  fb_InnerTx :: TransactionV1Envelope

record FeeBumpTransactionEnvelope =
  fb_Tx :: FeeBumpTransaction
  fb_Signatures :: "DecoratedSignature list"

text \<open>
  An envelope with the arm of its discriminant set; the Go fields of the other arms are
  \<open>nil\<close>.
\<close>

datatype TransactionEnvelope =
    EnvelopeTxV0 TransactionV0Envelope
  | EnvelopeTx TransactionV1Envelope
  | EnvelopeFeeBump FeeBumpTransactionEnvelope

definition env_V1 :: "TransactionEnvelope \<Rightarrow> TransactionV1Envelope option" where
  "env_V1 e = (case e of EnvelopeTx v1 \<Rightarrow> Some v1 | _ \<Rightarrow> None)"

definition env_SourceAccount :: "TransactionEnvelope \<Rightarrow> MuxedAccount option" where
  "env_SourceAccount e =
     (case e of
        EnvelopeFeeBump fb \<Rightarrow> tx_SourceAccount (v1_Tx (fb_InnerTx (fb_Tx fb)))
      | EnvelopeTx v1 \<Rightarrow> tx_SourceAccount (v1_Tx v1)
      | EnvelopeTxV0 v0 \<Rightarrow> Some (KeyTypeEd25519 (v0_SourceAccountEd25519 (v0_Tx v0))))"

definition env_Signatures :: "TransactionEnvelope \<Rightarrow> DecoratedSignature list" where
  "env_Signatures e =
     (case e of
        EnvelopeFeeBump fb \<Rightarrow> v1_Signatures (fb_InnerTx (fb_Tx fb))
      | EnvelopeTx v1 \<Rightarrow> v1_Signatures v1
      | EnvelopeTxV0 v0 \<Rightarrow> v0_Signatures v0)"

definition env_Operations :: "TransactionEnvelope \<Rightarrow> Operation list" where
  "env_Operations e =
     (case e of
        EnvelopeFeeBump fb \<Rightarrow> tx_Operations (v1_Tx (fb_InnerTx (fb_Tx fb)))
      | EnvelopeTx v1 \<Rightarrow> tx_Operations (v1_Tx v1)
      | EnvelopeTxV0 v0 \<Rightarrow> v0_Operations (v0_Tx v0))"

text \<open>The transaction of a signed payload, with its tag.\<close>

datatype TaggedTransaction = TaggedTx xdr_Transaction | TaggedFeeBump FeeBumpTransaction

end
