(* ===== verification/Go_Xdr.thy ===== *)
theory Go_Xdr
  imports Go_Text
begin

unbundle bit_operations_syntax

text \<open>
  The XDR primitives of the vendored \<open>go-xdr\<close> (\<open>xdr3/encode.go\<close>, \<open>xdr3/decode.go\<close>), and the
  two shapes the generated code of every type has: fields written one after the other, and
  fields read one after the other with the name of the type put before an error. A
  decoder takes the unread input and returns the value with what it left; the number of
  bytes read is the difference. Writes go to a buffer and do not fail.
\<close>

section \<open>Writing\<close>

type_synonym 'a xdr_encoder = "'a \<Rightarrow> byte list res"
type_synonym 'a xdr_decoder = "byte list \<Rightarrow> ('a \<times> byte list) res"

definition EncodeUint :: "uint32 \<Rightarrow> byte list" where
  "EncodeUint v = [ucast (drop_bit 24 v), ucast (drop_bit 16 v), ucast (drop_bit 8 v), ucast v]"

text \<open>The four low bytes of an \<open>int32\<close> do not depend on the sign extension of \<open>>>\<close>.\<close>

definition EncodeInt :: "int32 \<Rightarrow> byte list" where
  "EncodeInt v = [ucast (drop_bit 24 v), ucast (drop_bit 16 v), ucast (drop_bit 8 v), ucast v]"

definition EncodeBool :: "bool \<Rightarrow> byte list" where
  "EncodeBool v = EncodeInt (if v then 1 else 0)"

definition EncodeUhyper :: "uint64 \<Rightarrow> byte list" where
  "EncodeUhyper v = [ucast (drop_bit 56 v), ucast (drop_bit 48 v), ucast (drop_bit 40 v), ucast (drop_bit 32 v),
     ucast (drop_bit 24 v), ucast (drop_bit 16 v), ucast (drop_bit 8 v), ucast v]"

definition EncodeHyper :: "int64 \<Rightarrow> byte list" where
  "EncodeHyper v = [ucast (drop_bit 56 v), ucast (drop_bit 48 v), ucast (drop_bit 40 v), ucast (drop_bit 32 v),
     ucast (drop_bit 24 v), ucast (drop_bit 16 v), ucast (drop_bit 8 v), ucast v]"

definition xdr_pad :: "nat \<Rightarrow> nat" where
  "xdr_pad l = (4 - l mod 4) mod 4"

definition EncodeFixedOpaque :: "byte list \<Rightarrow> byte list" where
  "EncodeFixedOpaque v = v @ replicate (xdr_pad (length v)) 0"

definition EncodeOpaque :: "byte list \<Rightarrow> byte list" where
  "EncodeOpaque v = EncodeUint (word_of_nat (length v)) @ EncodeFixedOpaque v"

definition EncodeString :: "string \<Rightarrow> byte list" where
  "EncodeString v = EncodeUint (word_of_nat (length v)) @ EncodeFixedOpaque (map byte_of v)"

section \<open>Reading\<close>

definition show_bytes :: "byte list \<Rightarrow> string" where
  "show_bytes bs = ''['' @ concat (map (\<lambda>i. (if i = 0 then [] else '' '') @ show_nat (unat (bs ! i))) [0..<length bs]) @ '']''"

text \<open>\<open>UnmarshalError.Error()\<close> for the error codes the primitives use.\<close>

definition unmarshal_error :: "string \<Rightarrow> string \<Rightarrow> fmt_arg \<Rightarrow> go_error" where
  "unmarshal_error f desc v = Errorf (''xdr:%s: %s - read: '' @ [CHR 0x27] @ ''%v'' @ [CHR 0x27]) [AStr f, AStr desc, v]"

text \<open>\<open>io.ReadFull\<close> of \<open>k\<close> bytes in the primitive \<open>f\<close>; the error shows the bytes \<open>shown\<close>.\<close>

definition read_full :: "string \<Rightarrow> nat \<Rightarrow> (byte list \<Rightarrow> byte list) \<Rightarrow> byte list xdr_decoder" where
  "read_full f k shown r =
     (if length r < k then
        Inl (unmarshal_error f ((if r = [] then ''EOF'' else ''unexpected EOF'') @ '' while decoding '' @ show_nat k @ '' bytes'')
          (AStr (show_bytes (shown r))))
      else Inr (take k r, drop k r))"

definition be32 :: "byte list \<Rightarrow> 32 word" where
  "be32 s = ucast (s ! 3) OR push_bit 8 (ucast (s ! 2)) OR push_bit 16 (ucast (s ! 1)) OR push_bit 24 (ucast (s ! 0))"

definition be64 :: "byte list \<Rightarrow> 64 word" where
  "be64 s = ucast (s ! 7) OR push_bit 8 (ucast (s ! 6)) OR push_bit 16 (ucast (s ! 5)) OR push_bit 24 (ucast (s ! 4)) OR
     push_bit 32 (ucast (s ! 3)) OR push_bit 40 (ucast (s ! 2)) OR push_bit 48 (ucast (s ! 1)) OR push_bit 56 (ucast (s ! 0))"

definition DecodeInt :: "int32 xdr_decoder" where
  "DecodeInt d = and_then (read_full ''DecodeInt'' 4 id d) (\<lambda>(s, d). Inr (be32 s, d))"

definition DecodeUint :: "uint32 xdr_decoder" where
  "DecodeUint d = and_then (read_full ''DecodeUint'' 4 id d) (\<lambda>(s, d). Inr (be32 s, d))"

definition DecodeBool :: "bool xdr_decoder" where
  "DecodeBool d = and_then (DecodeInt d) (\<lambda>(val, d).
     if val = 0 then Inr (False, d)
     else if val = 1 then Inr (True, d)
     else Inl (unmarshal_error ''DecodeBool'' ''bool not 0 or 1'' (AInt (sint val))))"

definition DecodeHyper :: "int64 xdr_decoder" where
  "DecodeHyper d = and_then (read_full ''DecodeHyper'' 8 id d) (\<lambda>(s, d). Inr (be64 s, d))"

definition DecodeUhyper :: "uint64 xdr_decoder" where
  "DecodeUhyper d = and_then (read_full ''DecodeUhyper'' 8 id d) (\<lambda>(s, d). Inr (be64 s, d))"

definition maxInt32 :: nat where "maxInt32 = 2147483647"

definition DecodeFixedOpaqueInplace :: "nat \<Rightarrow> byte list xdr_decoder" where
  "DecodeFixedOpaqueInplace len d =
     (if len = 0 then Inr ([], d)
      else let pad = xdr_pad len; paddedSize = len + pad in
      if paddedSize > maxInt32 then
        Inl (unmarshal_error ''DecodeFixedOpaqueInplace'' ''data exceeds max slice limit'' (AInt (int paddedSize)))
      else and_then (read_full ''DecodeFixedOpaqueInplace'' len id d) (\<lambda>(out, d).
        if pad > 0 then
          and_then (read_full ''DecodeFixedOpaqueInplace'' pad (\<lambda>_. out) d) (\<lambda>(padding, d).
            if \<exists>p \<in> set padding. p \<noteq> 0 then
              Inl (unmarshal_error ''DecodeFixedOpaqueInplace'' ''non-zero padding'' (AStr (show_bytes padding)))
            else Inr (out, d))
        else Inr (out, d)))"

definition DecodeOpaque :: "nat \<Rightarrow> byte list xdr_decoder" where
  "DecodeOpaque maxSize d =
     and_then (DecodeUint d) (\<lambda>(dataLen, d).
       let maxSize = (if maxSize = 0 then maxInt32 else maxSize) in
       if unat dataLen > maxSize then
         Inl (unmarshal_error ''DecodeOpaque'' ''data exceeds max slice limit'' (AInt (uint dataLen)))
       else DecodeFixedOpaqueInplace (unat dataLen) d)"

definition DecodeString :: "nat \<Rightarrow> string xdr_decoder" where
  "DecodeString maxSize d =
     and_then (DecodeUint d) (\<lambda>(dataLen, d).
       let maxSize = (if maxSize = 0 then maxInt32 else maxSize) in
       if unat dataLen > maxSize then
         Inl (unmarshal_error ''DecodeString'' ''data exceeds max slice limit'' (AInt (uint dataLen)))
       else and_then (DecodeFixedOpaqueInplace (unat dataLen) d) (\<lambda>(opaque, d). Inr (map char_of_byte opaque, d)))"

lemma bytewise_eqI:
  fixes v w :: "'a :: len word"
  assumes "LENGTH('a) = 8 * k" and "\<And>q r. q < k \<Longrightarrow> r < 8 \<Longrightarrow> bit v (8 * q + r) = bit w (8 * q + r)"
  shows "v = w"
proof (rule bit_word_eqI)
  fix n assume "n < LENGTH('a)"
  then have "n div 8 < k" "n mod 8 < 8" using assms(1) by auto
  from assms(2) [OF this] show "bit v n = bit w n" by simp
qed

lemma bit_byte_out [simp]: "8 \<le> n \<Longrightarrow> \<not> bit (b :: byte) n"
  by (auto dest: bit_imp_le_length)

lemma be32_EncodeUint [simp]: "be32 (EncodeUint v @ r) = v"
proof (rule bytewise_eqI [where k = 4])
  fix q r' :: nat assume "q < 4" and r: "r' < 8"
  then have "q = 0 \<or> q = 1 \<or> q = 2 \<or> q = 3" by auto
  then show "bit (be32 (EncodeUint v @ r)) (8 * q + r') = bit v (8 * q + r')"
    using r by (elim disjE) (simp_all add: be32_def EncodeUint_def bit_simps)
qed simp

lemma be64_EncodeUhyper [simp]: "be64 (EncodeUhyper v @ r) = v"
proof (rule bytewise_eqI [where k = 8])
  fix q r' :: nat assume "q < 8" and r: "r' < 8"
  then have "q = 0 \<or> q = 1 \<or> q = 2 \<or> q = 3 \<or> q = 4 \<or> q = 5 \<or> q = 6 \<or> q = 7" by auto
  then show "bit (be64 (EncodeUhyper v @ r)) (8 * q + r') = bit v (8 * q + r')"
    using r by (elim disjE) (simp_all add: be64_def EncodeUhyper_def bit_simps)
qed simp

lemma EncodeUint_be32: "EncodeUint (be32 [a, b, c, d]) = [a, b, c, d]"
  by (auto simp: be32_def EncodeUint_def bit_simps intro!: bit_word_eqI)

lemma EncodeUhyper_be64: "EncodeUhyper (be64 [a, b, c, d, e, f, g, h]) = [a, b, c, d, e, f, g, h]"
  by (auto simp: be64_def EncodeUhyper_def bit_simps intro!: bit_word_eqI)


section \<open>Fields in sequence\<close>

text \<open>The statements of an \<open>EncodeTo\<close>, each of which may end it with an error.\<close>

fun xdr_write :: "byte list res list \<Rightarrow> byte list res" where
  "xdr_write [] = Inr []"
| "xdr_write (m # ms) = and_then m (\<lambda>b. and_then (xdr_write ms) (\<lambda>bs. Inr (b @ bs)))"

text \<open>The statements of a \<open>DecodeFrom\<close>; \<open>xdr_named\<close> is its \<open>fmt.Errorf("decoding T: %s", err)\<close>.\<close>

definition xdr_then :: "'a xdr_decoder \<Rightarrow> ('a \<Rightarrow> 'b xdr_decoder) \<Rightarrow> 'b xdr_decoder" where
  "xdr_then d k r = and_then (d r) (\<lambda>(x, r). k x r)"

definition xdr_return :: "'a \<Rightarrow> 'a xdr_decoder" where
  "xdr_return x r = Inr (x, r)"

definition xdr_fail :: "go_error \<Rightarrow> 'a xdr_decoder" where
  "xdr_fail e r = Inl e"

definition xdr_named :: "string \<Rightarrow> 'a xdr_decoder \<Rightarrow> 'a xdr_decoder" where
  "xdr_named name d r = map_err (\<lambda>e. Errorf (''decoding '' @ name @ '': %s'') [AErr e]) (d r)"

definition xdr_field :: "string \<Rightarrow> 'a xdr_decoder \<Rightarrow> ('a \<Rightarrow> 'b xdr_decoder) \<Rightarrow> 'b xdr_decoder" where
  "xdr_field name d k = xdr_then (xdr_named name d) k"

text \<open>A pointer is a boolean and, if it is set, the value.\<close>

definition enc_pointer :: "'a xdr_encoder \<Rightarrow> 'a option xdr_encoder" where
  "enc_pointer e p = xdr_write (Inr (EncodeBool (p \<noteq> None)) # (case p of None \<Rightarrow> [] | Some x \<Rightarrow> [e x]))"

definition dec_pointer :: "string \<Rightarrow> 'a xdr_decoder \<Rightarrow> 'a option xdr_decoder" where
  "dec_pointer name d =
     xdr_field name DecodeBool (\<lambda>b. if b then xdr_field name d (\<lambda>x. xdr_return (Some x)) else xdr_return None)"

text \<open>A slice is its length and its elements; the limit is checked by the reader only.\<close>

definition enc_slice :: "'a xdr_encoder \<Rightarrow> 'a list xdr_encoder" where
  "enc_slice e xs = xdr_write (Inr (EncodeUint (word_of_nat (length xs))) # map e xs)"

fun dec_elements :: "string \<Rightarrow> 'a xdr_decoder \<Rightarrow> nat \<Rightarrow> 'a list xdr_decoder" where
  "dec_elements name d 0 = xdr_return []"
| "dec_elements name d (Suc n) = xdr_field name d (\<lambda>x. xdr_then (dec_elements name d n) (\<lambda>xs. xdr_return (x # xs)))"

definition dec_slice :: "string \<Rightarrow> nat \<Rightarrow> 'a xdr_decoder \<Rightarrow> 'a list xdr_decoder" where
  "dec_slice name limit d =
     xdr_field name DecodeUint (\<lambda>l.
       if unat l > limit then
         xdr_fail (Errorf (''decoding '' @ name @ '': data size (%d) exceeds size limit ('' @ show_nat limit @ '')'') [AInt (uint l)])
       else dec_elements name d (unat l))"

text \<open>An enumeration is an integer of its map, checked on both sides.\<close>

definition enum_error :: "string \<Rightarrow> int \<Rightarrow> go_error" where
  "enum_error name v = Errorf ([CHR 0x27] @ ''%d'' @ [CHR 0x27] @ '' is not a valid '' @ name @ '' enum value'') [AInt v]"

definition enc_enum :: "string \<Rightarrow> int list \<Rightarrow> int xdr_encoder" where
  "enc_enum name valid v = (if v \<in> set valid then Inr (EncodeInt (word_of_int v)) else Inl (enum_error name v))"

definition dec_enum :: "string \<Rightarrow> int list \<Rightarrow> int xdr_decoder" where
  "dec_enum name valid =
     xdr_field name DecodeInt (\<lambda>v. if sint v \<in> set valid then xdr_return (sint v) else xdr_fail (enum_error name (sint v)))"

definition enc_switch_error :: "string \<Rightarrow> string \<Rightarrow> int \<Rightarrow> go_error" where
  "enc_switch_error u ty v =
     Errorf (''Type ('' @ ty @ '') switch value '' @ [CHR 0x27] @ ''%d'' @ [CHR 0x27] @ '' is not valid for union '' @ u) [AInt v]"

definition dec_switch_error :: "string \<Rightarrow> string \<Rightarrow> int \<Rightarrow> go_error" where
  "dec_switch_error u ty v =
     Errorf (''union '' @ u @ '' has invalid Type ('' @ ty @ '') switch value '' @ [CHR 0x27] @ ''%d'' @ [CHR 0x27]) [AInt v]"


section \<open>The contract of a type\<close>

text \<open>
  What the reader of a type owes its writer: values that satisfy \<open>wt\<close> (the lengths of Go
  arrays, the limits of the schema, unset arms \<open>nil\<close>) are written and read back, whatever
  follows them; and whatever is read satisfies \<open>wt\<close>, and the bytes it was read from are the
  ones it is written to.
\<close>

locale xdr_type =
  fixes enc :: "'a xdr_encoder" and dec :: "'a xdr_decoder" and wt :: "'a \<Rightarrow> bool"
  assumes written: "wt x \<Longrightarrow> is_ok (enc x)"
    and read_back: "wt x \<Longrightarrow> enc x = Inr bs \<Longrightarrow> dec (bs @ r) = Inr (x, r)"
    and canonical: "dec r = Inr (x, r') \<Longrightarrow> wt x \<and> (\<exists>bs. enc x = Inr bs \<and> r = bs @ r')"
begin

lemma rewritten: "dec r = Inr (x, r') \<Longrightarrow> enc x = Inr bs \<Longrightarrow> r = bs @ r'"
  using canonical [of r x r'] by auto

lemma shortened: "dec r = Inr (x, r') \<Longrightarrow> length r' \<le> length r"
  using canonical [of r x r'] by auto

lemma roundtrip: "wt x \<Longrightarrow> \<exists>bs. enc x = Inr bs \<and> dec (bs @ r) = Inr (x, r)"
  using written [of x] read_back [of x] by (auto simp: is_ok_iff)

lemma injective: "wt x \<Longrightarrow> wt y \<Longrightarrow> enc x = Inr bs \<Longrightarrow> enc y = Inr bs \<Longrightarrow> x = y"
  using read_back [of x bs "[]"] read_back [of y bs "[]"] by simp

lemma unique_prefix:
  assumes "wt x" "wt y" "enc x = Inr bs" "enc y = Inr cs" "bs @ r = cs @ s"
  shows "x = y \<and> bs = cs \<and> r = s"
proof -
  have "x = y \<and> r = s" using read_back [of x bs r] read_back [of y cs s] assms by simp
  then show ?thesis using assms by simp
qed

text \<open>\<open>Unmarshal\<close> of a whole input that it consumes: it is the writing of what it returns.\<close>

lemma whole_input: "dec bs = Inr (x, []) \<longleftrightarrow> wt x \<and> enc x = Inr bs"
  using read_back [of x bs "[]"] canonical [of bs x "[]"] by auto

lemma reads: "wt x \<Longrightarrow> enc x = Inr bs \<Longrightarrow> \<forall>r. dec (bs @ r) = Inr (x, r)"
  by (simp add: read_back)

end

named_theorems xdr_defs
lemmas xdr_shapes [xdr_defs] = xdr_field_def enc_switch_error_def dec_switch_error_def

lemma xdr_typeI:
  assumes "\<And>x. wt x \<Longrightarrow> is_ok (enc x)"
    and "\<And>x bs r. wt x \<Longrightarrow> enc x = Inr bs \<Longrightarrow> dec (bs @ r) = Inr (x, r)"
    and "\<And>x r r'. dec r = Inr (x, r') \<Longrightarrow> wt x \<and> (\<exists>bs. enc x = Inr bs \<and> r = bs @ r')"
  shows "xdr_type enc dec wt"
  using assms by unfold_locales

lemmas xdr_written = xdr_type.written
lemmas xdr_reads = xdr_type.reads
lemmas xdr_canonical = xdr_type.canonical

lemma xdr_write_Inr [simp]:
  "xdr_write [] = Inr bs \<longleftrightarrow> bs = []"
  "xdr_write (m # ms) = Inr bs \<longleftrightarrow> (\<exists>b bs'. m = Inr b \<and> xdr_write ms = Inr bs' \<and> bs = b @ bs')"
  by (auto simp: and_then_eq_Inr)

lemma is_ok_xdr_write [simp]: "is_ok (xdr_write ms) \<longleftrightarrow> (\<forall>m \<in> set ms. is_ok m)"
  by (induction ms) (auto simp: is_ok_iff and_then_eq_Inr)

declare xdr_write.simps [simp del]

lemma xdr_then_Inr: "xdr_then d k r = Inr (y, s) \<longleftrightarrow> (\<exists>x r'. d r = Inr (x, r') \<and> k x r' = Inr (y, s))"
  by (auto simp: xdr_then_def and_then_eq_Inr)

lemma xdr_then_step: "d r = Inr (x, r') \<Longrightarrow> xdr_then d k r = k x r'"
  by (simp add: xdr_then_def)

lemma xdr_named_Inr [simp]: "xdr_named name d r = Inr y \<longleftrightarrow> d r = Inr y"
  by (simp add: xdr_named_def)

lemma xdr_field_Inr: "xdr_field name d k r = Inr (y, s) \<longleftrightarrow> (\<exists>x r'. d r = Inr (x, r') \<and> k x r' = Inr (y, s))"
  by (simp add: xdr_field_def xdr_then_Inr)

lemma xdr_field_step: "d r = Inr (x, r') \<Longrightarrow> xdr_field name d k r = k x r'"
  by (simp add: xdr_field_def xdr_then_def xdr_named_def)

lemma xdr_return_Inr [simp]: "xdr_return x r = Inr (y, s) \<longleftrightarrow> x = y \<and> r = s"
  by (simp add: xdr_return_def)

lemma xdr_fail_Inr [simp]: "xdr_fail e r \<noteq> Inr y"
  by (simp add: xdr_fail_def)

lemma xdr_named_type: "xdr_type e d w \<Longrightarrow> xdr_type e (xdr_named name d) w"
  by (auto intro!: xdr_typeI dest: xdr_written xdr_reads xdr_canonical)

section \<open>The primitives keep the contract\<close>

lemma length_4: "length s = 4 \<Longrightarrow> \<exists>a b c d. s = [a, b, c, d]"
  by (auto simp: numeral_eq_Suc length_Suc_conv)

lemma length_8: "length s = 8 \<Longrightarrow> \<exists>a b c d e f g h. s = [a, b, c, d, e, f, g, h]"
  by (auto simp: numeral_eq_Suc length_Suc_conv)

lemma read_full_append [simp]: "length s = k \<Longrightarrow> read_full f k w (s @ r) = Inr (s, r)"
  by (simp add: read_full_def)

lemma read_full_Inr: "read_full f k w r = Inr (s, r') \<longleftrightarrow> length s = k \<and> r = s @ r'"
  by (auto simp: read_full_def)

lemma length_EncodeUint [simp]: "length (EncodeUint v) = 4" by (simp add: EncodeUint_def)
lemma length_EncodeUhyper [simp]: "length (EncodeUhyper v) = 8" by (simp add: EncodeUhyper_def)
lemma EncodeInt_Uint: "EncodeInt v = EncodeUint v" by (simp add: EncodeInt_def EncodeUint_def)
lemma EncodeHyper_Uhyper: "EncodeHyper v = EncodeUhyper v" by (simp add: EncodeHyper_def EncodeUhyper_def)

lemma be32_self [simp]: "be32 (EncodeUint v) = v" using be32_EncodeUint [of v "[]"] by simp
lemma be64_self [simp]: "be64 (EncodeUhyper v) = v" using be64_EncodeUhyper [of v "[]"] by simp

lemma DecodeUint_Inr: "DecodeUint r = Inr (v, r') \<longleftrightarrow> r = EncodeUint v @ r'"
  by (auto simp: DecodeUint_def and_then_eq_Inr read_full_Inr EncodeUint_be32 dest!: length_4)

lemma DecodeInt_Inr: "DecodeInt r = Inr (v, r') \<longleftrightarrow> r = EncodeInt v @ r'"
  by (auto simp: DecodeInt_def and_then_eq_Inr read_full_Inr EncodeUint_be32 EncodeInt_Uint dest!: length_4)

lemma DecodeUhyper_Inr: "DecodeUhyper r = Inr (v, r') \<longleftrightarrow> r = EncodeUhyper v @ r'"
  by (auto simp: DecodeUhyper_def and_then_eq_Inr read_full_Inr EncodeUhyper_be64 dest!: length_8)

lemma DecodeHyper_Inr: "DecodeHyper r = Inr (v, r') \<longleftrightarrow> r = EncodeHyper v @ r'"
  by (auto simp: DecodeHyper_def and_then_eq_Inr read_full_Inr EncodeUhyper_be64 EncodeHyper_Uhyper dest!: length_8)

lemma DecodeBool_Inr: "DecodeBool r = Inr (b, r') \<longleftrightarrow> r = EncodeBool b @ r'"
  unfolding DecodeBool_def EncodeBool_def and_then_eq_Inr DecodeInt_Inr split_paired_Ex
  by (cases b) (auto split: if_splits intro: exI [of _ 1] exI [of _ 0])

lemma xdr_pad_0 [simp]: "xdr_pad 0 = 0"
  by (simp add: xdr_pad_def)

lemma zeros_iff: "(\<forall>p \<in> set ps. p = 0) \<and> length ps = k \<longleftrightarrow> ps = replicate k (0 :: byte)"
  using replicate_length_same [of ps "0 :: byte"] by auto

lemma DecodeFixedOpaque_Inr:
  assumes "n \<le> 2147483644"
  shows "DecodeFixedOpaqueInplace n r = Inr (s, r') \<longleftrightarrow> length s = n \<and> r = EncodeFixedOpaque s @ r'"
proof (cases "n = 0")
  case True
  then show ?thesis by (auto simp: DecodeFixedOpaqueInplace_def EncodeFixedOpaque_def)
next
  case False
  have "n + xdr_pad n \<le> maxInt32" using assms by (simp add: xdr_pad_def maxInt32_def)
  then have "DecodeFixedOpaqueInplace n r = Inr (s, r') \<longleftrightarrow>
      (\<exists>ps. length s = n \<and> r = s @ ps @ r' \<and> (\<forall>p \<in> set ps. p = 0) \<and> length ps = xdr_pad n)"
    (is "?d \<longleftrightarrow> ?e")
  proof -
    assume *: "n + xdr_pad n \<le> maxInt32"
    then have "?d \<Longrightarrow> ?e"
      using False by (auto simp: DecodeFixedOpaqueInplace_def Let_def and_then_eq_Inr read_full_Inr split: if_splits)
    moreover have "?e \<Longrightarrow> ?d"
      using False * by (auto simp: DecodeFixedOpaqueInplace_def Let_def)
    ultimately show "?d \<longleftrightarrow> ?e" by blast
  qed
  then show ?thesis unfolding zeros_iff by (auto simp: EncodeFixedOpaque_def)
qed

lemma DecodeOpaque_Inr:
  assumes "0 < m" "m \<le> 2147483644"
  shows "DecodeOpaque m r = Inr (s, r') \<longleftrightarrow> length s \<le> m \<and> r = EncodeOpaque s @ r'"
proof -
  have "DecodeOpaque m r = Inr (s, r') \<longleftrightarrow>
      (\<exists>l. unat l \<le> m \<and> length s = unat l \<and> r = EncodeUint l @ EncodeFixedOpaque s @ r')"
    using assms by (auto simp: DecodeOpaque_def Let_def and_then_eq_Inr DecodeUint_Inr DecodeFixedOpaque_Inr not_less)
  also have "\<dots> \<longleftrightarrow> length s \<le> m \<and> r = EncodeOpaque s @ r'"
    using assms by (auto simp: EncodeOpaque_def unat_of_nat take_bit_nat_eq_self intro!: exI [of _ "word_of_nat (length s)"])
  finally show ?thesis .
qed

lemma DecodeString_Inr:
  assumes "0 < m" "m \<le> 2147483644"
  shows "DecodeString m r = Inr (s, r') \<longleftrightarrow> length s \<le> m \<and> r = EncodeString s @ r'"
proof -
  have eq: "map char_of_byte bs = s \<longleftrightarrow> bs = map byte_of s" for bs
    by (auto simp: comp_def)
  have "DecodeString m r = Inr (s, r') \<longleftrightarrow>
      (\<exists>l. unat l \<le> m \<and> length s = unat l \<and> r = EncodeUint l @ EncodeFixedOpaque (map byte_of s) @ r')"
    using assms by (auto simp: DecodeString_def Let_def and_then_eq_Inr DecodeUint_Inr DecodeFixedOpaque_Inr not_less comp_def eq)
  also have "\<dots> \<longleftrightarrow> length s \<le> m \<and> r = EncodeString s @ r'"
    using assms by (auto simp: EncodeString_def unat_of_nat take_bit_nat_eq_self intro!: exI [of _ "word_of_nat (length s)"])
  finally show ?thesis .
qed


section \<open>The shapes keep the contract\<close>

lemma xdr_type_primitive:
  assumes "\<And>x r r'. d r = Inr (x, r') \<longleftrightarrow> w x \<and> r = e x @ r'"
  shows "xdr_type (\<lambda>x. Inr (e x)) (xdr_named name d) w"
  using assms by (auto intro!: xdr_typeI)

lemma xdr_type_pointer:
  assumes "xdr_type e d w"
  shows "xdr_type (enc_pointer e) (dec_pointer name d) (pred_option w)"
proof (rule xdr_typeI)
  fix p assume "pred_option w p"
  then show "is_ok (enc_pointer e p)" using xdr_written [OF assms] by (cases p) (auto simp: enc_pointer_def)
next
  fix p bs r assume "pred_option w p" "enc_pointer e p = Inr bs"
  then show "dec_pointer name d (bs @ r) = Inr (p, r)"
    using xdr_reads [OF assms]
    by (cases p) (auto simp: enc_pointer_def dec_pointer_def xdr_field_Inr DecodeBool_Inr split: if_splits)
next
  fix r p r' assume "dec_pointer name d r = Inr (p, r')"
  then show "pred_option w p \<and> (\<exists>bs. enc_pointer e p = Inr bs \<and> r = bs @ r')"
    by (auto simp: enc_pointer_def dec_pointer_def xdr_field_Inr DecodeBool_Inr dest!: xdr_canonical [OF assms] split: if_splits)
qed

lemma dec_elements_reads:
  assumes "xdr_type e d w"
  shows "\<forall>x \<in> set xs. w x \<Longrightarrow> xdr_write (map e xs) = Inr bs \<Longrightarrow> dec_elements name d (length xs) (bs @ r) = Inr (xs, r)"
proof (induction xs arbitrary: bs)
  case (Cons x xs)
  from Cons.prems obtain b bs' where b: "e x = Inr b" "xdr_write (map e xs) = Inr bs'" "bs = b @ bs'" by auto
  have "d (b @ bs' @ r) = Inr (x, bs' @ r)" using xdr_reads [OF assms] Cons.prems(1) b(1) by simp
  then show ?case using Cons.IH [OF _ b(2)] Cons.prems(1) b(3) by (auto simp: xdr_field_Inr xdr_then_Inr)
qed simp

lemma dec_elements_canonical:
  assumes "xdr_type e d w"
  shows "dec_elements name d n r = Inr (xs, r') \<Longrightarrow>
    length xs = n \<and> (\<forall>x \<in> set xs. w x) \<and> (\<exists>bs. xdr_write (map e xs) = Inr bs \<and> r = bs @ r')"
proof (induction n arbitrary: r xs)
  case (Suc n)
  then obtain x ys r1 where d: "d r = Inr (x, r1)" "dec_elements name d n r1 = Inr (ys, r')" "xs = x # ys"
    by (auto simp: xdr_field_Inr xdr_then_Inr)
  then show ?case using Suc.IH [OF d(2)] xdr_canonical [OF assms d(1)] by auto
qed auto

lemma xdr_type_slice:
  assumes "xdr_type e d w" and "m < 4294967296"
  shows "xdr_type (enc_slice e) (dec_slice name m d) (\<lambda>xs. length xs \<le> m \<and> (\<forall>x \<in> set xs. w x))"
proof (rule xdr_typeI)
  fix xs :: "'a list" assume "length xs \<le> m \<and> (\<forall>x \<in> set xs. w x)"
  then show "is_ok (enc_slice e xs)" using xdr_written [OF assms(1)] by (auto simp: enc_slice_def)
next
  fix xs bs r assume w: "length xs \<le> m \<and> (\<forall>x \<in> set xs. w x)" and e: "enc_slice e xs = Inr bs"
  have l: "unat (word_of_nat (length xs) :: uint32) = length xs"
    using w assms(2) by (simp add: unat_of_nat take_bit_nat_eq_self)
  from e obtain bs' where bs: "xdr_write (map e xs) = Inr bs'" "bs = EncodeUint (word_of_nat (length xs)) @ bs'"
    by (auto simp: enc_slice_def)
  have "dec_elements name d (length xs) (bs' @ r) = Inr (xs, r)" using dec_elements_reads [OF assms(1) _ bs(1)] w by simp
  then show "dec_slice name m d (bs @ r) = Inr (xs, r)"
    using bs(2) l w by (simp add: dec_slice_def xdr_field_step [OF DecodeUint_Inr [THEN iffD2]])
next
  fix r xs r' assume "dec_slice name m d r = Inr (xs, r')"
  then obtain l r1 where l: "r = EncodeUint l @ r1" "unat l \<le> m" "dec_elements name d (unat l) r1 = Inr (xs, r')"
    by (auto simp: dec_slice_def xdr_field_Inr DecodeUint_Inr split: if_splits)
  then show "(length xs \<le> m \<and> (\<forall>x \<in> set xs. w x)) \<and> (\<exists>bs. enc_slice e xs = Inr bs \<and> r = bs @ r')"
    using dec_elements_canonical [OF assms(1) l(3)] by (auto simp: enc_slice_def)
qed

lemma xdr_type_enum:
  assumes "\<forall>v \<in> set valid. - 2147483648 \<le> v \<and> v < 2147483648"
  shows "xdr_type (enc_enum name valid) (dec_enum name valid) (\<lambda>v. v \<in> set valid)"
proof (rule xdr_typeI)
  fix x bs r assume x: "x \<in> set valid" and "enc_enum name valid x = Inr bs"
  moreover have "sint (word_of_int x :: int32) = x"
    using assms x by (simp add: sint_sbintrunc' signed_take_bit_int_eq_self)
  ultimately show "dec_enum name valid (bs @ r) = Inr (x, r)"
    by (auto simp: enc_enum_def dec_enum_def xdr_field_step [OF DecodeInt_Inr [THEN iffD2]])
qed (auto simp: enc_enum_def dec_enum_def xdr_field_Inr DecodeInt_Inr split: if_splits)


end
