(* ===== verification/Xdr_Types.thy ===== *)
theory Xdr_Types
  imports Xdr_Tx Go_Xdr
begin

text \<open>
  The generated \<open>EncodeTo\<close> and \<open>DecodeFrom\<close> of the vendored \<open>xdr\<close> package
  (\<open>xdr_generated.go\<close>) for the types the operations of a transaction are made of: numbers,
  arrays of bytes, keys and accounts, assets, prices, memos and time bounds, with the
  contract of each.
\<close>

section \<open>Scalars and byte arrays\<close>

definition enc_Uint32 :: "uint32 xdr_encoder" where "enc_Uint32 v = Inr (EncodeUint v)"
definition dec_Uint32 :: "uint32 xdr_decoder" where "dec_Uint32 = xdr_named ''Unsigned int'' DecodeUint"
definition enc_Int32 :: "int32 xdr_encoder" where "enc_Int32 v = Inr (EncodeInt v)"
definition dec_Int32 :: "int32 xdr_decoder" where "dec_Int32 = xdr_named ''Int'' DecodeInt"
definition enc_Uint64 :: "uint64 xdr_encoder" where "enc_Uint64 v = Inr (EncodeUhyper v)"
definition dec_Uint64 :: "uint64 xdr_decoder" where "dec_Uint64 = xdr_named ''Unsigned hyper'' DecodeUhyper"
definition enc_Int64 :: "int64 xdr_encoder" where "enc_Int64 v = Inr (EncodeHyper v)"
definition dec_Int64 :: "int64 xdr_decoder" where "dec_Int64 = xdr_named ''Hyper'' DecodeHyper"

definition enc_SequenceNumber :: "int64 xdr_encoder" where "enc_SequenceNumber v = enc_Int64 v"
definition dec_SequenceNumber :: "int64 xdr_decoder" where "dec_SequenceNumber = xdr_named ''Int64'' dec_Int64"
definition enc_TimePoint :: "uint64 xdr_encoder" where "enc_TimePoint v = enc_Uint64 v"
definition dec_TimePoint :: "uint64 xdr_decoder" where "dec_TimePoint = xdr_named ''Uint64'' dec_Uint64"

text \<open>Arrays of bytes, which the model has as lists: the Go type fixes the length.\<close>

definition enc_Hash :: "byte list xdr_encoder" where "enc_Hash s = Inr (EncodeFixedOpaque s)"
definition dec_Hash :: "byte list xdr_decoder" where "dec_Hash = xdr_named ''Hash'' (DecodeFixedOpaqueInplace 32)"
definition enc_Uint256 :: "byte list xdr_encoder" where "enc_Uint256 s = Inr (EncodeFixedOpaque s)"
definition dec_Uint256 :: "byte list xdr_decoder" where "dec_Uint256 = xdr_named ''Uint256'' (DecodeFixedOpaqueInplace 32)"
definition enc_AssetCode4 :: "byte list xdr_encoder" where "enc_AssetCode4 s = Inr (EncodeFixedOpaque s)"
definition dec_AssetCode4 :: "byte list xdr_decoder" where "dec_AssetCode4 = xdr_named ''AssetCode4'' (DecodeFixedOpaqueInplace 4)"
definition enc_AssetCode12 :: "byte list xdr_encoder" where "enc_AssetCode12 s = Inr (EncodeFixedOpaque s)"
definition dec_AssetCode12 :: "byte list xdr_decoder" where "dec_AssetCode12 = xdr_named ''AssetCode12'' (DecodeFixedOpaqueInplace 12)"
definition enc_SignatureHint :: "byte list xdr_encoder" where "enc_SignatureHint s = Inr (EncodeFixedOpaque s)"
definition dec_SignatureHint :: "byte list xdr_decoder" where "dec_SignatureHint = xdr_named ''SignatureHint'' (DecodeFixedOpaqueInplace 4)"

definition enc_Signature :: "byte list xdr_encoder" where "enc_Signature s = Inr (EncodeOpaque s)"
definition dec_Signature :: "byte list xdr_decoder" where "dec_Signature = xdr_named ''Signature'' (DecodeOpaque 64)"
definition enc_DataValue :: "byte list xdr_encoder" where "enc_DataValue s = Inr (EncodeOpaque s)"
definition dec_DataValue :: "byte list xdr_decoder" where "dec_DataValue = xdr_named ''DataValue'' (DecodeOpaque 64)"
definition enc_String32 :: "string xdr_encoder" where "enc_String32 s = Inr (EncodeString s)"
definition dec_String32 :: "string xdr_decoder" where "dec_String32 = xdr_named ''String32'' (DecodeString 32)"
definition enc_String64 :: "string xdr_encoder" where "enc_String64 s = Inr (EncodeString s)"
definition dec_String64 :: "string xdr_decoder" where "dec_String64 = xdr_named ''String64'' (DecodeString 64)"

definition wt_any :: "'a \<Rightarrow> bool" where [simp]: "wt_any x \<longleftrightarrow> True"
definition wt_array :: "nat \<Rightarrow> 'a list \<Rightarrow> bool" where "wt_array n s \<longleftrightarrow> length s = n"
definition wt_upto :: "nat \<Rightarrow> 'a list \<Rightarrow> bool" where "wt_upto n s \<longleftrightarrow> length s \<le> n"

lemmas scalar_defs = enc_Uint32_def dec_Uint32_def enc_Int32_def dec_Int32_def enc_Uint64_def dec_Uint64_def
  enc_Int64_def dec_Int64_def

lemma xdr_Uint32: "xdr_type enc_Uint32 dec_Uint32 wt_any"
  unfolding dec_Uint32_def enc_Uint32_def [abs_def] by (rule xdr_type_primitive) (simp add: DecodeUint_Inr)
lemma xdr_Int32: "xdr_type enc_Int32 dec_Int32 wt_any"
  unfolding dec_Int32_def enc_Int32_def [abs_def] by (rule xdr_type_primitive) (simp add: DecodeInt_Inr)
lemma xdr_Uint64: "xdr_type enc_Uint64 dec_Uint64 wt_any"
  unfolding dec_Uint64_def enc_Uint64_def [abs_def] by (rule xdr_type_primitive) (simp add: DecodeUhyper_Inr)
lemma xdr_Int64: "xdr_type enc_Int64 dec_Int64 wt_any"
  unfolding dec_Int64_def enc_Int64_def [abs_def] by (rule xdr_type_primitive) (simp add: DecodeHyper_Inr)
lemma xdr_SequenceNumber: "xdr_type enc_SequenceNumber dec_SequenceNumber wt_any"
  unfolding dec_SequenceNumber_def enc_SequenceNumber_def [abs_def] by (rule xdr_named_type [OF xdr_Int64])
lemma xdr_TimePoint: "xdr_type enc_TimePoint dec_TimePoint wt_any"
  unfolding dec_TimePoint_def enc_TimePoint_def [abs_def] by (rule xdr_named_type [OF xdr_Uint64])

lemma xdr_Hash: "xdr_type enc_Hash dec_Hash (wt_array 32)"
  unfolding dec_Hash_def enc_Hash_def [abs_def] by (rule xdr_type_primitive) (simp add: DecodeFixedOpaque_Inr wt_array_def)
lemma xdr_Uint256: "xdr_type enc_Uint256 dec_Uint256 (wt_array 32)"
  unfolding dec_Uint256_def enc_Uint256_def [abs_def] by (rule xdr_type_primitive) (simp add: DecodeFixedOpaque_Inr wt_array_def)
lemma xdr_AssetCode4: "xdr_type enc_AssetCode4 dec_AssetCode4 (wt_array 4)"
  unfolding dec_AssetCode4_def enc_AssetCode4_def [abs_def] by (rule xdr_type_primitive) (simp add: DecodeFixedOpaque_Inr wt_array_def)
lemma xdr_AssetCode12: "xdr_type enc_AssetCode12 dec_AssetCode12 (wt_array 12)"
  unfolding dec_AssetCode12_def enc_AssetCode12_def [abs_def] by (rule xdr_type_primitive) (simp add: DecodeFixedOpaque_Inr wt_array_def)
lemma xdr_SignatureHint: "xdr_type enc_SignatureHint dec_SignatureHint (wt_array 4)"
  unfolding dec_SignatureHint_def enc_SignatureHint_def [abs_def] by (rule xdr_type_primitive) (simp add: DecodeFixedOpaque_Inr wt_array_def)
lemma xdr_Signature: "xdr_type enc_Signature dec_Signature (wt_upto 64)"
  unfolding dec_Signature_def enc_Signature_def [abs_def] by (rule xdr_type_primitive) (simp add: DecodeOpaque_Inr wt_upto_def)
lemma xdr_DataValue: "xdr_type enc_DataValue dec_DataValue (wt_upto 64)"
  unfolding dec_DataValue_def enc_DataValue_def [abs_def] by (rule xdr_type_primitive) (simp add: DecodeOpaque_Inr wt_upto_def)
lemma xdr_String32: "xdr_type enc_String32 dec_String32 (wt_upto 32)"
  unfolding dec_String32_def enc_String32_def [abs_def] by (rule xdr_type_primitive) (simp add: DecodeString_Inr wt_upto_def)
lemma xdr_String64: "xdr_type enc_String64 dec_String64 (wt_upto 64)"
  unfolding dec_String64_def enc_String64_def [abs_def] by (rule xdr_type_primitive) (simp add: DecodeString_Inr wt_upto_def)


text \<open>The facts of a type, in the form the proofs of the types that contain it use.\<close>

named_theorems xdr_w
named_theorems xdr_r
named_theorems xdr_c

lemma xdr_readsI: "xdr_type e d w \<Longrightarrow> e x = Inr bs \<Longrightarrow> w x \<Longrightarrow> \<forall>r. d (bs @ r) = Inr (x, r)"
  by (rule xdr_reads)

lemmas xdr_scalar_types = xdr_Uint32 xdr_Int32 xdr_Uint64 xdr_Int64 xdr_SequenceNumber xdr_TimePoint xdr_Hash xdr_Uint256
  xdr_AssetCode4 xdr_AssetCode12 xdr_SignatureHint xdr_Signature xdr_DataValue xdr_String32 xdr_String64

lemmas xdr_scalar_w [xdr_w] = xdr_scalar_types [THEN xdr_written]
lemmas xdr_scalar_r [xdr_r] = xdr_scalar_types [THEN xdr_readsI]
lemmas xdr_scalar_c [xdr_c] = xdr_scalar_types [THEN xdr_canonical]

lemma enc_scalar_ok [simp]:
  "is_ok (enc_Uint32 a)" "is_ok (enc_Int32 b)" "is_ok (enc_Uint64 c)" "is_ok (enc_Int64 d)"
  by (simp_all add: scalar_defs)

lemmas xdr_struct = xdr_field_Inr xdr_then_Inr
lemmas xdr_eval = xdr_field_def xdr_then_def xdr_named_def xdr_return_def

section \<open>Keys and accounts\<close>

definition enc_PublicKeyType :: "int xdr_encoder" where "enc_PublicKeyType = enc_enum ''PublicKeyType'' [0]"
definition dec_PublicKeyType :: "int xdr_decoder" where "dec_PublicKeyType = dec_enum ''PublicKeyType'' [0]"

definition enc_PublicKey :: "AccountId xdr_encoder" where
  "enc_PublicKey u = xdr_write [enc_PublicKeyType 0, enc_Uint256 (accountId_Ed25519 u)]"

definition dec_PublicKey :: "AccountId xdr_decoder" where
  "dec_PublicKey =
     xdr_field ''PublicKeyType'' dec_PublicKeyType (\<lambda>t.
       if t = 0 then xdr_field ''Uint256'' dec_Uint256 (\<lambda>k. xdr_return (AccountId k))
       else xdr_fail (dec_switch_error ''PublicKey'' ''PublicKeyType'' t))"

definition wt_AccountId :: "AccountId \<Rightarrow> bool" where
  "wt_AccountId a \<longleftrightarrow> wt_array 32 (accountId_Ed25519 a)"

definition enc_AccountId :: "AccountId xdr_encoder" where "enc_AccountId s = enc_PublicKey s"
definition dec_AccountId :: "AccountId xdr_decoder" where "dec_AccountId = xdr_named ''PublicKey'' dec_PublicKey"

definition enc_CryptoKeyType :: "int xdr_encoder" where "enc_CryptoKeyType = enc_enum ''CryptoKeyType'' [0, 1, 2, 256]"
definition dec_CryptoKeyType :: "int xdr_decoder" where "dec_CryptoKeyType = dec_enum ''CryptoKeyType'' [0, 1, 2, 256]"

definition enc_MuxedAccountMed25519 :: "(uint64 \<times> byte list) xdr_encoder" where
  "enc_MuxedAccountMed25519 s = xdr_write [enc_Uint64 (fst s), enc_Uint256 (snd s)]"

definition dec_MuxedAccountMed25519 :: "(uint64 \<times> byte list) xdr_decoder" where
  "dec_MuxedAccountMed25519 =
     xdr_field ''Uint64'' dec_Uint64 (\<lambda>i. xdr_field ''Uint256'' dec_Uint256 (\<lambda>k. xdr_return (i, k)))"

fun enc_MuxedAccount :: "MuxedAccount xdr_encoder" where
  "enc_MuxedAccount (KeyTypeEd25519 k) = xdr_write [enc_CryptoKeyType 0, enc_Uint256 k]"
| "enc_MuxedAccount (KeyTypeMuxedEd25519 i k) = xdr_write [enc_CryptoKeyType 256, enc_MuxedAccountMed25519 (i, k)]"

definition dec_MuxedAccount :: "MuxedAccount xdr_decoder" where
  "dec_MuxedAccount =
     xdr_field ''CryptoKeyType'' dec_CryptoKeyType (\<lambda>t.
       if t = 0 then xdr_field ''Uint256'' dec_Uint256 (\<lambda>k. xdr_return (KeyTypeEd25519 k))
       else if t = 256 then
         xdr_field ''MuxedAccountMed25519'' dec_MuxedAccountMed25519 (\<lambda>(i, k). xdr_return (KeyTypeMuxedEd25519 i k))
       else xdr_fail (dec_switch_error ''MuxedAccount'' ''CryptoKeyType'' t))"

definition wt_MuxedAccount :: "MuxedAccount \<Rightarrow> bool" where
  "wt_MuxedAccount m \<longleftrightarrow> wt_array 32 (muxed_Ed25519 m)"

definition enc_SignerKeyType :: "int xdr_encoder" where "enc_SignerKeyType = enc_enum ''SignerKeyType'' [0, 1, 2]"
definition dec_SignerKeyType :: "int xdr_decoder" where "dec_SignerKeyType = dec_enum ''SignerKeyType'' [0, 1, 2]"

fun enc_SignerKey :: "SignerKey xdr_encoder" where
  "enc_SignerKey (SignerEd25519 k) = xdr_write [enc_SignerKeyType 0, enc_Uint256 k]"
| "enc_SignerKey (SignerPreAuthTx k) = xdr_write [enc_SignerKeyType 1, enc_Uint256 k]"
| "enc_SignerKey (SignerHashX k) = xdr_write [enc_SignerKeyType 2, enc_Uint256 k]"

definition dec_SignerKey :: "SignerKey xdr_decoder" where
  "dec_SignerKey =
     xdr_field ''SignerKeyType'' dec_SignerKeyType (\<lambda>t.
       if t = 0 then xdr_field ''Uint256'' dec_Uint256 (\<lambda>k. xdr_return (SignerEd25519 k))
       else if t = 1 then xdr_field ''Uint256'' dec_Uint256 (\<lambda>k. xdr_return (SignerPreAuthTx k))
       else if t = 2 then xdr_field ''Uint256'' dec_Uint256 (\<lambda>k. xdr_return (SignerHashX k))
       else xdr_fail (dec_switch_error ''SignerKey'' ''SignerKeyType'' t))"

fun wt_SignerKey :: "SignerKey \<Rightarrow> bool" where
  "wt_SignerKey (SignerEd25519 k) \<longleftrightarrow> wt_array 32 k"
| "wt_SignerKey (SignerPreAuthTx k) \<longleftrightarrow> wt_array 32 k"
| "wt_SignerKey (SignerHashX k) \<longleftrightarrow> wt_array 32 k"

definition enc_Signer :: "(SignerKey \<times> uint32) xdr_encoder" where
  "enc_Signer s = xdr_write [enc_SignerKey (fst s), enc_Uint32 (snd s)]"

definition dec_Signer :: "(SignerKey \<times> uint32) xdr_decoder" where
  "dec_Signer = xdr_field ''SignerKey'' dec_SignerKey (\<lambda>k. xdr_field ''Uint32'' dec_Uint32 (\<lambda>w. xdr_return (k, w)))"

definition enc_DecoratedSignature :: "DecoratedSignature xdr_encoder" where
  "enc_DecoratedSignature s = xdr_write [enc_SignatureHint (Hint s), enc_Signature (Signature s)]"

definition dec_DecoratedSignature :: "DecoratedSignature xdr_decoder" where
  "dec_DecoratedSignature =
     xdr_field ''SignatureHint'' dec_SignatureHint (\<lambda>h.
     xdr_field ''Signature'' dec_Signature (\<lambda>s. xdr_return \<lparr>Hint = h, Signature = s\<rparr>))"

definition wt_DecoratedSignature :: "DecoratedSignature \<Rightarrow> bool" where
  "wt_DecoratedSignature s \<longleftrightarrow> wt_array 4 (Hint s) \<and> wt_upto 64 (Signature s)"

lemma xdr_PublicKeyType: "xdr_type enc_PublicKeyType dec_PublicKeyType (\<lambda>t. t \<in> set [0])"
  unfolding enc_PublicKeyType_def dec_PublicKeyType_def by (rule xdr_type_enum) simp
lemma xdr_CryptoKeyType: "xdr_type enc_CryptoKeyType dec_CryptoKeyType (\<lambda>t. t \<in> set [0, 1, 2, 256])"
  unfolding enc_CryptoKeyType_def dec_CryptoKeyType_def by (rule xdr_type_enum) simp
lemma xdr_SignerKeyType: "xdr_type enc_SignerKeyType dec_SignerKeyType (\<lambda>t. t \<in> set [0, 1, 2])"
  unfolding enc_SignerKeyType_def dec_SignerKeyType_def by (rule xdr_type_enum) simp

lemmas xdr_key_enums = xdr_PublicKeyType xdr_CryptoKeyType xdr_SignerKeyType
lemmas xdr_key_enums_w [xdr_w] = xdr_key_enums [THEN xdr_written]
lemmas xdr_key_enums_r [xdr_r] = xdr_key_enums [THEN xdr_readsI]
lemmas xdr_key_enums_c [xdr_c] = xdr_key_enums [THEN xdr_canonical]

lemma xdr_PublicKey: "xdr_type enc_PublicKey dec_PublicKey wt_AccountId"
  apply (rule xdr_typeI)
  subgoal by (auto simp: enc_PublicKey_def wt_AccountId_def intro: xdr_w)
  subgoal by (auto simp: enc_PublicKey_def dec_PublicKey_def wt_AccountId_def xdr_eval dest!: xdr_r)
  subgoal by (auto simp: enc_PublicKey_def dec_PublicKey_def wt_AccountId_def xdr_struct split: if_splits) (auto dest!: xdr_c)
  done

lemma xdr_AccountId: "xdr_type enc_AccountId dec_AccountId wt_AccountId"
  unfolding enc_AccountId_def [abs_def] dec_AccountId_def by (rule xdr_named_type [OF xdr_PublicKey])

lemma xdr_MuxedAccountMed25519:
  "xdr_type enc_MuxedAccountMed25519 dec_MuxedAccountMed25519 (\<lambda>s. wt_array 32 (snd s))"
  apply (rule xdr_typeI)
  subgoal by (auto simp: enc_MuxedAccountMed25519_def intro: xdr_w)
  subgoal by (auto simp: enc_MuxedAccountMed25519_def dec_MuxedAccountMed25519_def xdr_eval dest!: xdr_r)
  subgoal by (auto simp: enc_MuxedAccountMed25519_def dec_MuxedAccountMed25519_def xdr_struct) (auto dest!: xdr_c)
  done

lemmas xdr_med_w [xdr_w] = xdr_MuxedAccountMed25519 [THEN xdr_written]
lemmas xdr_med_r [xdr_r] = xdr_MuxedAccountMed25519 [THEN xdr_readsI]
lemmas xdr_med_c [xdr_c] = xdr_MuxedAccountMed25519 [THEN xdr_canonical]

lemma xdr_MuxedAccount: "xdr_type enc_MuxedAccount dec_MuxedAccount wt_MuxedAccount"
  apply (rule xdr_typeI)
  subgoal for x by (cases x) (auto simp: wt_MuxedAccount_def intro: xdr_w)
  subgoal for x by (cases x) (auto simp: dec_MuxedAccount_def wt_MuxedAccount_def xdr_eval dest!: xdr_r)
  subgoal by (auto simp: dec_MuxedAccount_def wt_MuxedAccount_def xdr_struct split: if_splits) (auto dest!: xdr_c)
  done

lemma xdr_SignerKey: "xdr_type enc_SignerKey dec_SignerKey wt_SignerKey"
  apply (rule xdr_typeI)
  subgoal for x by (cases x) (auto intro: xdr_w)
  subgoal for x by (cases x) (auto simp: dec_SignerKey_def xdr_eval dest!: xdr_r)
  subgoal by (auto simp: dec_SignerKey_def xdr_struct split: if_splits) (auto dest!: xdr_c)
  done

lemmas xdr_SignerKey_w [xdr_w] = xdr_SignerKey [THEN xdr_written]
lemmas xdr_SignerKey_r [xdr_r] = xdr_SignerKey [THEN xdr_readsI]
lemmas xdr_SignerKey_c [xdr_c] = xdr_SignerKey [THEN xdr_canonical]

lemma xdr_Signer: "xdr_type enc_Signer dec_Signer (\<lambda>s. wt_SignerKey (fst s))"
  apply (rule xdr_typeI)
  subgoal by (auto simp: enc_Signer_def intro: xdr_w)
  subgoal by (auto simp: enc_Signer_def dec_Signer_def xdr_eval dest!: xdr_r)
  subgoal by (auto simp: enc_Signer_def dec_Signer_def xdr_struct) (auto dest!: xdr_c)
  done

lemma xdr_DecoratedSignature: "xdr_type enc_DecoratedSignature dec_DecoratedSignature wt_DecoratedSignature"
  apply (rule xdr_typeI)
  subgoal by (auto simp: enc_DecoratedSignature_def wt_DecoratedSignature_def intro: xdr_w)
  subgoal by (auto simp: enc_DecoratedSignature_def dec_DecoratedSignature_def wt_DecoratedSignature_def xdr_eval dest!: xdr_r)
  subgoal by (auto simp: enc_DecoratedSignature_def dec_DecoratedSignature_def wt_DecoratedSignature_def xdr_struct) (auto dest!: xdr_c)
  done


lemmas xdr_key_types = xdr_AccountId xdr_MuxedAccount xdr_Signer xdr_DecoratedSignature
lemmas xdr_key_w [xdr_w] = xdr_key_types [THEN xdr_written]
lemmas xdr_key_r [xdr_r] = xdr_key_types [THEN xdr_readsI]
lemmas xdr_key_c [xdr_c] = xdr_key_types [THEN xdr_canonical]

section \<open>Assets, prices, memos, time bounds\<close>

definition enc_AssetType :: "int xdr_encoder" where "enc_AssetType = enc_enum ''AssetType'' [0, 1, 2, 3]"
definition dec_AssetType :: "int xdr_decoder" where "dec_AssetType = dec_enum ''AssetType'' [0, 1, 2, 3]"

definition enc_AlphaNum4 :: "AlphaNum xdr_encoder" where
  "enc_AlphaNum4 s = xdr_write [enc_AssetCode4 (alpha_AssetCode s), enc_AccountId (alpha_Issuer s)]"

definition dec_AlphaNum4 :: "AlphaNum xdr_decoder" where
  "dec_AlphaNum4 =
     xdr_field ''AssetCode4'' dec_AssetCode4 (\<lambda>c.
     xdr_field ''AccountId'' dec_AccountId (\<lambda>i. xdr_return \<lparr>alpha_AssetCode = c, alpha_Issuer = i\<rparr>))"

definition enc_AlphaNum12 :: "AlphaNum xdr_encoder" where
  "enc_AlphaNum12 s = xdr_write [enc_AssetCode12 (alpha_AssetCode s), enc_AccountId (alpha_Issuer s)]"

definition dec_AlphaNum12 :: "AlphaNum xdr_decoder" where
  "dec_AlphaNum12 =
     xdr_field ''AssetCode12'' dec_AssetCode12 (\<lambda>c.
     xdr_field ''AccountId'' dec_AccountId (\<lambda>i. xdr_return \<lparr>alpha_AssetCode = c, alpha_Issuer = i\<rparr>))"

definition wt_AlphaNum :: "nat \<Rightarrow> AlphaNum \<Rightarrow> bool" where
  "wt_AlphaNum n s \<longleftrightarrow> wt_array n (alpha_AssetCode s) \<and> wt_AccountId (alpha_Issuer s)"

definition enc_Asset :: "xdr_Asset xdr_encoder" where
  "enc_Asset u = xdr_write [enc_AssetType (xa_Type u),
     if xa_Type u = 0 then Inr []
     else if xa_Type u = 1 then and_then (deref (xa_AlphaNum4 u)) enc_AlphaNum4
     else if xa_Type u = 2 then and_then (deref (xa_AlphaNum12 u)) enc_AlphaNum12
     else Inl (enc_switch_error ''Asset'' ''AssetType'' (xa_Type u))]"

definition dec_Asset :: "xdr_Asset xdr_decoder" where
  "dec_Asset =
     xdr_field ''AssetType'' dec_AssetType (\<lambda>t.
       if t = 0 then xdr_return \<lparr>xa_Type = t, xa_AlphaNum4 = None, xa_AlphaNum12 = None\<rparr>
       else if t = 1 then
         xdr_field ''AlphaNum4'' dec_AlphaNum4 (\<lambda>a. xdr_return \<lparr>xa_Type = t, xa_AlphaNum4 = Some a, xa_AlphaNum12 = None\<rparr>)
       else if t = 2 then
         xdr_field ''AlphaNum12'' dec_AlphaNum12 (\<lambda>a. xdr_return \<lparr>xa_Type = t, xa_AlphaNum4 = None, xa_AlphaNum12 = Some a\<rparr>)
       else xdr_fail (dec_switch_error ''Asset'' ''AssetType'' t))"

definition wt_Asset :: "xdr_Asset \<Rightarrow> bool" where
  "wt_Asset u \<longleftrightarrow>
     xa_Type u = 0 \<and> xa_AlphaNum4 u = None \<and> xa_AlphaNum12 u = None \<or>
     xa_Type u = 1 \<and> (\<exists>a. xa_AlphaNum4 u = Some a \<and> wt_AlphaNum 4 a) \<and> xa_AlphaNum12 u = None \<or>
     xa_Type u = 2 \<and> (\<exists>a. xa_AlphaNum12 u = Some a \<and> wt_AlphaNum 12 a) \<and> xa_AlphaNum4 u = None"

definition enc_Price :: "xdr_Price xdr_encoder" where
  "enc_Price s = xdr_write [enc_Int32 (price_N s), enc_Int32 (price_D s)]"

definition dec_Price :: "xdr_Price xdr_decoder" where
  "dec_Price = xdr_field ''Int32'' dec_Int32 (\<lambda>n. xdr_field ''Int32'' dec_Int32 (\<lambda>d. xdr_return \<lparr>price_N = n, price_D = d\<rparr>))"

definition enc_MemoType :: "int xdr_encoder" where "enc_MemoType = enc_enum ''MemoType'' [0, 1, 2, 3, 4]"
definition dec_MemoType :: "int xdr_decoder" where "dec_MemoType = dec_enum ''MemoType'' [0, 1, 2, 3, 4]"

definition enc_Memo :: "xdr_Memo xdr_encoder" where
  "enc_Memo u = xdr_write [enc_MemoType (xm_Type u),
     if xm_Type u = 0 then Inr []
     else if xm_Type u = 1 then and_then (deref (xm_Text u)) (\<lambda>s. Inr (EncodeString s))
     else if xm_Type u = 2 then and_then (deref (xm_Id u)) enc_Uint64
     else if xm_Type u = 3 then and_then (deref (xm_Hash u)) enc_Hash
     else if xm_Type u = 4 then and_then (deref (xm_RetHash u)) enc_Hash
     else Inl (enc_switch_error ''Memo'' ''MemoType'' (xm_Type u))]"

definition dec_Memo :: "xdr_Memo xdr_decoder" where
  "dec_Memo =
     xdr_field ''MemoType'' dec_MemoType (\<lambda>t.
       let u = xdr_no_memo\<lparr>xm_Type := t\<rparr> in
       if t = 0 then xdr_return u
       else if t = 1 then xdr_field ''Text'' (DecodeString 28) (\<lambda>s. xdr_return (u\<lparr>xm_Text := Some s\<rparr>))
       else if t = 2 then xdr_field ''Uint64'' dec_Uint64 (\<lambda>i. xdr_return (u\<lparr>xm_Id := Some i\<rparr>))
       else if t = 3 then xdr_field ''Hash'' dec_Hash (\<lambda>h. xdr_return (u\<lparr>xm_Hash := Some h\<rparr>))
       else if t = 4 then xdr_field ''Hash'' dec_Hash (\<lambda>h. xdr_return (u\<lparr>xm_RetHash := Some h\<rparr>))
       else xdr_fail (dec_switch_error ''Memo'' ''MemoType'' t))"

text \<open>The memo with its one arm set, and texts of at most 28 bytes.\<close>

definition wt_Memo :: "xdr_Memo \<Rightarrow> bool" where
  "wt_Memo u \<longleftrightarrow>
     u = xdr_no_memo \<or> (\<exists>s. wt_upto 28 s \<and> u = xdr_no_memo\<lparr>xm_Type := 1, xm_Text := Some s\<rparr>) \<or>
     (\<exists>i. u = xdr_no_memo\<lparr>xm_Type := 2, xm_Id := Some i\<rparr>) \<or>
     (\<exists>h. wt_array 32 h \<and> u = xdr_no_memo\<lparr>xm_Type := 3, xm_Hash := Some h\<rparr>) \<or>
     (\<exists>h. wt_array 32 h \<and> u = xdr_no_memo\<lparr>xm_Type := 4, xm_RetHash := Some h\<rparr>)"

definition enc_TimeBounds :: "TimeBounds xdr_encoder" where
  "enc_TimeBounds s = xdr_write [enc_TimePoint (MinTime s), enc_TimePoint (MaxTime s)]"

definition dec_TimeBounds :: "TimeBounds xdr_decoder" where
  "dec_TimeBounds =
     xdr_field ''TimePoint'' dec_TimePoint (\<lambda>a. xdr_field ''TimePoint'' dec_TimePoint (\<lambda>b. xdr_return \<lparr>MinTime = a, MaxTime = b\<rparr>))"

lemma xdr_AssetType: "xdr_type enc_AssetType dec_AssetType (\<lambda>t. t \<in> set [0, 1, 2, 3])"
  unfolding enc_AssetType_def dec_AssetType_def by (rule xdr_type_enum) simp
lemma xdr_MemoType: "xdr_type enc_MemoType dec_MemoType (\<lambda>t. t \<in> set [0, 1, 2, 3, 4])"
  unfolding enc_MemoType_def dec_MemoType_def by (rule xdr_type_enum) simp

lemmas xdr_asset_enums_w [xdr_w] = xdr_AssetType [THEN xdr_written] xdr_MemoType [THEN xdr_written]
lemmas xdr_asset_enums_r [xdr_r] = xdr_AssetType [THEN xdr_readsI] xdr_MemoType [THEN xdr_readsI]
lemmas xdr_asset_enums_c [xdr_c] = xdr_AssetType [THEN xdr_canonical] xdr_MemoType [THEN xdr_canonical]

lemma xdr_AlphaNum4: "xdr_type enc_AlphaNum4 dec_AlphaNum4 (wt_AlphaNum 4)"
  apply (rule xdr_typeI)
  subgoal by (auto simp: enc_AlphaNum4_def wt_AlphaNum_def intro: xdr_w)
  subgoal by (auto simp: enc_AlphaNum4_def dec_AlphaNum4_def wt_AlphaNum_def xdr_eval dest!: xdr_r)
  subgoal by (auto simp: enc_AlphaNum4_def dec_AlphaNum4_def wt_AlphaNum_def xdr_struct) (auto dest!: xdr_c)
  done

lemma xdr_AlphaNum12: "xdr_type enc_AlphaNum12 dec_AlphaNum12 (wt_AlphaNum 12)"
  apply (rule xdr_typeI)
  subgoal by (auto simp: enc_AlphaNum12_def wt_AlphaNum_def intro: xdr_w)
  subgoal by (auto simp: enc_AlphaNum12_def dec_AlphaNum12_def wt_AlphaNum_def xdr_eval dest!: xdr_r)
  subgoal by (auto simp: enc_AlphaNum12_def dec_AlphaNum12_def wt_AlphaNum_def xdr_struct) (auto dest!: xdr_c)
  done

lemmas xdr_alpha_w [xdr_w] = xdr_AlphaNum4 [THEN xdr_written] xdr_AlphaNum12 [THEN xdr_written]
lemmas xdr_alpha_r [xdr_r] = xdr_AlphaNum4 [THEN xdr_readsI] xdr_AlphaNum12 [THEN xdr_readsI]
lemmas xdr_alpha_c [xdr_c] = xdr_AlphaNum4 [THEN xdr_canonical] xdr_AlphaNum12 [THEN xdr_canonical]


lemma xdr_Asset: "xdr_type enc_Asset dec_Asset wt_Asset"
  apply (rule xdr_typeI)
  subgoal by (auto simp: enc_Asset_def wt_Asset_def intro: xdr_w)
  subgoal by (auto simp: enc_Asset_def dec_Asset_def wt_Asset_def xdr_eval dest!: xdr_r)
  subgoal by (auto simp: enc_Asset_def dec_Asset_def wt_Asset_def xdr_struct split: if_splits) (auto dest!: xdr_c)
  done

lemma xdr_memo_text:
  "xdr_type (\<lambda>s. Inr (EncodeString s)) (DecodeString 28) (wt_upto 28)"
  by (rule xdr_typeI) (auto simp: DecodeString_Inr wt_upto_def)

lemmas xdr_memo_text_r [xdr_r] = xdr_reads [OF xdr_memo_text, OF _ refl]

lemma xdr_Memo: "xdr_type enc_Memo dec_Memo wt_Memo"
  apply (rule xdr_typeI)
  subgoal by (auto simp: enc_Memo_def wt_Memo_def xdr_no_memo_def intro: xdr_w)
  subgoal by (auto simp: enc_Memo_def dec_Memo_def wt_Memo_def xdr_no_memo_def xdr_eval Let_def dest!: xdr_r)
  subgoal by (auto simp: enc_Memo_def dec_Memo_def wt_Memo_def xdr_no_memo_def xdr_struct Let_def DecodeString_Inr wt_upto_def split: if_splits)
      (auto dest!: xdr_c)
  done

lemma xdr_Price: "xdr_type enc_Price dec_Price wt_any"
  apply (rule xdr_typeI)
  subgoal by (auto simp: enc_Price_def  intro: xdr_w)
  subgoal by (auto simp: enc_Price_def dec_Price_def  xdr_eval dest!: xdr_r)
  subgoal by (auto simp: enc_Price_def dec_Price_def  xdr_struct) (auto dest!: xdr_c)
  done

lemma xdr_TimeBounds: "xdr_type enc_TimeBounds dec_TimeBounds wt_any"
  apply (rule xdr_typeI)
  subgoal by (auto simp: enc_TimeBounds_def  intro: xdr_w)
  subgoal by (auto simp: enc_TimeBounds_def dec_TimeBounds_def  xdr_eval dest!: xdr_r)
  subgoal by (auto simp: enc_TimeBounds_def dec_TimeBounds_def  xdr_struct) (auto dest!: xdr_c)
  done

lemmas xdr_asset_w [xdr_w] = xdr_Asset [THEN xdr_written] xdr_Memo [THEN xdr_written] xdr_Price [THEN xdr_written] xdr_TimeBounds [THEN xdr_written]
lemmas xdr_asset_r [xdr_r] = xdr_Asset [THEN xdr_readsI] xdr_Memo [THEN xdr_readsI] xdr_Price [THEN xdr_readsI] xdr_TimeBounds [THEN xdr_readsI]
lemmas xdr_asset_c [xdr_c] = xdr_Asset [THEN xdr_canonical] xdr_Memo [THEN xdr_canonical] xdr_Price [THEN xdr_canonical] xdr_TimeBounds [THEN xdr_canonical]

end
