(* ===== verification/Xdr_Ops.thy ===== *)
theory Xdr_Ops
  imports Xdr_Types
begin

text \<open>
  \<open>EncodeTo\<close> and \<open>DecodeFrom\<close> of the operations the program makes, and the contract of each.
\<close>

section \<open>Operations\<close>

text \<open>Pointers and slices of the types below.\<close>

definition wt_Path :: "xdr_Asset list \<Rightarrow> bool" where
  "wt_Path p \<longleftrightarrow> length p \<le> 5 \<and> (\<forall>x \<in> set p. wt_Asset x)"

lemma pred_option_any [simp]: "pred_option wt_any p"
  by (cases p) simp_all

lemma xdr_Path: "xdr_type (enc_slice enc_Asset) (dec_slice ''Asset'' 5 dec_Asset) wt_Path"
  unfolding wt_Path_def [abs_def] by (rule xdr_type_slice [OF xdr_Asset]) simp

lemmas xdr_p_AccountId = xdr_type_pointer [OF xdr_AccountId, where name = "''AccountId''"]
lemmas xdr_p_Uint32 = xdr_type_pointer [OF xdr_Uint32, where name = "''Uint32''"]
lemmas xdr_p_String32 = xdr_type_pointer [OF xdr_String32, where name = "''String32''"]
lemmas xdr_p_Signer = xdr_type_pointer [OF xdr_Signer, where name = "''Signer''"]
lemmas xdr_p_DataValue = xdr_type_pointer [OF xdr_DataValue, where name = "''DataValue''"]
lemmas xdr_p_TimeBounds = xdr_type_pointer [OF xdr_TimeBounds, where name = "''TimeBounds''"]
lemmas xdr_p_MuxedAccount = xdr_type_pointer [OF xdr_MuxedAccount, where name = "''MuxedAccount''"]

lemmas xdr_pointers_w [xdr_w] = xdr_p_AccountId [THEN xdr_written] xdr_p_Uint32 [THEN xdr_written] xdr_p_String32 [THEN xdr_written] xdr_p_Signer [THEN xdr_written] xdr_p_DataValue [THEN xdr_written] xdr_p_TimeBounds [THEN xdr_written] xdr_p_MuxedAccount [THEN xdr_written] xdr_Path [THEN xdr_written]
lemmas xdr_pointers_r [xdr_r] = xdr_p_AccountId [THEN xdr_readsI] xdr_p_Uint32 [THEN xdr_readsI] xdr_p_String32 [THEN xdr_readsI] xdr_p_Signer [THEN xdr_readsI] xdr_p_DataValue [THEN xdr_readsI] xdr_p_TimeBounds [THEN xdr_readsI] xdr_p_MuxedAccount [THEN xdr_readsI] xdr_Path [THEN xdr_readsI]
lemmas xdr_pointers_c [xdr_c] = xdr_p_AccountId [THEN xdr_canonical] xdr_p_Uint32 [THEN xdr_canonical] xdr_p_String32 [THEN xdr_canonical] xdr_p_Signer [THEN xdr_canonical] xdr_p_DataValue [THEN xdr_canonical] xdr_p_TimeBounds [THEN xdr_canonical] xdr_p_MuxedAccount [THEN xdr_canonical] xdr_Path [THEN xdr_canonical]

definition enc_CreateAccountOp :: "CreateAccountOp xdr_encoder" where
  "enc_CreateAccountOp s = xdr_write [enc_AccountId (ca_Destination s), enc_Int64 (ca_StartingBalance s)]"

definition dec_CreateAccountOp :: "CreateAccountOp xdr_decoder" where
  "dec_CreateAccountOp =
     xdr_field ''AccountId'' dec_AccountId (\<lambda>a.
     xdr_field ''Int64'' dec_Int64 (\<lambda>b.
     xdr_return \<lparr>ca_Destination = a, ca_StartingBalance = b\<rparr>))"

definition wt_CreateAccountOp :: "CreateAccountOp \<Rightarrow> bool" where
  "wt_CreateAccountOp s \<longleftrightarrow> wt_AccountId (ca_Destination s)"

definition enc_PaymentOp :: "PaymentOp xdr_encoder" where
  "enc_PaymentOp s = xdr_write [enc_MuxedAccount (pay_Destination s), enc_Asset (pay_Asset s), enc_Int64 (pay_Amount s)]"

definition dec_PaymentOp :: "PaymentOp xdr_decoder" where
  "dec_PaymentOp =
     xdr_field ''MuxedAccount'' dec_MuxedAccount (\<lambda>a.
     xdr_field ''Asset'' dec_Asset (\<lambda>b.
     xdr_field ''Int64'' dec_Int64 (\<lambda>c.
     xdr_return \<lparr>pay_Destination = a, pay_Asset = b, pay_Amount = c\<rparr>)))"

definition wt_PaymentOp :: "PaymentOp \<Rightarrow> bool" where
  "wt_PaymentOp s \<longleftrightarrow> wt_MuxedAccount (pay_Destination s) \<and> wt_Asset (pay_Asset s)"

definition enc_PathPaymentStrictReceiveOp :: "PathPaymentStrictReceiveOp xdr_encoder" where
  "enc_PathPaymentStrictReceiveOp s = xdr_write [enc_Asset (pr_SendAsset s), enc_Int64 (pr_SendMax s), enc_MuxedAccount (pr_Destination s), enc_Asset (pr_DestAsset s), enc_Int64 (pr_DestAmount s), enc_slice enc_Asset (pr_Path s)]"

definition dec_PathPaymentStrictReceiveOp :: "PathPaymentStrictReceiveOp xdr_decoder" where
  "dec_PathPaymentStrictReceiveOp =
     xdr_field ''Asset'' dec_Asset (\<lambda>a.
     xdr_field ''Int64'' dec_Int64 (\<lambda>b.
     xdr_field ''MuxedAccount'' dec_MuxedAccount (\<lambda>c.
     xdr_field ''Asset'' dec_Asset (\<lambda>d.
     xdr_field ''Int64'' dec_Int64 (\<lambda>e.
     xdr_then (dec_slice ''Asset'' 5 dec_Asset) (\<lambda>f.
     xdr_return \<lparr>pr_SendAsset = a, pr_SendMax = b, pr_Destination = c, pr_DestAsset = d, pr_DestAmount = e, pr_Path = f\<rparr>))))))"

definition wt_PathPaymentStrictReceiveOp :: "PathPaymentStrictReceiveOp \<Rightarrow> bool" where
  "wt_PathPaymentStrictReceiveOp s \<longleftrightarrow> wt_Asset (pr_SendAsset s) \<and> wt_MuxedAccount (pr_Destination s) \<and> wt_Asset (pr_DestAsset s) \<and> wt_Path (pr_Path s)"

definition enc_PathPaymentStrictSendOp :: "PathPaymentStrictSendOp xdr_encoder" where
  "enc_PathPaymentStrictSendOp s = xdr_write [enc_Asset (ps_SendAsset s), enc_Int64 (ps_SendAmount s), enc_MuxedAccount (ps_Destination s), enc_Asset (ps_DestAsset s), enc_Int64 (ps_DestMin s), enc_slice enc_Asset (ps_Path s)]"

definition dec_PathPaymentStrictSendOp :: "PathPaymentStrictSendOp xdr_decoder" where
  "dec_PathPaymentStrictSendOp =
     xdr_field ''Asset'' dec_Asset (\<lambda>a.
     xdr_field ''Int64'' dec_Int64 (\<lambda>b.
     xdr_field ''MuxedAccount'' dec_MuxedAccount (\<lambda>c.
     xdr_field ''Asset'' dec_Asset (\<lambda>d.
     xdr_field ''Int64'' dec_Int64 (\<lambda>e.
     xdr_then (dec_slice ''Asset'' 5 dec_Asset) (\<lambda>f.
     xdr_return \<lparr>ps_SendAsset = a, ps_SendAmount = b, ps_Destination = c, ps_DestAsset = d, ps_DestMin = e, ps_Path = f\<rparr>))))))"

definition wt_PathPaymentStrictSendOp :: "PathPaymentStrictSendOp \<Rightarrow> bool" where
  "wt_PathPaymentStrictSendOp s \<longleftrightarrow> wt_Asset (ps_SendAsset s) \<and> wt_MuxedAccount (ps_Destination s) \<and> wt_Asset (ps_DestAsset s) \<and> wt_Path (ps_Path s)"

definition enc_ManageSellOfferOp :: "ManageSellOfferOp xdr_encoder" where
  "enc_ManageSellOfferOp s = xdr_write [enc_Asset (ms_Selling s), enc_Asset (ms_Buying s), enc_Int64 (ms_Amount s), enc_Price (ms_Price s), enc_Int64 (ms_OfferId s)]"

definition dec_ManageSellOfferOp :: "ManageSellOfferOp xdr_decoder" where
  "dec_ManageSellOfferOp =
     xdr_field ''Asset'' dec_Asset (\<lambda>a.
     xdr_field ''Asset'' dec_Asset (\<lambda>b.
     xdr_field ''Int64'' dec_Int64 (\<lambda>c.
     xdr_field ''Price'' dec_Price (\<lambda>d.
     xdr_field ''Int64'' dec_Int64 (\<lambda>e.
     xdr_return \<lparr>ms_Selling = a, ms_Buying = b, ms_Amount = c, ms_Price = d, ms_OfferId = e\<rparr>)))))"

definition wt_ManageSellOfferOp :: "ManageSellOfferOp \<Rightarrow> bool" where
  "wt_ManageSellOfferOp s \<longleftrightarrow> wt_Asset (ms_Selling s) \<and> wt_Asset (ms_Buying s)"

definition enc_CreatePassiveSellOfferOp :: "CreatePassiveSellOfferOp xdr_encoder" where
  "enc_CreatePassiveSellOfferOp s = xdr_write [enc_Asset (cp_Selling s), enc_Asset (cp_Buying s), enc_Int64 (cp_Amount s), enc_Price (cp_Price s)]"

definition dec_CreatePassiveSellOfferOp :: "CreatePassiveSellOfferOp xdr_decoder" where
  "dec_CreatePassiveSellOfferOp =
     xdr_field ''Asset'' dec_Asset (\<lambda>a.
     xdr_field ''Asset'' dec_Asset (\<lambda>b.
     xdr_field ''Int64'' dec_Int64 (\<lambda>c.
     xdr_field ''Price'' dec_Price (\<lambda>d.
     xdr_return \<lparr>cp_Selling = a, cp_Buying = b, cp_Amount = c, cp_Price = d\<rparr>))))"

definition wt_CreatePassiveSellOfferOp :: "CreatePassiveSellOfferOp \<Rightarrow> bool" where
  "wt_CreatePassiveSellOfferOp s \<longleftrightarrow> wt_Asset (cp_Selling s) \<and> wt_Asset (cp_Buying s)"

definition enc_SetOptionsOp :: "SetOptionsOp xdr_encoder" where
  "enc_SetOptionsOp s = xdr_write [enc_pointer enc_AccountId (so_InflationDest s), enc_pointer enc_Uint32 (so_ClearFlags s), enc_pointer enc_Uint32 (so_SetFlags s), enc_pointer enc_Uint32 (so_MasterWeight s), enc_pointer enc_Uint32 (so_LowThreshold s), enc_pointer enc_Uint32 (so_MedThreshold s), enc_pointer enc_Uint32 (so_HighThreshold s), enc_pointer enc_String32 (so_HomeDomain s), enc_pointer enc_Signer (so_Signer s)]"

definition dec_SetOptionsOp :: "SetOptionsOp xdr_decoder" where
  "dec_SetOptionsOp =
     xdr_then (dec_pointer ''AccountId'' dec_AccountId) (\<lambda>a.
     xdr_then (dec_pointer ''Uint32'' dec_Uint32) (\<lambda>b.
     xdr_then (dec_pointer ''Uint32'' dec_Uint32) (\<lambda>c.
     xdr_then (dec_pointer ''Uint32'' dec_Uint32) (\<lambda>d.
     xdr_then (dec_pointer ''Uint32'' dec_Uint32) (\<lambda>e.
     xdr_then (dec_pointer ''Uint32'' dec_Uint32) (\<lambda>f.
     xdr_then (dec_pointer ''Uint32'' dec_Uint32) (\<lambda>g.
     xdr_then (dec_pointer ''String32'' dec_String32) (\<lambda>h.
     xdr_then (dec_pointer ''Signer'' dec_Signer) (\<lambda>i.
     xdr_return \<lparr>so_InflationDest = a, so_ClearFlags = b, so_SetFlags = c, so_MasterWeight = d, so_LowThreshold = e, so_MedThreshold = f, so_HighThreshold = g, so_HomeDomain = h, so_Signer = i\<rparr>)))))))))"

definition wt_SetOptionsOp :: "SetOptionsOp \<Rightarrow> bool" where
  "wt_SetOptionsOp s \<longleftrightarrow> pred_option wt_AccountId (so_InflationDest s) \<and> pred_option (wt_upto 32) (so_HomeDomain s) \<and>
     pred_option (\<lambda>g. wt_SignerKey (fst g)) (so_Signer s)"

definition enc_ManageDataOp :: "ManageDataOp xdr_encoder" where
  "enc_ManageDataOp s = xdr_write [enc_String64 (md_DataName s), enc_pointer enc_DataValue (md_DataValue s)]"

definition dec_ManageDataOp :: "ManageDataOp xdr_decoder" where
  "dec_ManageDataOp =
     xdr_field ''String64'' dec_String64 (\<lambda>a.
     xdr_then (dec_pointer ''DataValue'' dec_DataValue) (\<lambda>b.
     xdr_return \<lparr>md_DataName = a, md_DataValue = b\<rparr>))"

definition wt_ManageDataOp :: "ManageDataOp \<Rightarrow> bool" where
  "wt_ManageDataOp s \<longleftrightarrow> wt_upto 64 (md_DataName s) \<and> pred_option (wt_upto 64) (md_DataValue s)"

lemma xdr_CreateAccountOp: "xdr_type enc_CreateAccountOp dec_CreateAccountOp wt_CreateAccountOp"
  apply (rule xdr_typeI)
  subgoal by (auto simp: enc_CreateAccountOp_def wt_CreateAccountOp_def intro: xdr_w)
  subgoal by (auto simp: enc_CreateAccountOp_def dec_CreateAccountOp_def wt_CreateAccountOp_def xdr_eval dest!: xdr_r)
  subgoal by (auto simp: enc_CreateAccountOp_def dec_CreateAccountOp_def wt_CreateAccountOp_def xdr_struct) (auto dest!: xdr_c)
  done

lemma xdr_PaymentOp: "xdr_type enc_PaymentOp dec_PaymentOp wt_PaymentOp"
  apply (rule xdr_typeI)
  subgoal by (auto simp: enc_PaymentOp_def wt_PaymentOp_def intro: xdr_w)
  subgoal by (auto simp: enc_PaymentOp_def dec_PaymentOp_def wt_PaymentOp_def xdr_eval dest!: xdr_r)
  subgoal by (auto simp: enc_PaymentOp_def dec_PaymentOp_def wt_PaymentOp_def xdr_struct) (auto dest!: xdr_c)
  done

lemma xdr_PathPaymentStrictReceiveOp: "xdr_type enc_PathPaymentStrictReceiveOp dec_PathPaymentStrictReceiveOp wt_PathPaymentStrictReceiveOp"
  apply (rule xdr_typeI)
  subgoal by (auto simp: enc_PathPaymentStrictReceiveOp_def wt_PathPaymentStrictReceiveOp_def intro: xdr_w)
  subgoal by (auto simp: enc_PathPaymentStrictReceiveOp_def dec_PathPaymentStrictReceiveOp_def wt_PathPaymentStrictReceiveOp_def xdr_eval dest!: xdr_r)
  subgoal by (auto simp: enc_PathPaymentStrictReceiveOp_def dec_PathPaymentStrictReceiveOp_def wt_PathPaymentStrictReceiveOp_def xdr_struct) (auto dest!: xdr_c)
  done

lemma xdr_PathPaymentStrictSendOp: "xdr_type enc_PathPaymentStrictSendOp dec_PathPaymentStrictSendOp wt_PathPaymentStrictSendOp"
  apply (rule xdr_typeI)
  subgoal by (auto simp: enc_PathPaymentStrictSendOp_def wt_PathPaymentStrictSendOp_def intro: xdr_w)
  subgoal by (auto simp: enc_PathPaymentStrictSendOp_def dec_PathPaymentStrictSendOp_def wt_PathPaymentStrictSendOp_def xdr_eval dest!: xdr_r)
  subgoal by (auto simp: enc_PathPaymentStrictSendOp_def dec_PathPaymentStrictSendOp_def wt_PathPaymentStrictSendOp_def xdr_struct) (auto dest!: xdr_c)
  done

lemma xdr_ManageSellOfferOp: "xdr_type enc_ManageSellOfferOp dec_ManageSellOfferOp wt_ManageSellOfferOp"
  apply (rule xdr_typeI)
  subgoal by (auto simp: enc_ManageSellOfferOp_def wt_ManageSellOfferOp_def intro: xdr_w)
  subgoal by (auto simp: enc_ManageSellOfferOp_def dec_ManageSellOfferOp_def wt_ManageSellOfferOp_def xdr_eval dest!: xdr_r)
  subgoal by (auto simp: enc_ManageSellOfferOp_def dec_ManageSellOfferOp_def wt_ManageSellOfferOp_def xdr_struct) (auto dest!: xdr_c)
  done

lemma xdr_CreatePassiveSellOfferOp: "xdr_type enc_CreatePassiveSellOfferOp dec_CreatePassiveSellOfferOp wt_CreatePassiveSellOfferOp"
  apply (rule xdr_typeI)
  subgoal by (auto simp: enc_CreatePassiveSellOfferOp_def wt_CreatePassiveSellOfferOp_def intro: xdr_w)
  subgoal by (auto simp: enc_CreatePassiveSellOfferOp_def dec_CreatePassiveSellOfferOp_def wt_CreatePassiveSellOfferOp_def xdr_eval dest!: xdr_r)
  subgoal by (auto simp: enc_CreatePassiveSellOfferOp_def dec_CreatePassiveSellOfferOp_def wt_CreatePassiveSellOfferOp_def xdr_struct) (auto dest!: xdr_c)
  done

lemma xdr_SetOptionsOp: "xdr_type enc_SetOptionsOp dec_SetOptionsOp wt_SetOptionsOp"
  apply (rule xdr_typeI)
  subgoal by (auto simp: enc_SetOptionsOp_def wt_SetOptionsOp_def intro: xdr_w)
  subgoal by (auto simp: enc_SetOptionsOp_def dec_SetOptionsOp_def wt_SetOptionsOp_def xdr_eval dest!: xdr_r)
  subgoal
    apply (clarsimp simp: enc_SetOptionsOp_def dec_SetOptionsOp_def wt_SetOptionsOp_def xdr_struct)
    apply ((drule xdr_c)+, clarsimp)
    done
  done

lemma xdr_ManageDataOp: "xdr_type enc_ManageDataOp dec_ManageDataOp wt_ManageDataOp"
  apply (rule xdr_typeI)
  subgoal by (auto simp: enc_ManageDataOp_def wt_ManageDataOp_def intro: xdr_w)
  subgoal by (auto simp: enc_ManageDataOp_def dec_ManageDataOp_def wt_ManageDataOp_def xdr_eval dest!: xdr_r)
  subgoal by (auto simp: enc_ManageDataOp_def dec_ManageDataOp_def wt_ManageDataOp_def xdr_struct) (auto dest!: xdr_c)
  done
lemmas xdr_ops_w [xdr_w] = xdr_CreateAccountOp [THEN xdr_written] xdr_PaymentOp [THEN xdr_written] xdr_PathPaymentStrictReceiveOp [THEN xdr_written] xdr_PathPaymentStrictSendOp [THEN xdr_written] xdr_ManageSellOfferOp [THEN xdr_written] xdr_CreatePassiveSellOfferOp [THEN xdr_written] xdr_SetOptionsOp [THEN xdr_written] xdr_ManageDataOp [THEN xdr_written]
lemmas xdr_ops_r [xdr_r] = xdr_CreateAccountOp [THEN xdr_readsI] xdr_PaymentOp [THEN xdr_readsI] xdr_PathPaymentStrictReceiveOp [THEN xdr_readsI] xdr_PathPaymentStrictSendOp [THEN xdr_readsI] xdr_ManageSellOfferOp [THEN xdr_readsI] xdr_CreatePassiveSellOfferOp [THEN xdr_readsI] xdr_SetOptionsOp [THEN xdr_readsI] xdr_ManageDataOp [THEN xdr_readsI]
lemmas xdr_ops_c [xdr_c] = xdr_CreateAccountOp [THEN xdr_canonical] xdr_PaymentOp [THEN xdr_canonical] xdr_PathPaymentStrictReceiveOp [THEN xdr_canonical] xdr_PathPaymentStrictSendOp [THEN xdr_canonical] xdr_ManageSellOfferOp [THEN xdr_canonical] xdr_CreatePassiveSellOfferOp [THEN xdr_canonical] xdr_SetOptionsOp [THEN xdr_canonical] xdr_ManageDataOp [THEN xdr_canonical]


text \<open>The parameters of a pool are a union with one arm.\<close>

definition enc_LiquidityPoolType :: "int xdr_encoder" where "enc_LiquidityPoolType = enc_enum ''LiquidityPoolType'' [0]"
definition dec_LiquidityPoolType :: "int xdr_decoder" where "dec_LiquidityPoolType = dec_enum ''LiquidityPoolType'' [0]"

definition enc_ConstantProduct :: "LiquidityPoolConstantProductParameters xdr_encoder" where
  "enc_ConstantProduct s = xdr_write [enc_Asset (lp_AssetA s), enc_Asset (lp_AssetB s), enc_Int32 (lp_Fee s)]"

definition dec_ConstantProduct :: "LiquidityPoolConstantProductParameters xdr_decoder" where
  "dec_ConstantProduct =
     xdr_field ''Asset'' dec_Asset (\<lambda>a.
     xdr_field ''Asset'' dec_Asset (\<lambda>b.
     xdr_field ''Int32'' dec_Int32 (\<lambda>c.
     xdr_return \<lparr>lp_AssetA = a, lp_AssetB = b, lp_Fee = c\<rparr>)))"

definition wt_ConstantProduct :: "LiquidityPoolConstantProductParameters \<Rightarrow> bool" where
  "wt_ConstantProduct s \<longleftrightarrow> wt_Asset (lp_AssetA s) \<and> wt_Asset (lp_AssetB s)"

fun enc_LiquidityPoolParameters :: "LiquidityPoolParameters xdr_encoder" where
  "enc_LiquidityPoolParameters (LiquidityPoolConstantProduct p) = xdr_write [enc_LiquidityPoolType 0, enc_ConstantProduct p]"

definition dec_LiquidityPoolParameters :: "LiquidityPoolParameters xdr_decoder" where
  "dec_LiquidityPoolParameters =
     xdr_field ''LiquidityPoolType'' dec_LiquidityPoolType (\<lambda>t.
       if t = 0 then
         xdr_field ''LiquidityPoolConstantProductParameters'' dec_ConstantProduct (\<lambda>p. xdr_return (LiquidityPoolConstantProduct p))
       else xdr_fail (dec_switch_error ''LiquidityPoolParameters'' ''LiquidityPoolType'' t))"

fun wt_LiquidityPoolParameters :: "LiquidityPoolParameters \<Rightarrow> bool" where
  "wt_LiquidityPoolParameters (LiquidityPoolConstantProduct p) \<longleftrightarrow> wt_ConstantProduct p"

lemma xdr_LiquidityPoolType: "xdr_type enc_LiquidityPoolType dec_LiquidityPoolType (\<lambda>t. t \<in> set [0])"
  unfolding enc_LiquidityPoolType_def dec_LiquidityPoolType_def by (rule xdr_type_enum) simp

lemma xdr_ConstantProduct: "xdr_type enc_ConstantProduct dec_ConstantProduct wt_ConstantProduct"
  apply (rule xdr_typeI)
  subgoal by (auto simp: enc_ConstantProduct_def wt_ConstantProduct_def intro: xdr_w)
  subgoal by (auto simp: enc_ConstantProduct_def dec_ConstantProduct_def wt_ConstantProduct_def xdr_eval dest!: xdr_r)
  subgoal by (auto simp: enc_ConstantProduct_def dec_ConstantProduct_def wt_ConstantProduct_def xdr_struct dest!: xdr_c)
  done

lemmas xdr_pool_parts = xdr_LiquidityPoolType xdr_ConstantProduct
lemmas xdr_pool_w [xdr_w] = xdr_pool_parts [THEN xdr_written]
lemmas xdr_pool_r [xdr_r] = xdr_pool_parts [THEN xdr_readsI]
lemmas xdr_pool_c [xdr_c] = xdr_pool_parts [THEN xdr_canonical]

lemma xdr_LiquidityPoolParameters:
  "xdr_type enc_LiquidityPoolParameters dec_LiquidityPoolParameters wt_LiquidityPoolParameters"
  apply (rule xdr_typeI)
  subgoal for x by (cases x) (auto intro!: xdr_w)
  subgoal for x by (cases x) (auto simp: dec_LiquidityPoolParameters_def xdr_eval dest!: xdr_r)
  subgoal by (auto simp: dec_LiquidityPoolParameters_def xdr_struct split: if_splits dest!: xdr_c)
  done

lemmas xdr_LiquidityPoolParameters_w [xdr_w] = xdr_written [OF xdr_LiquidityPoolParameters]
lemmas xdr_LiquidityPoolParameters_r [xdr_r] = xdr_readsI [OF xdr_LiquidityPoolParameters]
lemmas xdr_LiquidityPoolParameters_c [xdr_c] = xdr_canonical [OF xdr_LiquidityPoolParameters]

definition enc_ChangeTrustAsset :: "xdr_ChangeTrustAsset xdr_encoder" where
  "enc_ChangeTrustAsset u = xdr_write [enc_AssetType (xc_Type u),
     if xc_Type u = 0 then Inr []
     else if xc_Type u = 1 then and_then (deref (xc_AlphaNum4 u)) enc_AlphaNum4
     else if xc_Type u = 2 then and_then (deref (xc_AlphaNum12 u)) enc_AlphaNum12
     else if xc_Type u = 3 then and_then (deref (xc_LiquidityPool u)) enc_LiquidityPoolParameters
     else Inl (enc_switch_error ''ChangeTrustAsset'' ''AssetType'' (xc_Type u))]"

definition dec_ChangeTrustAsset :: "xdr_ChangeTrustAsset xdr_decoder" where
  "dec_ChangeTrustAsset =
     xdr_field ''AssetType'' dec_AssetType (\<lambda>t.
       if t = 0 then xdr_return \<lparr>xc_Type = t, xc_AlphaNum4 = None, xc_AlphaNum12 = None, xc_LiquidityPool = None\<rparr>
       else if t = 1 then
         xdr_field ''AlphaNum4'' dec_AlphaNum4 (\<lambda>a. xdr_return \<lparr>xc_Type = t, xc_AlphaNum4 = Some a, xc_AlphaNum12 = None, xc_LiquidityPool = None\<rparr>)
       else if t = 2 then
         xdr_field ''AlphaNum12'' dec_AlphaNum12 (\<lambda>a. xdr_return \<lparr>xc_Type = t, xc_AlphaNum4 = None, xc_AlphaNum12 = Some a, xc_LiquidityPool = None\<rparr>)
       else if t = 3 then
         xdr_field ''LiquidityPoolParameters'' dec_LiquidityPoolParameters (\<lambda>a.
           xdr_return \<lparr>xc_Type = t, xc_AlphaNum4 = None, xc_AlphaNum12 = None, xc_LiquidityPool = Some a\<rparr>)
       else xdr_fail (dec_switch_error ''ChangeTrustAsset'' ''AssetType'' t))"

definition wt_ChangeTrustAsset :: "xdr_ChangeTrustAsset \<Rightarrow> bool" where
  "wt_ChangeTrustAsset u \<longleftrightarrow>
     xc_Type u = 0 \<and> xc_AlphaNum4 u = None \<and> xc_AlphaNum12 u = None \<and> xc_LiquidityPool u = None \<or>
     xc_Type u = 1 \<and> (\<exists>a. xc_AlphaNum4 u = Some a \<and> wt_AlphaNum 4 a) \<and> xc_AlphaNum12 u = None \<and> xc_LiquidityPool u = None \<or>
     xc_Type u = 2 \<and> (\<exists>a. xc_AlphaNum12 u = Some a \<and> wt_AlphaNum 12 a) \<and> xc_AlphaNum4 u = None \<and> xc_LiquidityPool u = None \<or>
     xc_Type u = 3 \<and> (\<exists>p. xc_LiquidityPool u = Some p \<and> wt_LiquidityPoolParameters p) \<and> xc_AlphaNum4 u = None \<and> xc_AlphaNum12 u = None"

definition enc_ChangeTrustOp :: "ChangeTrustOp xdr_encoder" where
  "enc_ChangeTrustOp s = xdr_write [enc_ChangeTrustAsset (ct_Line s), enc_Int64 (ct_Limit s)]"

definition dec_ChangeTrustOp :: "ChangeTrustOp xdr_decoder" where
  "dec_ChangeTrustOp =
     xdr_field ''ChangeTrustAsset'' dec_ChangeTrustAsset (\<lambda>a.
     xdr_field ''Int64'' dec_Int64 (\<lambda>b. xdr_return \<lparr>ct_Line = a, ct_Limit = b\<rparr>))"

text \<open>The union \<open>AssetCode\<close>: its type and the arms for codes of 4 and 12 bytes.\<close>

definition enc_AssetCode :: "(int \<times> byte list option \<times> byte list option) xdr_encoder" where
  "enc_AssetCode = (\<lambda>(t, code4, code12). xdr_write [enc_AssetType t,
     if t = 1 then and_then (deref code4) enc_AssetCode4
     else if t = 2 then and_then (deref code12) enc_AssetCode12
     else Inl (enc_switch_error ''AssetCode'' ''AssetType'' t)])"

definition dec_AssetCode :: "(int \<times> byte list option \<times> byte list option) xdr_decoder" where
  "dec_AssetCode =
     xdr_field ''AssetType'' dec_AssetType (\<lambda>t.
       if t = 1 then xdr_field ''AssetCode4'' dec_AssetCode4 (\<lambda>c. xdr_return (t, Some c, None))
       else if t = 2 then xdr_field ''AssetCode12'' dec_AssetCode12 (\<lambda>c. xdr_return (t, None, Some c))
       else xdr_fail (dec_switch_error ''AssetCode'' ''AssetType'' t))"

definition wt_AssetCode :: "int \<times> byte list option \<times> byte list option \<Rightarrow> bool" where
  "wt_AssetCode = (\<lambda>(t, code4, code12).
     t = 1 \<and> (\<exists>c. code4 = Some c \<and> wt_array 4 c) \<and> code12 = None \<or>
     t = 2 \<and> (\<exists>c. code12 = Some c \<and> wt_array 12 c) \<and> code4 = None)"

definition enc_AllowTrustOp :: "AllowTrustOp xdr_encoder" where
  "enc_AllowTrustOp s = xdr_write [enc_AccountId (at_Trustor s),
     enc_AssetCode (at_AssetType s, at_AssetCode4 s, at_AssetCode12 s), enc_Uint32 (at_Authorize s)]"

definition dec_AllowTrustOp :: "AllowTrustOp xdr_decoder" where
  "dec_AllowTrustOp =
     xdr_field ''AccountId'' dec_AccountId (\<lambda>a.
     xdr_field ''AssetCode'' dec_AssetCode (\<lambda>(t, code4, code12).
     xdr_field ''Uint32'' dec_Uint32 (\<lambda>c.
     xdr_return \<lparr>at_Trustor = a, at_AssetType = t, at_AssetCode4 = code4, at_AssetCode12 = code12, at_Authorize = c\<rparr>)))"

definition wt_AllowTrustOp :: "AllowTrustOp \<Rightarrow> bool" where
  "wt_AllowTrustOp s \<longleftrightarrow> wt_AccountId (at_Trustor s) \<and> wt_AssetCode (at_AssetType s, at_AssetCode4 s, at_AssetCode12 s)"

lemma xdr_ChangeTrustAsset: "xdr_type enc_ChangeTrustAsset dec_ChangeTrustAsset wt_ChangeTrustAsset"
  apply (rule xdr_typeI)
  subgoal by (auto simp: enc_ChangeTrustAsset_def wt_ChangeTrustAsset_def intro: xdr_w)
  subgoal by (auto simp: enc_ChangeTrustAsset_def dec_ChangeTrustAsset_def wt_ChangeTrustAsset_def xdr_eval dest!: xdr_r)
  subgoal by (auto simp: enc_ChangeTrustAsset_def dec_ChangeTrustAsset_def wt_ChangeTrustAsset_def xdr_struct split: if_splits)
      (auto dest!: xdr_c)
  done

lemma xdr_AssetCode: "xdr_type enc_AssetCode dec_AssetCode wt_AssetCode"
  apply (rule xdr_typeI)
  subgoal by (auto simp: enc_AssetCode_def wt_AssetCode_def intro!: xdr_w)
  subgoal by (auto simp: enc_AssetCode_def dec_AssetCode_def wt_AssetCode_def xdr_eval dest!: xdr_r)
  subgoal by (auto simp: enc_AssetCode_def dec_AssetCode_def wt_AssetCode_def xdr_struct split: if_splits) (auto dest!: xdr_c)
  done

lemmas xdr_trust_w [xdr_w] = xdr_ChangeTrustAsset [THEN xdr_written] xdr_AssetCode [THEN xdr_written]
lemmas xdr_trust_r [xdr_r] = xdr_ChangeTrustAsset [THEN xdr_readsI] xdr_AssetCode [THEN xdr_readsI]
lemmas xdr_trust_c [xdr_c] = xdr_ChangeTrustAsset [THEN xdr_canonical] xdr_AssetCode [THEN xdr_canonical]

lemma xdr_ChangeTrustOp: "xdr_type enc_ChangeTrustOp dec_ChangeTrustOp (\<lambda>s. wt_ChangeTrustAsset (ct_Line s))"
  apply (rule xdr_typeI)
  subgoal by (auto simp: enc_ChangeTrustOp_def  intro: xdr_w)
  subgoal by (auto simp: enc_ChangeTrustOp_def dec_ChangeTrustOp_def xdr_eval dest!: xdr_r)
  subgoal by (auto simp: enc_ChangeTrustOp_def dec_ChangeTrustOp_def  xdr_struct) (auto dest!: xdr_c)
  done
lemma xdr_AllowTrustOp: "xdr_type enc_AllowTrustOp dec_AllowTrustOp wt_AllowTrustOp"
  apply (rule xdr_typeI)
  subgoal by (auto simp: enc_AllowTrustOp_def wt_AllowTrustOp_def intro: xdr_w)
  subgoal by (auto simp: enc_AllowTrustOp_def dec_AllowTrustOp_def wt_AllowTrustOp_def xdr_eval dest!: xdr_r)
  subgoal by (auto simp: enc_AllowTrustOp_def dec_AllowTrustOp_def wt_AllowTrustOp_def xdr_struct) (auto dest!: xdr_c)
  done
lemmas xdr_trust_ops_w [xdr_w] = xdr_ChangeTrustOp [THEN xdr_written] xdr_AllowTrustOp [THEN xdr_written]
lemmas xdr_trust_ops_r [xdr_r] = xdr_ChangeTrustOp [THEN xdr_readsI] xdr_AllowTrustOp [THEN xdr_readsI]
lemmas xdr_trust_ops_c [xdr_c] = xdr_ChangeTrustOp [THEN xdr_canonical] xdr_AllowTrustOp [THEN xdr_canonical]

end
