(* ===== verification/Xdr_Ledger.thy ===== *)
theory Xdr_Ledger
  imports Xdr_Ops
begin

text \<open>
  \<open>EncodeTo\<close> and \<open>DecodeFrom\<close> of the operations the program never makes but reads in the
  envelopes it is given: claimable balances, sponsorships, clawbacks, pools, with the ledger
  keys and the recursive claim predicates they contain.
\<close>

section \<open>Claim predicates\<close>

definition enc_ClaimPredicateType :: "int xdr_encoder" where
  "enc_ClaimPredicateType = enc_enum ''ClaimPredicateType'' [0, 1, 2, 3, 4, 5]"
definition dec_ClaimPredicateType :: "int xdr_decoder" where
  "dec_ClaimPredicateType = dec_enum ''ClaimPredicateType'' [0, 1, 2, 3, 4, 5]"

lemma enc_slice_cong [fundef_cong]:
  "xs = ys \<Longrightarrow> (\<And>x. x \<in> set ys \<Longrightarrow> e x = f x) \<Longrightarrow> enc_slice e xs = enc_slice f ys"
  by (simp add: enc_slice_def cong: map_cong)

lemma enc_pointer_cong [fundef_cong]:
  "p = q \<Longrightarrow> (\<And>x. x \<in> set_option q \<Longrightarrow> e x = f x) \<Longrightarrow> enc_pointer e p = enc_pointer f q"
  by (cases q) (simp_all add: enc_pointer_def)

fun enc_ClaimPredicate :: "ClaimPredicate xdr_encoder" where
  "enc_ClaimPredicate ClaimUnconditional = xdr_write [enc_ClaimPredicateType 0]"
| "enc_ClaimPredicate (ClaimAnd ps) = xdr_write [enc_ClaimPredicateType 1, enc_slice enc_ClaimPredicate ps]"
| "enc_ClaimPredicate (ClaimOr ps) = xdr_write [enc_ClaimPredicateType 2, enc_slice enc_ClaimPredicate ps]"
| "enc_ClaimPredicate (ClaimNot p) = xdr_write [enc_ClaimPredicateType 3, enc_pointer enc_ClaimPredicate p]"
| "enc_ClaimPredicate (ClaimBeforeAbsoluteTime t) = xdr_write [enc_ClaimPredicateType 4, enc_Int64 t]"
| "enc_ClaimPredicate (ClaimBeforeRelativeTime t) = xdr_write [enc_ClaimPredicateType 5, enc_Int64 t]"

text \<open>One step of the reader, with \<open>d\<close> for the calls of itself.\<close>

definition pred_step :: "ClaimPredicate xdr_decoder \<Rightarrow> ClaimPredicate xdr_decoder" where
  "pred_step d =
     xdr_field ''ClaimPredicateType'' dec_ClaimPredicateType (\<lambda>t.
       if t = 0 then xdr_return ClaimUnconditional
       else if t = 1 then xdr_then (dec_slice ''ClaimPredicate'' 2 d) (\<lambda>ps. xdr_return (ClaimAnd ps))
       else if t = 2 then xdr_then (dec_slice ''ClaimPredicate'' 2 d) (\<lambda>ps. xdr_return (ClaimOr ps))
       else if t = 3 then xdr_then (dec_pointer ''ClaimPredicate'' d) (\<lambda>p. xdr_return (ClaimNot p))
       else if t = 4 then xdr_field ''Int64'' dec_Int64 (\<lambda>v. xdr_return (ClaimBeforeAbsoluteTime v))
       else if t = 5 then xdr_field ''Int64'' dec_Int64 (\<lambda>v. xdr_return (ClaimBeforeRelativeTime v))
       else xdr_fail (dec_switch_error ''ClaimPredicate'' ''ClaimPredicateType'' t))"

text \<open>
  The reader calls itself on the input that is left, which every call has shortened; the
  fuel bounds the depth, and the length of the input is enough of it
  (\<open>dec_ClaimPredicate_unfold\<close> is the equation of the code).
\<close>

primrec dec_pred :: "nat \<Rightarrow> ClaimPredicate xdr_decoder" where
  "dec_pred 0 = xdr_fail (Panic ''stack overflow'')"
| "dec_pred (Suc n) = pred_step (dec_pred n)"

definition dec_ClaimPredicate :: "ClaimPredicate xdr_decoder" where
  "dec_ClaimPredicate r = dec_pred (Suc (length r)) r"

fun wt_ClaimPredicate :: "ClaimPredicate \<Rightarrow> bool" where
  "wt_ClaimPredicate (ClaimAnd ps) \<longleftrightarrow> length ps \<le> 2 \<and> (\<forall>p \<in> set ps. wt_ClaimPredicate p)"
| "wt_ClaimPredicate (ClaimOr ps) \<longleftrightarrow> length ps \<le> 2 \<and> (\<forall>p \<in> set ps. wt_ClaimPredicate p)"
| "wt_ClaimPredicate (ClaimNot p) \<longleftrightarrow> (\<forall>q \<in> set_option p. wt_ClaimPredicate q)"
| "wt_ClaimPredicate p \<longleftrightarrow> True"

text \<open>What is read with fuel \<open>n\<close>: predicates less than \<open>n\<close> deep.\<close>

primrec wt_pred :: "nat \<Rightarrow> ClaimPredicate \<Rightarrow> bool" where
  "wt_pred 0 p \<longleftrightarrow> False"
| "wt_pred (Suc n) p \<longleftrightarrow>
     (case p of
        ClaimAnd ps \<Rightarrow> length ps \<le> 2 \<and> (\<forall>q \<in> set ps. wt_pred n q)
      | ClaimOr ps \<Rightarrow> length ps \<le> 2 \<and> (\<forall>q \<in> set ps. wt_pred n q)
      | ClaimNot q \<Rightarrow> pred_option (wt_pred n) q
      | _ \<Rightarrow> True)"

lemma xdr_ClaimPredicateType: "xdr_type enc_ClaimPredicateType dec_ClaimPredicateType (\<lambda>t. t \<in> set [0, 1, 2, 3, 4, 5])"
  unfolding enc_ClaimPredicateType_def dec_ClaimPredicateType_def by (rule xdr_type_enum) simp

lemmas xdr_ClaimPredicateType_w [xdr_w] = xdr_written [OF xdr_ClaimPredicateType]
lemmas xdr_ClaimPredicateType_r [xdr_r] = xdr_readsI [OF xdr_ClaimPredicateType]
lemmas xdr_ClaimPredicateType_c [xdr_c] = xdr_canonical [OF xdr_ClaimPredicateType]

lemma dec_pred_type: "xdr_type enc_ClaimPredicate (dec_pred n) (wt_pred n)"
proof (induction n)
  case 0
  show ?case by (rule xdr_typeI) simp_all
next
  case (Suc n)
  have s: "xdr_type (enc_slice enc_ClaimPredicate) (dec_slice ''ClaimPredicate'' 2 (dec_pred n))
      (\<lambda>ps. length ps \<le> 2 \<and> (\<forall>p \<in> set ps. wt_pred n p))"
    by (rule xdr_type_slice [OF Suc]) simp
  have p: "xdr_type (enc_pointer enc_ClaimPredicate) (dec_pointer ''ClaimPredicate'' (dec_pred n)) (pred_option (wt_pred n))"
    by (rule xdr_type_pointer [OF Suc])
  show ?case
  proof (rule xdr_typeI)
    fix x assume "wt_pred (Suc n) x"
    then show "is_ok (enc_ClaimPredicate x)"
      by (cases x) (auto intro!: xdr_w xdr_written [OF s] xdr_written [OF p])
  next
    fix x bs r assume "wt_pred (Suc n) x" "enc_ClaimPredicate x = Inr bs"
    then show "dec_pred (Suc n) (bs @ r) = Inr (x, r)"
      by (cases x) (auto simp: pred_step_def xdr_eval dest!: xdr_r xdr_readsI [OF s] xdr_readsI [OF p])
  next
    fix x r r' assume "dec_pred (Suc n) r = Inr (x, r')"
    then show "wt_pred (Suc n) x \<and> (\<exists>bs. enc_ClaimPredicate x = Inr bs \<and> r = bs @ r')"
      by (auto simp: pred_step_def xdr_struct split: if_splits dest!: xdr_c xdr_canonical [OF s] xdr_canonical [OF p])
  qed
qed

lemma enc_type_length: "enc_enum name valid t = Inr b \<Longrightarrow> length b = 4"
  by (auto simp: enc_enum_def EncodeInt_Uint split: if_splits)

lemma xdr_write_length: "xdr_write ms = Inr bs \<Longrightarrow> Inr b \<in> set ms \<Longrightarrow> length b \<le> length bs"
  by (induction ms arbitrary: bs) fastforce+

lemma enc_slice_part:
  assumes "enc_slice e xs = Inr bs" "x \<in> set xs" "is_ok (e x)"
  shows "\<exists>b. e x = Inr b \<and> length b \<le> length bs"
proof -
  from assms(1) obtain bs' where "xdr_write (map e xs) = Inr bs'" "length bs' \<le> length bs" by (auto simp: enc_slice_def)
  moreover obtain b where "e x = Inr b" using assms(3) by (auto simp: is_ok_iff)
  moreover from this assms(2) have "Inr b \<in> set (map e xs)" by (metis image_eqI list.set_map)
  ultimately show ?thesis using xdr_write_length by fastforce
qed

lemma wt_ClaimPredicate_written: "wt_ClaimPredicate p \<Longrightarrow> is_ok (enc_ClaimPredicate p)"
  by (induction p rule: wt_ClaimPredicate.induct)
    (auto simp: enc_slice_def enc_pointer_def intro!: xdr_w split: option.splits)

lemma wt_pred_wt: "wt_pred n p \<Longrightarrow> wt_ClaimPredicate p"
  by (induction n arbitrary: p) (auto simp: pred_option_def split: ClaimPredicate.splits)

lemma wt_pred_deep: "wt_ClaimPredicate p \<Longrightarrow> enc_ClaimPredicate p = Inr bs \<Longrightarrow> length bs < n \<Longrightarrow> wt_pred n p"
proof (induction p arbitrary: bs n rule: wt_ClaimPredicate.induct)
  case (1 ps)
  then obtain b b' where b: "enc_ClaimPredicateType 1 = Inr b" "enc_slice enc_ClaimPredicate ps = Inr b'" "bs = b @ b'" by auto
  then have "length b = 4" by (simp add: enc_ClaimPredicateType_def enc_type_length)
  moreover obtain k where "n = Suc k" using 1(4) by (cases n) auto
  ultimately show ?case using 1 b enc_slice_part [OF b(2)] wt_ClaimPredicate_written by fastforce
next
  case (2 ps)
  then obtain b b' where b: "enc_ClaimPredicateType 2 = Inr b" "enc_slice enc_ClaimPredicate ps = Inr b'" "bs = b @ b'" by auto
  then have "length b = 4" by (simp add: enc_ClaimPredicateType_def enc_type_length)
  moreover obtain k where "n = Suc k" using 2(4) by (cases n) auto
  ultimately show ?case using 2 b enc_slice_part [OF b(2)] wt_ClaimPredicate_written by fastforce
next
  case (3 p)
  then obtain b b' where b: "enc_ClaimPredicateType 3 = Inr b" "enc_pointer enc_ClaimPredicate p = Inr b'" "bs = b @ b'" by auto
  then have "length b = 4" by (simp add: enc_ClaimPredicateType_def enc_type_length)
  moreover obtain k where "n = Suc k" using 3(4) by (cases n) auto
  ultimately show ?case using 3 b by (cases p) (auto simp: enc_pointer_def)
qed (auto simp: gr0_conv_Suc dest!: less_imp_Suc_add)

lemma xdr_ClaimPredicate: "xdr_type enc_ClaimPredicate dec_ClaimPredicate wt_ClaimPredicate"
proof (rule xdr_typeI)
  fix p bs r assume "wt_ClaimPredicate p" "enc_ClaimPredicate p = Inr bs"
  then show "dec_ClaimPredicate (bs @ r) = Inr (p, r)"
    using xdr_reads [OF dec_pred_type wt_pred_deep, of p bs "Suc (length (bs @ r))"] by (simp add: dec_ClaimPredicate_def)
next
  fix p r r' assume "dec_ClaimPredicate r = Inr (p, r')"
  then show "wt_ClaimPredicate p \<and> (\<exists>bs. enc_ClaimPredicate p = Inr bs \<and> r = bs @ r')"
    unfolding dec_ClaimPredicate_def using xdr_canonical [OF dec_pred_type] wt_pred_wt by blast
qed (rule wt_ClaimPredicate_written)

text \<open>A reader that shortens the input is not seen past the input it is given.\<close>

lemma dec_elements_cong:
  assumes "xdr_type e d w"
  shows "(\<And>r'. length r' \<le> length r \<Longrightarrow> d r' = d' r') \<Longrightarrow> dec_elements name d k r = dec_elements name d' k r"
proof (induction k arbitrary: r)
  case (Suc k)
  have d: "d r = d' r" using Suc.prems by simp
  show ?case
  proof (cases "d r")
    case (Inr y)
    obtain x r1 where y: "y = (x, r1)" by (cases y)
    then have "length r1 \<le> length r" using xdr_type.shortened [OF assms] Inr by blast
    then have "dec_elements name d k r1 = dec_elements name d' k r1" using Suc by simp
    then show ?thesis using Inr y d by (simp add: xdr_field_step xdr_then_def)
  qed (use d in \<open>simp add: xdr_eval\<close>)
qed simp

lemma dec_slice_cong:
  assumes "xdr_type e d w" and eq: "\<And>r'. length r' \<le> length r \<Longrightarrow> d r' = d' r'"
  shows "dec_slice name m d r = dec_slice name m d' r"
proof (cases "DecodeUint r")
  case (Inr y)
  obtain l r1 where y: "y = (l, r1)" by (cases y)
  then have "length r1 \<le> length r" using Inr by (simp add: DecodeUint_Inr)
  then have "dec_elements name d (unat l) r1 = dec_elements name d' (unat l) r1"
    by (intro dec_elements_cong [OF assms(1)]) (simp add: eq)
  then show ?thesis using Inr y by (simp add: dec_slice_def xdr_field_step)
qed (simp add: dec_slice_def xdr_eval)

lemma dec_pointer_cong:
  assumes "\<And>r'. length r' \<le> length r \<Longrightarrow> d r' = d' r'"
  shows "dec_pointer name d r = dec_pointer name d' r"
proof (cases "DecodeBool r")
  case (Inr y)
  obtain b r1 where y: "y = (b, r1)" by (cases y)
  then have "d r1 = d' r1" using Inr assms by (simp add: DecodeBool_Inr)
  then show ?thesis using Inr y by (simp add: dec_pointer_def xdr_field_step) (simp add: xdr_eval)
qed (simp add: dec_pointer_def xdr_eval)

lemma pred_step_cong:
  assumes "xdr_type e d w" and eq: "\<And>r'. length r' < length r \<Longrightarrow> d r' = d' r'"
  shows "pred_step d r = pred_step d' r"
proof (cases "dec_ClaimPredicateType r")
  case (Inr y)
  obtain t r1 where y: "y = (t, r1)" by (cases y)
  obtain b where "enc_ClaimPredicateType t = Inr b" "r = b @ r1" using xdr_canonical [OF xdr_ClaimPredicateType] Inr y by blast
  then have "length r1 < length r" by (simp add: enc_ClaimPredicateType_def enc_type_length)
  then have e: "\<And>r'. length r' \<le> length r1 \<Longrightarrow> d r' = d' r'" using eq by simp
  have "dec_slice ''ClaimPredicate'' 2 d r1 = dec_slice ''ClaimPredicate'' 2 d' r1" by (rule dec_slice_cong [OF assms(1) e])
  moreover have "dec_pointer ''ClaimPredicate'' d r1 = dec_pointer ''ClaimPredicate'' d' r1" by (rule dec_pointer_cong [OF e])
  ultimately show ?thesis using Inr y by (simp add: pred_step_def xdr_field_step) (simp add: xdr_then_def)
qed (simp add: pred_step_def xdr_eval)

lemma dec_pred_fuel: "length r < n \<Longrightarrow> length r < m \<Longrightarrow> dec_pred n r = dec_pred m r"
proof (induction n arbitrary: m r)
  case (Suc n)
  from Suc.prems obtain k where m: "m = Suc k" by (cases m) auto
  have "pred_step (dec_pred n) r = pred_step (dec_pred k) r"
  proof (rule pred_step_cong [OF dec_pred_type])
    fix r' :: "byte list" assume "length r' < length r"
    then show "dec_pred n r' = dec_pred k r'" using Suc.prems m by (intro Suc.IH) simp_all
  qed
  then show ?case by (simp add: m)
qed simp

lemma dec_ClaimPredicate_unfold: "dec_ClaimPredicate = pred_step dec_ClaimPredicate"
proof
  fix r
  have "pred_step (dec_pred (length r)) r = pred_step dec_ClaimPredicate r"
  proof (rule pred_step_cong [OF dec_pred_type])
    fix r' :: "byte list" assume "length r' < length r"
    then show "dec_pred (length r) r' = dec_ClaimPredicate r'" unfolding dec_ClaimPredicate_def by (intro dec_pred_fuel) simp_all
  qed
  then show "dec_ClaimPredicate r = pred_step dec_ClaimPredicate r" by (simp add: dec_ClaimPredicate_def)
qed

lemmas xdr_ClaimPredicate_w [xdr_w] = xdr_written [OF xdr_ClaimPredicate]
lemmas xdr_ClaimPredicate_r [xdr_r] = xdr_readsI [OF xdr_ClaimPredicate]
lemmas xdr_ClaimPredicate_c [xdr_c] = xdr_canonical [OF xdr_ClaimPredicate]

section \<open>Enumerations and identifiers\<close>

definition enc_ClaimantType :: "int xdr_encoder" where "enc_ClaimantType = enc_enum ''ClaimantType'' [0]"
definition dec_ClaimantType :: "int xdr_decoder" where "dec_ClaimantType = dec_enum ''ClaimantType'' [0]"

definition enc_ClaimableBalanceIdType :: "int xdr_encoder" where "enc_ClaimableBalanceIdType = enc_enum ''ClaimableBalanceIdType'' [0]"
definition dec_ClaimableBalanceIdType :: "int xdr_decoder" where "dec_ClaimableBalanceIdType = dec_enum ''ClaimableBalanceIdType'' [0]"

definition enc_LedgerEntryType :: "int xdr_encoder" where "enc_LedgerEntryType = enc_enum ''LedgerEntryType'' [0, 1, 2, 3, 4, 5]"
definition dec_LedgerEntryType :: "int xdr_decoder" where "dec_LedgerEntryType = dec_enum ''LedgerEntryType'' [0, 1, 2, 3, 4, 5]"

definition enc_RevokeSponsorshipType :: "int xdr_encoder" where "enc_RevokeSponsorshipType = enc_enum ''RevokeSponsorshipType'' [0, 1]"
definition dec_RevokeSponsorshipType :: "int xdr_decoder" where "dec_RevokeSponsorshipType = dec_enum ''RevokeSponsorshipType'' [0, 1]"

definition enc_PoolId :: "byte list xdr_encoder" where "enc_PoolId s = enc_Hash s"
definition dec_PoolId :: "byte list xdr_decoder" where "dec_PoolId = xdr_named ''Hash'' dec_Hash"

fun enc_ClaimableBalanceId :: "ClaimableBalanceId xdr_encoder" where
  "enc_ClaimableBalanceId (ClaimableBalanceIdTypeV0 x) = xdr_write [enc_ClaimableBalanceIdType 0, enc_Hash x]"

definition dec_ClaimableBalanceId :: "ClaimableBalanceId xdr_decoder" where
  "dec_ClaimableBalanceId =
     xdr_field ''ClaimableBalanceIdType'' dec_ClaimableBalanceIdType (\<lambda>t.
       if t = 0 then xdr_field ''Hash'' dec_Hash (\<lambda>x. xdr_return (ClaimableBalanceIdTypeV0 x))
       else xdr_fail (dec_switch_error ''ClaimableBalanceId'' ''ClaimableBalanceIdType'' t))"

fun wt_ClaimableBalanceId :: "ClaimableBalanceId \<Rightarrow> bool" where
  "wt_ClaimableBalanceId (ClaimableBalanceIdTypeV0 x) \<longleftrightarrow> wt_array 32 x"

lemma xdr_ClaimantType: "xdr_type enc_ClaimantType dec_ClaimantType (\<lambda>t. t \<in> set [0])"
  unfolding enc_ClaimantType_def dec_ClaimantType_def by (rule xdr_type_enum) simp
lemma xdr_ClaimableBalanceIdType: "xdr_type enc_ClaimableBalanceIdType dec_ClaimableBalanceIdType (\<lambda>t. t \<in> set [0])"
  unfolding enc_ClaimableBalanceIdType_def dec_ClaimableBalanceIdType_def by (rule xdr_type_enum) simp
lemma xdr_LedgerEntryType: "xdr_type enc_LedgerEntryType dec_LedgerEntryType (\<lambda>t. t \<in> set [0, 1, 2, 3, 4, 5])"
  unfolding enc_LedgerEntryType_def dec_LedgerEntryType_def by (rule xdr_type_enum) simp
lemma xdr_RevokeSponsorshipType: "xdr_type enc_RevokeSponsorshipType dec_RevokeSponsorshipType (\<lambda>t. t \<in> set [0, 1])"
  unfolding enc_RevokeSponsorshipType_def dec_RevokeSponsorshipType_def by (rule xdr_type_enum) simp
lemma xdr_PoolId: "xdr_type enc_PoolId dec_PoolId (wt_array 32)"
  unfolding dec_PoolId_def enc_PoolId_def [abs_def] by (rule xdr_named_type [OF xdr_Hash])

lemmas xdr_ledger_ids = xdr_ClaimantType xdr_ClaimableBalanceIdType xdr_LedgerEntryType xdr_RevokeSponsorshipType xdr_PoolId
lemmas xdr_ledger_ids_w [xdr_w] = xdr_ledger_ids [THEN xdr_written]
lemmas xdr_ledger_ids_r [xdr_r] = xdr_ledger_ids [THEN xdr_readsI]
lemmas xdr_ledger_ids_c [xdr_c] = xdr_ledger_ids [THEN xdr_canonical]

lemma xdr_ClaimableBalanceId: "xdr_type enc_ClaimableBalanceId dec_ClaimableBalanceId wt_ClaimableBalanceId"
  apply (rule xdr_typeI)
  subgoal for x by (cases x) (auto intro!: xdr_w)
  subgoal for x by (cases x) (auto simp: dec_ClaimableBalanceId_def xdr_eval dest!: xdr_r)
  subgoal by (auto simp: dec_ClaimableBalanceId_def xdr_struct split: if_splits dest!: xdr_c)
  done

lemmas xdr_balance_id = xdr_ClaimableBalanceId
lemmas xdr_balance_id_w [xdr_w] = xdr_balance_id [THEN xdr_written]
lemmas xdr_balance_id_r [xdr_r] = xdr_balance_id [THEN xdr_readsI]
lemmas xdr_balance_id_c [xdr_c] = xdr_balance_id [THEN xdr_canonical]

section \<open>Ledger keys\<close>

fun enc_TrustLineAsset :: "TrustLineAsset xdr_encoder" where
  "enc_TrustLineAsset TrustLineNative = xdr_write [enc_AssetType 0]"
| "enc_TrustLineAsset (TrustLineAlphaNum4 x) = xdr_write [enc_AssetType 1, enc_AlphaNum4 x]"
| "enc_TrustLineAsset (TrustLineAlphaNum12 x) = xdr_write [enc_AssetType 2, enc_AlphaNum12 x]"
| "enc_TrustLineAsset (TrustLinePoolShare x) = xdr_write [enc_AssetType 3, enc_PoolId x]"

definition dec_TrustLineAsset :: "TrustLineAsset xdr_decoder" where
  "dec_TrustLineAsset =
     xdr_field ''AssetType'' dec_AssetType (\<lambda>t.
       if t = 0 then xdr_return TrustLineNative
       else if t = 1 then xdr_field ''AlphaNum4'' dec_AlphaNum4 (\<lambda>x. xdr_return (TrustLineAlphaNum4 x))
       else if t = 2 then xdr_field ''AlphaNum12'' dec_AlphaNum12 (\<lambda>x. xdr_return (TrustLineAlphaNum12 x))
       else if t = 3 then xdr_field ''PoolId'' dec_PoolId (\<lambda>x. xdr_return (TrustLinePoolShare x))
       else xdr_fail (dec_switch_error ''TrustLineAsset'' ''AssetType'' t))"

fun wt_TrustLineAsset :: "TrustLineAsset \<Rightarrow> bool" where
  "wt_TrustLineAsset TrustLineNative \<longleftrightarrow> True"
| "wt_TrustLineAsset (TrustLineAlphaNum4 x) \<longleftrightarrow> wt_AlphaNum 4 x"
| "wt_TrustLineAsset (TrustLineAlphaNum12 x) \<longleftrightarrow> wt_AlphaNum 12 x"
| "wt_TrustLineAsset (TrustLinePoolShare x) \<longleftrightarrow> wt_array 32 x"

definition enc_LedgerKeyAccount :: "AccountId xdr_encoder" where "enc_LedgerKeyAccount s = xdr_write [enc_AccountId s]"
definition dec_LedgerKeyAccount :: "AccountId xdr_decoder" where "dec_LedgerKeyAccount = xdr_field ''AccountId'' dec_AccountId xdr_return"

definition enc_LedgerKeyTrustLine :: "LedgerKeyTrustLine xdr_encoder" where
  "enc_LedgerKeyTrustLine s = xdr_write [enc_AccountId (lt_AccountId s), enc_TrustLineAsset (lt_Asset s)]"

definition dec_LedgerKeyTrustLine :: "LedgerKeyTrustLine xdr_decoder" where
  "dec_LedgerKeyTrustLine =
     xdr_field ''AccountId'' dec_AccountId (\<lambda>a.
     xdr_field ''TrustLineAsset'' dec_TrustLineAsset (\<lambda>b.
     xdr_return \<lparr>lt_AccountId = a, lt_Asset = b\<rparr>))"

definition wt_LedgerKeyTrustLine :: "LedgerKeyTrustLine \<Rightarrow> bool" where
  "wt_LedgerKeyTrustLine s \<longleftrightarrow> wt_AccountId (lt_AccountId s) \<and> wt_TrustLineAsset (lt_Asset s)"

definition enc_LedgerKeyOffer :: "LedgerKeyOffer xdr_encoder" where
  "enc_LedgerKeyOffer s = xdr_write [enc_AccountId (lo_SellerId s), enc_Int64 (lo_OfferId s)]"

definition dec_LedgerKeyOffer :: "LedgerKeyOffer xdr_decoder" where
  "dec_LedgerKeyOffer =
     xdr_field ''AccountId'' dec_AccountId (\<lambda>a.
     xdr_field ''Int64'' dec_Int64 (\<lambda>b.
     xdr_return \<lparr>lo_SellerId = a, lo_OfferId = b\<rparr>))"

definition wt_LedgerKeyOffer :: "LedgerKeyOffer \<Rightarrow> bool" where
  "wt_LedgerKeyOffer s \<longleftrightarrow> wt_AccountId (lo_SellerId s)"

definition enc_LedgerKeyData :: "LedgerKeyData xdr_encoder" where
  "enc_LedgerKeyData s = xdr_write [enc_AccountId (ld_AccountId s), enc_String64 (ld_DataName s)]"

definition dec_LedgerKeyData :: "LedgerKeyData xdr_decoder" where
  "dec_LedgerKeyData =
     xdr_field ''AccountId'' dec_AccountId (\<lambda>a.
     xdr_field ''String64'' dec_String64 (\<lambda>b.
     xdr_return \<lparr>ld_AccountId = a, ld_DataName = b\<rparr>))"

definition wt_LedgerKeyData :: "LedgerKeyData \<Rightarrow> bool" where
  "wt_LedgerKeyData s \<longleftrightarrow> wt_AccountId (ld_AccountId s) \<and> wt_upto 64 (ld_DataName s)"

definition enc_LedgerKeyClaimableBalance :: "ClaimableBalanceId xdr_encoder" where "enc_LedgerKeyClaimableBalance s = xdr_write [enc_ClaimableBalanceId s]"
definition dec_LedgerKeyClaimableBalance :: "ClaimableBalanceId xdr_decoder" where "dec_LedgerKeyClaimableBalance = xdr_field ''ClaimableBalanceId'' dec_ClaimableBalanceId xdr_return"

definition enc_LedgerKeyLiquidityPool :: "byte list xdr_encoder" where "enc_LedgerKeyLiquidityPool s = xdr_write [enc_PoolId s]"
definition dec_LedgerKeyLiquidityPool :: "byte list xdr_decoder" where "dec_LedgerKeyLiquidityPool = xdr_field ''PoolId'' dec_PoolId xdr_return"

fun enc_LedgerKey :: "LedgerKey xdr_encoder" where
  "enc_LedgerKey (LedgerEntryAccount x) = xdr_write [enc_LedgerEntryType 0, enc_LedgerKeyAccount x]"
| "enc_LedgerKey (LedgerEntryTrustline x) = xdr_write [enc_LedgerEntryType 1, enc_LedgerKeyTrustLine x]"
| "enc_LedgerKey (LedgerEntryOffer x) = xdr_write [enc_LedgerEntryType 2, enc_LedgerKeyOffer x]"
| "enc_LedgerKey (LedgerEntryData x) = xdr_write [enc_LedgerEntryType 3, enc_LedgerKeyData x]"
| "enc_LedgerKey (LedgerEntryClaimableBalance x) = xdr_write [enc_LedgerEntryType 4, enc_LedgerKeyClaimableBalance x]"
| "enc_LedgerKey (LedgerEntryLiquidityPool x) = xdr_write [enc_LedgerEntryType 5, enc_LedgerKeyLiquidityPool x]"

definition dec_LedgerKey :: "LedgerKey xdr_decoder" where
  "dec_LedgerKey =
     xdr_field ''LedgerEntryType'' dec_LedgerEntryType (\<lambda>t.
       if t = 0 then xdr_field ''LedgerKeyAccount'' dec_LedgerKeyAccount (\<lambda>x. xdr_return (LedgerEntryAccount x))
       else if t = 1 then xdr_field ''LedgerKeyTrustLine'' dec_LedgerKeyTrustLine (\<lambda>x. xdr_return (LedgerEntryTrustline x))
       else if t = 2 then xdr_field ''LedgerKeyOffer'' dec_LedgerKeyOffer (\<lambda>x. xdr_return (LedgerEntryOffer x))
       else if t = 3 then xdr_field ''LedgerKeyData'' dec_LedgerKeyData (\<lambda>x. xdr_return (LedgerEntryData x))
       else if t = 4 then xdr_field ''LedgerKeyClaimableBalance'' dec_LedgerKeyClaimableBalance (\<lambda>x. xdr_return (LedgerEntryClaimableBalance x))
       else if t = 5 then xdr_field ''LedgerKeyLiquidityPool'' dec_LedgerKeyLiquidityPool (\<lambda>x. xdr_return (LedgerEntryLiquidityPool x))
       else xdr_fail (dec_switch_error ''LedgerKey'' ''LedgerEntryType'' t))"

fun wt_LedgerKey :: "LedgerKey \<Rightarrow> bool" where
  "wt_LedgerKey (LedgerEntryAccount x) \<longleftrightarrow> wt_AccountId x"
| "wt_LedgerKey (LedgerEntryTrustline x) \<longleftrightarrow> wt_LedgerKeyTrustLine x"
| "wt_LedgerKey (LedgerEntryOffer x) \<longleftrightarrow> wt_LedgerKeyOffer x"
| "wt_LedgerKey (LedgerEntryData x) \<longleftrightarrow> wt_LedgerKeyData x"
| "wt_LedgerKey (LedgerEntryClaimableBalance x) \<longleftrightarrow> wt_ClaimableBalanceId x"
| "wt_LedgerKey (LedgerEntryLiquidityPool x) \<longleftrightarrow> wt_array 32 x"

lemma xdr_TrustLineAsset: "xdr_type enc_TrustLineAsset dec_TrustLineAsset wt_TrustLineAsset"
  apply (rule xdr_typeI)
  subgoal for x by (cases x) (auto intro!: xdr_w)
  subgoal for x by (cases x) (auto simp: dec_TrustLineAsset_def xdr_eval dest!: xdr_r)
  subgoal by (auto simp: dec_TrustLineAsset_def xdr_struct split: if_splits dest!: xdr_c)
  done

lemmas xdr_trust_line = xdr_TrustLineAsset
lemmas xdr_trust_line_w [xdr_w] = xdr_trust_line [THEN xdr_written]
lemmas xdr_trust_line_r [xdr_r] = xdr_trust_line [THEN xdr_readsI]
lemmas xdr_trust_line_c [xdr_c] = xdr_trust_line [THEN xdr_canonical]

lemma xdr_LedgerKeyAccount: "xdr_type enc_LedgerKeyAccount dec_LedgerKeyAccount wt_AccountId"
  apply (rule xdr_typeI)
  subgoal by (auto simp: enc_LedgerKeyAccount_def intro: xdr_w)
  subgoal by (auto simp: enc_LedgerKeyAccount_def dec_LedgerKeyAccount_def xdr_eval dest!: xdr_r)
  subgoal by (auto simp: enc_LedgerKeyAccount_def dec_LedgerKeyAccount_def xdr_struct dest!: xdr_c)
  done

lemma xdr_LedgerKeyTrustLine: "xdr_type enc_LedgerKeyTrustLine dec_LedgerKeyTrustLine wt_LedgerKeyTrustLine"
  apply (rule xdr_typeI)
  subgoal by (auto simp: enc_LedgerKeyTrustLine_def wt_LedgerKeyTrustLine_def intro: xdr_w)
  subgoal by (auto simp: enc_LedgerKeyTrustLine_def dec_LedgerKeyTrustLine_def wt_LedgerKeyTrustLine_def xdr_eval dest!: xdr_r)
  subgoal by (auto simp: enc_LedgerKeyTrustLine_def dec_LedgerKeyTrustLine_def wt_LedgerKeyTrustLine_def xdr_struct dest!: xdr_c)
  done

lemma xdr_LedgerKeyOffer: "xdr_type enc_LedgerKeyOffer dec_LedgerKeyOffer wt_LedgerKeyOffer"
  apply (rule xdr_typeI)
  subgoal by (auto simp: enc_LedgerKeyOffer_def wt_LedgerKeyOffer_def intro: xdr_w)
  subgoal by (auto simp: enc_LedgerKeyOffer_def dec_LedgerKeyOffer_def wt_LedgerKeyOffer_def xdr_eval dest!: xdr_r)
  subgoal by (auto simp: enc_LedgerKeyOffer_def dec_LedgerKeyOffer_def wt_LedgerKeyOffer_def xdr_struct dest!: xdr_c)
  done

lemma xdr_LedgerKeyData: "xdr_type enc_LedgerKeyData dec_LedgerKeyData wt_LedgerKeyData"
  apply (rule xdr_typeI)
  subgoal by (auto simp: enc_LedgerKeyData_def wt_LedgerKeyData_def intro: xdr_w)
  subgoal by (auto simp: enc_LedgerKeyData_def dec_LedgerKeyData_def wt_LedgerKeyData_def xdr_eval dest!: xdr_r)
  subgoal by (auto simp: enc_LedgerKeyData_def dec_LedgerKeyData_def wt_LedgerKeyData_def xdr_struct dest!: xdr_c)
  done

lemma xdr_LedgerKeyClaimableBalance: "xdr_type enc_LedgerKeyClaimableBalance dec_LedgerKeyClaimableBalance wt_ClaimableBalanceId"
  apply (rule xdr_typeI)
  subgoal by (auto simp: enc_LedgerKeyClaimableBalance_def intro: xdr_w)
  subgoal by (auto simp: enc_LedgerKeyClaimableBalance_def dec_LedgerKeyClaimableBalance_def xdr_eval dest!: xdr_r)
  subgoal by (auto simp: enc_LedgerKeyClaimableBalance_def dec_LedgerKeyClaimableBalance_def xdr_struct dest!: xdr_c)
  done

lemma xdr_LedgerKeyLiquidityPool: "xdr_type enc_LedgerKeyLiquidityPool dec_LedgerKeyLiquidityPool (wt_array 32)"
  apply (rule xdr_typeI)
  subgoal by (auto simp: enc_LedgerKeyLiquidityPool_def intro: xdr_w)
  subgoal by (auto simp: enc_LedgerKeyLiquidityPool_def dec_LedgerKeyLiquidityPool_def xdr_eval dest!: xdr_r)
  subgoal by (auto simp: enc_LedgerKeyLiquidityPool_def dec_LedgerKeyLiquidityPool_def xdr_struct dest!: xdr_c)
  done

lemmas xdr_ledger_keys = xdr_LedgerKeyAccount xdr_LedgerKeyTrustLine xdr_LedgerKeyOffer xdr_LedgerKeyData
  xdr_LedgerKeyClaimableBalance xdr_LedgerKeyLiquidityPool
lemmas xdr_ledger_keys_w [xdr_w] = xdr_ledger_keys [THEN xdr_written]
lemmas xdr_ledger_keys_r [xdr_r] = xdr_ledger_keys [THEN xdr_readsI]
lemmas xdr_ledger_keys_c [xdr_c] = xdr_ledger_keys [THEN xdr_canonical]

lemma xdr_LedgerKey: "xdr_type enc_LedgerKey dec_LedgerKey wt_LedgerKey"
  apply (rule xdr_typeI)
  subgoal for x by (cases x) (auto intro!: xdr_w)
  subgoal for x by (cases x) (auto simp: dec_LedgerKey_def xdr_eval dest!: xdr_r)
  subgoal by (auto simp: dec_LedgerKey_def xdr_struct split: if_splits dest!: xdr_c)
  done

lemmas xdr_ledger_key = xdr_LedgerKey
lemmas xdr_ledger_key_w [xdr_w] = xdr_ledger_key [THEN xdr_written]
lemmas xdr_ledger_key_r [xdr_r] = xdr_ledger_key [THEN xdr_readsI]
lemmas xdr_ledger_key_c [xdr_c] = xdr_ledger_key [THEN xdr_canonical]

section \<open>The operations\<close>

definition enc_ClaimantV0 :: "ClaimantV0 xdr_encoder" where
  "enc_ClaimantV0 s = xdr_write [enc_AccountId (cm_Destination s), enc_ClaimPredicate (cm_Predicate s)]"

definition dec_ClaimantV0 :: "ClaimantV0 xdr_decoder" where
  "dec_ClaimantV0 =
     xdr_field ''AccountId'' dec_AccountId (\<lambda>a.
     xdr_field ''ClaimPredicate'' dec_ClaimPredicate (\<lambda>b.
     xdr_return \<lparr>cm_Destination = a, cm_Predicate = b\<rparr>))"

definition wt_ClaimantV0 :: "ClaimantV0 \<Rightarrow> bool" where
  "wt_ClaimantV0 s \<longleftrightarrow> wt_AccountId (cm_Destination s) \<and> wt_ClaimPredicate (cm_Predicate s)"

fun enc_Claimant :: "Claimant xdr_encoder" where
  "enc_Claimant (ClaimantTypeV0 x) = xdr_write [enc_ClaimantType 0, enc_ClaimantV0 x]"

definition dec_Claimant :: "Claimant xdr_decoder" where
  "dec_Claimant =
     xdr_field ''ClaimantType'' dec_ClaimantType (\<lambda>t.
       if t = 0 then xdr_field ''ClaimantV0'' dec_ClaimantV0 (\<lambda>x. xdr_return (ClaimantTypeV0 x))
       else xdr_fail (dec_switch_error ''Claimant'' ''ClaimantType'' t))"

fun wt_Claimant :: "Claimant \<Rightarrow> bool" where
  "wt_Claimant (ClaimantTypeV0 x) \<longleftrightarrow> wt_ClaimantV0 x"

lemma xdr_ClaimantV0: "xdr_type enc_ClaimantV0 dec_ClaimantV0 wt_ClaimantV0"
  apply (rule xdr_typeI)
  subgoal by (auto simp: enc_ClaimantV0_def wt_ClaimantV0_def intro: xdr_w)
  subgoal by (auto simp: enc_ClaimantV0_def dec_ClaimantV0_def wt_ClaimantV0_def xdr_eval dest!: xdr_r)
  subgoal by (auto simp: enc_ClaimantV0_def dec_ClaimantV0_def wt_ClaimantV0_def xdr_struct dest!: xdr_c)
  done

lemmas xdr_claimant_arm = xdr_ClaimantV0
lemmas xdr_claimant_arm_w [xdr_w] = xdr_claimant_arm [THEN xdr_written]
lemmas xdr_claimant_arm_r [xdr_r] = xdr_claimant_arm [THEN xdr_readsI]
lemmas xdr_claimant_arm_c [xdr_c] = xdr_claimant_arm [THEN xdr_canonical]

lemma xdr_Claimant: "xdr_type enc_Claimant dec_Claimant wt_Claimant"
  apply (rule xdr_typeI)
  subgoal for x by (cases x) (auto intro!: xdr_w)
  subgoal for x by (cases x) (auto simp: dec_Claimant_def xdr_eval dest!: xdr_r)
  subgoal by (auto simp: dec_Claimant_def xdr_struct split: if_splits dest!: xdr_c)
  done

definition wt_Claimants :: "Claimant list \<Rightarrow> bool" where
  "wt_Claimants p \<longleftrightarrow> length p \<le> 10 \<and> (\<forall>x \<in> set p. wt_Claimant x)"

lemma xdr_Claimants: "xdr_type (enc_slice enc_Claimant) (dec_slice ''Claimant'' 10 dec_Claimant) wt_Claimants"
  unfolding wt_Claimants_def [abs_def] by (rule xdr_type_slice [OF xdr_Claimant]) simp

lemmas xdr_claimants = xdr_Claimants
lemmas xdr_claimants_w [xdr_w] = xdr_claimants [THEN xdr_written]
lemmas xdr_claimants_r [xdr_r] = xdr_claimants [THEN xdr_readsI]
lemmas xdr_claimants_c [xdr_c] = xdr_claimants [THEN xdr_canonical]

definition enc_BumpSequenceOp :: "BumpSequenceOp xdr_encoder" where
  "enc_BumpSequenceOp s = xdr_write [enc_SequenceNumber (bs_BumpTo s)]"

definition dec_BumpSequenceOp :: "BumpSequenceOp xdr_decoder" where
  "dec_BumpSequenceOp =
     xdr_field ''SequenceNumber'' dec_SequenceNumber (\<lambda>a.
     xdr_return \<lparr>bs_BumpTo = a\<rparr>)"

definition wt_BumpSequenceOp :: "BumpSequenceOp \<Rightarrow> bool" where
  "wt_BumpSequenceOp s \<longleftrightarrow> True"

definition enc_ManageBuyOfferOp :: "ManageBuyOfferOp xdr_encoder" where
  "enc_ManageBuyOfferOp s = xdr_write [enc_Asset (mb_Selling s), enc_Asset (mb_Buying s), enc_Int64 (mb_BuyAmount s), enc_Price
     (mb_Price s), enc_Int64 (mb_OfferId s)]"

definition dec_ManageBuyOfferOp :: "ManageBuyOfferOp xdr_decoder" where
  "dec_ManageBuyOfferOp =
     xdr_field ''Asset'' dec_Asset (\<lambda>a.
     xdr_field ''Asset'' dec_Asset (\<lambda>b.
     xdr_field ''Int64'' dec_Int64 (\<lambda>c.
     xdr_field ''Price'' dec_Price (\<lambda>d.
     xdr_field ''Int64'' dec_Int64 (\<lambda>e.
     xdr_return \<lparr>mb_Selling = a, mb_Buying = b, mb_BuyAmount = c, mb_Price = d, mb_OfferId = e\<rparr>)))))"

definition wt_ManageBuyOfferOp :: "ManageBuyOfferOp \<Rightarrow> bool" where
  "wt_ManageBuyOfferOp s \<longleftrightarrow> wt_Asset (mb_Selling s) \<and> wt_Asset (mb_Buying s)"

definition enc_CreateClaimableBalanceOp :: "CreateClaimableBalanceOp xdr_encoder" where
  "enc_CreateClaimableBalanceOp s = xdr_write [enc_Asset (cb_Asset s), enc_Int64 (cb_Amount s), enc_slice enc_Claimant (cb_Claimants s)]"

definition dec_CreateClaimableBalanceOp :: "CreateClaimableBalanceOp xdr_decoder" where
  "dec_CreateClaimableBalanceOp =
     xdr_field ''Asset'' dec_Asset (\<lambda>a.
     xdr_field ''Int64'' dec_Int64 (\<lambda>b.
     xdr_then (dec_slice ''Claimant'' 10 dec_Claimant) (\<lambda>c.
     xdr_return \<lparr>cb_Asset = a, cb_Amount = b, cb_Claimants = c\<rparr>)))"

definition wt_CreateClaimableBalanceOp :: "CreateClaimableBalanceOp \<Rightarrow> bool" where
  "wt_CreateClaimableBalanceOp s \<longleftrightarrow> wt_Asset (cb_Asset s) \<and> wt_Claimants (cb_Claimants s)"

definition enc_ClaimClaimableBalanceOp :: "ClaimClaimableBalanceOp xdr_encoder" where
  "enc_ClaimClaimableBalanceOp s = xdr_write [enc_ClaimableBalanceId (cc_BalanceId s)]"

definition dec_ClaimClaimableBalanceOp :: "ClaimClaimableBalanceOp xdr_decoder" where
  "dec_ClaimClaimableBalanceOp =
     xdr_field ''ClaimableBalanceId'' dec_ClaimableBalanceId (\<lambda>a.
     xdr_return \<lparr>cc_BalanceId = a\<rparr>)"

definition wt_ClaimClaimableBalanceOp :: "ClaimClaimableBalanceOp \<Rightarrow> bool" where
  "wt_ClaimClaimableBalanceOp s \<longleftrightarrow> wt_ClaimableBalanceId (cc_BalanceId s)"

definition enc_BeginSponsoringFutureReservesOp :: "BeginSponsoringFutureReservesOp xdr_encoder" where
  "enc_BeginSponsoringFutureReservesOp s = xdr_write [enc_AccountId (bf_SponsoredId s)]"

definition dec_BeginSponsoringFutureReservesOp :: "BeginSponsoringFutureReservesOp xdr_decoder" where
  "dec_BeginSponsoringFutureReservesOp =
     xdr_field ''AccountId'' dec_AccountId (\<lambda>a.
     xdr_return \<lparr>bf_SponsoredId = a\<rparr>)"

definition wt_BeginSponsoringFutureReservesOp :: "BeginSponsoringFutureReservesOp \<Rightarrow> bool" where
  "wt_BeginSponsoringFutureReservesOp s \<longleftrightarrow> wt_AccountId (bf_SponsoredId s)"

definition enc_RevokeSponsorshipOpSigner :: "RevokeSponsorshipOpSigner xdr_encoder" where
  "enc_RevokeSponsorshipOpSigner s = xdr_write [enc_AccountId (rs_AccountId s), enc_SignerKey (rs_SignerKey s)]"

definition dec_RevokeSponsorshipOpSigner :: "RevokeSponsorshipOpSigner xdr_decoder" where
  "dec_RevokeSponsorshipOpSigner =
     xdr_field ''AccountId'' dec_AccountId (\<lambda>a.
     xdr_field ''SignerKey'' dec_SignerKey (\<lambda>b.
     xdr_return \<lparr>rs_AccountId = a, rs_SignerKey = b\<rparr>))"

definition wt_RevokeSponsorshipOpSigner :: "RevokeSponsorshipOpSigner \<Rightarrow> bool" where
  "wt_RevokeSponsorshipOpSigner s \<longleftrightarrow> wt_AccountId (rs_AccountId s) \<and> wt_SignerKey (rs_SignerKey s)"

definition enc_ClawbackOp :: "ClawbackOp xdr_encoder" where
  "enc_ClawbackOp s = xdr_write [enc_Asset (cw_Asset s), enc_MuxedAccount (cw_From s), enc_Int64 (cw_Amount s)]"

definition dec_ClawbackOp :: "ClawbackOp xdr_decoder" where
  "dec_ClawbackOp =
     xdr_field ''Asset'' dec_Asset (\<lambda>a.
     xdr_field ''MuxedAccount'' dec_MuxedAccount (\<lambda>b.
     xdr_field ''Int64'' dec_Int64 (\<lambda>c.
     xdr_return \<lparr>cw_Asset = a, cw_From = b, cw_Amount = c\<rparr>)))"

definition wt_ClawbackOp :: "ClawbackOp \<Rightarrow> bool" where
  "wt_ClawbackOp s \<longleftrightarrow> wt_Asset (cw_Asset s) \<and> wt_MuxedAccount (cw_From s)"

definition enc_ClawbackClaimableBalanceOp :: "ClawbackClaimableBalanceOp xdr_encoder" where
  "enc_ClawbackClaimableBalanceOp s = xdr_write [enc_ClaimableBalanceId (cx_BalanceId s)]"

definition dec_ClawbackClaimableBalanceOp :: "ClawbackClaimableBalanceOp xdr_decoder" where
  "dec_ClawbackClaimableBalanceOp =
     xdr_field ''ClaimableBalanceId'' dec_ClaimableBalanceId (\<lambda>a.
     xdr_return \<lparr>cx_BalanceId = a\<rparr>)"

definition wt_ClawbackClaimableBalanceOp :: "ClawbackClaimableBalanceOp \<Rightarrow> bool" where
  "wt_ClawbackClaimableBalanceOp s \<longleftrightarrow> wt_ClaimableBalanceId (cx_BalanceId s)"

definition enc_SetTrustLineFlagsOp :: "SetTrustLineFlagsOp xdr_encoder" where
  "enc_SetTrustLineFlagsOp s = xdr_write [enc_AccountId (sf_Trustor s), enc_Asset (sf_Asset s), enc_Uint32 (sf_ClearFlags s),
     enc_Uint32 (sf_SetFlags s)]"

definition dec_SetTrustLineFlagsOp :: "SetTrustLineFlagsOp xdr_decoder" where
  "dec_SetTrustLineFlagsOp =
     xdr_field ''AccountId'' dec_AccountId (\<lambda>a.
     xdr_field ''Asset'' dec_Asset (\<lambda>b.
     xdr_field ''Uint32'' dec_Uint32 (\<lambda>c.
     xdr_field ''Uint32'' dec_Uint32 (\<lambda>d.
     xdr_return \<lparr>sf_Trustor = a, sf_Asset = b, sf_ClearFlags = c, sf_SetFlags = d\<rparr>))))"

definition wt_SetTrustLineFlagsOp :: "SetTrustLineFlagsOp \<Rightarrow> bool" where
  "wt_SetTrustLineFlagsOp s \<longleftrightarrow> wt_AccountId (sf_Trustor s) \<and> wt_Asset (sf_Asset s)"

definition enc_LiquidityPoolDepositOp :: "LiquidityPoolDepositOp xdr_encoder" where
  "enc_LiquidityPoolDepositOp s = xdr_write [enc_PoolId (pd_LiquidityPoolId s), enc_Int64 (pd_MaxAmountA s), enc_Int64
     (pd_MaxAmountB s), enc_Price (pd_MinPrice s), enc_Price (pd_MaxPrice s)]"

definition dec_LiquidityPoolDepositOp :: "LiquidityPoolDepositOp xdr_decoder" where
  "dec_LiquidityPoolDepositOp =
     xdr_field ''PoolId'' dec_PoolId (\<lambda>a.
     xdr_field ''Int64'' dec_Int64 (\<lambda>b.
     xdr_field ''Int64'' dec_Int64 (\<lambda>c.
     xdr_field ''Price'' dec_Price (\<lambda>d.
     xdr_field ''Price'' dec_Price (\<lambda>e.
     xdr_return \<lparr>pd_LiquidityPoolId = a, pd_MaxAmountA = b, pd_MaxAmountB = c, pd_MinPrice = d, pd_MaxPrice = e\<rparr>)))))"

definition wt_LiquidityPoolDepositOp :: "LiquidityPoolDepositOp \<Rightarrow> bool" where
  "wt_LiquidityPoolDepositOp s \<longleftrightarrow> wt_array 32 (pd_LiquidityPoolId s)"

definition enc_LiquidityPoolWithdrawOp :: "LiquidityPoolWithdrawOp xdr_encoder" where
  "enc_LiquidityPoolWithdrawOp s = xdr_write [enc_PoolId (pw_LiquidityPoolId s), enc_Int64 (pw_Amount s), enc_Int64 (pw_MinAmountA
     s), enc_Int64 (pw_MinAmountB s)]"

definition dec_LiquidityPoolWithdrawOp :: "LiquidityPoolWithdrawOp xdr_decoder" where
  "dec_LiquidityPoolWithdrawOp =
     xdr_field ''PoolId'' dec_PoolId (\<lambda>a.
     xdr_field ''Int64'' dec_Int64 (\<lambda>b.
     xdr_field ''Int64'' dec_Int64 (\<lambda>c.
     xdr_field ''Int64'' dec_Int64 (\<lambda>d.
     xdr_return \<lparr>pw_LiquidityPoolId = a, pw_Amount = b, pw_MinAmountA = c, pw_MinAmountB = d\<rparr>))))"

definition wt_LiquidityPoolWithdrawOp :: "LiquidityPoolWithdrawOp \<Rightarrow> bool" where
  "wt_LiquidityPoolWithdrawOp s \<longleftrightarrow> wt_array 32 (pw_LiquidityPoolId s)"

fun enc_RevokeSponsorshipOp :: "RevokeSponsorshipOp xdr_encoder" where
  "enc_RevokeSponsorshipOp (RevokeSponsorshipLedgerEntry x) = xdr_write [enc_RevokeSponsorshipType 0, enc_LedgerKey x]"
| "enc_RevokeSponsorshipOp (RevokeSponsorshipSigner x) = xdr_write [enc_RevokeSponsorshipType 1, enc_RevokeSponsorshipOpSigner x]"

definition dec_RevokeSponsorshipOp :: "RevokeSponsorshipOp xdr_decoder" where
  "dec_RevokeSponsorshipOp =
     xdr_field ''RevokeSponsorshipType'' dec_RevokeSponsorshipType (\<lambda>t.
       if t = 0 then xdr_field ''LedgerKey'' dec_LedgerKey (\<lambda>x. xdr_return (RevokeSponsorshipLedgerEntry x))
       else if t = 1 then xdr_field ''RevokeSponsorshipOpSigner'' dec_RevokeSponsorshipOpSigner (\<lambda>x. xdr_return (RevokeSponsorshipSigner x))
       else xdr_fail (dec_switch_error ''RevokeSponsorshipOp'' ''RevokeSponsorshipType'' t))"

fun wt_RevokeSponsorshipOp :: "RevokeSponsorshipOp \<Rightarrow> bool" where
  "wt_RevokeSponsorshipOp (RevokeSponsorshipLedgerEntry x) \<longleftrightarrow> wt_LedgerKey x"
| "wt_RevokeSponsorshipOp (RevokeSponsorshipSigner x) \<longleftrightarrow> wt_RevokeSponsorshipOpSigner x"

lemma xdr_BumpSequenceOp: "xdr_type enc_BumpSequenceOp dec_BumpSequenceOp wt_BumpSequenceOp"
  apply (rule xdr_typeI)
  subgoal by (auto simp: enc_BumpSequenceOp_def wt_BumpSequenceOp_def intro: xdr_w)
  subgoal by (auto simp: enc_BumpSequenceOp_def dec_BumpSequenceOp_def wt_BumpSequenceOp_def xdr_eval dest!: xdr_r)
  subgoal by (auto simp: enc_BumpSequenceOp_def dec_BumpSequenceOp_def wt_BumpSequenceOp_def xdr_struct dest!: xdr_c)
  done

lemma xdr_ManageBuyOfferOp: "xdr_type enc_ManageBuyOfferOp dec_ManageBuyOfferOp wt_ManageBuyOfferOp"
  apply (rule xdr_typeI)
  subgoal by (auto simp: enc_ManageBuyOfferOp_def wt_ManageBuyOfferOp_def intro: xdr_w)
  subgoal by (auto simp: enc_ManageBuyOfferOp_def dec_ManageBuyOfferOp_def wt_ManageBuyOfferOp_def xdr_eval dest!: xdr_r)
  subgoal by (auto simp: enc_ManageBuyOfferOp_def dec_ManageBuyOfferOp_def wt_ManageBuyOfferOp_def xdr_struct dest!: xdr_c)
  done

lemma xdr_CreateClaimableBalanceOp: "xdr_type enc_CreateClaimableBalanceOp dec_CreateClaimableBalanceOp wt_CreateClaimableBalanceOp"
  apply (rule xdr_typeI)
  subgoal by (auto simp: enc_CreateClaimableBalanceOp_def wt_CreateClaimableBalanceOp_def intro: xdr_w)
  subgoal by (auto simp: enc_CreateClaimableBalanceOp_def dec_CreateClaimableBalanceOp_def wt_CreateClaimableBalanceOp_def xdr_eval dest!: xdr_r)
  subgoal by (auto simp: enc_CreateClaimableBalanceOp_def dec_CreateClaimableBalanceOp_def wt_CreateClaimableBalanceOp_def xdr_struct dest!: xdr_c)
  done

lemma xdr_ClaimClaimableBalanceOp: "xdr_type enc_ClaimClaimableBalanceOp dec_ClaimClaimableBalanceOp wt_ClaimClaimableBalanceOp"
  apply (rule xdr_typeI)
  subgoal by (auto simp: enc_ClaimClaimableBalanceOp_def wt_ClaimClaimableBalanceOp_def intro: xdr_w)
  subgoal by (auto simp: enc_ClaimClaimableBalanceOp_def dec_ClaimClaimableBalanceOp_def wt_ClaimClaimableBalanceOp_def xdr_eval dest!: xdr_r)
  subgoal by (auto simp: enc_ClaimClaimableBalanceOp_def dec_ClaimClaimableBalanceOp_def wt_ClaimClaimableBalanceOp_def xdr_struct dest!: xdr_c)
  done

lemma xdr_BeginSponsoringFutureReservesOp: "xdr_type enc_BeginSponsoringFutureReservesOp dec_BeginSponsoringFutureReservesOp wt_BeginSponsoringFutureReservesOp"
  apply (rule xdr_typeI)
  subgoal by (auto simp: enc_BeginSponsoringFutureReservesOp_def wt_BeginSponsoringFutureReservesOp_def intro: xdr_w)
  subgoal by (auto simp: enc_BeginSponsoringFutureReservesOp_def dec_BeginSponsoringFutureReservesOp_def wt_BeginSponsoringFutureReservesOp_def xdr_eval dest!: xdr_r)
  subgoal by (auto simp: enc_BeginSponsoringFutureReservesOp_def dec_BeginSponsoringFutureReservesOp_def wt_BeginSponsoringFutureReservesOp_def xdr_struct dest!: xdr_c)
  done

lemma xdr_RevokeSponsorshipOpSigner: "xdr_type enc_RevokeSponsorshipOpSigner dec_RevokeSponsorshipOpSigner wt_RevokeSponsorshipOpSigner"
  apply (rule xdr_typeI)
  subgoal by (auto simp: enc_RevokeSponsorshipOpSigner_def wt_RevokeSponsorshipOpSigner_def intro: xdr_w)
  subgoal by (auto simp: enc_RevokeSponsorshipOpSigner_def dec_RevokeSponsorshipOpSigner_def wt_RevokeSponsorshipOpSigner_def xdr_eval dest!: xdr_r)
  subgoal by (auto simp: enc_RevokeSponsorshipOpSigner_def dec_RevokeSponsorshipOpSigner_def wt_RevokeSponsorshipOpSigner_def xdr_struct dest!: xdr_c)
  done

lemma xdr_ClawbackOp: "xdr_type enc_ClawbackOp dec_ClawbackOp wt_ClawbackOp"
  apply (rule xdr_typeI)
  subgoal by (auto simp: enc_ClawbackOp_def wt_ClawbackOp_def intro: xdr_w)
  subgoal by (auto simp: enc_ClawbackOp_def dec_ClawbackOp_def wt_ClawbackOp_def xdr_eval dest!: xdr_r)
  subgoal by (auto simp: enc_ClawbackOp_def dec_ClawbackOp_def wt_ClawbackOp_def xdr_struct dest!: xdr_c)
  done

lemma xdr_ClawbackClaimableBalanceOp: "xdr_type enc_ClawbackClaimableBalanceOp dec_ClawbackClaimableBalanceOp wt_ClawbackClaimableBalanceOp"
  apply (rule xdr_typeI)
  subgoal by (auto simp: enc_ClawbackClaimableBalanceOp_def wt_ClawbackClaimableBalanceOp_def intro: xdr_w)
  subgoal by (auto simp: enc_ClawbackClaimableBalanceOp_def dec_ClawbackClaimableBalanceOp_def wt_ClawbackClaimableBalanceOp_def xdr_eval dest!: xdr_r)
  subgoal by (auto simp: enc_ClawbackClaimableBalanceOp_def dec_ClawbackClaimableBalanceOp_def wt_ClawbackClaimableBalanceOp_def xdr_struct dest!: xdr_c)
  done

lemma xdr_SetTrustLineFlagsOp: "xdr_type enc_SetTrustLineFlagsOp dec_SetTrustLineFlagsOp wt_SetTrustLineFlagsOp"
  apply (rule xdr_typeI)
  subgoal by (auto simp: enc_SetTrustLineFlagsOp_def wt_SetTrustLineFlagsOp_def intro: xdr_w)
  subgoal by (auto simp: enc_SetTrustLineFlagsOp_def dec_SetTrustLineFlagsOp_def wt_SetTrustLineFlagsOp_def xdr_eval dest!: xdr_r)
  subgoal by (auto simp: enc_SetTrustLineFlagsOp_def dec_SetTrustLineFlagsOp_def wt_SetTrustLineFlagsOp_def xdr_struct dest!: xdr_c)
  done

lemma xdr_LiquidityPoolDepositOp: "xdr_type enc_LiquidityPoolDepositOp dec_LiquidityPoolDepositOp wt_LiquidityPoolDepositOp"
  apply (rule xdr_typeI)
  subgoal by (auto simp: enc_LiquidityPoolDepositOp_def wt_LiquidityPoolDepositOp_def intro: xdr_w)
  subgoal by (auto simp: enc_LiquidityPoolDepositOp_def dec_LiquidityPoolDepositOp_def wt_LiquidityPoolDepositOp_def xdr_eval dest!: xdr_r)
  subgoal by (auto simp: enc_LiquidityPoolDepositOp_def dec_LiquidityPoolDepositOp_def wt_LiquidityPoolDepositOp_def xdr_struct dest!: xdr_c)
  done

lemma xdr_LiquidityPoolWithdrawOp: "xdr_type enc_LiquidityPoolWithdrawOp dec_LiquidityPoolWithdrawOp wt_LiquidityPoolWithdrawOp"
  apply (rule xdr_typeI)
  subgoal by (auto simp: enc_LiquidityPoolWithdrawOp_def wt_LiquidityPoolWithdrawOp_def intro: xdr_w)
  subgoal by (auto simp: enc_LiquidityPoolWithdrawOp_def dec_LiquidityPoolWithdrawOp_def wt_LiquidityPoolWithdrawOp_def xdr_eval dest!: xdr_r)
  subgoal by (auto simp: enc_LiquidityPoolWithdrawOp_def dec_LiquidityPoolWithdrawOp_def wt_LiquidityPoolWithdrawOp_def xdr_struct dest!: xdr_c)
  done

lemmas xdr_ledger_ops = xdr_BumpSequenceOp xdr_ManageBuyOfferOp xdr_CreateClaimableBalanceOp xdr_ClaimClaimableBalanceOp
  xdr_BeginSponsoringFutureReservesOp xdr_RevokeSponsorshipOpSigner xdr_ClawbackOp xdr_ClawbackClaimableBalanceOp
  xdr_SetTrustLineFlagsOp xdr_LiquidityPoolDepositOp xdr_LiquidityPoolWithdrawOp
lemmas xdr_ledger_ops_w [xdr_w] = xdr_ledger_ops [THEN xdr_written]
lemmas xdr_ledger_ops_r [xdr_r] = xdr_ledger_ops [THEN xdr_readsI]
lemmas xdr_ledger_ops_c [xdr_c] = xdr_ledger_ops [THEN xdr_canonical]

lemma xdr_RevokeSponsorshipOp: "xdr_type enc_RevokeSponsorshipOp dec_RevokeSponsorshipOp wt_RevokeSponsorshipOp"
  apply (rule xdr_typeI)
  subgoal for x by (cases x) (auto intro!: xdr_w)
  subgoal for x by (cases x) (auto simp: dec_RevokeSponsorshipOp_def xdr_eval dest!: xdr_r)
  subgoal by (auto simp: dec_RevokeSponsorshipOp_def xdr_struct split: if_splits dest!: xdr_c)
  done

lemmas xdr_revoke = xdr_RevokeSponsorshipOp
lemmas xdr_revoke_w [xdr_w] = xdr_revoke [THEN xdr_written]
lemmas xdr_revoke_r [xdr_r] = xdr_revoke [THEN xdr_readsI]
lemmas xdr_revoke_c [xdr_c] = xdr_revoke [THEN xdr_canonical]

end
