(* ===== verification/Xdr_Codec.thy ===== *)
theory Xdr_Codec
  imports Xdr_Ledger
begin

text \<open>
  The generated \<open>EncodeTo\<close> and \<open>DecodeFrom\<close> of the vendored \<open>xdr\<close> package
  (\<open>xdr_generated.go\<close>) for the union of all 24 operations, for transactions and envelopes and
  for the payload that is signed, with their contracts.
\<close>

section \<open>The union of operations\<close>

definition OperationTypes :: "OperationType list" where
  "OperationTypes = [OpCreateAccount, OpPayment, OpPathPaymentStrictReceive, OpManageSellOffer, OpCreatePassiveSellOffer, OpSetOptions, OpChangeTrust, OpAllowTrust, OpAccountMerge, OpInflation, OpManageData, OpBumpSequence, OpManageBuyOffer, OpPathPaymentStrictSend, OpCreateClaimableBalance, OpClaimClaimableBalance, OpBeginSponsoringFutureReserves, OpEndSponsoringFutureReserves, OpRevokeSponsorship, OpClawback, OpClawbackClaimableBalance, OpSetTrustLineFlags, OpLiquidityPoolDeposit, OpLiquidityPoolWithdraw]"

fun OperationType_code :: "OperationType \<Rightarrow> int" where
  "OperationType_code OpCreateAccount = 0"
| "OperationType_code OpPayment = 1"
| "OperationType_code OpPathPaymentStrictReceive = 2"
| "OperationType_code OpManageSellOffer = 3"
| "OperationType_code OpCreatePassiveSellOffer = 4"
| "OperationType_code OpSetOptions = 5"
| "OperationType_code OpChangeTrust = 6"
| "OperationType_code OpAllowTrust = 7"
| "OperationType_code OpAccountMerge = 8"
| "OperationType_code OpInflation = 9"
| "OperationType_code OpManageData = 10"
| "OperationType_code OpBumpSequence = 11"
| "OperationType_code OpManageBuyOffer = 12"
| "OperationType_code OpPathPaymentStrictSend = 13"
| "OperationType_code OpCreateClaimableBalance = 14"
| "OperationType_code OpClaimClaimableBalance = 15"
| "OperationType_code OpBeginSponsoringFutureReserves = 16"
| "OperationType_code OpEndSponsoringFutureReserves = 17"
| "OperationType_code OpRevokeSponsorship = 18"
| "OperationType_code OpClawback = 19"
| "OperationType_code OpClawbackClaimableBalance = 20"
| "OperationType_code OpSetTrustLineFlags = 21"
| "OperationType_code OpLiquidityPoolDeposit = 22"
| "OperationType_code OpLiquidityPoolWithdraw = 23"

definition enc_OperationType :: "OperationType xdr_encoder" where
  "enc_OperationType t = enc_enum ''OperationType'' [0..23] (OperationType_code t)"

definition dec_OperationType :: "OperationType xdr_decoder" where
  "dec_OperationType = xdr_then (dec_enum ''OperationType'' [0..23]) (\<lambda>v. xdr_return (OperationTypes ! nat v))"

text \<open>The arm of a discriminant. A pointer of the type of the arm that is not set panics.\<close>

definition nil_arm :: "byte list res" where "nil_arm = Inl (Panic ''nil pointer dereference'')"

fun enc_arm :: "OperationType \<Rightarrow> op_value option \<Rightarrow> byte list res" where
  "enc_arm OpCreateAccount a = (case a of Some (VCreateAccountOp v) \<Rightarrow> enc_CreateAccountOp v | _ \<Rightarrow> nil_arm)"
| "enc_arm OpPayment a = (case a of Some (VPaymentOp v) \<Rightarrow> enc_PaymentOp v | _ \<Rightarrow> nil_arm)"
| "enc_arm OpPathPaymentStrictReceive a = (case a of Some (VPathPaymentStrictReceiveOp v) \<Rightarrow> enc_PathPaymentStrictReceiveOp v | _ \<Rightarrow> nil_arm)"
| "enc_arm OpManageSellOffer a = (case a of Some (VManageSellOfferOp v) \<Rightarrow> enc_ManageSellOfferOp v | _ \<Rightarrow> nil_arm)"
| "enc_arm OpCreatePassiveSellOffer a = (case a of Some (VCreatePassiveSellOfferOp v) \<Rightarrow> enc_CreatePassiveSellOfferOp v | _ \<Rightarrow> nil_arm)"
| "enc_arm OpSetOptions a = (case a of Some (VSetOptionsOp v) \<Rightarrow> enc_SetOptionsOp v | _ \<Rightarrow> nil_arm)"
| "enc_arm OpChangeTrust a = (case a of Some (VChangeTrustOp v) \<Rightarrow> enc_ChangeTrustOp v | _ \<Rightarrow> nil_arm)"
| "enc_arm OpAllowTrust a = (case a of Some (VAllowTrustOp v) \<Rightarrow> enc_AllowTrustOp v | _ \<Rightarrow> nil_arm)"
| "enc_arm OpAccountMerge a = (case a of Some (VMuxedAccount v) \<Rightarrow> enc_MuxedAccount v | _ \<Rightarrow> nil_arm)"
| "enc_arm OpInflation a = Inr []"
| "enc_arm OpManageData a = (case a of Some (VManageDataOp v) \<Rightarrow> enc_ManageDataOp v | _ \<Rightarrow> nil_arm)"
| "enc_arm OpBumpSequence a = (case a of Some (VBumpSequenceOp v) \<Rightarrow> enc_BumpSequenceOp v | _ \<Rightarrow> nil_arm)"
| "enc_arm OpManageBuyOffer a = (case a of Some (VManageBuyOfferOp v) \<Rightarrow> enc_ManageBuyOfferOp v | _ \<Rightarrow> nil_arm)"
| "enc_arm OpPathPaymentStrictSend a = (case a of Some (VPathPaymentStrictSendOp v) \<Rightarrow> enc_PathPaymentStrictSendOp v | _ \<Rightarrow> nil_arm)"
| "enc_arm OpCreateClaimableBalance a = (case a of Some (VCreateClaimableBalanceOp v) \<Rightarrow> enc_CreateClaimableBalanceOp v | _ \<Rightarrow> nil_arm)"
| "enc_arm OpClaimClaimableBalance a = (case a of Some (VClaimClaimableBalanceOp v) \<Rightarrow> enc_ClaimClaimableBalanceOp v | _ \<Rightarrow> nil_arm)"
| "enc_arm OpBeginSponsoringFutureReserves a = (case a of Some (VBeginSponsoringFutureReservesOp v) \<Rightarrow> enc_BeginSponsoringFutureReservesOp v | _ \<Rightarrow> nil_arm)"
| "enc_arm OpEndSponsoringFutureReserves a = Inr []"
| "enc_arm OpRevokeSponsorship a = (case a of Some (VRevokeSponsorshipOp v) \<Rightarrow> enc_RevokeSponsorshipOp v | _ \<Rightarrow> nil_arm)"
| "enc_arm OpClawback a = (case a of Some (VClawbackOp v) \<Rightarrow> enc_ClawbackOp v | _ \<Rightarrow> nil_arm)"
| "enc_arm OpClawbackClaimableBalance a = (case a of Some (VClawbackClaimableBalanceOp v) \<Rightarrow> enc_ClawbackClaimableBalanceOp v | _ \<Rightarrow> nil_arm)"
| "enc_arm OpSetTrustLineFlags a = (case a of Some (VSetTrustLineFlagsOp v) \<Rightarrow> enc_SetTrustLineFlagsOp v | _ \<Rightarrow> nil_arm)"
| "enc_arm OpLiquidityPoolDeposit a = (case a of Some (VLiquidityPoolDepositOp v) \<Rightarrow> enc_LiquidityPoolDepositOp v | _ \<Rightarrow> nil_arm)"
| "enc_arm OpLiquidityPoolWithdraw a = (case a of Some (VLiquidityPoolWithdrawOp v) \<Rightarrow> enc_LiquidityPoolWithdrawOp v | _ \<Rightarrow> nil_arm)"

fun dec_arm :: "OperationType \<Rightarrow> op_value option xdr_decoder" where
  "dec_arm OpCreateAccount = xdr_field ''CreateAccountOp'' dec_CreateAccountOp (\<lambda>v. xdr_return (Some (VCreateAccountOp v)))"
| "dec_arm OpPayment = xdr_field ''PaymentOp'' dec_PaymentOp (\<lambda>v. xdr_return (Some (VPaymentOp v)))"
| "dec_arm OpPathPaymentStrictReceive = xdr_field ''PathPaymentStrictReceiveOp'' dec_PathPaymentStrictReceiveOp (\<lambda>v. xdr_return (Some (VPathPaymentStrictReceiveOp v)))"
| "dec_arm OpManageSellOffer = xdr_field ''ManageSellOfferOp'' dec_ManageSellOfferOp (\<lambda>v. xdr_return (Some (VManageSellOfferOp v)))"
| "dec_arm OpCreatePassiveSellOffer = xdr_field ''CreatePassiveSellOfferOp'' dec_CreatePassiveSellOfferOp (\<lambda>v. xdr_return (Some (VCreatePassiveSellOfferOp v)))"
| "dec_arm OpSetOptions = xdr_field ''SetOptionsOp'' dec_SetOptionsOp (\<lambda>v. xdr_return (Some (VSetOptionsOp v)))"
| "dec_arm OpChangeTrust = xdr_field ''ChangeTrustOp'' dec_ChangeTrustOp (\<lambda>v. xdr_return (Some (VChangeTrustOp v)))"
| "dec_arm OpAllowTrust = xdr_field ''AllowTrustOp'' dec_AllowTrustOp (\<lambda>v. xdr_return (Some (VAllowTrustOp v)))"
| "dec_arm OpAccountMerge = xdr_field ''MuxedAccount'' dec_MuxedAccount (\<lambda>v. xdr_return (Some (VMuxedAccount v)))"
| "dec_arm OpInflation = xdr_return None"
| "dec_arm OpManageData = xdr_field ''ManageDataOp'' dec_ManageDataOp (\<lambda>v. xdr_return (Some (VManageDataOp v)))"
| "dec_arm OpBumpSequence = xdr_field ''BumpSequenceOp'' dec_BumpSequenceOp (\<lambda>v. xdr_return (Some (VBumpSequenceOp v)))"
| "dec_arm OpManageBuyOffer = xdr_field ''ManageBuyOfferOp'' dec_ManageBuyOfferOp (\<lambda>v. xdr_return (Some (VManageBuyOfferOp v)))"
| "dec_arm OpPathPaymentStrictSend = xdr_field ''PathPaymentStrictSendOp'' dec_PathPaymentStrictSendOp (\<lambda>v. xdr_return (Some (VPathPaymentStrictSendOp v)))"
| "dec_arm OpCreateClaimableBalance = xdr_field ''CreateClaimableBalanceOp'' dec_CreateClaimableBalanceOp (\<lambda>v. xdr_return (Some (VCreateClaimableBalanceOp v)))"
| "dec_arm OpClaimClaimableBalance = xdr_field ''ClaimClaimableBalanceOp'' dec_ClaimClaimableBalanceOp (\<lambda>v. xdr_return (Some (VClaimClaimableBalanceOp v)))"
| "dec_arm OpBeginSponsoringFutureReserves = xdr_field ''BeginSponsoringFutureReservesOp'' dec_BeginSponsoringFutureReservesOp (\<lambda>v. xdr_return (Some (VBeginSponsoringFutureReservesOp v)))"
| "dec_arm OpEndSponsoringFutureReserves = xdr_return None"
| "dec_arm OpRevokeSponsorship = xdr_field ''RevokeSponsorshipOp'' dec_RevokeSponsorshipOp (\<lambda>v. xdr_return (Some (VRevokeSponsorshipOp v)))"
| "dec_arm OpClawback = xdr_field ''ClawbackOp'' dec_ClawbackOp (\<lambda>v. xdr_return (Some (VClawbackOp v)))"
| "dec_arm OpClawbackClaimableBalance = xdr_field ''ClawbackClaimableBalanceOp'' dec_ClawbackClaimableBalanceOp (\<lambda>v. xdr_return (Some (VClawbackClaimableBalanceOp v)))"
| "dec_arm OpSetTrustLineFlags = xdr_field ''SetTrustLineFlagsOp'' dec_SetTrustLineFlagsOp (\<lambda>v. xdr_return (Some (VSetTrustLineFlagsOp v)))"
| "dec_arm OpLiquidityPoolDeposit = xdr_field ''LiquidityPoolDepositOp'' dec_LiquidityPoolDepositOp (\<lambda>v. xdr_return (Some (VLiquidityPoolDepositOp v)))"
| "dec_arm OpLiquidityPoolWithdraw = xdr_field ''LiquidityPoolWithdrawOp'' dec_LiquidityPoolWithdrawOp (\<lambda>v. xdr_return (Some (VLiquidityPoolWithdrawOp v)))"

fun wt_arm :: "OperationType \<Rightarrow> op_value option \<Rightarrow> bool" where
  "wt_arm OpCreateAccount a \<longleftrightarrow> (case a of Some (VCreateAccountOp v) \<Rightarrow> wt_CreateAccountOp v | _ \<Rightarrow> False)"
| "wt_arm OpPayment a \<longleftrightarrow> (case a of Some (VPaymentOp v) \<Rightarrow> wt_PaymentOp v | _ \<Rightarrow> False)"
| "wt_arm OpPathPaymentStrictReceive a \<longleftrightarrow> (case a of Some (VPathPaymentStrictReceiveOp v) \<Rightarrow> wt_PathPaymentStrictReceiveOp v | _ \<Rightarrow> False)"
| "wt_arm OpManageSellOffer a \<longleftrightarrow> (case a of Some (VManageSellOfferOp v) \<Rightarrow> wt_ManageSellOfferOp v | _ \<Rightarrow> False)"
| "wt_arm OpCreatePassiveSellOffer a \<longleftrightarrow> (case a of Some (VCreatePassiveSellOfferOp v) \<Rightarrow> wt_CreatePassiveSellOfferOp v | _ \<Rightarrow> False)"
| "wt_arm OpSetOptions a \<longleftrightarrow> (case a of Some (VSetOptionsOp v) \<Rightarrow> wt_SetOptionsOp v | _ \<Rightarrow> False)"
| "wt_arm OpChangeTrust a \<longleftrightarrow> (case a of Some (VChangeTrustOp v) \<Rightarrow> wt_ChangeTrustAsset (ct_Line v) | _ \<Rightarrow> False)"
| "wt_arm OpAllowTrust a \<longleftrightarrow> (case a of Some (VAllowTrustOp v) \<Rightarrow> wt_AllowTrustOp v | _ \<Rightarrow> False)"
| "wt_arm OpAccountMerge a \<longleftrightarrow> (case a of Some (VMuxedAccount v) \<Rightarrow> wt_MuxedAccount v | _ \<Rightarrow> False)"
| "wt_arm OpInflation a \<longleftrightarrow> a = None"
| "wt_arm OpManageData a \<longleftrightarrow> (case a of Some (VManageDataOp v) \<Rightarrow> wt_ManageDataOp v | _ \<Rightarrow> False)"
| "wt_arm OpBumpSequence a \<longleftrightarrow> (case a of Some (VBumpSequenceOp v) \<Rightarrow> wt_BumpSequenceOp v | _ \<Rightarrow> False)"
| "wt_arm OpManageBuyOffer a \<longleftrightarrow> (case a of Some (VManageBuyOfferOp v) \<Rightarrow> wt_ManageBuyOfferOp v | _ \<Rightarrow> False)"
| "wt_arm OpPathPaymentStrictSend a \<longleftrightarrow> (case a of Some (VPathPaymentStrictSendOp v) \<Rightarrow> wt_PathPaymentStrictSendOp v | _ \<Rightarrow> False)"
| "wt_arm OpCreateClaimableBalance a \<longleftrightarrow> (case a of Some (VCreateClaimableBalanceOp v) \<Rightarrow> wt_CreateClaimableBalanceOp v | _ \<Rightarrow> False)"
| "wt_arm OpClaimClaimableBalance a \<longleftrightarrow> (case a of Some (VClaimClaimableBalanceOp v) \<Rightarrow> wt_ClaimClaimableBalanceOp v | _ \<Rightarrow> False)"
| "wt_arm OpBeginSponsoringFutureReserves a \<longleftrightarrow> (case a of Some (VBeginSponsoringFutureReservesOp v) \<Rightarrow> wt_BeginSponsoringFutureReservesOp v | _ \<Rightarrow> False)"
| "wt_arm OpEndSponsoringFutureReserves a \<longleftrightarrow> a = None"
| "wt_arm OpRevokeSponsorship a \<longleftrightarrow> (case a of Some (VRevokeSponsorshipOp v) \<Rightarrow> wt_RevokeSponsorshipOp v | _ \<Rightarrow> False)"
| "wt_arm OpClawback a \<longleftrightarrow> (case a of Some (VClawbackOp v) \<Rightarrow> wt_ClawbackOp v | _ \<Rightarrow> False)"
| "wt_arm OpClawbackClaimableBalance a \<longleftrightarrow> (case a of Some (VClawbackClaimableBalanceOp v) \<Rightarrow> wt_ClawbackClaimableBalanceOp v | _ \<Rightarrow> False)"
| "wt_arm OpSetTrustLineFlags a \<longleftrightarrow> (case a of Some (VSetTrustLineFlagsOp v) \<Rightarrow> wt_SetTrustLineFlagsOp v | _ \<Rightarrow> False)"
| "wt_arm OpLiquidityPoolDeposit a \<longleftrightarrow> (case a of Some (VLiquidityPoolDepositOp v) \<Rightarrow> wt_LiquidityPoolDepositOp v | _ \<Rightarrow> False)"
| "wt_arm OpLiquidityPoolWithdraw a \<longleftrightarrow> (case a of Some (VLiquidityPoolWithdrawOp v) \<Rightarrow> wt_LiquidityPoolWithdrawOp v | _ \<Rightarrow> False)"

definition enc_OperationBody :: "OperationBody xdr_encoder" where
  "enc_OperationBody u = xdr_write [enc_OperationType (body_Type u), enc_arm (body_Type u) (body_Arm u)]"

definition dec_OperationBody :: "OperationBody xdr_decoder" where
  "dec_OperationBody =
     xdr_field ''OperationType'' dec_OperationType (\<lambda>t.
     xdr_then (dec_arm t) (\<lambda>a. xdr_return \<lparr>body_Type = t, body_Arm = a\<rparr>))"

definition wt_OperationBody :: "OperationBody \<Rightarrow> bool" where
  "wt_OperationBody u \<longleftrightarrow> wt_arm (body_Type u) (body_Arm u)"

definition enc_Operation :: "Operation xdr_encoder" where
  "enc_Operation s = xdr_write [enc_pointer enc_MuxedAccount (op_SourceAccount s), enc_OperationBody (op_Body s)]"

definition dec_Operation :: "Operation xdr_decoder" where
  "dec_Operation =
     xdr_then (dec_pointer ''MuxedAccount'' dec_MuxedAccount) (\<lambda>a.
     xdr_field ''OperationBody'' dec_OperationBody (\<lambda>b. xdr_return \<lparr>op_SourceAccount = a, op_Body = b\<rparr>))"

definition wt_Operation :: "Operation \<Rightarrow> bool" where
  "wt_Operation s \<longleftrightarrow> pred_option wt_MuxedAccount (op_SourceAccount s) \<and> wt_OperationBody (op_Body s)"

lemma OperationType_code_range: "OperationType_code t \<in> set [0..23]"
  by (cases t) simp_all

lemma OperationTypes_code: "OperationTypes ! nat (OperationType_code t) = t"
  by (cases t) (simp_all add: OperationTypes_def)

lemma code_OperationTypes:
  assumes "v \<in> set [0..23]"
  shows "OperationType_code (OperationTypes ! nat v) = v"
proof -
  have "[0..23] = [0, 1, 2, 3, 4, 5, 6, 7, 8, 9, 10, 11, 12, 13, 14, 15, 16, 17, 18, 19, 20, 21, 22, 23 :: int]" by code_simp
  then have "v \<in> {0, 1, 2, 3, 4, 5, 6, 7, 8, 9, 10, 11, 12, 13, 14, 15, 16, 17, 18, 19, 20, 21, 22, 23}" using assms by (simp only: list.set)
  then show ?thesis by (elim insertE) (simp_all add: OperationTypes_def)
qed

lemma xdr_OperationType: "xdr_type enc_OperationType dec_OperationType wt_any"
proof -
  have e: "xdr_type (enc_enum ''OperationType'' [0..23]) (dec_enum ''OperationType'' [0..23]) (\<lambda>v. v \<in> set [0..23])"
    by (rule xdr_type_enum) auto
  show ?thesis
  proof (rule xdr_typeI)
    fix t show "is_ok (enc_OperationType t)"
      using xdr_written [OF e] OperationType_code_range by (simp add: enc_OperationType_def)
  next
    fix t bs r assume "enc_OperationType t = Inr bs"
    then show "dec_OperationType (bs @ r) = Inr (t, r)"
      using xdr_reads [OF e OperationType_code_range, of t bs] OperationTypes_code [of t]
      by (simp add: enc_OperationType_def dec_OperationType_def xdr_eval)
  next
    fix r t r' assume "dec_OperationType r = Inr (t, r')"
    then obtain v where v: "dec_enum ''OperationType'' [0..23] r = Inr (v, r')" "t = OperationTypes ! nat v"
      by (auto simp: dec_OperationType_def xdr_struct)
    have "v \<in> set [0..23]" using v(1) by (auto simp: dec_enum_def xdr_struct split: if_splits)
    then have "OperationType_code t = v" using v(2) code_OperationTypes by simp
    then show "wt_any t \<and> (\<exists>bs. enc_OperationType t = Inr bs \<and> r = bs @ r')"
      using xdr_canonical [OF e v(1)] by (simp add: enc_OperationType_def)
  qed
qed


lemmas xdr_OperationType_w [xdr_w] = xdr_written [OF xdr_OperationType]
lemmas xdr_OperationType_r [xdr_r] = xdr_readsI [OF xdr_OperationType]
lemmas xdr_OperationType_c [xdr_c] = xdr_canonical [OF xdr_OperationType]

lemma xdr_arm: "xdr_type (enc_arm t) (dec_arm t) (wt_arm t)"
  apply (rule xdr_typeI)
  subgoal by (cases t) (auto simp: split: option.splits op_value.splits intro: xdr_w)
  subgoal by (cases t) (auto simp: xdr_eval nil_arm_def split: option.splits op_value.splits dest!: xdr_r)
  subgoal by (cases t; clarsimp simp: xdr_struct nil_arm_def) (auto dest!: xdr_c)
  done

lemma xdr_OperationBody: "xdr_type enc_OperationBody dec_OperationBody wt_OperationBody"
  apply (rule xdr_typeI)
  subgoal by (auto simp: enc_OperationBody_def wt_OperationBody_def intro: xdr_w xdr_written [OF xdr_arm])
  subgoal by (auto simp: enc_OperationBody_def dec_OperationBody_def wt_OperationBody_def xdr_eval
      dest!: xdr_r xdr_readsI [OF xdr_arm ])
  subgoal by (auto simp: enc_OperationBody_def dec_OperationBody_def wt_OperationBody_def xdr_struct)
      (auto dest!: xdr_c xdr_canonical [OF xdr_arm])
  done

lemma xdr_Operation: "xdr_type enc_Operation dec_Operation wt_Operation"
  apply (rule xdr_typeI)
  subgoal by (auto simp: enc_Operation_def wt_Operation_def intro: xdr_w xdr_written [OF xdr_OperationBody])
  subgoal by (auto simp: enc_Operation_def dec_Operation_def wt_Operation_def xdr_eval
      dest!: xdr_r xdr_readsI [OF xdr_OperationBody ])
  subgoal by (auto simp: enc_Operation_def dec_Operation_def wt_Operation_def xdr_struct)
      (auto dest!: xdr_c xdr_canonical [OF xdr_OperationBody])
  done

section \<open>Transactions\<close>

definition wt_Operations :: "Operation list \<Rightarrow> bool" where
  "wt_Operations p \<longleftrightarrow> length p \<le> 100 \<and> (\<forall>x \<in> set p. wt_Operation x)"

definition wt_Signatures :: "DecoratedSignature list \<Rightarrow> bool" where
  "wt_Signatures p \<longleftrightarrow> length p \<le> 20 \<and> (\<forall>x \<in> set p. wt_DecoratedSignature x)"

lemma xdr_Operations: "xdr_type (enc_slice enc_Operation) (dec_slice ''Operation'' 100 dec_Operation) wt_Operations"
  unfolding wt_Operations_def [abs_def] by (rule xdr_type_slice [OF xdr_Operation]) simp

lemma xdr_Signatures:
  "xdr_type (enc_slice enc_DecoratedSignature) (dec_slice ''DecoratedSignature'' 20 dec_DecoratedSignature) wt_Signatures"
  unfolding wt_Signatures_def [abs_def] by (rule xdr_type_slice [OF xdr_DecoratedSignature]) simp

text \<open>The extension point of a transaction, whose one version \<open>0\<close> is void.\<close>

definition enc_TransactionExt :: "unit xdr_encoder" where "enc_TransactionExt u = Inr (EncodeInt 0)"

definition dec_TransactionExt :: "string \<Rightarrow> unit xdr_decoder" where
  "dec_TransactionExt name =
     xdr_field ''Int'' DecodeInt (\<lambda>v. if v = 0 then xdr_return ()
       else xdr_fail (Errorf (''union '' @ name @ '' has invalid V (int32) switch value '' @ [CHR 0x27] @ ''%d'' @ [CHR 0x27]) [AInt (sint v)]))"

lemma xdr_TransactionExt: "xdr_type enc_TransactionExt (dec_TransactionExt name) wt_any"
  apply (rule xdr_typeI)
  subgoal by (simp add: enc_TransactionExt_def)
  subgoal by (auto simp: enc_TransactionExt_def dec_TransactionExt_def xdr_eval DecodeInt_Inr [THEN iffD2])
  subgoal by (auto simp: enc_TransactionExt_def dec_TransactionExt_def xdr_struct DecodeInt_Inr split: if_splits)
  done

lemmas xdr_tx_parts = xdr_Operations xdr_Signatures xdr_TransactionExt
lemmas xdr_tx_w [xdr_w] = xdr_tx_parts [THEN xdr_written]
lemmas xdr_tx_r [xdr_r] = xdr_Signatures [THEN xdr_readsI]
lemmas xdr_tx_c [xdr_c] = xdr_tx_parts [THEN xdr_canonical]

definition enc_Transaction :: "xdr_Transaction xdr_encoder" where
  "enc_Transaction s = xdr_write [and_then (deref (tx_SourceAccount s)) enc_MuxedAccount, enc_Uint32 (tx_Fee s),
     enc_SequenceNumber (tx_SeqNum s), enc_pointer enc_TimeBounds (tx_TimeBounds s), enc_Memo (tx_Memo s),
     enc_slice enc_Operation (tx_Operations s), enc_TransactionExt ()]"

definition dec_Transaction :: "xdr_Transaction xdr_decoder" where
  "dec_Transaction =
     xdr_field ''MuxedAccount'' dec_MuxedAccount (\<lambda>a.
     xdr_field ''Uint32'' dec_Uint32 (\<lambda>b.
     xdr_field ''SequenceNumber'' dec_SequenceNumber (\<lambda>c.
     xdr_then (dec_pointer ''TimeBounds'' dec_TimeBounds) (\<lambda>d.
     xdr_field ''Memo'' dec_Memo (\<lambda>e.
     xdr_then (dec_slice ''Operation'' 100 dec_Operation) (\<lambda>f.
     xdr_field ''TransactionExt'' (dec_TransactionExt ''TransactionExt'') (\<lambda>_.
     xdr_return \<lparr>tx_SourceAccount = Some a, tx_Fee = b, tx_SeqNum = c, tx_TimeBounds = d, tx_Memo = e, tx_Operations = f\<rparr>)))))))"

definition wt_Transaction :: "xdr_Transaction \<Rightarrow> bool" where
  "wt_Transaction s \<longleftrightarrow> (\<exists>a. tx_SourceAccount s = Some a \<and> wt_MuxedAccount a) \<and> wt_Memo (tx_Memo s) \<and> wt_Operations (tx_Operations s)"

definition enc_TransactionV0 :: "TransactionV0 xdr_encoder" where
  "enc_TransactionV0 s = xdr_write [enc_Uint256 (v0_SourceAccountEd25519 s), enc_Uint32 (v0_Fee s),
     enc_SequenceNumber (v0_SeqNum s), enc_pointer enc_TimeBounds (v0_TimeBounds s), enc_Memo (v0_Memo s),
     enc_slice enc_Operation (v0_Operations s), enc_TransactionExt ()]"

definition dec_TransactionV0 :: "TransactionV0 xdr_decoder" where
  "dec_TransactionV0 =
     xdr_field ''Uint256'' dec_Uint256 (\<lambda>a.
     xdr_field ''Uint32'' dec_Uint32 (\<lambda>b.
     xdr_field ''SequenceNumber'' dec_SequenceNumber (\<lambda>c.
     xdr_then (dec_pointer ''TimeBounds'' dec_TimeBounds) (\<lambda>d.
     xdr_field ''Memo'' dec_Memo (\<lambda>e.
     xdr_then (dec_slice ''Operation'' 100 dec_Operation) (\<lambda>f.
     xdr_field ''TransactionV0Ext'' (dec_TransactionExt ''TransactionV0Ext'') (\<lambda>_.
     xdr_return \<lparr>v0_SourceAccountEd25519 = a, v0_Fee = b, v0_SeqNum = c, v0_TimeBounds = d, v0_Memo = e, v0_Operations = f\<rparr>)))))))"

definition wt_TransactionV0 :: "TransactionV0 \<Rightarrow> bool" where
  "wt_TransactionV0 s \<longleftrightarrow> wt_array 32 (v0_SourceAccountEd25519 s) \<and> wt_Memo (v0_Memo s) \<and> wt_Operations (v0_Operations s)"

lemma xdr_Transaction: "xdr_type enc_Transaction dec_Transaction wt_Transaction"
  apply (rule xdr_typeI)
  subgoal by (auto simp: enc_Transaction_def wt_Transaction_def enc_SequenceNumber_def intro!: xdr_w) 
  subgoal by (auto simp: enc_Transaction_def dec_Transaction_def wt_Transaction_def xdr_eval
      dest!: xdr_r xdr_readsI [OF xdr_Operations ] xdr_readsI [OF xdr_TransactionExt [of "''TransactionExt''"]])
  subgoal
    apply (clarsimp simp: enc_Transaction_def dec_Transaction_def wt_Transaction_def xdr_struct)
    apply ((drule xdr_c)+, clarsimp)
    done
  done

lemma xdr_TransactionV0: "xdr_type enc_TransactionV0 dec_TransactionV0 wt_TransactionV0"
  apply (rule xdr_typeI)
  subgoal by (auto simp: enc_TransactionV0_def wt_TransactionV0_def enc_SequenceNumber_def intro!: xdr_w)
  subgoal by (auto simp: enc_TransactionV0_def dec_TransactionV0_def wt_TransactionV0_def xdr_eval
      dest!: xdr_r xdr_readsI [OF xdr_Operations ] xdr_readsI [OF xdr_TransactionExt [of "''TransactionV0Ext''"]])
  subgoal
    apply (clarsimp simp: enc_TransactionV0_def dec_TransactionV0_def wt_TransactionV0_def xdr_struct)
    apply ((drule xdr_c)+, clarsimp)
    done
  done


section \<open>Envelopes and the signed payload\<close>

definition enc_EnvelopeType :: "int xdr_encoder" where "enc_EnvelopeType = enc_enum ''EnvelopeType'' [0, 1, 2, 3, 4, 5, 6, 7]"
definition dec_EnvelopeType :: "int xdr_decoder" where "dec_EnvelopeType = dec_enum ''EnvelopeType'' [0, 1, 2, 3, 4, 5, 6, 7]"

definition enc_TransactionV1Envelope :: "TransactionV1Envelope xdr_encoder" where
  "enc_TransactionV1Envelope s = xdr_write [enc_Transaction (v1_Tx s), enc_slice enc_DecoratedSignature (v1_Signatures s)]"

definition dec_TransactionV1Envelope :: "TransactionV1Envelope xdr_decoder" where
  "dec_TransactionV1Envelope =
     xdr_field ''Transaction'' dec_Transaction (\<lambda>a.
     xdr_then (dec_slice ''DecoratedSignature'' 20 dec_DecoratedSignature) (\<lambda>b.
     xdr_return \<lparr>v1_Tx = a, v1_Signatures = b\<rparr>))"

definition wt_V1 :: "TransactionV1Envelope \<Rightarrow> bool" where
  "wt_V1 s \<longleftrightarrow> wt_Transaction (v1_Tx s) \<and> wt_Signatures (v1_Signatures s)"

definition enc_TransactionV0Envelope :: "TransactionV0Envelope xdr_encoder" where
  "enc_TransactionV0Envelope s = xdr_write [enc_TransactionV0 (v0_Tx s), enc_slice enc_DecoratedSignature (v0_Signatures s)]"

definition dec_TransactionV0Envelope :: "TransactionV0Envelope xdr_decoder" where
  "dec_TransactionV0Envelope =
     xdr_field ''TransactionV0'' dec_TransactionV0 (\<lambda>a.
     xdr_then (dec_slice ''DecoratedSignature'' 20 dec_DecoratedSignature) (\<lambda>b.
     xdr_return \<lparr>v0_Tx = a, v0_Signatures = b\<rparr>))"

definition wt_V0 :: "TransactionV0Envelope \<Rightarrow> bool" where
  "wt_V0 s \<longleftrightarrow> wt_TransactionV0 (v0_Tx s) \<and> wt_Signatures (v0_Signatures s)"

text \<open>The inner transaction of a fee bump is a union with one arm.\<close>

definition enc_InnerTx :: "TransactionV1Envelope xdr_encoder" where
  "enc_InnerTx v1 = xdr_write [enc_EnvelopeType 2, enc_TransactionV1Envelope v1]"

definition dec_InnerTx :: "TransactionV1Envelope xdr_decoder" where
  "dec_InnerTx =
     xdr_field ''EnvelopeType'' dec_EnvelopeType (\<lambda>t.
       if t = 2 then xdr_field ''TransactionV1Envelope'' dec_TransactionV1Envelope xdr_return
       else xdr_fail (dec_switch_error ''FeeBumpTransactionInnerTx'' ''EnvelopeType'' t))"

definition enc_FeeBumpTransaction :: "FeeBumpTransaction xdr_encoder" where
  "enc_FeeBumpTransaction s = xdr_write [enc_MuxedAccount (fb_FeeSource s), enc_Int64 (fb_Fee s), enc_InnerTx (fb_InnerTx s),
     enc_TransactionExt ()]"

definition dec_FeeBumpTransaction :: "FeeBumpTransaction xdr_decoder" where
  "dec_FeeBumpTransaction =
     xdr_field ''MuxedAccount'' dec_MuxedAccount (\<lambda>a.
     xdr_field ''Int64'' dec_Int64 (\<lambda>b.
     xdr_field ''FeeBumpTransactionInnerTx'' dec_InnerTx (\<lambda>c.
     xdr_field ''FeeBumpTransactionExt'' (dec_TransactionExt ''FeeBumpTransactionExt'') (\<lambda>_.
     xdr_return \<lparr>fb_FeeSource = a, fb_Fee = b, fb_InnerTx = c\<rparr>))))"

definition wt_FeeBumpTransaction :: "FeeBumpTransaction \<Rightarrow> bool" where
  "wt_FeeBumpTransaction s \<longleftrightarrow> wt_MuxedAccount (fb_FeeSource s) \<and> wt_V1 (fb_InnerTx s)"

definition enc_FeeBumpTransactionEnvelope :: "FeeBumpTransactionEnvelope xdr_encoder" where
  "enc_FeeBumpTransactionEnvelope s = xdr_write [enc_FeeBumpTransaction (fb_Tx s), enc_slice enc_DecoratedSignature (fb_Signatures s)]"

definition dec_FeeBumpTransactionEnvelope :: "FeeBumpTransactionEnvelope xdr_decoder" where
  "dec_FeeBumpTransactionEnvelope =
     xdr_field ''FeeBumpTransaction'' dec_FeeBumpTransaction (\<lambda>a.
     xdr_then (dec_slice ''DecoratedSignature'' 20 dec_DecoratedSignature) (\<lambda>b.
     xdr_return \<lparr>fb_Tx = a, fb_Signatures = b\<rparr>))"

definition wt_FeeBump :: "FeeBumpTransactionEnvelope \<Rightarrow> bool" where
  "wt_FeeBump s \<longleftrightarrow> wt_FeeBumpTransaction (fb_Tx s) \<and> wt_Signatures (fb_Signatures s)"

fun enc_TransactionEnvelope :: "TransactionEnvelope xdr_encoder" where
  "enc_TransactionEnvelope (EnvelopeTxV0 v0) = xdr_write [enc_EnvelopeType 0, enc_TransactionV0Envelope v0]"
| "enc_TransactionEnvelope (EnvelopeTx v1) = xdr_write [enc_EnvelopeType 2, enc_TransactionV1Envelope v1]"
| "enc_TransactionEnvelope (EnvelopeFeeBump fb) = xdr_write [enc_EnvelopeType 5, enc_FeeBumpTransactionEnvelope fb]"

definition dec_TransactionEnvelope :: "TransactionEnvelope xdr_decoder" where
  "dec_TransactionEnvelope =
     xdr_field ''EnvelopeType'' dec_EnvelopeType (\<lambda>t.
       if t = 0 then xdr_field ''TransactionV0Envelope'' dec_TransactionV0Envelope (\<lambda>v. xdr_return (EnvelopeTxV0 v))
       else if t = 2 then xdr_field ''TransactionV1Envelope'' dec_TransactionV1Envelope (\<lambda>v. xdr_return (EnvelopeTx v))
       else if t = 5 then
         xdr_field ''FeeBumpTransactionEnvelope'' dec_FeeBumpTransactionEnvelope (\<lambda>v. xdr_return (EnvelopeFeeBump v))
       else xdr_fail (dec_switch_error ''TransactionEnvelope'' ''EnvelopeType'' t))"

fun enc_TaggedTransaction :: "TaggedTransaction xdr_encoder" where
  "enc_TaggedTransaction (TaggedTx tx) = xdr_write [enc_EnvelopeType 2, enc_Transaction tx]"
| "enc_TaggedTransaction (TaggedFeeBump fb) = xdr_write [enc_EnvelopeType 5, enc_FeeBumpTransaction fb]"

definition dec_TaggedTransaction :: "TaggedTransaction xdr_decoder" where
  "dec_TaggedTransaction =
     xdr_field ''EnvelopeType'' dec_EnvelopeType (\<lambda>t.
       if t = 2 then xdr_field ''Transaction'' dec_Transaction (\<lambda>v. xdr_return (TaggedTx v))
       else if t = 5 then xdr_field ''FeeBumpTransaction'' dec_FeeBumpTransaction (\<lambda>v. xdr_return (TaggedFeeBump v))
       else xdr_fail (dec_switch_error ''TransactionSignaturePayloadTaggedTransaction'' ''EnvelopeType'' t))"

fun wt_Tagged :: "TaggedTransaction \<Rightarrow> bool" where
  "wt_Tagged (TaggedTx tx) = wt_Transaction tx"
| "wt_Tagged (TaggedFeeBump fb) = wt_FeeBumpTransaction fb"

definition enc_SignaturePayload :: "(byte list \<times> TaggedTransaction) xdr_encoder" where
  "enc_SignaturePayload s = xdr_write [enc_Hash (fst s), enc_TaggedTransaction (snd s)]"

definition dec_SignaturePayload :: "(byte list \<times> TaggedTransaction) xdr_decoder" where
  "dec_SignaturePayload =
     xdr_field ''Hash'' dec_Hash (\<lambda>a.
     xdr_field ''TransactionSignaturePayloadTaggedTransaction'' dec_TaggedTransaction (\<lambda>b. xdr_return (a, b)))"

lemma xdr_EnvelopeType: "xdr_type enc_EnvelopeType dec_EnvelopeType (\<lambda>t. t \<in> set [0, 1, 2, 3, 4, 5, 6, 7])"
  unfolding enc_EnvelopeType_def dec_EnvelopeType_def by (rule xdr_type_enum) simp

lemmas xdr_env_parts = xdr_EnvelopeType xdr_Transaction xdr_TransactionV0
lemmas xdr_env_w [xdr_w] = xdr_env_parts [THEN xdr_written]
lemmas xdr_env_r [xdr_r] = xdr_EnvelopeType [THEN xdr_readsI]
lemmas xdr_env_c [xdr_c] = xdr_env_parts [THEN xdr_canonical]

lemma xdr_TransactionV1Envelope: "xdr_type enc_TransactionV1Envelope dec_TransactionV1Envelope wt_V1"
  apply (rule xdr_typeI)
  subgoal by (auto simp: enc_TransactionV1Envelope_def wt_V1_def intro!: xdr_w)
  subgoal by (auto simp: enc_TransactionV1Envelope_def dec_TransactionV1Envelope_def wt_V1_def xdr_eval
      dest!: xdr_r xdr_readsI [OF xdr_Transaction ])
  subgoal by (auto simp: enc_TransactionV1Envelope_def dec_TransactionV1Envelope_def wt_V1_def xdr_struct) (auto dest!: xdr_c)
  done

lemma xdr_TransactionV0Envelope: "xdr_type enc_TransactionV0Envelope dec_TransactionV0Envelope wt_V0"
  apply (rule xdr_typeI)
  subgoal by (auto simp: enc_TransactionV0Envelope_def wt_V0_def intro!: xdr_w)
  subgoal by (auto simp: enc_TransactionV0Envelope_def dec_TransactionV0Envelope_def wt_V0_def xdr_eval
      dest!: xdr_r xdr_readsI [OF xdr_TransactionV0 ])
  subgoal by (auto simp: enc_TransactionV0Envelope_def dec_TransactionV0Envelope_def wt_V0_def xdr_struct) (auto dest!: xdr_c)
  done

lemmas xdr_v_w [xdr_w] = xdr_written [OF xdr_TransactionV1Envelope] xdr_written [OF xdr_TransactionV0Envelope]
lemmas xdr_v_c [xdr_c] = xdr_canonical [OF xdr_TransactionV1Envelope] xdr_canonical [OF xdr_TransactionV0Envelope]

lemma xdr_InnerTx: "xdr_type enc_InnerTx dec_InnerTx wt_V1"
  apply (rule xdr_typeI)
  subgoal by (auto simp: enc_InnerTx_def intro!: xdr_w)
  subgoal by (auto simp: enc_InnerTx_def dec_InnerTx_def xdr_eval dest!: xdr_r xdr_readsI [OF xdr_TransactionV1Envelope ])
  subgoal by (auto simp: enc_InnerTx_def dec_InnerTx_def xdr_struct split: if_splits) (auto dest!: xdr_c)
  done

lemmas xdr_inner_w [xdr_w] = xdr_written [OF xdr_InnerTx]
lemmas xdr_inner_c [xdr_c] = xdr_canonical [OF xdr_InnerTx]

lemma xdr_FeeBumpTransaction: "xdr_type enc_FeeBumpTransaction dec_FeeBumpTransaction wt_FeeBumpTransaction"
  apply (rule xdr_typeI)
  subgoal by (auto simp: enc_FeeBumpTransaction_def wt_FeeBumpTransaction_def intro!: xdr_w)
  subgoal by (auto simp: enc_FeeBumpTransaction_def dec_FeeBumpTransaction_def wt_FeeBumpTransaction_def xdr_eval
      dest!: xdr_r xdr_readsI [OF xdr_InnerTx ] xdr_readsI [OF xdr_TransactionExt [of "''FeeBumpTransactionExt''"]])
  subgoal by (auto simp: enc_FeeBumpTransaction_def dec_FeeBumpTransaction_def wt_FeeBumpTransaction_def xdr_struct)
      (auto dest!: xdr_c)
  done

lemmas xdr_bump_w [xdr_w] = xdr_written [OF xdr_FeeBumpTransaction]
lemmas xdr_bump_c [xdr_c] = xdr_canonical [OF xdr_FeeBumpTransaction]

lemma xdr_FeeBumpTransactionEnvelope:
  "xdr_type enc_FeeBumpTransactionEnvelope dec_FeeBumpTransactionEnvelope wt_FeeBump"
  apply (rule xdr_typeI)
  subgoal by (auto simp: enc_FeeBumpTransactionEnvelope_def wt_FeeBump_def intro!: xdr_w)
  subgoal by (auto simp: enc_FeeBumpTransactionEnvelope_def dec_FeeBumpTransactionEnvelope_def wt_FeeBump_def xdr_eval
      dest!: xdr_r xdr_readsI [OF xdr_FeeBumpTransaction ])
  subgoal by (auto simp: enc_FeeBumpTransactionEnvelope_def dec_FeeBumpTransactionEnvelope_def wt_FeeBump_def xdr_struct)
      (auto dest!: xdr_c)
  done

lemmas xdr_fbe_w [xdr_w] = xdr_written [OF xdr_FeeBumpTransactionEnvelope]
lemmas xdr_fbe_c [xdr_c] = xdr_canonical [OF xdr_FeeBumpTransactionEnvelope]

fun wt_envelope :: "TransactionEnvelope \<Rightarrow> bool" where
  "wt_envelope (EnvelopeTxV0 v0) = wt_V0 v0"
| "wt_envelope (EnvelopeTx v1) = wt_V1 v1"
| "wt_envelope (EnvelopeFeeBump fb) = wt_FeeBump fb"

lemma xdr_TransactionEnvelope: "xdr_type enc_TransactionEnvelope dec_TransactionEnvelope wt_envelope"
  apply (rule xdr_typeI)
  subgoal for x by (cases x) (auto intro!: xdr_w)
  subgoal for x by (cases x)
    (auto simp: dec_TransactionEnvelope_def xdr_eval dest!: xdr_r xdr_readsI [OF xdr_TransactionV0Envelope ]
        xdr_readsI [OF xdr_TransactionV1Envelope ] xdr_readsI [OF xdr_FeeBumpTransactionEnvelope ])
  subgoal by (auto simp: dec_TransactionEnvelope_def xdr_struct split: if_splits) (auto dest!: xdr_c)
  done

lemma xdr_TaggedTransaction: "xdr_type enc_TaggedTransaction dec_TaggedTransaction wt_Tagged"
  apply (rule xdr_typeI)
  subgoal for x by (cases x) (auto intro!: xdr_w)
  subgoal for x by (cases x)
    (auto simp: dec_TaggedTransaction_def xdr_eval dest!: xdr_r xdr_readsI [OF xdr_Transaction ]
        xdr_readsI [OF xdr_FeeBumpTransaction ])
  subgoal by (auto simp: dec_TaggedTransaction_def xdr_struct split: if_splits) (auto dest!: xdr_c)
  done

lemmas xdr_tagged_w [xdr_w] = xdr_written [OF xdr_TaggedTransaction]
lemmas xdr_tagged_c [xdr_c] = xdr_canonical [OF xdr_TaggedTransaction]

lemma xdr_SignaturePayload:
  "xdr_type enc_SignaturePayload dec_SignaturePayload (\<lambda>s. wt_array 32 (fst s) \<and> wt_Tagged (snd s))"
  apply (rule xdr_typeI)
  subgoal by (auto simp: enc_SignaturePayload_def intro!: xdr_w)
  subgoal by (auto simp: enc_SignaturePayload_def dec_SignaturePayload_def xdr_eval
      dest!: xdr_r xdr_readsI [OF xdr_TaggedTransaction ])
  subgoal by (auto simp: enc_SignaturePayload_def dec_SignaturePayload_def xdr_struct) (auto dest!: xdr_c)
  done


end
