(* ===== verification/Tx_Hash.thy ===== *)
theory Tx_Hash
  imports Xdr_Codec
begin

text \<open>
  Writing and reading whole envelopes (\<open>Marshal\<close>, \<open>SafeUnmarshal\<close> of the vendored \<open>xdr\<close>
  package), and the hash of a transaction (vendored \<open>network\<close> package), which is what is
  signed: what the bytes of an envelope determine, and what its hash does.
\<close>

section \<open>Envelopes as bytes\<close>

text \<open>\<open>MarshalBinary\<close> into a buffer.\<close>

definition MarshalEnvelope :: "TransactionEnvelope \<Rightarrow> byte list res" where
  "MarshalEnvelope e = enc_TransactionEnvelope e"

definition SafeUnmarshal :: "'a xdr_decoder \<Rightarrow> byte list \<Rightarrow> 'a res" where
  "SafeUnmarshal d data =
     and_then (d data) (\<lambda>(dest, unread).
       if length data - length unread \<noteq> length data then
         Inl (Errorf ''input not fully consumed. expected to read: %d, actual: %d''
           [AInt (int (length data)), AInt (int (length data - length unread))])
       else Inr dest)"

definition UnmarshalEnvelope :: "byte list \<Rightarrow> TransactionEnvelope res" where
  "UnmarshalEnvelope data = SafeUnmarshal dec_TransactionEnvelope data"

section \<open>Hashes\<close>

definition network_ID :: "go_crypto \<Rightarrow> string \<Rightarrow> byte list" where
  "network_ID C passphrase = sha256 C (map byte_of passphrase)"

definition hashTx :: "go_crypto \<Rightarrow> TaggedTransaction \<Rightarrow> string \<Rightarrow> byte list res" where
  "hashTx C tx passphrase =
     (if TrimSpace passphrase = [] then Inl (NewError ''empty network passphrase'')
      else case enc_SignaturePayload (network_ID C passphrase, tx) of
          Inl err \<Rightarrow> Inl (Wrapped ''marshal tx failed'' err)
        | Inr txBytes \<Rightarrow> Inr (sha256 C txBytes))"

definition HashTransaction :: "go_crypto \<Rightarrow> xdr_Transaction \<Rightarrow> string \<Rightarrow> byte list res" where
  "HashTransaction C tx passphrase = hashTx C (TaggedTx tx) passphrase"

definition HashFeeBumpTransaction :: "go_crypto \<Rightarrow> FeeBumpTransaction \<Rightarrow> string \<Rightarrow> byte list res" where
  "HashFeeBumpTransaction C tx passphrase = hashTx C (TaggedFeeBump tx) passphrase"

definition HashTransactionV0 :: "go_crypto \<Rightarrow> TransactionV0 \<Rightarrow> string \<Rightarrow> byte list res" where
  "HashTransactionV0 C tx passphrase =
     HashTransaction C
       \<lparr>tx_SourceAccount = Some (KeyTypeEd25519 (v0_SourceAccountEd25519 tx)), tx_Fee = v0_Fee tx, tx_SeqNum = v0_SeqNum tx,
        tx_TimeBounds = v0_TimeBounds tx, tx_Memo = v0_Memo tx, tx_Operations = v0_Operations tx\<rparr> passphrase"

definition HashTransactionInEnvelope :: "go_crypto \<Rightarrow> TransactionEnvelope \<Rightarrow> string \<Rightarrow> byte list res" where
  "HashTransactionInEnvelope C envelope passphrase =
     (case envelope of
        EnvelopeTx v1 \<Rightarrow> HashTransaction C (v1_Tx v1) passphrase
      | EnvelopeTxV0 v0 \<Rightarrow> HashTransactionV0 C (v0_Tx v0) passphrase
      | EnvelopeFeeBump fb \<Rightarrow> HashFeeBumpTransaction C (fb_Tx fb) passphrase)"

lemma hashTx_length: "crypto_ok C \<Longrightarrow> hashTx C tx p = Inr h \<Longrightarrow> length h = 32"
  by (auto simp: hashTx_def crypto_ok_def split: if_splits sum.splits)

lemma HashTransaction_length: "crypto_ok C \<Longrightarrow> HashTransaction C tx p = Inr h \<Longrightarrow> length h = 32"
  by (simp add: HashTransaction_def hashTx_length)

section \<open>What the bytes determine\<close>

interpretation envelope_bytes: xdr_type enc_TransactionEnvelope dec_TransactionEnvelope wt_envelope
  by (rule xdr_TransactionEnvelope)

interpretation payload_bytes: xdr_type enc_SignaturePayload dec_SignaturePayload "\<lambda>s. wt_array 32 (fst s) \<and> wt_Tagged (snd s)"
  by (rule xdr_SignaturePayload)

interpretation transaction_bytes: xdr_type enc_Transaction dec_Transaction wt_Transaction
  by (rule xdr_Transaction)

lemma UnmarshalEnvelope_Inr: "UnmarshalEnvelope data = Inr e \<longleftrightarrow> dec_TransactionEnvelope data = Inr (e, [])"
proof -
  have "length data - length unread \<noteq> length data \<longleftrightarrow> unread \<noteq> []"
    if "dec_TransactionEnvelope data = Inr (e, unread)" "data \<noteq> []" for unread e
    using that by (cases data; cases unread) auto
  moreover have "dec_TransactionEnvelope [] \<noteq> Inr x" for x
    by (cases x) (auto simp: dec_TransactionEnvelope_def xdr_struct dec_EnvelopeType_def dec_enum_def DecodeInt_Inr EncodeInt_def)
  ultimately show ?thesis
    by (cases "data = []") (auto simp: UnmarshalEnvelope_def SafeUnmarshal_def and_then_eq_Inr split: if_splits)
qed

lemma UnmarshalEnvelope_Marshal: "wt_envelope e \<Longrightarrow> MarshalEnvelope e = Inr buf \<Longrightarrow> UnmarshalEnvelope buf = Inr e"
  using envelope_bytes.read_back [of e buf "[]"] by (simp add: MarshalEnvelope_def UnmarshalEnvelope_Inr)

lemma MarshalEnvelope_ok: "wt_envelope e \<Longrightarrow> \<exists>buf. MarshalEnvelope e = Inr buf"
  using envelope_bytes.written by (simp add: MarshalEnvelope_def is_ok_iff)

text \<open>Writing needs less than reading back: a memo text of any length is written.\<close>

lemma Transaction_written:
  assumes "tx_SourceAccount tx = Some a" "wt_MuxedAccount a" "is_ok (enc_Memo (tx_Memo tx))" "wt_Operations (tx_Operations tx)"
  shows "is_ok (enc_Transaction tx)"
  using assms by (auto simp: enc_Transaction_def enc_SequenceNumber_def intro!: xdr_w)

lemma Memo_written: "wt_Memo m \<Longrightarrow> is_ok (enc_Memo m)"
  by (rule xdr_w)

lemma Memo_text_written: "is_ok (enc_Memo (xdr_no_memo\<lparr>xm_Type := 1, xm_Text := Some s\<rparr>))"
  by (auto simp: enc_Memo_def xdr_no_memo_def intro!: xdr_w)

lemma HashTransaction_written:
  assumes "crypto_ok C" "is_ok (enc_Transaction tx)" "TrimSpace p \<noteq> []"
  shows "\<exists>h. HashTransaction C tx p = Inr h"
proof -
  have "wt_array 32 (network_ID C p)" using assms(1) by (simp add: wt_array_def network_ID_def crypto_ok_def)
  then have "is_ok (enc_SignaturePayload (network_ID C p, TaggedTx tx))"
    using assms(2) by (auto simp: enc_SignaturePayload_def intro!: xdr_w)
  then show ?thesis using assms(3) by (auto simp: HashTransaction_def hashTx_def is_ok_iff)
qed

lemma HashTransaction_ok:
  "crypto_ok C \<Longrightarrow> wt_Transaction tx \<Longrightarrow> TrimSpace p \<noteq> [] \<Longrightarrow> \<exists>h. HashTransaction C tx p = Inr h"
  by (rule HashTransaction_written [OF _ transaction_bytes.written])

lemma MarshalEnvelope_written:
  assumes "is_ok (enc_Transaction (v1_Tx v1))" "wt_Signatures (v1_Signatures v1)"
  shows "\<exists>buf. MarshalEnvelope (EnvelopeTx v1) = Inr buf"
proof -
  have "is_ok (enc_TransactionEnvelope (EnvelopeTx v1))"
    using assms by (auto simp: enc_TransactionV1Envelope_def intro!: xdr_w)
  then show ?thesis by (simp add: MarshalEnvelope_def is_ok_iff)
qed

text \<open>What is hashed, byte by byte.\<close>

lemma HashTransaction_preimage:
  assumes "crypto_ok C" "HashTransaction C tx p = Inr h"
  shows "\<exists>b. enc_Transaction tx = Inr b \<and> h = sha256 C (sha256 C (map byte_of p) @ [0, 0, 0, 2] @ b)"
proof -
  have "enc_EnvelopeType 2 = Inr [0, 0, 0, 2]" by code_simp
  moreover have "EncodeFixedOpaque (network_ID C p) = sha256 C (map byte_of p)"
    using assms(1) by (simp add: EncodeFixedOpaque_def network_ID_def crypto_ok_def xdr_pad_def)
  ultimately show ?thesis
    using assms(2) by (auto simp: HashTransaction_def hashTx_def enc_SignaturePayload_def enc_Hash_def split: if_splits sum.splits)
qed

text \<open>A memo text over the limit is written, and refused by every reader of it.\<close>

lemma dec_Memo_long:
  assumes "28 < length s" "length s < 4294967296" "enc_Memo (xdr_no_memo\<lparr>xm_Type := 1, xm_Text := Some s\<rparr>) = Inr b"
  shows "\<exists>e. dec_Memo (b @ r) = Inl e"
proof -
  have l: "unat (word_of_nat (length s) :: uint32) = length s" using assms(2) by (simp add: unat_of_nat take_bit_nat_eq_self)
  from assms(3) obtain b1 where b1: "enc_MemoType 1 = Inr b1" "b = b1 @ EncodeString s" by (auto simp: enc_Memo_def)
  have "dec_MemoType (b1 @ x) = Inr (1, x)" for x using xdr_reads [OF xdr_MemoType _ b1(1)] by simp
  moreover have "DecodeUint (EncodeUint (word_of_nat (length s)) @ x) = Inr (word_of_nat (length s), x)" for x
    by (simp add: DecodeUint_Inr)
  ultimately show ?thesis
    using assms(1) l b1(2) by (simp add: dec_Memo_def xdr_eval DecodeString_def EncodeString_def Let_def)
qed

lemma UnmarshalEnvelope_long_memo:
  assumes "28 < length s" "length s < 4294967296" "tx_Memo (v1_Tx v1) = xdr_no_memo\<lparr>xm_Type := 1, xm_Text := Some s\<rparr>"
    and "tx_SourceAccount (v1_Tx v1) = Some a" "wt_MuxedAccount a" "MarshalEnvelope (EnvelopeTx v1) = Inr buf"
  shows "\<exists>e. UnmarshalEnvelope buf = Inl e"
proof -
  from assms(6) obtain b0 b1 b2 b3 b4 b5 rest where
    b: "enc_EnvelopeType 2 = Inr b0" "enc_MuxedAccount a = Inr b1" "enc_Uint32 (tx_Fee (v1_Tx v1)) = Inr b2"
      "enc_SequenceNumber (tx_SeqNum (v1_Tx v1)) = Inr b3" "enc_pointer enc_TimeBounds (tx_TimeBounds (v1_Tx v1)) = Inr b4"
      "enc_Memo (tx_Memo (v1_Tx v1)) = Inr b5" "buf = b0 @ b1 @ b2 @ b3 @ b4 @ b5 @ rest"
    using assms(4) by (auto simp: MarshalEnvelope_def enc_TransactionV1Envelope_def enc_Transaction_def)
  obtain e where e: "dec_Memo (b5 @ rest) = Inl e"
    using dec_Memo_long [OF assms(1,2)] b(6) assms(3) by metis
  have r: "\<forall>r. dec_EnvelopeType (b0 @ r) = Inr (2, r)" "\<forall>r. dec_MuxedAccount (b1 @ r) = Inr (a, r)"
      "\<forall>r. dec_Uint32 (b2 @ r) = Inr (tx_Fee (v1_Tx v1), r)" "\<forall>r. dec_SequenceNumber (b3 @ r) = Inr (tx_SeqNum (v1_Tx v1), r)"
      "\<forall>r. dec_pointer ''TimeBounds'' dec_TimeBounds (b4 @ r) = Inr (tx_TimeBounds (v1_Tx v1), r)"
    using assms(5) b by (simp_all add: xdr_r)
  show ?thesis
    using b(7) e r by (simp add: UnmarshalEnvelope_def SafeUnmarshal_def dec_TransactionEnvelope_def dec_TransactionV1Envelope_def
        dec_Transaction_def xdr_eval)
qed

section \<open>Properties\<close>

text \<open>
  C9. An envelope within the limits of the schema is written, and what is read back from its
  bytes, whole, is the envelope.
\<close>

theorem envelope_roundtrip:
  assumes "wt_envelope e"
  shows "\<exists>buf. MarshalEnvelope e = Inr buf \<and> UnmarshalEnvelope buf = Inr e"
  using MarshalEnvelope_ok [OF assms] UnmarshalEnvelope_Marshal [OF assms] by blast

text \<open>
  C17. Bytes that are read as an envelope, of any operations, are the bytes it is written to:
  no envelope has two texts, and whatever is accepted is within the limits.
\<close>

theorem envelope_bytes_canonical:
  assumes "UnmarshalEnvelope buf = Inr e"
  shows "MarshalEnvelope e = Inr buf \<and> wt_envelope e"
  using envelope_bytes.whole_input [of buf e] assms by (simp add: UnmarshalEnvelope_Inr MarshalEnvelope_def)

text \<open>
  C10. What is hashed: the SHA-256 of the network's identifier (the SHA-256 of its passphrase),
  of the tag of a transaction and of the bytes of the transaction. These bytes determine the
  transaction and the identifier, so a signature of the hash binds both: one hash for two
  transactions is a collision of SHA-256 on these two texts.
\<close>

theorem HashTransaction_binds:
  assumes "crypto_ok C" and "wt_Transaction tx" and "wt_Transaction tx'"
    and "HashTransaction C tx p = Inr h" and "HashTransaction C tx' p' = Inr h'"
  shows "\<exists>b b'. enc_Transaction tx = Inr b \<and> enc_Transaction tx' = Inr b' \<and>
    h = sha256 C (sha256 C (map byte_of p) @ [0, 0, 0, 2] @ b) \<and>
    h' = sha256 C (sha256 C (map byte_of p') @ [0, 0, 0, 2] @ b') \<and>
    (sha256 C (map byte_of p) @ [0, 0, 0, 2] @ b = sha256 C (map byte_of p') @ [0, 0, 0, 2] @ b' \<longleftrightarrow>
      tx = tx' \<and> sha256 C (map byte_of p) = sha256 C (map byte_of p'))"
proof -
  obtain b where b: "enc_Transaction tx = Inr b" "h = sha256 C (sha256 C (map byte_of p) @ [0, 0, 0, 2] @ b)"
    using HashTransaction_preimage [OF assms(1,4)] by blast
  obtain b' where b': "enc_Transaction tx' = Inr b'" "h' = sha256 C (sha256 C (map byte_of p') @ [0, 0, 0, 2] @ b')"
    using HashTransaction_preimage [OF assms(1,5)] by blast
  have "length (sha256 C (map byte_of p)) = length (sha256 C (map byte_of p'))" using assms(1) by (simp add: crypto_ok_def)
  moreover have "b = b' \<longleftrightarrow> tx = tx'" using transaction_bytes.injective [OF assms(2,3) b(1)] b(1) b'(1) by auto
  ultimately show ?thesis using b b' by auto
qed

definition sample_tx :: xdr_Transaction where
  "sample_tx = \<lparr>tx_SourceAccount = Some (KeyTypeEd25519 (replicate 32 1)), tx_Fee = 100, tx_SeqNum = 8, tx_TimeBounds = None,
     tx_Memo = xdr_no_memo\<lparr>xm_Type := 1, xm_Text := Some ''hi''\<rparr>,
     tx_Operations = [\<lparr>op_SourceAccount = None, op_Body = \<lparr>body_Type = OpSetOptions,
        body_Arm = Some (VSetOptionsOp (empty_SetOptionsOp\<lparr>so_HomeDomain := Some ''keybase.io''\<rparr>))\<rparr>\<rparr>]\<rparr>"

lemmas wt_defs = wt_Transaction_def wt_V1_def wt_Signatures_def wt_Operations_def wt_Operation_def wt_OperationBody_def
  wt_MuxedAccount_def wt_AccountId_def wt_Memo_def wt_array_def wt_upto_def wt_SetOptionsOp_def wt_DecoratedSignature_def

lemma sample_tx_wt: "wt_Transaction sample_tx"
  by (simp add: sample_tx_def wt_defs empty_SetOptionsOp_def xdr_no_memo_def)

theorem envelope_roundtrip_witness:
  "\<exists>buf. UnmarshalEnvelope buf = Inr (EnvelopeTx \<lparr>v1_Tx = sample_tx, v1_Signatures = []\<rparr>)"
  using envelope_roundtrip [of "EnvelopeTx \<lparr>v1_Tx = sample_tx, v1_Signatures = []\<rparr>"] sample_tx_wt
  by (auto simp: wt_V1_def wt_Signatures_def)

theorem envelope_bytes_canonical_witness:
  "\<exists>buf. UnmarshalEnvelope buf = Inr (EnvelopeTx \<lparr>v1_Tx = sample_tx, v1_Signatures = []\<rparr>) \<and>
    MarshalEnvelope (EnvelopeTx \<lparr>v1_Tx = sample_tx, v1_Signatures = []\<rparr>) = Inr buf"
proof -
  have w: "wt_envelope (EnvelopeTx \<lparr>v1_Tx = sample_tx, v1_Signatures = []\<rparr>)"
    using sample_tx_wt by (simp add: wt_V1_def wt_Signatures_def)
  obtain buf where b: "MarshalEnvelope (EnvelopeTx \<lparr>v1_Tx = sample_tx, v1_Signatures = []\<rparr>) = Inr buf"
    using MarshalEnvelope_ok [OF w] by blast
  note u = UnmarshalEnvelope_Marshal [OF w b]
  from envelope_bytes_canonical [OF u] u show ?thesis by blast
qed

text \<open>A change of the fee changes what is hashed.\<close>

theorem HashTransaction_binds_witness:
  "\<exists>h h' b b'. HashTransaction plain_crypto sample_tx ''net'' = Inr h \<and>
    HashTransaction plain_crypto (sample_tx\<lparr>tx_Fee := 200\<rparr>) ''net'' = Inr h' \<and> b \<noteq> b' \<and>
    h = sha256 plain_crypto (sha256 plain_crypto (map byte_of ''net'') @ [0, 0, 0, 2] @ b) \<and>
    h' = sha256 plain_crypto (sha256 plain_crypto (map byte_of ''net'') @ [0, 0, 0, 2] @ b')"
proof -
  note c = plain_crypto_ok
  have p: "TrimSpace ''net'' \<noteq> []"
    using TrimSpace_tight [of "''net''"] by (simp add: tight_def less_eq_char_def)
  have w: "wt_Transaction (sample_tx\<lparr>tx_Fee := 200\<rparr>)" using sample_tx_wt by (simp add: wt_Transaction_def)
  obtain h h' where h: "HashTransaction plain_crypto sample_tx ''net'' = Inr h"
      "HashTransaction plain_crypto (sample_tx\<lparr>tx_Fee := 200\<rparr>) ''net'' = Inr h'"
    using HashTransaction_ok [OF c sample_tx_wt p] HashTransaction_ok [OF c w p] by blast
  have "sample_tx \<noteq> sample_tx\<lparr>tx_Fee := 200\<rparr>" by (simp add: sample_tx_def)
  then show ?thesis using HashTransaction_binds [OF c sample_tx_wt w h] h by fastforce
qed

text \<open>The bytes of two small values.\<close>

lemma memo_bytes: "enc_Memo (xdr_no_memo\<lparr>xm_Type := 1, xm_Text := Some ''hi''\<rparr>) = Inr [0, 0, 0, 1, 0, 0, 0, 2, 104, 105, 0, 0]"
  by code_simp

lemma price_bytes: "enc_Price \<lparr>price_N = 5, price_D = 256\<rparr> = Inr [0, 0, 0, 5, 0, 0, 1, 0]"
  by code_simp

end
