(* ===== verification/Tx_Build.thy ===== *)
theory Tx_Build
  imports Tx_Hash
begin

text \<open>
  \<open>tx.go\<close>: the transaction builder. A \<open>Tx\<close> collects operations, a memo and time bounds;
  the first error of an \<open>Add\<close> function is kept and every later one is skipped, until
  \<open>Sign\<close> reports it. Each method is a function from the state before to the state
  after.
\<close>

section \<open>The builder's state\<close>

definition MinBaseFee :: uint64 where "MinBaseFee = 100"

record Tx =
  internal :: xdr_Transaction
  source :: AddressStr
  seqnoProv :: "string \<Rightarrow> int64 res"
  netPass :: string
  baseFee :: uint64
  err :: "go_error option"

definition NewBaseTx :: "string \<Rightarrow> AddressStr \<Rightarrow> (string \<Rightarrow> int64 res) \<Rightarrow> uint64 \<Rightarrow> Tx" where
  "NewBaseTx network src seqnoProvider fee =
     \<lparr>internal = empty_Transaction, source = src, seqnoProv = seqnoProvider, netPass = network,
      baseFee = (if fee < MinBaseFee then MinBaseFee else fee), err = None\<rparr>"

definition newBaseTxSeed :: "go_crypto \<Rightarrow> string \<Rightarrow> SeedStr \<Rightarrow> (string \<Rightarrow> int64 res) \<Rightarrow> uint64 \<Rightarrow> Tx res" where
  "newBaseTxSeed C network from seqnoProvider fee =
     and_then (SeedStr_Address C from) (\<lambda>fromAddress. Inr (NewBaseTx network fromAddress seqnoProvider fee))"

definition IsFull :: "Tx \<Rightarrow> bool" where
  "IsFull t = (100 \<le> length (tx_Operations (internal t)))"

text \<open>\<open>if t.err = e; e != nil { return }\<close>, then the rest of the method.\<close>

definition tx_try :: "'a res \<Rightarrow> Tx \<Rightarrow> ('a \<Rightarrow> Tx) \<Rightarrow> Tx" where
  "tx_try r t k = (case r of Inl e \<Rightarrow> t\<lparr>err := Some e\<rparr> | Inr x \<Rightarrow> k x)"

definition skipAddOp :: "Tx \<Rightarrow> bool \<times> Tx" where
  "skipAddOp t =
     (if err t \<noteq> None then (True, t)
      else if IsFull t then (True, t\<lparr>err := Some ErrTxOpFull\<rparr>)
      else (False, t))"

definition addOp :: "OperationType \<Rightarrow> op_value \<Rightarrow> Tx \<Rightarrow> Tx" where
  "addOp opType op t =
     tx_try (NewOperationBody opType op) t (\<lambda>body.
       let wop = \<lparr>op_SourceAccount = None, op_Body = body\<rparr>
       in t\<lparr>internal := (internal t)\<lparr>tx_Operations := tx_Operations (internal t) @ [wop]\<rparr>\<rparr>)"

definition haveMemo :: "Tx \<Rightarrow> bool" where
  "haveMemo t = (xm_Type (tx_Memo (internal t)) \<noteq> 0)"

definition skipAddMemo :: "Tx \<Rightarrow> bool \<times> Tx" where
  "skipAddMemo t =
     (if err t \<noteq> None then (True, t)
      else if haveMemo t then (True, t\<lparr>err := Some ErrMemoExists\<rparr>)
      else (False, t))"

section \<open>Operations\<close>

definition AddPaymentOp :: "AddressStr \<Rightarrow> string \<Rightarrow> Tx \<Rightarrow> Tx" where
  "AddPaymentOp to amt t0 =
     (case skipAddOp t0 of
        (True, t) \<Rightarrow> t
      | (False, t) \<Rightarrow>
          tx_try (amount_ParseInt64 amt) t (\<lambda>amount.
          tx_try (AddressStr_MuxedAccount to) t (\<lambda>destination.
            addOp OpPayment
              (VPaymentOp \<lparr>pay_Destination = destination, pay_Asset = xdr_native, pay_Amount = amount\<rparr>) t)))"

definition AddAssetPaymentOp :: "AddressStr \<Rightarrow> xdr_Asset \<Rightarrow> string \<Rightarrow> Tx \<Rightarrow> Tx" where
  "AddAssetPaymentOp to asset amt t0 =
     (case skipAddOp t0 of
        (True, t) \<Rightarrow> t
      | (False, t) \<Rightarrow>
          tx_try (amount_ParseInt64 amt) t (\<lambda>amount.
          tx_try (AddressStr_MuxedAccount to) t (\<lambda>destination.
            addOp OpPayment
              (VPaymentOp \<lparr>pay_Destination = destination, pay_Asset = asset, pay_Amount = amount\<rparr>) t)))"

definition AddPathPaymentOp ::
  "go_crypto \<Rightarrow> AddressStr \<Rightarrow> AssetBase \<Rightarrow> string \<Rightarrow> AssetBase \<Rightarrow> string \<Rightarrow> AssetBase list \<Rightarrow> Tx \<Rightarrow> Tx" where
  "AddPathPaymentOp C to sendAsset sendAmountMax destAsset destAmount path t0 =
     (case skipAddOp t0 of
        (True, t) \<Rightarrow> t
      | (False, t) \<Rightarrow>
          tx_try (assetBaseToXDR C sendAsset) t (\<lambda>sendXDR.
          tx_try (assetBaseToXDR C destAsset) t (\<lambda>destXDR.
          tx_try (amount_ParseInt64 sendAmountMax) t (\<lambda>sendMax.
          tx_try (AddressStr_MuxedAccount to) t (\<lambda>destination.
          tx_try (amount_ParseInt64 destAmount) t (\<lambda>amount.
          tx_try (map_res (assetBaseToXDR C) path) t (\<lambda>xdrPath.
            addOp OpPathPaymentStrictReceive
              (VPathPaymentStrictReceiveOp \<lparr>pr_SendAsset = sendXDR, pr_SendMax = sendMax, pr_Destination = destination,
                 pr_DestAsset = destXDR, pr_DestAmount = amount, pr_Path = xdrPath\<rparr>) t)))))))"

definition AddCreateAccountOp :: "AddressStr \<Rightarrow> string \<Rightarrow> Tx \<Rightarrow> Tx" where
  "AddCreateAccountOp to amt t0 =
     (case skipAddOp t0 of
        (True, t) \<Rightarrow> t
      | (False, t) \<Rightarrow>
          tx_try (amount_ParseInt64 amt) t (\<lambda>amount.
          tx_try (AddressStr_AccountID to) t (\<lambda>destination.
            addOp OpCreateAccount (VCreateAccountOp \<lparr>ca_Destination = destination, ca_StartingBalance = amount\<rparr>) t)))"

definition AddAccountMergeOp :: "AddressStr \<Rightarrow> Tx \<Rightarrow> Tx" where
  "AddAccountMergeOp to t0 =
     (case skipAddOp t0 of
        (True, t) \<Rightarrow> t
      | (False, t) \<Rightarrow> tx_try (AddressStr_AccountID to) t (\<lambda>accountID. addOp OpAccountMerge (VAccountId accountID) t))"

definition AddInflationDestinationOp :: "AddressStr \<Rightarrow> Tx \<Rightarrow> Tx" where
  "AddInflationDestinationOp to t0 =
     (case skipAddOp t0 of
        (True, t) \<Rightarrow> t
      | (False, t) \<Rightarrow>
          tx_try (AddressStr_AccountID to) t (\<lambda>accountID.
            addOp OpSetOptions (VSetOptionsOp (empty_SetOptionsOp\<lparr>so_InflationDest := Some accountID\<rparr>)) t))"

definition AddHomeDomainOp :: "string \<Rightarrow> Tx \<Rightarrow> Tx" where
  "AddHomeDomainOp domain t0 =
     (case skipAddOp t0 of
        (True, t) \<Rightarrow> t
      | (False, t) \<Rightarrow>
          if 32 < length domain then t\<lparr>err := Some (NewError ''domain must be less than 32 characters long'')\<rparr>
          else addOp OpSetOptions (VSetOptionsOp (empty_SetOptionsOp\<lparr>so_HomeDomain := Some domain\<rparr>)) t)"

definition AddOfferOp :: "xdr_Asset \<Rightarrow> xdr_Asset \<Rightarrow> string \<Rightarrow> string \<Rightarrow> Tx \<Rightarrow> Tx" where
  "AddOfferOp selling buying amountToSell priceIn t0 =
     (case skipAddOp t0 of
        (True, t) \<Rightarrow> t
      | (False, t) \<Rightarrow>
          tx_try (price_Parse priceIn) t (\<lambda>priceXDR.
          tx_try (amount_ParseInt64 amountToSell) t (\<lambda>amountXDR.
            addOp OpManageSellOffer
              (VManageSellOfferOp \<lparr>ms_Selling = selling, ms_Buying = buying, ms_Amount = amountXDR,
                 ms_Price = priceXDR, ms_OfferId = 0\<rparr>) t)))"

definition AddCreateTrustlineOp :: "string \<Rightarrow> AddressStr \<Rightarrow> string \<Rightarrow> Tx \<Rightarrow> Tx" where
  "AddCreateTrustlineOp assetCode assetIssuer limit t0 =
     (case skipAddOp t0 of
        (True, t) \<Rightarrow> t
      | (False, t) \<Rightarrow>
          tx_try (makeXDRChangeTrustAsset assetCode assetIssuer) t (\<lambda>asset.
          tx_try (amount_ParseInt64 limit) t (\<lambda>limitAmount.
            if sint limitAmount \<le> 0 then
              t\<lparr>err := Some (NewError ''limit must be greater than zero to create a trustline'')\<rparr>
            else addOp OpChangeTrust (VChangeTrustOp \<lparr>ct_Line = asset, ct_Limit = limitAmount\<rparr>) t)))"

definition AddDeleteTrustlineOp :: "string \<Rightarrow> AddressStr \<Rightarrow> Tx \<Rightarrow> Tx" where
  "AddDeleteTrustlineOp assetCode assetIssuer t0 =
     (case skipAddOp t0 of
        (True, t) \<Rightarrow> t
      | (False, t) \<Rightarrow>
          tx_try (makeXDRChangeTrustAsset assetCode assetIssuer) t (\<lambda>asset.
            addOp OpChangeTrust (VChangeTrustOp \<lparr>ct_Line = asset, ct_Limit = 0\<rparr>) t))"

section \<open>Memo and time bounds\<close>

definition set_memo :: "xdr_Memo \<Rightarrow> Tx \<Rightarrow> Tx" where
  "set_memo m t = t\<lparr>internal := (internal t)\<lparr>tx_Memo := m\<rparr>\<rparr>"

text \<open>A \<open>nil\<close> memo is ignored, after the checks.\<close>

definition AddMemo :: "Memo option \<Rightarrow> Tx \<Rightarrow> Tx" where
  "AddMemo memo t0 =
     (case skipAddMemo t0 of
        (True, t) \<Rightarrow> t
      | (False, t) \<Rightarrow> (case memo of None \<Rightarrow> t | Some m \<Rightarrow> tx_try (Memo_toXDR m) t (\<lambda>x. set_memo x t)))"

definition AddMemoText :: "string \<Rightarrow> Tx \<Rightarrow> Tx" where
  "AddMemoText memo t0 =
     (case skipAddMemo t0 of
        (True, t) \<Rightarrow> t
      | (False, t) \<Rightarrow> tx_try (NewMemo 1 (MemoString memo)) t (\<lambda>x. set_memo x t))"

definition AddMemoID :: "uint64 option \<Rightarrow> Tx \<Rightarrow> Tx" where
  "AddMemoID i t0 =
     (case i of
        None \<Rightarrow> t0
      | Some n \<Rightarrow>
         (case skipAddMemo t0 of
            (True, t) \<Rightarrow> t
          | (False, t) \<Rightarrow> tx_try (NewMemo 2 (MemoUint64 n)) t (\<lambda>x. set_memo x t)))"

text \<open>\<open>xdr.TimePoint(min)\<close> reads the bits of the signed argument as an unsigned number.\<close>

definition AddTimeBounds :: "int64 \<Rightarrow> int64 \<Rightarrow> Tx \<Rightarrow> Tx" where
  "AddTimeBounds mn mx t =
     (if err t \<noteq> None then t
      else if tx_TimeBounds (internal t) \<noteq> None then t\<lparr>err := Some ErrTimeBoundsExist\<rparr>
      else t\<lparr>internal := (internal t)\<lparr>tx_TimeBounds := Some \<lparr>MinTime = mn, MaxTime = mx\<rparr>\<rparr>\<rparr>)"

definition AddBuiltTimeBounds :: "(int64 \<times> int64) option \<Rightarrow> Tx \<Rightarrow> Tx" where
  "AddBuiltTimeBounds bt t = (case bt of None \<Rightarrow> t | Some (mn, mx) \<Rightarrow> AddTimeBounds mn mx t)"

section \<open>Signing\<close>

record SignResult =
  sr_Seqno :: uint64
  sr_Signed :: string
  sr_TxHash :: string

definition sign_one :: "go_crypto \<Rightarrow> byte list \<Rightarrow> SeedStr \<Rightarrow> DecoratedSignature res" where
  "sign_one C hash signer =
     and_then (keypair_Parse C (SecureNoLogString signer)) (\<lambda>kp. kp_SignDecorated C kp hash)"

definition sign_finish ::
  "go_crypto \<Rightarrow> string \<Rightarrow> xdr_Transaction \<Rightarrow> SeedStr list \<Rightarrow> SignResult res" where
  "sign_finish C pass tx signers =
     and_then (HashTransaction C tx pass) (\<lambda>hash.
     and_then (map_res (sign_one C hash) signers) (\<lambda>sigs.
     and_then (MarshalEnvelope (EnvelopeTx \<lparr>v1_Tx = tx, v1_Signatures = sigs\<rparr>)) (\<lambda>buf.
       Inr \<lparr>sr_Seqno = tx_SeqNum tx, sr_Signed = base64_EncodeToString buf, sr_TxHash = hex_EncodeToString hash\<rparr>)))"

text \<open>
  The transaction is updated in place before the hash is taken: the sequence number, the
  fee (cut to 32 bits) and the source account. The state after is the second component.
\<close>

definition tx_sign :: "go_crypto \<Rightarrow> SeedStr list \<Rightarrow> Tx \<Rightarrow> SignResult res \<times> Tx" where
  "tx_sign C signers t =
     (case seqnoProv t (source t) of
        Inl e \<Rightarrow> (Inl e, t)
      | Inr seqno \<Rightarrow>
          let tx1 = (internal t)\<lparr>tx_SeqNum := seqno + 1,
                      tx_Fee := ucast (baseFee t * word_of_nat (length (tx_Operations (internal t))))\<rparr>
          in case AddressStr_MuxedAccount (source t) of
               Inl e \<Rightarrow> (Inl e, t\<lparr>internal := tx1\<lparr>tx_SourceAccount := None\<rparr>\<rparr>)
             | Inr account \<Rightarrow>
                 let tx2 = tx1\<lparr>tx_SourceAccount := Some account\<rparr>
                 in (sign_finish C (netPass t) tx2 signers, t\<lparr>internal := tx2\<rparr>))"

definition Sign :: "go_crypto \<Rightarrow> SeedStr \<Rightarrow> Tx \<Rightarrow> SignResult res \<times> Tx" where
  "Sign C from t =
     (case err t of
        Some e \<Rightarrow> (Inl (errMap e), t)
      | None \<Rightarrow>
          if length (tx_Operations (internal t)) = 0 then (Inl (errMap ErrNoOps), t)
          else tx_sign C [from] t)"

section \<open>The builder as a state machine\<close>

datatype tx_action =
    Payment AddressStr string
  | AssetPayment AddressStr xdr_Asset string
  | PathPayment AddressStr AssetBase string AssetBase string "AssetBase list"
  | CreateAccount AddressStr string
  | AccountMerge AddressStr
  | InflationDestination AddressStr
  | HomeDomain string
  | Offer xdr_Asset xdr_Asset string string
  | CreateTrustlineAction string AddressStr string
  | DeleteTrustlineAction string AddressStr
  | SetMemo "Memo option"
  | SetMemoText string
  | SetMemoID "uint64 option"
  | SetTimeBounds int64 int64

fun run_action :: "go_crypto \<Rightarrow> tx_action \<Rightarrow> Tx \<Rightarrow> Tx" where
  "run_action C (Payment to amt) t = AddPaymentOp to amt t"
| "run_action C (AssetPayment to asset amt) t = AddAssetPaymentOp to asset amt t"
| "run_action C (PathPayment to sa sm da am p) t = AddPathPaymentOp C to sa sm da am p t"
| "run_action C (CreateAccount to amt) t = AddCreateAccountOp to amt t"
| "run_action C (AccountMerge to) t = AddAccountMergeOp to t"
| "run_action C (InflationDestination to) t = AddInflationDestinationOp to t"
| "run_action C (HomeDomain d) t = AddHomeDomainOp d t"
| "run_action C (Offer s b amt p) t = AddOfferOp s b amt p t"
| "run_action C (CreateTrustlineAction c i l) t = AddCreateTrustlineOp c i l t"
| "run_action C (DeleteTrustlineAction c i) t = AddDeleteTrustlineOp c i t"
| "run_action C (SetMemo m) t = AddMemo m t"
| "run_action C (SetMemoText m) t = AddMemoText m t"
| "run_action C (SetMemoID m) t = AddMemoID m t"
| "run_action C (SetTimeBounds mn mx) t = AddTimeBounds mn mx t"

definition run_actions :: "go_crypto \<Rightarrow> tx_action list \<Rightarrow> Tx \<Rightarrow> Tx" where
  "run_actions C as t = foldl (\<lambda>t a. run_action C a t) t as"

text \<open>The states a client can bring the builder to.\<close>

inductive reachable_tx :: "go_crypto \<Rightarrow> Tx \<Rightarrow> bool" for C where
  new: "reachable_tx C (NewBaseTx network src prov fee)"
| act: "reachable_tx C t \<Longrightarrow> reachable_tx C (run_action C a t)"

inductive_cases reachable_txE: "reachable_tx C t"

text \<open>
  What one action can do to a builder without an error: keep the operations and record an
  error, or add one well-formed operation, or set the memo or the time bounds that were
  unset.
\<close>

fun arm_matches :: "OperationBody \<Rightarrow> bool" where
  "arm_matches b = (case body_Arm b of None \<Rightarrow> False | Some v \<Rightarrow> NewOperationBody (body_Type b) v = Inr b)"

inductive tx_change :: "Tx \<Rightarrow> Tx \<Rightarrow> bool" where
  nothing: "tx_change t t"
| failed: "tx_change t (t\<lparr>err := Some e\<rparr>)"
| added: "\<not> IsFull t \<Longrightarrow> arm_matches (op_Body w) \<Longrightarrow> op_SourceAccount w = None \<Longrightarrow> body_Type (op_Body w) \<noteq> OpAccountMerge \<Longrightarrow>
    tx_change t (t\<lparr>internal := (internal t)\<lparr>tx_Operations := tx_Operations (internal t) @ [w]\<rparr>\<rparr>)"
| memo: "\<not> haveMemo t \<Longrightarrow> tx_change t (set_memo m t)"
| bounds: "tx_TimeBounds (internal t) = None \<Longrightarrow>
    tx_change t (t\<lparr>internal := (internal t)\<lparr>tx_TimeBounds := Some b\<rparr>\<rparr>)"

lemma tx_try_simps [simp, res_simps]:
  "tx_try (Inl e) t k = t\<lparr>err := Some e\<rparr>" "tx_try (Inr x) t k = k x"
  by (simp_all add: tx_try_def)

lemma tx_try_change: "(\<And>x. r = Inr x \<Longrightarrow> tx_change t (k x)) \<Longrightarrow> tx_change t (tx_try r t k)"
  by (cases r) (auto intro: tx_change.failed)

lemma skipAddOp_no_error:
  "err t = None \<Longrightarrow> skipAddOp t = (if IsFull t then (True, t\<lparr>err := Some ErrTxOpFull\<rparr>) else (False, t))"
  by (simp add: skipAddOp_def)

lemma skipAddMemo_no_error:
  "err t = None \<Longrightarrow> skipAddMemo t = (if haveMemo t then (True, t\<lparr>err := Some ErrMemoExists\<rparr>) else (False, t))"
  by (simp add: skipAddMemo_def)

lemma NewOperationBody_arm:
  "NewOperationBody ty v = Inr b \<Longrightarrow> body_Type b = ty \<and> (body_Arm b = Some v \<or> body_Arm b = None \<and> ty \<in> {OpInflation, OpEndSponsoringFutureReserves})"
  by (cases ty) (auto split: op_value.splits)

lemma addOp_change:
  assumes "\<not> IsFull t" "ty \<noteq> OpAccountMerge" "ty \<noteq> OpInflation" "ty \<noteq> OpEndSponsoringFutureReserves"
  shows "tx_change t (addOp ty v t)"
  unfolding addOp_def Let_def
proof (rule tx_try_change)
  fix body assume b: "NewOperationBody ty v = Inr body"
  with NewOperationBody_arm [OF b] assms
  show "tx_change t (t\<lparr>internal := internal t\<lparr>tx_Operations := tx_Operations (internal t) @ [\<lparr>op_SourceAccount = None, op_Body = body\<rparr>]\<rparr>\<rparr>)"
    by (intro tx_change.added) auto
qed

lemma run_action_error [simp]: "err t = Some e \<Longrightarrow> run_action C a t = t"
  by (cases a)
    (simp_all add: AddPaymentOp_def AddAssetPaymentOp_def AddPathPaymentOp_def AddCreateAccountOp_def AddAccountMergeOp_def
      AddInflationDestinationOp_def AddHomeDomainOp_def AddOfferOp_def AddCreateTrustlineOp_def AddDeleteTrustlineOp_def
      AddMemo_def AddMemoText_def AddMemoID_def AddTimeBounds_def skipAddOp_def skipAddMemo_def split: option.split)

lemma AddAccountMergeOp_fails: "\<exists>e. err (AddAccountMergeOp to t) = Some e"
  by (cases "err t"; cases "AddressStr_AccountID to")
    (auto simp: AddAccountMergeOp_def skipAddOp_def addOp_def)

lemma AddAccountMergeOp_internal [simp]: "internal (AddAccountMergeOp to t) = internal t"
  by (cases "AddressStr_AccountID to") (auto simp: AddAccountMergeOp_def skipAddOp_def addOp_def)

lemma addOp_merge [simp]: "addOp OpAccountMerge (VAccountId x) t = t\<lparr>err := Some (must_be ''MuxedAccount'')\<rparr>"
  by (simp add: addOp_def)

lemma run_action_change: "err t = None \<Longrightarrow> tx_change t (run_action C a t)"
  by (cases a)
    (auto simp: AddPaymentOp_def AddAssetPaymentOp_def AddPathPaymentOp_def AddCreateAccountOp_def AddAccountMergeOp_def
      AddInflationDestinationOp_def AddHomeDomainOp_def AddOfferOp_def AddCreateTrustlineOp_def AddDeleteTrustlineOp_def
      AddMemo_def AddMemoText_def AddMemoID_def AddTimeBounds_def skipAddOp_no_error skipAddMemo_no_error
      intro!: tx_try_change intro: tx_change.intros addOp_change split: option.split)

text \<open>A machine that stops at its first error and keeps it.\<close>

locale sticky_machine =
  fixes step :: "'a \<Rightarrow> 's \<Rightarrow> 's" and failed :: "'s \<Rightarrow> 'e option"
  assumes sticky: "failed s = Some e \<Longrightarrow> step a s = s"
begin

definition run :: "'a list \<Rightarrow> 's \<Rightarrow> 's" where "run as s = foldl (\<lambda>s a. step a s) s as"

lemma run_simps: "run [] s = s" "run (a # as) s = run as (step a s)" "run (as @ bs) s = run bs (run as s)"
  by (simp_all add: run_def)

lemma run_failed: "failed s = Some e \<Longrightarrow> run as s = s"
  by (induction as arbitrary: s) (simp_all add: run_simps sticky)

lemma first_failure:
  assumes "failed s = None" "failed (run as s) = Some e"
  shows "\<exists>as1 a as2. as = as1 @ a # as2 \<and> failed (run as1 s) = None \<and>
    failed (step a (run as1 s)) = Some e \<and> run as s = step a (run as1 s)"
  using assms
proof (induction as arbitrary: s)
  case (Cons a as)
  show ?case
  proof (cases "failed (step a s)")
    case None
    with Cons.IH [of "step a s"] Cons.prems obtain as1 b as2 where
      "as = as1 @ b # as2" "failed (run as1 (step a s)) = None"
      "failed (step b (run as1 (step a s))) = Some e" "run as (step a s) = step b (run as1 (step a s))"
      by (auto simp: run_simps)
    then show ?thesis by (intro exI [of _ "a # as1"] exI [of _ b] exI [of _ as2]) (simp add: run_simps)
  next
    case (Some e')
    with Cons.prems run_failed [OF Some, of as] show ?thesis
      by (intro exI [of _ "[]"] exI [of _ a] exI [of _ as]) (simp add: run_simps)
  qed
qed (simp add: run_simps)

end

interpretation builder: sticky_machine "run_action C" err for C
  by unfold_locales simp

lemma run_actions_builder: "run_actions C as t = builder.run C as t"
  by (simp add: run_actions_def builder.run_def)

text \<open>The invariant of a builder that has not been signed.\<close>

definition tx_inv :: "Tx \<Rightarrow> bool" where
  "tx_inv t \<longleftrightarrow>
     length (tx_Operations (internal t)) \<le> 100 \<and>
     (\<forall>w \<in> set (tx_Operations (internal t)).
        arm_matches (op_Body w) \<and> op_SourceAccount w = None \<and> body_Type (op_Body w) \<noteq> OpAccountMerge) \<and>
     tx_SourceAccount (internal t) = None \<and> MinBaseFee \<le> baseFee t"

lemma tx_inv_change: "tx_change t t' \<Longrightarrow> tx_inv t \<Longrightarrow> tx_inv t'"
  by (induction rule: tx_change.induct) (auto simp: tx_inv_def IsFull_def set_memo_def)

lemma tx_inv_action: "tx_inv t \<Longrightarrow> tx_inv (run_action C a t)"
  using run_action_change [of t C a] by (cases "err t") (auto intro: tx_inv_change)

lemma tx_inv_new [simp]: "tx_inv (NewBaseTx network src prov fee)"
  by (simp add: tx_inv_def NewBaseTx_def empty_Transaction_def not_less)

lemma reachable_tx_inv: "reachable_tx C t \<Longrightarrow> tx_inv t"
  by (induction rule: reachable_tx.induct) (auto intro: tx_inv_action)

lemma tx_change_ops:
  "tx_change t t' \<Longrightarrow> \<exists>ws. tx_Operations (internal t') = tx_Operations (internal t) @ ws \<and> length ws \<le> 1"
  by (induction rule: tx_change.induct) (auto simp: set_memo_def)

lemma run_action_ops:
  "\<exists>ws. tx_Operations (internal (run_action C a t)) = tx_Operations (internal t) @ ws \<and> length ws \<le> 1"
  using run_action_change [of t C a] tx_change_ops [of t "run_action C a t"] by (cases "err t") auto

lemma tx_change_fixed:
  "tx_change t t' \<Longrightarrow> source t' = source t \<and> baseFee t' = baseFee t \<and> netPass t' = netPass t \<and> seqnoProv t' = seqnoProv t"
  by (induction rule: tx_change.induct) (auto simp: set_memo_def)

lemma run_action_fixed [simp]:
  "source (run_action C a t) = source t" "baseFee (run_action C a t) = baseFee t"
  "netPass (run_action C a t) = netPass t" "seqnoProv (run_action C a t) = seqnoProv t"
  using run_action_change [of t C a] tx_change_fixed [of t "run_action C a t"] by (cases "err t"; auto)+

lemma run_actions_fixed [simp]:
  "source (run_actions C as t) = source t" "baseFee (run_actions C as t) = baseFee t"
  "netPass (run_actions C as t) = netPass t" "seqnoProv (run_actions C as t) = seqnoProv t"
  by (induction as arbitrary: t) (simp_all add: run_actions_def)

lemma tx_inv_actions: "tx_inv t \<Longrightarrow> tx_inv (run_actions C as t)"
  by (induction as arbitrary: t) (simp_all add: run_actions_def tx_inv_action)

text \<open>What a call may do to a builder, and what it reports when it may not.\<close>

fun is_op_action :: "tx_action \<Rightarrow> bool" where
  "is_op_action (SetMemo _) = False"
| "is_op_action (SetMemoText _) = False"
| "is_op_action (SetMemoID _) = False"
| "is_op_action (SetTimeBounds _ _) = False"
| "is_op_action _ = True"

fun sets_memo :: "tx_action \<Rightarrow> bool" where
  "sets_memo (SetMemo _) = True"
| "sets_memo (SetMemoText _) = True"
| "sets_memo (SetMemoID i) = (i \<noteq> None)"
| "sets_memo _ = False"

fun sets_bounds :: "tx_action \<Rightarrow> bool" where
  "sets_bounds (SetTimeBounds _ _) = True"
| "sets_bounds _ = False"

definition disciplined :: "go_crypto \<Rightarrow> tx_action \<Rightarrow> Tx \<Rightarrow> bool" where
  "disciplined C a t \<longleftrightarrow>
     (let t' = run_action C a t in
      (err t \<noteq> None \<longrightarrow> t' = t) \<and>
      (err t' \<noteq> None \<longrightarrow> internal t' = internal t) \<and>
      (haveMemo t \<longrightarrow> tx_Memo (internal t') = tx_Memo (internal t)) \<and>
      (tx_TimeBounds (internal t) \<noteq> None \<longrightarrow> tx_TimeBounds (internal t') = tx_TimeBounds (internal t)) \<and>
      (err t = None \<and> haveMemo t \<and> sets_memo a \<longrightarrow> err t' = Some ErrMemoExists) \<and>
      (err t = None \<and> tx_TimeBounds (internal t) \<noteq> None \<and> sets_bounds a \<longrightarrow> err t' = Some ErrTimeBoundsExist) \<and>
      (err t = None \<and> IsFull t \<and> is_op_action a \<longrightarrow> err t' = Some ErrTxOpFull) \<and>
      (\<exists>ws. tx_Operations (internal t') = tx_Operations (internal t) @ ws \<and> length ws \<le> 1))"

lemma tx_change_kept:
  "tx_change t t' \<Longrightarrow> (err t = None \<longrightarrow> err t' \<noteq> None \<longrightarrow> internal t' = internal t) \<and>
    (haveMemo t \<longrightarrow> tx_Memo (internal t') = tx_Memo (internal t)) \<and>
    (tx_TimeBounds (internal t) \<noteq> None \<longrightarrow> tx_TimeBounds (internal t') = tx_TimeBounds (internal t))"
  by (induction rule: tx_change.induct) (auto simp: set_memo_def)

lemma run_action_refused:
  assumes "err t = None"
  shows "haveMemo t \<Longrightarrow> sets_memo a \<Longrightarrow> err (run_action C a t) = Some ErrMemoExists"
    and "tx_TimeBounds (internal t) \<noteq> None \<Longrightarrow> sets_bounds a \<Longrightarrow> err (run_action C a t) = Some ErrTimeBoundsExist"
    and "IsFull t \<Longrightarrow> is_op_action a \<Longrightarrow> err (run_action C a t) = Some ErrTxOpFull"
  using assms
  by (cases a; auto simp: AddPaymentOp_def AddAssetPaymentOp_def AddPathPaymentOp_def AddCreateAccountOp_def AddAccountMergeOp_def
      AddInflationDestinationOp_def AddHomeDomainOp_def AddOfferOp_def AddCreateTrustlineOp_def AddDeleteTrustlineOp_def
      AddMemo_def AddMemoText_def AddMemoID_def AddTimeBounds_def skipAddOp_no_error skipAddMemo_no_error)+

lemma addOp_memo [simp]: "tx_Memo (internal (addOp ty v t)) = tx_Memo (internal t)"
  by (cases "NewOperationBody ty v") (simp_all add: addOp_def)

lemma run_action_memo:
  assumes "\<not> sets_memo a"
  shows "tx_Memo (internal (run_action C a t)) = tx_Memo (internal t)"
proof (cases "err t")
  case None
  then show ?thesis
    using assms
    by (cases a; simp add: AddPaymentOp_def AddAssetPaymentOp_def AddPathPaymentOp_def AddCreateAccountOp_def
        AddInflationDestinationOp_def AddHomeDomainOp_def AddOfferOp_def AddCreateTrustlineOp_def AddDeleteTrustlineOp_def
        AddMemoID_def AddTimeBounds_def skipAddOp_no_error tx_try_def split: sum.split)
qed simp

lemma run_action_disciplined: "disciplined C a t"
proof (cases "err t")
  case None
  then show ?thesis
    using tx_change_kept [OF run_action_change [OF None, of C a]] run_action_refused [OF None, of a C] run_action_ops [of C a t]
    by (simp add: disciplined_def Let_def)
qed (simp add: disciplined_def)

section \<open>Counting operations\<close>

definition op_count :: "Tx \<Rightarrow> nat" where "op_count t = length (tx_Operations (internal t))"

lemma tx_try_ok: "err t = None \<Longrightarrow> err (tx_try r t k) = None \<Longrightarrow> \<exists>x. r = Inr x \<and> tx_try r t k = k x"
  by (cases r) auto

lemma addOp_count: "err t = None \<Longrightarrow> err (addOp ty v t) = None \<Longrightarrow> op_count (addOp ty v t) = Suc (op_count t)"
  by (cases "NewOperationBody ty v") (auto simp: addOp_def op_count_def)

lemma set_memo_count [simp]: "op_count (set_memo m t) = op_count t"
  by (simp add: op_count_def set_memo_def)

lemma run_action_count:
  assumes "err t = None" "err (run_action C a t) = None"
  shows "op_count (run_action C a t) = (if is_op_action a then Suc (op_count t) else op_count t)"
  using assms
  by (cases a)
    (auto simp: AddPaymentOp_def AddAssetPaymentOp_def AddPathPaymentOp_def AddCreateAccountOp_def AddAccountMergeOp_def
      AddInflationDestinationOp_def AddHomeDomainOp_def AddOfferOp_def AddCreateTrustlineOp_def AddDeleteTrustlineOp_def
      AddMemo_def AddMemoText_def AddMemoID_def AddTimeBounds_def skipAddOp_no_error skipAddMemo_no_error tx_try_def op_count_def
      addOp_count [unfolded op_count_def] set_memo_def
      split: if_splits option.splits sum.splits)

lemma run_actions_count:
  "err t = None \<Longrightarrow> err (run_actions C as t) = None \<Longrightarrow>
    op_count (run_actions C as t) = op_count t + length (filter is_op_action as)"
proof (induction as arbitrary: t)
  case (Cons a as)
  have "err (run_action C a t) = None"
    using Cons.prems builder.run_failed [of "run_action C a t" _ C as]
    by (cases "err (run_action C a t)") (auto simp: run_actions_builder builder.run_simps)
  with Cons run_action_count [of t C a] show ?case
    by (auto simp: run_actions_builder builder.run_simps)
qed (simp add: run_actions_def)

section \<open>What a signature contains\<close>

text \<open>The transaction \<open>Sign\<close> hashes, from the builder, the sequence number and the account.\<close>

definition signed_tx :: "Tx \<Rightarrow> int64 \<Rightarrow> MuxedAccount \<Rightarrow> xdr_Transaction" where
  "signed_tx t seqno account =
     (internal t)\<lparr>tx_SeqNum := seqno + 1, tx_Fee := ucast (baseFee t * word_of_nat (op_count t)),
       tx_SourceAccount := Some account\<rparr>"

lemma Sign_eq_Inr:
  "fst (Sign C from t) = Inr r \<longleftrightarrow>
     (\<exists>seqno account hash sig buf.
        err t = None \<and> op_count t \<noteq> 0 \<and> seqnoProv t (source t) = Inr seqno \<and>
        AddressStr_MuxedAccount (source t) = Inr account \<and>
        HashTransaction C (signed_tx t seqno account) (netPass t) = Inr hash \<and>
        sign_one C hash from = Inr sig \<and>
        MarshalEnvelope (EnvelopeTx \<lparr>v1_Tx = signed_tx t seqno account, v1_Signatures = [sig]\<rparr>) = Inr buf \<and>
        r = \<lparr>sr_Seqno = seqno + 1, sr_Signed = base64_EncodeToString buf, sr_TxHash = hex_EncodeToString hash\<rparr>)"
proof (cases "err t")
  case None
  then show ?thesis
    by (cases "seqnoProv t (source t)"; cases "AddressStr_MuxedAccount (source t)")
      (auto simp: Sign_def tx_sign_def sign_finish_def signed_tx_def op_count_def and_then_eq_Inr Let_def)
qed (simp add: Sign_def)

lemma Sign_error [simp]: "err t = Some e \<Longrightarrow> Sign C from t = (Inl (errMap e), t)"
  by (simp add: Sign_def)

section \<open>Signing succeeds\<close>

text \<open>What the parsers return is within the limits of the schema, and so is a signature.\<close>

lemma AccountID_wt: "AddressStr_AccountID s = Inr a \<Longrightarrow> wt_AccountId a"
  by (auto simp: AddressStr_AccountID_def AccountId_SetAddress_def and_then_eq_Inr wt_AccountId_def wt_array_def split: if_splits)

lemma MuxedAccount_wt: "AddressStr_MuxedAccount s = Inr a \<Longrightarrow> wt_MuxedAccount a"
  by (auto simp: AddressStr_MuxedAccount_def MuxedAccount_SetAddress_def and_then_eq_Inr wt_MuxedAccount_def wt_array_def
      split: if_splits)

lemma sign_one_wt:
  assumes "crypto_ok C" "sign_one C hash from = Inr sig"
  shows "wt_DecoratedSignature sig"
proof -
  from assms(2) obtain kp where "keypair_Parse C from = Inr kp" "kp_SignDecorated C kp hash = Inr sig"
    by (auto simp: sign_one_def SecureNoLogString_def and_then_eq_Inr)
  with assms(1) show ?thesis
    by (auto simp: kp_SignDecorated_eq_Inr crypto_ok_def wt_DecoratedSignature_def wt_array_def wt_upto_def)
qed

lemma sign_one_ok:
  assumes "crypto_ok C" "NewSeedStr C from = Inr s"
  shows "\<exists>sig. sign_one C hash from = Inr sig"
proof -
  from assms(2) obtain kp raw where kp: "keypair_Parse C from = Inr kp" "strkey_Decode VersionByteSeed from = Inr raw"
      "32 \<le> length raw" "kp = Full (address_of (ed_public C (take 32 raw))) from (ed_public C (take 32 raw))
               (take 32 raw @ ed_public C (take 32 raw))"
    by (auto simp: NewSeedStr_def and_then_eq_Inr keypair_Parse_eq_Inr)
  then have "\<exists>sig. kp_SignDecorated C kp hash = Inr sig" unfolding kp_SignDecorated_eq_Inr [OF assms(1) kp(1)] by blast
  with kp(1) show ?thesis by (simp add: sign_one_def SecureNoLogString_def)
qed

text \<open>A builder whose memo and operations are within the limits.\<close>

definition wt_builder :: "Tx \<Rightarrow> bool" where
  "wt_builder t \<longleftrightarrow> wt_Memo (tx_Memo (internal t)) \<and> wt_Operations (tx_Operations (internal t))"

lemma signed_tx_wt: "wt_builder t \<Longrightarrow> wt_MuxedAccount account \<Longrightarrow> wt_Transaction (signed_tx t seqno account)"
  by (simp add: wt_builder_def signed_tx_def wt_Transaction_def)

lemma Sign_written:
  assumes "crypto_ok C" "is_ok (enc_Memo (tx_Memo (internal t)))" "wt_Operations (tx_Operations (internal t))"
    and "err t = None" "op_count t \<noteq> 0" "TrimSpace (netPass t) \<noteq> []"
    and "NewSeedStr C from = Inr s" "seqnoProv t (source t) = Inr seqno" "AddressStr_MuxedAccount (source t) = Inr account"
  shows "\<exists>r. fst (Sign C from t) = Inr r \<and> sr_Seqno r = seqno + 1"
proof -
  have w: "is_ok (enc_Transaction (signed_tx t seqno account))"
    by (rule Transaction_written [OF _ MuxedAccount_wt [OF assms(9)]]) (use assms(2,3) in \<open>simp_all add: signed_tx_def\<close>)
  obtain hash where h: "HashTransaction C (signed_tx t seqno account) (netPass t) = Inr hash"
    using HashTransaction_written [OF assms(1) w assms(6)] by blast
  obtain sig where s: "sign_one C hash from = Inr sig" using sign_one_ok [OF assms(1,7)] by blast
  obtain buf where "MarshalEnvelope (EnvelopeTx \<lparr>v1_Tx = signed_tx t seqno account, v1_Signatures = [sig]\<rparr>) = Inr buf"
    using MarshalEnvelope_written [of "\<lparr>v1_Tx = signed_tx t seqno account, v1_Signatures = [sig]\<rparr>"] w sign_one_wt [OF assms(1) s]
    by (auto simp: wt_Signatures_def)
  with h s assms show ?thesis by (fastforce simp: Sign_eq_Inr)
qed

lemma Sign_ok:
  assumes "crypto_ok C" "wt_builder t" "err t = None" "op_count t \<noteq> 0" "TrimSpace (netPass t) \<noteq> []"
    and "NewSeedStr C from = Inr s" "seqnoProv t (source t) = Inr seqno" "AddressStr_MuxedAccount (source t) = Inr account"
  shows "\<exists>r. fst (Sign C from t) = Inr r \<and> sr_Seqno r = seqno + 1"
  using Sign_written [OF assms(1) Memo_written _ assms(3-8)] assms(2) by (simp add: wt_builder_def)

section \<open>A transaction that signs\<close>

text \<open>
  A concrete builder on which the hypotheses above hold: one home-domain operation, signed
  with the seed of 32 zero bytes under the plain primitives.
\<close>

definition demo_seed :: SeedStr where
  "demo_seed = ''SAAAAAAAAAAAAAAAAAAAAAAAAAAAAAAAAAAAAAAAAAAAAAAAAAAABSU2''"

definition demo_pub :: "byte list" where "demo_pub = replicate 32 (NOT 0)"

definition demo_tx :: Tx where
  "demo_tx = run_actions plain_crypto [HomeDomain ''keybase.io'', SetMemoID (Some 9)]
     (NewBaseTx ''net'' (address_of demo_pub) (\<lambda>_. Inr 7) 100)"

definition demo_signed_tx :: xdr_Transaction where
  "demo_signed_tx = signed_tx demo_tx 7 (KeyTypeEd25519 demo_pub)"

definition demo_kp :: KP where
  "demo_kp = Full (address_of demo_pub) demo_seed demo_pub (replicate 32 0 @ demo_pub)"

lemma demo_Parse: "keypair_Parse plain_crypto demo_seed = Inr demo_kp"
  by (auto simp: keypair_Parse_eq_Inr demo_kp_def demo_seed_def zero_seed plain_crypto_def demo_pub_def)

lemma demo_Address: "SeedStr_Address plain_crypto demo_seed = Inr (address_of demo_pub)"
  by (simp add: SeedStr_Address_def SecureNoLogString_def demo_Parse demo_kp_def)

definition demo_sig :: DecoratedSignature where
  "demo_sig = \<lparr>Hint = replicate 4 (NOT 0), Signature = replicate 64 0\<rparr>"

lemma demo_sign_one: "sign_one plain_crypto h demo_seed = Inr demo_sig"
  by (simp add: sign_one_def SecureNoLogString_def demo_Parse)
    (simp add: demo_kp_def kp_SignDecorated_def kp_Sign_def kp_Hint_def demo_sig_def demo_pub_def plain_crypto_def
      replicate_add [symmetric])

lemma demo_fields:
  "err demo_tx = None" "op_count demo_tx = 1" "source demo_tx = address_of demo_pub"
  "seqnoProv demo_tx = (\<lambda>_. Inr 7)" "netPass demo_tx = ''net''" "baseFee demo_tx = 100" "tx_inv demo_tx"
proof -
  show "err demo_tx = None" "op_count demo_tx = 1"
    by (simp_all add: demo_tx_def run_actions_def AddHomeDomainOp_def skipAddOp_def AddMemoID_def skipAddMemo_def haveMemo_def
        NewBaseTx_def IsFull_def empty_Transaction_def addOp_def NewMemo_def op_count_def set_memo_def xdr_no_memo_def)
  show "source demo_tx = address_of demo_pub" "seqnoProv demo_tx = (\<lambda>_. Inr 7)" "netPass demo_tx = ''net''"
    "baseFee demo_tx = 100"
    by (simp_all add: demo_tx_def NewBaseTx_def MinBaseFee_def)
  show "tx_inv demo_tx" by (simp add: demo_tx_def tx_inv_actions)
qed

lemma demo_account: "AddressStr_MuxedAccount (address_of demo_pub) = Inr (KeyTypeEd25519 demo_pub)"
  by (simp add: AddressStr_MuxedAccount_def MuxedAccount_SetAddress_56 length_address_of demo_pub_def)

lemma TrimSpace_net: "TrimSpace ''net'' = ''net''"
  by (rule TrimSpace_tight) (simp add: tight_def less_eq_char_def)

lemma demo_wt: "wt_builder demo_tx"
  by (simp add: demo_tx_def run_actions_def AddHomeDomainOp_def skipAddOp_def AddMemoID_def skipAddMemo_def haveMemo_def
      NewBaseTx_def IsFull_def empty_Transaction_def addOp_def NewMemo_def set_memo_def wt_builder_def wt_defs
      empty_SetOptionsOp_def) (simp add: xdr_no_memo_def)

lemma demo_Sign: "\<exists>r. fst (Sign plain_crypto demo_seed demo_tx) = Inr r \<and> sr_Seqno r = 8"
  using Sign_ok [OF plain_crypto_ok demo_wt demo_fields(1), of demo_seed demo_seed 7] demo_account demo_fields
  by (simp add: TrimSpace_net NewSeedStr_def demo_Parse demo_kp_def)

section \<open>Properties\<close>

text \<open>
  C15. Whatever methods are called on it, a builder never holds more than 100 operations;
  each has the arm of its type and no source account of its own, none is an account merge,
  and the base fee is at least the network's minimum. Its discipline, for every next call: after
  an error nothing changes; a call that fails leaves the transaction as it was; a memo and
  time bounds that are set stay as they are, and setting them again is \<open>ErrMemoExists\<close> or
  \<open>ErrTimeBoundsExist\<close>; an operation beyond the hundredth is \<open>ErrTxOpFull\<close>; no call removes or
  changes an operation or adds two.
\<close>

theorem builder_invariant:
  assumes "reachable_tx C t"
  shows "length (tx_Operations (internal t)) \<le> 100 \<and> MinBaseFee \<le> baseFee t \<and>
    (\<forall>w \<in> set (tx_Operations (internal t)).
       arm_matches (op_Body w) \<and> op_SourceAccount w = None \<and> body_Type (op_Body w) \<noteq> OpAccountMerge) \<and>
    (\<forall>a. disciplined C a t)"
  using reachable_tx_inv [OF assms] run_action_disciplined by (simp add: tx_inv_def)

theorem builder_invariant_witness:
  "let t = run_action plain_crypto (SetMemoText ''a'') (NewBaseTx ''net'' [] (\<lambda>_. Inr 7) 3);
       t' = run_action plain_crypto (SetMemoText ''b'') t
   in MinBaseFee \<le> baseFee t \<and> tx_Memo (internal t') = xdr_no_memo\<lparr>xm_Type := 1, xm_Text := Some ''a''\<rparr> \<and>
     err t' = Some ErrMemoExists"
proof -
  let ?t = "run_action plain_crypto (SetMemoText ''a'') (NewBaseTx ''net'' [] (\<lambda>_. Inr 7) 3)"
  have t: "tx_Memo (internal ?t) = xdr_no_memo\<lparr>xm_Type := 1, xm_Text := Some ''a''\<rparr>" "err ?t = None"
    by (simp_all add: NewBaseTx_def AddMemoText_def skipAddMemo_def haveMemo_def NewMemo_def set_memo_def empty_Transaction_def xdr_no_memo_def)
  then have "haveMemo ?t" by (simp add: haveMemo_def)
  note inv = builder_invariant [OF reachable_tx.act [OF reachable_tx.new], of plain_crypto "SetMemoText ''a''" "''net''" "[]" "\<lambda>_. Inr 7" 3]
  then have "disciplined plain_crypto (SetMemoText ''b'') ?t" "MinBaseFee \<le> baseFee ?t" by blast+
  then show ?thesis using t \<open>haveMemo ?t\<close> unfolding disciplined_def Let_def by simp
qed

text \<open>
  C22. The first error is the one \<open>Sign\<close> reports: it was recorded by one call, the calls
  before it recorded none, and no later call changes the builder or the report.
\<close>

theorem Sign_reports_first_error:
  assumes "err (run_actions C as (NewBaseTx network src prov fee)) = Some e"
  shows "(\<exists>as1 a as2. as = as1 @ a # as2 \<and> err (run_actions C as1 (NewBaseTx network src prov fee)) = None \<and>
      err (run_action C a (run_actions C as1 (NewBaseTx network src prov fee))) = Some e) \<and>
    Sign C from (run_actions C (as @ bs) (NewBaseTx network src prov fee)) =
      (Inl (errMap e), run_actions C as (NewBaseTx network src prov fee))"
proof
  have "err (NewBaseTx network src prov fee) = None" by (simp add: NewBaseTx_def)
  with builder.first_failure [of "NewBaseTx network src prov fee" C as e] assms
  show "\<exists>as1 a as2. as = as1 @ a # as2 \<and> err (run_actions C as1 (NewBaseTx network src prov fee)) = None \<and>
      err (run_action C a (run_actions C as1 (NewBaseTx network src prov fee))) = Some e"
    unfolding run_actions_builder by blast
  show "Sign C from (run_actions C (as @ bs) (NewBaseTx network src prov fee)) =
      (Inl (errMap e), run_actions C as (NewBaseTx network src prov fee))"
    using assms builder.run_failed [OF assms [unfolded run_actions_builder], of C bs]
    by (simp add: run_actions_builder builder.run_simps)
qed

theorem Sign_reports_first_error_witness:
  "fst (Sign plain_crypto demo_seed (run_actions plain_crypto
      ([HomeDomain (replicate 33 CHR ''a'')] @ [HomeDomain ''keybase.io'']) (NewBaseTx ''net'' [] (\<lambda>_. Inr 7) 100))) =
    Inl (NewError ''domain must be less than 32 characters long'')"
proof -
  have "err (run_actions plain_crypto [HomeDomain (replicate 33 CHR ''a'')] (NewBaseTx ''net'' [] (\<lambda>_. Inr 7) 100)) =
      Some (NewError ''domain must be less than 32 characters long'')"
    by (simp add: run_actions_def AddHomeDomainOp_def skipAddOp_def NewBaseTx_def IsFull_def empty_Transaction_def)
  from Sign_reports_first_error [OF this] show ?thesis by simp
qed

text \<open>
  No operation is lost or added on the way to a signature: a signed transaction holds
  exactly one operation per operation method called, at least one and at most 100.
\<close>

theorem Sign_keeps_operations:
  assumes "is_ok (fst (Sign C from (run_actions C as (NewBaseTx network src prov fee))))"
  shows "length (tx_Operations (internal (run_actions C as (NewBaseTx network src prov fee)))) = length (filter is_op_action as) \<and>
    0 < length (filter is_op_action as) \<and> length (filter is_op_action as) \<le> 100"
proof -
  let ?t = "run_actions C as (NewBaseTx network src prov fee)"
  have e: "err ?t = None" and n: "op_count ?t \<noteq> 0"
    using assms by (auto simp: is_ok_iff Sign_eq_Inr)
  have "err (NewBaseTx network src prov fee) = None" "op_count (NewBaseTx network src prov fee) = 0"
    by (simp_all add: NewBaseTx_def op_count_def empty_Transaction_def)
  with run_actions_count [OF _ e] have "op_count ?t = length (filter is_op_action as)" by simp
  moreover have "op_count ?t \<le> 100"
    using tx_inv_actions [OF tx_inv_new, of C as network src prov fee] by (simp add: tx_inv_def op_count_def)
  ultimately show ?thesis using n unfolding op_count_def by linarith
qed

theorem Sign_keeps_operations_witness:
  "length (tx_Operations (internal demo_tx)) = 1"
proof -
  have "is_ok (fst (Sign plain_crypto demo_seed (run_actions plain_crypto [HomeDomain ''keybase.io'', SetMemoID (Some 9)]
     (NewBaseTx ''net'' (address_of demo_pub) (\<lambda>_. Inr 7) 100))))"
    using demo_Sign by (simp only: is_ok_iff demo_tx_def) blast
  from Sign_keeps_operations [OF this] show ?thesis by (simp add: demo_tx_def)
qed

text \<open>
  A transaction with an account merge is never signed: the method hands an account
  identifier where the union's constructor wants a muxed account.
\<close>

theorem account_merge_never_signed:
  assumes "AccountMerge to \<in> set as"
  shows "\<not> is_ok (fst (Sign C from (run_actions C as (NewBaseTx network src prov fee))))"
proof -
  obtain as1 as2 where as: "as = as1 @ AccountMerge to # as2" using assms by (meson split_list)
  let ?t = "run_actions C as1 (NewBaseTx network src prov fee)"
  obtain e where "err (run_action C (AccountMerge to) ?t) = Some e" using AddAccountMergeOp_fails by auto
  with builder.run_failed [of "run_action C (AccountMerge to) ?t" e C as2]
  have "err (run_actions C as (NewBaseTx network src prov fee)) = Some e"
    by (simp add: as run_actions_builder builder.run_simps)
  then show ?thesis by simp
qed

theorem account_merge_never_signed_witness:
  "\<not> is_ok (fst (Sign plain_crypto demo_seed (run_actions plain_crypto [AccountMerge ''GA''] (NewBaseTx ''net'' [] (\<lambda>_. Inr 7) 100))))"
  by (rule account_merge_never_signed) simp

text \<open>
  The fee in the signed transaction is the base fee times the number of operations as
  long as the base fee is at most 42949672; beyond that the product can be cut to 32 bits:
  one operation with a base fee of 4294967296 is signed for no fee at all.
\<close>

theorem signed_fee:
  assumes "tx_inv t" and "unat (baseFee t) \<le> 42949672"
  shows "unat (tx_Fee (signed_tx t seqno account)) = unat (baseFee t) * op_count t \<and>
    tx_Fee (signed_tx (u\<lparr>baseFee := 4294967296, internal := empty_Transaction\<lparr>tx_Operations := [w]\<rparr>\<rparr>) seqno account) = 0"
proof
  have n: "op_count t \<le> 100" using assms(1) by (simp add: tx_inv_def op_count_def)
  have p: "unat (baseFee t) * op_count t \<le> 42949672 * 100" using assms(2) n by (rule mult_le_mono)
  have "unat (word_of_nat (op_count t) :: uint64) = op_count t" using n by (simp add: unat_of_nat)
  then have "unat (baseFee t * word_of_nat (op_count t)) = unat (baseFee t) * op_count t"
    using p by (simp add: unat_word_ariths)
  then have "unat (ucast (baseFee t * word_of_nat (op_count t)) :: uint32) = unat (baseFee t) * op_count t"
    using p by (simp add: unsigned_ucast_eq take_bit_nat_eq_self)
  then show "unat (tx_Fee (signed_tx t seqno account)) = unat (baseFee t) * op_count t" by (simp add: signed_tx_def)
  show "tx_Fee (signed_tx (u\<lparr>baseFee := 4294967296, internal := empty_Transaction\<lparr>tx_Operations := [w]\<rparr>\<rparr>) seqno account) = 0"
    by (simp add: signed_tx_def op_count_def)
qed

theorem signed_fee_witness: "unat (tx_Fee (signed_tx demo_tx 7 (KeyTypeEd25519 demo_pub))) = 100"
  using signed_fee [of demo_tx] by (simp add: demo_fields)

end
