(* ===== verification/Go_Quote.thy ===== *)
theory Go_Quote
  imports Go_Strings
begin

text \<open>
  Go's \<open>%q\<close> and \<open>%b\<close>: the decoding of a rune from UTF-8 (\<open>utf8.DecodeRuneInString\<close>), quoting
  (\<open>strconv.Quote\<close> as of Go 1.13, the version the repository is tested with) and binary
  numerals. \<open>unicode.IsPrint\<close> is written out for the runes up to U+00FF; beyond them it is
  a table of the standard library, the parameter \<open>table\<close>. Runes are natural numbers.
\<close>

section \<open>UTF-8\<close>

definition RuneError :: nat where "RuneError = 0xFFFD"
definition RuneSelf :: nat where "RuneSelf = 0x80"

text \<open>The range of the second byte after a first byte, and the number of bytes that follow.\<close>

definition utf8_first :: "nat \<Rightarrow> (nat \<times> nat \<times> nat) option" where
  "utf8_first n =
     (if 0xC2 \<le> n \<and> n \<le> 0xDF then Some (1, 0x80, 0xBF)
      else if n = 0xE0 then Some (2, 0xA0, 0xBF)
      else if n = 0xED then Some (2, 0x80, 0x9F)
      else if 0xE1 \<le> n \<and> n \<le> 0xEF then Some (2, 0x80, 0xBF)
      else if n = 0xF0 then Some (3, 0x90, 0xBF)
      else if n = 0xF4 then Some (3, 0x80, 0x8F)
      else if 0xF1 \<le> n \<and> n \<le> 0xF3 then Some (3, 0x80, 0xBF)
      else None)"

definition is_continuation :: "nat \<Rightarrow> bool" where
  "is_continuation n \<longleftrightarrow> 0x80 \<le> n \<and> n \<le> 0xBF"

text \<open>
  The rune at the front of a text that is not empty, and the number of bytes it takes after
  the first one. An encoding that is not valid is \<open>RuneError\<close> and takes one byte.
\<close>

definition decode_rune :: "char \<Rightarrow> string \<Rightarrow> nat \<times> nat" where
  "decode_rune c s =
     (let n0 = of_char c :: nat; ns = map of_char s in
      if n0 < RuneSelf then (n0, 0)
      else case utf8_first n0 of
        None \<Rightarrow> (RuneError, 0)
      | Some (k, lo, hi) \<Rightarrow>
          if length ns < k \<or> ns ! 0 < lo \<or> hi < ns ! 0 \<or> \<not> list_all is_continuation (take k ns) then (RuneError, 0)
          else (foldl (\<lambda>r n. 64 * r + (n - 0x80)) (n0 mod 2 ^ (6 - k)) (take k ns), k))"

section \<open>Quoting\<close>

definition IsPrint :: "(nat \<Rightarrow> bool) \<Rightarrow> nat \<Rightarrow> bool" where
  "IsPrint table r =
     (if r \<le> 0xFF then (0x20 \<le> r \<and> r < 0x7F) \<or> (0xA1 \<le> r \<and> r \<noteq> 0xAD) else table r)"

definition hex_text :: "nat \<Rightarrow> nat \<Rightarrow> string" where
  "hex_text k n = map (\<lambda>i. hex_digits ! (n div 16 ^ i mod 16)) (rev [0..<k])"

text \<open>\<open>appendEscapedRune\<close>; \<open>bytes\<close> is the encoding of the rune \<open>r\<close>.\<close>

definition escaped_rune :: "(nat \<Rightarrow> bool) \<Rightarrow> nat \<Rightarrow> string \<Rightarrow> string" where
  "escaped_rune table r bytes =
     (if r = 0x22 \<or> r = 0x5C then CHR 0x5C # bytes
      else if IsPrint table r then bytes
      else if r = 0x07 then [CHR 0x5C, CHR ''a'']
      else if r = 0x08 then [CHR 0x5C, CHR ''b'']
      else if r = 0x0C then [CHR 0x5C, CHR ''f'']
      else if r = 0x0A then [CHR 0x5C, CHR ''n'']
      else if r = 0x0D then [CHR 0x5C, CHR ''r'']
      else if r = 0x09 then [CHR 0x5C, CHR ''t'']
      else if r = 0x0B then [CHR 0x5C, CHR ''v'']
      else if r < 0x20 then [CHR 0x5C, CHR ''x''] @ hex_text 2 r
      else if 0x10FFFF < r then [CHR 0x5C, CHR ''u''] @ hex_text 4 RuneError
      else if r < 0x10000 then [CHR 0x5C, CHR ''u''] @ hex_text 4 r
      else [CHR 0x5C, CHR ''U''] @ hex_text 8 r)"

function quote_loop :: "(nat \<Rightarrow> bool) \<Rightarrow> string \<Rightarrow> string" where
  "quote_loop table [] = []"
| "quote_loop table (c # s) =
     (let (r, k) = decode_rune c s in
      (if k = 0 \<and> r = RuneError then [CHR 0x5C, CHR ''x''] @ hex_text 2 (of_char c)
       else escaped_rune table r (c # take k s)) @ quote_loop table (drop k s))"
  by pat_completeness auto
termination
  by (relation "measure (length \<circ> snd)") auto

definition strconv_Quote :: "(nat \<Rightarrow> bool) \<Rightarrow> string \<Rightarrow> string" where
  "strconv_Quote table s = CHR 0x22 # quote_loop table s @ [CHR 0x22]"

section \<open>Binary numerals\<close>

fun show_bin :: "nat \<Rightarrow> string" where
  "show_bin n = (if n < 2 then [digit_char n] else show_bin (n div 2) @ [digit_char (n mod 2)])"

declare show_bin.simps [simp del]

lemma show_bin_value: "foldl (\<lambda>v c. 2 * v + digit_val c) 0 (show_bin n) = n"
proof (induction n rule: show_bin.induct)
  case (1 n)
  then show ?case by (simp add: show_bin.simps [of n])
qed

section \<open>Facts\<close>

text \<open>A quoted text is on one line.\<close>

lemma hex_text_no_newline: "CHR 0x0A \<notin> set (hex_text k n)"
proof -
  have "\<forall>i \<in> set [0..<16]. hex_digits ! i \<noteq> CHR 0x0A" by code_simp
  then have "hex_digits ! (m mod 16) \<noteq> CHR 0x0A" for m by simp
  then show ?thesis unfolding hex_text_def by (metis (no_types, lifting) imageE list.set_map)
qed

lemma utf8_first_bounds: "utf8_first n = Some (k, lo, hi) \<Longrightarrow> 0x80 \<le> lo \<and> 0xC2 \<le> n \<and> n \<le> 0xF4 \<and> 1 \<le> k \<and> k \<le> 3"
  by (auto simp: utf8_first_def split: if_splits)

lemma decode_rune_bytes:
  assumes "decode_rune c s = (r, k)"
  shows "(k = 0 \<and> r = RuneError) \<or> (k = 0 \<and> r = of_char c \<and> r < RuneSelf) \<or>
    (RuneSelf \<le> of_char c \<and> (\<forall>d \<in> set (take k s). RuneSelf \<le> of_char d))"
  using assms
  by (auto simp: decode_rune_def Let_def RuneSelf_def list_all_iff is_continuation_def take_map
      split: if_splits option.splits prod.splits)

lemma escaped_rune_no_newline:
  "CHR 0x0A \<notin> set bytes \<or> (r = 0x0A) \<Longrightarrow> CHR 0x0A \<notin> set (escaped_rune table r bytes)"
  by (auto simp: escaped_rune_def hex_text_no_newline IsPrint_def)

lemma quote_loop_no_newline: "CHR 0x0A \<notin> set (quote_loop table s)"
proof (induction table s rule: quote_loop.induct)
  case (2 table c s)
  obtain r k where rk: "decode_rune c s = (r, k)" by force
  have "CHR 0x0A \<notin> set (c # take k s) \<or> r = 0x0A" if "\<not> (k = 0 \<and> r = RuneError)"
    using decode_rune_bytes [OF rk] that by (auto simp: RuneSelf_def)
  then show ?case
    using 2 rk by (auto simp: hex_text_no_newline escaped_rune_no_newline)
qed simp

lemma strconv_Quote_no_newline: "CHR 0x0A \<notin> set (strconv_Quote table s)"
  by (simp add: strconv_Quote_def quote_loop_no_newline)

end
