(* ===== verification/Go_Url.thy ===== *)
theory Go_Url
  imports Go_Quote "HOL-Library.List_Lexorder"
begin

text \<open>
  \<open>net/url\<close> as in Go 1.13, the version the repository builds with: escaping, the query
  parameters, \<open>url.Parse\<close>, \<open>String\<close> and the resolution of a reference. In that version a
  semicolon separates parameters as an ampersand does.
\<close>

section \<open>Splitting\<close>

text \<open>\<open>split(s, c, true)\<close>: the parts before and after the first \<open>c\<close>.\<close>

definition cut :: "char \<Rightarrow> string \<Rightarrow> string \<times> string" where
  "cut c s = (takeWhile (\<lambda>d. d \<noteq> c) s, drop 1 (dropWhile (\<lambda>d. d \<noteq> c) s))"

text \<open>The fields of a text between the separators; \<open>strings.Split\<close> for one character.\<close>

fun split_sep :: "(char \<Rightarrow> bool) \<Rightarrow> string \<Rightarrow> string list" where
  "split_sep P [] = [[]]"
| "split_sep P (c # s) =
     (if P c then [] # split_sep P s
      else case split_sep P s of [] \<Rightarrow> [[c]] | f # fs \<Rightarrow> (c # f) # fs)"

lemma split_sep_nonempty [simp]: "split_sep P s \<noteq> []"
  by (induction s) (auto split: list.splits)

lemma split_sep_plain: "list_all (\<lambda>c. \<not> P c) s \<Longrightarrow> split_sep P s = [s]"
  by (induction s) auto

lemma split_sep_append:
  "P c \<Longrightarrow> split_sep P (s @ c # t) = split_sep P s @ split_sep P t"
  by (induction s) (auto split: list.splits)

lemma cut_append [simp]: "c \<notin> set s \<Longrightarrow> cut c (s @ c # t) = (s, t)"
  unfolding cut_def by (induction s) auto

lemma cut_plain [simp]: "c \<notin> set s \<Longrightarrow> cut c s = (s, [])"
  unfolding cut_def by (induction s) auto

section \<open>Escaping\<close>

definition unhex :: "char \<Rightarrow> nat" where
  "unhex c = (case fromHexChar c of Some b \<Rightarrow> unat b | None \<Rightarrow> 0)"

text \<open>\<open>QueryUnescape\<close>; \<open>None\<close> is an \<open>EscapeError\<close>.\<close>

fun QueryUnescape :: "string \<Rightarrow> string option" where
  "QueryUnescape [] = Some []"
| "QueryUnescape (c # s) =
     (if c = CHR ''%'' then
        (case s of
           a # b # r \<Rightarrow>
             if fromHexChar a \<noteq> None \<and> fromHexChar b \<noteq> None
             then map_option (Cons (char_of (16 * unhex a + unhex b))) (QueryUnescape r)
             else None
         | _ \<Rightarrow> None)
      else map_option (Cons (if c = CHR ''+'' then CHR '' '' else c)) (QueryUnescape s))"

definition upper_hex :: string where "upper_hex = ''0123456789ABCDEF''"

definition unreserved :: "char \<Rightarrow> bool" where
  "unreserved c \<longleftrightarrow> (CHR ''a'' \<le> c \<and> c \<le> CHR ''z'') \<or> (CHR ''A'' \<le> c \<and> c \<le> CHR ''Z'') \<or> (CHR ''0'' \<le> c \<and> c \<le> CHR ''9'') \<or>
     c = CHR ''-'' \<or> c = CHR ''_'' \<or> c = CHR ''.'' \<or> c = CHR ''~''"

definition escape_char :: "char \<Rightarrow> string" where
  "escape_char c =
     (if c = CHR '' '' then ''+''
      else if unreserved c then [c]
      else [CHR ''%'', upper_hex ! (of_char c div 16), upper_hex ! (of_char c mod 16)])"

definition QueryEscape :: "string \<Rightarrow> string" where
  "QueryEscape s = concat (map escape_char s)"

lemma upper_hex_digit: "i < 16 \<Longrightarrow> fromHexChar (upper_hex ! i) \<noteq> None \<and> unhex (upper_hex ! i) = i \<and> unreserved (upper_hex ! i)"
proof -
  have "list_all (\<lambda>i. fromHexChar (upper_hex ! i) \<noteq> None \<and> unhex (upper_hex ! i) = i \<and> unreserved (upper_hex ! i)) [0 ..< 16]" by code_simp
  then show "i < 16 \<Longrightarrow> ?thesis" by (simp add: list_all_iff)
qed

lemma high_digit: "of_char c div 16 < (16::nat)"
proof -
  have "of_char c < (16 * 16 :: nat)" using nat_of_char_less_256 [of c] by linarith
  then show ?thesis by (rule less_mult_imp_div_less)
qed

lemma unreserved_plain: "unreserved c \<Longrightarrow> c \<noteq> CHR ''%'' \<and> c \<noteq> CHR ''+'' \<and> c \<noteq> CHR ''&'' \<and> c \<noteq> CHR '';'' \<and> c \<noteq> CHR ''='' \<and> c \<noteq> CHR ''#''"
  by (auto simp: unreserved_def less_eq_char_def)

lemma Unescape_escape_char: "QueryUnescape (escape_char c @ s) = map_option (Cons c) (QueryUnescape s)"
proof -
  have "of_char c div 16 < (16::nat)" by (rule high_digit)
  from upper_hex_digit [OF this] upper_hex_digit [of "of_char c mod 16"] show ?thesis
    using unreserved_plain [of c] by (auto simp: escape_char_def)
qed

lemma QueryUnescape_QueryEscape [simp]: "QueryUnescape (QueryEscape s) = Some s"
  by (induction s) (simp_all add: QueryEscape_def Unescape_escape_char)

definition escaped :: "char \<Rightarrow> bool" where
  "escaped c \<longleftrightarrow> unreserved c \<or> c = CHR ''%'' \<or> c = CHR ''+''"

lemma QueryEscape_escaped: "list_all escaped (QueryEscape s)"
proof -
  have "list_all escaped (escape_char c)" for c
  proof -
    have "of_char c div 16 < (16::nat)" by (rule high_digit)
    from upper_hex_digit [OF this] upper_hex_digit [of "of_char c mod 16"] show ?thesis
      by (auto simp: escape_char_def escaped_def)
  qed
  then show ?thesis by (induction s) (simp_all add: QueryEscape_def)
qed

lemma escaped_plain: "escaped c \<Longrightarrow> c \<noteq> CHR ''&'' \<and> c \<noteq> CHR '';'' \<and> c \<noteq> CHR ''='' \<and> c \<noteq> CHR ''#''"
  using unreserved_plain by (auto simp: escaped_def)

section \<open>Queries\<close>

text \<open>The parameters of a query in order; a part that does not unescape is dropped.\<close>

definition query_setting :: "string \<Rightarrow> (string \<times> string) list" where
  "query_setting s =
     (if s = [] then []
      else case cut (CHR ''='') s of (key, value) \<Rightarrow>
        (case (QueryUnescape key, QueryUnescape value) of (Some k, Some v) \<Rightarrow> [(k, v)] | _ \<Rightarrow> []))"

definition query_sep :: "char \<Rightarrow> bool" where "query_sep c \<longleftrightarrow> c = CHR ''&'' \<or> c = CHR '';''"

definition parse_query :: "string \<Rightarrow> (string \<times> string) list" where
  "parse_query q = concat (map query_setting (split_sep query_sep q))"

text \<open>\<open>Values.Get\<close>: the first value of the key, or the empty text.\<close>

definition query_get :: "(string \<times> string) list \<Rightarrow> string \<Rightarrow> string" where
  "query_get vs key = (case map_of vs key of None \<Rightarrow> [] | Some v \<Rightarrow> v)"

lemma parse_query_append: "query_sep c \<Longrightarrow> parse_query (q @ c # r) = parse_query q @ parse_query r"
  by (simp add: parse_query_def split_sep_append)

lemma query_get_append:
  "query_get (vs @ ws) key = (if map_of vs key = None then query_get ws key else query_get vs key)"
  by (auto simp: query_get_def map_add_def map_of_append split: option.splits)

text \<open>\<open>ParseQuery\<close>, which reports the first part that does not unescape.\<close>

definition EscapeError :: "string \<Rightarrow> go_error" where
  "EscapeError s = Errorf ''invalid URL escape %q'' [AStr s]"

fun bad_escape :: "string \<Rightarrow> string option" where
  "bad_escape [] = None"
| "bad_escape (c # s) =
     (if c = CHR ''%'' \<and> (case s of a # b # r \<Rightarrow> fromHexChar a = None \<or> fromHexChar b = None | _ \<Rightarrow> True)
      then Some (take 3 (c # s)) else bad_escape s)"

definition setting_errors :: "string \<Rightarrow> string list" where
  "setting_errors s =
     (case cut (CHR ''='') s of (key, value) \<Rightarrow>
        (case bad_escape key of Some e \<Rightarrow> [e]
         | None \<Rightarrow> (case bad_escape value of Some e \<Rightarrow> [e] | None \<Rightarrow> [])))"

definition ParseQuery :: "string \<Rightarrow> (string \<times> string) list res" where
  "ParseQuery q =
     (case concat (map setting_errors (split_sep query_sep q)) of
        [] \<Rightarrow> Inr (parse_query q)
      | e # _ \<Rightarrow> Inl (EscapeError e))"

text \<open>A \<open>Values\<close> is a map; here it is the list of its keys with their values, in any order of the keys.\<close>

definition values_Set :: "string \<Rightarrow> string \<Rightarrow> (string \<times> string) list \<Rightarrow> (string \<times> string) list" where
  "values_Set key v vs = filter (\<lambda>kv. fst kv \<noteq> key) vs @ [(key, v)]"

definition values_Encode :: "(string \<times> string) list \<Rightarrow> string" where
  "values_Encode vs = Join (map (\<lambda>(k, v). QueryEscape k @ ''='' @ QueryEscape v) (sort_key fst vs)) ''&''"

section \<open>The parts of a URL\<close>

record url =
  url_Scheme :: string
  url_Opaque :: string
  url_User :: "(string \<times> string option) option"
  url_Host :: string
  url_Path :: string
  url_RawPath :: string
  url_ForceQuery :: bool
  url_RawQuery :: string
  url_Fragment :: string

definition empty_url :: url where
  "empty_url = \<lparr>url_Scheme = [], url_Opaque = [], url_User = None, url_Host = [], url_Path = [], url_RawPath = [],
     url_ForceQuery = False, url_RawQuery = [], url_Fragment = []\<rparr>"

datatype url_mode = encodePath | encodeHost | encodeZone | encodeUserPassword | encodeQueryComponent | encodeFragment

definition shouldEscape :: "char \<Rightarrow> url_mode \<Rightarrow> bool" where
  "shouldEscape c mode =
     (if (CHR ''a'' \<le> c \<and> c \<le> CHR ''z'') \<or> (CHR ''A'' \<le> c \<and> c \<le> CHR ''Z'') \<or> (CHR ''0'' \<le> c \<and> c \<le> CHR ''9'') then False
      else if (mode = encodeHost \<or> mode = encodeZone) \<and> c \<in> set (CHR 0x27 # CHR 0x22 # ''!$&()*+,;=:[]<>'') then False
      else if c \<in> set ''-_.~'' then False
      else if c \<in> set ''$&+,/:;=?@'' \<and> mode \<in> {encodePath, encodeUserPassword, encodeQueryComponent, encodeFragment} then
        (case mode of
           encodePath \<Rightarrow> c = CHR ''?''
         | encodeUserPassword \<Rightarrow> c \<in> set ''@/?:''
         | encodeQueryComponent \<Rightarrow> True
         | _ \<Rightarrow> False)
      else if mode = encodeFragment \<and> c \<in> set ''!()*'' then False
      else True)"

definition url_escape :: "string \<Rightarrow> url_mode \<Rightarrow> string" where
  "url_escape s mode = concat (map (\<lambda>c.
     if c = CHR '' '' \<and> mode = encodeQueryComponent then ''+''
     else if shouldEscape c mode then [CHR ''%'', upper_hex ! (of_char c div 16), upper_hex ! (of_char c mod 16)]
     else [c]) s)"

text \<open>
  The errors of the parser are texts: \<open>url.Parse\<close> puts them in its own error. Of the runes
  an \<open>EscapeError\<close> can quote, those from U+0100 to U+07FF are taken as printable.
\<close>

type_synonym 'a url_res = "string + 'a"

definition url_then :: "'a url_res \<Rightarrow> ('a \<Rightarrow> 'b url_res) \<Rightarrow> 'b url_res" where
  "url_then m f = (case m of Inl e \<Rightarrow> Inl e | Inr x \<Rightarrow> f x)"

lemma url_then_simps [simp]: "url_then (Inl e) f = Inl e" "url_then (Inr x) f = f x"
  by (simp_all add: url_then_def)

lemma url_then_eq_Inr: "url_then m f = Inr y \<longleftrightarrow> (\<exists>x. m = Inr x \<and> f x = Inr y)"
  by (simp add: url_then_def split: sum.splits)

definition url_quote :: "string \<Rightarrow> string" where "url_quote = strconv_Quote (\<lambda>_. True)"

definition bad_in_host :: "char \<Rightarrow> url_mode \<Rightarrow> bool" where
  "bad_in_host c mode \<longleftrightarrow> (mode = encodeHost \<or> mode = encodeZone) \<and> (of_char c :: nat) < 0x80 \<and> shouldEscape c mode"

definition bad_escape_in :: "char \<Rightarrow> char \<Rightarrow> url_mode \<Rightarrow> bool" where
  "bad_escape_in a b mode \<longleftrightarrow>
     (mode = encodeHost \<and> unhex a < 8 \<or>
      mode = encodeZone \<and> char_of (16 * unhex a + unhex b) \<noteq> CHR '' '' \<and> shouldEscape (char_of (16 * unhex a + unhex b)) encodeHost) \<and>
     \<not> (a = CHR ''2'' \<and> b = CHR ''5'')"

fun url_unescape :: "string \<Rightarrow> url_mode \<Rightarrow> string url_res" where
  "url_unescape [] mode = Inr []"
| "url_unescape (c # s) mode =
     (if c = CHR ''%'' then
        (case s of
           a # b # r \<Rightarrow>
             if fromHexChar a = None \<or> fromHexChar b = None \<or> bad_escape_in a b mode
             then Inl (''invalid URL escape '' @ url_quote (take 3 (c # s)))
             else url_then (url_unescape r mode) (\<lambda>t. Inr (char_of (16 * unhex a + unhex b) # t))
         | _ \<Rightarrow> Inl (''invalid URL escape '' @ url_quote (take 3 (c # s))))
      else if bad_in_host c mode then Inl (''invalid character '' @ url_quote [c] @ '' in host name'')
      else url_then (url_unescape s mode) (\<lambda>t.
        Inr ((if c = CHR ''+'' \<and> mode = encodeQueryComponent then CHR '' '' else c) # t)))"

section \<open>Parsing\<close>

fun scheme_loop :: "string \<Rightarrow> string \<Rightarrow> string \<Rightarrow> (string \<times> string) url_res" where
  "scheme_loop raw seen [] = Inr ([], raw)"
| "scheme_loop raw seen (c # s) =
     (if (CHR ''a'' \<le> c \<and> c \<le> CHR ''z'') \<or> (CHR ''A'' \<le> c \<and> c \<le> CHR ''Z'') then scheme_loop raw (seen @ [c]) s
      else if (CHR ''0'' \<le> c \<and> c \<le> CHR ''9'') \<or> c = CHR ''+'' \<or> c = CHR ''-'' \<or> c = CHR ''.'' then
        (if seen = [] then Inr ([], raw) else scheme_loop raw (seen @ [c]) s)
      else if c = CHR '':'' then
        (if seen = [] then Inl ''missing protocol scheme'' else Inr (seen, s))
      else Inr ([], raw))"

definition getscheme :: "string \<Rightarrow> (string \<times> string) url_res" where
  "getscheme raw = scheme_loop raw [] raw"

definition ctl_byte :: "char \<Rightarrow> bool" where
  "ctl_byte c \<longleftrightarrow> c < CHR '' '' \<or> c = CHR 0x7F"

text \<open>The parts before and after the last \<open>c\<close>.\<close>

definition cut_last :: "char \<Rightarrow> string \<Rightarrow> (string \<times> string) option" where
  "cut_last c s =
     (if c \<in> set s then Some (rev (drop 1 (dropWhile (\<lambda>d. d \<noteq> c) (rev s))), rev (takeWhile (\<lambda>d. d \<noteq> c) (rev s))) else None)"

definition validUserinfo :: "string \<Rightarrow> bool" where
  "validUserinfo s = list_all (\<lambda>c. (CHR ''A'' \<le> c \<and> c \<le> CHR ''Z'') \<or> (CHR ''a'' \<le> c \<and> c \<le> CHR ''z'') \<or> (CHR ''0'' \<le> c \<and> c \<le> CHR ''9'') \<or>
     c \<in> set (CHR 0x27 # ''-._:~!$&()*+,;=%@'')) s"

definition validOptionalPort :: "string \<Rightarrow> bool" where
  "validOptionalPort port =
     (case port of [] \<Rightarrow> True | c # ds \<Rightarrow> c = CHR '':'' \<and> list_all (\<lambda>b. CHR ''0'' \<le> b \<and> b \<le> CHR ''9'') ds)"

text \<open>The parts before and from the first \<open>%25\<close>.\<close>

fun cut_zone :: "string \<Rightarrow> (string \<times> string) option" where
  "cut_zone [] = None"
| "cut_zone (c # s) =
     (if take 3 (c # s) = ''%25'' then Some ([], c # s) else map_option (\<lambda>(a, b). (c # a, b)) (cut_zone s))"

definition parseHost :: "string \<Rightarrow> string url_res" where
  "parseHost host =
     (if HasPrefix host ''['' then
        (case cut_last (CHR '']'') host of
           None \<Rightarrow> Inl (''missing '' @ [CHR 0x27, CHR '']'', CHR 0x27] @ '' in host'')
         | Some (inside, colonPort) \<Rightarrow>
             if \<not> validOptionalPort colonPort then Inl (''invalid port '' @ url_quote colonPort @ '' after host'')
             else (case cut_zone inside of
                 Some (before, zone) \<Rightarrow>
                   url_then (url_unescape before encodeHost) (\<lambda>host1.
                   url_then (url_unescape zone encodeZone) (\<lambda>host2.
                   url_then (url_unescape (CHR '']'' # colonPort) encodeHost) (\<lambda>host3. Inr (host1 @ host2 @ host3))))
               | None \<Rightarrow> url_unescape host encodeHost))
      else
        (case cut_last (CHR '':'') host of
           Some (_, port) \<Rightarrow>
             if \<not> validOptionalPort (CHR '':'' # port) then Inl (''invalid port '' @ url_quote (CHR '':'' # port) @ '' after host'')
             else url_unescape host encodeHost
         | None \<Rightarrow> url_unescape host encodeHost))"

definition parse_userinfo :: "string \<Rightarrow> (string \<times> string option) url_res" where
  "parse_userinfo userinfo =
     (if \<not> validUserinfo userinfo then Inl ''net/url: invalid userinfo''
      else if CHR '':'' \<notin> set userinfo then url_then (url_unescape userinfo encodeUserPassword) (\<lambda>user. Inr (user, None))
      else (case cut (CHR '':'') userinfo of (username, password) \<Rightarrow>
        url_then (url_unescape username encodeUserPassword) (\<lambda>username.
        url_then (url_unescape password encodeUserPassword) (\<lambda>password. Inr (username, Some password)))))"

definition parseAuthority :: "string \<Rightarrow> ((string \<times> string option) option \<times> string) url_res" where
  "parseAuthority authority =
     (case cut_last (CHR ''@'') authority of
        None \<Rightarrow> url_then (parseHost authority) (\<lambda>host. Inr (None, host))
      | Some (userinfo, host) \<Rightarrow>
          url_then (parseHost host) (\<lambda>host. url_then (parse_userinfo userinfo) (\<lambda>user. Inr (Some user, host))))"

definition setPath :: "string \<Rightarrow> url \<Rightarrow> url url_res" where
  "setPath p u =
     url_then (url_unescape p encodePath) (\<lambda>path.
       Inr (u\<lparr>url_Path := path, url_RawPath := (if p = url_escape path encodePath then [] else p)\<rparr>))"

text \<open>\<open>split(rest[2:], "/", false)\<close>: the slash stays with the path.\<close>

definition parse_rest :: "string \<Rightarrow> url \<Rightarrow> url url_res" where
  "parse_rest rest u =
     (if \<not> HasPrefix rest ''/'' \<and> url_Scheme u \<noteq> [] then Inr (u\<lparr>url_Opaque := rest\<rparr>)
      else if \<not> HasPrefix rest ''/'' \<and> CHR '':'' \<in> set (takeWhile (\<lambda>c. c \<noteq> CHR ''/'') rest) then
        Inl ''first path segment in URL cannot contain colon''
      else if (url_Scheme u \<noteq> [] \<or> \<not> HasPrefix rest ''///'') \<and> HasPrefix rest ''//'' then
        url_then (parseAuthority (takeWhile (\<lambda>c. c \<noteq> CHR ''/'') (drop 2 rest))) (\<lambda>(user, host).
          setPath (dropWhile (\<lambda>c. c \<noteq> CHR ''/'') (drop 2 rest)) (u\<lparr>url_User := user, url_Host := host\<rparr>))
      else setPath rest u)"

definition cut_query :: "string \<Rightarrow> string \<times> bool \<times> string" where
  "cut_query rest =
     (case cut (CHR ''?'') rest of (r, q) \<Rightarrow> (r, CHR ''?'' \<in> set rest \<and> q = [], q))"

definition parse_url :: "string \<Rightarrow> url url_res" where
  "parse_url raw =
     (if list_ex ctl_byte raw then Inl ''net/url: invalid control character in URL''
      else if raw = ''*'' then Inr (empty_url\<lparr>url_Path := ''*''\<rparr>)
      else url_then (getscheme raw) (\<lambda>(scheme, rest).
        case cut_query rest of (rest, force, query) \<Rightarrow>
          parse_rest rest (empty_url\<lparr>url_Scheme := ToLower scheme, url_ForceQuery := force, url_RawQuery := query\<rparr>)))"

definition url_error :: "string \<Rightarrow> string \<Rightarrow> go_error" where
  "url_error u e = UrlError \<lparr>ue_url = u, ue_text = ''parse '' @ u @ '': '' @ e, ue_timeout = False\<rparr>"

definition url_Parse :: "string \<Rightarrow> url res" where
  "url_Parse rawurl =
     (let (u, frag) = cut (CHR ''#'') rawurl in
      case parse_url u of
        Inl e \<Rightarrow> Inl (url_error u e)
      | Inr url \<Rightarrow>
          if frag = [] then Inr url
          else (case url_unescape frag encodeFragment of
              Inl e \<Rightarrow> Inl (url_error rawurl e)
            | Inr f \<Rightarrow> Inr (url\<lparr>url_Fragment := f\<rparr>)))"

section \<open>Printing\<close>

definition validEncodedPath :: "string \<Rightarrow> bool" where
  "validEncodedPath s = list_all (\<lambda>c. c \<in> set (CHR 0x27 # ''!$&()*+,;=:@[]%'') \<or> \<not> shouldEscape c encodePath) s"

definition EscapedPath :: "url \<Rightarrow> string" where
  "EscapedPath u =
     (if url_RawPath u \<noteq> [] \<and> validEncodedPath (url_RawPath u) \<and> url_unescape (url_RawPath u) encodePath = Inr (url_Path u)
      then url_RawPath u
      else if url_Path u = ''*'' then ''*''
      else url_escape (url_Path u) encodePath)"

definition Userinfo_String :: "string \<times> string option \<Rightarrow> string" where
  "Userinfo_String ui =
     (case ui of (username, password) \<Rightarrow>
        url_escape username encodeUserPassword @
        (case password of None \<Rightarrow> [] | Some p \<Rightarrow> '':'' @ url_escape p encodeUserPassword))"

definition authority_text :: "url \<Rightarrow> string" where
  "authority_text u =
     (if url_Scheme u \<noteq> [] \<or> url_Host u \<noteq> [] \<or> url_User u \<noteq> None then
        (if url_Host u \<noteq> [] \<or> url_Path u \<noteq> [] \<or> url_User u \<noteq> None then ''//'' else []) @
        (case url_User u of None \<Rightarrow> [] | Some ui \<Rightarrow> Userinfo_String ui @ ''@'') @
        url_escape (url_Host u) encodeHost
      else [])"

definition url_String :: "url \<Rightarrow> string" where
  "url_String u =
     (let front = (if url_Scheme u \<noteq> [] then url_Scheme u @ '':'' else []);
          rest = (if url_Opaque u \<noteq> [] then url_Opaque u
            else
              let before = authority_text u;
                  path = EscapedPath u;
                  slash = (if path \<noteq> [] \<and> \<not> HasPrefix path ''/'' \<and> url_Host u \<noteq> [] then ''/'' else []);
                  dot = (if front @ before @ slash = [] \<and> CHR '':'' \<in> set (takeWhile (\<lambda>c. c \<noteq> CHR ''/'') path) then ''./'' else [])
              in before @ slash @ dot @ path)
      in front @ rest @ (if url_ForceQuery u \<or> url_RawQuery u \<noteq> [] then CHR ''?'' # url_RawQuery u else []) @
         (if url_Fragment u \<noteq> [] then CHR ''#'' # url_escape (url_Fragment u) encodeFragment else []))"

section \<open>References\<close>

definition path_step :: "string list \<Rightarrow> string \<Rightarrow> string list" where
  "path_step dst elem = (if elem = ''.'' then dst else if elem = ''..'' then butlast dst else dst @ [elem])"

definition resolvePath :: "string \<Rightarrow> string \<Rightarrow> string" where
  "resolvePath base ref =
     (let full = (if ref = [] then base
                  else if \<not> HasPrefix ref ''/'' then (case cut_last (CHR ''/'') base of None \<Rightarrow> ref | Some (b, _) \<Rightarrow> b @ ''/'' @ ref)
                  else ref) in
      if full = [] then []
      else
        let src = split_sep (\<lambda>c. c = CHR ''/'') full;
            dst = foldl path_step [] src;
            dst = (if last src = ''.'' \<or> last src = ''..'' then dst @ [[]] else dst);
            joined = Join dst ''/''
        in ''/'' @ (if HasPrefix joined ''/'' then drop 1 joined else joined))"

text \<open>The error of \<open>setPath\<close> is ignored where a reference is resolved.\<close>

definition set_path :: "string \<Rightarrow> url \<Rightarrow> url" where
  "set_path p u = (case setPath p u of Inl _ \<Rightarrow> u | Inr v \<Rightarrow> v)"

definition ResolveReference :: "url \<Rightarrow> url \<Rightarrow> url" where
  "ResolveReference u ref =
     (let url = (if url_Scheme ref = [] then ref\<lparr>url_Scheme := url_Scheme u\<rparr> else ref) in
      if url_Scheme ref \<noteq> [] \<or> url_Host ref \<noteq> [] \<or> url_User ref \<noteq> None then
        set_path (resolvePath (EscapedPath ref) []) url
      else if url_Opaque ref \<noteq> [] then url\<lparr>url_User := None, url_Host := [], url_Path := []\<rparr>
      else
        let url = (if url_Path ref = [] \<and> url_RawQuery ref = [] then
                     (let url = url\<lparr>url_RawQuery := url_RawQuery u\<rparr>
                      in if url_Fragment ref = [] then url\<lparr>url_Fragment := url_Fragment u\<rparr> else url)
                   else url);
            url = url\<lparr>url_Host := url_Host u, url_User := url_User u\<rparr>
        in set_path (resolvePath (EscapedPath u) (EscapedPath ref)) url)"

section \<open>Facts\<close>

lemma getscheme_stellar: "getscheme (''web+stellar:'' @ rest) = Inr (''web+stellar'', rest)"
  by (simp add: getscheme_def less_eq_char_def)

text \<open>Characters that are written as they are.\<close>

lemma shouldEscape_always: "shouldEscape CHR ''%'' mode" "shouldEscape CHR '' '' mode" "shouldEscape CHR ''#'' mode"
  by (cases mode; simp add: shouldEscape_def less_eq_char_def)+

lemma shouldEscape_not: "\<not> shouldEscape c mode \<Longrightarrow> c \<noteq> CHR ''%'' \<and> c \<noteq> CHR '' '' \<and> c \<noteq> CHR ''#''"
  using shouldEscape_always by blast

lemma unescaped_printable:
  assumes "\<not> shouldEscape c mode"
  shows "CHR ''!'' \<le> c \<and> c \<le> CHR ''~''"
proof -
  define printable where "printable d \<longleftrightarrow> CHR ''!'' \<le> d \<and> d \<le> CHR ''~''" for d
  have lits: "list_all printable (CHR 0x27 # CHR 0x22 # ''!$&()*+,;=:[]<>'')" "list_all printable ''-_.~''"
      "list_all printable ''$&+,/:;=?@''" "list_all printable ''!()*''"
    unfolding printable_def by code_simp+
  have alnum: "(CHR ''a'' \<le> c \<and> c \<le> CHR ''z'') \<or> (CHR ''A'' \<le> c \<and> c \<le> CHR ''Z'') \<or> (CHR ''0'' \<le> c \<and> c \<le> CHR ''9'') \<Longrightarrow> printable c"
    by (auto simp: printable_def less_eq_char_def)
  have "printable c"
  proof (rule ccontr)
    assume n: "\<not> printable c"
    then have "c \<notin> set (CHR 0x27 # CHR 0x22 # ''!$&()*+,;=:[]<>'')" "c \<notin> set ''-_.~''" "c \<notin> set ''$&+,/:;=?@''" "c \<notin> set ''!()*''"
      using lits unfolding list_all_iff by metis+
    moreover have "\<not> ((CHR ''a'' \<le> c \<and> c \<le> CHR ''z'') \<or> (CHR ''A'' \<le> c \<and> c \<le> CHR ''Z'') \<or> (CHR ''0'' \<le> c \<and> c \<le> CHR ''9''))"
      using n alnum by metis
    ultimately have "shouldEscape c mode" unfolding shouldEscape_def by (simp only: simp_thms if_False)
    with assms show False by simp
  qed
  then show ?thesis by (simp add: printable_def)
qed

lemma path_char: "\<not> shouldEscape c encodePath \<Longrightarrow> c \<noteq> CHR ''?'' \<and> \<not> ctl_byte c"
proof -
  have "shouldEscape CHR ''?'' encodePath" by (simp add: shouldEscape_def less_eq_char_def)
  then show "\<not> shouldEscape c encodePath \<Longrightarrow> c \<noteq> CHR ''?'' \<and> \<not> ctl_byte c"
    using unescaped_printable [of c encodePath] by (auto simp: ctl_byte_def less_eq_char_def less_char_def)
qed

lemma host_char:
  "\<not> shouldEscape c encodeHost \<Longrightarrow> c \<noteq> CHR ''?'' \<and> c \<noteq> CHR ''/'' \<and> c \<noteq> CHR ''@'' \<and> \<not> ctl_byte c"
proof -
  have "shouldEscape CHR ''?'' encodeHost" "shouldEscape CHR ''/'' encodeHost" "shouldEscape CHR ''@'' encodeHost" by (simp_all add: shouldEscape_def less_eq_char_def)
  then show "\<not> shouldEscape c encodeHost \<Longrightarrow> c \<noteq> CHR ''?'' \<and> c \<noteq> CHR ''/'' \<and> c \<noteq> CHR ''@'' \<and> \<not> ctl_byte c"
    using unescaped_printable [of c encodeHost] by (auto simp: ctl_byte_def less_eq_char_def less_char_def)
qed

lemma url_escape_plain: "list_all (\<lambda>c. \<not> shouldEscape c mode) s \<Longrightarrow> url_escape s mode = s"
  by (induction s) (auto simp: url_escape_def dest: shouldEscape_not)

lemma url_unescape_plain:
  "list_all (\<lambda>c. \<not> shouldEscape c mode) s \<Longrightarrow> mode \<noteq> encodeQueryComponent \<Longrightarrow> url_unescape s mode = Inr s"
  by (induction s) (auto simp: bad_in_host_def dest: shouldEscape_not)

lemma setPath_plain:
  "list_all (\<lambda>c. \<not> shouldEscape c encodePath) p \<Longrightarrow> setPath p u = Inr (u\<lparr>url_Path := p, url_RawPath := []\<rparr>)"
  by (simp add: setPath_def url_unescape_plain url_escape_plain)

lemma EscapedPath_plain:
  "list_all (\<lambda>c. \<not> shouldEscape c encodePath) (url_Path u) \<Longrightarrow> url_RawPath u = [] \<Longrightarrow> EscapedPath u = url_Path u"
  by (simp add: EscapedPath_def url_escape_plain)

text \<open>A path without dot segments is resolved as it is.\<close>

definition no_dots :: "string \<Rightarrow> bool" where
  "no_dots p \<longleftrightarrow> ''.'' \<notin> set (split_sep (\<lambda>c. c = CHR ''/'') p) \<and> ''..'' \<notin> set (split_sep (\<lambda>c. c = CHR ''/'') p)"

lemma path_steps: "''.'' \<notin> set es \<Longrightarrow> ''..'' \<notin> set es \<Longrightarrow> foldl path_step d es = d @ es"
  by (induction es arbitrary: d) (auto simp: path_step_def)

lemma Join_split: "Join (split_sep (\<lambda>c. c = d) s) [d] = s"
proof (induction s)
  case (Cons c s)
  obtain f fs where "split_sep (\<lambda>c. c = d) s = f # fs" by (cases "split_sep (\<lambda>c. c = d) s") auto
  with Cons show ?case by (cases fs) auto
qed simp

lemma resolvePath_plain:
  assumes "no_dots p" "HasPrefix p ''/''"
  shows "resolvePath base p = p"
proof -
  let ?es = "split_sep (\<lambda>c. c = CHR ''/'') p"
  have "last ?es \<in> set ?es" by simp
  then have "last ?es \<noteq> ''.''" "last ?es \<noteq> ''..''" using assms(1) unfolding no_dots_def by metis+
  then show ?thesis using assms Join_split [of "CHR ''/''" p] path_steps [of ?es "[]"]
    by (cases p) (auto simp: resolvePath_def no_dots_def Let_def HasPrefix_def)
qed

section \<open>Plain links\<close>

definition plain_scheme :: "string \<Rightarrow> bool" where
  "plain_scheme s \<longleftrightarrow> s \<noteq> [] \<and> list_all (\<lambda>c. CHR ''a'' \<le> c \<and> c \<le> CHR ''z'') s"

definition plain_host :: "string \<Rightarrow> bool" where
  "plain_host h \<longleftrightarrow> h \<noteq> [] \<and> list_all (\<lambda>c. \<not> shouldEscape c encodeHost) h \<and> parseHost h = Inr h"

definition plain_path :: "string \<Rightarrow> bool" where
  "plain_path p \<longleftrightarrow> list_all (\<lambda>c. \<not> shouldEscape c encodePath) p \<and> (p = [] \<or> HasPrefix p ''/'')"

text \<open>Nothing, or a question mark and the parameters.\<close>

definition plain_query :: "string \<Rightarrow> bool" where
  "plain_query q \<longleftrightarrow> list_all (\<lambda>c. c \<noteq> CHR ''#'' \<and> \<not> ctl_byte c) q \<and> (q = [] \<or> HasPrefix q ''?'')"

definition plain_url :: "string \<Rightarrow> string \<Rightarrow> string \<Rightarrow> string \<Rightarrow> url" where
  "plain_url s h p q = empty_url\<lparr>url_Scheme := s, url_Host := h, url_Path := p, url_ForceQuery := q = ''?'', url_RawQuery := drop 1 q\<rparr>"

lemma ToLower_lower: "list_all (\<lambda>c. CHR ''a'' \<le> c \<and> c \<le> CHR ''z'') s \<Longrightarrow> ToLower s = s"
  by (induction s rule: ToLower.induct) (auto simp: HasPrefix_def less_eq_char_def)

lemma getscheme_lower: "plain_scheme s \<Longrightarrow> getscheme (s @ CHR '':'' # r) = Inr (s, r)"
proof -
  have "scheme_loop raw seen (t @ CHR '':'' # r) = Inr (seen @ t, r)"
    if "list_all (\<lambda>c. CHR ''a'' \<le> c \<and> c \<le> CHR ''z'') t" "seen @ t \<noteq> []" for raw seen t
    using that by (induction t arbitrary: seen) (auto simp: less_eq_char_def)
  then show "plain_scheme s \<Longrightarrow> getscheme (s @ CHR '':'' # r) = Inr (s, r)" by (simp add: getscheme_def plain_scheme_def)
qed

lemma getscheme_path: "getscheme (CHR ''/'' # r) = Inr ([], CHR ''/'' # r)"
  by (simp add: getscheme_def less_eq_char_def)

lemma cut_query_plain: "CHR ''?'' \<notin> set r \<Longrightarrow> plain_query q \<Longrightarrow> cut_query (r @ q) = (r, q = ''?'', drop 1 q)"
  by (cases q) (auto simp: cut_query_def plain_query_def HasPrefix_def)

lemma takeWhile_host: "CHR ''/'' \<notin> set h \<Longrightarrow> p = [] \<or> HasPrefix p ''/'' \<Longrightarrow>
    takeWhile (\<lambda>c. c \<noteq> CHR ''/'') (h @ p) = h \<and> dropWhile (\<lambda>c. c \<noteq> CHR ''/'') (h @ p) = p"
proof -
  assume h: "CHR ''/'' \<notin> set h" and p: "p = [] \<or> HasPrefix p ''/''"
  have "takeWhile (\<lambda>c. c \<noteq> CHR ''/'') (h @ p) = h @ takeWhile (\<lambda>c. c \<noteq> CHR ''/'') p"
    "dropWhile (\<lambda>c. c \<noteq> CHR ''/'') (h @ p) = dropWhile (\<lambda>c. c \<noteq> CHR ''/'') p"
    using h by (auto intro!: takeWhile_append2 dropWhile_append2)
  then show ?thesis using p by (cases p) (auto simp: HasPrefix_def)
qed

lemma plain_host_chars: "plain_host h \<Longrightarrow> c \<in> set h \<Longrightarrow> c \<noteq> CHR ''?'' \<and> c \<noteq> CHR ''/'' \<and> c \<noteq> CHR ''@'' \<and> c \<noteq> CHR ''#'' \<and> \<not> ctl_byte c"
  using host_char [of c] shouldEscape_not [of c encodeHost] by (auto simp: plain_host_def list_all_iff)

lemma plain_path_chars: "plain_path p \<Longrightarrow> c \<in> set p \<Longrightarrow> c \<noteq> CHR ''?'' \<and> c \<noteq> CHR ''#'' \<and> \<not> ctl_byte c"
  using path_char [of c] shouldEscape_not [of c encodePath] by (auto simp: plain_path_def list_all_iff)

lemma parse_rest_host:
  assumes "plain_host h" "plain_path p" "url_Scheme u \<noteq> []"
  shows "parse_rest (''//'' @ h @ p) u = Inr (u\<lparr>url_User := None, url_Host := h, url_Path := p, url_RawPath := []\<rparr>)"
proof -
  have "CHR ''/'' \<notin> set h" "CHR ''@'' \<notin> set h" using plain_host_chars [OF assms(1)] by blast+
  then show ?thesis using assms takeWhile_host [of h p]
    by (simp add: parse_rest_def HasPrefix_def parseAuthority_def cut_last_def plain_host_def plain_path_def setPath_plain)
qed

lemma url_Parse_plain:
  assumes "plain_scheme s" "plain_host h" "plain_path p" "plain_query q"
  shows "url_Parse (s @ ''://'' @ h @ p @ q) = Inr (plain_url s h p q)"
proof -
  have "c \<noteq> CHR ''#'' \<and> \<not> ctl_byte c" if "c \<in> set s" for c
    using assms(1) that by (auto simp: plain_scheme_def list_all_iff ctl_byte_def less_eq_char_def less_char_def)
  moreover have "c \<noteq> CHR ''#'' \<and> \<not> ctl_byte c" if "c \<in> set q" for c using assms(4) that by (auto simp: plain_query_def list_all_iff)
  moreover have "\<not> ctl_byte CHR '':''" "\<not> ctl_byte CHR ''/''" by (simp_all add: ctl_byte_def less_char_def)
  ultimately have chars: "CHR ''#'' \<notin> set (s @ ''://'' @ h @ p @ q)" "\<not> list_ex ctl_byte (s @ ''://'' @ h @ p @ q)"
    using plain_host_chars [OF assms(2)] plain_path_chars [OF assms(3)] by (auto simp: list_ex_iff)
  have "s @ ''://'' @ h @ p @ q = s @ CHR '':'' # (''//'' @ h @ p) @ q" by simp
  moreover have "s @ ''://'' @ h @ p @ q \<noteq> ''*''" using assms(1) by (cases s) auto
  moreover have "CHR ''?'' \<notin> set (''//'' @ h @ p)" using plain_host_chars [OF assms(2)] plain_path_chars [OF assms(3)] by auto
  from cut_query_plain [OF this assms(4)] have "cut_query ((''//'' @ h @ p) @ q) = (''//'' @ h @ p, q = ''?'', drop 1 q)" .
  ultimately have "parse_url (s @ ''://'' @ h @ p @ q) = Inr (plain_url s h p q)"
    using chars(2) getscheme_lower [OF assms(1), of "(''//'' @ h @ p) @ q"] assms(1)
      parse_rest_host [OF assms(2,3), of "empty_url\<lparr>url_Scheme := s, url_ForceQuery := q = ''?'', url_RawQuery := drop 1 q\<rparr>"]
    by (simp add: parse_url_def plain_scheme_def ToLower_lower plain_url_def empty_url_def)
  then show ?thesis using chars(1) by (simp add: url_Parse_def)
qed

lemma url_Parse_path:
  assumes "plain_path p" "p \<noteq> []" "\<not> HasPrefix p ''//''" "plain_query q"
  shows "url_Parse (p @ q) = Inr (plain_url [] [] p q)"
proof -
  obtain r where p: "p = CHR ''/'' # r" using assms(1,2) by (cases p) (auto simp: plain_path_def HasPrefix_def)
  have "c \<noteq> CHR ''#'' \<and> \<not> ctl_byte c" if "c \<in> set q" for c using assms(4) that by (auto simp: plain_query_def list_all_iff)
  then have chars: "CHR ''#'' \<notin> set (p @ q)" "\<not> list_ex ctl_byte (p @ q)"
    using plain_path_chars [OF assms(1)] by (auto simp: list_ex_iff)
  have "CHR ''?'' \<notin> set p" using plain_path_chars [OF assms(1)] by blast
  from cut_query_plain [OF this assms(4)] have q: "cut_query (p @ q) = (p, q = ''?'', drop 1 q)" .
  have rest: "HasPrefix p ''/''" "list_all (\<lambda>c. \<not> shouldEscape c encodePath) p" using assms(1,2) by (auto simp: plain_path_def)
  have "parse_rest p u = Inr (u\<lparr>url_Path := p, url_RawPath := []\<rparr>)" for u
    using rest assms(3) by (simp add: parse_rest_def setPath_plain)
  moreover have "getscheme (p @ q) = Inr ([], p @ q)" "p @ q \<noteq> ''*''" using getscheme_path [of "r @ q"] by (simp_all add: p)
  ultimately have "parse_url (p @ q) = Inr (plain_url [] [] p q)"
    using chars(2) q by (simp add: parse_url_def plain_url_def empty_url_def)
  then show ?thesis using chars(1) by (simp add: url_Parse_def)
qed

lemma set_path_plain: "plain_path p \<Longrightarrow> set_path p u = u\<lparr>url_Path := p, url_RawPath := []\<rparr>"
  by (simp add: set_path_def setPath_plain plain_path_def)

lemma ResolveReference_plain:
  assumes "plain_path p" "p \<noteq> []" "no_dots p"
  shows "ResolveReference (plain_url s h b []) (plain_url [] [] p q) = plain_url s h p q"
proof -
  have p: "HasPrefix p ''/''" "list_all (\<lambda>c. \<not> shouldEscape c encodePath) p" using assms(1,2) by (auto simp: plain_path_def)
  have "EscapedPath (plain_url [] [] p q) = p" by (simp add: plain_url_def empty_url_def EscapedPath_plain p(2))
  then show ?thesis
    using assms(2) resolvePath_plain [OF assms(3) p(1)] set_path_plain [OF assms(1)]
    by (simp add: ResolveReference_def Let_def) (simp add: plain_url_def empty_url_def)
qed

lemma url_String_plain:
  assumes "plain_scheme s" "plain_host h" "plain_path p" "plain_query q"
  shows "url_String (plain_url s h p q) = s @ ''://'' @ h @ p @ q"
proof -
  have p: "EscapedPath (plain_url s h p q) = p" "p \<noteq> [] \<Longrightarrow> HasPrefix p ''/''"
    using assms(3) by (auto simp: plain_path_def plain_url_def empty_url_def EscapedPath_plain)
  have h: "url_escape h encodeHost = h" "h \<noteq> []" using assms(2) by (simp_all add: plain_host_def url_escape_plain)
  have q: "(if q = ''?'' \<or> drop (Suc 0) q \<noteq> [] then CHR ''?'' # drop (Suc 0) q else []) = q"
    using assms(4) by (cases q) (auto simp: plain_query_def HasPrefix_def)
  have s: "s \<noteq> []" using assms(1) by (simp add: plain_scheme_def)
  have f: "url_Scheme (plain_url s h p q) = s" "url_Opaque (plain_url s h p q) = []" "url_User (plain_url s h p q) = None"
    "url_Host (plain_url s h p q) = h" "url_ForceQuery (plain_url s h p q) \<longleftrightarrow> q = ''?''"
    "url_RawQuery (plain_url s h p q) = drop (Suc 0) q" "url_Fragment (plain_url s h p q) = []"
    by (simp_all add: plain_url_def empty_url_def)
  have "authority_text (plain_url s h p q) = ''//'' @ h" using s h by (simp add: authority_text_def f)
  then show ?thesis using p s h unfolding url_String_def Let_def f q by auto
qed

end
