(* ===== verification/Horizon.thy ===== *)
theory Horizon
  imports Tx_Build Go_Url
begin

text \<open>
  The horizon client as the program uses it. The server and the network are a state of
  type \<open>'w\<close>; the client's calls are operations on it, and with the decoders of
  \<open>encoding/json\<close> and the parser of \<open>net/url\<close> they are the parameter \<open>horizon\<close>. On top of
  them: the strict JSON getter and the links of \<open>account.go\<close>, \<open>seq.go\<close>, the pages of
  \<open>pages.go\<close> and \<open>Submit\<close>.
\<close>

section \<open>Operations with errors\<close>

text \<open>A call that can fail and can change the state it runs in.\<close>

type_synonym ('s, 'a) op = "'s \<Rightarrow> 'a res \<times> 's"

definition op_return :: "'a \<Rightarrow> ('s, 'a) op" where "op_return x s = (Inr x, s)"

definition op_lift :: "'a res \<Rightarrow> ('s, 'a) op" where "op_lift r s = (r, s)"

definition op_bind :: "('s, 'a) op \<Rightarrow> ('a \<Rightarrow> ('s, 'b) op) \<Rightarrow> ('s, 'b) op" where
  "op_bind m f s = (case m s of (Inl e, s') \<Rightarrow> (Inl e, s') | (Inr x, s') \<Rightarrow> f x s')"

text \<open>\<open>if err != nil { return f(err) }\<close>\<close>

definition op_map_err :: "(go_error \<Rightarrow> go_error) \<Rightarrow> ('s, 'a) op \<Rightarrow> ('s, 'a) op" where
  "op_map_err f m s = (case m s of (r, s') \<Rightarrow> (map_err f r, s'))"

lemma op_return_apply [simp, res_simps]: "op_return x s = (Inr x, s)" by (simp add: op_return_def)
lemma op_lift_apply [simp, res_simps]: "op_lift r s = (r, s)" by (simp add: op_lift_def)

lemma op_bind_eq_Inr:
  "op_bind m f s = (Inr y, t) \<longleftrightarrow> (\<exists>x s'. m s = (Inr x, s') \<and> f x s' = (Inr y, t))"
  by (auto simp: op_bind_def split: prod.splits sum.splits)

lemma op_bind_Inr [simp, res_simps]: "m s = (Inr x, s') \<Longrightarrow> op_bind m f s = f x s'"
  by (simp add: op_bind_def)

lemma op_bind_Inl [simp, res_simps]: "m s = (Inl e, s') \<Longrightarrow> op_bind m f s = (Inl e, s')"
  by (simp add: op_bind_def)

lemma op_map_err_eq_Inr [simp]: "op_map_err h m s = (Inr x, t) \<longleftrightarrow> m s = (Inr x, t)"
  by (auto simp: op_map_err_def split: prod.splits)

lemma op_bind_assoc: "op_bind (op_bind m f) g = op_bind m (\<lambda>x. op_bind (f x) g)"
  by (rule ext) (auto simp: op_bind_def split: prod.splits sum.splits)

section \<open>The data horizon returns\<close>

record hAsset =
  h_Type :: string
  h_Code :: string
  h_Issuer :: string

record hBalance =
  bal_Balance :: string
  bal_Limit :: string
  bal_Asset :: hAsset

record hSigner =
  sgn_Weight :: int32
  sgn_Key :: string

record hAccount =
  acc_AccountID :: string
  acc_Sequence :: string
  acc_SubentryCount :: int32
  acc_InflationDestination :: string
  acc_LowThreshold :: byte
  acc_MedThreshold :: byte
  acc_HighThreshold :: byte
  acc_Balances :: "hBalance list"
  acc_Signers :: "hSigner list"

record hTransaction =
  htx_ID :: string
  htx_Hash :: string
  htx_Ledger :: int32
  htx_ResultXdr :: string

record hResponse =
  resp_StatusCode :: int
  resp_Status :: string
  resp_Body :: string

record hEffect =
  eff_Type :: string
  eff_Amount :: string

record AssetEmbed =
  ae_WellKnown :: string
  ae_AssetType :: string
  ae_AssetCode :: string
  ae_AssetIssuer :: string
  ae_PagingToken :: string
  ae_Amount :: string
  ae_NumAccounts :: int
  ae_AuthRequired :: bool
  ae_AuthRevocable :: bool

record hPayment = pm_ID :: string  pm_Type :: string  pm_From :: string  pm_To :: string  pm_Amount :: string

text \<open>An operation of any kind; \<open>CreatedAt\<close> is the text of the time.\<close>

record hOperation =
  ho_ID :: string
  ho_PagingToken :: string
  ho_SourceAccount :: string
  ho_Type :: string
  ho_CreatedAt :: string
  ho_TransactionHash :: string
  ho_Account :: string
  ho_StartingBalance :: string
  ho_Funder :: string
  ho_AssetType :: string
  ho_From :: string
  ho_To :: string
  ho_Amount :: string

record FullPath =
  fp_SourceAmount :: string
  fp_SourceAssetType :: string
  fp_SourceAssetCode :: string
  fp_SourceAssetIssuer :: string
  fp_Path :: "PathAsset list"
  fp_DestinationAmount :: string
  fp_DestinationAssetType :: string
  fp_DestinationAssetCode :: string
  fp_DestinationAssetIssuer :: string

text \<open>
  The pages of \<open>pages.go\<close>: links to the page itself and those around it, and the records.
  A link is its \<open>href\<close>; \<open>TransactionEmbed\<close> embeds a transaction and adds nothing.
\<close>

record page_links =
  link_Self :: string
  link_Next :: string
  link_Prev :: string

type_synonym TransactionEmbed = hTransaction

record TransactionsPage =
  trp_Links :: page_links
  trp_Records :: "TransactionEmbed list"

record PaymentsPage =
  pmp_Links :: page_links
  pmp_Records :: "hPayment list"

record OperationsPage =
  opp_Links :: page_links
  opp_Records :: "hOperation list"

record EffectsPage =
  efp_Records :: "hEffect list"

record AssetsPage =
  ap_Links :: page_links
  ap_Records :: "AssetEmbed list"

record PathsPage =
  pap_Links :: page_links
  pap_Records :: "FullPath list"

definition PathAssetSliceToAssetBase :: "PathAsset list \<Rightarrow> AssetBase list" where
  "PathAssetSliceToAssetBase path = map Path path"

definition SourceAsset :: "FullPath \<Rightarrow> AssetMinimal" where
  "SourceAsset f = \<lparr>AssetType = fp_SourceAssetType f, AssetCode = fp_SourceAssetCode f, AssetIssuer = fp_SourceAssetIssuer f\<rparr>"

definition DestinationAsset :: "FullPath \<Rightarrow> AssetMinimal" where
  "DestinationAsset f =
     \<lparr>AssetType = fp_DestinationAssetType f, AssetCode = fp_DestinationAssetCode f, AssetIssuer = fp_DestinationAssetIssuer f\<rparr>"

definition SameAsset :: "FullPath \<Rightarrow> bool" where
  "SameAsset f =
     (if fp_SourceAssetType f \<noteq> fp_DestinationAssetType f then False
      else if fp_SourceAssetCode f \<noteq> fp_DestinationAssetCode f then False
      else if fp_SourceAssetIssuer f \<noteq> fp_DestinationAssetIssuer f then False
      else True)"

lemma SameAsset_iff: "SameAsset f \<longleftrightarrow> SourceAsset f = DestinationAsset f"
  by (auto simp: SameAsset_def SourceAsset_def DestinationAsset_def)

section \<open>The client\<close>

text \<open>
  The \<open>json\<close> fields decode a body; \<open>error_text\<close> is \<open>Error()\<close>.
\<close>

record 'w horizon =
  HorizonURL :: string
  hz_AccountDetail :: "string \<Rightarrow> ('w, hAccount) op"
  hz_SubmitTransactionXDR :: "string \<Rightarrow> ('w, hTransaction) op"
  hz_Get :: "string \<Rightarrow> ('w, hResponse) op"
  json_Problem :: "string \<Rightarrow> horizon_error res"
  json_AssetsPage :: "string \<Rightarrow> AssetsPage res"
  json_Effects :: "string \<Rightarrow> EffectsPage res"
  json_Payments :: "string \<Rightarrow> PaymentsPage res"
  json_Transactions :: "string \<Rightarrow> TransactionsPage res"
  json_Operations :: "string \<Rightarrow> OperationsPage res"
  json_Transaction :: "string \<Rightarrow> TransactionEmbed res"
  json_hAssets :: "string \<Rightarrow> hAsset list res"
  json_Paths :: "string \<Rightarrow> PathsPage res"
  error_text :: "go_error \<Rightarrow> string"

definition horizonLink :: "string \<Rightarrow> string \<Rightarrow> string res" where
  "horizonLink base path =
     and_then (url_Parse base) (\<lambda>u. and_then (url_Parse path) (\<lambda>ref. Inr (url_String (ResolveReference u ref))))"

definition getDecodeJSONStrict :: "'w horizon \<Rightarrow> string \<Rightarrow> (string \<Rightarrow> 'p res) \<Rightarrow> ('w, 'p) op" where
  "getDecodeJSONStrict H urlIn decode =
     op_bind (op_map_err errMap (op_lift (url_Parse urlIn))) (\<lambda>urlParsed.
     op_bind (op_map_err errMap (hz_Get H (url_String urlParsed))) (\<lambda>resp.
       if resp_StatusCode resp \<noteq> 200 then
         (case json_Problem H (resp_Body resp) of
            Inl e \<Rightarrow> op_lift (Inl (StellarError ''stellar network error''
              (''horizon http error: '' @ show_int (resp_StatusCode resp) @ '' '' @ resp_Status resp @ '', decode body error: '' @ error_text H e)
              (Some \<lparr>hz_status = 0, hz_problem = [], hz_codes = None\<rparr>) None))
          | Inr herr \<Rightarrow> op_lift (Inl (errMap (HorizonError herr))))
       else op_map_err errMap (op_lift (decode (resp_Body resp)))))"

text \<open>\<open>seq.go\<close>\<close>

definition GetSequenceNumber :: "hAccount \<Rightarrow> int64 res" where
  "GetSequenceNumber a =
     (case parse_int 64 (acc_Sequence a) of
        Inl e \<Rightarrow> Inl (Wrapped ''Failed to parse account sequence number'' e)
      | Inr n \<Rightarrow> Inr (word_of_int n))"

definition SequenceForAccount :: "'w horizon \<Rightarrow> string \<Rightarrow> ('w, int64) op" where
  "SequenceForAccount H aid = op_bind (hz_AccountDetail H aid) (\<lambda>acct. op_lift (GetSequenceNumber acct))"

section \<open>Submission\<close>

definition submitAttempts :: nat where "submitAttempts = 3"

record SubmitResult =
  sub_Ledger :: int32
  sub_TxID :: string
  sub_Attempt :: int
  sub_ResultXDR :: string

text \<open>The errors after which a submission is tried again: a timeout, or \<open>tx_bad_seq\<close>.\<close>

definition retries :: "go_error \<Rightarrow> bool" where
  "retries e =
     (case errors_Cause e of
        UrlError u \<Rightarrow> ue_timeout u
      | HorizonError h \<Rightarrow> (case hz_codes h of None \<Rightarrow> False | Some (txCode, _) \<Rightarrow> txCode = ''tx_bad_seq'')
      | _ \<Rightarrow> False)"

definition failed_attempt :: "nat \<Rightarrow> SubmitResult" where
  "failed_attempt i = \<lparr>sub_Ledger = 0, sub_TxID = [], sub_Attempt = int i, sub_ResultXDR = []\<rparr>"

text \<open>
  The loop of \<open>Submit\<close> with \<open>n\<close> attempts left; \<open>prev\<close> is the error of the attempt before.
  \<open>Submit\<close> returns a result next to its error.
\<close>

primrec submit_loop :: "'w horizon \<Rightarrow> string \<Rightarrow> nat \<Rightarrow> go_error option \<Rightarrow> 'w \<Rightarrow> (SubmitResult \<times> go_error option) \<times> 'w" where
  "submit_loop H tx 0 prev w = ((failed_attempt submitAttempts, map_option errMap prev), w)"
| "submit_loop H tx (Suc n) prev w =
     (let i = submitAttempts - Suc n in
      case hz_SubmitTransactionXDR H tx w of
        (Inl e, w') \<Rightarrow>
          if retries e then submit_loop H tx n (Some e) w'
          else ((failed_attempt i, Some (errMap e)), w')
      | (Inr resp, w') \<Rightarrow>
          ((\<lparr>sub_Ledger = htx_Ledger resp, sub_TxID = htx_Hash resp, sub_Attempt = int i, sub_ResultXDR = htx_ResultXdr resp\<rparr>,
            None), w'))"

definition Submit :: "'w horizon \<Rightarrow> string \<Rightarrow> 'w \<Rightarrow> (SubmitResult \<times> go_error option) \<times> 'w" where
  "Submit H tx w = submit_loop H tx submitAttempts None w"

text \<open>The ledger, the transaction identifier and the attempt, next to the error.\<close>

type_synonym submitted = "(int32 \<times> string \<times> int) \<times> go_error option"

definition submitNoResultXDR :: "'w horizon \<Rightarrow> string \<Rightarrow> 'w \<Rightarrow> submitted \<times> 'w" where
  "submitNoResultXDR H tx w =
     (case Submit H tx w of ((res, e), w') \<Rightarrow> (((sub_Ledger res, sub_TxID res, sub_Attempt res), e), w'))"

section \<open>What a submission does\<close>

text \<open>
  The successive results of the server: attempt \<open>i\<close> is made in the state the \<open>i\<close> attempts
  before it left.
\<close>

fun world_after :: "'w horizon \<Rightarrow> string \<Rightarrow> nat \<Rightarrow> 'w \<Rightarrow> 'w" where
  "world_after H tx 0 w = w"
| "world_after H tx (Suc i) w = world_after H tx i (snd (hz_SubmitTransactionXDR H tx w))"

definition attempt :: "'w horizon \<Rightarrow> string \<Rightarrow> nat \<Rightarrow> 'w \<Rightarrow> hTransaction res" where
  "attempt H tx i w = fst (hz_SubmitTransactionXDR H tx (world_after H tx i w))"

lemma attempt_Suc: "attempt H tx (Suc i) w = attempt H tx i (snd (hz_SubmitTransactionXDR H tx w))"
  by (simp add: attempt_def)

definition retried :: "'w horizon \<Rightarrow> string \<Rightarrow> nat \<Rightarrow> 'w \<Rightarrow> bool" where
  "retried H tx i w \<longleftrightarrow> (\<exists>e. attempt H tx i w = Inl e \<and> retries e)"

text \<open>The outcome of an attempt that is not tried again.\<close>

definition submit_outcome :: "nat \<Rightarrow> hTransaction res \<Rightarrow> SubmitResult \<times> go_error option" where
  "submit_outcome i r =
     (case r of
        Inl e \<Rightarrow> (failed_attempt i, Some (errMap e))
      | Inr resp \<Rightarrow> (\<lparr>sub_Ledger = htx_Ledger resp, sub_TxID = htx_Hash resp, sub_Attempt = int i, sub_ResultXDR = htx_ResultXdr resp\<rparr>, None))"

lemma submit_loop_Suc:
  "submit_loop H tx (Suc n) prev w =
     (case attempt H tx 0 w of
        Inl e \<Rightarrow> if retries e then submit_loop H tx n (Some e) (world_after H tx 1 w)
          else (submit_outcome (submitAttempts - Suc n) (Inl e), world_after H tx 1 w)
      | Inr resp \<Rightarrow> (submit_outcome (submitAttempts - Suc n) (Inr resp), world_after H tx 1 w))"
  by (auto simp: attempt_def submit_outcome_def Let_def split: prod.splits sum.splits)

text \<open>
  A server on which hypotheses are discharged: its state counts the submissions, the first
  two time out, the third is accepted; it has no accounts and answers no other request.
\<close>

definition demo_timeout :: go_error where
  "demo_timeout = UrlError \<lparr>ue_url = ''https://horizon'', ue_text = ''timeout'', ue_timeout = True\<rparr>"

definition demo_horizon :: "nat horizon" where
  "demo_horizon = \<lparr>HorizonURL = ''https://horizon'',
     hz_AccountDetail = (\<lambda>a w. (Inl (HorizonError \<lparr>hz_status = 404, hz_problem = [], hz_codes = None\<rparr>), w)),
     hz_SubmitTransactionXDR = (\<lambda>tx w. (if w < 2 then Inl demo_timeout
        else Inr \<lparr>htx_ID = ''id'', htx_Hash = ''hash'', htx_Ledger = 5, htx_ResultXdr = ''xdr''\<rparr>, Suc w)),
     hz_Get = (\<lambda>u w. (Inl (NewError ''no answer''), w)),
     json_Problem = (\<lambda>b. Inl (NewError ''json'')), json_AssetsPage = (\<lambda>b. Inl (NewError ''json'')),
     json_Effects = (\<lambda>b. Inl (NewError ''json'')), json_Payments = (\<lambda>b. Inl (NewError ''json'')),
     json_Transactions = (\<lambda>b. Inl (NewError ''json'')), json_Operations = (\<lambda>b. Inl (NewError ''json'')),
     json_Transaction = (\<lambda>b. Inl (NewError ''json'')), json_hAssets = (\<lambda>b. Inl (NewError ''json'')),
     json_Paths = (\<lambda>b. Inl (NewError ''json'')), error_text = (\<lambda>e. ''error'')\<rparr>"

text \<open>One round of the loop, seen from the first state of the world.\<close>

lemma attempt_shift: "attempt H tx 0 (world_after H tx i w) = attempt H tx i w"
  by (simp add: attempt_def)

lemma world_after_shift: "world_after H tx (Suc 0) (world_after H tx i w) = world_after H tx (Suc i) w"
proof (induction i arbitrary: w)
  case (Suc i)
  from Suc.IH [of "snd (hz_SubmitTransactionXDR H tx w)"] show ?case by simp
qed simp

lemma submit_round:
  "submit_loop H tx (Suc n) prev (world_after H tx i w) =
     (if retried H tx i w then submit_loop H tx n (case attempt H tx i w of Inl e \<Rightarrow> Some e | Inr _ \<Rightarrow> None) (world_after H tx (Suc i) w)
      else (submit_outcome (submitAttempts - Suc n) (attempt H tx i w), world_after H tx (Suc i) w))"
  unfolding submit_loop_Suc attempt_shift retried_def One_nat_def world_after_shift by (auto split: sum.splits)

text \<open>
  C19. \<open>Submit\<close> sends the transaction at most three times, and again only after a timeout or
  \<open>tx_bad_seq\<close>: either some attempt is the first that is not of that kind and its outcome
  is the result, or all three are and the last one's error is reported as the fourth.
\<close>

theorem Submit_at_most_three:
  "(\<exists>k < 3. (\<forall>i < k. retried H tx i w) \<and> \<not> retried H tx k w \<and>
      Submit H tx w = (submit_outcome k (attempt H tx k w), world_after H tx (Suc k) w)) \<or>
   ((\<forall>i < 3. retried H tx i w) \<and>
      (\<exists>e. attempt H tx 2 w = Inl e \<and> Submit H tx w = ((failed_attempt 3, Some (errMap e)), world_after H tx 3 w)))"
proof -
  have three: "Submit H tx w = submit_loop H tx (Suc (Suc (Suc 0))) None w" by (simp add: Submit_def submitAttempts_def numeral_3_eq_3)
  note steps = submit_round [where i = 0 and w = w, unfolded world_after.simps(1)] submit_round [where w = w]
  show ?thesis
  proof (cases "retried H tx 0 w")
    case r0: True
    show ?thesis
    proof (cases "retried H tx (Suc 0) w")
      case r1: True
      show ?thesis
      proof (cases "retried H tx (Suc (Suc 0)) w")
        case r2: True
        then obtain e where e: "attempt H tx (Suc (Suc 0)) w = Inl e" by (auto simp: retried_def)
        have "\<forall>i < 3. retried H tx i w" using r0 r1 r2 by (auto simp: numeral_3_eq_3 less_Suc_eq)
        moreover have "Submit H tx w = ((failed_attempt submitAttempts, Some (errMap e)), world_after H tx (Suc (Suc (Suc 0))) w)"
          unfolding three steps using r0 r1 r2 e by (simp del: submit_loop.simps(2) world_after.simps)
        ultimately show ?thesis using e by (simp add: numeral_2_eq_2 numeral_3_eq_3 submitAttempts_def)
      next
        case False
        with r0 r1 have "(\<forall>i < Suc (Suc 0). retried H tx i w)" by (auto simp: less_Suc_eq)
        with False r0 r1 show ?thesis
          by (intro disjI1 exI [of _ "Suc (Suc 0)"]) (simp add: three steps submitAttempts_def numeral_2_eq_2 del: submit_loop.simps(2) world_after.simps)
      qed
    next
      case False
      with r0 show ?thesis
        by (intro disjI1 exI [of _ "Suc 0"]) (simp add: three steps submitAttempts_def del: submit_loop.simps(2) world_after.simps)
    qed
  next
    case False
    then show ?thesis
      by (intro disjI1 exI [of _ 0]) (simp add: three steps submitAttempts_def del: submit_loop.simps(2) world_after.simps)
  qed
qed

theorem Submit_at_most_three_witness:
  "sub_Attempt (fst (fst (Submit demo_horizon ''tx'' 0))) = 2 \<and> snd (Submit demo_horizon ''tx'' 0) = 3"
proof -
  have a: "attempt demo_horizon ''tx'' 0 0 = Inl demo_timeout" "attempt demo_horizon ''tx'' (Suc 0) 0 = Inl demo_timeout"
    "attempt demo_horizon ''tx'' (Suc (Suc 0)) 0 = Inr \<lparr>htx_ID = ''id'', htx_Hash = ''hash'', htx_Ledger = 5, htx_ResultXdr = ''xdr''\<rparr>"
    "world_after demo_horizon ''tx'' (Suc (Suc (Suc 0))) 0 = 3"
    by (simp_all add: attempt_def demo_horizon_def)
  have r: "retried demo_horizon ''tx'' 0 0" "retried demo_horizon ''tx'' (Suc 0) 0" "\<not> retried demo_horizon ''tx'' (Suc (Suc 0)) 0"
    using a by (simp_all add: retried_def retries_def demo_timeout_def)
  from Submit_at_most_three [of demo_horizon "''tx''" 0] r a show ?thesis
    by (auto simp: numeral_3_eq_3 numeral_2_eq_2 less_Suc_eq submit_outcome_def)
qed

end
