(* ===== verification/Accounts.thy ===== *)
theory Accounts
  imports Horizon
begin

text \<open>
  The account side of \<open>account.go\<close> and the horizon queries of \<open>assets.go\<close>: loading an
  account, its balances, the spendable balance, the activity of the master key, lists of
  payments and transactions, asset searches, and transaction identifiers.
\<close>

section \<open>Accounts\<close>

definition baseReserve :: int64 where "baseReserve = 5000000"

record Account =
  acct_address :: AddressStr
  acct_internal :: "hAccount option"

definition NewAccount :: "AddressStr \<Rightarrow> Account" where
  "NewAccount address = \<lparr>acct_address = address, acct_internal = None\<rparr>"

text \<open>A method of an account works on the account and the server's state.\<close>

type_synonym ('w, 'a) acct_op = "(Account \<times> 'w, 'a) op"

definition on_world :: "('w, 'a) op \<Rightarrow> ('w, 'a) acct_op" where
  "on_world m s = (case s of (a, w) \<Rightarrow> (case m w of (r, w') \<Rightarrow> (r, (a, w'))))"

definition load :: "'w horizon \<Rightarrow> ('w, unit) acct_op" where
  "load H s =
     (case s of (a, w) \<Rightarrow>
       (case hz_AccountDetail H (acct_address a) w of
          (Inl e, w') \<Rightarrow> (Inl (errMapAccount e), (a, w'))
        | (Inr acc, w') \<Rightarrow> (Inr (), (a\<lparr>acct_internal := Some acc\<rparr>, w'))))"

text \<open>Reads a field of the loaded account.\<close>

definition loaded :: "(hAccount \<Rightarrow> 'a res) \<Rightarrow> ('w, 'a) acct_op" where
  "loaded f s = (and_then (deref (acct_internal (fst s))) f, s)"

fun GetNativeBalance_loop :: "hBalance list \<Rightarrow> string res" where
  "GetNativeBalance_loop [] = Inl (NewError ''account does not have a native balance'')"
| "GetNativeBalance_loop (b # bs) =
     (if h_Type (bal_Asset b) = ''native'' then Inr (bal_Balance b) else GetNativeBalance_loop bs)"

definition GetNativeBalance :: "hAccount \<Rightarrow> string res" where
  "GetNativeBalance a = GetNativeBalance_loop (acc_Balances a)"

definition internalNativeBalance :: "Account \<Rightarrow> string" where
  "internalNativeBalance a =
     (case acct_internal a of
        None \<Rightarrow> ''0''
      | Some i \<Rightarrow> (case GetNativeBalance i of Inl _ \<Rightarrow> ''0'' | Inr balance \<Rightarrow> if balance = [] then ''0'' else balance))"

definition BalanceXLM :: "'w horizon \<Rightarrow> ('w, string) acct_op" where
  "BalanceXLM H = op_bind (load H) (\<lambda>_ s. (Inr (internalNativeBalance (fst s)), s))"

definition Balances :: "'w horizon \<Rightarrow> ('w, hBalance list) acct_op" where
  "Balances H = op_bind (load H) (\<lambda>_. loaded (\<lambda>i. Inr (acc_Balances i)))"

record Trustline =
  tl_Asset :: hAsset
  tl_Limit :: string

definition Trustlines :: "'w horizon \<Rightarrow> ('w, Trustline list) acct_op" where
  "Trustlines H =
     op_bind (Balances H) (\<lambda>balances.
       op_return (map (\<lambda>b. \<lparr>tl_Asset = bal_Asset b, tl_Limit = bal_Limit b\<rparr>) balances))"

definition SubentryCount :: "'w horizon \<Rightarrow> ('w, int) acct_op" where
  "SubentryCount H = op_bind (load H) (\<lambda>_. loaded (\<lambda>i. Inr (sint (acc_SubentryCount i))))"

text \<open>All of it on \<open>int64\<close>: the product and the difference wrap around.\<close>

definition AvailableBalance :: "string \<Rightarrow> int64 \<Rightarrow> string res" where
  "AvailableBalance balance subentryCount =
     and_then (ParseStellarAmount balance) (\<lambda>balanceInt.
       let minimum = baseReserve * (2 + subentryCount);
           available = balanceInt - minimum
       in Inr (StringFromStellarAmount (if sint available < 0 then 0 else available)))"

definition availableBalanceXLMLoaded :: "('w, string) acct_op" where
  "availableBalanceXLMLoaded s =
     (and_then (deref (acct_internal (fst s))) (\<lambda>i.
        AvailableBalance (internalNativeBalance (fst s)) (scast (acc_SubentryCount i))), s)"

definition AvailableBalanceXLM :: "'w horizon \<Rightarrow> ('w, string) acct_op" where
  "AvailableBalanceXLM H = op_bind (load H) (\<lambda>_. availableBalanceXLMLoaded)"

record AccountDetails =
  ad_Seqno :: string
  ad_SubentryCount :: int
  ad_Available :: string
  ad_Balances :: "hBalance list"
  ad_InflationDestination :: string

definition Details :: "'w horizon \<Rightarrow> ('w, AccountDetails) acct_op" where
  "Details H =
     op_bind (load H) (\<lambda>_.
     op_bind availableBalanceXLMLoaded (\<lambda>available.
       loaded (\<lambda>i. Inr \<lparr>ad_Seqno = acc_Sequence i, ad_SubentryCount = sint (acc_SubentryCount i), ad_Available = available,
         ad_Balances = acc_Balances i, ad_InflationDestination = acc_InflationDestination i\<rparr>)))"

section \<open>The master key\<close>

definition minBytes :: "byte list \<Rightarrow> byte \<Rightarrow> byte" where
  "minBytes bs deflt =
     (case bs of [] \<Rightarrow> deflt | b0 # rest \<Rightarrow> foldl (\<lambda>r b. if b < r then b else r) b0 rest)"

text \<open>The loop over the signers: the master's weight, whether it was found, the sum (on \<open>int32\<close>).\<close>

fun signer_loop :: "string \<Rightarrow> hSigner list \<Rightarrow> int32 \<times> bool \<times> int32 \<Rightarrow> int32 \<times> bool \<times> int32" where
  "signer_loop accountID [] st = st"
| "signer_loop accountID (signer # rest) (masterWeight, foundMaster, availableWeight) =
     signer_loop accountID rest
       (if accountID = sgn_Key signer
        then (sgn_Weight signer, True, availableWeight + sgn_Weight signer)
        else (masterWeight, foundMaster, availableWeight + sgn_Weight signer))"

definition master_key_active :: "hAccount \<Rightarrow> bool res" where
  "master_key_active i =
     (let minThreshold = (ucast (minBytes [acc_LowThreshold i, acc_MedThreshold i, acc_HighThreshold i] 0) :: int32);
          (masterWeight, foundMaster, availableWeight) = signer_loop (acc_AccountID i) (acc_Signers i) (0, False, 0)
      in if \<not> foundMaster then Inl (NewError ''master key entry not found'')
         else if sint masterWeight \<le> 0 then Inr False
         else Inr (sint minThreshold \<le> sint availableWeight))"

definition IsMasterKeyActive :: "'w horizon \<Rightarrow> AddressStr \<Rightarrow> ('w, bool) op" where
  "IsMasterKeyActive H accountID w =
     (case load H (NewAccount accountID, w) of
        (Inl e, (_, w')) \<Rightarrow> if e = ErrSourceAccountNotFound then (Inr True, w') else (Inl e, w')
      | (Inr _, (a, w')) \<Rightarrow> (and_then (deref (acct_internal a)) master_key_active, w'))"

definition AccountSeqno :: "'w horizon \<Rightarrow> AddressStr \<Rightarrow> ('w, uint64) op" where
  "AccountSeqno H address = op_map_err errMapAccount (SequenceForAccount H address)"

section \<open>Lists\<close>

definition clamp_limit :: "int \<Rightarrow> int" where
  "clamp_limit limit = (if limit \<le> 0 then 10 else if 100 < limit then 100 else limit)"

definition paged_link :: "string \<Rightarrow> string \<Rightarrow> int \<Rightarrow> string" where
  "paged_link link cursor limit =
     (if cursor \<noteq> [] then link @ ''?cursor='' @ cursor @ ''&order=desc&limit='' @ show_int limit
      else link @ ''?order=desc&limit='' @ show_int limit)"

definition paymentsLink :: "AddressStr \<Rightarrow> string \<Rightarrow> int \<Rightarrow> string" where
  "paymentsLink address = paged_link (''/accounts/'' @ address @ ''/payments'')"

definition transactionsLink :: "AddressStr \<Rightarrow> string \<Rightarrow> int \<Rightarrow> string" where
  "transactionsLink address = paged_link (''/accounts/'' @ address @ ''/transactions'')"

definition RecentPayments :: "'w horizon \<Rightarrow> AddressStr \<Rightarrow> string \<Rightarrow> int \<Rightarrow> ('w, hPayment list) op" where
  "RecentPayments H address cursor limit0 =
     (let limit = clamp_limit limit0 in
      op_bind (op_map_err errMap (op_lift (horizonLink (HorizonURL H) (paymentsLink address cursor limit)))) (\<lambda>link.
        op_bind (op_map_err errMap (getDecodeJSONStrict H link (json_Payments H))) (\<lambda>page. op_return (pmp_Records page))))"

definition Transactions :: "'w horizon \<Rightarrow> AddressStr \<Rightarrow> string \<Rightarrow> int \<Rightarrow> ('w, hTransaction list \<times> bool) op" where
  "Transactions H address cursor limit0 =
     (let limit = clamp_limit limit0 in
      op_bind (op_map_err errMap (op_lift (horizonLink (HorizonURL H) (transactionsLink address cursor limit)))) (\<lambda>link.
      op_bind (op_map_err errMap (getDecodeJSONStrict H link (json_Transactions H))) (\<lambda>page.
        op_return (trp_Records page, int (length (trp_Records page)) < limit))))"

record Transaction =
  trn_Internal :: hTransaction
  trn_Operations :: "hOperation list"

definition loadOperations :: "'w horizon \<Rightarrow> hTransaction \<Rightarrow> ('w, hOperation list) op" where
  "loadOperations H tx =
     op_bind (op_lift (horizonLink (HorizonURL H) (''/transactions/'' @ htx_ID tx @ ''/operations''))) (\<lambda>link.
       op_bind (op_map_err errMap (getDecodeJSONStrict H link (json_Operations H))) (\<lambda>page. op_return (opp_Records page)))"

fun load_all :: "'w horizon \<Rightarrow> hTransaction list \<Rightarrow> ('w, Transaction list) op" where
  "load_all H [] = op_return []"
| "load_all H (tx # txs) =
     op_bind (loadOperations H tx) (\<lambda>ops.
     op_bind (load_all H txs) (\<lambda>rest.
       op_return (\<lparr>trn_Internal = tx, trn_Operations = ops\<rparr> # rest)))"

definition RecentTransactionsAndOps :: "'w horizon \<Rightarrow> AddressStr \<Rightarrow> ('w, Transaction list) op" where
  "RecentTransactionsAndOps H address =
     op_bind (op_lift (horizonLink (HorizonURL H) (''/accounts/'' @ address @ ''/transactions''))) (\<lambda>link.
     op_bind (op_map_err errMap (getDecodeJSONStrict H (link @ ''?order=desc&limit=10'') (json_Transactions H))) (\<lambda>page.
       load_all H (trp_Records page)))"

text \<open>\<open>complete\<close> is false if there may be more assets.\<close>

definition Account_Assets :: "'w horizon \<Rightarrow> AddressStr \<Rightarrow> ('w, hAsset list \<times> bool) op" where
  "Account_Assets H address =
     op_bind (op_map_err errMap (getDecodeJSONStrict H
       (HorizonURL H @ ''/assets?asset_issuer='' @ address @ ''&limit='' @ show_int 100 @ ''&order=asc'') (json_hAssets H))) (\<lambda>records.
       op_return (records, int (length records) < 100))"

section \<open>Transactions by identifier\<close>

definition CheckTxID :: "(go_error \<Rightarrow> string) \<Rightarrow> string \<Rightarrow> string res" where
  "CheckTxID etext txID =
     (case hex_DecodeString txID of
        Inl e \<Rightarrow> Inl (StellarError ''invalid transaction ID'' (''error decoding transaction ID: '' @ etext e) None None)
      | Inr bs \<Rightarrow>
          if length bs \<noteq> 32 then
            Inl (StellarError ''invalid transaction ID''
              (''unexpected transaction ID length: '' @ show_int (int (length bs)) @ '' bytes'') None None)
          else Inr (hex_EncodeToString bs))"

definition TxPayments :: "'w horizon \<Rightarrow> string \<Rightarrow> ('w, hPayment list) op" where
  "TxPayments H txID0 =
     op_bind (op_lift (CheckTxID (error_text H) txID0)) (\<lambda>txID.
     op_bind (op_lift (horizonLink (HorizonURL H) (''/transactions/'' @ txID @ ''/payments''))) (\<lambda>link.
       op_bind (op_map_err errMap (getDecodeJSONStrict H link (json_Payments H))) (\<lambda>page. op_return (pmp_Records page))))"

definition TxDetails :: "'w horizon \<Rightarrow> string \<Rightarrow> ('w, hTransaction) op" where
  "TxDetails H txID =
     op_bind (op_map_err errMap (op_lift (horizonLink (HorizonURL H) (''/transactions/'' @ txID)))) (\<lambda>link.
       op_map_err errMap (getDecodeJSONStrict H link (json_Transaction H)))"

fun merge_effects :: "hEffect list \<Rightarrow> string \<times> string \<Rightarrow> (string \<times> string) res" where
  "merge_effects [] st = Inr st"
| "merge_effects (effect # rest) (creditAmount, debitAmount) =
     (if eff_Type effect = ''account_credited'' then
        if creditAmount \<noteq> [] then Inl (NewError ''unexpected multitude of credit effects'')
        else merge_effects rest (eff_Amount effect, debitAmount)
      else if eff_Type effect = ''account_debited'' then
        if debitAmount \<noteq> [] then Inl (NewError ''unexpected multitude of debit effects'')
        else merge_effects rest (creditAmount, eff_Amount effect)
      else merge_effects rest (creditAmount, debitAmount))"

definition merge_amount :: "hEffect list \<Rightarrow> string res" where
  "merge_amount records =
     and_then (merge_effects records ([], [])) (\<lambda>(creditAmount, debitAmount).
       if creditAmount = [] then Inl (NewError ''credit effect not found'')
       else if debitAmount = [] then Inl (NewError ''debit effect not found'')
       else if creditAmount \<noteq> debitAmount then
         Inl (Errorf ''inequal debit and credit amounts: %v != %v'' [AStr debitAmount, AStr creditAmount])
       else Inr creditAmount)"

definition AccountMergeAmount :: "'w horizon \<Rightarrow> string \<Rightarrow> ('w, string) op" where
  "AccountMergeAmount H operationID =
     op_bind (getDecodeJSONStrict H (HorizonURL H @ ''/operations/'' @ operationID @ ''/effects'') (json_Effects H)) (\<lambda>page.
       op_lift (merge_amount (efp_Records page)))"

definition HashTx :: "go_crypto \<Rightarrow> string \<Rightarrow> xdr_Transaction \<Rightarrow> string res" where
  "HashTx C network tx = and_then (HashTransaction C tx network) (\<lambda>bs. Inr (hex_EncodeToString bs))"

definition HashTxEnvelope :: "go_crypto \<Rightarrow> string \<Rightarrow> TransactionEnvelope \<Rightarrow> string res" where
  "HashTxEnvelope C network tx = and_then (HashTransactionInEnvelope C tx network) (\<lambda>bs. Inr (hex_EncodeToString bs))"

section \<open>Asset queries (\<open>assets.go\<close>)\<close>

definition summary_of :: "AssetEmbed \<Rightarrow> AssetSummary" where
  "summary_of r = \<lparr>UnverifiedWellKnownLink = ae_WellKnown r, as_AssetType = ae_AssetType r, as_AssetCode = ae_AssetCode r,
     as_AssetIssuer = ae_AssetIssuer r, as_Amount = ae_Amount r, as_NumAccounts = ae_NumAccounts r\<rparr>"

text \<open>The page at \<open>/assets\<close> with some query parameters set.\<close>

definition assets_page :: "'w horizon \<Rightarrow> (string \<times> string) list \<Rightarrow> ('w, AssetsPage) op" where
  "assets_page H query =
     op_bind (op_map_err errMap (op_lift (horizonLink (HorizonURL H) ''/assets''))) (\<lambda>link.
     op_bind (op_map_err errMap (op_lift (url_Parse link))) (\<lambda>u.
       let q = foldl (\<lambda>vs (k, v). values_Set k v vs) (parse_query (url_RawQuery u)) query;
           u = u\<lparr>url_RawQuery := values_Encode q\<rparr>
       in op_map_err errMap (getDecodeJSONStrict H (url_String u) (json_AssetsPage H))))"

definition Asset :: "'w horizon \<Rightarrow> string \<Rightarrow> AddressStr \<Rightarrow> ('w, AssetSummary) op" where
  "Asset H assetCode issuerID =
     op_bind (assets_page H [(''asset_code'', assetCode), (''asset_issuer'', issuerID)]) (\<lambda>page.
       case ap_Records page of
         [] \<Rightarrow> op_lift (Inl ErrAssetNotFound)
       | [r] \<Rightarrow> op_return (summary_of r)
       | _ \<Rightarrow> op_lift (Inl (NewError ''invalid assets response: multiple matches'')))"

record AssetSearchArg =
  arg_AssetCode :: string
  arg_IssuerID :: string

definition AssetSearch :: "'w horizon \<Rightarrow> AssetSearchArg \<Rightarrow> ('w, AssetSummary list) op" where
  "AssetSearch H arg =
     (if arg_AssetCode arg = [] \<and> arg_IssuerID arg = [] then op_return []
      else
        op_bind (assets_page H ((if 0 < length (arg_AssetCode arg) then [(''asset_code'', arg_AssetCode arg)] else []) @
                                (if 0 < length (arg_IssuerID arg) then [(''asset_issuer'', arg_IssuerID arg)] else []))) (\<lambda>page.
          op_return (map summary_of (ap_Records page))))"

text \<open>\<open>res, err := AssetSearch(...); if len(res) == 0 { return nil, ErrAssetNotFound }\<close>\<close>

definition AssetsWithCode :: "'w horizon \<Rightarrow> string \<Rightarrow> ('w, AssetSummary list) op" where
  "AssetsWithCode H assetCode w =
     (case AssetSearch H \<lparr>arg_AssetCode = assetCode, arg_IssuerID = []\<rparr> w of
        (Inl e, w') \<Rightarrow> (Inl ErrAssetNotFound, w')
      | (Inr res, w') \<Rightarrow> (if length res = 0 then Inl ErrAssetNotFound else Inr res, w'))"

definition AssetList :: "'w horizon \<Rightarrow> string \<Rightarrow> int \<Rightarrow> string \<Rightarrow> ('w, AssetSummary list \<times> string) op" where
  "AssetList H cursor limit0 order =
     (let limit = (if limit0 < 1 \<or> 200 < limit0 then 200 else limit0) in
      op_bind (assets_page H [(''limit'', show_int limit), (''order'', order), (''cursor'', cursor)]) (\<lambda>page.
      op_bind (op_map_err errMap (op_lift (url_Parse (link_Next (ap_Links page))))) (\<lambda>parsedNextLink.
      op_bind (op_map_err errMap (op_lift (ParseQuery (url_RawQuery parsedNextLink)))) (\<lambda>queryParams.
        case map snd (filter (\<lambda>kv. fst kv = ''cursor'') queryParams) of
          [] \<Rightarrow> op_lift (Inl (errMap (NewError ''no next cursor in asset list'')))
        | nextCursor # _ \<Rightarrow> op_return (map summary_of (ap_Records page), nextCursor)))))"

definition FindPaymentPaths ::
  "'w horizon \<Rightarrow> AddressStr \<Rightarrow> AddressStr \<Rightarrow> string \<Rightarrow> AddressStr \<Rightarrow> string \<Rightarrow> ('w, FullPath list) op" where
  "FindPaymentPaths H address to assetCode assetIssuer amount =
     op_bind (op_lift (assetCodeToType assetCode)) (\<lambda>assetType.
     op_bind (op_lift (horizonLink (HorizonURL H) (''/paths?'' @
         ''source_account='' @ address @ ''&destination_account='' @ to @ ''&destination_asset_type='' @ assetType @
         ''&destination_asset_code='' @ assetCode @ ''&destination_asset_issuer='' @ assetIssuer @
         ''&destination_amount='' @ amount))) (\<lambda>link.
       op_bind (op_map_err errMap (getDecodeJSONStrict H link (json_Paths H))) (\<lambda>page. op_return (pap_Records page))))"

section \<open>Facts\<close>

lemma minBytes_min: "minBytes [a, b, c] d = min a (min b c)"
  by (auto simp: minBytes_def min_def)

lemma signer_loop_sum:
  assumes "\<forall>s \<in> set ss. 0 \<le> sint (sgn_Weight s)" "0 \<le> sint acc"
    and "sint acc + (\<Sum>s\<leftarrow>ss. sint (sgn_Weight s)) \<le> 2147483647"
  shows "sint (snd (snd (signer_loop i ss (m, f, acc)))) = sint acc + (\<Sum>s\<leftarrow>ss. sint (sgn_Weight s))"
  using assms
proof (induction ss arbitrary: m f acc)
  case (Cons s ss)
  have nonneg: "0 \<le> (\<Sum>s\<leftarrow>ss. sint (sgn_Weight s))" using Cons.prems(1) by (intro sum_list_nonneg) auto
  have "sint (acc + sgn_Weight s) = sint acc + sint (sgn_Weight s)"
    using Cons.prems nonneg by (simp add: sint_word_ariths signed_take_bit_int_eq_self)
  with Cons nonneg show ?case by auto
qed simp

lemma signer_loop_master:
  "fst (snd (signer_loop i ss (m, f, acc))) \<longleftrightarrow> f \<or> (\<exists>s \<in> set ss. sgn_Key s = i)"
  by (induction ss arbitrary: m f acc) auto

lemma signer_loop_weight:
  "fst (signer_loop i ss (m, f, acc)) =
    (case filter (\<lambda>s. sgn_Key s = i) ss of [] \<Rightarrow> m | s # r \<Rightarrow> sgn_Weight (last (s # r)))"
  by (induction ss arbitrary: m f acc) (auto split: list.splits)

text \<open>The amounts of the effects of one kind.\<close>

definition amounts_of :: "string \<Rightarrow> hEffect list \<Rightarrow> string list" where
  "amounts_of k es = map eff_Amount (filter (\<lambda>e. eff_Type e = k) es)"

lemma amounts_of_simps [simp]:
  "amounts_of k [] = []"
  "amounts_of k (e # es) = (if eff_Type e = k then eff_Amount e # amounts_of k es else amounts_of k es)"
  by (simp_all add: amounts_of_def)

lemma merge_effects_amounts:
  assumes "\<forall>e \<in> set es. eff_Amount e \<noteq> []"
  shows "merge_effects es (c, d) = Inr (c', d') \<longleftrightarrow>
    (amounts_of ''account_credited'' es = [] \<and> c' = c \<or> c = [] \<and> amounts_of ''account_credited'' es = [c']) \<and>
    (amounts_of ''account_debited'' es = [] \<and> d' = d \<or> d = [] \<and> amounts_of ''account_debited'' es = [d'])"
  using assms
proof (induction es arbitrary: c d)
  case (Cons e es)
  have e: "eff_Amount e \<noteq> []" and es: "\<forall>e \<in> set es. eff_Amount e \<noteq> []" using Cons.prems by auto
  note IH = Cons.IH [OF es]
  consider (credit) "eff_Type e = ''account_credited''" | (debit) "eff_Type e = ''account_debited''"
    | (other) "eff_Type e \<noteq> ''account_credited''" "eff_Type e \<noteq> ''account_debited''" by blast
  then show ?case
  proof cases
    case credit
    then show ?thesis using e by (cases "c = []") (simp_all add: IH, blast)
  next
    case debit
    then show ?thesis using e by (cases "d = []") (simp_all add: IH, blast)
  next
    case other
    then show ?thesis by (simp add: IH)
  qed
qed auto

section \<open>Properties\<close>

text \<open>
  C30. What an account can send is its balance less five million stroops for each of two
  reserves and of its subentries, and never less than zero, exactly, for every balance that
  is not negative and every count horizon can report.
\<close>

theorem AvailableBalance_spec:
  assumes "ParseStellarAmount balance = Inr v" and "0 \<le> sint v" and "0 \<le> sint n" and "sint n \<le> 2147483647"
  shows "AvailableBalance balance n = Inr (StringFromStellarAmount (word_of_int (max 0 (sint v - 5000000 * (2 + sint n)))))"
proof -
  have v: "sint v \<le> 9223372036854775807" using sint_lt [of v] by simp
  have "sint (baseReserve * (2 + n)) = 5000000 * (2 + sint n)"
    using assms(3,4) by (simp add: baseReserve_def sint_word_ariths signed_take_bit_int_eq_self)
  then have "sint (v - baseReserve * (2 + n)) = sint v - 5000000 * (2 + sint n)"
    using assms(2-4) v by (simp add: sint_word_ariths(2) signed_take_bit_int_eq_self)
  moreover have "v - baseReserve * (2 + n) = word_of_int (sint (v - baseReserve * (2 + n)))" by simp
  ultimately show ?thesis
    using assms(1) by (auto simp: AvailableBalance_def Let_def max_def simp del: of_int_sint)
qed

theorem AvailableBalance_spec_witness:
  "AvailableBalance ''10'' 3 = Inr (StringFromStellarAmount 75000000)"
proof -
  have "ParseStellarAmount ''10'' = Inr 100000000" by (simp add: go_defs)
  from AvailableBalance_spec [OF this, of 3] show ?thesis by simp
qed

subsection \<open>Transaction identifiers\<close>

definition hex_char :: "char \<Rightarrow> bool" where "hex_char c \<longleftrightarrow> fromHexChar c \<noteq> None"

lemma hex_char_table:
  "list_all (\<lambda>c. c \<noteq> CHR 0xC4 \<and> c \<noteq> CHR 0xE2 \<and>
     unat (the (fromHexChar c)) < 16 \<and> ToLower [c] = [hex_digits ! unat (the (fromHexChar c))])
   (map char_of ([48 ..< 58] @ [65 ..< 71] @ [97 ..< 103]))"
  by code_simp

lemma hex_char_facts:
  assumes "fromHexChar c = Some a"
  shows "c \<noteq> CHR 0xC4" "c \<noteq> CHR 0xE2" "unat a < 16" "ToLower [c] = [hex_digits ! unat a]"
proof -
  have "of_char c \<in> set ([48 ..< 58] @ [65 ..< 71] @ [97 ..< 103])"
    using assms unfolding set_append set_upt by (auto simp: fromHexChar_def less_eq_char_def split: if_splits)
  then have "char_of (of_char c :: nat) \<in> set (map char_of ([48 ..< 58] @ [65 ..< 71] @ [97 ..< 103]))"
    unfolding set_map by (rule imageI)
  then have "c \<in> set (map char_of ([48 ..< 58] @ [65 ..< 71] @ [97 ..< 103]))" by (simp only: char_of_char)
  then have "c \<noteq> CHR 0xC4 \<and> c \<noteq> CHR 0xE2 \<and>
     unat (the (fromHexChar c)) < 16 \<and> ToLower [c] = [hex_digits ! unat (the (fromHexChar c))]"
    using hex_char_table unfolding list_all_iff by blast
  then show "c \<noteq> CHR 0xC4" "c \<noteq> CHR 0xE2" "unat a < 16" "ToLower [c] = [hex_digits ! unat a]"
    using assms by simp_all
qed

lemma ToLower_hex: "fromHexChar c = Some a \<Longrightarrow> ToLower (c # s) = hex_digits ! unat a # ToLower s"
  using hex_char_facts [of c a] by (auto simp: HasPrefix_def split: if_splits)

lemma join_nibbles:
  assumes "unat a < 16" "unat b < 16"
  shows "drop_bit 4 (push_bit 4 a OR b) = (a :: byte)" and "(push_bit 4 a OR b) AND 0x0F = (b :: byte)"
proof -
  let ?P = "\<lambda>i j. drop_bit 4 (push_bit 4 (word_of_nat i) OR word_of_nat j) = (word_of_nat i :: byte) \<and>
      (push_bit 4 (word_of_nat i) OR word_of_nat j) AND 0x0F = (word_of_nat j :: byte)"
  have "list_all (\<lambda>i. list_all (?P i) [0 ..< 16]) [0 ..< 16]" by code_simp
  moreover have "unat a \<in> set [0 ..< 16]" "unat b \<in> set [0 ..< 16]" using assms by simp_all
  ultimately have "?P (unat a) (unat b)" unfolding list_all_iff by blast
  then show "drop_bit 4 (push_bit 4 a OR b) = a" "(push_bit 4 a OR b) AND 0x0F = b" by simp_all
qed

lemma hex_EncodeToString_Cons:
  "hex_EncodeToString (b # bs) = hex_digits ! unat (drop_bit 4 b) # hex_digits ! unat (b AND 0x0F) # hex_EncodeToString bs"
  by (simp add: hex_EncodeToString_def)

lemma hex_Decode_lower: "hex_DecodeString t = Inr bs \<Longrightarrow> hex_EncodeToString bs = ToLower t \<and> list_all hex_char t"
proof (induction t arbitrary: bs rule: hex_DecodeString.induct)
  case (3 c d s)
  from "3.prems" obtain a b r where ab: "fromHexChar c = Some a" "fromHexChar d = Some b"
    and r: "hex_DecodeString s = Inr r" "bs = (push_bit 4 a OR b) # r"
    by (auto simp: and_then_eq_Inr split: option.splits)
  with "3.IH" [OF ab r(1)] show ?case
    using hex_char_facts(3) [OF ab(1)] hex_char_facts(3) [OF ab(2)]
    by (simp only: hex_EncodeToString_Cons ToLower_hex [OF ab(1)] ToLower_hex [OF ab(2)] join_nibbles r(2))
      (simp add: hex_char_def ab)
qed (auto simp: hex_EncodeToString_def split: if_splits)

lemma hex_Decode_total: "list_all hex_char t \<Longrightarrow> even (length t) \<Longrightarrow> \<exists>bs. hex_DecodeString t = Inr bs"
  by (induction t rule: hex_DecodeString.induct) (fastforce simp: hex_char_def and_then_def)+

text \<open>
  A transaction identifier is accepted exactly when it is 64 hexadecimal digits, in
  either case, and what goes on to the server is the identifier in lower case.
\<close>

theorem CheckTxID_spec:
  "CheckTxID etext t = Inr u \<longleftrightarrow> length t = 64 \<and> list_all hex_char t \<and> u = ToLower t"
proof
  assume "CheckTxID etext t = Inr u"
  then obtain bs where "hex_DecodeString t = Inr bs" "length bs = 32" "u = hex_EncodeToString bs"
    by (auto simp: CheckTxID_def split: sum.splits if_splits)
  then show "length t = 64 \<and> list_all hex_char t \<and> u = ToLower t"
    using hex_DecodeString_length [of t bs] hex_Decode_lower [of t bs] by simp
next
  assume t: "length t = 64 \<and> list_all hex_char t \<and> u = ToLower t"
  then obtain bs where "hex_DecodeString t = Inr bs" using hex_Decode_total [of t] by auto
  then show "CheckTxID etext t = Inr u"
    using t hex_DecodeString_length [of t bs] hex_Decode_lower [of t bs] by (simp add: CheckTxID_def)
qed

lemma distinct_filter_one:
  assumes "distinct (map f xs)" "x \<in> set xs"
  shows "filter (\<lambda>y. f y = f x) xs = [x]"
  using assms
proof (induction xs)
  case (Cons y ys)
  show ?case
  proof (cases "x = y")
    case True
    moreover have "filter (\<lambda>z. f z = f y) ys = []" using Cons.prems(1) by (simp add: filter_empty_conv) (metis imageI)
    ultimately show ?thesis by simp
  next
    case False
    then have "f y \<noteq> f x" using Cons.prems by auto
    with False Cons show ?thesis by simp
  qed
qed simp

lemma sint_ucast_byte: "sint (ucast (b :: byte) :: int32) = int (unat b)"
proof -
  have "signed_take_bit 31 (uint b) = uint b"
    using uint_bounded [of b] order_trans [OF _ uint_ge_0 [of b], of "- 2147483648"]
    by (intro signed_take_bit_int_eq_self) simp_all
  then show ?thesis by (simp add: sint_uint uint_up_ucast is_up)
qed

lemma unat_min: "unat (min a b) = min (unat a) (unat (b :: 'a::len word))"
  by (simp add: min_def word_le_nat_alt)

text \<open>
  C31. An account the server knows, with its master key among the signers: the key is active
  exactly when its weight is positive and the weights of all signers, added up without
  overflow, reach the smallest of the three thresholds.
\<close>

theorem IsMasterKeyActive_spec:
  assumes "hz_AccountDetail H a w = (Inr i, w')"
    and "distinct (map sgn_Key (acc_Signers i))" and "m \<in> set (acc_Signers i)" and "sgn_Key m = acc_AccountID i"
    and "list_all (\<lambda>s. 0 \<le> sint (sgn_Weight s)) (acc_Signers i)"
    and "(\<Sum>s\<leftarrow>acc_Signers i. sint (sgn_Weight s)) \<le> 2147483647"
  shows "IsMasterKeyActive H a w =
    (Inr (0 < sint (sgn_Weight m) \<and>
          int (min (unat (acc_LowThreshold i)) (min (unat (acc_MedThreshold i)) (unat (acc_HighThreshold i))))
            \<le> (\<Sum>s\<leftarrow>acc_Signers i. sint (sgn_Weight s))), w')"
proof -
  obtain mw f aw where loop: "signer_loop (acc_AccountID i) (acc_Signers i) (0, False, 0) = (mw, f, aw)"
    by (metis prod_cases3)
  have f: "f" using signer_loop_master [of "acc_AccountID i" "acc_Signers i" 0 False 0] loop assms(3,4) by auto
  have aw: "sint aw = (\<Sum>s\<leftarrow>acc_Signers i. sint (sgn_Weight s))"
    using signer_loop_sum [of "acc_Signers i" 0 "acc_AccountID i" 0 False] loop assms(5,6) by (simp add: list_all_iff)
  have "filter (\<lambda>s. sgn_Key s = acc_AccountID i) (acc_Signers i) = [m]"
    using distinct_filter_one [OF assms(2,3)] assms(4) by simp
  then have mw: "mw = sgn_Weight m"
    using signer_loop_weight [of "acc_AccountID i" "acc_Signers i" 0 False 0] loop by simp
  let ?t = "min (acc_LowThreshold i) (min (acc_MedThreshold i) (acc_HighThreshold i))"
  have t: "sint (ucast ?t :: int32) =
      int (min (unat (acc_LowThreshold i)) (min (unat (acc_MedThreshold i)) (unat (acc_HighThreshold i))))"
    by (simp add: sint_ucast_byte unat_min)
  have "master_key_active i = Inr (0 < sint mw \<and> sint (ucast ?t :: int32) \<le> sint aw)"
    using f by (auto simp: master_key_active_def loop minBytes_min Let_def)
  then show ?thesis
    using assms(1) by (simp add: IsMasterKeyActive_def load_def NewAccount_def aw mw t)
qed

text \<open>A server that knows one account, whose master key alone can sign.\<close>

definition demo_account :: hAccount where
  "demo_account = \<lparr>acc_AccountID = ''GA'', acc_Sequence = ''7'', acc_SubentryCount = 0, acc_InflationDestination = [],
     acc_LowThreshold = 0, acc_MedThreshold = 2, acc_HighThreshold = 3, acc_Balances = [],
     acc_Signers = [\<lparr>sgn_Weight = 1, sgn_Key = ''GA''\<rparr>, \<lparr>sgn_Weight = 0, sgn_Key = ''GB''\<rparr>]\<rparr>"

theorem IsMasterKeyActive_spec_witness:
  "fst (IsMasterKeyActive (demo_horizon\<lparr>hz_AccountDetail := \<lambda>a w. (Inr demo_account, w)\<rparr>) ''GA'' 0) = Inr True"
proof -
  let ?H = "demo_horizon\<lparr>hz_AccountDetail := \<lambda>a w. (Inr demo_account, w)\<rparr>"
  have "hz_AccountDetail ?H ''GA'' 0 = (Inr demo_account, 0)" by simp
  from IsMasterKeyActive_spec [OF this, of "\<lparr>sgn_Weight = 1, sgn_Key = ''GA''\<rparr>"]
  show ?thesis by (simp add: demo_account_def)
qed

text \<open>
  The amount of an account merge: when every effect names an amount, the merge succeeds
  exactly with one credit and one debit of the same amount.
\<close>

theorem merge_amount_spec:
  assumes "list_all (\<lambda>e. eff_Amount e \<noteq> []) es"
  shows "merge_amount es = Inr a \<longleftrightarrow>
    amounts_of ''account_credited'' es = [a] \<and> amounts_of ''account_debited'' es = [a]"
proof -
  have es: "\<forall>e \<in> set es. eff_Amount e \<noteq> []" using assms by (simp add: list_all_iff)
  then have "[] \<notin> set (amounts_of k es)" for k by (auto simp: amounts_of_def)
  then have ne: "amounts_of k es = [x] \<Longrightarrow> x \<noteq> []" for k x by (metis list.set_intros(1))
  show ?thesis
    by (auto simp: merge_amount_def and_then_eq_Inr merge_effects_amounts [OF es] split: if_splits dest: ne)
qed

theorem merge_amount_spec_witness:
  "merge_amount [\<lparr>eff_Type = ''account_credited'', eff_Amount = ''5''\<rparr>, \<lparr>eff_Type = ''account_debited'', eff_Amount = ''5''\<rparr>] = Inr ''5''"
  by (subst merge_amount_spec) simp_all

text \<open>
  A search for the assets of a code never reports why it failed: every error of the
  server is the one error that the asset was not found.
\<close>

theorem AssetsWithCode_errors:
  "fst (AssetsWithCode H c w) = Inl e \<Longrightarrow> e = ErrAssetNotFound"
  by (auto simp: AssetsWithCode_def split: prod.splits sum.splits if_splits)

theorem AssetsWithCode_errors_witness:
  "fst (AssetsWithCode demo_horizon [] 0) = Inl ErrAssetNotFound"
proof -
  have "fst (AssetsWithCode demo_horizon [] 0) = Inl e \<Longrightarrow> e = ErrAssetNotFound" for e
    by (rule AssetsWithCode_errors)
  moreover have "\<exists>e. fst (AssetsWithCode demo_horizon [] 0) = Inl e"
    by (simp add: AssetsWithCode_def AssetSearch_def)
  ultimately show ?thesis by blast
qed

end
