(* ===== verification/Tx_Typed.thy ===== *)
theory Tx_Typed
  imports Tx_Build
begin

text \<open>
  The schema and the builder: methods called with arguments within the limits of the XDR
  schema leave a transaction within the limits, so that what is signed is written, read
  back by the network, and verified. The limits the methods do not check themselves are the
  ones \<open>wt_action\<close> names: the assets handed over as XDR values, the length of a path, and the
  length of a memo text.
\<close>

section \<open>Arguments within the limits\<close>

text \<open>A memo of the package: a text of at most 28 bytes, hashes of 32.\<close>

definition wt_package_memo :: "Memo \<Rightarrow> bool" where
  "wt_package_memo m \<longleftrightarrow>
     (memo_Type m = 1 \<longrightarrow> pred_option (wt_upto 28) (memo_Text m)) \<and>
     (memo_Type m = 3 \<longrightarrow> pred_option (wt_array 32) (memo_Hash m)) \<and>
     (memo_Type m = 4 \<longrightarrow> pred_option (wt_array 32) (memo_ReturnHash m))"

fun wt_action :: "tx_action \<Rightarrow> bool" where
  "wt_action (AssetPayment to asset amt) \<longleftrightarrow> wt_Asset asset"
| "wt_action (Offer s b amt p) \<longleftrightarrow> wt_Asset s \<and> wt_Asset b"
| "wt_action (PathPayment to sa sm da am p) \<longleftrightarrow> length p \<le> 5"
| "wt_action (SetMemo m) \<longleftrightarrow> pred_option wt_package_memo m"
| "wt_action (SetMemoText m) \<longleftrightarrow> length m \<le> 28"
| "wt_action _ \<longleftrightarrow> True"

lemma Memo_toXDR_wt: "wt_package_memo m \<Longrightarrow> Memo_toXDR m = Inr x \<Longrightarrow> wt_Memo x"
  by (auto simp: Memo_toXDR_def NewMemo_def wt_package_memo_def wt_Memo_def xdr_no_memo_def Let_def and_then_eq_Inr deref_eq_Inr
      split: if_splits)

lemma copy_code_wt [simp]: "wt_array n (copy_code n code)"
  by (simp add: wt_array_def copy_code_def)

lemma native_wt [simp]: "wt_Asset xdr_native"
  by (simp add: wt_Asset_def xdr_native_def)

lemma assetBaseToXDR_wt: "assetBaseToXDR C a = Inr x \<Longrightarrow> wt_Asset x"
  by (auto simp: assetBaseToXDR_def NewAsset_def wt_Asset_def wt_AlphaNum_def Let_def and_then_eq_Inr AccountID_wt split: if_splits)

lemma makeXDRChangeTrustAsset_wt:
  assumes "makeXDRChangeTrustAsset code issuer = Inr x"
  shows "wt_ChangeTrustAsset x"
  using assms unfolding makeXDRChangeTrustAsset_eq_Inr
  by (elim disjE conjE exE) (simp_all add: wt_ChangeTrustAsset_def wt_AlphaNum_def AccountID_wt)

lemma map_res_wt: "map_res f xs = Inr ys \<Longrightarrow> (\<And>x y. f x = Inr y \<Longrightarrow> w y) \<Longrightarrow> (\<forall>y \<in> set ys. w y) \<and> length ys = length xs"
  by (induction xs arbitrary: ys) (auto simp: and_then_eq_Inr)

lemma path_wt: "map_res (assetBaseToXDR C) p = Inr ys \<Longrightarrow> length p \<le> 5 \<Longrightarrow> wt_Path ys"
  using map_res_wt [of "assetBaseToXDR C" p ys wt_Asset] by (auto simp: wt_Path_def assetBaseToXDR_wt)

section \<open>The methods keep the limits\<close>

lemma wt_builder_set_memo: "wt_builder t \<Longrightarrow> wt_Memo m \<Longrightarrow> wt_builder (set_memo m t)"
  by (simp add: wt_builder_def set_memo_def)

lemma wt_builder_err [simp]: "wt_builder (t\<lparr>err := e\<rparr>) = wt_builder t"
  by (simp add: wt_builder_def)

lemma wt_builder_try: "wt_builder t \<Longrightarrow> (\<And>x. r = Inr x \<Longrightarrow> wt_builder (k x)) \<Longrightarrow> wt_builder (tx_try r t k)"
  by (cases r) simp_all

lemma wt_builder_addOp: "wt_builder t \<Longrightarrow> \<not> IsFull t \<Longrightarrow> wt_arm ty (Some v) \<Longrightarrow> wt_builder (addOp ty v t)"
  unfolding addOp_def Let_def
  by (rule wt_builder_try, assumption, drule NewOperationBody_arm)
    (auto simp: wt_builder_def wt_Operations_def wt_Operation_def wt_OperationBody_def IsFull_def)

lemmas method_defs = AddPaymentOp_def AddAssetPaymentOp_def AddPathPaymentOp_def AddCreateAccountOp_def AddAccountMergeOp_def
  AddInflationDestinationOp_def AddHomeDomainOp_def AddOfferOp_def AddCreateTrustlineOp_def AddDeleteTrustlineOp_def
  AddMemo_def AddMemoText_def AddMemoID_def AddTimeBounds_def skipAddOp_no_error skipAddMemo_no_error

lemmas arm_wt = wt_PaymentOp_def wt_PathPaymentStrictReceiveOp_def wt_CreateAccountOp_def wt_SetOptionsOp_def
  wt_ManageSellOfferOp_def empty_SetOptionsOp_def

lemma NewMemo_wt:
  "NewMemo 1 (MemoString s) = Inr x \<Longrightarrow> length s \<le> 28 \<Longrightarrow> wt_Memo x"
  "NewMemo 2 (MemoUint64 n) = Inr x \<Longrightarrow> wt_Memo x"
  by (auto simp: NewMemo_def wt_Memo_def wt_upto_def xdr_no_memo_def)

lemma wt_builder_action:
  assumes "wt_builder t" "wt_action a"
  shows "wt_builder (run_action C a t)"
proof (cases "err t")
  case None
  then show ?thesis
    using assms
    apply (cases a)
    apply (auto simp: method_defs addOp_merge arm_wt wt_upto_def
        intro!: wt_builder_try wt_builder_addOp wt_builder_set_memo
        intro: MuxedAccount_wt AccountID_wt assetBaseToXDR_wt path_wt makeXDRChangeTrustAsset_wt Memo_toXDR_wt NewMemo_wt
        simp: makeXDRChangeTrustAsset_wt simp del: NewOperationBody.simps split: option.split)
    apply (simp_all add: wt_builder_def)
    done
qed (use assms in simp)

lemma wt_builder_new [simp]: "wt_builder (NewBaseTx network src prov fee)"
  by (simp add: wt_builder_def NewBaseTx_def empty_Transaction_def wt_Memo_def wt_Operations_def)

lemma wt_builder_actions: "wt_builder t \<Longrightarrow> list_all wt_action as \<Longrightarrow> wt_builder (run_actions C as t)"
  by (induction as arbitrary: t) (simp_all add: run_actions_def wt_builder_action)

text \<open>And only such calls do: what a call outside the limits puts in the builder stays there.\<close>

lemma wt_Operations_append: "wt_Operations (xs @ ys) \<Longrightarrow> wt_Operations xs \<and> (\<forall>w \<in> set ys. wt_Operation w)"
  by (auto simp: wt_Operations_def)

lemma addOp_wt: "wt_builder (addOp ty v t) \<Longrightarrow> err (addOp ty v t) = None \<Longrightarrow> ty \<noteq> OpInflation \<Longrightarrow>
    ty \<noteq> OpEndSponsoringFutureReserves \<Longrightarrow> wt_arm ty (Some v)"
  by (cases "NewOperationBody ty v")
    (auto simp: addOp_def wt_builder_def wt_Operation_def wt_OperationBody_def dest!: NewOperationBody_arm wt_Operations_append)

lemma Memo_toXDR_only: "Memo_toXDR m = Inr x \<Longrightarrow> wt_Memo x \<Longrightarrow> wt_package_memo m"
  by (auto simp: Memo_toXDR_def NewMemo_def wt_package_memo_def wt_Memo_def xdr_no_memo_def Let_def and_then_eq_Inr deref_eq_Inr
      split: if_splits)

lemma wt_action_only:
  assumes "err t = None" "err (run_action C a t) = None" "wt_builder (run_action C a t)"
  shows "wt_action a"
proof (cases a)
  case (SetMemo m)
  then show ?thesis
    using assms by (cases m; cases "Memo_toXDR (the m)")
      (auto simp: AddMemo_def skipAddMemo_no_error wt_builder_def set_memo_def Memo_toXDR_only split: if_splits)
next
  case (SetMemoText s)
  then show ?thesis
    using assms by (auto simp: AddMemoText_def skipAddMemo_no_error NewMemo_def wt_builder_def set_memo_def wt_Memo_def wt_upto_def
        xdr_no_memo_def split: if_splits)
next
  case (PathPayment to sa sm da am p)
  then show ?thesis
    using assms map_res_wt [of "assetBaseToXDR C" p _ "\<lambda>_. True"]
    by (auto simp: AddPathPaymentOp_def skipAddOp_no_error tx_try_def wt_PathPaymentStrictReceiveOp_def wt_Path_def
        dest!: addOp_wt split: if_splits sum.splits)
next
  case (AssetPayment to asset amt)
  then show ?thesis
    using assms by (auto simp: AddAssetPaymentOp_def skipAddOp_no_error tx_try_def wt_PaymentOp_def dest!: addOp_wt split: if_splits sum.splits)
next
  case (Offer sell buy amt p)
  then show ?thesis
    using assms by (auto simp: AddOfferOp_def skipAddOp_no_error tx_try_def wt_ManageSellOfferOp_def dest!: addOp_wt split: if_splits sum.splits)
qed simp_all

definition plain_memo :: "Tx \<Rightarrow> bool" where
  "plain_memo t \<longleftrightarrow> haveMemo t \<or> tx_Memo (internal t) = xdr_no_memo"

lemma plain_memo_action:
  assumes "plain_memo t" "err t = None"
  shows "plain_memo (run_action C a t)"
proof (cases "sets_memo a")
  case True
  then show ?thesis
  proof (cases a)
    case (SetMemo m)
    then show ?thesis
      using assms by (cases m; cases "Memo_toXDR (the m)")
        (auto simp: plain_memo_def AddMemo_def skipAddMemo_no_error haveMemo_def set_memo_def Memo_toXDR_def NewMemo_def
          xdr_no_memo_def and_then_eq_Inr split: if_splits)
  next
    case (SetMemoText s)
    then show ?thesis
      using assms by (auto simp: plain_memo_def AddMemoText_def skipAddMemo_no_error haveMemo_def set_memo_def NewMemo_def xdr_no_memo_def)
  next
    case (SetMemoID i)
    then show ?thesis
      using assms by (auto simp: plain_memo_def AddMemoID_def skipAddMemo_no_error haveMemo_def set_memo_def NewMemo_def xdr_no_memo_def
          split: option.split)
  qed simp_all
next
  case False
  then have "tx_Memo (internal (run_action C a t)) = tx_Memo (internal t)" by (rule run_action_memo)
  then show ?thesis using assms(1) by (simp add: plain_memo_def haveMemo_def)
qed

lemma wt_builder_before:
  assumes "plain_memo t" "wt_builder (run_action C a t)"
  shows "wt_builder t"
proof -
  have "wt_Operations (tx_Operations (internal t))"
    using assms(2) run_action_ops [of C a t] by (auto simp: wt_builder_def dest!: wt_Operations_append)
  moreover have "haveMemo t \<Longrightarrow> tx_Memo (internal (run_action C a t)) = tx_Memo (internal t)"
    using run_action_disciplined [of C a t] by (simp add: disciplined_def Let_def)
  moreover have "wt_Memo xdr_no_memo" by (simp add: wt_Memo_def)
  ultimately show ?thesis using assms by (auto simp: wt_builder_def plain_memo_def)
qed

lemma wt_builder_only:
  "err (run_actions C as (NewBaseTx network src prov fee)) = None \<Longrightarrow>
    wt_builder (run_actions C as (NewBaseTx network src prov fee)) \<Longrightarrow> list_all wt_action as"
proof (induction as rule: rev_induct)
  case (snoc a as)
  let ?t = "run_actions C as (NewBaseTx network src prov fee)"
  have e: "err ?t = None" using snoc.prems(1) by (cases "err ?t") (simp_all add: run_actions_def)
  have "plain_memo ?t"
    using e
  proof (induction as rule: rev_induct)
    case (snoc b bs)
    then have "err (run_actions C bs (NewBaseTx network src prov fee)) = None"
      by (cases "err (run_actions C bs (NewBaseTx network src prov fee))") (simp_all add: run_actions_def)
    with snoc show ?case by (simp add: run_actions_def plain_memo_action)
  qed (simp add: run_actions_def plain_memo_def NewBaseTx_def empty_Transaction_def)
  then have "wt_builder ?t" using snoc.prems(2) wt_builder_before [of ?t C a] by (simp add: run_actions_def)
  moreover have "wt_action a" using wt_action_only [OF e, of C a] snoc.prems by (simp add: run_actions_def)
  ultimately show ?case using snoc.IH e by simp
qed simp

lemma wt_builder_prov [simp]: "wt_builder (t\<lparr>seqnoProv := p\<rparr>) = wt_builder t"
  by (simp add: wt_builder_def)


section \<open>The account of a seed\<close>

text \<open>What signs is a seed, and the source of the transaction is its address.\<close>

lemma signing_key:
  assumes "crypto_ok C" "SeedStr_Address C from = Inr a" "sign_one C hash from = Inr sig"
  shows "\<exists>pub v. a = address_of pub \<and> length pub = 32 \<and> AddressStr_MuxedAccount a = Inr (KeyTypeEd25519 pub) \<and>
    keypair_Parse C a = Inr v \<and> kp_Hint v = Inr (Hint sig) \<and> kp_Verify C v hash (Signature sig) = Inr ()"
proof -
  obtain kp where kp: "keypair_Parse C from = Inr kp" "kp_SignDecorated C kp hash = Inr sig"
    using assms(3) by (auto simp: sign_one_def SecureNoLogString_def and_then_eq_Inr)
  have a: "a = kp_Address kp" using assms(2) kp(1) by (simp add: SeedStr_Address_def SecureNoLogString_def)
  obtain raw where raw: "strkey_Decode VersionByteSeed from = Inr raw" "32 \<le> length raw"
    "a = address_of (ed_public C (take 32 raw))"
    using kp a by (auto simp: keypair_Parse_eq_Inr kp_SignDecorated_def kp_Sign_def)
  let ?pub = "ed_public C (take 32 raw)"
  have l: "length ?pub = 32" using assms(1) raw(2) by (simp add: crypto_ok_def)
  have "length (address_of ?pub) = 56" by (simp add: length_address_of l)
  then have "AddressStr_MuxedAccount (address_of ?pub) = Inr (KeyTypeEd25519 ?pub)"
    by (simp add: AddressStr_MuxedAccount_def MuxedAccount_SetAddress_56 l)
  with keypairs.signature_accepted [OF assms(1) kp] raw(3) a l show ?thesis by auto
qed

lemma seed_account:
  assumes "crypto_ok C" "NewSeedStr C from = Inr s" "SeedStr_Address C from = Inr a"
  shows "\<exists>pub. a = address_of pub \<and> AddressStr_MuxedAccount a = Inr (KeyTypeEd25519 pub)"
  using sign_one_ok [OF assms(1,2), of "[]"] signing_key [OF assms(1,3)] by blast

section \<open>What is signed is read back\<close>

lemma signed_envelope_read:
  assumes "crypto_ok C" "wt_builder t" "AddressStr_MuxedAccount (source t) = Inr account" "sign_one C hash from = Inr sig"
    and "MarshalEnvelope (EnvelopeTx \<lparr>v1_Tx = signed_tx t seqno account, v1_Signatures = [sig]\<rparr>) = Inr buf"
  shows "UnmarshalEnvelope buf = Inr (EnvelopeTx \<lparr>v1_Tx = signed_tx t seqno account, v1_Signatures = [sig]\<rparr>)"
proof (rule UnmarshalEnvelope_Marshal [OF _ assms(5)])
  show "wt_envelope (EnvelopeTx \<lparr>v1_Tx = signed_tx t seqno account, v1_Signatures = [sig]\<rparr>)"
    using signed_tx_wt [OF assms(2) MuxedAccount_wt [OF assms(3)]] sign_one_wt [OF assms(1,4)]
    by (simp add: wt_V1_def wt_Signatures_def)
qed

section \<open>Properties\<close>

text \<open>
  C7. The limits the methods leave to the caller are exactly those of \<open>wt_action\<close>: a memo text of at
  most 28 bytes (\<open>AddMemo\<close> and \<open>AddMemoText\<close>), a path of at most 5 assets, and asset values whose set
  arm is the one of their type. Methods called within them, in any order and with any errors
  on the way, leave a transaction within the limits of the schema; and a builder without an
  error whose transaction is within the schema was never called outside them.
\<close>

theorem builder_typed:
  "(list_all wt_action as \<longrightarrow> wt_builder (run_actions C as (NewBaseTx network src prov fee))) \<and>
   (err (run_actions C as (NewBaseTx network src prov fee)) = None \<and>
    wt_builder (run_actions C as (NewBaseTx network src prov fee)) \<longrightarrow> list_all wt_action as)"
  using wt_builder_actions [OF wt_builder_new] wt_builder_only by blast

theorem builder_typed_witness:
  "wt_builder (run_actions plain_crypto [HomeDomain ''keybase.io'', SetMemoText ''hi''] (NewBaseTx ''net'' [] (\<lambda>_. Inr 7) 100)) \<and>
   \<not> wt_builder (run_actions plain_crypto [SetMemoText (replicate 29 CHR ''a'')] (NewBaseTx ''net'' [] (\<lambda>_. Inr 7) 100))"
proof -
  have "err (run_actions plain_crypto [SetMemoText (replicate 29 CHR ''a'')] (NewBaseTx ''net'' [] (\<lambda>_. Inr 7) 100)) = None"
    by (simp add: run_actions_def NewBaseTx_def AddMemoText_def skipAddMemo_def haveMemo_def NewMemo_def set_memo_def
        empty_Transaction_def xdr_no_memo_def)
  then show ?thesis
    using builder_typed [of "[HomeDomain ''keybase.io'', SetMemoText ''hi'']" plain_crypto "''net''" "[]" "\<lambda>_. Inr 7" 100]
      builder_typed [of "[SetMemoText (replicate 29 CHR ''a'')]" plain_crypto "''net''" "[]" "\<lambda>_. Inr 7" 100] by simp
qed

text \<open>
  C5. What a signature is over: a successful \<open>Sign\<close> of a transaction within the limits
  returns the next sequence number, the hash of the transaction it built (in hexadecimal),
  and a base64 text whose bytes every reader takes for that transaction, with its
  operations, memo and bounds as the builder had them, and one signature of the hash that
  verifies under the address of the signing seed.
\<close>

theorem Sign_envelope:
  assumes "crypto_ok C" and "wt_builder t" and "fst (Sign C from t) = Inr r"
  shows "\<exists>seqno buf tx d hash a v.
    seqnoProv t (source t) = Inr seqno \<and> sr_Seqno r = seqno + 1 \<and>
    base64_DecodeString (sr_Signed r) = Inr buf \<and>
    UnmarshalEnvelope buf = Inr (EnvelopeTx \<lparr>v1_Tx = tx, v1_Signatures = [d]\<rparr>) \<and>
    tx_SeqNum tx = seqno + 1 \<and> tx_Operations tx = tx_Operations (internal t) \<and>
    tx_Memo tx = tx_Memo (internal t) \<and> tx_TimeBounds tx = tx_TimeBounds (internal t) \<and>
    HashTransaction C tx (netPass t) = Inr hash \<and> hex_DecodeString (sr_TxHash r) = Inr hash \<and>
    SeedStr_Address C from = Inr a \<and> keypair_Parse C a = Inr v \<and>
    kp_Hint v = Inr (Hint d) \<and> kp_Verify C v hash (Signature d) = Inr ()"
proof -
  from assms(3) [unfolded Sign_eq_Inr] obtain seqno account hash sig buf where
    s: "seqnoProv t (source t) = Inr seqno" "HashTransaction C (signed_tx t seqno account) (netPass t) = Inr hash"
      "sign_one C hash from = Inr sig" "AddressStr_MuxedAccount (source t) = Inr account"
      "MarshalEnvelope (EnvelopeTx \<lparr>v1_Tx = signed_tx t seqno account, v1_Signatures = [sig]\<rparr>) = Inr buf"
      "r = \<lparr>sr_Seqno = seqno + 1, sr_Signed = base64_EncodeToString buf, sr_TxHash = hex_EncodeToString hash\<rparr>"
    by blast
  from s(3) obtain kp where kp: "keypair_Parse C from = Inr kp" "kp_SignDecorated C kp hash = Inr sig"
    by (auto simp: sign_one_def SecureNoLogString_def and_then_eq_Inr)
  obtain v where v: "keypair_Parse C (kp_Address kp) = Inr v" "kp_Hint v = Inr (Hint sig)"
      "kp_Verify C v hash (Signature sig) = Inr ()"
    using keypairs.signature_accepted [OF assms(1) kp] by blast
  have "SeedStr_Address C from = Inr (kp_Address kp)" using kp(1) by (simp add: SeedStr_Address_def SecureNoLogString_def)
  with signed_envelope_read [OF assms(1,2) s(4,3,5)] s v show ?thesis
    by (intro exI [of _ seqno] exI [of _ buf] exI [of _ "signed_tx t seqno account"] exI [of _ sig] exI [of _ hash]
        exI [of _ "kp_Address kp"] exI [of _ v])
      (simp add: base64_roundtrip hex_roundtrip signed_tx_def)
qed

theorem Sign_envelope_witness:
  "\<exists>buf tx d. UnmarshalEnvelope buf = Inr (EnvelopeTx \<lparr>v1_Tx = tx, v1_Signatures = [d]\<rparr>) \<and> tx_SeqNum tx = 8"
proof -
  obtain r where "fst (Sign plain_crypto demo_seed demo_tx) = Inr r" using demo_Sign by blast
  from Sign_envelope [OF plain_crypto_ok demo_wt this, of] show ?thesis
    by (auto simp: demo_fields)
qed

text \<open>
  C1. A signature is always made: a builder for a seed whose methods were called with
  arguments within the limits and recorded no error, at least one operation among them; a
  provider that answers; a passphrase that is not blank: \<open>Sign\<close> returns a result, with the
  next sequence number.
\<close>

theorem Sign_returns:
  assumes "crypto_ok C" and "is_ok (NewSeedStr C from)" and "newBaseTxSeed C network from prov fee = Inr t0"
    and "list_all wt_action as" and "err (run_actions C as t0) = None" and "filter is_op_action as \<noteq> []"
    and "TrimSpace network \<noteq> []" and "prov (source t0) = Inr seqno"
  shows "\<exists>r. fst (Sign C from (run_actions C as t0)) = Inr r \<and> sr_Seqno r = seqno + 1"
proof -
  from assms(3) obtain a where a: "SeedStr_Address C from = Inr a" "t0 = NewBaseTx network a prov fee"
    by (auto simp: newBaseTxSeed_def and_then_eq_Inr)
  have f: "source t0 = a" "netPass t0 = network" "seqnoProv t0 = prov" by (simp_all add: a(2) NewBaseTx_def)
  obtain s where s: "NewSeedStr C from = Inr s" using assms(2) by (auto simp: is_ok_iff)
  obtain pub where pub: "AddressStr_MuxedAccount a = Inr (KeyTypeEd25519 pub)" using seed_account [OF assms(1) s a(1)] by blast
  have "err t0 = None" "op_count t0 = 0" by (simp_all add: a(2) NewBaseTx_def op_count_def empty_Transaction_def)
  with run_actions_count [OF _ assms(5)] assms(6) have "op_count (run_actions C as t0) \<noteq> 0" by simp
  then show ?thesis
    using Sign_ok [OF assms(1) _ assms(5) _ _ s, of seqno "KeyTypeEd25519 pub"] wt_builder_actions [OF _ assms(4), of t0 C]
      assms(7,8) pub f by (simp add: a(2))
qed

theorem Sign_returns_witness:
  "\<exists>r. fst (Sign plain_crypto demo_seed (run_actions plain_crypto [HomeDomain ''keybase.io'']
      (NewBaseTx ''net'' (address_of demo_pub) (\<lambda>_. Inr 41) 100))) = Inr r \<and> sr_Seqno r = 42"
proof -
  have "newBaseTxSeed plain_crypto ''net'' demo_seed (\<lambda>_. Inr 41) 100 = Inr (NewBaseTx ''net'' (address_of demo_pub) (\<lambda>_. Inr 41) 100)"
    by (simp add: newBaseTxSeed_def demo_Address)
  moreover have "is_ok (NewSeedStr plain_crypto demo_seed)" by (simp add: NewSeedStr_def demo_Parse demo_kp_def)
  moreover have "err (run_actions plain_crypto [HomeDomain ''keybase.io''] (NewBaseTx ''net'' (address_of demo_pub) (\<lambda>_. Inr 41) 100)) = None"
    by (simp add: run_actions_def AddHomeDomainOp_def skipAddOp_def NewBaseTx_def IsFull_def empty_Transaction_def addOp_def)
  ultimately show ?thesis
    using Sign_returns [OF plain_crypto_ok, of demo_seed "''net''" "\<lambda>_. Inr 41" 100 _ "[HomeDomain ''keybase.io'']" 41]
    by (simp add: TrimSpace_net)
qed

end
