(* ===== verification/Envelopes.thy ===== *)
theory Envelopes
  imports Tx_Typed
begin

text \<open>
  Envelopes that were made elsewhere: \<open>SignEnvelope\<close> (\<open>account.go\<close>), which adds a signature, and
  \<open>VerifyEnvelope\<close> (\<open>verify.go\<close>); what is accepted, and that what the builder signs is.
\<close>

section \<open>Signing and verifying\<close>

text \<open>
  \<open>SignEnvelope\<close> appends to the signatures behind the pointer \<open>txEnv.V1\<close>, which the
  caller shares: the envelope after the call is the second component.
\<close>

definition SignEnvelope ::
  "go_crypto \<Rightarrow> string \<Rightarrow> SeedStr \<Rightarrow> TransactionEnvelope \<Rightarrow> SignResult res \<times> TransactionEnvelope" where
  "SignEnvelope C network from txEnv =
     (case and_then (deref (env_V1 txEnv)) (\<lambda>v1.
             and_then (HashTransaction C (v1_Tx v1) network) (\<lambda>hash.
             and_then (keypair_Parse C (SecureNoLogString from)) (\<lambda>kp.
             and_then (kp_SignDecorated C kp hash) (\<lambda>sig.
               Inr (v1, hash, sig))))) of
        Inl e \<Rightarrow> (Inl e, txEnv)
      | Inr (v1, hash, sig) \<Rightarrow>
          let txEnv = EnvelopeTx (v1\<lparr>v1_Signatures := v1_Signatures v1 @ [sig]\<rparr>)
          in (and_then (MarshalEnvelope txEnv) (\<lambda>buf.
                Inr \<lparr>sr_Seqno = tx_SeqNum (v1_Tx v1), sr_Signed = base64_EncodeToString buf, sr_TxHash = hex_EncodeToString hash\<rparr>),
              txEnv))"

text \<open>\<open>verify.go\<close>: the loop over the signatures with the hint of the source account.\<close>

fun verify_loop :: "go_crypto \<Rightarrow> KP \<Rightarrow> byte list \<Rightarrow> DecoratedSignature list \<Rightarrow> bool \<Rightarrow> bool res" where
  "verify_loop C kp hash [] found = Inr found"
| "verify_loop C kp hash (sig # rest) found =
     and_then (kp_Hint kp) (\<lambda>hint.
       if Hint sig \<noteq> hint then verify_loop C kp hash rest found
       else and_then (kp_Verify C kp hash (Signature sig)) (\<lambda>_. verify_loop C kp hash rest True))"

definition VerifyEnvelope :: "go_crypto \<Rightarrow> string \<Rightarrow> TransactionEnvelope \<Rightarrow> unit res" where
  "VerifyEnvelope C network txEnv =
     and_then (case env_SourceAccount txEnv of None \<Rightarrow> Inl (Panic ''could not get Ed25519'') | Some a \<Rightarrow> MuxedAccount_Address a) (\<lambda>addr.
     and_then (keypair_Parse C addr) (\<lambda>kp.
     and_then (deref (env_V1 txEnv)) (\<lambda>v1.
     and_then (HashTransaction C (v1_Tx v1) network) (\<lambda>hash.
     and_then (verify_loop C kp hash (env_Signatures txEnv) False) (\<lambda>found.
       if \<not> found then Inl (NewError ''no signature found for source account'') else Inr ())))))"

section \<open>Facts\<close>

lemma verify_loop_eq_Inr:
  assumes "kp_Hint kp = Inr h"
  shows "verify_loop C kp hash sigs f = Inr g \<longleftrightarrow>
    list_all (\<lambda>s. Hint s = h \<longrightarrow> kp_Verify C kp hash (Signature s) = Inr ()) sigs \<and>
    g = (f \<or> list_ex (\<lambda>s. Hint s = h) sigs)"
  by (induction sigs arbitrary: f) (auto simp: assms and_then_eq_Inr)

lemma signed_tx_source: "tx_SourceAccount (signed_tx t seqno account) = Some account"
  by (simp add: signed_tx_def)

lemma signed_envelope:
  assumes "crypto_ok C" "wt_builder t" "SeedStr_Address C from = Inr (source t)" "fst (Sign C from t) = Inr r"
  shows "\<exists>seqno account buf sig. seqnoProv t (source t) = Inr seqno \<and> AddressStr_MuxedAccount (source t) = Inr account \<and>
    sr_Signed r = base64_EncodeToString buf \<and>
    MarshalEnvelope (EnvelopeTx \<lparr>v1_Tx = signed_tx t seqno account, v1_Signatures = [sig]\<rparr>) = Inr buf \<and>
    (UnmarshalEnvelope buf = Inr (EnvelopeTx \<lparr>v1_Tx = signed_tx t seqno account, v1_Signatures = [sig]\<rparr>)) \<and>
    VerifyEnvelope C (netPass t) (EnvelopeTx \<lparr>v1_Tx = signed_tx t seqno account, v1_Signatures = [sig]\<rparr>) = Inr ()"
proof -
  obtain seqno account hash sig buf where
    s: "seqnoProv t (source t) = Inr seqno" "AddressStr_MuxedAccount (source t) = Inr account"
      "HashTransaction C (signed_tx t seqno account) (netPass t) = Inr hash" "sign_one C hash from = Inr sig"
      "MarshalEnvelope (EnvelopeTx \<lparr>v1_Tx = signed_tx t seqno account, v1_Signatures = [sig]\<rparr>) = Inr buf"
      "r = \<lparr>sr_Seqno = seqno + 1, sr_Signed = base64_EncodeToString buf, sr_TxHash = hex_EncodeToString hash\<rparr>"
    using assms(4) [unfolded Sign_eq_Inr] by blast
  obtain pub v where k: "source t = address_of pub" "AddressStr_MuxedAccount (source t) = Inr (KeyTypeEd25519 pub)"
    "keypair_Parse C (source t) = Inr v" "kp_Hint v = Inr (Hint sig)" "kp_Verify C v hash (Signature sig) = Inr ()"
    using signing_key [OF assms(1,3) s(4)] by blast
  have "account = KeyTypeEd25519 pub" using s(2) k(2) by simp
  with s(3) k have "VerifyEnvelope C (netPass t) (EnvelopeTx \<lparr>v1_Tx = signed_tx t seqno account, v1_Signatures = [sig]\<rparr>) = Inr ()"
    by (simp add: VerifyEnvelope_def env_SourceAccount_def env_V1_def env_Signatures_def signed_tx_source MuxedAccount_Address_def)
  moreover have "UnmarshalEnvelope buf = Inr (EnvelopeTx \<lparr>v1_Tx = signed_tx t seqno account, v1_Signatures = [sig]\<rparr>)"
    using signed_envelope_read [OF assms(1,2) s(2,4,5)] by blast
  ultimately show ?thesis
    using s by (intro exI [of _ seqno] exI [of _ account] exI [of _ buf] exI [of _ sig]) simp
qed

section \<open>Properties\<close>

lemma verify_loop_True:
  "verify_loop C kp hash sigs False = Inr True \<longleftrightarrow>
    (\<exists>h. kp_Hint kp = Inr h \<and> filter (\<lambda>s. Hint s = h) sigs \<noteq> [] \<and>
       list_all (\<lambda>s. kp_Verify C kp hash (Signature s) = Inr ()) (filter (\<lambda>s. Hint s = h) sigs))"
proof (cases "kp_Hint kp")
  case (Inr h)
  then show ?thesis by (auto simp: verify_loop_eq_Inr list_all_iff list_ex_iff filter_empty_conv)
qed (cases sigs; simp)

lemma keypair_Parse_address_of: "keypair_Parse C (address_of pub) = Inr (FromAddress (address_of pub) pub)"
  by (simp add: keypair_Parse_eq_Inr)

lemma muxed_version: "VersionByteAccountID \<noteq> VersionByteMuxedAccount" "VersionByteSeed \<noteq> VersionByteMuxedAccount"
  by (simp_all add: VersionByteAccountID_def VersionByteSeed_def VersionByteMuxedAccount_def)

lemma Parse_of_account:
  "MuxedAccount_Address a = Inr addr \<and> keypair_Parse C addr = Inr kp \<longleftrightarrow>
    (\<exists>pub. a = KeyTypeEd25519 pub \<and> addr = address_of pub \<and> kp = FromAddress addr pub)"
proof (cases a)
  case (KeyTypeEd25519 pub)
  then show ?thesis by (auto simp: MuxedAccount_Address_def keypair_Parse_address_of)
next
  case (KeyTypeMuxedEd25519 i ed)
  have "\<not> (\<exists>r. keypair_Parse C addr = Inr r)" if "strkey_Encode VersionByteMuxedAccount (ed @ uint64_be i) = Inr addr"
  proof -
    have "strkey_Decode VersionByteMuxedAccount addr = Inr (ed @ uint64_be i)" 
      using strkey_roundtrip [of VersionByteMuxedAccount "ed @ uint64_be i"] that by simp
    from strkey_Decode_version [OF this, of VersionByteAccountID] strkey_Decode_version [OF this, of VersionByteSeed]
    have "strkey_Decode VersionByteAccountID addr = Inl ErrInvalidVersionByte" "strkey_Decode VersionByteSeed addr = Inl ErrInvalidVersionByte"
      by (simp_all add: muxed_version)
    then show ?thesis by (simp add: keypair_Parse_eq_Inr)
  qed
  with KeyTypeMuxedEd25519 show ?thesis by (auto simp: MuxedAccount_Address_def)
qed

lemma VerifyEnvelope_iff_lemma:
  "VerifyEnvelope C net e = Inr () \<longleftrightarrow>
    (\<exists>v1 pub hash h sigs. e = EnvelopeTx v1 \<and> tx_SourceAccount (v1_Tx v1) = Some (KeyTypeEd25519 pub) \<and>
       HashTransaction C (v1_Tx v1) net = Inr hash \<and> kp_Hint (FromAddress (address_of pub) pub) = Inr h \<and>
       sigs = filter (\<lambda>s. Hint s = h) (v1_Signatures v1) \<and> sigs \<noteq> [] \<and>
       list_all (\<lambda>s. kp_Verify C (FromAddress (address_of pub) pub) hash (Signature s) = Inr ()) sigs)"
proof (cases e)
  case (EnvelopeTx v1)
  show ?thesis
  proof (cases "tx_SourceAccount (v1_Tx v1)")
    case (Some a)
    have "VerifyEnvelope C net e = Inr () \<longleftrightarrow>
      (\<exists>addr kp hash. (MuxedAccount_Address a = Inr addr \<and> keypair_Parse C addr = Inr kp) \<and>
        HashTransaction C (v1_Tx v1) net = Inr hash \<and> verify_loop C kp hash (v1_Signatures v1) False = Inr True)"
      using Some by (auto simp: EnvelopeTx VerifyEnvelope_def env_SourceAccount_def env_V1_def env_Signatures_def and_then_eq_Inr
          split: if_splits)
    also have "\<dots> \<longleftrightarrow> (\<exists>pub hash. a = KeyTypeEd25519 pub \<and> HashTransaction C (v1_Tx v1) net = Inr hash \<and>
        verify_loop C (FromAddress (address_of pub) pub) hash (v1_Signatures v1) False = Inr True)"
      unfolding Parse_of_account by blast
    also have "\<dots> \<longleftrightarrow> (\<exists>pub hash h sigs. a = KeyTypeEd25519 pub \<and> HashTransaction C (v1_Tx v1) net = Inr hash \<and>
        kp_Hint (FromAddress (address_of pub) pub) = Inr h \<and> sigs = filter (\<lambda>s. Hint s = h) (v1_Signatures v1) \<and> sigs \<noteq> [] \<and>
        list_all (\<lambda>s. kp_Verify C (FromAddress (address_of pub) pub) hash (Signature s) = Inr ()) sigs)"
      by (simp add: verify_loop_True)
    finally show ?thesis using Some EnvelopeTx by auto
  qed (simp add: EnvelopeTx VerifyEnvelope_def env_SourceAccount_def)
qed (simp_all add: VerifyEnvelope_def env_V1_def env_SourceAccount_def and_then_eq_Inr split: option.splits)

text \<open>
  C14. \<open>VerifyEnvelope\<close> accepts an envelope exactly when it is a version 1 envelope whose
  source is a plain key, at least one of its signatures has the hint of that key, and every
  one that has it is a signature of the transaction's hash under the key.
\<close>

theorem VerifyEnvelope_iff:
  "VerifyEnvelope C net e = Inr () \<longleftrightarrow>
    (\<exists>v1 pub hash h sigs. e = EnvelopeTx v1 \<and> tx_SourceAccount (v1_Tx v1) = Some (KeyTypeEd25519 pub) \<and>
       HashTransaction C (v1_Tx v1) net = Inr hash \<and> kp_Hint (FromAddress (address_of pub) pub) = Inr h \<and>
       sigs = filter (\<lambda>s. Hint s = h) (v1_Signatures v1) \<and> sigs \<noteq> [] \<and>
       list_all (\<lambda>s. kp_Verify C (FromAddress (address_of pub) pub) hash (Signature s) = Inr ()) sigs)"
  by (rule VerifyEnvelope_iff_lemma)

text \<open>
  C37. \<open>SignEnvelope\<close> appends one signature: the text it returns and the caller's envelope
  both hold the transaction unchanged with the old signatures and the new one; if the seed
  is the source's and the old signatures with its hint are good, the result verifies.
\<close>

theorem SignEnvelope_adds:
  assumes "crypto_ok C" and "wt_envelope e" and "length (env_Signatures e) < 20" and "SignEnvelope C net from e = (Inr r, e')"
  shows "\<exists>v1 sig buf. e = EnvelopeTx v1 \<and> e' = EnvelopeTx (v1\<lparr>v1_Signatures := v1_Signatures v1 @ [sig]\<rparr>) \<and>
    sr_Seqno r = tx_SeqNum (v1_Tx v1) \<and> base64_DecodeString (sr_Signed r) = Inr buf \<and> UnmarshalEnvelope buf = Inr e' \<and>
    (SeedStr_Address C from = Inr a \<and> tx_SourceAccount (v1_Tx v1) = Some (KeyTypeEd25519 pub) \<and> a = address_of pub \<and>
     (VerifyEnvelope C net e = Inr () \<or> v1_Signatures v1 = []) \<longrightarrow> VerifyEnvelope C net e' = Inr ())"
proof -
  obtain v1 where v1: "e = EnvelopeTx v1" using assms(4) by (cases e) (auto simp: SignEnvelope_def env_V1_def)
  obtain hash kp sig buf where
    h: "HashTransaction C (v1_Tx v1) net = Inr hash" and kp: "keypair_Parse C from = Inr kp" "kp_SignDecorated C kp hash = Inr sig"
    and e': "e' = EnvelopeTx (v1\<lparr>v1_Signatures := v1_Signatures v1 @ [sig]\<rparr>)" and b: "MarshalEnvelope e' = Inr buf"
    and r: "r = \<lparr>sr_Seqno = tx_SeqNum (v1_Tx v1), sr_Signed = base64_EncodeToString buf, sr_TxHash = hex_EncodeToString hash\<rparr>"
    using assms(4) by (auto simp: SignEnvelope_def v1 env_V1_def SecureNoLogString_def and_then_eq_Inr Let_def split: sum.splits)
  have "VerifyEnvelope C net e' = Inr ()"
    if a: "SeedStr_Address C from = Inr (address_of pub)" and src: "tx_SourceAccount (v1_Tx v1) = Some (KeyTypeEd25519 pub)"
      and old: "VerifyEnvelope C net e = Inr () \<or> v1_Signatures v1 = []"
  proof -
    have "sign_one C hash from = Inr sig" using kp by (simp add: sign_one_def SecureNoLogString_def)
    from signing_key [OF assms(1) a this] have
      new: "kp_Hint (FromAddress (address_of pub) pub) = Inr (Hint sig)"
        "kp_Verify C (FromAddress (address_of pub) pub) hash (Signature sig) = Inr ()"
      by (auto simp: keypair_Parse_address_of)
    have "list_all (\<lambda>s. kp_Verify C (FromAddress (address_of pub) pub) hash (Signature s) = Inr ())
        (filter (\<lambda>s. Hint s = Hint sig) (v1_Signatures v1))"
      using old new(1) src h by (auto simp: VerifyEnvelope_iff_lemma v1)
    then show ?thesis using new src h by (auto simp: VerifyEnvelope_iff_lemma e')
  qed
  moreover have "UnmarshalEnvelope buf = Inr e'"
  proof (rule UnmarshalEnvelope_Marshal [OF _ b])
    have "wt_DecoratedSignature sig" using sign_one_wt [OF assms(1), of hash "from"] kp by (simp add: sign_one_def SecureNoLogString_def)
    then show "wt_envelope e'"
      using assms(2,3) by (auto simp: v1 e' wt_V1_def wt_Signatures_def env_Signatures_def)
  qed
  ultimately show ?thesis using v1 e' b r by (auto simp: base64_roundtrip)
qed

text \<open>A transaction of the demonstration key, not signed yet.\<close>

definition demo_unsigned :: xdr_Transaction where
  "demo_unsigned = sample_tx\<lparr>tx_SourceAccount := Some (KeyTypeEd25519 demo_pub)\<rparr>"

lemma demo_unsigned_wt: "wt_Transaction demo_unsigned"
  using sample_tx_wt by (simp add: demo_unsigned_def wt_Transaction_def wt_MuxedAccount_def wt_array_def demo_pub_def)

lemma demo_SignEnvelope:
  "\<exists>r. SignEnvelope plain_crypto ''net'' demo_seed (EnvelopeTx \<lparr>v1_Tx = demo_unsigned, v1_Signatures = []\<rparr>) =
    (Inr r, EnvelopeTx \<lparr>v1_Tx = demo_unsigned, v1_Signatures = [demo_sig]\<rparr>)"
proof -
  obtain h where "HashTransaction plain_crypto demo_unsigned ''net'' = Inr h"
    using HashTransaction_ok [OF plain_crypto_ok demo_unsigned_wt, of "''net''"] TrimSpace_net by auto
  moreover have "kp_SignDecorated plain_crypto demo_kp h = Inr demo_sig" for h
    using demo_sign_one [of h] by (simp add: sign_one_def SecureNoLogString_def demo_Parse)
  moreover have "wt_envelope (EnvelopeTx \<lparr>v1_Tx = demo_unsigned, v1_Signatures = [demo_sig]\<rparr>)"
    using demo_unsigned_wt by (simp add: wt_V1_def wt_Signatures_def wt_DecoratedSignature_def demo_sig_def wt_array_def wt_upto_def)
  then obtain buf where "MarshalEnvelope (EnvelopeTx \<lparr>v1_Tx = demo_unsigned, v1_Signatures = [demo_sig]\<rparr>) = Inr buf"
    using MarshalEnvelope_ok by blast
  ultimately show ?thesis
    by (simp add: SignEnvelope_def env_V1_def SecureNoLogString_def demo_Parse Let_def deref_simps)
qed

theorem SignEnvelope_adds_witness:
  "\<exists>v1 sig. EnvelopeTx \<lparr>v1_Tx = demo_unsigned, v1_Signatures = []\<rparr> = EnvelopeTx v1 \<and>
    VerifyEnvelope plain_crypto ''net'' (EnvelopeTx (v1\<lparr>v1_Signatures := [sig]\<rparr>)) = Inr ()"
proof -
  obtain r where "SignEnvelope plain_crypto ''net'' demo_seed (EnvelopeTx \<lparr>v1_Tx = demo_unsigned, v1_Signatures = []\<rparr>) =
      (Inr r, EnvelopeTx \<lparr>v1_Tx = demo_unsigned, v1_Signatures = [demo_sig]\<rparr>)" using demo_SignEnvelope by blast
  from SignEnvelope_adds [OF plain_crypto_ok _ _ this, of "address_of demo_pub" demo_pub] demo_unsigned_wt
  show ?thesis
    by (auto simp: demo_Address demo_unsigned_def wt_V1_def wt_Signatures_def env_Signatures_def)
qed

end
