(* ===== verification/Payments.thy ===== *)
theory Payments
  imports Accounts Envelopes
begin

text \<open>
  The transactions of \<open>account.go\<close>: one function per kind of transaction that builds,
  signs and, for the flows of the package, submits it. \<open>client\<close> holds the package's
  configuration: the network passphrase and the horizon client, next to the cryptographic
  primitives.
\<close>

section \<open>Configuration and sequence numbers\<close>

record 'w client =
  cl_crypto :: go_crypto
  cl_network :: string
  cl_horizon :: "'w horizon"

text \<open>A sequence provider asked in a state of the world; \<open>Client()\<close> is one.\<close>

type_synonym 'w provider = "string \<Rightarrow> ('w, int64) op"

definition Client :: "'w client \<Rightarrow> 'w provider" where
  "Client E = SequenceForAccount (cl_horizon E)"

text \<open>
  \<open>t.Sign(from)\<close> with a provider that acts on the world. Signing asks the provider at most
  once, for the source of the transaction, and not at all when the transaction has an error
  or no operation.
\<close>

definition sign_in :: "'w client \<Rightarrow> 'w provider \<Rightarrow> SeedStr \<Rightarrow> Tx \<Rightarrow> ('w, SignResult) op" where
  "sign_in E P from t w =
     (if err t \<noteq> None \<or> tx_Operations (internal t) = []
      then (fst (Sign (cl_crypto E) from t), w)
      else case P (source t) w of
        (seqno, w') \<Rightarrow> (fst (Sign (cl_crypto E) from (t\<lparr>seqnoProv := \<lambda>_. seqno\<rparr>)), w'))"

text \<open>\<open>newBaseTxSeed\<close>; until it is signed the builder does not use its provider.\<close>

definition unasked :: "string \<Rightarrow> int64 res" where
  "unasked aid = Inl (Panic ''provider not asked before Sign'')"

definition base_tx :: "'w client \<Rightarrow> SeedStr \<Rightarrow> uint64 \<Rightarrow> Tx res" where
  "base_tx E from fee = newBaseTxSeed (cl_crypto E) (cl_network E) from unasked fee"

section \<open>Transactions\<close>

definition PaymentXLMTransactionWithMemo ::
  "'w client \<Rightarrow> SeedStr \<Rightarrow> AddressStr \<Rightarrow> string \<Rightarrow> Memo option \<Rightarrow> 'w provider \<Rightarrow> (int64 \<times> int64) option \<Rightarrow> uint64 \<Rightarrow> ('w, SignResult) op" where
  "PaymentXLMTransactionWithMemo E from to amount memo P timeBounds fee =
     op_bind (op_lift (base_tx E from fee)) (\<lambda>t.
       let t = AddPaymentOp to amount t;
           t = AddMemo memo t;
           t = AddBuiltTimeBounds timeBounds t
       in sign_in E P from t)"

definition PaymentXLMTransaction ::
  "'w client \<Rightarrow> SeedStr \<Rightarrow> AddressStr \<Rightarrow> string \<Rightarrow> string \<Rightarrow> 'w provider \<Rightarrow> (int64 \<times> int64) option \<Rightarrow> uint64 \<Rightarrow> ('w, SignResult) op" where
  "PaymentXLMTransaction E from to amount memoText P timeBounds fee =
     PaymentXLMTransactionWithMemo E from to amount (Some (NewMemoText memoText)) P timeBounds fee"

definition PaymentTransaction ::
  "'w client \<Rightarrow> SeedStr \<Rightarrow> AddressStr \<Rightarrow> AssetBase \<Rightarrow> string \<Rightarrow> string \<Rightarrow> 'w provider \<Rightarrow> (int64 \<times> int64) option \<Rightarrow> uint64 \<Rightarrow> ('w, SignResult) op" where
  "PaymentTransaction E from to asset amount memoText P timeBounds fee =
     op_bind (op_lift (base_tx E from fee)) (\<lambda>t.
     op_bind (op_lift (assetBaseToXDR (cl_crypto E) asset)) (\<lambda>assetXDR.
       let t = AddAssetPaymentOp to assetXDR amount t;
           t = AddMemoText memoText t;
           t = AddBuiltTimeBounds timeBounds t
       in sign_in E P from t))"

definition PathPaymentTransactionWithMemo ::
  "'w client \<Rightarrow> SeedStr \<Rightarrow> AddressStr \<Rightarrow> AssetBase \<Rightarrow> string \<Rightarrow> AssetBase \<Rightarrow> string \<Rightarrow> AssetBase list \<Rightarrow> Memo option \<Rightarrow>
   'w provider \<Rightarrow> (int64 \<times> int64) option \<Rightarrow> uint64 \<Rightarrow> ('w, SignResult) op" where
  "PathPaymentTransactionWithMemo E from to sendAsset sendAmountMax destAsset destAmount path memo P timeBounds fee =
     op_bind (op_lift (base_tx E from fee)) (\<lambda>t.
       let t = AddPathPaymentOp (cl_crypto E) to sendAsset sendAmountMax destAsset destAmount path t;
           t = AddMemo memo t;
           t = AddBuiltTimeBounds timeBounds t
       in sign_in E P from t)"

definition PathPaymentTransaction ::
  "'w client \<Rightarrow> SeedStr \<Rightarrow> AddressStr \<Rightarrow> AssetBase \<Rightarrow> string \<Rightarrow> AssetBase \<Rightarrow> string \<Rightarrow> AssetBase list \<Rightarrow> string \<Rightarrow>
   'w provider \<Rightarrow> (int64 \<times> int64) option \<Rightarrow> uint64 \<Rightarrow> ('w, SignResult) op" where
  "PathPaymentTransaction E from to sendAsset sendAmountMax destAsset destAmount path memoText P timeBounds fee =
     PathPaymentTransactionWithMemo E from to sendAsset sendAmountMax destAsset destAmount path
       (Some (NewMemoText memoText)) P timeBounds fee"

definition CreateAccountXLMTransactionWithMemo ::
  "'w client \<Rightarrow> SeedStr \<Rightarrow> AddressStr \<Rightarrow> string \<Rightarrow> Memo option \<Rightarrow> 'w provider \<Rightarrow> (int64 \<times> int64) option \<Rightarrow> uint64 \<Rightarrow> ('w, SignResult) op" where
  "CreateAccountXLMTransactionWithMemo E from to amount memo P timeBounds fee =
     op_bind (op_lift (base_tx E from fee)) (\<lambda>t.
       let t = AddCreateAccountOp to amount t;
           t = AddMemo memo t;
           t = AddBuiltTimeBounds timeBounds t
       in sign_in E P from t)"

definition CreateAccountXLMTransaction ::
  "'w client \<Rightarrow> SeedStr \<Rightarrow> AddressStr \<Rightarrow> string \<Rightarrow> string \<Rightarrow> 'w provider \<Rightarrow> (int64 \<times> int64) option \<Rightarrow> uint64 \<Rightarrow> ('w, SignResult) op" where
  "CreateAccountXLMTransaction E from to amount memoText P timeBounds fee =
     CreateAccountXLMTransactionWithMemo E from to amount (Some (NewMemoText memoText)) P timeBounds fee"

definition SetInflationDestinationTransaction ::
  "'w client \<Rightarrow> SeedStr \<Rightarrow> AddressStr \<Rightarrow> 'w provider \<Rightarrow> (int64 \<times> int64) option \<Rightarrow> uint64 \<Rightarrow> ('w, SignResult) op" where
  "SetInflationDestinationTransaction E from to P timeBounds fee =
     op_bind (op_lift (base_tx E from fee)) (\<lambda>t.
       let t = AddInflationDestinationOp to t;
           t = AddBuiltTimeBounds timeBounds t
       in sign_in E P from t)"

definition SetHomeDomainTransaction ::
  "'w client \<Rightarrow> SeedStr \<Rightarrow> string \<Rightarrow> 'w provider \<Rightarrow> (int64 \<times> int64) option \<Rightarrow> uint64 \<Rightarrow> ('w, SignResult) op" where
  "SetHomeDomainTransaction E from domain P timeBounds fee =
     op_bind (op_lift (base_tx E from fee)) (\<lambda>t.
       let t = AddHomeDomainOp domain t;
           t = AddBuiltTimeBounds timeBounds t
       in sign_in E P from t)"

definition MakeOfferTransaction ::
  "'w client \<Rightarrow> SeedStr \<Rightarrow> xdr_Asset \<Rightarrow> xdr_Asset \<Rightarrow> string \<Rightarrow> string \<Rightarrow> 'w provider \<Rightarrow> (int64 \<times> int64) option \<Rightarrow> uint64 \<Rightarrow> ('w, SignResult) op" where
  "MakeOfferTransaction E from selling buying amountToSell price P timeBounds fee =
     op_bind (op_lift (base_tx E from fee)) (\<lambda>t.
       let t = AddOfferOp selling buying amountToSell price t;
           t = AddBuiltTimeBounds timeBounds t
       in sign_in E P from t)"

definition RelocateTransaction ::
  "'w client \<Rightarrow> SeedStr \<Rightarrow> AddressStr \<Rightarrow> bool \<Rightarrow> uint64 option \<Rightarrow> 'w provider \<Rightarrow> (int64 \<times> int64) option \<Rightarrow> uint64 \<Rightarrow> ('w, SignResult) op" where
  "RelocateTransaction E from to toIsFunded memoID P timeBounds fee =
     op_bind (op_lift (base_tx E from fee)) (\<lambda>t.
       let t = (if \<not> toIsFunded then AddCreateAccountOp to ''1'' t else t);
           t = AddAccountMergeOp to t;
           t = AddMemoID memoID t;
           t = AddBuiltTimeBounds timeBounds t
       in sign_in E P from t)"

text \<open>The time bounds of the two trustline transactions are not used.\<close>

definition CreateTrustlineTransaction ::
  "'w client \<Rightarrow> SeedStr \<Rightarrow> string \<Rightarrow> AddressStr \<Rightarrow> string \<Rightarrow> 'w provider \<Rightarrow> (int64 \<times> int64) option \<Rightarrow> uint64 \<Rightarrow> ('w, SignResult) op" where
  "CreateTrustlineTransaction E from assetCode assetIssuer limit P timeBounds fee =
     op_bind (op_lift (base_tx E from fee)) (\<lambda>t. sign_in E P from (AddCreateTrustlineOp assetCode assetIssuer limit t))"

definition DeleteTrustlineTransaction ::
  "'w client \<Rightarrow> SeedStr \<Rightarrow> string \<Rightarrow> AddressStr \<Rightarrow> 'w provider \<Rightarrow> (int64 \<times> int64) option \<Rightarrow> uint64 \<Rightarrow> ('w, SignResult) op" where
  "DeleteTrustlineTransaction E from assetCode assetIssuer P timeBounds fee =
     op_bind (op_lift (base_tx E from fee)) (\<lambda>t. sign_in E P from (AddDeleteTrustlineOp assetCode assetIssuer t))"

section \<open>Merging an account\<close>

text \<open>\<open>base.Asset\<close> of a balance as the asset the transactions name.\<close>

definition has_trustline :: "bool \<Rightarrow> Trustline list \<Rightarrow> AssetMinimal \<Rightarrow> bool" where
  "has_trustline targetAccountIsNew toTrustlines asset =
     (if targetAccountIsNew then False
      else list_ex (\<lambda>tline. h_Code (tl_Asset tline) = CodeString (Minimal asset) \<and>
                            h_Issuer (tl_Asset tline) = IssuerString (Minimal asset)) toTrustlines)"

fun pay_balances ::
  "go_crypto \<Rightarrow> (AssetMinimal \<Rightarrow> bool) \<Rightarrow> AddressStr \<Rightarrow> hBalance list \<Rightarrow> Tx \<Rightarrow> Tx res" where
  "pay_balances C trusted to [] t = Inr t"
| "pay_balances C trusted to (balance # rest) t =
     (if h_Type (bal_Asset balance) = ''native'' \<or> bal_Balance balance = ''0.0000000'' then pay_balances C trusted to rest t
      else
        and_then (NewAssetMinimal (h_Code (bal_Asset balance)) (h_Issuer (bal_Asset balance))) (\<lambda>asset.
          if \<not> trusted asset then
            Inl (Errorf ''cannot merge %s:%s asset into an account without a trustline''
              [AStr (CodeString (Minimal asset)), AStr (IssuerString (Minimal asset))])
          else
            and_then (assetBaseToXDR C (Minimal asset)) (\<lambda>assetXDR.
              pay_balances C trusted to rest (AddAssetPaymentOp to assetXDR (bal_Balance balance) t))))"

fun delete_trustlines :: "go_crypto \<Rightarrow> Trustline list \<Rightarrow> Tx \<Rightarrow> Tx res" where
  "delete_trustlines C [] t = Inr t"
| "delete_trustlines C (trustline # rest) t =
     (if h_Type (tl_Asset trustline) = ''native'' then delete_trustlines C rest t
      else
        and_then (NewAddressStr C (h_Issuer (tl_Asset trustline))) (\<lambda>assetIssuer.
          delete_trustlines C rest (AddDeleteTrustlineOp (h_Code (tl_Asset trustline)) assetIssuer t)))"

text \<open>A method of an account, run on the account alone; the account is an object of the caller.\<close>

definition on_account :: "('w, 'a) acct_op \<Rightarrow> AddressStr \<Rightarrow> ('w, 'a) op" where
  "on_account m address w = (case m (NewAccount address, w) of (r, (_, w')) \<Rightarrow> (r, w'))"

text \<open>
  \<open>if _, err = toAccount.BalanceXLM(); err == ErrSourceAccountNotFound { ... }\<close>: any other
  error is dropped. Every method used here loads the account anew, so each call is made on
  a new account.
\<close>

definition AccountMergeTransaction ::
  "'w client \<Rightarrow> SeedStr \<Rightarrow> AddressStr \<Rightarrow> 'w provider \<Rightarrow> (int64 \<times> int64) option \<Rightarrow> uint64 \<Rightarrow> ('w, SignResult) op" where
  "AccountMergeTransaction E from to P timeBounds fee =
     (let H = cl_horizon E; C = cl_crypto E in
      op_bind (op_lift (base_tx E from fee)) (\<lambda>t.
      op_bind (op_lift (SeedStr_Address C from)) (\<lambda>fromAddr w0.
        case on_account (BalanceXLM H) to w0 of
          (balance, w1) \<Rightarrow>
            let targetAccountIsNew = (balance = Inl ErrSourceAccountNotFound);
                t = (if targetAccountIsNew then AddCreateAccountOp to ''1'' t else t)
            in op_bind (on_account (Balances H) fromAddr) (\<lambda>balances.
               op_bind (if targetAccountIsNew then op_return [] else on_account (Trustlines H) to) (\<lambda>toTrustlines.
               op_bind (op_lift (pay_balances C (has_trustline targetAccountIsNew toTrustlines) to balances t)) (\<lambda>t.
               op_bind (on_account (Trustlines H) fromAddr) (\<lambda>trustlines.
               op_bind (op_lift (delete_trustlines C trustlines t)) (\<lambda>t.
                 let t = AddAccountMergeOp to t;
                     t = AddBuiltTimeBounds timeBounds t;
                     t = AddMemoText ''via keybase'' t
                 in sign_in E P from t))))) w1)))"

section \<open>Sending\<close>

definition no_submission :: "go_error \<Rightarrow> submitted" where
  "no_submission e = ((0, [], 0), Some e)"

text \<open>
  The shape of every flow of the package: build and sign with the client's sequence
  numbers, map the error of that, and submit.
\<close>

definition sign_and_submit :: "'w client \<Rightarrow> ('w, SignResult) op \<Rightarrow> 'w \<Rightarrow> submitted \<times> 'w" where
  "sign_and_submit E m w =
     (case m w of
        (Inl e, w') \<Rightarrow> (no_submission (errMap e), w')
      | (Inr sig, w') \<Rightarrow> submitNoResultXDR (cl_horizon E) (sr_Signed sig) w')"

definition paymentXLM :: "'w client \<Rightarrow> SeedStr \<Rightarrow> AddressStr \<Rightarrow> string \<Rightarrow> string \<Rightarrow> 'w \<Rightarrow> submitted \<times> 'w" where
  "paymentXLM E from to amount memoText =
     sign_and_submit E (PaymentXLMTransaction E from to amount memoText (Client E) None MinBaseFee)"

definition createAccountXLM :: "'w client \<Rightarrow> SeedStr \<Rightarrow> AddressStr \<Rightarrow> string \<Rightarrow> string \<Rightarrow> 'w \<Rightarrow> submitted \<times> 'w" where
  "createAccountXLM E from to amount memoText =
     sign_and_submit E (CreateAccountXLMTransaction E from to amount memoText (Client E) None MinBaseFee)"

definition payment :: "'w client \<Rightarrow> SeedStr \<Rightarrow> AddressStr \<Rightarrow> AssetBase \<Rightarrow> string \<Rightarrow> string \<Rightarrow> 'w \<Rightarrow> submitted \<times> 'w" where
  "payment E from to asset amount memoText =
     sign_and_submit E (PaymentTransaction E from to asset amount memoText (Client E) None MinBaseFee)"

definition pathPayment ::
  "'w client \<Rightarrow> SeedStr \<Rightarrow> AddressStr \<Rightarrow> AssetBase \<Rightarrow> string \<Rightarrow> AssetBase \<Rightarrow> string \<Rightarrow> AssetBase list \<Rightarrow> string \<Rightarrow> 'w \<Rightarrow> submitted \<times> 'w" where
  "pathPayment E from to sendAsset sendAmountMax destAsset destAmount path memoText =
     sign_and_submit E
       (PathPaymentTransaction E from to sendAsset sendAmountMax destAsset destAmount path memoText (Client E) None MinBaseFee)"

definition setInflationDestination :: "'w client \<Rightarrow> SeedStr \<Rightarrow> AddressStr \<Rightarrow> 'w \<Rightarrow> submitted \<times> 'w" where
  "setInflationDestination E from to = sign_and_submit E (SetInflationDestinationTransaction E from to (Client E) None MinBaseFee)"

definition setHomeDomain :: "'w client \<Rightarrow> SeedStr \<Rightarrow> string \<Rightarrow> 'w \<Rightarrow> submitted \<times> 'w" where
  "setHomeDomain E from domain = sign_and_submit E (SetHomeDomainTransaction E from domain (Client E) None MinBaseFee)"

definition makeOffer :: "'w client \<Rightarrow> SeedStr \<Rightarrow> xdr_Asset \<Rightarrow> xdr_Asset \<Rightarrow> string \<Rightarrow> string \<Rightarrow> 'w \<Rightarrow> submitted \<times> 'w" where
  "makeOffer E from selling buying amountToSell price =
     sign_and_submit E (MakeOfferTransaction E from selling buying amountToSell price (Client E) None MinBaseFee)"

definition SendXLM :: "'w client \<Rightarrow> SeedStr \<Rightarrow> AddressStr \<Rightarrow> string \<Rightarrow> string \<Rightarrow> 'w \<Rightarrow> submitted \<times> 'w" where
  "SendXLM E from to amount memoText w =
     (if 28 < length memoText then (no_submission (NewError ''public memo is too long''), w)
      else case ParseStellarAmount amount of
        Inl e \<Rightarrow> (no_submission e, w)
      | Inr _ \<Rightarrow>
         (case paymentXLM E from to amount memoText w of
            ((res, Some e), w') \<Rightarrow>
              if e \<noteq> ErrDestinationAccountNotFound then (no_submission e, w')
              else createAccountXLM E from to amount memoText w'
          | ((res, None), w') \<Rightarrow> ((res, None), w')))"

text \<open>Both trustline flows return the transaction identifier next to the error of \<open>Submit\<close>.\<close>

definition submit_trustline :: "'w client \<Rightarrow> ('w, SignResult) op \<Rightarrow> 'w \<Rightarrow> (string \<times> go_error option) \<times> 'w" where
  "submit_trustline E m w =
     (case m w of
        (Inl e, w') \<Rightarrow> (([], Some e), w')
      | (Inr sig, w') \<Rightarrow> (case Submit (cl_horizon E) (sr_Signed sig) w' of ((res, e), w'') \<Rightarrow> ((sub_TxID res, e), w'')))"

definition CreateTrustline ::
  "'w client \<Rightarrow> SeedStr \<Rightarrow> string \<Rightarrow> AddressStr \<Rightarrow> string \<Rightarrow> uint64 \<Rightarrow> 'w \<Rightarrow> (string \<times> go_error option) \<times> 'w" where
  "CreateTrustline E from assetCode assetIssuer limit fee =
     submit_trustline E (CreateTrustlineTransaction E from assetCode assetIssuer limit (Client E) None fee)"

definition DeleteTrustline ::
  "'w client \<Rightarrow> SeedStr \<Rightarrow> string \<Rightarrow> AddressStr \<Rightarrow> uint64 \<Rightarrow> 'w \<Rightarrow> (string \<times> go_error option) \<times> 'w" where
  "DeleteTrustline E from assetCode assetIssuer fee =
     submit_trustline E (DeleteTrustlineTransaction E from assetCode assetIssuer (Client E) None fee)"

section \<open>Creating an asset\<close>

text \<open>
  Both functions return the two seeds next to the error. \<open>kp_Seed\<close> of a key pair that
  holds no seed cannot occur: the arguments are of type \<open>*keypair.Full\<close>.
\<close>

type_synonym created = "(SeedStr \<times> SeedStr) \<times> go_error option"

definition stage :: "SeedStr \<Rightarrow> SeedStr \<Rightarrow> 'a res \<times> 'w \<Rightarrow> ('a \<Rightarrow> 'w \<Rightarrow> created \<times> 'w) \<Rightarrow> created \<times> 'w" where
  "stage issuer distributor m k =
     (case m of (Inl e, w) \<Rightarrow> (((issuer, distributor), Some e), w) | (Inr x, w) \<Rightarrow> k x w)"

definition drop_submitted :: "submitted \<times> 'w \<Rightarrow> unit res \<times> 'w" where
  "drop_submitted s = (case s of ((_, Some e), w) \<Rightarrow> (Inl e, w) | ((_, None), w) \<Rightarrow> (Inr (), w))"

definition drop_txid :: "(string \<times> go_error option) \<times> 'w \<Rightarrow> unit res \<times> 'w" where
  "drop_txid s = (case s of ((_, Some e), w) \<Rightarrow> (Inl e, w) | ((_, None), w) \<Rightarrow> (Inr (), w))"

text \<open>Steps 3 to 6: the accounts are funded, both seeds are returned with every error.\<close>

definition issue_asset ::
  "'w client \<Rightarrow> SeedStr \<Rightarrow> AddressStr \<Rightarrow> SeedStr \<Rightarrow> AddressStr \<Rightarrow> string \<Rightarrow> string \<Rightarrow> string \<Rightarrow> string \<Rightarrow> uint64 \<Rightarrow> 'w \<Rightarrow> created \<times> 'w" where
  "issue_asset E issuer issuerAddr distributor distributorAddr assetCode limit homeDomain xlmPrice fee w =
     stage issuer distributor (drop_txid (CreateTrustline E distributor assetCode issuerAddr limit fee w)) (\<lambda>_ w.
     stage issuer distributor (op_lift (NewAssetMinimal assetCode issuerAddr) w) (\<lambda>asset w.
     stage issuer distributor (drop_submitted (payment E issuer distributorAddr (Minimal asset) limit [] w)) (\<lambda>_ w.
     stage issuer distributor (drop_submitted (setHomeDomain E issuer homeDomain w)) (\<lambda>_ w.
     stage issuer distributor (op_lift (makeXDRAsset assetCode issuerAddr) w) (\<lambda>selling w.
     stage issuer distributor (drop_submitted (makeOffer E distributor selling xdr_native limit xlmPrice w)) (\<lambda>_ w.
       (((issuer, distributor), None), w)))))))"

definition CreateCustomAssetWithKPs ::
  "'w client \<Rightarrow> SeedStr \<Rightarrow> KP \<Rightarrow> KP \<Rightarrow> string \<Rightarrow> string \<Rightarrow> string \<Rightarrow> string \<Rightarrow> uint64 \<Rightarrow> 'w \<Rightarrow> created \<times> 'w" where
  "CreateCustomAssetWithKPs E src issuerPair distPair assetCode limit homeDomain xlmPrice fee w =
     (let C = cl_crypto E in
      stage [] [] (AssetSearch (cl_horizon E) \<lparr>arg_AssetCode = assetCode, arg_IssuerID = kp_Address issuerPair\<rparr> w) (\<lambda>searchRes w.
      if 0 < length searchRes then ((([], []), Some ErrAssetAlreadyExists), w)
      else
      stage [] [] (op_lift (NewSeedStr C (kp_Seed issuerPair)) w) (\<lambda>issuer w.
      stage [] [] (op_lift (NewAddressStr C (kp_Address issuerPair)) w) (\<lambda>issuerAddr w.
      stage [] [] (drop_submitted (SendXLM E src issuerAddr ''5'' [] w)) (\<lambda>_ w.
      stage issuer [] (op_lift (NewSeedStr C (kp_Seed distPair)) w) (\<lambda>distributor w.
      stage issuer [] (op_lift (NewAddressStr C (kp_Address distPair)) w) (\<lambda>distributorAddr w.
      stage issuer [] (drop_submitted (SendXLM E src distributorAddr ''5'' [] w)) (\<lambda>_ w.
        issue_asset E issuer issuerAddr distributor distributorAddr assetCode limit homeDomain xlmPrice fee w))))))))"

text \<open>The random bytes of the two new key pairs are arguments.\<close>

definition CreateCustomAsset ::
  "'w client \<Rightarrow> byte list \<Rightarrow> byte list \<Rightarrow> SeedStr \<Rightarrow> string \<Rightarrow> string \<Rightarrow> string \<Rightarrow> string \<Rightarrow> uint64 \<Rightarrow> 'w \<Rightarrow> created \<times> 'w" where
  "CreateCustomAsset E rand1 rand2 src assetCode limit homeDomain xlmPrice fee w =
     stage [] [] (op_lift (NewKeyPair (cl_crypto E) rand1) w) (\<lambda>issuerPair w.
     stage [] [] (op_lift (NewKeyPair (cl_crypto E) rand2) w) (\<lambda>distPair w.
       CreateCustomAssetWithKPs E src issuerPair distPair assetCode limit homeDomain xlmPrice fee w))"

section \<open>Signing in a world\<close>

lemma sign_in_eq_Inr:
  "sign_in E P from t w = (Inr r, w') \<longleftrightarrow>
    err t = None \<and> op_count t \<noteq> 0 \<and>
    (\<exists>seqno. P (source t) w = (Inr seqno, w') \<and>
       fst (Sign (cl_crypto E) from (t\<lparr>seqnoProv := \<lambda>_. Inr seqno\<rparr>)) = Inr r)"
proof (cases "err t \<noteq> None \<or> tx_Operations (internal t) = []")
  case True
  then show ?thesis by (auto simp: sign_in_def op_count_def Sign_eq_Inr)
next
  case False
  then show ?thesis
    by (cases "P (source t) w") (auto simp: sign_in_def op_count_def Sign_eq_Inr)
qed

lemma sign_in_error:
  "err t = Some e \<Longrightarrow> sign_in E P from t w = (Inl (errMap e), w)"
  by (simp add: sign_in_def)

lemma base_tx_eq_Inr:
  "base_tx E from fee = Inr t \<longleftrightarrow>
    (\<exists>a. SeedStr_Address (cl_crypto E) from = Inr a \<and> t = NewBaseTx (cl_network E) a unasked fee)"
  by (auto simp: base_tx_def newBaseTxSeed_def and_then_eq_Inr)

section \<open>What the builder's methods leave\<close>

text \<open>A builder with one more operation; with a memo; with time bounds.\<close>

definition with_op :: "OperationType \<Rightarrow> op_value \<Rightarrow> Tx \<Rightarrow> Tx" where
  "with_op ty v t = t\<lparr>internal := (internal t)\<lparr>tx_Operations := tx_Operations (internal t) @
     [\<lparr>op_SourceAccount = None, op_Body = \<lparr>body_Type = ty, body_Arm = Some v\<rparr>\<rparr>]\<rparr>\<rparr>"

definition with_bounds :: "(int64 \<times> int64) option \<Rightarrow> Tx \<Rightarrow> Tx" where
  "with_bounds tb t = t\<lparr>internal := (internal t)\<lparr>tx_TimeBounds :=
     map_option (\<lambda>(mn, mx). \<lparr>MinTime = mn, MaxTime = mx\<rparr>) tb\<rparr>\<rparr>"

lemma with_fields [simp]:
  "err (with_op ty v t) = err t" "err (with_bounds tb t) = err t" "err (set_memo m t) = err t"
  "tx_Operations (internal (with_op ty v t)) =
     tx_Operations (internal t) @ [\<lparr>op_SourceAccount = None, op_Body = \<lparr>body_Type = ty, body_Arm = Some v\<rparr>\<rparr>]"
  "tx_Operations (internal (with_bounds tb t)) = tx_Operations (internal t)"
  "tx_Memo (internal (with_op ty v t)) = tx_Memo (internal t)"
  "tx_TimeBounds (internal (with_op ty v t)) = tx_TimeBounds (internal t)"
  "tx_TimeBounds (internal (set_memo m t)) = tx_TimeBounds (internal t)"
  by (simp_all add: with_op_def with_bounds_def set_memo_def)

lemma err_try: "err (tx_try r t k) = None \<longleftrightarrow> (\<exists>x. r = Inr x \<and> err (k x) = None)"
  by (cases r) auto

lemma AddPaymentOp_ok:
  assumes "err (AddPaymentOp to amt t) = None" "err t = None"
  shows "\<exists>v d. amount_ParseInt64 amt = Inr v \<and> AddressStr_MuxedAccount to = Inr d \<and>
    AddPaymentOp to amt t = with_op OpPayment (VPaymentOp \<lparr>pay_Destination = d, pay_Asset = xdr_native, pay_Amount = v\<rparr>) t"
  using assms by (auto simp: AddPaymentOp_def skipAddOp_no_error err_try addOp_def with_op_def split: if_splits)

lemma AddCreateAccountOp_ok:
  assumes "err (AddCreateAccountOp to amt t) = None" "err t = None"
  shows "\<exists>v d. amount_ParseInt64 amt = Inr v \<and> AddressStr_AccountID to = Inr d \<and>
    AddCreateAccountOp to amt t = with_op OpCreateAccount (VCreateAccountOp \<lparr>ca_Destination = d, ca_StartingBalance = v\<rparr>) t"
  using assms by (auto simp: AddCreateAccountOp_def skipAddOp_no_error err_try addOp_def with_op_def split: if_splits)

lemma AddAssetPaymentOp_ok:
  assumes "err (AddAssetPaymentOp to asset amt t) = None" "err t = None"
  shows "\<exists>v d. amount_ParseInt64 amt = Inr v \<and> AddressStr_MuxedAccount to = Inr d \<and>
    AddAssetPaymentOp to asset amt t = with_op OpPayment (VPaymentOp \<lparr>pay_Destination = d, pay_Asset = asset, pay_Amount = v\<rparr>) t"
  using assms by (auto simp: AddAssetPaymentOp_def skipAddOp_no_error err_try addOp_def with_op_def split: if_splits)

lemma AddMemo_ok:
  assumes "err (AddMemo (Some m) t) = None" "err t = None"
  shows "\<exists>x. Memo_toXDR m = Inr x \<and> AddMemo (Some m) t = set_memo x t"
  using assms by (auto simp: AddMemo_def skipAddMemo_no_error err_try split: if_splits)

lemma AddBuiltTimeBounds_ok:
  assumes "err (AddBuiltTimeBounds tb t) = None" "err t = None" "tx_TimeBounds (internal t) = None"
  shows "AddBuiltTimeBounds tb t = with_bounds tb t"
  using assms by (auto simp: AddBuiltTimeBounds_def AddTimeBounds_def with_bounds_def split: option.splits)

lemma sticky:
  "err (AddMemo m t) = None \<Longrightarrow> err t = None" "err (AddBuiltTimeBounds tb t) = None \<Longrightarrow> err t = None"
  using run_action_error [of t _ undefined "SetMemo m"]
  by (auto simp: AddBuiltTimeBounds_def AddTimeBounds_def split: option.splits if_splits) (cases "err t"; force)

text \<open>The transaction of a builder that started fresh and got one operation, a memo and bounds.\<close>

definition one_op_tx ::
  "OperationType \<Rightarrow> op_value \<Rightarrow> xdr_Memo \<Rightarrow> (int64 \<times> int64) option \<Rightarrow> uint64 \<Rightarrow> int64 \<Rightarrow> MuxedAccount \<Rightarrow> xdr_Transaction" where
  "one_op_tx ty v m tb fee seqno account =
     \<lparr>tx_SourceAccount = Some account, tx_Fee = ucast (max MinBaseFee fee), tx_SeqNum = seqno + 1,
      tx_TimeBounds = map_option (\<lambda>(mn, mx). \<lparr>MinTime = mn, MaxTime = mx\<rparr>) tb, tx_Memo = m,
      tx_Operations = [\<lparr>op_SourceAccount = None, op_Body = \<lparr>body_Type = ty, body_Arm = Some v\<rparr>\<rparr>]\<rparr>"

lemma signed_one_op:
  "signed_tx ((with_bounds tb (set_memo m (with_op ty v (NewBaseTx net a u fee))))\<lparr>seqnoProv := p\<rparr>) seqno account =
    one_op_tx ty v m tb fee seqno account"
  by (auto simp: signed_tx_def one_op_tx_def with_op_def with_bounds_def set_memo_def op_count_def NewBaseTx_def
      empty_Transaction_def max_def)

lemma one_op_wt: "wt_arm ty (Some v) \<Longrightarrow> wt_Memo m \<Longrightarrow> wt_builder (with_bounds tb (set_memo m (with_op ty v (NewBaseTx net a p fee))))"
  by (auto simp: with_bounds_def set_memo_def with_op_def wt_builder_def wt_Operations_def wt_Operation_def wt_OperationBody_def
      NewBaseTx_def empty_Transaction_def split: option.splits)

lemma one_op_content:
  assumes "crypto_ok (cl_crypto E)" "wt_arm ty (Some v)" "wt_Memo m" "SeedStr_Address (cl_crypto E) from = Inr a"
    and "sign_in E P from (with_bounds tb (set_memo m (with_op ty v (NewBaseTx (cl_network E) a unasked fee)))) w = (Inr r, w')"
  shows "\<exists>seqno account buf sig. P a w = (Inr seqno, w') \<and> AddressStr_MuxedAccount a = Inr account \<and>
    sr_Signed r = base64_EncodeToString buf \<and>
    MarshalEnvelope (EnvelopeTx \<lparr>v1_Tx = one_op_tx ty v m tb fee seqno account, v1_Signatures = [sig]\<rparr>) = Inr buf \<and>
    (UnmarshalEnvelope buf = Inr (EnvelopeTx \<lparr>v1_Tx = one_op_tx ty v m tb fee seqno account, v1_Signatures = [sig]\<rparr>)) \<and>
    VerifyEnvelope (cl_crypto E) (cl_network E)
      (EnvelopeTx \<lparr>v1_Tx = one_op_tx ty v m tb fee seqno account, v1_Signatures = [sig]\<rparr>) = Inr ()"
proof -
  let ?t = "with_bounds tb (set_memo m (with_op ty v (NewBaseTx (cl_network E) a unasked fee)))"
  have f: "source ?t = a" "netPass ?t = cl_network E"
    by (simp_all add: with_bounds_def set_memo_def with_op_def NewBaseTx_def)
  obtain seqno where s: "P a w = (Inr seqno, w')"
    "fst (Sign (cl_crypto E) from (?t\<lparr>seqnoProv := \<lambda>_. Inr seqno\<rparr>)) = Inr r"
    using assms(5) unfolding sign_in_eq_Inr f by blast
  have "wt_builder (?t\<lparr>seqnoProv := \<lambda>_. Inr seqno\<rparr>)" using one_op_wt [OF assms(2,3)] by simp
  from signed_envelope [OF assms(1) this _ s(2)] assms(4) s(1) show ?thesis by (simp add: f signed_one_op)
qed

lemma fresh_NewBaseTx [simp]:
  "err (NewBaseTx n a p fee) = None" "tx_TimeBounds (internal (NewBaseTx n a p fee)) = None"
  by (simp_all add: NewBaseTx_def empty_Transaction_def)

lemma payment_tx:
  assumes "PaymentXLMTransactionWithMemo E from to amount (Some memo) P tb fee w = (Inr r, w')"
  shows "\<exists>a m v d. SeedStr_Address (cl_crypto E) from = Inr a \<and> Memo_toXDR memo = Inr m \<and>
    amount_ParseInt64 amount = Inr v \<and> AddressStr_MuxedAccount to = Inr d \<and>
    sign_in E P from (with_bounds tb (set_memo m (with_op OpPayment
      (VPaymentOp \<lparr>pay_Destination = d, pay_Asset = xdr_native, pay_Amount = v\<rparr>) (NewBaseTx (cl_network E) a unasked fee)))) w = (Inr r, w')"
proof -
  obtain a where a: "SeedStr_Address (cl_crypto E) from = Inr a" and
    s: "sign_in E P from (AddBuiltTimeBounds tb (AddMemo (Some memo) (AddPaymentOp to amount (NewBaseTx (cl_network E) a unasked fee)))) w = (Inr r, w')"
    using assms by (auto simp: PaymentXLMTransactionWithMemo_def op_bind_eq_Inr base_tx_eq_Inr Let_def)
  let ?t0 = "NewBaseTx (cl_network E) a unasked fee"
  let ?t1 = "AddPaymentOp to amount ?t0"
  have e: "err (AddBuiltTimeBounds tb (AddMemo (Some memo) ?t1)) = None" using s by (simp add: sign_in_eq_Inr)
  note e2 = sticky(2) [OF e] note e1 = sticky(1) [OF e2]
  obtain v d where p: "amount_ParseInt64 amount = Inr v" "AddressStr_MuxedAccount to = Inr d"
    "?t1 = with_op OpPayment (VPaymentOp \<lparr>pay_Destination = d, pay_Asset = xdr_native, pay_Amount = v\<rparr>) ?t0"
    using AddPaymentOp_ok [OF e1] by auto
  obtain m where m: "Memo_toXDR memo = Inr m" "AddMemo (Some memo) ?t1 = set_memo m ?t1" using AddMemo_ok [OF e2 e1] by blast
  have "tx_TimeBounds (internal (AddMemo (Some memo) ?t1)) = None" using m(2) p(3) by simp
  from AddBuiltTimeBounds_ok [OF e e2 this] s a p m show ?thesis by auto
qed

lemma create_account_tx:
  assumes "CreateAccountXLMTransactionWithMemo E from to amount (Some memo) P tb fee w = (Inr r, w')"
  shows "\<exists>a m v d. SeedStr_Address (cl_crypto E) from = Inr a \<and> Memo_toXDR memo = Inr m \<and>
    amount_ParseInt64 amount = Inr v \<and> AddressStr_AccountID to = Inr d \<and>
    sign_in E P from (with_bounds tb (set_memo m (with_op OpCreateAccount
      (VCreateAccountOp \<lparr>ca_Destination = d, ca_StartingBalance = v\<rparr>) (NewBaseTx (cl_network E) a unasked fee)))) w = (Inr r, w')"
proof -
  obtain a where a: "SeedStr_Address (cl_crypto E) from = Inr a" and
    s: "sign_in E P from (AddBuiltTimeBounds tb (AddMemo (Some memo) (AddCreateAccountOp to amount (NewBaseTx (cl_network E) a unasked fee)))) w = (Inr r, w')"
    using assms by (auto simp: CreateAccountXLMTransactionWithMemo_def op_bind_eq_Inr base_tx_eq_Inr Let_def)
  let ?t0 = "NewBaseTx (cl_network E) a unasked fee"
  let ?t1 = "AddCreateAccountOp to amount ?t0"
  have e: "err (AddBuiltTimeBounds tb (AddMemo (Some memo) ?t1)) = None" using s by (simp add: sign_in_eq_Inr)
  note e2 = sticky(2) [OF e] note e1 = sticky(1) [OF e2]
  obtain v d where p: "amount_ParseInt64 amount = Inr v" "AddressStr_AccountID to = Inr d"
    "?t1 = with_op OpCreateAccount (VCreateAccountOp \<lparr>ca_Destination = d, ca_StartingBalance = v\<rparr>) ?t0"
    using AddCreateAccountOp_ok [OF e1] by auto
  obtain m where m: "Memo_toXDR memo = Inr m" "AddMemo (Some memo) ?t1 = set_memo m ?t1" using AddMemo_ok [OF e2 e1] by blast
  have "tx_TimeBounds (internal (AddMemo (Some memo) ?t1)) = None" using m(2) p(3) by simp
  from AddBuiltTimeBounds_ok [OF e e2 this] s a p m show ?thesis by auto
qed

lemma long_code_refused:
  assumes "5 \<le> length code" "length code \<le> 12"
  shows "\<exists>e. makeXDRChangeTrustAsset code issuer = Inl e"
  using assms by (cases "AddressStr_AccountID issuer") (auto simp: makeXDRChangeTrustAsset_def)

lemma CreateTrustline_long_code:
  assumes "5 \<le> length code" "length code \<le> 12"
  shows "\<exists>e. CreateTrustline E from code issuer limit fee w = (([], Some e), w)"
proof -
  obtain e where e: "makeXDRChangeTrustAsset code issuer = Inl e" using long_code_refused [OF assms] by blast
  show ?thesis
  proof (cases "base_tx E from fee")
    case (Inr t)
    then have "err t = None" "\<not> IsFull t" by (auto simp: base_tx_eq_Inr NewBaseTx_def IsFull_def empty_Transaction_def)
    then have "AddCreateTrustlineOp code issuer limit t = t\<lparr>err := Some e\<rparr>"
      by (simp add: AddCreateTrustlineOp_def skipAddOp_no_error e)
    then show ?thesis
      by (simp add: CreateTrustline_def submit_trustline_def CreateTrustlineTransaction_def Inr sign_in_error)
  qed (simp add: CreateTrustline_def submit_trustline_def CreateTrustlineTransaction_def)
qed

lemma issue_asset_long_code:
  assumes "5 \<le> length code" "length code \<le> 12"
  shows "\<exists>e. issue_asset E i ia d da code limit home price fee w = (((i, d), Some e), w)"
  using CreateTrustline_long_code [OF assms, of E d ia limit fee w]
  by (auto simp: issue_asset_def stage_def drop_txid_def)

lemma stage_fails: "(\<And>x w. snd (fst (k x w)) \<noteq> None) \<Longrightarrow> snd (fst (stage i d m k)) \<noteq> None"
  by (auto simp: stage_def split: prod.splits sum.splits)

lemma merge_fails: "err (AddAccountMergeOp to t) \<noteq> None"
  using AddAccountMergeOp_fails [of to t] by auto

lemma errors_stay:
  "err t \<noteq> None \<Longrightarrow> err (AddBuiltTimeBounds tb t) \<noteq> None"
  "err t \<noteq> None \<Longrightarrow> err (AddMemoID i t) \<noteq> None" "err t \<noteq> None \<Longrightarrow> err (AddMemoText s t) \<noteq> None"
  using run_action_error [of t _ undefined "SetMemoID i"] run_action_error [of t _ undefined "SetMemoText s"] sticky(2)
  by force+

lemma sign_in_refused: "err t \<noteq> None \<Longrightarrow> \<exists>e. sign_in E P from t w = (Inl e, w)"
  by (auto simp: sign_in_error)

section \<open>Properties\<close>

text \<open>
  The text of a signed transaction: base64 of the bytes of an envelope that holds \<open>tx\<close> and
  one signature, that every reader takes for it, and that passes \<open>VerifyEnvelope\<close>.
\<close>

definition holds_tx :: "'w client \<Rightarrow> string \<Rightarrow> xdr_Transaction \<Rightarrow> bool" where
  "holds_tx E txt tx \<longleftrightarrow> (\<exists>buf sig. txt = base64_EncodeToString buf \<and>
     MarshalEnvelope (EnvelopeTx \<lparr>v1_Tx = tx, v1_Signatures = [sig]\<rparr>) = Inr buf \<and>
     (UnmarshalEnvelope buf = Inr (EnvelopeTx \<lparr>v1_Tx = tx, v1_Signatures = [sig]\<rparr>)) \<and>
     VerifyEnvelope (cl_crypto E) (cl_network E) (EnvelopeTx \<lparr>v1_Tx = tx, v1_Signatures = [sig]\<rparr>) = Inr ())"

definition payment_op :: "MuxedAccount \<Rightarrow> int64 \<Rightarrow> op_value" where
  "payment_op d v = VPaymentOp \<lparr>pay_Destination = d, pay_Asset = xdr_native, pay_Amount = v\<rparr>"

definition create_op :: "AccountId \<Rightarrow> int64 \<Rightarrow> op_value" where
  "create_op d v = VCreateAccountOp \<lparr>ca_Destination = d, ca_StartingBalance = v\<rparr>"

lemma payment_arm_wt: "AddressStr_MuxedAccount to = Inr d \<Longrightarrow> wt_arm OpPayment (Some (payment_op d v))"
  by (simp add: payment_op_def wt_PaymentOp_def MuxedAccount_wt)

lemma create_arm_wt: "AddressStr_AccountID to = Inr d \<Longrightarrow> wt_arm OpCreateAccount (Some (create_op d v))"
  by (simp add: create_op_def wt_CreateAccountOp_def AccountID_wt)

lemma payment_content:
  assumes "crypto_ok (cl_crypto E)" "wt_package_memo memo"
    and "PaymentXLMTransactionWithMemo E from to amount (Some memo) P tb fee w = (Inr r, w')"
  shows "\<exists>a account seqno m v d. SeedStr_Address (cl_crypto E) from = Inr a \<and> AddressStr_MuxedAccount a = Inr account \<and>
    P a w = (Inr seqno, w') \<and> Memo_toXDR memo = Inr m \<and> amount_ParseInt64 amount = Inr v \<and> AddressStr_MuxedAccount to = Inr d \<and>
    holds_tx E (sr_Signed r) (one_op_tx OpPayment (payment_op d v) m tb fee seqno account)"
proof -
  obtain a m v d where t: "SeedStr_Address (cl_crypto E) from = Inr a" "Memo_toXDR memo = Inr m"
    "amount_ParseInt64 amount = Inr v" "AddressStr_MuxedAccount to = Inr d"
    "sign_in E P from (with_bounds tb (set_memo m (with_op OpPayment (payment_op d v) (NewBaseTx (cl_network E) a unasked fee)))) w = (Inr r, w')"
    using payment_tx [OF assms(3)] unfolding payment_op_def by blast
  from one_op_content [OF assms(1) payment_arm_wt [OF t(4)] Memo_toXDR_wt [OF assms(2) t(2)] t(1,5)] t(1-4)
  show ?thesis unfolding holds_tx_def by fast
qed

lemma create_account_content:
  assumes "crypto_ok (cl_crypto E)" "wt_package_memo memo"
    and "CreateAccountXLMTransactionWithMemo E from to amount (Some memo) P tb fee w = (Inr r, w')"
  shows "\<exists>a account seqno m v d. SeedStr_Address (cl_crypto E) from = Inr a \<and> AddressStr_MuxedAccount a = Inr account \<and>
    P a w = (Inr seqno, w') \<and> Memo_toXDR memo = Inr m \<and> amount_ParseInt64 amount = Inr v \<and> AddressStr_AccountID to = Inr d \<and>
    holds_tx E (sr_Signed r) (one_op_tx OpCreateAccount (create_op d v) m tb fee seqno account)"
proof -
  obtain a m v d where t: "SeedStr_Address (cl_crypto E) from = Inr a" "Memo_toXDR memo = Inr m"
    "amount_ParseInt64 amount = Inr v" "AddressStr_AccountID to = Inr d"
    "sign_in E P from (with_bounds tb (set_memo m (with_op OpCreateAccount (create_op d v) (NewBaseTx (cl_network E) a unasked fee)))) w = (Inr r, w')"
    using create_account_tx [OF assms(3)] unfolding create_op_def by blast
  from one_op_content [OF assms(1) create_arm_wt [OF t(4)] Memo_toXDR_wt [OF assms(2) t(2)] t(1,5)] t(1-4)
  show ?thesis unfolding holds_tx_def by fast
qed

text \<open>
  What a signed lumen payment is: the text of a transaction of the seed's account with
  the next sequence number, the base fee raised to the minimum, the given memo and bounds,
  and one operation, the payment of the parsed amount to the parsed address; every reader of
  the text gets that transaction, and the package's own verification accepts its signature.
  The provider was asked once.
\<close>

theorem PaymentXLM_content:
  assumes "crypto_ok (cl_crypto E)" and "wt_package_memo memo"
    and "PaymentXLMTransactionWithMemo E from to amount (Some memo) P tb fee w = (Inr r, w')"
  shows "\<exists>a account seqno m v d. SeedStr_Address (cl_crypto E) from = Inr a \<and> AddressStr_MuxedAccount a = Inr account \<and>
    P a w = (Inr seqno, w') \<and> Memo_toXDR memo = Inr m \<and> amount_ParseInt64 amount = Inr v \<and> AddressStr_MuxedAccount to = Inr d \<and>
    holds_tx E (sr_Signed r) (one_op_tx OpPayment (payment_op d v) m tb fee seqno account)"
  by (rule payment_content [OF assms])

text \<open>
  C26. A transaction with an account merge is never made: \<open>RelocateTransaction\<close> fails without
  asking the server anything, and \<open>AccountMergeTransaction\<close> fails after its queries.
\<close>

theorem merges_never_signed:
  "(\<exists>e. RelocateTransaction E from to funded memoID P tb fee w = (Inl e, w)) \<and>
   \<not> is_ok (fst (AccountMergeTransaction E from to P tb fee w))"
proof
  have "\<exists>e. sign_in E P from (AddBuiltTimeBounds tb (AddMemoID memoID (AddAccountMergeOp to t))) w = (Inl e, w)" for t
    by (intro sign_in_refused errors_stay merge_fails)
  then show "\<exists>e. RelocateTransaction E from to funded memoID P tb fee w = (Inl e, w)"
    by (cases "base_tx E from fee") (simp_all add: RelocateTransaction_def Let_def)
  have "\<exists>e. sign_in E P from (AddMemoText s (AddBuiltTimeBounds tb (AddAccountMergeOp to t))) w' = (Inl e, w')" for s t w'
    by (intro sign_in_refused errors_stay merge_fails)
  then have "sign_in E P from (AddMemoText s (AddBuiltTimeBounds tb (AddAccountMergeOp to t))) w' \<noteq> (Inr r, w'')" for s t w' r w''
    by (metis Pair_inject sum.distinct(1))
  then have "AccountMergeTransaction E from to P tb fee w \<noteq> (Inr r, w')" for r w'
    by (auto simp: AccountMergeTransaction_def Let_def op_bind_eq_Inr split: prod.splits)
  then show "\<not> is_ok (fst (AccountMergeTransaction E from to P tb fee w))"
    by (metis is_ok_iff prod.collapse)
qed

lemma sign_and_submit_ok:
  "sign_and_submit E m w = ((res, None), w') \<Longrightarrow>
    \<exists>r w1. m w = (Inr r, w1) \<and> submitNoResultXDR (cl_horizon E) (sr_Signed r) w1 = ((res, None), w')"
  by (auto simp: sign_and_submit_def no_submission_def split: prod.splits sum.splits)

lemma wt_NewMemoText: "length s \<le> 28 \<Longrightarrow> wt_package_memo (NewMemoText s)"
  by (simp add: wt_package_memo_def NewMemoText_def wt_upto_def go_defs)

lemma paymentXLM_ok:
  assumes "crypto_ok (cl_crypto E)" "length memoText \<le> 28" "paymentXLM E from to amount memoText w = ((res, None), w')"
  shows "\<exists>a account m v d seqno w1 txt. SeedStr_Address (cl_crypto E) from = Inr a \<and> AddressStr_MuxedAccount a = Inr account \<and>
    Memo_toXDR (NewMemoText memoText) = Inr m \<and> amount_ParseInt64 amount = Inr v \<and> AddressStr_MuxedAccount to = Inr d \<and>
    Client E a w = (Inr seqno, w1) \<and> holds_tx E txt (one_op_tx OpPayment (payment_op d v) m None MinBaseFee seqno account) \<and>
    submitNoResultXDR (cl_horizon E) txt w1 = ((res, None), w')"
proof -
  obtain r w1 where r: "PaymentXLMTransaction E from to amount memoText (Client E) None MinBaseFee w = (Inr r, w1)"
    "submitNoResultXDR (cl_horizon E) (sr_Signed r) w1 = ((res, None), w')"
    using sign_and_submit_ok [OF assms(3) [unfolded paymentXLM_def]] by blast
  from payment_content [OF assms(1) wt_NewMemoText [OF assms(2)] r(1) [unfolded PaymentXLMTransaction_def]] r(2)
  show ?thesis by fast
qed

lemma createAccountXLM_ok:
  assumes "crypto_ok (cl_crypto E)" "length memoText \<le> 28" "createAccountXLM E from to amount memoText w = ((res, None), w')"
  shows "\<exists>a account m v d seqno w1 txt. SeedStr_Address (cl_crypto E) from = Inr a \<and> AddressStr_MuxedAccount a = Inr account \<and>
    Memo_toXDR (NewMemoText memoText) = Inr m \<and> amount_ParseInt64 amount = Inr v \<and> AddressStr_AccountID to = Inr d \<and>
    Client E a w = (Inr seqno, w1) \<and> holds_tx E txt (one_op_tx OpCreateAccount (create_op d v) m None MinBaseFee seqno account) \<and>
    submitNoResultXDR (cl_horizon E) txt w1 = ((res, None), w')"
proof -
  obtain r w1 where r: "CreateAccountXLMTransaction E from to amount memoText (Client E) None MinBaseFee w = (Inr r, w1)"
    "submitNoResultXDR (cl_horizon E) (sr_Signed r) w1 = ((res, None), w')"
    using sign_and_submit_ok [OF assms(3) [unfolded createAccountXLM_def]] by blast
  from create_account_content [OF assms(1) wt_NewMemoText [OF assms(2)] r(1) [unfolded CreateAccountXLMTransaction_def]] r(2)
  show ?thesis by fast
qed

text \<open>
  C6. What \<open>SendXLM\<close> has done when it succeeds: the server accepted a payment of the amount
  from the seed's account to the address, or, after the payment was refused because the
  address has no account, the creation of that account with the amount; either way one
  signed operation with the memo, and a memo of at most 28 bytes.
\<close>

theorem SendXLM_outcome:
  assumes "crypto_ok (cl_crypto E)"
    and "SendXLM E from to amount memoText w = ((res, None), w')"
  shows "length memoText \<le> 28 \<and>
    (\<exists>a account m v seqno w1 w2 txt.
       SeedStr_Address (cl_crypto E) from = Inr a \<and> AddressStr_MuxedAccount a = Inr account \<and>
       Memo_toXDR (NewMemoText memoText) = Inr m \<and> amount_ParseInt64 amount = Inr v \<and>
       Client E a w1 = (Inr seqno, w2) \<and> submitNoResultXDR (cl_horizon E) txt w2 = ((res, None), w') \<and>
       ((\<exists>d. AddressStr_MuxedAccount to = Inr d \<and> w1 = w \<and>
           holds_tx E txt (one_op_tx OpPayment (payment_op d v) m None MinBaseFee seqno account)) \<or>
        (\<exists>d r. AddressStr_AccountID to = Inr d \<and>
           paymentXLM E from to amount memoText w = ((r, Some ErrDestinationAccountNotFound), w1) \<and>
           holds_tx E txt (one_op_tx OpCreateAccount (create_op d v) m None MinBaseFee seqno account))))"
proof -
  obtain r1 e1 w1 where p: "paymentXLM E from to amount memoText w = ((r1, e1), w1)" by (metis prod.collapse)
  have len: "length memoText \<le> 28" using assms(2) by (auto simp: SendXLM_def no_submission_def split: if_splits)
  show ?thesis
  proof (cases e1)
    case None
    then have "paymentXLM E from to amount memoText w = ((res, None), w')"
      using assms(2) p by (auto simp: SendXLM_def no_submission_def split: if_splits sum.splits)
    from paymentXLM_ok [OF assms(1) len this] len show ?thesis by fast
  next
    case (Some e)
    then have e: "e = ErrDestinationAccountNotFound" and c: "createAccountXLM E from to amount memoText w1 = ((res, None), w')"
      using assms(2) p by (auto simp: SendXLM_def no_submission_def split: if_splits sum.splits)
    from createAccountXLM_ok [OF assms(1) len c] len p Some e show ?thesis by fast
  qed
qed

text \<open>
  C27. A code of five to twelve letters, which an asset may have, can not be created: the
  whole flow ends in an error, and once both new accounts are funded (with five lumens
  each) the trustline fails before anything is sent, whatever the server does.
\<close>

theorem long_code_never_created:
  assumes "5 \<le> length code" and "length code \<le> 12"
  shows "snd (fst (CreateCustomAsset E rand1 rand2 src code limit home price fee w)) \<noteq> None \<and>
    (\<exists>e. issue_asset E i ia d da code limit home price fee w = (((i, d), Some e), w))"
proof
  have issue: "snd (fst (issue_asset E i ia d da code limit home price fee w)) \<noteq> None" for i ia d da w
    using issue_asset_long_code [OF assms, of E i ia d da limit home price fee w] by auto
  have "snd (fst (CreateCustomAssetWithKPs E src ip dp code limit home price fee w)) \<noteq> None" for ip dp w
    unfolding CreateCustomAssetWithKPs_def Let_def
    by (rule stage_fails, split if_split, intro conjI impI, simp, (rule stage_fails)+, rule issue)
  then show "snd (fst (CreateCustomAsset E rand1 rand2 src code limit home price fee w)) \<noteq> None"
    unfolding CreateCustomAsset_def by (intro stage_fails)
qed (rule issue_asset_long_code [OF assms])

section \<open>A payment is signed\<close>

text \<open>What the methods leave when nothing is wrong with their arguments.\<close>

lemma payment_builder:
  assumes "amount_ParseInt64 amount = Inr v" "AddressStr_MuxedAccount to = Inr d" "Memo_toXDR memo = Inr m"
  shows "AddBuiltTimeBounds tb (AddMemo (Some memo) (AddPaymentOp to amount (NewBaseTx net a p fee))) =
    with_bounds tb (set_memo m (with_op OpPayment (payment_op d v) (NewBaseTx net a p fee)))"
proof -
  let ?base = "NewBaseTx net a p fee"
  have ops: "tx_Operations (internal ?base) = []" "tx_Memo (internal ?base) = xdr_no_memo"
    by (simp_all add: NewBaseTx_def empty_Transaction_def)
  have "AddPaymentOp to amount ?base = with_op OpPayment (payment_op d v) ?base"
    by (simp add: AddPaymentOp_def skipAddOp_no_error IsFull_def ops assms addOp_def with_op_def payment_op_def)
  moreover have "AddMemo (Some memo) (with_op OpPayment (payment_op d v) ?base) = set_memo m (with_op OpPayment (payment_op d v) ?base)"
    by (simp add: AddMemo_def skipAddMemo_no_error haveMemo_def ops assms) (simp add: xdr_no_memo_def)
  moreover have "AddBuiltTimeBounds tb t = with_bounds tb t" if "err t = None" "tx_TimeBounds (internal t) = None" for t
    using that by (cases tb) (auto simp: AddBuiltTimeBounds_def AddTimeBounds_def with_bounds_def)
  ultimately show ?thesis by simp
qed

lemma payment_returns:
  assumes "crypto_ok (cl_crypto E)" "is_ok (NewSeedStr (cl_crypto E) from)" "SeedStr_Address (cl_crypto E) from = Inr a"
    and "TrimSpace (cl_network E) \<noteq> []" "amount_ParseInt64 amount = Inr v" "AddressStr_MuxedAccount to = Inr d"
    and "is_ok (enc_Memo m)" "Memo_toXDR memo = Inr m" "P a w = (Inr seqno, w')"
  shows "\<exists>r. PaymentXLMTransactionWithMemo E from to amount (Some memo) P tb fee w = (Inr r, w') \<and> sr_Seqno r = seqno + 1"
proof -
  let ?base = "NewBaseTx (cl_network E) a unasked fee"
  let ?t = "with_bounds tb (set_memo m (with_op OpPayment (payment_op d v) ?base))"
  obtain s where s: "NewSeedStr (cl_crypto E) from = Inr s" using assms(2) by (auto simp: is_ok_iff)
  obtain pub where pub: "AddressStr_MuxedAccount a = Inr (KeyTypeEd25519 pub)" using seed_account [OF assms(1) s assms(3)] by blast
  have f: "source ?t = a" "netPass ?t = cl_network E" "err ?t = None" "op_count (?t\<lparr>seqnoProv := p\<rparr>) = 1" 
      "tx_Memo (internal ?t) = m" for p :: "string \<Rightarrow> int64 res"
    by (simp_all add: with_bounds_def set_memo_def with_op_def NewBaseTx_def op_count_def empty_Transaction_def)
  have w: "wt_Operations (tx_Operations (internal ?t))"
    using payment_arm_wt [OF assms(6), of v]
    by (simp add: with_bounds_def set_memo_def with_op_def NewBaseTx_def empty_Transaction_def wt_Operations_def wt_Operation_def
        wt_OperationBody_def)
  obtain r where r: "fst (Sign (cl_crypto E) from (?t\<lparr>seqnoProv := \<lambda>_. Inr seqno\<rparr>)) = Inr r" "sr_Seqno r = seqno + 1"
    using Sign_written [OF assms(1) _ _ _ _ _ s, of "?t\<lparr>seqnoProv := \<lambda>_. Inr seqno\<rparr>" seqno] pub f w assms(4,7) by auto
  have "sign_in E P from ?t w = (Inr r, w')"
    unfolding sign_in_eq_Inr using assms(9) r(1) f(1,3) f(4) [of "seqnoProv ?t"] by (simp add: op_count_def)
  moreover have "base_tx E from fee = Inr ?base" using assms(3) by (simp add: base_tx_eq_Inr)
  ultimately show ?thesis
    using r(2) by (simp add: PaymentXLMTransactionWithMemo_def Let_def payment_builder [OF assms(5,6,8)])
qed

text \<open>
  A payment is always signed: a seed, a passphrase that is not blank, an amount and an
  address that parse, a memo within the limits, and a provider that answers: a result is
  returned, with the next sequence number, and nothing but the provider was asked.
\<close>

theorem PaymentXLM_returns:
  assumes "crypto_ok (cl_crypto E)" and "is_ok (NewSeedStr (cl_crypto E) from)" and "SeedStr_Address (cl_crypto E) from = Inr a"
    and "TrimSpace (cl_network E) \<noteq> []" and "amount_ParseInt64 amount = Inr v" and "AddressStr_MuxedAccount to = Inr d"
    and "wt_package_memo memo" and "Memo_toXDR memo = Inr m" and "P a w = (Inr seqno, w')"
  shows "\<exists>r. PaymentXLMTransactionWithMemo E from to amount (Some memo) P tb fee w = (Inr r, w') \<and> sr_Seqno r = seqno + 1"
  by (rule payment_returns [where P = P and a = a and w = w, OF assms(1-6) Memo_written [OF Memo_toXDR_wt [OF assms(7,8)]] assms(8,9)])

lemma text_memo_toXDR: "Memo_toXDR (NewMemoText s) = Inr (xdr_no_memo\<lparr>xm_Type := 1, xm_Text := Some s\<rparr>)"
  by (simp add: Memo_toXDR_def NewMemoText_def NewMemo_def go_defs Let_def)

text \<open>
  C16. A memo text of more than 28 bytes is not refused: \<open>PaymentXLMTransaction\<close> signs the
  payment as it would any other, and returns a text that no reader of XDR accepts.
\<close>

theorem PaymentXLM_long_memo:
  assumes "crypto_ok (cl_crypto E)" and "is_ok (NewSeedStr (cl_crypto E) from)" and "SeedStr_Address (cl_crypto E) from = Inr a"
    and "TrimSpace (cl_network E) \<noteq> []" and "amount_ParseInt64 amount = Inr v" and "AddressStr_MuxedAccount to = Inr d"
    and "28 < length memoText" and "length memoText < 4294967296" and "P a w = (Inr seqno, w')"
  shows "\<exists>r buf. PaymentXLMTransaction E from to amount memoText P tb fee w = (Inr r, w') \<and>
    base64_DecodeString (sr_Signed r) = Inr buf \<and> (\<exists>e. UnmarshalEnvelope buf = Inl e)"
proof -
  let ?m = "xdr_no_memo\<lparr>xm_Type := 1, xm_Text := Some memoText\<rparr>"
  obtain r where r: "PaymentXLMTransaction E from to amount memoText P tb fee w = (Inr r, w')"
    using payment_returns [where P = P and a = a and w = w, OF assms(1-6) Memo_text_written text_memo_toXDR assms(9)] unfolding PaymentXLMTransaction_def by blast
  let ?t = "\<lambda>d v. with_bounds tb (set_memo ?m (with_op OpPayment (payment_op d v) (NewBaseTx (cl_network E) a unasked fee)))"
  obtain d' v' where t: "sign_in E P from (?t d' v') w = (Inr r, w')"
    using payment_tx [OF r [unfolded PaymentXLMTransaction_def]] assms(3) by (auto simp: payment_op_def text_memo_toXDR)
  obtain seqno account sig buf where
    s: "AddressStr_MuxedAccount a = Inr account"
      "MarshalEnvelope (EnvelopeTx \<lparr>v1_Tx = signed_tx (?t d' v'\<lparr>seqnoProv := \<lambda>_. Inr seqno\<rparr>) seqno account, v1_Signatures = [sig]\<rparr>) = Inr buf"
      "sr_Signed r = base64_EncodeToString buf"
    using t unfolding sign_in_eq_Inr Sign_eq_Inr by (auto simp: NewBaseTx_def with_bounds_def set_memo_def with_op_def)
  have "\<exists>e. UnmarshalEnvelope buf = Inl e"
    using s(2) by (intro UnmarshalEnvelope_long_memo [OF assms(7,8) _ _ MuxedAccount_wt [OF s(1)]])
      (simp_all add: signed_one_op one_op_tx_def)
  then show ?thesis using r s(3) by (auto simp: base64_roundtrip)
qed

section \<open>A client on which the hypotheses hold\<close>

text \<open>
  A payment of five lumens by the seed of the demonstration builder to its own address, on
  a server that knows the account and accepts the third submission.
\<close>

definition demo_memo :: xdr_Memo where
  "demo_memo = xdr_no_memo\<lparr>xm_Type := 1, xm_Text := Some ''hi''\<rparr>"

definition demo_payment :: xdr_Transaction where
  "demo_payment = one_op_tx OpPayment (payment_op (KeyTypeEd25519 demo_pub) 50000000) demo_memo None 100 7 (KeyTypeEd25519 demo_pub)"

definition demo_client :: "nat client" where
  "demo_client = \<lparr>cl_crypto = plain_crypto, cl_network = ''net'',
     cl_horizon = demo_horizon\<lparr>hz_AccountDetail := \<lambda>a w. (Inr demo_account, w)\<rparr>\<rparr>"

lemma demo_client_fields [simp]:
  "cl_crypto demo_client = plain_crypto" "cl_network demo_client = ''net''" "crypto_ok (cl_crypto demo_client)"
  by (simp_all add: demo_client_def plain_crypto_ok)

lemma demo_seqno: "Client demo_client a w = (Inr 7, w)"
proof -
  have "parse_int 64 ''7'' = Inr 7" by (simp add: parse_int_def split_sign_def digit_val_def is_digit_def)
  then show ?thesis by (simp add: Client_def SequenceForAccount_def demo_client_def demo_account_def GetSequenceNumber_def)
qed

lemma demo_amount: "amount_ParseInt64 ''5'' = Inr 50000000" "ParseStellarAmount ''5'' = Inr 50000000"
  by (simp_all add: go_defs)

lemma demo_to_memo: "Memo_toXDR (NewMemoText ''hi'') = Inr demo_memo"
  by (simp add: Memo_toXDR_def NewMemoText_def demo_memo_def NewMemo_def go_defs)

lemma demo_seed_ok: "is_ok (NewSeedStr plain_crypto demo_seed)"
  by (simp add: NewSeedStr_def demo_Parse demo_kp_def)

lemma demo_memo_wt: "wt_package_memo (NewMemoText ''hi'')"
  by (rule wt_NewMemoText) simp

theorem PaymentXLM_returns_witness:
  "\<exists>r. PaymentXLMTransactionWithMemo demo_client demo_seed (address_of demo_pub) ''5'' (Some (NewMemoText ''hi''))
      (Client demo_client) None 100 0 = (Inr r, 0) \<and> sr_Seqno r = 8"
  using PaymentXLM_returns [OF demo_client_fields(3), of demo_seed _ "''5''" _ _ _ "NewMemoText ''hi''" _ "Client demo_client" 0 7 0]
  by (simp add: demo_seed_ok demo_Address TrimSpace_net demo_amount demo_account demo_memo_wt demo_to_memo demo_seqno)

lemma demo_signs:
  "\<exists>r. PaymentXLMTransactionWithMemo demo_client demo_seed (address_of demo_pub) ''5'' (Some (NewMemoText ''hi''))
      (Client demo_client) None 100 w = (Inr r, w) \<and> sr_Seqno r = 8"
  using payment_returns [OF demo_client_fields(3), of demo_seed _ "''5''" _ _ _ _ "NewMemoText ''hi''" "Client demo_client" w 7 w]
  by (simp add: demo_seed_ok demo_Address TrimSpace_net demo_amount demo_account Memo_written [OF Memo_toXDR_wt [OF demo_memo_wt demo_to_memo]] demo_to_memo demo_seqno)

lemma demo_pays:
  "paymentXLM demo_client demo_seed (address_of demo_pub) ''5'' ''hi'' 0 = (((5, ''hash'', 2), None), 3)"
proof -
  obtain r where "PaymentXLMTransaction demo_client demo_seed (address_of demo_pub) ''5'' ''hi'' (Client demo_client) None MinBaseFee 0 =
      (Inr r, 0)"
    using demo_signs [of 0] by (auto simp: PaymentXLMTransaction_def MinBaseFee_def)
  moreover have "submitNoResultXDR (cl_horizon demo_client) t 0 = (((5, ''hash'', 2), None), 3)" for t
    by (simp add: submitNoResultXDR_def Submit_def submitAttempts_def numeral_3_eq_3 demo_client_def demo_horizon_def
        retries_def demo_timeout_def)
  ultimately show ?thesis by (simp add: paymentXLM_def sign_and_submit_def)
qed

lemma demo_send:
  "SendXLM demo_client demo_seed (address_of demo_pub) ''5'' ''hi'' 0 = (((5, ''hash'', 2), None), 3)"
  by (simp add: SendXLM_def demo_amount demo_pays)

theorem PaymentXLM_content_witness:
  "\<exists>m v seqno txt. Memo_toXDR (NewMemoText ''hi'') = Inr m \<and> amount_ParseInt64 ''5'' = Inr v \<and>
     Client demo_client (address_of demo_pub) 0 = (Inr seqno, 0) \<and>
     holds_tx demo_client txt (one_op_tx OpPayment (payment_op (KeyTypeEd25519 demo_pub) v) m None 100 seqno (KeyTypeEd25519 demo_pub))"
proof -
  obtain r where "PaymentXLMTransactionWithMemo demo_client demo_seed (address_of demo_pub) ''5'' (Some (NewMemoText ''hi''))
      (Client demo_client) None 100 0 = (Inr r, 0)"
    using demo_signs [of 0] by blast
  from PaymentXLM_content [OF demo_client_fields(3) demo_memo_wt this] show ?thesis
    by (auto simp: demo_Address demo_account)
qed

theorem SendXLM_outcome_witness:
  "\<exists>txt. submitNoResultXDR (cl_horizon demo_client) txt 0 = (((5, ''hash'', 2), None), 3) \<and>
    holds_tx demo_client txt
      (one_op_tx OpPayment (payment_op (KeyTypeEd25519 demo_pub) 50000000) demo_memo None MinBaseFee 7 (KeyTypeEd25519 demo_pub))"
  using SendXLM_outcome [OF demo_client_fields(3) demo_send]
  by (auto simp: demo_Address demo_account demo_to_memo demo_seqno demo_amount demo_pays)

theorem PaymentXLM_long_memo_witness:
  "\<exists>r buf. PaymentXLMTransaction demo_client demo_seed (address_of demo_pub) ''5'' (replicate 29 CHR ''x'') (Client demo_client) None 100 0 =
      (Inr r, 0) \<and> base64_DecodeString (sr_Signed r) = Inr buf \<and> (\<exists>e. UnmarshalEnvelope buf = Inl e)"
  using PaymentXLM_long_memo [OF demo_client_fields(3), of demo_seed _ "''5''" _ _ _ "replicate 29 CHR ''x''" "Client demo_client" 0 7 0]
  by (simp add: demo_seed_ok demo_Address TrimSpace_net demo_amount demo_account demo_seqno)

theorem long_code_never_created_witness:
  "snd (fst (CreateCustomAsset demo_client (replicate 32 0) (replicate 32 1) demo_seed ''EURTX'' ''1000'' ''keybase.io'' ''2.5'' 100 0)) \<noteq> None"
  using long_code_never_created [of "''EURTX''" demo_client "replicate 32 0" "replicate 32 1" demo_seed "''1000''" "''keybase.io''" "''2.5''" 100 0]
  by simp


end
