(* ===== verification/Config.thy ===== *)
theory Config
  imports Payments
begin

text \<open>
  The package's configuration (\<open>account.go\<close>, \<open>ping.go\<close>): the horizon client, the wrapper of
  it that provides sequence numbers, and the network, with the functions that set and read
  them. Each holds a lock for its whole body, so the calls of a program, from however many
  goroutines, are one sequence; the states a sequence of calls can reach are given by a
  step relation. The time bounds made from clock times are here too.
\<close>

section \<open>The configuration\<close>

text \<open>A horizon client: its address and the time-out of its HTTP client in seconds, if it has one.\<close>

record hclient =
  hc_HorizonURL :: string
  hc_Timeout :: "nat option"

text \<open>Clients are pointers, which may be \<open>nil\<close>; \<open>lclient\<close> is the client inside the wrapper.\<close>

record config =
  gclient :: "hclient option"
  lclient :: "hclient option"
  gnetwork :: string

definition PublicNetworkPassphrase :: string where
  "PublicNetworkPassphrase = ''Public Global Stellar Network ; September 2015''"

definition DefaultPublicNetClient :: hclient where
  "DefaultPublicNetClient = \<lparr>hc_HorizonURL = ''https://horizon.stellar.org/'', hc_Timeout = None\<rparr>"

definition initial_config :: config where
  "initial_config = \<lparr>gclient = Some DefaultPublicNetClient, lclient = Some DefaultPublicNetClient,
     gnetwork = PublicNetworkPassphrase\<rparr>"

definition SetClientAndNetwork :: "hclient option \<Rightarrow> string \<Rightarrow> config \<Rightarrow> config" where
  "SetClientAndNetwork c n s = (let s = s\<lparr>gclient := c\<rparr>; s = s\<lparr>lclient := gclient s\<rparr> in s\<lparr>gnetwork := n\<rparr>)"

definition MakeClient :: "string \<Rightarrow> hclient" where
  "MakeClient url = \<lparr>hc_HorizonURL = url, hc_Timeout = Some 30\<rparr>"

definition SetClientURLAndNetwork :: "string \<Rightarrow> string \<Rightarrow> config \<Rightarrow> config" where
  "SetClientURLAndNetwork url n s =
     (let s = s\<lparr>gclient := Some (MakeClient url)\<rparr>; s = s\<lparr>lclient := gclient s\<rparr> in s\<lparr>gnetwork := n\<rparr>)"

definition SetClient :: "hclient option \<Rightarrow> config \<Rightarrow> config" where
  "SetClient c s = (let s = s\<lparr>gclient := c\<rparr> in s\<lparr>lclient := gclient s\<rparr>)"

definition SetClientURL :: "string \<Rightarrow> config \<Rightarrow> config" where
  "SetClientURL url s = (let s = s\<lparr>gclient := Some (MakeClient url)\<rparr> in s\<lparr>lclient := gclient s\<rparr>)"

definition SetNetwork :: "string \<Rightarrow> config \<Rightarrow> config" where
  "SetNetwork n s = s\<lparr>gnetwork := n\<rparr>"

definition HorizonClient :: "config \<Rightarrow> hclient option" where "HorizonClient s = gclient s"
definition legacyClient_of :: "config \<Rightarrow> hclient option" where "legacyClient_of s = lclient s"
definition Network :: "config \<Rightarrow> string" where "Network s = gnetwork s"
definition NetworkPassphrase :: "config \<Rightarrow> string" where "NetworkPassphrase s = gnetwork s"

lemmas config_defs [go_defs] =
  SetClientAndNetwork_def SetClientURLAndNetwork_def SetClient_def SetClientURL_def SetNetwork_def MakeClient_def
  HorizonClient_def legacyClient_of_def Network_def NetworkPassphrase_def

section \<open>\<open>ping.go\<close>\<close>

record hRoot =
  HorizonVersion :: string
  StellarCoreVersion :: string
  HorizonSequence :: int32
  CoreSequence :: int32

text \<open>\<open>client.Root()\<close> is the parameter \<open>fetch\<close>.\<close>

definition HorizonStatusForClient :: "(hclient \<Rightarrow> ('w, hRoot) op) \<Rightarrow> hclient option \<Rightarrow> ('w, hRoot) op" where
  "HorizonStatusForClient fetch client =
     (case client of
        None \<Rightarrow> op_lift (Inl (NewError ''nil horizon client''))
      | Some c \<Rightarrow> fetch c)"

definition HorizonStatus :: "(hclient \<Rightarrow> ('w, hRoot) op) \<Rightarrow> config \<Rightarrow> ('w, hRoot) op" where
  "HorizonStatus fetch s = HorizonStatusForClient fetch (HorizonClient s)"

definition Ping :: "(hclient \<Rightarrow> ('w, hRoot) op) \<Rightarrow> config \<Rightarrow> ('w, string) op" where
  "Ping fetch s =
     op_bind (HorizonStatus fetch s) (\<lambda>status.
       op_return (''horizon ver: '' @ HorizonVersion status @ '', stellar-core ver: '' @ StellarCoreVersion status @
         '', horizon seqno: '' @ show_int (sint (HorizonSequence status)) @
         '', core seqno: '' @ show_int (sint (CoreSequence status))))"

section \<open>Time bounds from clock times\<close>

text \<open>A time is what \<open>Unix()\<close> reads of it, the seconds since 1970 as an \<open>int64\<close>.\<close>

definition MakeTimeboundsFromTime :: "int64 \<Rightarrow> int64 \<Rightarrow> int64 \<times> int64" where
  "MakeTimeboundsFromTime minTime maxTime = (minTime, maxTime)"

definition MakeTimeboundsWithMaxTime :: "int64 \<Rightarrow> int64 \<times> int64" where
  "MakeTimeboundsWithMaxTime maxTime = (0, maxTime)"

section \<open>Sequences of calls\<close>

datatype setter =
    CallSetClientAndNetwork "hclient option" string
  | CallSetClientURLAndNetwork string string
  | CallSetClient "hclient option"
  | CallSetClientURL string
  | CallSetNetwork string

fun call :: "setter \<Rightarrow> config \<Rightarrow> config" where
  "call (CallSetClientAndNetwork c n) s = SetClientAndNetwork c n s"
| "call (CallSetClientURLAndNetwork url n) s = SetClientURLAndNetwork url n s"
| "call (CallSetClient c) s = SetClient c s"
| "call (CallSetClientURL url) s = SetClientURL url s"
| "call (CallSetNetwork n) s = SetNetwork n s"

inductive config_reach :: "setter list \<Rightarrow> config \<Rightarrow> bool" where
  start: "config_reach [] initial_config"
| step: "config_reach cs s \<Longrightarrow> config_reach (cs @ [c]) (call c s)"

text \<open>What a call says of the client and of the network.\<close>

fun client_set :: "setter \<Rightarrow> hclient option option" where
  "client_set (CallSetClientAndNetwork c n) = Some c"
| "client_set (CallSetClientURLAndNetwork url n) = Some (Some (MakeClient url))"
| "client_set (CallSetClient c) = Some c"
| "client_set (CallSetClientURL url) = Some (Some (MakeClient url))"
| "client_set (CallSetNetwork n) = None"

fun network_set :: "setter \<Rightarrow> string option" where
  "network_set (CallSetClientAndNetwork c n) = Some n"
| "network_set (CallSetClientURLAndNetwork url n) = Some n"
| "network_set (CallSetClient c) = None"
| "network_set (CallSetClientURL url) = None"
| "network_set (CallSetNetwork n) = Some n"

text \<open>The value of the last call that sets one.\<close>

definition last_set :: "('c \<Rightarrow> 'v option) \<Rightarrow> 'v \<Rightarrow> 'c list \<Rightarrow> 'v" where
  "last_set f v cs = foldl (\<lambda>v c. case f c of None \<Rightarrow> v | Some v' \<Rightarrow> v') v cs"

lemma uint_of_sint: "uint (w :: int64) = (if sint w < 0 then sint w + 18446744073709551616 else sint w)"
proof -
  have m: "uint w = sint w mod 18446744073709551616" by (simp add: uint_sint take_bit_eq_mod)
  have b: "- 9223372036854775808 \<le> sint w" "sint w \<le> 9223372036854775807"
    using sint_in_int64 [of w] by (simp_all add: in_int64_def int64_min_def int64_max_def)
  show ?thesis
  proof (cases "sint w < 0")
    case True
    have "sint w mod 18446744073709551616 = (sint w + 18446744073709551616) mod 18446744073709551616"
      by (rule mod_add_self2 [symmetric])
    also have "\<dots> = sint w + 18446744073709551616" using True b by (intro mod_pos_pos_trivial) simp_all
    finally show ?thesis using m True by simp
  next
    case False
    then have "sint w mod 18446744073709551616 = sint w" using b by (intro mod_pos_pos_trivial) simp_all
    with m False show ?thesis by simp
  qed
qed

section \<open>Properties\<close>

text \<open>
  After any sequence of calls the horizon client is that of the last call that sets
  one and the network that of the last call that sets one, starting from the public
  network; and the client that provides sequence numbers is always the horizon client.
\<close>

theorem config_last_set:
  assumes "config_reach cs s"
  shows "HorizonClient s = last_set client_set (Some DefaultPublicNetClient) cs \<and>
    Network s = last_set network_set PublicNetworkPassphrase cs \<and>
    NetworkPassphrase s = Network s \<and>
    legacyClient_of s = HorizonClient s"
  using assms
proof (induction rule: config_reach.induct)
  case start
  then show ?case by (simp add: initial_config_def last_set_def config_defs)
next
  case (step cs s c)
  then show ?case by (cases c) (simp_all add: last_set_def config_defs Let_def)
qed

theorem config_last_set_witness:
  "\<exists>s. config_reach [CallSetClientURL ''https://a/'', CallSetNetwork ''test'', CallSetClient None] s \<and>
     HorizonClient s = None \<and> Network s = ''test'' \<and> legacyClient_of s = None"
proof -
  have "config_reach ((([] @ [CallSetClientURL ''https://a/'']) @ [CallSetNetwork ''test'']) @ [CallSetClient None])
      (call (CallSetClient None) (call (CallSetNetwork ''test'') (call (CallSetClientURL ''https://a/'') initial_config)))"
    by (intro config_reach.intros)
  from config_last_set [OF this] this show ?thesis by (auto simp: last_set_def simp del: call.simps)
qed

text \<open>
  The times of a builder's bounds are compared as unsigned numbers by whoever reads
  the transaction. For times from 1970 on, that is their order; a minimum before 1970 with a
  maximum after it becomes a later time than the maximum, so that no time is within the
  bounds.
\<close>

theorem time_bounds_order:
  assumes "err t = None" and "tx_TimeBounds (internal t) = None"
  shows "\<exists>b. tx_TimeBounds (internal (AddBuiltTimeBounds (Some (MakeTimeboundsFromTime mn mx)) t)) = Some b \<and>
    (0 \<le> sint mn \<and> 0 \<le> sint mx \<longrightarrow>
      uint (MinTime b) = sint mn \<and> uint (MaxTime b) = sint mx) \<and>
    (sint mn < 0 \<and> 0 \<le> sint mx \<longrightarrow>
      uint (MaxTime b) < uint (MinTime b) \<and> (\<forall>now. \<not> (MinTime b \<le> now \<and> now \<le> MaxTime b)))"
proof -
  have "tx_TimeBounds (internal (AddBuiltTimeBounds (Some (MakeTimeboundsFromTime mn mx)) t)) =
      Some \<lparr>MinTime = mn, MaxTime = mx\<rparr>"
    using assms by (simp add: AddBuiltTimeBounds_def MakeTimeboundsFromTime_def AddTimeBounds_def)
  moreover have "sint mn < 0 \<and> 0 \<le> sint mx \<longrightarrow> uint mx < uint mn"
    using uint_of_sint [of mn] uint_of_sint [of mx] sint_in_int64 [of mn] sint_in_int64 [of mx]
    by (auto simp: in_int64_def int64_min_def int64_max_def)
  ultimately show ?thesis
    using uint_of_sint [of mn] uint_of_sint [of mx] by (auto simp: word_le_def)
qed

theorem time_bounds_order_witness:
  "\<exists>b. tx_TimeBounds (internal (AddBuiltTimeBounds (Some (MakeTimeboundsFromTime (- 1) 100)) (NewBaseTx ''net'' (address_of demo_pub) (\<lambda>_. Inr 7) 100))) = Some b \<and>
    uint (MaxTime b) < uint (MinTime b)"
  using time_bounds_order [of "NewBaseTx ''net'' (address_of demo_pub) (\<lambda>_. Inr 7) 100" "- 1" 100]
  by (auto simp: NewBaseTx_def empty_Transaction_def)

end
