(* ===== verification/Error_Texts.thy ===== *)
theory Error_Texts
  imports Errors Go_Quote Keys "HOL-Library.Sublist"
begin

text \<open>
  What the errors say: the \<open>Error\<close> methods of \<open>errors.go\<close> and \<open>stellar_uri.go\<close>, the texts of
  their sentinels, and \<open>fmt.Sprintf\<close> for the formats of the program; and that no text tells a seed.
\<close>

section \<open>\<open>fmt.Sprintf\<close>\<close>

text \<open>
  An argument is a function from the verb to a text. The verbs of the program are
  \<open>%s %v %d %q %T %#U\<close>; none of its formats has more arguments than verbs.
\<close>

fun Sprintf_loop :: "bool \<Rightarrow> string \<Rightarrow> (char \<Rightarrow> string) list \<Rightarrow> string" where
  "Sprintf_loop verb [] args = (if verb then ''%!(NOVERB)'' else [])"
| "Sprintf_loop verb (c # f) args =
     (if \<not> verb then (if c = CHR ''%'' then Sprintf_loop True f args else c # Sprintf_loop False f args)
      else if c = CHR ''%'' then c # Sprintf_loop False f args
      else if c = CHR ''#'' then Sprintf_loop True f args
      else case args of
          [] \<Rightarrow> ''%!'' @ [c] @ ''(MISSING)'' @ Sprintf_loop False f []
        | a # rest \<Rightarrow> a c @ Sprintf_loop False f rest)"

definition Sprintf :: "string \<Rightarrow> (char \<Rightarrow> string) list \<Rightarrow> string" where
  "Sprintf f args = Sprintf_loop False f args"

text \<open>\<open>%#U\<close>: the code point in at least four hexadecimal capitals, and the character if it prints.\<close>

definition unicode_text :: "(nat \<Rightarrow> bool) \<Rightarrow> nat \<Rightarrow> string" where
  "unicode_text table r =
     ''U+'' @ map (\<lambda>c. if CHR ''a'' \<le> c \<and> c \<le> CHR ''f'' then char_of (of_char c - 32 :: nat) else c) (hex_text 4 r) @
     (if IsPrint table r then '' '' @ [CHR 0x27] @
        (if r < RuneSelf then [char_of r] else [char_of (0xC0 + r div 64), char_of (0x80 + r mod 64)]) @ [CHR 0x27] else [])"

section \<open>The texts\<close>

text \<open>
  \<open>is_print\<close> is \<open>strconv.IsPrint\<close> beyond U+00FF; \<open>horizon_text\<close> is the \<open>Error\<close> method of the
  vendored \<open>horizonclient.Error\<close>, over fields of the problem document that are not modelled.
\<close>

record text_env =
  is_print :: "nat \<Rightarrow> bool"
  horizon_text :: "horizon_error \<Rightarrow> string"

definition Error_Error :: "string \<Rightarrow> string" where "Error_Error display = display"

definition ErrMissingParameter_Error :: "(nat \<Rightarrow> bool) \<Rightarrow> string \<Rightarrow> string" where
  "ErrMissingParameter_Error table key =
     (if key \<noteq> [] then ''request missing required parameter '' @ strconv_Quote table key
      else ''request missing required parameter'')"

definition ErrInvalidParameter_Error :: "(nat \<Rightarrow> bool) \<Rightarrow> string \<Rightarrow> string" where
  "ErrInvalidParameter_Error table key =
     (if key \<noteq> [] then ''request parameter '' @ strconv_Quote table key @ '' is invalid''
      else ''request parameter invalid'')"

definition ErrNetworkWellKnownOrigin_Error :: "go_error \<Rightarrow> string" where
  "ErrNetworkWellKnownOrigin_Error orig = ''network error getting signing key from origin domain''"

definition ErrInvalidWellKnownOrigin_Error :: "go_error \<Rightarrow> string" where
  "ErrInvalidWellKnownOrigin_Error orig = ''invalid origin domain stellar.toml file looking for signing key''"

text \<open>The sentinels of \<open>errors.go\<close>.\<close>

fun sentinel_text :: "go_error \<Rightarrow> string option" where
  "sentinel_text ErrResourceNotFound = Some ''resource not found''"
| "sentinel_text ErrSourceAccountNotFound = Some ''source account not found''"
| "sentinel_text ErrDestinationAccountNotFound = Some ''destination account not found''"
| "sentinel_text ErrAddressNotSeed = Some ''string provided is an address not a seed''"
| "sentinel_text ErrSeedNotAddress = Some ''string provided is a seed not an address''"
| "sentinel_text ErrUnknownKeypairType = Some ''unknown keypair type''"
| "sentinel_text ErrAssetNotFound = Some ''asset not found''"
| "sentinel_text ErrMemoExists = Some ''memo already exists in this tx''"
| "sentinel_text ErrTimeBoundsExist = Some ''time bounds already exist in this tx''"
| "sentinel_text ErrTxOpFull = Some ''tx cannot hold more operations''"
| "sentinel_text ErrNoOps = Some ''no operations in tx''"
| "sentinel_text ErrAssetAlreadyExists = Some ''asset already exists''"
| "sentinel_text _ = None"

text \<open>Those of \<open>stellar_uri.go\<close>, and of the vendored packages.\<close>

fun uri_sentinel_text :: "go_error \<Rightarrow> string option" where
  "uri_sentinel_text ErrInvalidScheme = Some ''invalid stellar URI scheme''"
| "uri_sentinel_text ErrInvalidOperation = Some ''invalid stellar URI operation''"
| "uri_sentinel_text ErrBadSignature = Some ''bad signature''"
| "uri_sentinel_text _ = None"

fun vendored_sentinel_text :: "go_error \<Rightarrow> string option" where
  "vendored_sentinel_text ErrInvalidVersionByte = Some ''invalid version byte''"
| "vendored_sentinel_text ErrInvalidChecksum = Some ''invalid checksum''"
| "vendored_sentinel_text ErrCannotSign = Some ''cannot sign''"
| "vendored_sentinel_text ErrInvalidSignature = Some ''signature verification failed''"
| "vendored_sentinel_text _ = None"

definition fixed_text :: "go_error \<Rightarrow> string" where
  "fixed_text e =
     (case sentinel_text e of Some s \<Rightarrow> s | None \<Rightarrow>
       (case uri_sentinel_text e of Some s \<Rightarrow> s | None \<Rightarrow>
         (case vendored_sentinel_text e of Some s \<Rightarrow> s | None \<Rightarrow> [])))"

text \<open>\<open>err.Error()\<close>. A \<open>Panic\<close> is not an error of the program; its text is that of the panic.\<close>

fun Error_text :: "text_env \<Rightarrow> go_error \<Rightarrow> string"
  and arg_text :: "text_env \<Rightarrow> fmt_arg \<Rightarrow> char \<Rightarrow> string" where
  "Error_text T (ErrMissingParameter key) = ErrMissingParameter_Error (is_print T) key"
| "Error_text T (ErrInvalidParameter key) = ErrInvalidParameter_Error (is_print T) key"
| "Error_text T (ErrNetworkWellKnownOrigin e) = ErrNetworkWellKnownOrigin_Error e"
| "Error_text T (ErrInvalidWellKnownOrigin e) = ErrInvalidWellKnownOrigin_Error e"
| "Error_text T (StellarError display details horizon orig) = Error_Error display"
| "Error_text T (HorizonError h) = horizon_text T h"
| "Error_text T (UrlError u) = ue_text u"
| "Error_text T (NewError s) = s"
| "Error_text T (Errorf f args) = Sprintf f (map (arg_text T) args)"
| "Error_text T (Wrapped m e) = m @ '': '' @ Error_text T e"
| "Error_text T (Panic s) = s"
| "Error_text T e = fixed_text e"
| "arg_text T (AStr s) v = (if v = CHR ''q'' then strconv_Quote (is_print T) s else s)"
| "arg_text T (AInt i) v = (if v = CHR ''U'' then unicode_text (is_print T) (nat i) else show_int i)"
| "arg_text T (AErr e) v = (if v = CHR ''q'' then strconv_Quote (is_print T) (Error_text T e) else Error_text T e)"

lemma sentinel_text_Error_text:
  "sentinel_text e = Some s \<Longrightarrow> Error_text T e = s" "uri_sentinel_text e = Some s \<Longrightarrow> Error_text T e = s"
  "vendored_sentinel_text e = Some s \<Longrightarrow> Error_text T e = s"
  by (cases e; auto simp: fixed_text_def)+

text \<open>The sentinels can be told apart by their texts.\<close>

lemma sentinel_text_inject: "sentinel_text e = Some s \<Longrightarrow> sentinel_text e' = Some s \<Longrightarrow> e = e'"
  by (cases e; cases e') auto

section \<open>No text tells a seed\<close>

text \<open>Every seed has a capital S in it, its first letter. An error is quiet if its text has none.\<close>

definition quiet :: "go_error \<Rightarrow> bool" where
  "quiet e \<longleftrightarrow> (\<forall>T. CHR ''S'' \<notin> set (Error_text T e))"

lemma show_int_quiet: "CHR ''S'' \<notin> set (show_int i)"
  using show_nat_digits [of "nat i"] show_nat_digits [of "nat (- i)"] by (auto simp: show_int_def is_digit_iff)

lemma quiet_simps [simp]:
  "quiet (Wrapped ''base32 decode failed'' e) = quiet e" "quiet ErrInvalidVersionByte" "quiet ErrInvalidChecksum" "quiet ErrAddressNotSeed"
  by (simp_all add: quiet_def fixed_text_def)

lemma quiet_NewError: "CHR ''S'' \<notin> set m \<Longrightarrow> quiet (NewError m)"
  by (simp add: quiet_def)

lemma quiet_CorruptInputError [simp]: "quiet (CorruptInputError i)"
  by (simp add: quiet_def CorruptInputError_def Sprintf_def show_int_quiet)

lemma b32_quantum_quiet: "b32_quantum olen buf src = Inl e \<Longrightarrow> quiet e"
  by (induction olen buf src rule: b32_quantum.induct) (auto split: if_splits list.splits simp del: filter.simps)

lemma b32_decode_quiet: "b32_decode olen src = Inl e \<Longrightarrow> quiet e"
proof (induction olen src rule: b32_decode.induct)
  case (1 olen src)
  from 1(2) show ?case
    by (subst (asm) b32_decode.simps)
      (auto simp: and_then_eq_Inl split: if_splits sum.splits prod.splits dest: b32_quantum_quiet intro: 1(1))
qed

lemma decodeString_quiet: "decodeString s = Inl e \<Longrightarrow> quiet e"
proof -
  have "quiet (Errorf ''strkey is %d bytes long; minimum valid length is 5'' [AInt i])" for i
    by (simp add: quiet_def Sprintf_def show_int_quiet)
  moreover have "map_err (Wrapped ''base32 decode failed'') (base32_Decode s) = Inl e \<Longrightarrow> quiet e"
    by (cases "base32_Decode s") (auto simp: base32_Decode_def Let_def dest: b32_decode_quiet)
  ultimately show "decodeString s = Inl e \<Longrightarrow> quiet e"
    by (auto simp: decodeString_def Let_def split: if_splits intro!: quiet_NewError)
qed

lemma strkey_Decode_quiet: "strkey_Decode v s = Inl e \<Longrightarrow> quiet e"
  by (auto simp: strkey_Decode_def checkValidVersionByte_def crc16_Validate_def and_then_eq_Inl Let_def split: if_splits
      dest: decodeString_quiet intro!: quiet_NewError)

lemma keypair_Parse_quiet:
  assumes "keypair_Parse C s = Inl e"
  shows "quiet e"
proof -
  have "quiet e" if "newFull C s = Inl e"
    using that strkey_Decode_quiet
    by (auto simp: newFull_def and_then_eq_Inl ed25519_GenerateKey_def strkey_Encode_AccountID Let_def split: if_splits
        intro!: quiet_NewError)
  then show ?thesis
    using assms strkey_Decode_quiet by (auto simp: keypair_Parse_def newFromAddress_def and_then_eq_Inl split: sum.splits if_splits)
qed

text \<open>
  C40. A seed that is refused is not told: the text of the error that \<open>NewSeedStr\<close> or
  \<open>SeedStr.Address\<close> returns for a text with a capital S, the first letter of every seed,
  does not contain that text; and a seed prints as a warning, whatever it is.
\<close>

theorem seed_not_in_error:
  assumes "CHR ''S'' \<in> set s" and "NewSeedStr C s = Inl e \<or> SeedStr_Address C s = Inl e"
  shows "\<not> sublist s (Error_text T e) \<and> SeedStr_String s = SeedStr_String t"
proof -
  have "quiet e"
    using assms(2) keypair_Parse_quiet [of C s e]
    by (auto simp: NewSeedStr_def SeedStr_Address_def SecureNoLogString_def and_then_eq_Inl) (auto split: KP.splits)
  then have "CHR ''S'' \<notin> set (Error_text T e)" by (simp add: quiet_def)
  with assms(1) show ?thesis by (auto simp: sublist_def SeedStr_String_def)
qed

text \<open>A seed with its last letter mistyped.\<close>

lemma mistyped_seed:
  "NewSeedStr plain_crypto ''SAAAAAAAAAAAAAAAAAAAAAAAAAAAAAAAAAAAAAAAAAAAAAAAAAAABSU3'' = Inl ErrInvalidChecksum"
  by code_simp

theorem seed_not_in_error_witness:
  "\<forall>T. \<not> sublist ''SAAAAAAAAAAAAAAAAAAAAAAAAAAAAAAAAAAAAAAAAAAAAAAAAAAABSU3'' (Error_text T ErrInvalidChecksum)"
  using seed_not_in_error [OF _ disjI1 [OF mistyped_seed]] by simp

end
