(* ===== verification/Fees.thy ===== *)
theory Fees
  imports Horizon
begin

text \<open>
  \<open>fee.go\<close>: the fee statistics of horizon, which come as texts, and their conversion to
  numbers. The ledger's capacity usage is a \<open>float64\<close>: \<open>strconv.ParseFloat\<close> is the
  parameter \<open>parse_float\<close>, into a type of floats that the program does not compute with.
\<close>

record FeeStatsSubResponse =
  fs_Min :: string
  fs_Max :: string
  fs_Mode :: string
  fs_P10 :: string
  fs_P20 :: string
  fs_P30 :: string
  fs_P40 :: string
  fs_P50 :: string
  fs_P60 :: string
  fs_P70 :: string
  fs_P80 :: string
  fs_P90 :: string
  fs_P95 :: string
  fs_P99 :: string

record FeeStatsResponse =
  fr_LastLedger :: string
  fr_LastLedgerBaseFee :: string
  fr_LedgerCapacityUsage :: string
  fr_FeeCharged :: FeeStatsSubResponse
  fr_MaxFee :: FeeStatsSubResponse

record 'f NumericFeeStats =
  nf_LastLedger :: int32
  nf_LastLedgerBaseFee :: uint64
  nf_LedgerCapacityUsage :: 'f
  nf_MinAcceptedFee :: uint64
  nf_ModeAcceptedFee :: uint64
  nf_P10AcceptedFee :: uint64
  nf_P20AcceptedFee :: uint64
  nf_P30AcceptedFee :: uint64
  nf_P40AcceptedFee :: uint64
  nf_P50AcceptedFee :: uint64
  nf_P60AcceptedFee :: uint64
  nf_P70AcceptedFee :: uint64
  nf_P80AcceptedFee :: uint64
  nf_P90AcceptedFee :: uint64
  nf_P95AcceptedFee :: uint64
  nf_P99AcceptedFee :: uint64

text \<open>\<open>strconv.ParseUint(s, 10, 64)\<close> as a \<open>uint64\<close>.\<close>

definition fee_uint :: "string \<Rightarrow> uint64 res" where
  "fee_uint s = and_then (parse_uint 64 s) (\<lambda>n. Inr (word_of_nat n))"

definition Convert :: "(string \<Rightarrow> 'f res) \<Rightarrow> FeeStatsResponse \<Rightarrow> 'f NumericFeeStats res" where
  "Convert parse_float f =
     and_then (parse_int 32 (fr_LastLedger f)) (\<lambda>n.
     and_then (fee_uint (fr_LastLedgerBaseFee f)) (\<lambda>base.
     and_then (parse_float (fr_LedgerCapacityUsage f)) (\<lambda>usage.
     and_then (fee_uint (fs_Min (fr_FeeCharged f))) (\<lambda>mn.
     and_then (fee_uint (fs_Mode (fr_FeeCharged f))) (\<lambda>mode.
     and_then (fee_uint (fs_P10 (fr_FeeCharged f))) (\<lambda>p10.
     and_then (fee_uint (fs_P20 (fr_FeeCharged f))) (\<lambda>p20.
     and_then (fee_uint (fs_P30 (fr_FeeCharged f))) (\<lambda>p30.
     and_then (fee_uint (fs_P40 (fr_FeeCharged f))) (\<lambda>p40.
     and_then (fee_uint (fs_P50 (fr_FeeCharged f))) (\<lambda>p50.
     and_then (fee_uint (fs_P60 (fr_FeeCharged f))) (\<lambda>p60.
     and_then (fee_uint (fs_P70 (fr_FeeCharged f))) (\<lambda>p70.
     and_then (fee_uint (fs_P80 (fr_FeeCharged f))) (\<lambda>p80.
     and_then (fee_uint (fs_P90 (fr_FeeCharged f))) (\<lambda>p90.
     and_then (fee_uint (fs_P95 (fr_FeeCharged f))) (\<lambda>p95.
     and_then (fee_uint (fs_P99 (fr_FeeCharged f))) (\<lambda>p99.
       Inr \<lparr>nf_LastLedger = word_of_int n, nf_LastLedgerBaseFee = base, nf_LedgerCapacityUsage = usage,
            nf_MinAcceptedFee = mn, nf_ModeAcceptedFee = mode, nf_P10AcceptedFee = p10, nf_P20AcceptedFee = p20,
            nf_P30AcceptedFee = p30, nf_P40AcceptedFee = p40, nf_P50AcceptedFee = p50, nf_P60AcceptedFee = p60,
            nf_P70AcceptedFee = p70, nf_P80AcceptedFee = p80, nf_P90AcceptedFee = p90, nf_P95AcceptedFee = p95,
            nf_P99AcceptedFee = p99\<rparr>))))))))))))))))"

text \<open>A fetcher acts on the world.\<close>

definition FeeStats :: "(string \<Rightarrow> 'f res) \<Rightarrow> ('w, FeeStatsResponse) op \<Rightarrow> ('w, 'f NumericFeeStats) op" where
  "FeeStats parse_float fetch = op_bind fetch (\<lambda>resp. op_lift (Convert parse_float resp))"

text \<open>
  The fetcher of the package, with \<open>Client()\<close> as an option and the decoder of the response
  as a parameter. The error of \<open>horizonLink\<close> is overwritten before it is looked at; the
  link is then empty.
\<close>

definition FeeStatFetch :: "(string \<Rightarrow> FeeStatsResponse res) \<Rightarrow> 'w horizon option \<Rightarrow> ('w, FeeStatsResponse) op" where
  "FeeStatFetch decode c =
     (case c of
        None \<Rightarrow> op_lift (Inl (NewError ''no horizon client''))
      | Some H \<Rightarrow>
          let statsURL = (case horizonLink (HorizonURL H) ''/fee_stats'' of Inl _ \<Rightarrow> [] | Inr link \<Rightarrow> link)
          in getDecodeJSONStrict H statsURL decode)"

section \<open>Properties\<close>

text \<open>A response that prints numeric statistics.\<close>

definition show_uint :: "uint64 \<Rightarrow> string" where "show_uint w = show_nat (unat w)"

definition print_stats :: "('f \<Rightarrow> string) \<Rightarrow> FeeStatsSubResponse \<Rightarrow> string \<Rightarrow> 'f NumericFeeStats \<Rightarrow> FeeStatsResponse" where
  "print_stats show_float maxFee chargedMax s =
     \<lparr>fr_LastLedger = show_int (sint (nf_LastLedger s)), fr_LastLedgerBaseFee = show_uint (nf_LastLedgerBaseFee s),
      fr_LedgerCapacityUsage = show_float (nf_LedgerCapacityUsage s),
      fr_FeeCharged = \<lparr>fs_Min = show_uint (nf_MinAcceptedFee s), fs_Max = chargedMax, fs_Mode = show_uint (nf_ModeAcceptedFee s),
        fs_P10 = show_uint (nf_P10AcceptedFee s), fs_P20 = show_uint (nf_P20AcceptedFee s), fs_P30 = show_uint (nf_P30AcceptedFee s),
        fs_P40 = show_uint (nf_P40AcceptedFee s), fs_P50 = show_uint (nf_P50AcceptedFee s), fs_P60 = show_uint (nf_P60AcceptedFee s),
        fs_P70 = show_uint (nf_P70AcceptedFee s), fs_P80 = show_uint (nf_P80AcceptedFee s), fs_P90 = show_uint (nf_P90AcceptedFee s),
        fs_P95 = show_uint (nf_P95AcceptedFee s), fs_P99 = show_uint (nf_P99AcceptedFee s)\<rparr>,
      fr_MaxFee = maxFee\<rparr>"

lemma fee_uint_show [simp]: "fee_uint (show_uint w) = Inr w"
proof -
  have "unat w < 2 ^ 64" using unsigned_less [of w, where 'a=nat] by simp
  then have "parse_uint 64 (show_nat (unat w)) = Inr (unat w)" by (simp add: parse_uint_eq_Inr)
  then show ?thesis by (simp add: fee_uint_def show_uint_def)
qed

text \<open>
  C41. \<open>Convert\<close> reads every field from its own text: statistics that are printed and read
  back are the same, for all 16 fields and all values of their types.
\<close>

theorem Convert_roundtrip:
  assumes "parse_float (show_float (nf_LedgerCapacityUsage s)) = Inr (nf_LedgerCapacityUsage s)"
  shows "Convert parse_float (print_stats show_float maxFee chargedMax s) = Inr s"
proof -
  have "parse_int 32 (show_int (sint (nf_LastLedger s))) = Inr (sint (nf_LastLedger s))"
    using sint_ge [of "nf_LastLedger s"] sint_lt [of "nf_LastLedger s"] by simp
  then show ?thesis using assms by (simp add: Convert_def print_stats_def)
qed

lemma Convert_roundtrip_witness:
  "Convert (parse_uint 64)
     (print_stats show_nat \<lparr>fs_Min = ''1'', fs_Max = ''2'', fs_Mode = ''1'', fs_P10 = ''1'', fs_P20 = ''1'', fs_P30 = ''1'',
        fs_P40 = ''1'', fs_P50 = ''1'', fs_P60 = ''1'', fs_P70 = ''1'', fs_P80 = ''1'', fs_P90 = ''1'', fs_P95 = ''1'', fs_P99 = ''2''\<rparr> ''7''
       \<lparr>nf_LastLedger = 22606298, nf_LastLedgerBaseFee = 100, nf_LedgerCapacityUsage = 1, nf_MinAcceptedFee = 100,
        nf_ModeAcceptedFee = 100, nf_P10AcceptedFee = 100, nf_P20AcceptedFee = 101, nf_P30AcceptedFee = 102, nf_P40AcceptedFee = 103,
        nf_P50AcceptedFee = 104, nf_P60AcceptedFee = 105, nf_P70AcceptedFee = 106, nf_P80AcceptedFee = 107, nf_P90AcceptedFee = 18446744073709551615,
        nf_P95AcceptedFee = 109, nf_P99AcceptedFee = 110\<rparr>) =
   Inr \<lparr>nf_LastLedger = 22606298, nf_LastLedgerBaseFee = 100, nf_LedgerCapacityUsage = 1, nf_MinAcceptedFee = 100,
        nf_ModeAcceptedFee = 100, nf_P10AcceptedFee = 100, nf_P20AcceptedFee = 101, nf_P30AcceptedFee = 102, nf_P40AcceptedFee = 103,
        nf_P50AcceptedFee = 104, nf_P60AcceptedFee = 105, nf_P70AcceptedFee = 106, nf_P80AcceptedFee = 107, nf_P90AcceptedFee = 18446744073709551615,
        nf_P95AcceptedFee = 109, nf_P99AcceptedFee = 110\<rparr>"
  by (rule Convert_roundtrip) (simp add: parse_uint_eq_Inr)

end
