(* ===== verification/Tx_Spec.thy ===== *)
theory Tx_Spec
  imports Tx_Typed
begin

text \<open>
  What a caller of the builder means: a sequence of method calls stands for a content (the
  operations in order, the memo and the time bounds), or for the first error. The
  specification is a function of the calls alone; the builder's states implement it.
\<close>

section \<open>The content of a transaction\<close>

record content =
  c_Operations :: "(OperationType \<times> op_value) list"
  c_Memo :: xdr_Memo
  c_TimeBounds :: "TimeBounds option"

definition no_content :: content where
  "no_content = \<lparr>c_Operations = [], c_Memo = xdr_no_memo, c_TimeBounds = None\<rparr>"

text \<open>The operation a call stands for.\<close>

fun action_op :: "go_crypto \<Rightarrow> tx_action \<Rightarrow> (OperationType \<times> op_value) res" where
  "action_op C (Payment to amt) =
     and_then (amount_ParseInt64 amt) (\<lambda>v. and_then (AddressStr_MuxedAccount to) (\<lambda>d.
       Inr (OpPayment, VPaymentOp \<lparr>pay_Destination = d, pay_Asset = xdr_native, pay_Amount = v\<rparr>)))"
| "action_op C (AssetPayment to asset amt) =
     and_then (amount_ParseInt64 amt) (\<lambda>v. and_then (AddressStr_MuxedAccount to) (\<lambda>d.
       Inr (OpPayment, VPaymentOp \<lparr>pay_Destination = d, pay_Asset = asset, pay_Amount = v\<rparr>)))"
| "action_op C (PathPayment to sa sm da am p) =
     and_then (assetBaseToXDR C sa) (\<lambda>xs. and_then (assetBaseToXDR C da) (\<lambda>xd.
     and_then (amount_ParseInt64 sm) (\<lambda>most. and_then (AddressStr_MuxedAccount to) (\<lambda>d.
     and_then (amount_ParseInt64 am) (\<lambda>v. and_then (map_res (assetBaseToXDR C) p) (\<lambda>xp.
       Inr (OpPathPaymentStrictReceive, VPathPaymentStrictReceiveOp
         \<lparr>pr_SendAsset = xs, pr_SendMax = most, pr_Destination = d, pr_DestAsset = xd, pr_DestAmount = v, pr_Path = xp\<rparr>)))))))"
| "action_op C (CreateAccount to amt) =
     and_then (amount_ParseInt64 amt) (\<lambda>v. and_then (AddressStr_AccountID to) (\<lambda>d.
       Inr (OpCreateAccount, VCreateAccountOp \<lparr>ca_Destination = d, ca_StartingBalance = v\<rparr>)))"
| "action_op C (AccountMerge to) = and_then (AddressStr_AccountID to) (\<lambda>_. Inl (must_be ''MuxedAccount''))"
| "action_op C (InflationDestination to) =
     and_then (AddressStr_AccountID to) (\<lambda>d. Inr (OpSetOptions, VSetOptionsOp (empty_SetOptionsOp\<lparr>so_InflationDest := Some d\<rparr>)))"
| "action_op C (HomeDomain d) =
     (if 32 < length d then Inl (NewError ''domain must be less than 32 characters long'')
      else Inr (OpSetOptions, VSetOptionsOp (empty_SetOptionsOp\<lparr>so_HomeDomain := Some d\<rparr>)))"
| "action_op C (Offer s b amt p) =
     and_then (price_Parse p) (\<lambda>px. and_then (amount_ParseInt64 amt) (\<lambda>v.
       Inr (OpManageSellOffer, VManageSellOfferOp
         \<lparr>ms_Selling = s, ms_Buying = b, ms_Amount = v, ms_Price = px, ms_OfferId = 0\<rparr>)))"
| "action_op C (CreateTrustlineAction code issuer limit) =
     and_then (makeXDRChangeTrustAsset code issuer) (\<lambda>line. and_then (amount_ParseInt64 limit) (\<lambda>v.
       if sint v \<le> 0 then Inl (NewError ''limit must be greater than zero to create a trustline'')
       else Inr (OpChangeTrust, VChangeTrustOp \<lparr>ct_Line = line, ct_Limit = v\<rparr>)))"
| "action_op C (DeleteTrustlineAction code issuer) =
     and_then (makeXDRChangeTrustAsset code issuer) (\<lambda>line. Inr (OpChangeTrust, VChangeTrustOp \<lparr>ct_Line = line, ct_Limit = 0\<rparr>))"
| "action_op C _ = Inl (NewError [])"

text \<open>The memo a call stands for; \<open>None\<close> when it sets none.\<close>

fun action_memo :: "tx_action \<Rightarrow> xdr_Memo option res" where
  "action_memo (SetMemo m) = (case m of None \<Rightarrow> Inr None | Some m \<Rightarrow> and_then (Memo_toXDR m) (\<lambda>x. Inr (Some x)))"
| "action_memo (SetMemoText s) = Inr (Some (xdr_no_memo\<lparr>xm_Type := 1, xm_Text := Some s\<rparr>))"
| "action_memo (SetMemoID i) = Inr (map_option (\<lambda>n. xdr_no_memo\<lparr>xm_Type := 2, xm_Id := Some n\<rparr>) i)"
| "action_memo _ = Inr None"

text \<open>
  One call: at most 100 operations, one memo, one pair of bounds. \<open>AddMemoID(nil)\<close> is ignored
  before the check for an earlier memo, \<open>AddMemo(nil)\<close> after it.
\<close>

fun add_memo :: "xdr_Memo option res \<Rightarrow> content \<Rightarrow> content res" where
  "add_memo m c =
     (if xm_Type (c_Memo c) \<noteq> 0 then Inl ErrMemoExists
      else and_then m (\<lambda>x. Inr (case x of None \<Rightarrow> c | Some x \<Rightarrow> c\<lparr>c_Memo := x\<rparr>)))"

fun add_action :: "go_crypto \<Rightarrow> tx_action \<Rightarrow> content \<Rightarrow> content res" where
  "add_action C (SetMemo m) c = add_memo (action_memo (SetMemo m)) c"
| "add_action C (SetMemoText s) c = add_memo (action_memo (SetMemoText s)) c"
| "add_action C (SetMemoID i) c = (if i = None then Inr c else add_memo (action_memo (SetMemoID i)) c)"
| "add_action C (SetTimeBounds mn mx) c =
     (if c_TimeBounds c \<noteq> None then Inl ErrTimeBoundsExist else Inr (c\<lparr>c_TimeBounds := Some \<lparr>MinTime = mn, MaxTime = mx\<rparr>\<rparr>))"
| "add_action C a c =
     (if 100 \<le> length (c_Operations c) then Inl ErrTxOpFull
      else and_then (action_op C a) (\<lambda>w. Inr (c\<lparr>c_Operations := c_Operations c @ [w]\<rparr>)))"

fun add_actions :: "go_crypto \<Rightarrow> tx_action list \<Rightarrow> content \<Rightarrow> content res" where
  "add_actions C [] c = Inr c"
| "add_actions C (a # as) c = and_then (add_action C a c) (add_actions C as)"

section \<open>The builder implements it\<close>

definition plain_op :: "OperationType \<times> op_value \<Rightarrow> Operation" where
  "plain_op w = \<lparr>op_SourceAccount = None, op_Body = \<lparr>body_Type = fst w, body_Arm = Some (snd w)\<rparr>\<rparr>"

text \<open>A builder without an error that holds a content.\<close>

definition put :: "content \<Rightarrow> Tx \<Rightarrow> Tx" where
  "put c t = t\<lparr>internal := (internal t)\<lparr>tx_Operations := map plain_op (c_Operations c), tx_Memo := c_Memo c,
     tx_TimeBounds := c_TimeBounds c\<rparr>\<rparr>"

lemma put_fields [simp]:
  "err (put c t) = err t" "source (put c t) = source t" "netPass (put c t) = netPass t" "baseFee (put c t) = baseFee t"
  "seqnoProv (put c t) = seqnoProv t"
  "tx_Operations (internal (put c t)) = map plain_op (c_Operations c)" "tx_Memo (internal (put c t)) = c_Memo c"
  "tx_TimeBounds (internal (put c t)) = c_TimeBounds c" "IsFull (put c t) = (100 \<le> length (c_Operations c))"
  "op_count (put c t) = length (c_Operations c)" "haveMemo (put c t) = (xm_Type (c_Memo c) \<noteq> 0)"
  by (simp_all add: put_def IsFull_def op_count_def haveMemo_def)

lemma put_more:
  "addOp ty v (put c t) =
    tx_try (NewOperationBody ty v) (put c t) (\<lambda>b. put c t\<lparr>internal := (internal (put c t))\<lparr>tx_Operations :=
      map plain_op (c_Operations c) @ [\<lparr>op_SourceAccount = None, op_Body = b\<rparr>]\<rparr>\<rparr>)"
  by (simp add: addOp_def)

lemma put_added:
  "put c t\<lparr>internal := (internal (put c t))\<lparr>tx_Operations := map plain_op (c_Operations c) @
      [\<lparr>op_SourceAccount = None, op_Body = \<lparr>body_Type = ty, body_Arm = Some v\<rparr>\<rparr>]\<rparr>\<rparr> =
    put (c\<lparr>c_Operations := c_Operations c @ [(ty, v)]\<rparr>) t"
  by (simp add: put_def plain_op_def)

lemma put_memo [simp]: "set_memo m (put c t) = put (c\<lparr>c_Memo := m\<rparr>) t"
  by (simp add: put_def set_memo_def)

lemma put_bounds [simp]:
  "put c t\<lparr>internal := (internal (put c t))\<lparr>tx_TimeBounds := b\<rparr>\<rparr> = put (c\<lparr>c_TimeBounds := b\<rparr>) t"
  by (simp add: put_def)

lemma tx_try_and_then: "tx_try (and_then r f) t k = tx_try r t (\<lambda>x. tx_try (f x) t k)"
  by (cases r) simp_all

lemmas tx_try_if = if_distrib [where f = "\<lambda>r. tx_try r t k" for t k]

text \<open>One method call is one step of the specification.\<close>

lemma run_action_put:
  assumes "err t = None"
  shows "run_action C a (put c t) = tx_try (add_action C a c) (put c t) (\<lambda>c. put c t)"
  using assms
  by (cases a)
    (simp_all add: AddPaymentOp_def AddAssetPaymentOp_def AddPathPaymentOp_def AddCreateAccountOp_def
      AddAccountMergeOp_def AddInflationDestinationOp_def AddHomeDomainOp_def AddOfferOp_def AddCreateTrustlineOp_def
      AddDeleteTrustlineOp_def AddMemo_def AddMemoText_def AddMemoID_def AddTimeBounds_def skipAddOp_no_error
      skipAddMemo_no_error tx_try_and_then tx_try_if NewMemo_def go_defs
      put_more put_added cong: if_cong split: option.split)

lemma run_actions_put:
  assumes "err t = None"
  shows "case add_actions C as c of Inl e \<Rightarrow> err (run_actions C as (put c t)) = Some e
    | Inr c' \<Rightarrow> run_actions C as (put c t) = put c' t"
proof (induction as arbitrary: c)
  case (Cons a as)
  show ?case
  proof (cases "add_action C a c")
    case (Inl e)
    then have "err (run_action C a (put c t)) = Some e" by (simp add: run_action_put [OF assms])
    with builder.run_failed [OF this, of C as] Inl show ?thesis by (simp add: run_actions_builder builder.run_simps)
  next
    case (Inr c1)
    then have "run_actions C (a # as) (put c t) = run_actions C as (put c1 t)"
      by (simp add: run_action_put [OF assms] run_actions_def)
    with Cons.IH [of c1] Inr show ?thesis by (simp split: sum.splits)
  qed
qed (simp add: run_actions_def)

lemma put_new: "put no_content (NewBaseTx network src prov fee) = NewBaseTx network src prov fee"
  by (simp add: put_def no_content_def NewBaseTx_def empty_Transaction_def)

lemma run_new:
  "case add_actions C as no_content of Inl e \<Rightarrow> err (run_actions C as (NewBaseTx network src prov fee)) = Some e
    | Inr c \<Rightarrow> run_actions C as (NewBaseTx network src prov fee) = put c (NewBaseTx network src prov fee)"
  using run_actions_put [of "NewBaseTx network src prov fee" C as no_content] unfolding put_new by (simp add: NewBaseTx_def)

lemma run_new_ok:
  "err (run_actions C as (NewBaseTx network src prov fee)) = None \<longleftrightarrow> is_ok (add_actions C as no_content)"
  "add_actions C as no_content = Inr c \<Longrightarrow>
    run_actions C as (NewBaseTx network src prov fee) = put c (NewBaseTx network src prov fee)"
  using run_new [of C as network src prov fee]
  by (auto simp: is_ok_iff NewBaseTx_def split: sum.splits)

text \<open>The transaction that is signed for a content.\<close>

definition built_tx :: "content \<Rightarrow> uint64 \<Rightarrow> int64 \<Rightarrow> MuxedAccount \<Rightarrow> xdr_Transaction" where
  "built_tx c fee seqno account =
     \<lparr>tx_SourceAccount = Some account, tx_Fee = ucast (max MinBaseFee fee * word_of_nat (length (c_Operations c))),
      tx_SeqNum = seqno + 1, tx_TimeBounds = c_TimeBounds c, tx_Memo = c_Memo c, tx_Operations = map plain_op (c_Operations c)\<rparr>"

lemma signed_put:
  "signed_tx (put c (NewBaseTx network src prov fee)\<lparr>seqnoProv := p\<rparr>) seqno account = built_tx c fee seqno account"
  by (auto simp: signed_tx_def built_tx_def put_def NewBaseTx_def empty_Transaction_def op_count_def max_def)

lemma one_built:
  "length (c_Operations c) = 1 \<Longrightarrow> tx_Fee (built_tx c fee seqno account) = ucast (max MinBaseFee fee)"
  by (simp add: built_tx_def)

lemma signed_built:
  "fst (Sign C from (put c (NewBaseTx network src prov fee))) =
     (if c_Operations c = [] then Inl ErrNoOps
      else and_then (prov src) (\<lambda>seqno. and_then (AddressStr_MuxedAccount src) (\<lambda>account.
        sign_finish C network (built_tx c fee seqno account) [from])))"
  by (auto simp: Sign_def tx_sign_def Let_def put_def NewBaseTx_def empty_Transaction_def built_tx_def max_def and_then_def
      split: sum.splits)

section \<open>Properties\<close>

text \<open>
  C4. The builder implements its specification: after any sequence of method calls it
  reports the first error of the specification and nothing else, or it has no error and
  holds exactly the operations, the memo and the bounds the calls stand for, in the order of
  the calls (a second memo and second bounds are errors). \<open>Sign\<close> then reports that error, or that
  there are no operations, or asks for the sequence number of the source and signs exactly the
  transaction of that content: from the source account, with the next number and the base
  fee for each operation.
\<close>

theorem builder_refines:
  "case add_actions C as no_content of
     Inl e \<Rightarrow> err (run_actions C as (NewBaseTx network src prov fee)) = Some e \<and>
       fst (Sign C from (run_actions C as (NewBaseTx network src prov fee))) = Inl (errMap e)
   | Inr c \<Rightarrow> err (run_actions C as (NewBaseTx network src prov fee)) = None \<and>
       internal (run_actions C as (NewBaseTx network src prov fee)) = empty_Transaction
         \<lparr>tx_Operations := map plain_op (c_Operations c), tx_Memo := c_Memo c, tx_TimeBounds := c_TimeBounds c\<rparr> \<and>
       fst (Sign C from (run_actions C as (NewBaseTx network src prov fee))) =
         (if c_Operations c = [] then Inl ErrNoOps
          else and_then (prov src) (\<lambda>seqno. and_then (AddressStr_MuxedAccount src) (\<lambda>account.
            sign_finish C network (built_tx c fee seqno account) [from])))"
proof (cases "add_actions C as no_content")
  case (Inl e)
  then have "err (run_actions C as (NewBaseTx network src prov fee)) = Some e"
    using run_new [of C as network src prov fee] by simp
  with Inl show ?thesis by (simp add: Sign_def)
next
  case (Inr c)
  have "internal (put c (NewBaseTx network src prov fee)) = empty_Transaction
      \<lparr>tx_Operations := map plain_op (c_Operations c), tx_Memo := c_Memo c, tx_TimeBounds := c_TimeBounds c\<rparr>"
    "err (put c (NewBaseTx network src prov fee)) = None"
    by (simp_all add: put_def NewBaseTx_def)
  with Inr show ?thesis by (simp add: run_new_ok(2) [OF Inr] signed_built)
qed

end
