(* ===== verification/Flows.thy ===== *)
theory Flows
  imports Payments Tx_Spec
begin

text \<open>
  What each transaction function of \<open>account.go\<close> signs. The functions are told apart by the
  method calls they make on a fresh builder; the specification of the builder gives the
  operation, the memo and the bounds those calls stand for, and signing gives the text.
\<close>

section \<open>A fresh builder, some calls, a signature\<close>

definition build_and_sign ::
  "'w client \<Rightarrow> SeedStr \<Rightarrow> tx_action list \<Rightarrow> 'w provider \<Rightarrow> uint64 \<Rightarrow> ('w, SignResult) op" where
  "build_and_sign E from as P fee =
     op_bind (op_lift (base_tx E from fee)) (\<lambda>t. sign_in E P from (run_actions (cl_crypto E) as t))"

fun bounds_calls :: "(int64 \<times> int64) option \<Rightarrow> tx_action list" where
  "bounds_calls None = []"
| "bounds_calls (Some (mn, mx)) = [SetTimeBounds mn mx]"

lemma bounds_calls_run: "run_actions C (bounds_calls tb) t = AddBuiltTimeBounds tb t"
  by (cases "(tb, C)" rule: prod.exhaust; cases tb) (auto simp: AddBuiltTimeBounds_def run_actions_def)

lemma run_calls:
  "run_actions C (a # as) t = run_actions C as (run_action C a t)" "run_actions C [] t = t"
  by (simp_all add: run_actions_def)

text \<open>The transaction functions by their arguments.\<close>

datatype flow =
    FlowPaymentXLM AddressStr string Memo "(int64 \<times> int64) option"
  | FlowPayment AddressStr AssetBase string string "(int64 \<times> int64) option"
  | FlowPathPayment AddressStr AssetBase string AssetBase string "AssetBase list" Memo "(int64 \<times> int64) option"
  | FlowCreateAccount AddressStr string Memo "(int64 \<times> int64) option"
  | FlowInflation AddressStr "(int64 \<times> int64) option"
  | FlowHomeDomain string "(int64 \<times> int64) option"
  | FlowOffer xdr_Asset xdr_Asset string string "(int64 \<times> int64) option"
  | FlowCreateTrustline string AddressStr string
  | FlowDeleteTrustline string AddressStr

fun run_flow :: "'w client \<Rightarrow> SeedStr \<Rightarrow> flow \<Rightarrow> 'w provider \<Rightarrow> uint64 \<Rightarrow> ('w, SignResult) op" where
  "run_flow E from (FlowPaymentXLM to amount memo tb) P fee = PaymentXLMTransactionWithMemo E from to amount (Some memo) P tb fee"
| "run_flow E from (FlowPayment to asset amount txt tb) P fee = PaymentTransaction E from to asset amount txt P tb fee"
| "run_flow E from (FlowPathPayment to sa sm da am p memo tb) P fee =
     PathPaymentTransactionWithMemo E from to sa sm da am p (Some memo) P tb fee"
| "run_flow E from (FlowCreateAccount to amount memo tb) P fee = CreateAccountXLMTransactionWithMemo E from to amount (Some memo) P tb fee"
| "run_flow E from (FlowInflation to tb) P fee = SetInflationDestinationTransaction E from to P tb fee"
| "run_flow E from (FlowHomeDomain d tb) P fee = SetHomeDomainTransaction E from d P tb fee"
| "run_flow E from (FlowOffer s b amt p tb) P fee = MakeOfferTransaction E from s b amt p P tb fee"
| "run_flow E from (FlowCreateTrustline c i l) P fee = CreateTrustlineTransaction E from c i l P None fee"
| "run_flow E from (FlowDeleteTrustline c i) P fee = DeleteTrustlineTransaction E from c i P None fee"

text \<open>The same function as calls on the builder; an asset payment converts its asset first.\<close>

fun flow_calls :: "go_crypto \<Rightarrow> flow \<Rightarrow> tx_action list res" where
  "flow_calls C (FlowPaymentXLM to amount memo tb) = Inr (Payment to amount # SetMemo (Some memo) # bounds_calls tb)"
| "flow_calls C (FlowPayment to asset amount txt tb) =
     and_then (assetBaseToXDR C asset) (\<lambda>x. Inr (AssetPayment to x amount # SetMemoText txt # bounds_calls tb))"
| "flow_calls C (FlowPathPayment to sa sm da am p memo tb) =
     Inr (PathPayment to sa sm da am p # SetMemo (Some memo) # bounds_calls tb)"
| "flow_calls C (FlowCreateAccount to amount memo tb) = Inr (CreateAccount to amount # SetMemo (Some memo) # bounds_calls tb)"
| "flow_calls C (FlowInflation to tb) = Inr (InflationDestination to # bounds_calls tb)"
| "flow_calls C (FlowHomeDomain d tb) = Inr (HomeDomain d # bounds_calls tb)"
| "flow_calls C (FlowOffer s b amt p tb) = Inr (Offer s b amt p # bounds_calls tb)"
| "flow_calls C (FlowCreateTrustline c i l) = Inr [CreateTrustlineAction c i l]"
| "flow_calls C (FlowDeleteTrustline c i) = Inr [DeleteTrustlineAction c i]"

lemma run_flow_calls:
  "run_flow E from f P fee =
    op_bind (op_lift (base_tx E from fee)) (\<lambda>t. op_bind (op_lift (flow_calls (cl_crypto E) f)) (\<lambda>as.
      sign_in E P from (run_actions (cl_crypto E) as t)))"
  by (cases f)
    (simp_all add: fun_eq_iff op_bind_def PaymentXLMTransactionWithMemo_def PaymentTransaction_def PathPaymentTransactionWithMemo_def
      CreateAccountXLMTransactionWithMemo_def SetInflationDestinationTransaction_def SetHomeDomainTransaction_def
      MakeOfferTransaction_def CreateTrustlineTransaction_def DeleteTrustlineTransaction_def bounds_calls_run run_calls Let_def
      and_then_def split: sum.split)

section \<open>The specification of a flow\<close>

text \<open>What a flow is to sign: one operation, the memo (none unless it takes one), the bounds.\<close>

fun flow_op :: "go_crypto \<Rightarrow> flow \<Rightarrow> (OperationType \<times> op_value) res" where
  "flow_op C (FlowPaymentXLM to amount memo tb) = action_op C (Payment to amount)"
| "flow_op C (FlowPayment to asset amount txt tb) =
     and_then (assetBaseToXDR C asset) (\<lambda>x. action_op C (AssetPayment to x amount))"
| "flow_op C (FlowPathPayment to sa sm da am p memo tb) = action_op C (PathPayment to sa sm da am p)"
| "flow_op C (FlowCreateAccount to amount memo tb) = action_op C (CreateAccount to amount)"
| "flow_op C (FlowInflation to tb) = action_op C (InflationDestination to)"
| "flow_op C (FlowHomeDomain d tb) = action_op C (HomeDomain d)"
| "flow_op C (FlowOffer s b amt p tb) = action_op C (Offer s b amt p)"
| "flow_op C (FlowCreateTrustline c i l) = action_op C (CreateTrustlineAction c i l)"
| "flow_op C (FlowDeleteTrustline c i) = action_op C (DeleteTrustlineAction c i)"

fun flow_memo :: "flow \<Rightarrow> xdr_Memo res" where
  "flow_memo (FlowPaymentXLM to amount memo tb) = Memo_toXDR memo"
| "flow_memo (FlowPayment to asset amount txt tb) = Inr (xdr_no_memo\<lparr>xm_Type := 1, xm_Text := Some txt\<rparr>)"
| "flow_memo (FlowPathPayment to sa sm da am p memo tb) = Memo_toXDR memo"
| "flow_memo (FlowCreateAccount to amount memo tb) = Memo_toXDR memo"
| "flow_memo _ = Inr xdr_no_memo"

fun flow_bounds :: "flow \<Rightarrow> (int64 \<times> int64) option" where
  "flow_bounds (FlowPaymentXLM to amount memo tb) = tb"
| "flow_bounds (FlowPayment to asset amount txt tb) = tb"
| "flow_bounds (FlowPathPayment to sa sm da am p memo tb) = tb"
| "flow_bounds (FlowCreateAccount to amount memo tb) = tb"
| "flow_bounds (FlowInflation to tb) = tb"
| "flow_bounds (FlowHomeDomain d tb) = tb"
| "flow_bounds (FlowOffer s b amt p tb) = tb"
| "flow_bounds _ = None"

text \<open>The limits of the schema that the functions leave to their callers.\<close>

fun wt_flow :: "flow \<Rightarrow> bool" where
  "wt_flow (FlowPaymentXLM to amount memo tb) \<longleftrightarrow> wt_package_memo memo"
| "wt_flow (FlowPayment to asset amount txt tb) \<longleftrightarrow> length txt \<le> 28"
| "wt_flow (FlowPathPayment to sa sm da am p memo tb) \<longleftrightarrow> length p \<le> 5 \<and> wt_package_memo memo"
| "wt_flow (FlowCreateAccount to amount memo tb) \<longleftrightarrow> wt_package_memo memo"
| "wt_flow (FlowOffer s b amt p tb) \<longleftrightarrow> wt_Asset s \<and> wt_Asset b"
| "wt_flow _ \<longleftrightarrow> True"

definition flow_content :: "(OperationType \<times> op_value) \<Rightarrow> xdr_Memo \<Rightarrow> (int64 \<times> int64) option \<Rightarrow> content" where
  "flow_content w m tb = \<lparr>c_Operations = [w], c_Memo = m, c_TimeBounds = map_option (\<lambda>(mn, mx). \<lparr>MinTime = mn, MaxTime = mx\<rparr>) tb\<rparr>"

lemma add_bounds: "c_TimeBounds c = None \<Longrightarrow>
    add_actions C (bounds_calls tb) c = Inr (c\<lparr>c_TimeBounds := map_option (\<lambda>(mn, mx). \<lparr>MinTime = mn, MaxTime = mx\<rparr>) tb\<rparr>)"
  by (cases tb) (cases c, auto)

lemma add_tail:
  assumes "c_TimeBounds c = None"
  shows "add_actions C (a # bounds_calls tb) c = Inr c' \<longleftrightarrow>
    (\<exists>c1. add_action C a c = Inr c1 \<and> add_actions C (bounds_calls tb) c1 = Inr c')"
  by (simp add: and_then_eq_Inr)

lemma one_op_added:
  "is_op_action a \<Longrightarrow> add_action C a no_content = and_then (action_op C a) (\<lambda>w. Inr (no_content\<lparr>c_Operations := [w]\<rparr>))"
  by (cases a) (simp_all add: no_content_def)

lemma memo_added:
  "add_action C (SetMemo (Some m)) (no_content\<lparr>c_Operations := ws\<rparr>) =
    and_then (Memo_toXDR m) (\<lambda>x. Inr (no_content\<lparr>c_Operations := ws, c_Memo := x\<rparr>))"
  "add_action C (SetMemoText s) (no_content\<lparr>c_Operations := ws\<rparr>) =
    Inr (no_content\<lparr>c_Operations := ws, c_Memo := xdr_no_memo\<lparr>xm_Type := 1, xm_Text := Some s\<rparr>\<rparr>)"
  by (simp_all add: no_content_def xdr_no_memo_def and_then_assoc cong: and_then_cong)

lemma bounds_added:
  "add_actions C (bounds_calls tb) (no_content\<lparr>c_Operations := [w]\<rparr>) = Inr (flow_content w xdr_no_memo tb)"
  "add_actions C (bounds_calls tb) (no_content\<lparr>c_Operations := [w], c_Memo := m\<rparr>) = Inr (flow_content w m tb)"
  "no_content\<lparr>c_Operations := [w]\<rparr> = flow_content w xdr_no_memo None" 
  by (simp_all add: no_content_def flow_content_def add_bounds)

lemma flow_adds:
  "and_then (flow_calls C f) (\<lambda>as. add_actions C as no_content) =
    and_then (flow_op C f) (\<lambda>w. and_then (flow_memo f) (\<lambda>m. Inr (flow_content w m (flow_bounds f))))"
  by (cases f)
    (simp_all add: one_op_added memo_added bounds_added(1,2) and_then_assoc del: add_action.simps action_op.simps,
      simp_all only: bounds_added(3))

section \<open>Signing what was built\<close>

lemma built_one_op: "built_tx (flow_content (ty, v) m tb) fee seqno account = one_op_tx ty v m tb fee seqno account"
  by (simp add: built_tx_def flow_content_def one_op_tx_def plain_op_def)

lemma sign_in_put:
  "sign_in E P from (put c (NewBaseTx (cl_network E) a unasked fee)) w = (Inr r, w') \<longleftrightarrow>
    c_Operations c \<noteq> [] \<and> (\<exists>seqno. P a w = (Inr seqno, w') \<and>
      fst (Sign (cl_crypto E) from (put c (NewBaseTx (cl_network E) a unasked fee)\<lparr>seqnoProv := \<lambda>_. Inr seqno\<rparr>)) = Inr r)"
  by (auto simp: sign_in_eq_Inr NewBaseTx_def put_def op_count_def)

lemma signed_content:
  assumes "crypto_ok (cl_crypto E)" "list_all wt_action as" "SeedStr_Address (cl_crypto E) from = Inr a"
    and "sign_in E P from (run_actions (cl_crypto E) as (NewBaseTx (cl_network E) a unasked fee)) w = (Inr r, w')"
  shows "\<exists>c seqno account. add_actions (cl_crypto E) as no_content = Inr c \<and> P a w = (Inr seqno, w') \<and>
    AddressStr_MuxedAccount a = Inr account \<and> holds_tx E (sr_Signed r) (built_tx c fee seqno account)"
proof -
  let ?t = "NewBaseTx (cl_network E) a unasked fee"
  have "err (run_actions (cl_crypto E) as ?t) = None" using assms(4) by (simp add: sign_in_eq_Inr)
  then obtain c where c: "add_actions (cl_crypto E) as no_content = Inr c" "run_actions (cl_crypto E) as ?t = put c ?t"
    using run_new_ok by (metis is_ok_iff)
  have wt: "wt_builder (put c ?t)" using wt_builder_actions [OF wt_builder_new assms(2), of "cl_crypto E" "cl_network E" a unasked fee] c(2) by simp
  obtain seqno where s: "P a w = (Inr seqno, w')"
    "fst (Sign (cl_crypto E) from (put c ?t\<lparr>seqnoProv := \<lambda>_. Inr seqno\<rparr>)) = Inr r"
    using assms(4) unfolding c(2) sign_in_put by blast
  have f: "source ?t = a" "netPass ?t = cl_network E" by (simp_all add: NewBaseTx_def)
  from signed_envelope [OF assms(1) _ _ s(2)] wt assms(3) c(1) s(1) show ?thesis
    unfolding holds_tx_def by (simp add: f signed_put)
qed

lemma signs_content:
  assumes "crypto_ok (cl_crypto E)" "list_all wt_action as" "is_ok (NewSeedStr (cl_crypto E) from)"
    and "SeedStr_Address (cl_crypto E) from = Inr a" "TrimSpace (cl_network E) \<noteq> []"
    and "add_actions (cl_crypto E) as no_content = Inr c" "c_Operations c \<noteq> []" "P a w = (Inr seqno, w')"
  shows "\<exists>r. sign_in E P from (run_actions (cl_crypto E) as (NewBaseTx (cl_network E) a unasked fee)) w = (Inr r, w') \<and>
    sr_Seqno r = seqno + 1"
proof -
  let ?t = "NewBaseTx (cl_network E) a unasked fee"
  note c = run_new_ok(2) [OF assms(6), of "cl_network E" a unasked fee]
  have wt: "wt_builder (put c ?t)" using wt_builder_actions [OF wt_builder_new assms(2), of "cl_crypto E" "cl_network E" a unasked fee] c by simp
  obtain s where s: "NewSeedStr (cl_crypto E) from = Inr s" using assms(3) by (auto simp: is_ok_iff)
  obtain pub where pub: "AddressStr_MuxedAccount a = Inr (KeyTypeEd25519 pub)" using seed_account [OF assms(1) s assms(4)] by blast
  have f: "source ?t = a" "netPass ?t = cl_network E" "err ?t = None" by (simp_all add: NewBaseTx_def)
  have "op_count (put c ?t\<lparr>seqnoProv := \<lambda>_. Inr seqno\<rparr>) \<noteq> 0" using assms(7) by (simp add: op_count_def)
  then show ?thesis
    using Sign_ok [OF assms(1) _ _ _ _ s, of "put c ?t\<lparr>seqnoProv := \<lambda>_. Inr seqno\<rparr>" seqno] wt pub assms(5,7,8)
    unfolding c sign_in_put by (auto simp: f)
qed

lemma flow_calls_wt: "wt_flow f \<Longrightarrow> flow_calls C f = Inr as \<Longrightarrow> list_all wt_action as"
proof -
  have b: "list_all wt_action (bounds_calls tb)" for tb by (cases tb) auto
  show "wt_flow f \<Longrightarrow> flow_calls C f = Inr as \<Longrightarrow> list_all wt_action as"
    by (cases f) (auto simp: b and_then_eq_Inr assetBaseToXDR_wt)
qed

lemma flow_adds_Inr:
  "flow_calls C f = Inr as \<Longrightarrow> add_actions C as no_content = Inr c \<longleftrightarrow>
    (\<exists>op m. flow_op C f = Inr op \<and> flow_memo f = Inr m \<and> c = flow_content op m (flow_bounds f))"
  using flow_adds [of C f] by (auto simp: and_then_eq_Inr)

lemma run_flow_Inr:
  "run_flow E from f P fee w = (Inr r, w') \<longleftrightarrow>
    (\<exists>a as. SeedStr_Address (cl_crypto E) from = Inr a \<and> flow_calls (cl_crypto E) f = Inr as \<and>
      sign_in E P from (run_actions (cl_crypto E) as (NewBaseTx (cl_network E) a unasked fee)) w = (Inr r, w'))"
  by (auto simp: run_flow_calls op_bind_eq_Inr base_tx_eq_Inr)

lemma flow_returned:
  assumes "crypto_ok (cl_crypto E)" and "wt_flow f" and "is_ok (NewSeedStr (cl_crypto E) from)"
    and "SeedStr_Address (cl_crypto E) from = Inr a" and "TrimSpace (cl_network E) \<noteq> []"
    and "flow_op (cl_crypto E) f = Inr op" and "flow_memo f = Inr m" and "P a w = (Inr seqno, w')"
  shows "\<exists>r. run_flow E from f P fee w = (Inr r, w') \<and> sr_Seqno r = seqno + 1"
proof -
  obtain as where as: "flow_calls (cl_crypto E) f = Inr as"
    using assms(6) by (cases f) (auto simp: and_then_eq_Inr)
  have "add_actions (cl_crypto E) as no_content = Inr (flow_content op m (flow_bounds f))"
    unfolding flow_adds_Inr [OF as] using assms(6,7) by blast
  from signs_content [where P = P, OF assms(1) flow_calls_wt [OF assms(2) as] assms(3-5) this _ assms(8)] as assms(4)
  show ?thesis unfolding run_flow_Inr by (auto simp: flow_content_def)
qed

lemma sign_in_failed: "err t \<noteq> None \<Longrightarrow> \<exists>e. sign_in E P from t w = (Inl e, w)"
  by (auto simp: sign_in_error)

definition demo_native :: AssetBase where
  "demo_native = Minimal \<lparr>AssetType = ''native'', AssetCode = [], AssetIssuer = []\<rparr>"

lemma demo_native_xdr: "assetBaseToXDR C demo_native = Inr xdr_native"
  by (simp add: assetBaseToXDR_def demo_native_def NewAsset_def xdr_native_def)

text \<open>A home domain, set by the demonstration key.\<close>

lemma demo_flow:
  "\<exists>r. run_flow demo_client demo_seed (FlowHomeDomain ''keybase.io'' (Some (5, 9))) (Client demo_client) 100 0 = (Inr r, 0) \<and> sr_Seqno r = 8"
  using flow_returned [OF demo_client_fields(3), of "FlowHomeDomain ''keybase.io'' (Some (5, 9))" demo_seed _ _ _ "Client demo_client" 0 7 0]
  by (simp add: demo_seed_ok demo_Address TrimSpace_net demo_seqno)

lemma flow_signed:
  assumes "crypto_ok (cl_crypto E)" and "wt_flow f" and "run_flow E from f P fee w = (Inr r, w')"
  shows "\<exists>a account seqno ty v m. SeedStr_Address (cl_crypto E) from = Inr a \<and> AddressStr_MuxedAccount a = Inr account \<and>
    P a w = (Inr seqno, w') \<and> flow_op (cl_crypto E) f = Inr (ty, v) \<and> flow_memo f = Inr m \<and>
    holds_tx E (sr_Signed r) (one_op_tx ty v m (flow_bounds f) fee seqno account)"
proof -
  obtain a as where a: "SeedStr_Address (cl_crypto E) from = Inr a" "flow_calls (cl_crypto E) f = Inr as"
    "sign_in E P from (run_actions (cl_crypto E) as (NewBaseTx (cl_network E) a unasked fee)) w = (Inr r, w')"
    using assms(3) unfolding run_flow_Inr by blast
  from signed_content [OF assms(1) flow_calls_wt [OF assms(2) a(2)] a(1,3)] a(1)
  show ?thesis unfolding flow_adds_Inr [OF a(2)] by (auto simp: built_one_op)
qed

section \<open>Properties\<close>

text \<open>
  C1. What every transaction function signs: the text of a transaction of the seed's account
  with the next sequence number, the base fee raised to the minimum, the memo and bounds it
  was given, and exactly one operation, the one its arguments parse to; every reader of the
  text gets that transaction, and the package's own verification accepts its signature. The
  provider was asked once.
\<close>

theorem flow_signs:
  assumes "crypto_ok (cl_crypto E)" and "wt_flow f" and "run_flow E from f P fee w = (Inr r, w')"
  shows "\<exists>a account seqno ty v m. SeedStr_Address (cl_crypto E) from = Inr a \<and> AddressStr_MuxedAccount a = Inr account \<and>
    P a w = (Inr seqno, w') \<and> flow_op (cl_crypto E) f = Inr (ty, v) \<and> flow_memo f = Inr m \<and>
    holds_tx E (sr_Signed r) (one_op_tx ty v m (flow_bounds f) fee seqno account)"
  by (rule flow_signed [OF assms])

theorem flow_signs_witness:
  "\<exists>txt. holds_tx demo_client txt (one_op_tx OpSetOptions (VSetOptionsOp (empty_SetOptionsOp\<lparr>so_HomeDomain := Some ''keybase.io''\<rparr>))
     xdr_no_memo (Some (5, 9)) 100 7 (KeyTypeEd25519 demo_pub))"
proof -
  obtain r where "run_flow demo_client demo_seed (FlowHomeDomain ''keybase.io'' (Some (5, 9))) (Client demo_client) 100 0 = (Inr r, 0)"
    using demo_flow by blast
  from flow_signs [OF demo_client_fields(3) _ this] show ?thesis
    by (auto simp: demo_Address demo_account demo_seqno)
qed

text \<open>
  C2. Every transaction function signs: a seed, a passphrase that is not blank, arguments
  that parse and are within the limits, and a provider that answers: a result is returned,
  with the next sequence number, and nothing but the provider was asked.
\<close>

theorem flow_returns:
  assumes "crypto_ok (cl_crypto E)" and "wt_flow f" and "is_ok (NewSeedStr (cl_crypto E) from)"
    and "SeedStr_Address (cl_crypto E) from = Inr a" and "TrimSpace (cl_network E) \<noteq> []"
    and "flow_op (cl_crypto E) f = Inr op" and "flow_memo f = Inr m" and "P a w = (Inr seqno, w')"
  shows "\<exists>r. run_flow E from f P fee w = (Inr r, w') \<and> sr_Seqno r = seqno + 1"
  by (rule flow_returned [where P = P, OF assms])

theorem flow_returns_witness:
  "\<exists>r. run_flow demo_client demo_seed (FlowPathPayment (address_of demo_pub) demo_native ''5'' demo_native ''5'' [demo_native] (NewMemoText ''hi'') None)
      (Client demo_client) 100 0 = (Inr r, 0) \<and> sr_Seqno r = 8"
  using flow_returns [OF demo_client_fields(3), of "FlowPathPayment (address_of demo_pub) demo_native ''5'' demo_native ''5'' [demo_native]
      (NewMemoText ''hi'') None" demo_seed _ _ _ "Client demo_client" 0 7 0]
  by (simp add: demo_seed_ok demo_Address TrimSpace_net demo_seqno demo_amount demo_account demo_to_memo demo_memo_wt demo_native_xdr)

text \<open>
  Arguments that do not parse are refused before anything is asked of the server: no
  provider is called, nothing is signed, and the state of the world is as it was.
\<close>

theorem flow_refused:
  assumes "\<not> (is_ok (flow_op (cl_crypto E) f) \<and> is_ok (flow_memo f))"
  shows "\<exists>e. run_flow E from f P fee w = (Inl e, w)"
proof (cases "base_tx E from fee")
  case (Inr t)
  show ?thesis
  proof (cases "flow_calls (cl_crypto E) f")
    case calls: (Inr as)
    have "\<not> is_ok (add_actions (cl_crypto E) as no_content)"
      using assms unfolding is_ok_iff flow_adds_Inr [OF calls] by blast
    then have "err (run_actions (cl_crypto E) as t) \<noteq> None"
      using Inr run_new_ok(1) [of "cl_crypto E" as] by (auto simp: base_tx_eq_Inr)
    from sign_in_failed [OF this] show ?thesis by (simp add: run_flow_calls Inr calls)
  qed (simp add: run_flow_calls Inr)
qed (simp add: run_flow_calls)

theorem flow_refused_witness:
  "\<exists>e. run_flow demo_client demo_seed (FlowHomeDomain (replicate 33 CHR ''a'') None) (Client demo_client) 100 0 = (Inl e, 0)"
  by (rule flow_refused) simp

end
