(* ===== verification/Go_Decimal.thy ===== *)
theory Go_Decimal
  imports Go_Rat Go_Url
begin

text \<open>
  The vendored \<open>shopspring/decimal\<close>, as far as the formatting of amounts uses it: a decimal
  is an integer and a power of ten, and is read, rescaled, truncated, rounded and printed
  as the package does it. The facts say what this is on numbers: rounding is half away
  from zero, truncation towards zero, and a value that becomes zero loses its sign.
\<close>

section \<open>Decimals\<close>

record Decimal =
  dec_value :: int
  dec_exp :: int

text \<open>\<open>big.Int.SetString(s, 10)\<close>, and \<open>big.Int.Quo\<close>, which truncates.\<close>

definition big_SetString :: "string \<Rightarrow> int option" where
  "big_SetString s =
     (let (neg, t) = split_sign s in
      if t \<noteq> [] \<and> list_all is_digit t then Some (if neg then - int (digits_val t) else int (digits_val t)) else None)"

definition big_Quo :: "int \<Rightarrow> int \<Rightarrow> int" where
  "big_Quo a b = (if a < 0 then - (- a div b) else a div b)"

definition trim_right :: "char \<Rightarrow> string \<Rightarrow> string" where
  "trim_right c s = rev (dropWhile (\<lambda>d. d = c) (rev s))"

definition cant_convert :: "string \<Rightarrow> string \<Rightarrow> go_error" where
  "cant_convert value why = Errorf (''can't convert %s to decimal'' @ why) [AStr value]"

text \<open>The exponent of scientific notation and the text before it.\<close>

definition decimal_exponent :: "string \<Rightarrow> (string \<times> int) res" where
  "decimal_exponent value =
     (case dropWhile (\<lambda>c. c \<noteq> CHR ''E'' \<and> c \<noteq> CHR ''e'') value of
        [] \<Rightarrow> Inr (value, 0)
      | _ # e \<Rightarrow>
          (case parse_int 32 e of
             Inl err \<Rightarrow>
               Inl (cant_convert value
                 (if err = Errorf ''strconv.ParseInt: parsing %q: value out of range'' [AStr e]
                  then '': fractional part too long'' else '': exponent is not numeric''))
           | Inr expInt \<Rightarrow> Inr (takeWhile (\<lambda>c. c \<noteq> CHR ''E'' \<and> c \<noteq> CHR ''e'') value, expInt)))"

text \<open>The digits and the exponent they add, after the split at the points.\<close>

definition decimal_parts :: "string \<Rightarrow> (string \<times> int) res" where
  "decimal_parts value =
     (case split_sep (\<lambda>c. c = CHR ''.'') value of
        [whole] \<Rightarrow> Inr (whole, 0)
      | [whole, fraction] \<Rightarrow>
          let decimalPart = trim_right CHR ''0'' fraction; intString = whole @ decimalPart in
          Inr (if intString = [] \<and> fraction \<noteq> [] then ''0'' else intString, - int (length decimalPart))
      | _ \<Rightarrow> Inl (cant_convert value '': too many .s''))"

definition NewFromString :: "string \<Rightarrow> Decimal res" where
  "NewFromString originalInput =
     and_then (decimal_exponent originalInput) (\<lambda>(value, exp0).
     and_then (decimal_parts value) (\<lambda>(intString, expInt).
       case big_SetString intString of
         None \<Rightarrow> Inl (cant_convert value '''')
       | Some dValue \<Rightarrow>
           let e = exp0 + expInt in
           if e < - 2147483648 \<or> 2147483647 < e then Inl (cant_convert originalInput '': fractional part too long'')
           else Inr \<lparr>dec_value = dValue, dec_exp = e\<rparr>))"

definition rescale :: "Decimal \<Rightarrow> int \<Rightarrow> Decimal" where
  "rescale d e =
     (let expScale = 10 ^ nat \<bar>e - dec_exp d\<bar> in
      \<lparr>dec_value = (if dec_exp d < e then big_Quo (dec_value d) expScale
                    else if e < dec_exp d then dec_value d * expScale else dec_value d),
       dec_exp = e\<rparr>)"

definition decimal_Truncate :: "Decimal \<Rightarrow> int \<Rightarrow> Decimal" where
  "decimal_Truncate d precision = (if 0 \<le> precision \<and> dec_exp d < - precision then rescale d (- precision) else d)"

definition decimal_Round :: "Decimal \<Rightarrow> int \<Rightarrow> Decimal" where
  "decimal_Round d places =
     (let ret = rescale d (- places - 1);
          v = (if dec_value ret < 0 then dec_value ret - 5 else dec_value ret + 5);
          q = v div 10; m = v mod 10
      in \<lparr>dec_value = (if q < 0 \<and> m \<noteq> 0 then q + 1 else q), dec_exp = dec_exp ret + 1\<rparr>)"

definition decimal_string :: "bool \<Rightarrow> Decimal \<Rightarrow> string" where
  "decimal_string trimTrailingZeros d =
     (if 0 \<le> dec_exp d then show_int (dec_value (rescale d 0))
      else
        let str = show_nat (nat \<bar>dec_value d\<bar>); places = nat (- dec_exp d);
            intPart = (if places < length str then take (length str - places) str else ''0'');
            digits = (if places < length str then drop (length str - places) str
                      else replicate (places - length str) CHR ''0'' @ str);
            fractionalPart = (if trimTrailingZeros then trim_right CHR ''0'' digits else digits);
            number = (if fractionalPart = [] then intPart else intPart @ CHR ''.'' # fractionalPart)
        in if dec_value d < 0 then CHR ''-'' # number else number)"

definition StringFixed :: "Decimal \<Rightarrow> int \<Rightarrow> string" where
  "StringFixed d places = decimal_string False (decimal_Round d places)"

section \<open>Arithmetic\<close>

text \<open>The decimal of a sign, a magnitude and a number of places.\<close>

definition signed_nat :: "bool \<Rightarrow> nat \<Rightarrow> int" where
  "signed_nat neg n = (if neg then - int n else int n)"

definition dec :: "bool \<Rightarrow> nat \<Rightarrow> nat \<Rightarrow> Decimal" where
  "dec neg n places = \<lparr>dec_value = signed_nat neg n, dec_exp = - int places\<rparr>"

lemma dec_sel [simp]: "dec_value (dec neg n k) = signed_nat neg n" "dec_exp (dec neg n k) = - int k"
  by (simp_all add: dec_def)

lemma big_Quo_signed: "big_Quo (signed_nat neg a) (int b) = signed_nat neg (a div b)"
  by (simp add: big_Quo_def signed_nat_def zdiv_int)

lemma power_diff_div: "e \<le> k \<Longrightarrow> a * 10 ^ e div 10 ^ k = a div (10::nat) ^ (k - e)"
proof -
  assume "e \<le> k"
  then have "(10::nat) ^ k = 10 ^ e * 10 ^ (k - e)" by (simp flip: power_add)
  then show ?thesis by (simp add: mult.commute [of a])
qed

lemma power_diff_mult: "k \<le> e \<Longrightarrow> a * 10 ^ e div 10 ^ k = a * (10::nat) ^ (e - k)"
proof -
  assume "k \<le> e"
  then have "(10::nat) ^ e = 10 ^ k * 10 ^ (e - k)" by (simp flip: power_add)
  then show ?thesis by (simp add: mult.left_commute [of a])
qed

lemma rescale_dec: "rescale (dec neg a k) (- int e) = dec neg (a * 10 ^ e div 10 ^ k) e"
proof (cases "e < k")
  case True
  then have "nat \<bar>- int e - - int k\<bar> = k - e" by simp
  with True power_diff_div [of e k a] big_Quo_signed [of neg a "10 ^ (k - e)"] show ?thesis
    by (simp add: rescale_def Let_def dec_def)
next
  case False
  then have "nat \<bar>- int e - - int k\<bar> = e - k" by simp
  with False power_diff_mult [of k e a] show ?thesis
    by (auto simp: rescale_def Let_def dec_def signed_nat_def)
qed

lemma nested_rounding:
  assumes "0 < b"
  shows "(a * 10 div b + 5) div 10 = round_half_up a b"
proof -
  have "(a * 10 div b + 5) div 10 = (a * 10 + 5 * b) div b div 10"
    using assms by simp
  also have "\<dots> = (a * 10 + 5 * b) div (b * 10)" by (rule div_mult2_eq [symmetric])
  also have "\<dots> = (5 * (2 * a + b)) div (5 * (2 * b))" by (simp add: algebra_simps)
  also have "\<dots> = round_half_up a b" unfolding round_half_up_def by (rule div_mult_mult1) simp
  finally show ?thesis .
qed

lemma round_step:
  "(let v = (if signed_nat neg n < 0 then signed_nat neg n - 5 else signed_nat neg n + 5); q = v div 10; m = v mod 10
    in if q < 0 \<and> m \<noteq> 0 then q + 1 else q) = signed_nat neg ((n + 5) div 10)"
proof (cases "neg \<and> 0 < n")
  case True
  let ?w = "int (n + 5)"
  have v: "- int n - 5 = - ?w" by simp
  have "(- ?w) div 10 = (if ?w mod 10 = 0 then - (?w div 10) else - (?w div 10) - 1)"
    by (rule zdiv_zminus1_eq_if) simp
  moreover have "(- ?w) mod 10 = (if ?w mod 10 = 0 then 0 else 10 - ?w mod 10)"
    by (rule zmod_zminus1_eq_if)
  moreover have "?w div 10 = int ((n + 5) div 10)" "0 \<le> ?w div 10" "?w mod 10 < 10" "?w mod 10 = 0 \<Longrightarrow> 0 < ?w div 10"
    by (auto simp: zdiv_int)
  ultimately show ?thesis
    using True unfolding signed_nat_def Let_def by (auto simp only: v if_True simp_thms split: if_splits)
next
  case False
  then show ?thesis by (auto simp: signed_nat_def Let_def zdiv_int)
qed

lemma Round_dec: "decimal_Round (dec neg a k) (int p) = dec neg (round_half_up (a * 10 ^ p) (10 ^ k)) p"
proof -
  have e: "- int p - 1 = - int (Suc p)" by simp
  have "decimal_Round (dec neg a k) (int p) = dec neg ((a * 10 ^ Suc p div 10 ^ k + 5) div 10) p"
    using round_step [of neg "a * 10 ^ Suc p div 10 ^ k"]
    unfolding decimal_Round_def e rescale_dec Let_def dec_sel by (simp add: dec_def)
  also have "(a * 10 ^ Suc p div 10 ^ k + 5) div 10 = round_half_up (a * 10 ^ p) (10 ^ k)"
    using nested_rounding [of "10 ^ k" "a * 10 ^ p"] by (simp add: ac_simps)
  finally show ?thesis .
qed

lemma Truncate_dec:
  "decimal_Truncate (dec neg a k) (int p) = (if p < k then dec neg (a * 10 ^ p div 10 ^ k) p else dec neg a k)"
  using rescale_dec [of neg a k p] by (simp add: decimal_Truncate_def)

lemma truncate_round_dec:
  "decimal_Round (decimal_Truncate (dec neg a k) (int p)) (int (Suc p)) = dec neg (10 * (a * 10 ^ p div 10 ^ k)) (Suc p)"
proof (cases "p < k")
  case True
  have "round_half_up (b * 10 ^ Suc p) (10 ^ p) = 10 * b" for b
    using round_half_up_exact [of "10 ^ p" "10 * b"] by (simp add: ac_simps)
  with True show ?thesis unfolding Truncate_dec by (simp add: Round_dec del: power_Suc of_nat_Suc)
next
  case False
  then have "(10::nat) ^ p = 10 ^ (p - k) * 10 ^ k" by (simp flip: power_add)
  then have "a * 10 ^ Suc p = (10 * (a * 10 ^ (p - k))) * 10 ^ k" by simp
  then have "round_half_up (a * 10 ^ Suc p) (10 ^ k) = 10 * (a * 10 ^ (p - k))"
    using round_half_up_exact [of "10 ^ k" "10 * (a * 10 ^ (p - k))"] by (simp only:) simp
  with False power_diff_mult [of k p a] show ?thesis
    unfolding Truncate_dec by (simp add: Round_dec del: power_Suc of_nat_Suc)
qed

section \<open>Printing\<close>

lemma digit_char_0 [simp]: "digit_char 0 = CHR ''0''"
  by code_simp

lemma show_nat_split:
  assumes "0 < p" "10 ^ p \<le> n"
  shows "show_nat n = show_nat (n div 10 ^ p) @ pad_zeros p (show_nat (n mod 10 ^ p))"
  using assms
proof (induction p arbitrary: n rule: nat_induct_non_zero)
  case 1
  then show ?case by (simp add: show_nat_step show_nat_small [of "n mod 10"] pad_zeros_def)
next
  case (Suc p)
  let ?m = "n mod 10 ^ Suc p"
  have "10 ^ p \<le> n div 10" using Suc.prems by (simp add: less_eq_div_iff_mult_less_eq mult.commute)
  then have "show_nat (n div 10) = show_nat (n div 10 div 10 ^ p) @ pad_zeros p (show_nat (n div 10 mod 10 ^ p))"
    by (rule Suc.IH)
  moreover have "10 \<le> n" using Suc.prems by (simp add: order_trans [of 10 "10 * 10 ^ p" n])
  moreover have "n div 10 mod 10 ^ p = ?m div 10" "n mod 10 = ?m mod 10"
    by (simp_all add: mod_mult2_eq mod_mod_cancel)
  moreover have "pad_zeros p (show_nat (?m div 10)) @ [digit_char (?m mod 10)] = pad_zeros (Suc p) (show_nat ?m)"
  proof (cases "?m < 10")
    case True
    obtain q where "p = Suc q" using \<open>0 < p\<close> gr0_conv_Suc by blast
    with True show ?thesis by (simp add: pad_zeros_def show_nat_small replicate_append_same)
  next
    case False
    then show ?thesis by (simp add: pad_zeros_def show_nat_step [of ?m] del: power_Suc)
  qed
  ultimately show ?case by (simp add: show_nat_step div_mult2_eq)
qed

lemma length_show_nat_less: "p < length (show_nat n) \<longleftrightarrow> 10 ^ p \<le> n" if "0 < p"
proof
  assume "p < length (show_nat n)"
  then show "10 ^ p \<le> n" using length_show_nat [of n p] that by (meson leI not_less)
next
  assume "10 ^ p \<le> n"
  moreover have "n < 10 ^ length (show_nat n)"
    using digits_val_less [OF show_nat_digits, of n] by simp
  ultimately have "(10::nat) ^ p < 10 ^ length (show_nat n)" by (rule le_less_trans)
  then show "p < length (show_nat n)" by simp
qed

lemma decimal_string_dec:
  assumes "0 < p"
  shows "decimal_string False (dec neg n p) = fixed_text (neg \<and> n \<noteq> 0) p n"
proof -
  have mag: "nat \<bar>signed_nat neg n\<bar> = n" "signed_nat neg n < 0 \<longleftrightarrow> neg \<and> n \<noteq> 0" by (auto simp: signed_nat_def)
  have "n mod 10 ^ p < 10 ^ p" by simp
  then have len: "length (pad_zeros p (show_nat (n mod 10 ^ p))) = p"
    using assms by (intro length_pad_zeros length_show_nat)
  show ?thesis
  proof (cases "10 ^ p \<le> n")
    case True
    then have "p < length (show_nat n)" using length_show_nat_less [OF assms, of n] by simp
    moreover have "length (show_nat n) - p = length (show_nat (n div 10 ^ p))"
      using show_nat_split [OF assms True] len by (metis add_diff_cancel_right' length_append)
    moreover have "take (length (show_nat (n div 10 ^ p))) (show_nat n) = show_nat (n div 10 ^ p)"
      "drop (length (show_nat (n div 10 ^ p))) (show_nat n) = pad_zeros p (show_nat (n mod 10 ^ p))"
      by (simp_all add: show_nat_split [OF assms True])
    moreover have "pad_zeros p (show_nat (n mod 10 ^ p)) \<noteq> []" using len assms by auto
    ultimately show ?thesis
      using assms by (simp add: decimal_string_def mag fixed_text_def Let_def)
  next
    case False
    then have "\<not> p < length (show_nat n)" using length_show_nat_less [OF assms, of n] by simp
    moreover have "show_nat 0 = ''0''" by (simp add: show_nat_small)
    moreover have "pad_zeros p (show_nat n) = replicate (p - length (show_nat n)) CHR ''0'' @ show_nat n"
      by (simp add: pad_zeros_def)
    ultimately show ?thesis
      using assms False by (simp add: decimal_string_def mag fixed_text_def Let_def)
  qed
qed

text \<open>What the two ways to print give: the places rounded, or cut off.\<close>

lemma StringFixed_dec:
  "0 < p \<Longrightarrow> StringFixed (dec neg a k) (int p) =
     (let n = round_half_up (a * 10 ^ p) (10 ^ k) in fixed_text (neg \<and> n \<noteq> 0) p n)"
  by (simp add: StringFixed_def Round_dec decimal_string_dec Let_def)

lemma fixed_text_cut:
  assumes "0 < p"
  shows "butlast (fixed_text neg (Suc p) (10 * n)) = fixed_text neg p n"
proof -
  have "n mod 10 ^ p < 10 ^ p" by simp
  have "10 * n mod 10 ^ Suc p = 10 * (n mod 10 ^ p)" by (simp only: power_Suc mult_mod_right)
  moreover have "pad_zeros (Suc p) (show_nat (10 * m)) = pad_zeros p (show_nat m) @ ''0''" if "m < 10 ^ p" for m
  proof (cases "m = 0")
    case True
    then show ?thesis using assms pad_zeros_zero [of p] pad_zeros_zero [of "Suc p"] by (simp add: replicate_append_same)
  next
    case False
    then have "show_nat (10 * m) = show_nat m @ ''0''" by (simp add: show_nat_step)
    then show ?thesis by (simp add: pad_zeros_def)
  qed
  ultimately have "pad_zeros (Suc p) (show_nat (10 * n mod 10 ^ Suc p)) = pad_zeros p (show_nat (n mod 10 ^ p)) @ ''0''"
    by (simp only:) simp
  moreover have "10 * n div 10 ^ Suc p = n div 10 ^ p" by simp
  ultimately show ?thesis unfolding fixed_text_def by (simp only: butlast_append) simp
qed

lemma truncated_text:
  "0 < p \<Longrightarrow> butlast (StringFixed (decimal_Truncate (dec neg a k) (int p)) (int (Suc p))) =
     (let n = a * 10 ^ p div 10 ^ k in fixed_text (neg \<and> n \<noteq> 0) p n)"
  using fixed_text_cut [of p] by (simp add: StringFixed_def truncate_round_dec decimal_string_dec Let_def del: of_nat_Suc)

end
