(* ===== verification/Format.thy ===== *)
theory Format
  imports Go_Decimal Amounts Go_Quote
begin

text \<open>
  \<open>format.go\<close>: amounts for display. An amount is rounded or cut to two or seven decimals,
  the digits before the point are grouped by thousands, and a fraction of seven zeros is
  left out or shortened. The texts are ASCII, on which reversing runes is reversing bytes.
\<close>

section \<open>The code\<close>

datatype FmtRoundingBehavior = Round | Truncate

definition parseAmountIntoDecimal :: "string \<Rightarrow> Decimal res" where
  "parseAmountIntoDecimal s =
     and_then (validateNumericalString s) (\<lambda>_.
       map_err (\<lambda>err. Errorf ''expected decimal number: %s %v'' [AStr s, AErr err]) (NewFromString s))"

text \<open>
  The loop over the digits from the last to the first: what is written to the buffer, and
  whether a comma was.
\<close>

fun comma_loop :: "nat \<Rightarrow> string \<Rightarrow> string \<times> bool" where
  "comma_loop sinceComma [] = ([], False)"
| "comma_loop sinceComma (c # cs) =
     (if sinceComma = 3 \<and> c \<noteq> CHR ''-''
      then (CHR '','' # c # fst (comma_loop 1 cs), True)
      else (c # fst (comma_loop (sinceComma + 1) cs), snd (comma_loop (sinceComma + 1) cs)))"

text \<open>
  \<open>[]rune(s)\<close> and back: the encoding of each rune, where a byte that is not part of one is
  replaced by U+FFFD.
\<close>

function runes :: "string \<Rightarrow> string list" where
  "runes [] = []"
| "runes (c # s) =
     (let (r, k) = decode_rune c s in
      (if k = 0 \<and> r = RuneError then [CHR 0xEF, CHR 0xBF, CHR 0xBD] else c # take k s) # runes (drop k s))"
  by pat_completeness auto
termination
  by (relation "measure length") auto

definition reverse :: "string \<Rightarrow> string" where
  "reverse s = concat (rev (runes s))"

lemma reverse_ascii: "list_all (\<lambda>c. (of_char c :: nat) < 128) s \<Longrightarrow> reverse s = rev s"
  unfolding reverse_def by (induction s) (simp_all add: decode_rune_def RuneSelf_def RuneError_def)

text \<open>From the split at the point to the result; \<open>amount\<close> is for the error only.\<close>

definition fmt_parts :: "string \<Rightarrow> string \<Rightarrow> string res" where
  "fmt_parts amount s =
     (case split_sep (\<lambda>c. c = CHR ''.'') s of
        [head, fraction] \<Rightarrow>
          let (b, hasComma) = comma_loop 0 (rev head);
              whole = (if head = [] then head else reverse b)
          in Inr (Join (if fraction = ''0000000''
                        then (if hasComma then [whole, ''00''] else [whole])
                        else [whole, fraction]) ''.'')
      | _ \<Rightarrow> Inl (Errorf ''unable to parse amount %s'' [AStr amount]))"

definition FmtAmount :: "string \<Rightarrow> bool \<Rightarrow> FmtRoundingBehavior \<Rightarrow> string res" where
  "FmtAmount amount precisionTwo rounding =
     (if amount = [] then Inl (NewError ''empty amount'')
      else case parseAmountIntoDecimal amount of
        Inl err \<Rightarrow> Inl (Errorf ''unable to parse amount %s: %v'' [AStr amount, AErr err])
      | Inr x \<Rightarrow>
          let precision = (if precisionTwo then 2 else 7) in
          fmt_parts amount
            (if rounding = Round then StringFixed x precision
             else butlast (StringFixed (decimal_Truncate x precision) (precision + 1))))"

definition FmtCurrency :: "string \<Rightarrow> FmtRoundingBehavior \<Rightarrow> string \<Rightarrow> bool \<Rightarrow> string res" where
  "FmtCurrency amount rounding symbol postfix =
     and_then (FmtAmount amount True rounding) (\<lambda>amountFmt.
       Inr (if postfix then amountFmt @ '' '' @ symbol else symbol @ amountFmt))"

definition FmtCurrencyWithCodeSuffix :: "string \<Rightarrow> FmtRoundingBehavior \<Rightarrow> string \<Rightarrow> string \<Rightarrow> bool \<Rightarrow> string res" where
  "FmtCurrencyWithCodeSuffix amount rounding code symbol postfix =
     and_then (FmtCurrency amount rounding symbol postfix) (\<lambda>pre.
       Inr (if postfix \<and> symbol = code then pre else pre @ '' '' @ code))"

section \<open>Reading an amount\<close>

lemma trim_right_split: "s = trim_right c s @ replicate (length s - length (trim_right c s)) c"
proof -
  let ?z = "takeWhile (\<lambda>d. d = c) (rev s)"
  have "?z = replicate (length ?z) c" by (rule replicate_length_same [symmetric]) (auto dest: set_takeWhileD)
  then have "rev ?z = replicate (length ?z) c" by (metis rev_replicate)
  moreover have s: "s = trim_right c s @ rev ?z" by (simp add: trim_right_def flip: rev_append)
  moreover have "length ?z = length s - length (trim_right c s)"
    using arg_cong [OF s, of length] by simp
  ultimately show ?thesis by simp
qed

definition sign_text :: "bool \<Rightarrow> string" where
  "sign_text neg = (if neg then ''-'' else [])"

lemma digits_not:
  "list_all is_digit t \<Longrightarrow> list_all (\<lambda>c. \<not> c = CHR ''.'') t \<and> list_all (\<lambda>c. c \<noteq> CHR ''E'' \<and> c \<noteq> CHR ''e'') t"
  by (auto simp: list_all_iff is_digit_iff)

lemma no_exponent:
  "list_all (\<lambda>c. c \<noteq> CHR ''E'' \<and> c \<noteq> CHR ''e'') s \<Longrightarrow> decimal_exponent s = Inr (s, 0)"
proof -
  assume "list_all (\<lambda>c. c \<noteq> CHR ''E'' \<and> c \<noteq> CHR ''e'') s"
  then have "dropWhile (\<lambda>c. c \<noteq> CHR ''E'' \<and> c \<noteq> CHR ''e'') s = []" by (simp add: list_all_iff)
  then show ?thesis by (simp add: decimal_exponent_def del: dropWhile_eq_Nil_conv)
qed

lemma split_sign_text: "list_all is_digit t \<Longrightarrow> split_sign (sign_text neg @ t) = (neg, t)"
  by (cases t) (auto simp: sign_text_def split_sign_def is_digit_iff)

lemma big_SetString_text:
  "list_all is_digit t \<Longrightarrow>
     big_SetString (sign_text neg @ t) = (if t = [] then None else Some (signed_nat neg (digits_val t)))"
  by (simp add: big_SetString_def split_sign_text signed_nat_def)

lemma NewFromString_whole:
  assumes "list_all is_digit t" "t \<noteq> []"
  shows "NewFromString (sign_text neg @ t) = Inr (dec neg (digits_val t) 0)"
proof -
  have "decimal_exponent (sign_text neg @ t) = Inr (sign_text neg @ t, 0)"
    using digits_not [OF assms(1)] by (intro no_exponent) (simp add: sign_text_def)
  moreover have "split_sep (\<lambda>c. c = CHR ''.'') (sign_text neg @ t) = [sign_text neg @ t]"
    using digits_not [OF assms(1)] by (intro split_sep_plain) (simp add: sign_text_def)
  ultimately show ?thesis
    using assms by (simp add: NewFromString_def decimal_parts_def big_SetString_text dec_def)
qed

lemma NewFromString_point:
  assumes "list_all is_digit a" "list_all is_digit b" "a \<noteq> [] \<or> b \<noteq> []" "length b \<le> 2147483648"
  shows "NewFromString (sign_text neg @ a @ CHR ''.'' # b) =
    (let b' = trim_right CHR ''0'' b in
     if a @ b' \<noteq> [] then Inr (dec neg (digits_val (a @ b')) (length b'))
     else if neg then Inl (cant_convert (sign_text neg @ a @ CHR ''.'' # b) '''') else Inr (dec neg 0 0))"
proof -
  let ?s = "sign_text neg @ a @ CHR ''.'' # b" and ?b = "trim_right CHR ''0'' b"
  have e: "decimal_exponent ?s = Inr (?s, 0)"
    using digits_not [OF assms(1)] digits_not [OF assms(2)] by (intro no_exponent) (simp add: sign_text_def)
  have "split_sep (\<lambda>c. c = CHR ''.'') ?s = split_sep (\<lambda>c. c = CHR ''.'') (sign_text neg @ a) @ split_sep (\<lambda>c. c = CHR ''.'') b"
    using split_sep_append [of "\<lambda>c. c = CHR ''.''" "CHR ''.''" "sign_text neg @ a" b] by simp
  also have "split_sep (\<lambda>c. c = CHR ''.'') b = [b]"
    using digits_not [OF assms(2)] by (intro split_sep_plain) simp
  also have "split_sep (\<lambda>c. c = CHR ''.'') (sign_text neg @ a) = [sign_text neg @ a]"
    using digits_not [OF assms(1)] by (intro split_sep_plain) (simp add: sign_text_def)
  finally have parts: "split_sep (\<lambda>c. c = CHR ''.'') ?s = [sign_text neg @ a, b]" by simp
  have split: "b = ?b @ replicate (length b - length ?b) CHR ''0''" by (rule trim_right_split)
  have digits: "list_all is_digit ?b" using assms(2) by (subst (asm) split) simp
  have "length ?b \<le> length b" using arg_cong [OF split, of length] by simp
  then have small: "\<not> - int (length ?b) < - 2147483648" using assms(4) by simp
  have new: "NewFromString ?s =
      (case big_SetString (if sign_text neg @ a @ ?b = [] \<and> b \<noteq> [] then ''0'' else sign_text neg @ a @ ?b) of
         None \<Rightarrow> Inl (cant_convert ?s '''')
       | Some v \<Rightarrow> Inr \<lparr>dec_value = v, dec_exp = - int (length ?b)\<rparr>)"
    using small by (simp add: NewFromString_def e decimal_parts_def parts Let_def split: option.splits)
  show ?thesis
  proof (cases "a @ ?b = []")
    case True
    then have "a = []" "?b = []" by simp_all
    with assms(3) show ?thesis unfolding new
      using big_SetString_text [of "[]" True] big_SetString_text [of "''0''" False]
      by (simp add: sign_text_def dec_def signed_nat_def is_digit_iff digit_val_def)
  next
    case False
    with big_SetString_text [of "a @ ?b" neg] assms(1) digits show ?thesis unfolding new
      by (auto simp: dec_def sign_text_def Let_def)
  qed
qed

text \<open>
  The one kind of amount that passes the check of the amounts and is not a decimal: a minus
  sign, a point and zeros.
\<close>

definition bare_minus :: "string \<Rightarrow> bool" where
  "bare_minus s \<longleftrightarrow> take 2 s = ''-.'' \<and> list_all (\<lambda>c. c = CHR ''0'') (drop 2 s)"

lemma SetString_whole: "list_all is_digit t \<Longrightarrow> t \<noteq> [] \<Longrightarrow>
    rat_SetString (sign_text neg @ t) = Some (of_int (signed_nat neg (digits_val t)))"
  by (simp add: rat_SetString_def split_sign_text takeWhile_digits signed_nat_def)

lemma SetString_point: "list_all is_digit a \<Longrightarrow> list_all is_digit b \<Longrightarrow> a \<noteq> [] \<or> b \<noteq> [] \<Longrightarrow>
    rat_SetString (sign_text neg @ a @ CHR ''.'' # b) = Some (of_int (signed_nat neg (digits_val (a @ b))) / 10 ^ length b)"
proof -
  assume ab: "list_all is_digit a" "list_all is_digit b" "a \<noteq> [] \<or> b \<noteq> []"
  have "split_sign (sign_text neg @ a @ CHR ''.'' # b) = (neg, a @ CHR ''.'' # b)"
    using ab(1) by (cases a) (auto simp: sign_text_def split_sign_def is_digit_iff)
  moreover have "\<not> is_digit (CHR ''.'')" by (simp add: is_digit_iff)
  ultimately show ?thesis
    using ab takeWhile_digits_append [OF ab(1), of "CHR ''.''" b] by (auto simp: rat_SetString_def signed_nat_def)
qed

lemma decimal_shape_cases:
  assumes "decimal_shape s"
  obtains neg t where "s = sign_text neg @ t" "list_all is_digit t" "t \<noteq> []"
  | neg a b where "s = sign_text neg @ a @ CHR ''.'' # b" "list_all is_digit a" "list_all is_digit b" "a \<noteq> [] \<or> b \<noteq> []"
proof -
  have "s = sign_text (s \<noteq> unsigned_part s) @ unsigned_part s"
    by (auto simp: unsigned_part_def sign_text_def split: list.splits)
  with assms that show ?thesis unfolding decimal_shape_def decimal_digits_iff by metis
qed

text \<open>An amount is read as the decimal of its value, or not at all.\<close>

lemma NewFromString_amount:
  assumes "decimal_shape s" "length s \<le> 2147483648" "rat_SetString s = Some x"
  shows "(bare_minus s \<longrightarrow> NewFromString s = Inl (cant_convert s '''')) \<and>
    (\<not> bare_minus s \<longrightarrow> (\<exists>neg a k. NewFromString s = Inr (dec neg a k) \<and> x = of_int (signed_nat neg a) / 10 ^ k))"
  using assms(1)
proof (cases rule: decimal_shape_cases)
  case (1 neg t)
  then have "\<not> bare_minus s" by (cases t) (auto simp: bare_minus_def sign_text_def is_digit_iff)
  moreover have "x = of_int (signed_nat neg (digits_val t))"
    using assms(3) 1 by (simp add: SetString_whole)
  ultimately show ?thesis
    using NewFromString_whole [OF 1(2,3), of neg] 1(1) by (intro conjI impI exI [of _ neg] exI [of _ "digits_val t"] exI [of _ 0]) auto
next
  case (2 neg a b)
  let ?b = "trim_right CHR ''0'' b"
  have "length b \<le> 2147483648" using assms(2) 2(1) by simp
  note new = NewFromString_point [OF 2(2-4) this, of neg]
  have split: "b = ?b @ replicate (length b - length ?b) CHR ''0''" by (rule trim_right_split)
  then have le: "length ?b \<le> length b" by (metis length_append le_add1)
  have bare: "bare_minus s \<longleftrightarrow> neg \<and> a = [] \<and> ?b = []"
  proof -
    have "list_all (\<lambda>c. c = CHR ''0'') b \<longleftrightarrow> ?b = []"
      by (auto simp: trim_right_def list_all_iff)
    then show ?thesis
      using 2(1,2) by (cases a) (auto simp: bare_minus_def sign_text_def is_digit_iff)
  qed
  have "digits_val (a @ b) = digits_val (a @ ?b) * 10 ^ (length b - length ?b)"
    by (subst split) (simp add: digits_val_append flip: append_assoc)
  then have "signed_nat neg (digits_val (a @ b)) = signed_nat neg (digits_val (a @ ?b)) * 10 ^ (length b - length ?b)"
    by (simp add: signed_nat_def)
  moreover have "(10::rat) ^ length b = 10 ^ (length b - length ?b) * 10 ^ length ?b"
    using le by (simp flip: power_add)
  ultimately have x: "x = of_int (signed_nat neg (digits_val (a @ ?b))) / 10 ^ length ?b"
    using SetString_point [OF 2(2-4), of neg] assms(3) 2(1) by simp
  show ?thesis
  proof (cases "a @ ?b = []")
    case True
    then have "x = of_int (signed_nat False 0) / 10 ^ 0" using x by (simp add: signed_nat_def)
    with True new show ?thesis unfolding bare 2(1) [symmetric]
      by (auto simp: Let_def intro!: exI [of _ False] exI [of _ "0 :: nat"])
  next
    case False
    with new x show ?thesis unfolding bare 2(1) [symmetric] by (auto simp: Let_def)
  qed
qed
section \<open>Grouping\<close>

text \<open>Thousands, from the right: what the loop means.\<close>

function group_thousands :: "string \<Rightarrow> string" where
  "group_thousands ds =
     (if length ds \<le> 3 then ds
      else group_thousands (take (length ds - 3) ds) @ CHR '','' # drop (length ds - 3) ds)"
  by pat_completeness auto
termination
  by (relation "measure length") auto

declare group_thousands.simps [simp del]

lemma group_thousands_step:
  "length cs = 3 \<Longrightarrow> ds \<noteq> [] \<Longrightarrow> group_thousands (ds @ cs) = group_thousands ds @ CHR '','' # cs"
  by (subst group_thousands.simps) simp

lemma set_group_thousands: "set (group_thousands ds) \<subseteq> insert (CHR '','') (set ds)"
proof (induction ds rule: group_thousands.induct)
  case (1 ds)
  show ?case
  proof (cases "length ds \<le> 3")
    case False
    with 1 show ?thesis
      by (subst group_thousands.simps) (auto dest: in_set_takeD in_set_dropD)
  qed (subst group_thousands.simps, auto)
qed

lemma comma_loop_group:
  assumes "CHR ''-'' \<notin> set r" "sg \<in> {[], ''-''}"
  shows "comma_loop 0 (r @ sg) = (rev (group_thousands (rev r)) @ sg, 3 < length r)"
  using assms(1)
proof (induction r rule: length_induct)
  case (1 r)
  show ?case
  proof (cases "length r \<le> 3")
    case True
    then have short: "group_thousands (rev r) = rev r" "\<not> 3 < length r" by (simp_all add: group_thousands.simps)
    show ?thesis
    proof (cases r)
      case (Cons a r1)
      then show ?thesis using True short assms(2) by (cases r1; cases "tl r1") auto
    qed (use short assms(2) in auto)
  next
    case False
    then obtain a b c d r' where r: "r = a # b # c # d # r'"
      by (metis One_nat_def Suc_1 length_0_conv length_Cons le_numeral_extra(3) neq_Nil_conv not_less_eq_eq numeral_3_eq_3 zero_le)
    have IH: "comma_loop 0 ((d # r') @ sg) = (rev (group_thousands (rev (d # r'))) @ sg, 3 < length (d # r'))"
      using "1.IH" [rule_format, of "d # r'"] "1.prems" r by simp
    have "d \<noteq> CHR ''-''" using "1.prems" r by auto
    moreover have "group_thousands (rev r) = group_thousands (rev (d # r')) @ CHR '','' # [c, b, a]"
      using group_thousands_step [of "[c, b, a]" "rev (d # r')"] by (simp add: r)
    ultimately show ?thesis using IH by (simp add: r)
  qed
qed

lemma filter_group_thousands: "filter (\<lambda>c. c \<noteq> CHR '','') (group_thousands ds) = filter (\<lambda>c. c \<noteq> CHR '','') ds"
proof (induction ds rule: group_thousands.induct)
  case (1 ds)
  show ?case
  proof (cases "length ds \<le> 3")
    case True
    then show ?thesis by (simp add: group_thousands.simps)
  next
    case False
    have "filter (\<lambda>c. c \<noteq> CHR '','') ds =
        filter (\<lambda>c. c \<noteq> CHR '','') (take (length ds - 3) ds) @ filter (\<lambda>c. c \<noteq> CHR '','') (drop (length ds - 3) ds)"
      by (metis append_take_drop_id filter_append)
    with False 1 show ?thesis by (subst group_thousands.simps) simp
  qed
qed

text \<open>The text of \<open>n / 10 ^ places\<close> as the program displays it.\<close>

definition display :: "bool \<Rightarrow> nat \<Rightarrow> nat \<Rightarrow> string" where
  "display neg places n =
     (let whole = show_nat (n div 10 ^ places); part = n mod 10 ^ places in
      sign_text (neg \<and> n \<noteq> 0) @ group_thousands whole @
      (if places = 7 \<and> part = 0 then (if 3 < length whole then ''.00'' else [])
       else CHR ''.'' # pad_zeros places (show_nat part)))"

lemma seven_zeros:
  assumes "0 < p" "m < 10 ^ p"
  shows "pad_zeros p (show_nat m) = ''0000000'' \<longleftrightarrow> p = 7 \<and> m = 0"
proof
  assume z: "pad_zeros p (show_nat m) = ''0000000''"
  have "length (pad_zeros p (show_nat m)) = p" using assms by (intro length_pad_zeros length_show_nat)
  moreover have "digits_val (pad_zeros p (show_nat m)) = digits_val ''0000000''" by (simp only: z)
  then have "m = 0" by (simp add: digit_val_def)
  ultimately show "p = 7 \<and> m = 0" using z by simp
next
  assume "p = 7 \<and> m = 0"
  then show "pad_zeros p (show_nat m) = ''0000000''" using pad_zeros_zero [of 7] by (simp add: numeral_eq_Suc)
qed

lemma fmt_parts_fixed_text:
  assumes "0 < p"
  shows "fmt_parts amount (fixed_text (neg \<and> n \<noteq> 0) p n) = Inr (display neg p n)"
proof -
  let ?w = "show_nat (n div 10 ^ p)" and ?f = "pad_zeros p (show_nat (n mod 10 ^ p))" and ?sg = "sign_text (neg \<and> n \<noteq> 0)"
  have digits: "list_all is_digit ?w" "list_all is_digit ?f" by simp_all
  have fixed: "fixed_text (neg \<and> n \<noteq> 0) p n = (?sg @ ?w) @ CHR ''.'' # ?f"
    by (simp add: fixed_text_def sign_text_def)
  have "split_sep (\<lambda>c. c = CHR ''.'') (?sg @ ?w) = [?sg @ ?w]" "split_sep (\<lambda>c. c = CHR ''.'') ?f = [?f]"
    using digits_not [OF digits(1)] digits_not [OF digits(2)]
    by (rule_tac split_sep_plain; simp add: sign_text_def)+
  then have parts: "split_sep (\<lambda>c. c = CHR ''.'') (fixed_text (neg \<and> n \<noteq> 0) p n) = [?sg @ ?w, ?f]"
    unfolding fixed by (simp add: split_sep_append del: append_assoc)
  have "CHR ''-'' \<notin> set (rev ?w)" using digits(1) by (auto simp: list_all_iff is_digit_iff)
  then have loop: "comma_loop 0 (rev (?sg @ ?w)) = (rev (?sg @ group_thousands ?w), 3 < length ?w)"
    using comma_loop_group [of "rev ?w" ?sg] by (auto simp: sign_text_def)
  have "(of_char c :: nat) < 128" if "c \<in> set (rev (?sg @ group_thousands ?w))" for c
  proof -
    have "is_digit c \<Longrightarrow> (of_char c :: nat) < 128" by (simp add: is_digit_iff)
    moreover have "c = CHR ''-'' \<or> c = CHR '','' \<or> is_digit c"
      using that subsetD [OF set_group_thousands, of c ?w] digits(1) by (auto simp: sign_text_def list_all_iff split: if_splits)
    ultimately show ?thesis by auto
  qed
  then have turned: "reverse (rev (?sg @ group_thousands ?w)) = ?sg @ group_thousands ?w"
    by (simp add: reverse_ascii list_all_iff)
  have zero: "?f = ''0000000'' \<longleftrightarrow> p = 7 \<and> n mod 10 ^ p = 0" using assms by (intro seven_zeros) simp_all
  show ?thesis
    unfolding fmt_parts_def parts display_def Let_def loop list.case prod.case zero turned
    by (cases "p = 7 \<and> n mod 10 ^ p = 0") (simp_all only: if_True if_False Join.simps simp_thms, simp_all)
qed
section \<open>What is displayed\<close>

text \<open>The number of units in the last place, by the way of rounding.\<close>

definition units_of :: "FmtRoundingBehavior \<Rightarrow> nat \<Rightarrow> rat \<Rightarrow> nat" where
  "units_of rounding places x =
     (case rounding of
        Round \<Rightarrow> nat \<lfloor>\<bar>x\<bar> * 10 ^ places + 1 / 2\<rfloor>
      | Truncate \<Rightarrow> nat \<lfloor>\<bar>x\<bar> * 10 ^ places\<rfloor>)"

lemma units_of_decimal:
  "units_of rounding p (of_int (signed_nat neg a) / 10 ^ k) =
     (case rounding of Round \<Rightarrow> round_half_up (a * 10 ^ p) (10 ^ k) | Truncate \<Rightarrow> a * 10 ^ p div 10 ^ k)"
proof -
  have mag: "\<bar>of_int (signed_nat neg a) / 10 ^ k\<bar> = (of_nat a / of_nat (10 ^ k) :: rat)"
    by (simp add: signed_nat_def abs_divide)
  have "\<lfloor>(of_nat a / of_nat (10 ^ k) :: rat) * 10 ^ p\<rfloor> = int (a * 10 ^ p div 10 ^ k)"
    using floor_divide_of_nat_eq [where ?'a = rat, of "a * 10 ^ p" "10 ^ k"] by simp
  moreover have "(of_nat a / of_nat (10 ^ k) :: rat) * 10 ^ p + 1 / 2 = of_nat (2 * (a * 10 ^ p) + 10 ^ k) / of_nat (2 * 10 ^ k)"
    by (simp add: field_simps)
  then have "\<lfloor>(of_nat a / of_nat (10 ^ k) :: rat) * 10 ^ p + 1 / 2\<rfloor> = int (round_half_up (a * 10 ^ p) (10 ^ k))"
    unfolding round_half_up_def by (simp only: floor_divide_of_nat_eq)
  ultimately show ?thesis unfolding units_of_def mag by (simp split: FmtRoundingBehavior.splits)
qed

lemma FmtAmount_display:
  assumes "ParseAmount amount = Inr x" and "\<not> bare_minus amount" and "length amount \<le> 2147483648"
  shows "FmtAmount amount precisionTwo rounding =
    Inr (display (x < 0) (if precisionTwo then 2 else 7) (units_of rounding (if precisionTwo then 2 else 7) x))"
proof -
  define p :: nat where "p = (if precisionTwo then 2 else 7)"
  have p: "0 < p" "(if precisionTwo then 2 else 7) = int p" by (simp_all add: p_def)
  from assms(1) have shape: "decimal_shape amount" "rat_SetString amount = Some x" by (simp_all add: ParseAmount_eq_Inr)
  then have ne: "amount \<noteq> []" by (auto simp: decimal_shape_def decimal_digits_def unsigned_part_def)
  obtain neg a k where new: "NewFromString amount = Inr (dec neg a k)" and x: "x = of_int (signed_nat neg a) / 10 ^ k"
    using NewFromString_amount [OF shape(1) assms(3) shape(2)] assms(2) by blast
  have parse: "parseAmountIntoDecimal amount = Inr (dec neg a k)"
    using shape(1) validateNumericalString_ok [of amount True] by (simp add: parseAmountIntoDecimal_def new)
  define n where "n = units_of rounding p x"
  have n: "n = (case rounding of Round \<Rightarrow> round_half_up (a * 10 ^ p) (10 ^ k) | Truncate \<Rightarrow> a * 10 ^ p div 10 ^ k)"
    unfolding n_def x by (rule units_of_decimal)
  have "(if rounding = Round then StringFixed (dec neg a k) (int p)
      else butlast (StringFixed (decimal_Truncate (dec neg a k) (int p)) (int p + 1))) = fixed_text (neg \<and> n \<noteq> 0) p n"
    using StringFixed_dec [OF p(1), of neg a k] truncated_text [OF p(1), of neg a k]
    by (cases rounding) (simp_all add: n Let_def add.commute)
  moreover have "neg \<and> n \<noteq> 0 \<longleftrightarrow> x < 0 \<and> n \<noteq> 0"
  proof (cases "a = 0")
    case True
    have "round_half_up 0 (10 ^ k) = 0" using round_half_up_exact [of "10 ^ k" 0] by simp
    with True show ?thesis by (simp add: n split: FmtRoundingBehavior.splits)
  next
    case False
    then show ?thesis by (auto simp: x signed_nat_def divide_less_0_iff)
  qed
  ultimately have "fmt_parts amount (if rounding = Round then StringFixed (dec neg a k) (int p)
      else butlast (StringFixed (decimal_Truncate (dec neg a k) (int p)) (int p + 1))) = Inr (display (x < 0) p n)"
    using fmt_parts_fixed_text [OF p(1), of amount "x < 0" n] by simp
  then show ?thesis
    by (simp add: FmtAmount_def ne parse Let_def p(2) n_def flip: p_def)
qed
lemma decimal_shape_text:
  assumes "list_all is_digit w" "w \<noteq> []"
  shows "decimal_shape (sign_text neg @ w)" and "list_all is_digit f \<Longrightarrow> decimal_shape (sign_text neg @ w @ CHR ''.'' # f)"
proof -
  have u: "unsigned_part (sign_text neg @ w @ v) = w @ v" for v
    using assms by (cases w) (auto simp: unsigned_part_def sign_text_def is_digit_iff)
  show "decimal_shape (sign_text neg @ w)"
    using u [of "[]"] assms unfolding decimal_shape_def decimal_digits_iff by simp
  show "list_all is_digit f \<Longrightarrow> decimal_shape (sign_text neg @ w @ CHR ''.'' # f)"
    using u [of "CHR ''.'' # f"] assms unfolding decimal_shape_def decimal_digits_iff by metis
qed

lemma filter_digits: "list_all is_digit t \<Longrightarrow> filter (\<lambda>c. c \<noteq> CHR '','') t = t"
  by (intro filter_True) (auto simp: list_all_iff is_digit_iff)

lemma filter_sign_text [simp]: "filter (\<lambda>c. c \<noteq> CHR '','') (sign_text neg) = sign_text neg"
  by (simp add: sign_text_def)

lemma ParseAmount_display:
  assumes "0 < p"
  shows "ParseAmount (filter (\<lambda>c. c \<noteq> CHR '','') (display neg p n)) = Inr (of_int (signed_nat neg n) / 10 ^ p)"
proof -
  let ?w = "show_nat (n div 10 ^ p)" and ?f = "pad_zeros p (show_nat (n mod 10 ^ p))"
  let ?b = "neg \<and> n \<noteq> 0" and ?plain = "filter (\<lambda>c. c \<noteq> CHR '','')"
  have sg: "signed_nat ?b n = signed_nat neg n" by (simp add: signed_nat_def)
  have w: "?plain (group_thousands ?w) = ?w" by (simp add: filter_group_thousands filter_digits)
  have len: "length ?f = p" using assms by (intro length_pad_zeros length_show_nat) simp_all
  have "digits_val (?w @ ?f) = n" by (simp only: digits_val_append len digits_val_pad_zeros digits_val_show_nat div_mult_mod_eq)
  then have full: "ParseAmount (sign_text ?b @ ?w @ CHR ''.'' # ?f) = Inr (of_int (signed_nat neg n) / 10 ^ p)"
    using SetString_point [of ?w ?f ?b] decimal_shape_text(2) [where w = ?w and neg = ?b and f = ?f] sg by (simp add: ParseAmount_eq_Inr len)
  show ?thesis
  proof (cases "p = 7 \<and> n mod 10 ^ p = 0")
    case True
    then have n: "n = n div 10 ^ p * 10 ^ p" by auto
    have "of_int (signed_nat ?b (n div 10 ^ p)) = (of_int (signed_nat neg n) / 10 ^ p :: rat)"
      unfolding sg [symmetric] by (subst (3) n) (simp add: signed_nat_def)
    moreover have "digits_val (?w @ ''00'') = n div 10 ^ p * 100" by (simp add: digits_val_append digit_val_def)
    then have "(of_int (signed_nat ?b (digits_val (?w @ ''00''))) / 10 ^ length ''00'' :: rat) = of_int (signed_nat ?b (n div 10 ^ p))"
      by (simp add: signed_nat_def)
    ultimately have "ParseAmount (sign_text ?b @ ?w) = Inr (of_int (signed_nat neg n) / 10 ^ p)"
      "ParseAmount (sign_text ?b @ ?w @ ''.00'') = Inr (of_int (signed_nat neg n) / 10 ^ p)"
      using SetString_whole [of ?w ?b] SetString_point [of ?w "''00''" ?b] decimal_shape_text [where w = ?w and neg = ?b] decimal_shape_text(2) [where w = ?w and neg = ?b and f = "''00''"]
      by (simp_all add: ParseAmount_eq_Inr is_digit_iff)
    moreover have "p = 7" "n mod 10000000 = 0" using True by auto
    ultimately show ?thesis using w [unfolded \<open>p = 7\<close>, simplified] by (simp add: display_def Let_def)
  next
    case False
    with full show ?thesis by (auto simp: display_def Let_def w filter_digits)
  qed
qed

lemma digit_chars:
  "digit_char 1 = CHR ''1''" "digit_char (Suc 0) = CHR ''1''" "digit_char 2 = CHR ''2''" "digit_char 3 = CHR ''3''" "digit_char 4 = CHR ''4''"
  "digit_char 5 = CHR ''5''" "digit_char 6 = CHR ''6''" "digit_char 7 = CHR ''7''" "digit_char 8 = CHR ''8''" "digit_char 9 = CHR ''9''"
  by code_simp+

lemma demo_read: "ParseAmount ''-1234567.895'' = Inr (- (246913579 / 200))" "\<not> bare_minus ''-1234567.895''"
  by (simp_all add: ParseAmount_eq_Inr go_defs decimal_shape_def decimal_digits_def unsigned_part_def is_digit_iff digit_val_def
      bare_minus_def)

lemma demo_units:
  "units_of Round 2 (- (246913579 / 200)) = 123456790" "units_of Truncate 2 (- (246913579 / 200)) = 123456789"
  "units_of Round 7 (- (246913579 / 200)) = 12345678950000"
  by (simp_all add: units_of_def nat_eq_iff floor_eq_iff)

lemma demo_display:
  "display True 2 123456790 = ''-1,234,567.90''" "display True 2 123456789 = ''-1,234,567.89''"
  "display True 7 12345678950000 = ''-1,234,567.8950000''"
proof -
  have "show_nat 1234567 = ''1234567''" "show_nat 90 = ''90''" "show_nat 89 = ''89''" "show_nat 8950000 = ''8950000''"
    by (simp_all add: show_nat_eval digit_chars)
  moreover have "group_thousands ''1234567'' = ''1,234,567''"
    by (subst group_thousands.simps, simp, subst group_thousands.simps, simp, subst group_thousands.simps, simp)
  ultimately show "display True 2 123456790 = ''-1,234,567.90''" "display True 2 123456789 = ''-1,234,567.89''"
    "display True 7 12345678950000 = ''-1,234,567.8950000''"
    by (simp_all add: display_def Let_def sign_text_def pad_zeros_def)
qed

section \<open>Properties\<close>

text \<open>
  C24. What is displayed for an amount of value \<open>x\<close>, with two or seven places: the sign
  if what remains is not zero, the whole units grouped by thousands, the point and the
  places; with seven places, a zero fraction is left out below a thousand and shortened
  to two zeros from there on. The places are rounded half away from zero, or cut off.
\<close>

theorem FmtAmount_spec:
  assumes "ParseAmount amount = Inr x" and "\<not> bare_minus amount" and "length amount \<le> 2147483648"
  shows "FmtAmount amount precisionTwo rounding =
    Inr (display (x < 0) (if precisionTwo then 2 else 7) (units_of rounding (if precisionTwo then 2 else 7) x))"
  using assms by (rule FmtAmount_display)

theorem FmtAmount_spec_witness:
  "FmtAmount ''-1234567.895'' True Round = Inr ''-1,234,567.90'' \<and>
   FmtAmount ''-1234567.895'' True Truncate = Inr ''-1,234,567.89'' \<and>
   FmtAmount ''-1234567.895'' False Round = Inr ''-1,234,567.8950000''"
  using FmtAmount_spec [OF demo_read, of True Round] FmtAmount_spec [OF demo_read, of True Truncate]
    FmtAmount_spec [OF demo_read, of False Round] by (simp add: demo_units demo_display)

text \<open>How far the units of either way are from the value.\<close>

lemma units_close:
  fixes x y :: rat
  assumes "y = of_int (signed_nat (x < 0) (units_of rounding p x)) / 10 ^ p"
  shows "case rounding of
      Round \<Rightarrow> \<bar>y - x\<bar> \<le> 1 / (2 * 10 ^ p)
    | Truncate \<Rightarrow> \<bar>y\<bar> \<le> \<bar>x\<bar> \<and> \<bar>x - y\<bar> < 1 / 10 ^ p"
proof -
  define n P where "n = units_of rounding p x" and "P = (10 ^ p :: rat)"
  have y: "y = (if x < 0 then - (of_nat n / P) else of_nat n / P)" using assms by (simp add: signed_nat_def n_def P_def)
  have pos: "0 < P" "0 \<le> \<bar>x\<bar> * P" by (simp_all add: P_def)
  have "case rounding of
      Round \<Rightarrow> \<bar>y - x\<bar> \<le> 1 / (2 * P)
    | Truncate \<Rightarrow> \<bar>y\<bar> \<le> \<bar>x\<bar> \<and> \<bar>x - y\<bar> < 1 / P"
  proof (cases rounding)
    case Round
    then have "of_nat n = (of_int \<lfloor>\<bar>x\<bar> * P + 1 / 2\<rfloor> :: rat)"
      using pos by (simp add: n_def units_of_def P_def)
    then have "\<bar>x\<bar> * P - 1 / 2 \<le> of_nat n" "of_nat n \<le> \<bar>x\<bar> * P + 1 / 2" by linarith+
    from divide_right_mono [OF this(1), of P] divide_right_mono [OF this(2), of P]
    have "\<bar>x\<bar> - 1 / (2 * P) \<le> of_nat n / P" "of_nat n / P \<le> \<bar>x\<bar> + 1 / (2 * P)"
      using pos(1) by (simp_all add: diff_divide_distrib add_divide_distrib)
    then have "\<bar>y - x\<bar> \<le> 1 / (2 * P)" unfolding y abs_le_iff by (cases "x < 0") (simp_all only: if_True if_False, linarith+)
    with Round show ?thesis by simp
  next
    case Truncate
    then have "of_nat n = (of_int \<lfloor>\<bar>x\<bar> * P\<rfloor> :: rat)"
      using pos by (simp add: n_def units_of_def P_def)
    then have "\<bar>x\<bar> * P < of_nat n + 1" "of_nat n \<le> \<bar>x\<bar> * P" by linarith+
    then have "\<bar>x\<bar> < of_nat n / P + 1 / P" "of_nat n / P \<le> \<bar>x\<bar>"
      using pos(1) by (simp_all add: field_simps)
    moreover have "0 \<le> of_nat n / P" using pos by simp
    ultimately have "\<bar>y\<bar> \<le> \<bar>x\<bar> \<and> \<bar>x - y\<bar> < 1 / P" by (auto simp: y abs_if split: if_splits)
    with Truncate show ?thesis by simp
  qed
  then show ?thesis by (simp only: P_def)
qed

text \<open>
  C25. A displayed amount is still an amount: without its commas it parses, to the value
  rounded or cut to the places displayed.
\<close>

theorem FmtAmount_value:
  assumes "ParseAmount amount = Inr x" and "FmtAmount amount precisionTwo rounding = Inr out" and "length amount \<le> 2147483648"
  shows "\<exists>y. ParseAmount (filter (\<lambda>c. c \<noteq> CHR '','') out) = Inr y \<and>
    (case rounding of
       Round \<Rightarrow> \<bar>y - x\<bar> \<le> 1 / (2 * 10 ^ (if precisionTwo then 2 else 7))
     | Truncate \<Rightarrow> \<bar>y\<bar> \<le> \<bar>x\<bar> \<and> \<bar>x - y\<bar> < 1 / 10 ^ (if precisionTwo then 2 else 7))"
proof -
  define p :: nat where "p = (if precisionTwo then 2 else 7)"
  have p: "0 < p" by (simp add: p_def)
  have shape: "decimal_shape amount" "rat_SetString amount = Some x" using assms(1) by (simp_all add: ParseAmount_eq_Inr)
  have bare: "\<not> bare_minus amount"
  proof
    assume "bare_minus amount"
    with NewFromString_amount [OF shape(1) assms(3) shape(2)] assms(2) show False
      by (auto simp: FmtAmount_def parseAmountIntoDecimal_def and_then_def split: if_splits sum.splits)
  qed
  define n where "n = units_of rounding p x"
  have out: "out = display (x < 0) p n"
    using FmtAmount_display [OF assms(1) bare assms(3), of precisionTwo rounding] assms(2) by (simp add: p_def n_def)
  define y :: rat where "y = of_int (signed_nat (x < 0) n) / 10 ^ p"
  have "case rounding of
      Round \<Rightarrow> \<bar>y - x\<bar> \<le> 1 / (2 * 10 ^ p)
    | Truncate \<Rightarrow> \<bar>y\<bar> \<le> \<bar>x\<bar> \<and> \<bar>x - y\<bar> < 1 / 10 ^ p"
    by (rule units_close) (simp only: y_def n_def)
  moreover have "ParseAmount (filter (\<lambda>c. c \<noteq> CHR '','') out) = Inr y"
    using ParseAmount_display [OF p, of "x < 0" n] by (simp add: out y_def)
  ultimately show ?thesis unfolding p_def by blast
qed

theorem FmtAmount_value_witness:
  "\<exists>y. ParseAmount (filter (\<lambda>c. c \<noteq> CHR '','') ''-1,234,567.89'') = Inr y \<and> \<bar>y\<bar> \<le> 246913579 / 200 \<and>
     \<bar>- (246913579 / 200) - y\<bar> < 1 / 100"
proof -
  have "FmtAmount ''-1234567.895'' True Truncate = Inr ''-1,234,567.89''"
    using FmtAmount_display [OF demo_read, of True Truncate] by (simp add: demo_units demo_display)
  from FmtAmount_value [OF demo_read(1) this] show ?thesis by simp
qed

text \<open>
  C40. An amount written as a minus sign, a point and zeros is a number for \<open>ParseAmount\<close>
  and an error for \<open>FmtAmount\<close>, and with it for the two functions that format a currency;
  without the sign, or with a digit before the point, it is displayed.
\<close>

theorem bare_minus_not_displayed:
  assumes "bare_minus amount" and "2 < length amount" and "length amount \<le> 2147483648"
  shows "ParseAmount amount = Inr 0 \<and> \<not> is_ok (FmtAmount amount precisionTwo rounding) \<and>
    \<not> is_ok (FmtCurrency amount rounding symbol postfix) \<and>
    \<not> is_ok (FmtCurrencyWithCodeSuffix amount rounding code symbol postfix) \<and>
    is_ok (FmtAmount (drop 1 amount) precisionTwo rounding)"
proof -
  obtain z where z: "amount = sign_text True @ [] @ CHR ''.'' # z" "list_all (\<lambda>c. c = CHR ''0'') z" "z \<noteq> []"
  proof -
    have "amount = take 2 amount @ drop 2 amount" by simp
    with assms(1,2) that [of "drop 2 amount"] show ?thesis by (auto simp: bare_minus_def sign_text_def)
  qed
  have zeros: "z = replicate (length z) CHR ''0''"
    using z(2) unfolding list_all_iff by (intro replicate_length_same [symmetric])
  have "is_digit (CHR ''0'')" by (simp add: is_digit_iff)
  with z(2) have digits: "list_all is_digit z" unfolding list_all_iff by metis
  have "digits_val z = 0" using digits_val_zeros [of "length z"] unfolding zeros [symmetric] .
  then have read: "rat_SetString amount = Some 0" "rat_SetString (drop 1 amount) = Some 0"
    using SetString_point [of "[]" z True] SetString_point [of "[]" z False] digits z
    by (simp_all add: signed_nat_def sign_text_def)
  have shape: "decimal_shape amount" "decimal_shape (drop 1 amount)"
    using z digits by (simp_all add: decimal_shape_def unsigned_part_def sign_text_def decimal_digits_def is_digit_iff)
  have "NewFromString amount = Inl (cant_convert amount '''')"
    using NewFromString_amount [OF shape(1) assms(3) read(1)] assms(1) by simp
  then have no: "\<not> is_ok (FmtAmount amount pt r)" for pt r
    using shape(1) validateNumericalString_ok [of amount True] by (simp add: FmtAmount_def parseAmountIntoDecimal_def)
  moreover have "\<not> bare_minus (drop 1 amount)" using z by (simp add: bare_minus_def sign_text_def)
  then have "is_ok (FmtAmount (drop 1 amount) precisionTwo rounding)"
    using FmtAmount_display [of "drop 1 amount" 0] read(2) shape(2) assms(3) by (simp add: ParseAmount_eq_Inr)
  moreover obtain e where "FmtAmount amount True rounding = Inl e"
    using no [of True rounding] by (auto simp: not_is_ok_iff)
  ultimately show ?thesis
    using read(1) shape(1) by (simp add: ParseAmount_eq_Inr FmtCurrency_def FmtCurrencyWithCodeSuffix_def)
qed

theorem bare_minus_not_displayed_witness:
  "ParseAmount ''-.0'' = Inr 0 \<and> \<not> is_ok (FmtCurrency ''-.0'' Round ''$'' False)"
  using bare_minus_not_displayed [of "''-.0''"] by (simp add: bare_minus_def)

end
