(* ===== verification/Go_Files.thy ===== *)
theory Go_Files
  imports Horizon Go_Url "HOL-Library.AList"
begin

text \<open>
  What the test client uses of \<open>path/filepath\<close>, \<open>os\<close> and \<open>io/ioutil\<close>: cleaning and joining
  of paths, and the calls on files over a disk that keeps the content of each file by its
  name. Whether the system carries a call out is a parameter.
\<close>

section \<open>Paths\<close>

text \<open>
  \<open>filepath.Clean\<close> keeps a stack of elements: empty elements and dots are dropped, two dots
  remove the element before them, and stay where there is none.
\<close>

definition clean_step :: "bool \<Rightarrow> string list \<Rightarrow> string \<Rightarrow> string list" where
  "clean_step rooted out elem =
     (if elem = [] \<or> elem = ''.'' then out
      else if elem = ''..'' then
        (if out \<noteq> [] \<and> last out \<noteq> ''..'' then butlast out
         else if rooted then out else out @ [elem])
      else out @ [elem])"

definition filepath_Clean :: "string \<Rightarrow> string" where
  "filepath_Clean path =
     (let rooted = (take 1 path = ''/'');
          out = foldl (clean_step rooted) [] (split_sep (\<lambda>c. c = CHR ''/'') path)
      in if rooted then CHR ''/'' # Join out ''/''
         else if out = [] then ''.'' else Join out ''/'')"

definition filepath_Join :: "string list \<Rightarrow> string" where
  "filepath_Join elem =
     (case dropWhile (\<lambda>e. e = []) elem of
        [] \<Rightarrow> []
      | rest \<Rightarrow> filepath_Clean (Join rest ''/''))"

text \<open>A name of a file in a directory, not a path.\<close>

definition plain_name :: "string \<Rightarrow> bool" where
  "plain_name s \<longleftrightarrow> CHR ''/'' \<notin> set s \<and> s \<notin> {[], ''.'', ''..''}"

lemma Join_snoc: "Join (xs @ [x]) sep = (if xs = [] then x else Join xs sep @ sep @ x)"
  by (induction xs sep rule: Join.induct) auto

lemma Join_not_Nil: "x \<noteq> [] \<Longrightarrow> Join (xs @ [x]) sep \<noteq> []"
  by (simp add: Join_snoc)

text \<open>Joining a name to a directory puts a text that depends on the directory alone in front of it.\<close>

lemma filepath_Clean_name:
  assumes "dir \<noteq> []"
  obtains p where "\<And>name. plain_name name \<Longrightarrow> filepath_Clean (dir @ ''/'' @ name) = p @ name"
proof
  fix name assume n: "plain_name name"
  let ?r = "take 1 dir = ''/''"
  let ?out = "foldl (clean_step ?r) [] (split_sep (\<lambda>c. c = CHR ''/'') dir)"
  have "split_sep (\<lambda>c. c = CHR ''/'') (dir @ ''/'' @ name) = split_sep (\<lambda>c. c = CHR ''/'') dir @ [name]"
    using n split_sep_append [of "\<lambda>c. c = CHR ''/''" "CHR ''/''" dir name] split_sep_plain [of "\<lambda>c. c = CHR ''/''" name]
    by (auto simp: plain_name_def list_all_iff)
  moreover have "take 1 (dir @ ''/'' @ name) = take 1 dir" using assms by (cases dir) auto
  moreover have "clean_step r out name = out @ [name]" for r out using n by (simp add: clean_step_def plain_name_def)
  ultimately show "filepath_Clean (dir @ ''/'' @ name) =
      ((if ?r then ''/'' else []) @ (if ?out = [] then [] else Join ?out ''/'' @ ''/'')) @ name"
    by (simp add: filepath_Clean_def Let_def Join_snoc)
qed

lemma filepath_Join_name:
  assumes "dir \<noteq> []"
  obtains p where "\<And>name. plain_name name \<Longrightarrow> filepath_Join [dir, name] = p @ name"
proof -
  obtain p where "\<And>name. plain_name name \<Longrightarrow> filepath_Clean (dir @ ''/'' @ name) = p @ name"
    using filepath_Clean_name [OF assms] by blast
  with that show thesis using assms by (simp add: filepath_Join_def)
qed

lemma filepath_Join_inject:
  assumes "dir \<noteq> []" "plain_name a" "plain_name b"
  shows "filepath_Join [dir, a] = filepath_Join [dir, b] \<longleftrightarrow> a = b"
proof -
  obtain p where "\<And>name. plain_name name \<Longrightarrow> filepath_Join [dir, name] = p @ name"
    using filepath_Join_name [OF assms(1)] by blast
  then show ?thesis using assms(2,3) by simp
qed

section \<open>Files\<close>

text \<open>
  The disk has the files and their contents; \<open>outside\<close> is the rest of the world. A call
  on a file that the system refuses changes no file.
\<close>

record 'w disk =
  files :: "(string \<times> byte list) list"
  outside :: 'w

datatype os_call = OsMkdirAll string | OsRemove string | OsWriteFile string | OsReadFile string

text \<open>
  \<open>os_answer\<close> is the error of the system, or none; \<open>glob_pattern\<close> is \<open>filepath.Glob\<close> on the
  names of the files, for the patterns that are not a path with one star at its end part.
\<close>

record 'w os =
  os_answer :: "os_call \<Rightarrow> ('w, unit) op"
  glob_pattern :: "string \<Rightarrow> string list \<Rightarrow> string list res"

text \<open>An operation of the world outside, on the disk.\<close>

definition at_outside :: "('w, 'a) op \<Rightarrow> (('w, 'z) disk_scheme, 'a) op" where
  "at_outside m s = (case m (outside s) of (r, w) \<Rightarrow> (r, s\<lparr>outside := w\<rparr>))"

definition os_MkdirAll :: "('w, 'y) os_scheme \<Rightarrow> string \<Rightarrow> (('w, 'z) disk_scheme, unit) op" where
  "os_MkdirAll E dir = at_outside (os_answer E (OsMkdirAll dir))"

definition ioutil_ReadFile :: "('w, 'y) os_scheme \<Rightarrow> string \<Rightarrow> (('w, 'z) disk_scheme, byte list) op" where
  "ioutil_ReadFile E name =
     op_bind (at_outside (os_answer E (OsReadFile name))) (\<lambda>_ s.
       (case map_of (files s) name of None \<Rightarrow> Inl (NewError ''no such file or directory'') | Some data \<Rightarrow> Inr data, s))"

definition ioutil_WriteFile :: "('w, 'y) os_scheme \<Rightarrow> string \<Rightarrow> byte list \<Rightarrow> (('w, 'z) disk_scheme, unit) op" where
  "ioutil_WriteFile E name data =
     op_bind (at_outside (os_answer E (OsWriteFile name))) (\<lambda>_ s. (Inr (), s\<lparr>files := AList.update name data (files s)\<rparr>))"

definition os_Remove :: "('w, 'y) os_scheme \<Rightarrow> string \<Rightarrow> (('w, 'z) disk_scheme, unit) op" where
  "os_Remove E name =
     op_bind (at_outside (os_answer E (OsRemove name))) (\<lambda>_ s.
       if map_of (files s) name = None then (Inl (NewError ''no such file or directory''), s)
       else (Inr (), s\<lparr>files := AList.delete name (files s)\<rparr>))"

definition glob_meta :: "char \<Rightarrow> bool" where
  "glob_meta c \<longleftrightarrow> c \<in> {CHR ''*'', CHR ''?'', CHR ''['', CHR 0x5C}"

text \<open>A star stands for any text without a separator.\<close>

definition star_match :: "string \<Rightarrow> string \<Rightarrow> string \<Rightarrow> bool" where
  "star_match before after name \<longleftrightarrow>
     length before + length after \<le> length name \<and> take (length before) name = before \<and>
     drop (length name - length after) name = after \<and>
     CHR ''/'' \<notin> set (take (length name - length after - length before) (drop (length before) name))"

definition filepath_Glob :: "('w, 'y) os_scheme \<Rightarrow> string \<Rightarrow> (('w, 'z) disk_scheme, string list) op" where
  "filepath_Glob E pattern s =
     (let (before, after) = cut (CHR ''*'') pattern; names = map fst (files s)
      in if filter glob_meta pattern = ''*'' \<and> CHR ''/'' \<notin> set after
         then (Inr (filter (star_match before after) names), s)
         else (glob_pattern E pattern names, s))"

section \<open>Facts\<close>

lemma at_outside_files: "at_outside m s = (r, s') \<Longrightarrow> files s' = files s"
  by (auto simp: at_outside_def split: prod.splits)

lemma at_outside_eq: "at_outside m s = (r, s') \<longleftrightarrow> (\<exists>w. m (outside s) = (r, w) \<and> s' = s\<lparr>outside := w\<rparr>)"
  by (auto simp: at_outside_def split: prod.splits)

lemma ioutil_ReadFile_Inr:
  assumes "\<And>w. os_answer E (OsReadFile name) w = (Inr (), w)" "map_of (files s) name = Some data"
  shows "ioutil_ReadFile E name s = (Inr data, s)"
  using assms by (simp add: ioutil_ReadFile_def op_bind_def at_outside_def)

lemma ioutil_WriteFile_files:
  "ioutil_WriteFile E name data s = (r, s') \<Longrightarrow>
    map_of (files s') = (if is_ok r then (map_of (files s))(name \<mapsto> data) else map_of (files s))"
  by (auto simp: ioutil_WriteFile_def op_bind_def at_outside_def update_conv' split: prod.splits sum.splits)

lemma os_Remove_files:
  "os_Remove E name s = (r, s') \<Longrightarrow> other \<noteq> name \<Longrightarrow> map_of (files s') other = map_of (files s) other"
  by (auto simp: os_Remove_def op_bind_def at_outside_def delete_conv' split: prod.splits sum.splits if_splits)

end
