(* ===== verification/Vcr.thy ===== *)
theory Vcr
  imports Go_Files
begin

text \<open>
  The vendored \<open>keybase/vcr\<close>: an HTTP client that makes requests, or makes them and keeps
  the responses in files, or answers them from those files. A response is filed under the
  hash of its request and the number of requests with that hash before it.
\<close>

section \<open>Requests and responses\<close>

record http_request =
  rq_Method :: string
  rq_URL :: string
  rq_Header :: "(string \<times> string) list"
  rq_Body :: string

text \<open>The body of a response is what reading it to its end gives.\<close>

record http_response =
  rs_StatusCode :: int
  rs_Body :: "string res"

text \<open>The form of \<open>PostForm\<close> is used through \<open>Encode\<close> only; the encoded text stands for it.\<close>

datatype http_call = CallDo http_request | CallGet string | CallPostForm string string

text \<open>
  What \<open>http.DefaultClient\<close> returns: an error, or a response, or both, when a redirect that
  answered the request is not followed. A caller that looks at the error first sees \<open>answered\<close>.
\<close>

type_synonym http_answer = "http_response \<times> go_error option"

definition answered :: "http_answer \<Rightarrow> http_response res" where
  "answered a = (case snd a of None \<Rightarrow> Inr (fst a) | Some e \<Rightarrow> Inl e)"

text \<open>
  \<open>net_Do\<close> is \<open>http.DefaultClient\<close>, its error \<open>Inl\<close> when there is no response; the dumps of
  requests and responses are those of \<open>net/http/httputil\<close>, and \<open>ReadResponse\<close> is of \<open>net/http\<close>.
\<close>

record 'w http_env = "'w os" +
  hc_crypto :: go_crypto
  net_Do :: "http_call \<Rightarrow> ('w, http_answer) op"
  DumpRequestOut :: "http_request \<Rightarrow> byte list res"
  DumpResponse :: "http_response \<Rightarrow> byte list res"
  ReadResponse :: "byte list \<Rightarrow> http_response res"

text \<open>
  The law of the dump and the reader of responses, for the responses that the network gives to
  the requests \<open>GET\<close> and \<open>POST\<close>: a response that was written is read back. (The body of an
  answer to \<open>HEAD\<close> could not be.)
\<close>

fun body_call :: "http_call \<Rightarrow> bool" where
  "body_call (CallDo req) \<longleftrightarrow> rq_Method req \<in> {''GET'', ''POST''}"
| "body_call _ \<longleftrightarrow> True"

definition responses_ok :: "('w, 'y) http_env_scheme \<Rightarrow> bool" where
  "responses_ok E \<longleftrightarrow> (\<forall>c w resp e w' enc. body_call c \<longrightarrow> net_Do E c w = (Inr (resp, e), w') \<longrightarrow>
     DumpResponse E resp = Inr enc \<longrightarrow> ReadResponse E enc = Inr resp)"

section \<open>The recorder\<close>

datatype vcr_mode = NoMode | Play | Record | Live

record VCR =
  vc_dir :: string
  vc_mode :: vcr_mode
  vc_seqno :: "string \<Rightarrow> nat"

definition vcr_New :: "string \<Rightarrow> VCR" where
  "vcr_New dir = \<lparr>vc_dir = dir, vc_mode = Play, vc_seqno = (\<lambda>_. 0)\<rparr>"

definition vcr_Record :: "VCR \<Rightarrow> VCR" where "vcr_Record v = v\<lparr>vc_mode := Record\<rparr>"
definition vcr_Live :: "VCR \<Rightarrow> VCR" where "vcr_Live v = v\<lparr>vc_mode := Live\<rparr>"
definition vcr_Play :: "VCR \<Rightarrow> VCR" where "vcr_Play v = v\<lparr>vc_mode := Play, vc_seqno := (\<lambda>_. 0)\<rparr>"
definition vcr_IsPlayback :: "VCR \<Rightarrow> bool" where "vcr_IsPlayback v \<longleftrightarrow> vc_mode v = Play"
definition vcr_IsRecording :: "VCR \<Rightarrow> bool" where "vcr_IsRecording v \<longleftrightarrow> vc_mode v = Record"
definition vcr_IsLive :: "VCR \<Rightarrow> bool" where "vcr_IsLive v \<longleftrightarrow> vc_mode v = Live"

definition vcr_SetDir :: "string \<Rightarrow> VCR \<Rightarrow> VCR" where
  "vcr_SetDir dir v = v\<lparr>vc_dir := dir, vc_seqno := (\<lambda>_. 0)\<rparr>"

definition vcr_incSeqno :: "string \<Rightarrow> VCR \<Rightarrow> VCR" where
  "vcr_incSeqno hash v = v\<lparr>vc_seqno := (vc_seqno v)(hash := vc_seqno v hash + 1)\<rparr>"

text \<open>The name under the directory, and the whole path.\<close>

definition vcr_name :: "string \<Rightarrow> string \<Rightarrow> nat \<Rightarrow> string" where
  "vcr_name prefix hash n = prefix @ ''_'' @ hash @ ''_'' @ show_nat n @ ''.vcr''"

definition vcr_filename :: "VCR \<Rightarrow> string \<Rightarrow> string \<Rightarrow> string" where
  "vcr_filename v prefix hash = filepath_Join [vc_dir v, vcr_name prefix hash (vc_seqno v hash)]"

definition reqHash :: "('w, 'y) http_env_scheme \<Rightarrow> http_request \<Rightarrow> string res" where
  "reqHash E req = and_then (DumpRequestOut E req) (\<lambda>dump. Inr (hex_EncodeToString (sha256 (hc_crypto E) dump)))"

definition urlHash :: "('w, 'y) http_env_scheme \<Rightarrow> string \<Rightarrow> string res" where
  "urlHash E url = Inr (hex_EncodeToString (sha256 (hc_crypto E) (map byte_of url)))"

definition formHash :: "('w, 'y) http_env_scheme \<Rightarrow> string \<Rightarrow> string \<Rightarrow> string res" where
  "formHash E url data = Inr (hex_EncodeToString (sha256 (hc_crypto E) (map byte_of url @ map byte_of data)))"

definition vcr_play :: "('w, 'y) http_env_scheme \<Rightarrow> string \<Rightarrow> (('w, 'z) disk_scheme, http_response) op" where
  "vcr_play E filename = op_bind (ioutil_ReadFile E filename) (\<lambda>data. op_lift (ReadResponse E data))"

definition vcr_live :: "('w, 'y) http_env_scheme \<Rightarrow> http_call \<Rightarrow> (('w, 'z) disk_scheme, http_answer) op" where
  "vcr_live E call = at_outside (net_Do E call)"

text \<open>
  A response is kept whether or not an error came with it; the error of the request goes before
  one of the file.
\<close>

definition vcr_writeResponse ::
  "('w, 'y) http_env_scheme \<Rightarrow> http_response \<Rightarrow> string \<Rightarrow> go_error option \<Rightarrow> (('w, 'z) disk_scheme, http_answer) op" where
  "vcr_writeResponse E resp filename reqErr s =
     (let failed = (\<lambda>fault. Inl (case reqErr of None \<Rightarrow> fault | Some e \<Rightarrow> e)) in
      case DumpResponse E resp of
        Inl fault \<Rightarrow> (failed fault, s)
      | Inr enc \<Rightarrow>
          (case ioutil_WriteFile E filename enc s of
             (Inl fault, s') \<Rightarrow> (failed fault, s')
           | (Inr _, s') \<Rightarrow> (Inr (resp, reqErr), s')))"

definition vcr_recorded ::
  "('w, 'y) http_env_scheme \<Rightarrow> http_call \<Rightarrow> string \<Rightarrow> (('w, 'z) disk_scheme, http_answer) op" where
  "vcr_recorded E call filename = op_bind (vcr_live E call) (\<lambda>(resp, reqErr). vcr_writeResponse E resp filename reqErr)"

text \<open>
  What the three methods share: the file is named, the request answered in the mode of the
  recorder, and the number of the request counted, whatever the answer. The callers, horizon's
  client and the tests, look at the error first.
\<close>

definition vcr_request ::
  "('w, 'y) http_env_scheme \<Rightarrow> string \<Rightarrow> string res \<Rightarrow> http_call \<Rightarrow> (VCR \<times> ('w, 'z) disk_scheme, http_response) op" where
  "vcr_request E prefix hash_or call vs =
     (case (hash_or, vs) of
        (Inl e, _) \<Rightarrow> (Inl e, vs)
      | (Inr hash, v, s) \<Rightarrow>
          let filename = vcr_filename v prefix hash;
              (r, s') = (case vc_mode v of
                  Play \<Rightarrow> vcr_play E filename s
                | Record \<Rightarrow> op_bind (vcr_recorded E call filename) (\<lambda>a. op_lift (answered a)) s
                | Live \<Rightarrow> op_bind (vcr_live E call) (\<lambda>a. op_lift (answered a)) s
                | NoMode \<Rightarrow> (Inl (NewError ''invalid mode''), s))
          in (r, vcr_incSeqno hash v, s'))"

definition vcr_Do :: "('w, 'y) http_env_scheme \<Rightarrow> http_request \<Rightarrow> (VCR \<times> ('w, 'z) disk_scheme, http_response) op" where
  "vcr_Do E req = vcr_request E ''do'' (reqHash E req) (CallDo req)"

definition vcr_Get :: "('w, 'y) http_env_scheme \<Rightarrow> string \<Rightarrow> (VCR \<times> ('w, 'z) disk_scheme, http_response) op" where
  "vcr_Get E url = vcr_request E ''get'' (urlHash E url) (CallGet url)"

definition vcr_PostForm ::
  "('w, 'y) http_env_scheme \<Rightarrow> string \<Rightarrow> string \<Rightarrow> (VCR \<times> ('w, 'z) disk_scheme, http_response) op" where
  "vcr_PostForm E url data = vcr_request E ''postform'' (formHash E url data) (CallPostForm url data)"

text \<open>A client that makes requests one after the other, and keeps on after a failure.\<close>

fun vcr_call :: "('w, 'y) http_env_scheme \<Rightarrow> http_call \<Rightarrow> (VCR \<times> ('w, 'z) disk_scheme, http_response) op" where
  "vcr_call E (CallDo req) = vcr_Do E req"
| "vcr_call E (CallGet url) = vcr_Get E url"
| "vcr_call E (CallPostForm url data) = vcr_PostForm E url data"

fun vcr_calls ::
  "('w, 'y) http_env_scheme \<Rightarrow> http_call list \<Rightarrow> VCR \<times> ('w, 'z) disk_scheme \<Rightarrow> http_response res list \<times> VCR \<times> ('w, 'z) disk_scheme" where
  "vcr_calls E [] vs = ([], vs)"
| "vcr_calls E (c # cs) vs =
     (let (r, vs) = vcr_call E c vs; (rs, vs) = vcr_calls E cs vs in (r # rs, vs))"

section \<open>Names of files\<close>

lemma hex_text_plain [simp]: "CHR ''_'' \<notin> set (hex_EncodeToString bs)" "CHR ''/'' \<notin> set (hex_EncodeToString bs)"
  using hex_text_chars [of bs] by (auto simp: hex_digits_def)

lemma append_sep_inject:
  "c \<notin> set a \<Longrightarrow> c \<notin> set b \<Longrightarrow> a @ c # x = b @ c # y \<longleftrightarrow> a = b \<and> x = y"
proof (induction a arbitrary: b)
  case Nil
  then show ?case by (cases b) auto
next
  case (Cons d a)
  then show ?case by (cases b) auto
qed

text \<open>Where a request is filed.\<close>

fun call_slot :: "('w, 'y) http_env_scheme \<Rightarrow> http_call \<Rightarrow> string \<times> string res" where
  "call_slot E (CallDo req) = (''do'', reqHash E req)"
| "call_slot E (CallGet url) = (''get'', urlHash E url)"
| "call_slot E (CallPostForm url data) = (''postform'', formHash E url data)"

definition slot_name :: "string \<Rightarrow> bool" where
  "slot_name p \<longleftrightarrow> CHR ''_'' \<notin> set p \<and> CHR ''/'' \<notin> set p"

lemma vcr_call_slot: "vcr_call E c = vcr_request E (fst (call_slot E c)) (snd (call_slot E c)) c"
  by (cases c) (simp_all add: vcr_Do_def vcr_Get_def vcr_PostForm_def)

lemma call_slot_names: "slot_name (fst (call_slot E c))" "snd (call_slot E c) = Inr h \<Longrightarrow> slot_name h"
  by (cases c; auto simp: slot_name_def reqHash_def urlHash_def formHash_def and_then_eq_Inr)+

lemma vcr_name_inject:
  "slot_name p \<Longrightarrow> slot_name h \<Longrightarrow> slot_name p' \<Longrightarrow> slot_name h' \<Longrightarrow>
    vcr_name p h n = vcr_name p' h' n' \<longleftrightarrow> p = p' \<and> h = h' \<and> n = n'"
  by (simp add: vcr_name_def slot_name_def append_sep_inject show_nat_inject)

lemma plain_vcr_name: "slot_name p \<Longrightarrow> slot_name h \<Longrightarrow> plain_name (vcr_name p h n)"
  using show_nat_digits [of n]
  by (auto simp: plain_name_def vcr_name_def slot_name_def is_digit_iff append_eq_Cons_conv Cons_eq_append_conv)

definition vcr_path :: "string \<Rightarrow> string \<Rightarrow> string \<Rightarrow> nat \<Rightarrow> string" where
  "vcr_path dir p h n = filepath_Join [dir, vcr_name p h n]"

lemma vcr_path_inject:
  assumes "dir \<noteq> []" "slot_name p" "slot_name h" "slot_name p'" "slot_name h'"
  shows "vcr_path dir p h n = vcr_path dir p' h' n' \<longleftrightarrow> p = p' \<and> h = h' \<and> n = n'"
  using assms by (simp add: vcr_path_def filepath_Join_inject plain_vcr_name vcr_name_inject)

section \<open>Recording and playing back\<close>

text \<open>The system lets files be read.\<close>

definition reads_ok :: "('w, 'y) os_scheme \<Rightarrow> bool" where
  "reads_ok E \<longleftrightarrow> (\<forall>name w. os_answer E (OsReadFile name) w = (Inr (), w))"

lemma record_step:
  assumes "vc_mode v = Record" "vcr_request E p (Inr h) c (v, s) = (r, v', s')"
  shows "v' = vcr_incSeqno h v"
    and "x \<noteq> vcr_path (vc_dir v) p h (vc_seqno v h) \<Longrightarrow> map_of (files s') x = map_of (files s) x"
    and "r = Inr resp \<Longrightarrow>
      \<exists>enc. DumpResponse E resp = Inr enc \<and> map_of (files s') (vcr_path (vc_dir v) p h (vc_seqno v h)) = Some enc"
    and "r = Inr resp \<Longrightarrow> \<exists>w w'. net_Do E c w = (Inr (resp, None), w')"
  using assms
  by (auto simp: vcr_request_def vcr_recorded_def vcr_writeResponse_def vcr_live_def vcr_filename_def vcr_path_def Let_def
      op_bind_def answered_def at_outside_eq split: prod.splits sum.splits option.splits dest!: ioutil_WriteFile_files)
    blast+

lemma play_step:
  assumes "reads_ok E" "vc_mode q = Play"
  shows "\<exists>r. vcr_request E p (Inr h) c (q, t) = (r, vcr_incSeqno h q, t)"
    and "responses_ok E \<Longrightarrow> body_call c \<Longrightarrow> net_Do E c w = (Inr (resp, e), w') \<Longrightarrow> DumpResponse E resp = Inr enc \<Longrightarrow>
      map_of (files t) (vcr_path (vc_dir q) p h (vc_seqno q h)) = Some enc \<Longrightarrow>
      vcr_request E p (Inr h) c (q, t) = (Inr resp, vcr_incSeqno h q, t)"
  using assms
  by (auto simp: vcr_request_def vcr_play_def vcr_filename_def vcr_path_def Let_def op_bind_def ioutil_ReadFile_def reads_ok_def
      responses_ok_def at_outside_def split: prod.splits sum.splits option.splits)
    blast

text \<open>A request that was counted keeps its file.\<close>

lemma recorded_files_kept:
  assumes "vc_mode v = Record" "vc_dir v \<noteq> []" "vcr_calls E cs (v, s) = (rs, v', s')"
    and "slot_name p" "slot_name h" "n < vc_seqno v h"
  shows "map_of (files s') (vcr_path (vc_dir v) p h n) = map_of (files s) (vcr_path (vc_dir v) p h n)"
  using assms
proof (induction cs arbitrary: v s rs)
  case (Cons c cs)
  show ?case
  proof (cases "snd (call_slot E c)")
    case (Inl e)
    then show ?thesis
      using Cons.IH [OF Cons.prems(1,2) _ Cons.prems(4-6)] Cons.prems(3) by (auto simp: vcr_call_slot vcr_request_def split: prod.splits)
  next
    case (Inr k)
    obtain r v1 s1 rs1 where first: "vcr_request E (fst (call_slot E c)) (Inr k) c (v, s) = (r, v1, s1)"
      and rest: "vcr_calls E cs (v1, s1) = (rs1, v', s')"
      using Cons.prems(3) Inr by (auto simp: vcr_call_slot split: prod.splits)
    note v1 = record_step(1) [OF Cons.prems(1) first]
    have "vcr_path (vc_dir v) p h n \<noteq> vcr_path (vc_dir v) (fst (call_slot E c)) k (vc_seqno v k)"
      using vcr_path_inject [OF Cons.prems(2,4,5) call_slot_names(1) [of E c] call_slot_names(2) [OF Inr]] Cons.prems(6) by auto
    with record_step(2) [OF Cons.prems(1) first]
    have "map_of (files s1) (vcr_path (vc_dir v) p h n) = map_of (files s) (vcr_path (vc_dir v) p h n)" by blast
    moreover have "map_of (files s') (vcr_path (vc_dir v1) p h n) = map_of (files s1) (vcr_path (vc_dir v1) p h n)"
      by (rule Cons.IH [OF _ _ rest Cons.prems(4,5)]) (use Cons.prems in \<open>auto simp: v1 vcr_incSeqno_def\<close>)
    ultimately show ?thesis by (simp add: v1 vcr_incSeqno_def)
  qed
qed simp

text \<open>
  What was recorded is played back: after requests in recording mode, the same requests
  in playback mode on the files left give every response that was obtained without an error,
  in order, without touching the network or the files.
\<close>

theorem vcr_plays_back:
  assumes "responses_ok E" and "reads_ok E" and "vc_mode v = Record" and "vc_dir v \<noteq> []"
    and "list_all body_call cs" and "vcr_calls E cs (v, s) = (rs, v', s')" and "map_of (files t) = map_of (files s')"
  shows "\<exists>rs'. vcr_calls E cs (v\<lparr>vc_mode := Play\<rparr>, t) = (rs', v'\<lparr>vc_mode := Play\<rparr>, t) \<and>
    list_all2 (\<lambda>r r'. is_ok r \<longrightarrow> r' = r) rs rs'"
  using assms(3-)
proof (induction cs arbitrary: v s rs)
  case (Cons c cs)
  have calls: "body_call c" "list_all body_call cs" using Cons.prems(3) by simp_all
  show ?case
  proof (cases "snd (call_slot E c)")
    case (Inl e)
    obtain rs1 where rs: "rs = Inl e # rs1" "vcr_calls E cs (v, s) = (rs1, v', s')"
      using Cons.prems(4) Inl by (auto simp: vcr_call_slot vcr_request_def split: prod.splits)
    from Cons.IH [OF Cons.prems(1,2) calls(2) rs(2) Cons.prems(5)] show ?thesis
      using Inl by (auto simp: rs(1) vcr_call_slot vcr_request_def)
  next
    case (Inr k)
    let ?p = "fst (call_slot E c)" and ?q = "v\<lparr>vc_mode := Play\<rparr>"
    obtain r v1 s1 rs1 where first: "vcr_request E ?p (Inr k) c (v, s) = (r, v1, s1)"
      and rest: "vcr_calls E cs (v1, s1) = (rs1, v', s')" and rs: "rs = r # rs1"
      using Cons.prems(4) Inr by (auto simp: vcr_call_slot split: prod.splits)
    have v1: "v1 = vcr_incSeqno k v" by (rule record_step(1) [OF Cons.prems(1) first])
    have rec1: "vc_mode v1 = Record" "vc_dir v1 = vc_dir v" "vc_dir v1 \<noteq> []" "vc_seqno v k < vc_seqno v1 k"
      using Cons.prems by (simp_all add: v1 vcr_incSeqno_def)
    have inc: "vcr_incSeqno k ?q = v1\<lparr>vc_mode := Play\<rparr>" by (simp add: v1 vcr_incSeqno_def)
    have q: "vc_mode ?q = Play" by simp
    obtain r' where play: "vcr_request E ?p (Inr k) c (?q, t) = (r', v1\<lparr>vc_mode := Play\<rparr>, t)"
      using play_step(1) [OF assms(2) q, of ?p k c t] by (auto simp only: inc)
    have "r' = r" if ok: "r = Inr resp" for resp
    proof -
      obtain enc where enc: "DumpResponse E resp = Inr enc" "map_of (files s1) (vcr_path (vc_dir v) ?p k (vc_seqno v k)) = Some enc"
        using record_step(3) [OF Cons.prems(1) first ok] by blast
      have "map_of (files t) (vcr_path (vc_dir v) ?p k (vc_seqno v k)) = Some enc"
        using recorded_files_kept [OF rec1(1,3) rest call_slot_names(1) [of E c] call_slot_names(2) [OF Inr] rec1(4)] enc(2)
        by (simp add: rec1(2) Cons.prems(5))
      moreover obtain w w' where "net_Do E c w = (Inr (resp, None), w')" using record_step(4) [OF Cons.prems(1) first ok] by blast
      ultimately have "vcr_request E ?p (Inr k) c (?q, t) = (Inr resp, vcr_incSeqno k ?q, t)"
        using play_step(2) [OF assms(2) q assms(1) calls(1) _ enc(1)] by simp
      with play show ?thesis by (simp add: ok)
    qed
    moreover obtain rs' where "vcr_calls E cs (v1\<lparr>vc_mode := Play\<rparr>, t) = (rs', v'\<lparr>vc_mode := Play\<rparr>, t)"
        "list_all2 (\<lambda>r r'. is_ok r \<longrightarrow> r' = r) rs1 rs'"
      using Cons.IH [OF rec1(1,3) calls(2) rest Cons.prems(5)] by blast
    ultimately show ?thesis by (auto simp: vcr_call_slot Inr play rs is_ok_iff)
  qed
qed simp

end
