(* ===== verification/Test_Client.thy ===== *)
theory Test_Client
  imports Vcr
begin

unbundle bit_operations_syntax

text \<open>
  \<open>testclient/testclient.go\<close>: the helper of the package's own tests. A test is recorded
  against the test network, with fresh keys that are saved, and later played back from the
  files. A call of \<open>t.Fatal\<close> ends the test: it is the error of the operation. What \<open>t.Logf\<close>
  prints is left out.
\<close>

section \<open>The state of a test\<close>

record TestConfig =
  AliceSeed :: string
  BobSeed :: string
  CharlieSeed :: string
  RebeccaSeed :: string
  IssuerSeed :: string
  DistributorSeed :: string
  tc_AssetCode :: string

record Helper =
  h_Config :: "TestConfig option"
  Alice :: "KP option"
  Bob :: "KP option"
  Charlie :: "KP option"
  Rebecca :: "KP option"
  Issuer :: "KP option"
  Distributor :: "KP option"

text \<open>
  \<open>rand_Read\<close> gives the 32 bytes that \<open>keypair.Random\<close> reads, \<open>rand_Intn\<close> is of \<open>math/rand\<close>;
  the two JSON functions are \<open>json.Marshal\<close> and \<open>json.Unmarshal\<close> at a \<open>TestConfig\<close>.
\<close>

record 'w test_env = "'w http_env" +
  rand_Read :: "('w, byte list) op"
  rand_Intn :: "nat \<Rightarrow> 'w \<Rightarrow> nat \<times> 'w"
  json_Marshal :: "TestConfig \<Rightarrow> byte list res"
  json_Unmarshal :: "byte list \<Rightarrow> TestConfig res"

text \<open>The flags and the package variable \<open>tvcr\<close>; the client of a test has the same recorder.\<close>

record 'w test_state = "'w disk" +
  flag_live :: bool
  flag_record :: bool
  tvcr :: "VCR option"

section \<open>Keys\<close>

definition NewHelper :: Helper where
  "NewHelper = \<lparr>h_Config = None, Alice = None, Bob = None, Charlie = None, Rebecca = None, Issuer = None, Distributor = None\<rparr>"

definition fullFromSeed :: "go_crypto \<Rightarrow> string \<Rightarrow> KP res" where
  "fullFromSeed C seed =
     and_then (keypair_Parse C seed) (\<lambda>kp.
       case kp of
         Full _ _ _ _ \<Rightarrow> Inr kp
       | FromAddress _ _ \<Rightarrow> Inl (Errorf ''keypair not full: %T'' [AStr ''*keypair.FromAddress'']))"

definition setConfig :: "go_crypto \<Rightarrow> TestConfig \<Rightarrow> Helper \<Rightarrow> Helper res" where
  "setConfig C c h =
     (let h = h\<lparr>h_Config := Some c\<rparr> in
      and_then (fullFromSeed C (AliceSeed c)) (\<lambda>kp. let h = h\<lparr>Alice := Some kp\<rparr> in
      and_then (fullFromSeed C (BobSeed c)) (\<lambda>kp. let h = h\<lparr>Bob := Some kp\<rparr> in
      and_then (fullFromSeed C (CharlieSeed c)) (\<lambda>kp. let h = h\<lparr>Charlie := Some kp\<rparr> in
      and_then (fullFromSeed C (RebeccaSeed c)) (\<lambda>kp. let h = h\<lparr>Rebecca := Some kp\<rparr> in
      and_then (fullFromSeed C (IssuerSeed c)) (\<lambda>kp. let h = h\<lparr>Issuer := Some kp\<rparr> in
      and_then (fullFromSeed C (DistributorSeed c)) (\<lambda>kp. Inr (h\<lparr>Distributor := Some kp\<rparr>))))))))"

text \<open>\<open>crypto/hmac\<close> with SHA-256, whose block has 64 bytes.\<close>

definition hmac_sha256 :: "go_crypto \<Rightarrow> byte list \<Rightarrow> byte list \<Rightarrow> byte list" where
  "hmac_sha256 C key m =
     (let key = (if 64 < length key then sha256 C key else key);
          block = key @ replicate (64 - length key) 0
      in sha256 C (map (\<lambda>b. b XOR 0x5c) block @ sha256 C (map (\<lambda>b. b XOR 0x36) block @ m)))"

definition Helper_Keypair :: "go_crypto \<Rightarrow> Helper \<Rightarrow> string \<Rightarrow> KP res" where
  "Helper_Keypair C h name =
     and_then (deref (Alice h)) (\<lambda>alice.
       let out = hmac_sha256 C (map byte_of (kp_Seed alice)) (map byte_of name) in
       if min 32 (length out) \<noteq> 32 then Inl (NewError ''whoops'')
       else newFullFromRawSeed C (take 32 out))"

definition newSeed :: "('w, 'y) test_env_scheme \<Rightarrow> (('w, 'z) disk_scheme, string) op" where
  "newSeed E =
     op_bind (at_outside (rand_Read E)) (\<lambda>rawSeed.
     op_bind (op_lift (newFullFromRawSeed (hc_crypto E) rawSeed)) (\<lambda>kp. op_return (kp_Seed kp)))"

definition letters :: string where "letters = ''ABCDEFGHIJKLMNOPQRSTUVWXYZ''"

fun random_letters :: "('w, 'y) test_env_scheme \<Rightarrow> nat \<Rightarrow> 'w \<Rightarrow> string \<times> 'w" where
  "random_letters E 0 w = ([], w)"
| "random_letters E (Suc n) w =
     (let (i, w) = rand_Intn E (length letters) w; (b, w) = random_letters E n w in (letters ! i # b, w))"

definition RandomAssetCode :: "('w, 'y) test_env_scheme \<Rightarrow> (('w, 'z) disk_scheme, string) op" where
  "RandomAssetCode E s = (let (b, w) = random_letters E 4 (outside s) in (Inr b, s\<lparr>outside := w\<rparr>))"

section \<open>Recording and playing back a test\<close>

definition newConfig :: "('w, 'y) test_env_scheme \<Rightarrow> (('w, 'z) disk_scheme, TestConfig) op" where
  "newConfig E =
     op_bind (newSeed E) (\<lambda>a. op_bind (newSeed E) (\<lambda>b. op_bind (newSeed E) (\<lambda>c.
     op_bind (newSeed E) (\<lambda>r. op_bind (newSeed E) (\<lambda>i. op_bind (newSeed E) (\<lambda>d.
     op_bind (RandomAssetCode E) (\<lambda>code.
       op_return \<lparr>AliceSeed = a, BobSeed = b, CharlieSeed = c, RebeccaSeed = r, IssuerSeed = i, DistributorSeed = d,
         tc_AssetCode = code\<rparr>)))))))"

definition loadConfig :: "('w, 'y) test_env_scheme \<Rightarrow> string \<Rightarrow> ('w test_state, TestConfig) op" where
  "loadConfig E subdir s =
     (let filename = filepath_Join [''testdata'', subdir, ''config.json''] in
      if flag_live s \<or> flag_record s then
        op_bind (newConfig E) (\<lambda>conf s.
          if flag_record s then
            op_bind (op_lift (json_Marshal E conf)) (\<lambda>data.
            op_bind (ioutil_WriteFile E filename data) (\<lambda>_. op_return conf)) s
          else (Inr conf, s)) s
      else
        op_bind (ioutil_ReadFile E filename) (\<lambda>data. op_lift (json_Unmarshal E data)) s)"

text \<open>The errors of \<open>os.Remove\<close> are not looked at.\<close>

fun remove_files :: "('w, 'y) os_scheme \<Rightarrow> string list \<Rightarrow> ('w, 'z) disk_scheme \<Rightarrow> ('w, 'z) disk_scheme" where
  "remove_files E [] s = s"
| "remove_files E (e # existing) s = remove_files E existing (snd (os_Remove E e s))"

definition clear_recorded :: "('w, 'y) os_scheme \<Rightarrow> string \<Rightarrow> ('w test_state, unit) op" where
  "clear_recorded E dir s =
     (if flag_record s then
        op_bind (filepath_Glob E (filepath_Join [dir, ''*.vcr''])) (\<lambda>existing s. (Inr (), remove_files E existing s)) s
      else (Inr (), s))"

definition on_tvcr :: "(VCR \<Rightarrow> VCR) \<Rightarrow> ('w test_state, unit) op" where
  "on_tvcr f s = (case deref (tvcr s) of Inl e \<Rightarrow> (Inl e, s) | Inr v \<Rightarrow> (Inr (), s\<lparr>tvcr := Some (f v)\<rparr>))"

definition SetState :: "('w, 'y) test_env_scheme \<Rightarrow> string \<Rightarrow> Helper \<Rightarrow> ('w test_state, Helper) op" where
  "SetState E name h =
     (let dir = filepath_Join [''testdata'', name] in
      op_bind (os_MkdirAll E dir) (\<lambda>_.
      op_bind (loadConfig E name) (\<lambda>conf.
      op_bind (clear_recorded E dir) (\<lambda>_.
      op_bind (op_lift (setConfig (hc_crypto E) conf h)) (\<lambda>h.
      op_bind (on_tvcr (vcr_SetDir dir)) (\<lambda>_. op_return h))))))"

text \<open>The URL of the client, and its recorder.\<close>

definition testClient :: "bool \<Rightarrow> bool \<Rightarrow> string \<times> VCR" where
  "testClient live rec =
     (let v = vcr_New ''testdata'';
          v = (if rec then vcr_Record v else if live then vcr_Live v else v)
      in (''https://horizon-testnet.stellar.org'', v))"

definition TestNetworkPassphrase :: string where
  "TestNetworkPassphrase = ''Test SDF Network ; September 2015''"

definition Setup :: "('w, 'y) test_env_scheme \<Rightarrow> ('w test_state, Helper \<times> string \<times> string) op" where
  "Setup E s =
     (let (client, v) = testClient (flag_live s) (flag_record s); s = s\<lparr>tvcr := Some v\<rparr> in
      op_bind (loadConfig E []) (\<lambda>conf.
      op_bind (op_lift (setConfig (hc_crypto E) conf NewHelper)) (\<lambda>h.
        op_return (h, client, TestNetworkPassphrase))) s)"

text \<open>\<open>http.Get\<close>, whose error is looked at first.\<close>

definition http_Get :: "('w, 'y) http_env_scheme \<Rightarrow> string \<Rightarrow> (('w, 'z) disk_scheme, http_response) op" where
  "http_Get E url = op_bind (at_outside (net_Do E (CallGet url))) (\<lambda>a. op_lift (answered a))"

fun friendbot_loop :: "('w, 'y) test_env_scheme \<Rightarrow> string \<Rightarrow> nat \<Rightarrow> ('w test_state, unit) op" where
  "friendbot_loop E url 0 s = (Inl (NewError ''friendbot failed''), s)"
| "friendbot_loop E url (Suc n) s =
     op_bind (http_Get E url) (\<lambda>resp.
     op_bind (op_lift (rs_Body resp)) (\<lambda>body s.
       if rs_StatusCode resp = 200 then (Inr (), s) else friendbot_loop E url n s)) s"

definition GetTestLumens :: "('w, 'y) test_env_scheme \<Rightarrow> KP \<Rightarrow> ('w test_state, unit) op" where
  "GetTestLumens E kp s =
     (if flag_record s \<or> flag_live s
      then friendbot_loop E (''https://friendbot.stellar.org/?addr='' @ kp_Address kp) 10 s
      else (Inr (), s))"

definition IsPlayback :: "'w test_state \<Rightarrow> bool res" where
  "IsPlayback s = and_then (deref (tvcr s)) (\<lambda>v. Inr (vcr_IsPlayback v))"

definition IsRecording :: "'w test_state \<Rightarrow> bool res" where
  "IsRecording s = and_then (deref (tvcr s)) (\<lambda>v. Inr (vcr_IsRecording v))"

definition IsLive :: "'w test_state \<Rightarrow> bool res" where
  "IsLive s = and_then (deref (tvcr s)) (\<lambda>v. Inr (vcr_IsLive v))"

section \<open>Names of files\<close>

lemma clean_steps_elems: "set (foldl (clean_step r) out elems) \<subseteq> set out \<union> set elems"
proof (induction elems arbitrary: out)
  case (Cons e elems)
  have "set (clean_step r out e) \<subseteq> insert e (set out)" by (auto simp: clean_step_def dest: in_set_butlastD)
  with Cons [of "clean_step r out e"] show ?case by fastforce
qed simp

lemma clean_steps_nonempty: "[] \<notin> set out \<Longrightarrow> [] \<notin> set (foldl (clean_step r) out elems)"
proof (induction elems arbitrary: out)
  case (Cons e elems)
  then have "[] \<notin> set (clean_step r out e)" by (auto simp: clean_step_def dest: in_set_butlastD)
  with Cons.IH show ?case by simp
qed simp

lemma split_sep_chars: "f \<in> set (split_sep P s) \<Longrightarrow> set f \<subseteq> set s"
  by (induction s arbitrary: f) (auto split: if_splits list.splits, fastforce+)

lemma Join_chars: "set (Join xs sep) \<subseteq> (\<Union>x \<in> set xs. set x) \<union> set sep"
  by (induction xs sep rule: Join.induct) auto

lemma filepath_Clean_chars: "set (filepath_Clean path) \<subseteq> insert (CHR ''/'') (insert (CHR ''.'') (set path))"
proof -
  let ?out = "\<lambda>r. foldl (clean_step r) [] (split_sep (\<lambda>c. c = CHR ''/'') path)"
  have "(\<Union>x \<in> set (?out r). set x) \<subseteq> set path" for r
    using clean_steps_elems [of r "[]" "split_sep (\<lambda>c. c = CHR ''/'') path"] split_sep_chars [of _ "\<lambda>c. c = CHR ''/''" path] by fastforce
  then have "set (Join (?out r) ''/'') \<subseteq> insert (CHR ''/'') (set path)" for r
    using Join_chars [of "?out r" "''/''"] by fastforce
  then show ?thesis by (auto simp: filepath_Clean_def Let_def)
qed

lemma filepath_Clean_not_Nil: "filepath_Clean path \<noteq> []"
proof -
  have "xs \<noteq> [] \<Longrightarrow> [] \<notin> set xs \<Longrightarrow> Join xs sep \<noteq> []" for xs sep by (induction xs sep rule: Join.induct) auto
  then show ?thesis using clean_steps_nonempty [of "[]"] by (auto simp: filepath_Clean_def Let_def)
qed

definition test_dir :: "string \<Rightarrow> string" where "test_dir name = filepath_Join [''testdata'', name]"

definition config_file :: "string \<Rightarrow> string" where "config_file name = filepath_Join [''testdata'', name, ''config.json'']"

lemma test_dir_Clean: "test_dir name = filepath_Clean (''testdata/'' @ name)"
  by (simp add: test_dir_def filepath_Join_def)

lemma config_file_suffix: "\<exists>p. config_file name = p @ ''config.json''"
proof -
  have "plain_name ''config.json''" by (simp add: plain_name_def)
  with filepath_Clean_name [of "''testdata/'' @ name"] have "\<exists>p. filepath_Clean ((''testdata/'' @ name) @ ''/'' @ ''config.json'') = p @ ''config.json''"
    by (metis append_is_Nil_conv list.distinct(1))
  then show ?thesis by (simp add: config_file_def filepath_Join_def)
qed

lemma vcr_path_suffix:
  assumes "slot_name p" "slot_name h" "dir \<noteq> []"
  shows "\<exists>q. vcr_path dir p h n = q @ ''.vcr''"
proof -
  obtain before where "\<And>name. plain_name name \<Longrightarrow> filepath_Join [dir, name] = before @ name"
    using filepath_Join_name [OF assms(3)] by blast
  then have "vcr_path dir p h n = (before @ p @ ''_'' @ h @ ''_'' @ show_nat n) @ ''.vcr''"
    using plain_vcr_name [OF assms(1,2), of n] by (simp add: vcr_path_def vcr_name_def)
  then show ?thesis by blast
qed

lemma config_not_recorded: "config_file name \<noteq> q @ ''.vcr''"
proof
  obtain p where p: "config_file name = p @ ''config.json''" using config_file_suffix by blast
  assume "config_file name = q @ ''.vcr''"
  then have "rev (p @ ''config.json'') = rev (q @ ''.vcr'')" by (simp only: p)
  then show False by simp
qed

lemma glob_pattern_split:
  assumes "list_all (\<lambda>c. \<not> glob_meta c) name"
  obtains before where "filepath_Join [test_dir name, ''*.vcr''] = before @ ''*.vcr''" "filter glob_meta before = []"
proof -
  let ?d = "test_dir name"
  have d: "?d \<noteq> []" by (simp add: test_dir_Clean filepath_Clean_not_Nil)
  then obtain before where p: "\<And>n. plain_name n \<Longrightarrow> filepath_Join [?d, n] = before @ n"
    using filepath_Join_name [of ?d] by blast
  have b: "filepath_Join [?d, ''*.vcr''] = before @ ''*.vcr''" "filepath_Join [?d, ''x''] = before @ ''x''"
    by (rule p, simp add: plain_name_def)+
  have d_chars: "set ?d \<subseteq> insert (CHR ''/'') (insert (CHR ''.'') (set (''testdata/'' @ name)))"
    unfolding test_dir_Clean by (rule filepath_Clean_chars)
  have "filepath_Join [?d, ''x''] = filepath_Clean (?d @ ''/x'')" using d by (simp add: filepath_Join_def)
  with b(2) filepath_Clean_chars [of "?d @ ''/x''"]
  have before_chars: "set before \<subseteq> insert (CHR ''/'') (insert (CHR ''.'') (set (?d @ ''/x'')))" by simp
  have "list_all (\<lambda>c. \<not> glob_meta c) ''testdata/''" by (simp add: glob_meta_def)
  with assms have "list_all (\<lambda>c. \<not> glob_meta c) (''testdata/'' @ name)" by (simp only: list_all_append)
  then have plain_chars: "k \<in> set (''testdata/'' @ name) \<Longrightarrow> \<not> glob_meta k" for k unfolding list_all_iff by (rule bspec)
  have "\<not> glob_meta c" if "c \<in> set before" for c
  proof -
    have m: "\<not> glob_meta (CHR ''/'')" "\<not> glob_meta (CHR ''.'')" "\<not> glob_meta (CHR ''x'')" by (simp_all add: glob_meta_def)
    have dir: "\<not> glob_meta k" if "k \<in> set ?d" for k
    proof -
      from subsetD [OF d_chars that] show ?thesis
        by (elim insertE) (simp_all only: m plain_chars not_False_eq_True)
    qed
    have shorter: "\<not> glob_meta k" if "k \<in> set (?d @ ''/x'')" for k
    proof -
      from that have "k = CHR ''/'' \<or> k = CHR ''x'' \<or> k \<in> set ?d" by simp
      then show ?thesis by (elim disjE) (simp_all only: m dir not_False_eq_True)
    qed
    from subsetD [OF before_chars that] show ?thesis
      by (elim insertE) (simp_all only: m shorter not_False_eq_True)
  qed
  then have "filter glob_meta before = []" by (auto simp: filter_empty_conv)
  with b(1) that show thesis by blast
qed

section \<open>Replaying a test\<close>

text \<open>
  The JSON of a configuration of ASCII texts is read back as that configuration; other bytes
  need not be, as those that are not UTF-8 are replaced.
\<close>

definition ascii_text :: "string \<Rightarrow> bool" where
  "ascii_text s \<longleftrightarrow> (\<forall>c \<in> set s. of_char c < (0x80 :: nat))"

definition ascii_config :: "TestConfig \<Rightarrow> bool" where
  "ascii_config c \<longleftrightarrow> list_all ascii_text
     [AliceSeed c, BobSeed c, CharlieSeed c, RebeccaSeed c, IssuerSeed c, DistributorSeed c, tc_AssetCode c]"

definition json_ok :: "('w, 'y) test_env_scheme \<Rightarrow> bool" where
  "json_ok E \<longleftrightarrow> (\<forall>c enc. ascii_config c \<longrightarrow> json_Marshal E c = Inr enc \<longrightarrow> json_Unmarshal E enc = Inr c)"

text \<open>\<open>rand.Intn(n)\<close> is below \<open>n\<close>.\<close>

definition rand_ok :: "('w, 'y) test_env_scheme \<Rightarrow> bool" where
  "rand_ok E \<longleftrightarrow> (\<forall>n w. 0 < n \<longrightarrow> fst (rand_Intn E n w) < n)"

text \<open>The configurations that are written are of ASCII texts: seeds and capital letters.\<close>

lemma strkey_Encode_ascii:
  assumes "strkey_Encode v bs = Inr s"
  shows "ascii_text s"
proof -
  have a: "\<forall>c \<in> set b32_alphabet. of_char c < (0x80 :: nat)" by (simp add: b32_alphabet_def)
  have "ascii_text (base32_EncodeToString raw)" for raw
    using a b32_char_in b32_vals_less [of _ raw] by (auto simp: base32_EncodeToString_def ascii_text_def)
  with assms show ?thesis by (auto simp: strkey_Encode_def Let_def and_then_eq_Inr)
qed

lemma newSeed_ascii: "newSeed E s = (Inr seed, s') \<Longrightarrow> ascii_text seed"
  by (auto simp: newSeed_def op_bind_eq_Inr op_return_apply newFullFromRawSeed_def and_then_eq_Inr intro: strkey_Encode_ascii
      split: prod.splits)

lemma random_letters_capital:
  assumes "rand_ok E"
  shows "length (fst (random_letters E n w)) = n \<and> set (fst (random_letters E n w)) \<subseteq> set letters"
proof (induction n arbitrary: w)
  case (Suc n)
  have "fst (rand_Intn E (length letters) w) < length letters" using assms by (simp add: rand_ok_def letters_def)
  with Suc show ?case by (auto split: prod.splits) (metis fst_conv nth_mem, metis fst_conv subsetD)
qed simp

lemma RandomAssetCode_letters:
  assumes "rand_ok E" "RandomAssetCode E s = (Inr code, s')"
  shows "length code = 4" "set code \<subseteq> set letters"
  using assms(2) random_letters_capital [OF assms(1), of 4 "outside s"]
  by (auto simp: RandomAssetCode_def split: prod.splits)

lemma newConfig_ascii:
  assumes "rand_ok E" "newConfig E s = (Inr c, s')"
  shows "ascii_config c"
proof -
  have code: "ascii_text x" if "RandomAssetCode E t = (Inr x, t')" for x t t'
  proof -
    have "\<forall>c \<in> set letters. of_char c < (0x80 :: nat)" by (simp add: letters_def)
    then show ?thesis using RandomAssetCode_letters(2) [OF assms(1) that] by (auto simp: ascii_text_def)
  qed
  from assms(2) show ?thesis
    unfolding newConfig_def op_bind_eq_Inr op_return_apply ascii_config_def
    by (auto dest!: newSeed_ascii code)
qed

definition dirs_ok :: "('w, 'y) os_scheme \<Rightarrow> bool" where
  "dirs_ok E \<longleftrightarrow> (\<forall>dir w. os_answer E (OsMkdirAll dir) w = (Inr (), w))"

lemma star_match_suffix: "star_match before after n \<Longrightarrow> \<exists>q. n = q @ after"
  by (metis star_match_def append_take_drop_id)

lemma remove_files_kept: "x \<notin> set existing \<Longrightarrow> map_of (files (remove_files E existing s)) x = map_of (files s) x"
proof (induction existing arbitrary: s)
  case (Cons e existing)
  obtain r s1 where "os_Remove E e s = (r, s1)" by fastforce
  with Cons show ?case using os_Remove_files [of E e s r s1 x] by simp
qed simp

lemma clear_recorded_kept:
  assumes "list_all (\<lambda>c. \<not> glob_meta c) name" "clear_recorded E (test_dir name) s = (r, s')" "\<And>q. x \<noteq> q @ ''.vcr''"
  shows "map_of (files s') x = map_of (files s) x"
proof -
  obtain before where b: "filepath_Join [test_dir name, ''*.vcr''] = before @ ''*.vcr''" "filter glob_meta before = []"
    using glob_pattern_split [OF assms(1)] by blast
  have "CHR ''*'' \<notin> set before" using b(2) by (auto simp: filter_empty_conv glob_meta_def)
  then have "filepath_Glob E (before @ ''*.vcr'') s = (Inr (filter (star_match before ''.vcr'') (map fst (files s))), s)"
    using b(2) by (simp add: filepath_Glob_def) (simp add: glob_meta_def)
  moreover have "\<not> star_match before ''.vcr'' x" using assms(3) star_match_suffix by blast
  ultimately show ?thesis
    using assms(2) by (auto simp: clear_recorded_def b(1) op_bind_def remove_files_kept split: if_splits)
qed

lemma recorded_others_kept:
  assumes "vc_mode v = Record" "vc_dir v \<noteq> []" "vcr_calls E cs (v, s) = (rs, v', s')" "\<And>q. x \<noteq> q @ ''.vcr''"
  shows "map_of (files s') x = map_of (files s) x"
  using assms(1-3)
proof (induction cs arbitrary: v s rs)
  case (Cons c cs)
  show ?case
  proof (cases "snd (call_slot E c)")
    case (Inl e)
    then show ?thesis
      using Cons.IH [OF Cons.prems(1,2)] Cons.prems(3) by (auto simp: vcr_call_slot vcr_request_def split: prod.splits)
  next
    case (Inr k)
    obtain r v1 s1 rs1 where first: "vcr_request E (fst (call_slot E c)) (Inr k) c (v, s) = (r, v1, s1)"
      and rest: "vcr_calls E cs (v1, s1) = (rs1, v', s')"
      using Cons.prems(3) Inr by (auto simp: vcr_call_slot split: prod.splits)
    note v1 = record_step(1) [OF Cons.prems(1) first]
    have "x \<noteq> vcr_path (vc_dir v) (fst (call_slot E c)) k (vc_seqno v k)"
      using vcr_path_suffix [OF call_slot_names(1) [of E c] call_slot_names(2) [OF Inr] Cons.prems(2)] assms(4) by metis
    from record_step(2) [OF Cons.prems(1) first this] show ?thesis
      using Cons.IH [OF _ _ rest] Cons.prems(1,2) by (simp add: v1 vcr_incSeqno_def)
  qed
qed simp

text \<open>The two branches of \<open>loadConfig\<close>.\<close>

lemma at_outside_state: "at_outside m s = (r, s') \<Longrightarrow> flag_record s' = flag_record s \<and> flag_live s' = flag_live s \<and> tvcr s' = tvcr s"
  for s :: "'w test_state"
  by (auto simp: at_outside_def split: prod.splits)

lemma newSeed_state: "newSeed E s = (r, s') \<Longrightarrow> flag_record s' = flag_record s \<and> tvcr s' = tvcr s" for s :: "'w test_state"
  by (auto simp: newSeed_def op_bind_def split: prod.splits sum.splits dest!: at_outside_state)

lemma newConfig_state:
  fixes s :: "'w test_state"
  assumes "newConfig E s = (Inr c, s')"
  shows "flag_record s' = flag_record s \<and> tvcr s' = tvcr s"
proof -
  have code: "RandomAssetCode E t = (Inr x, t') \<Longrightarrow> flag_record t' = flag_record t \<and> tvcr t' = tvcr t" for x and t t' :: "'w test_state"
    by (auto simp: RandomAssetCode_def split: prod.splits)
  from assms show ?thesis
    unfolding newConfig_def op_bind_eq_Inr op_return_apply
    by (elim exE conjE) (auto dest!: newSeed_state code)
qed

lemma loadConfig_recorded:
  fixes s :: "'w test_state"
  assumes "json_ok E" "rand_ok E" "flag_record s" "loadConfig E name s = (Inr c, s')"
  shows "\<exists>data. map_of (files s') (config_file name) = Some data \<and> json_Unmarshal E data = Inr c"
    and "flag_record s'" and "tvcr s' = tvcr s"
proof -
  obtain s1 data s2 where n: "newConfig E s = (Inr c, s1)" and d: "json_Marshal E c = Inr data"
      and w: "ioutil_WriteFile E (config_file name) data s1 = (Inr (), s')"
    using assms(4) newConfig_state [of E s]
    by (auto simp: loadConfig_def config_file_def assms(3) op_bind_eq_Inr Let_def split: if_splits)
  have "map_of (files s') (config_file name) = Some data" using ioutil_WriteFile_files [OF w] by simp
  with d assms(1) newConfig_ascii [OF assms(2) n] show "\<exists>data. map_of (files s') (config_file name) = Some data \<and> json_Unmarshal E data = Inr c"
    by (auto simp: json_ok_def)
  have "flag_record s' = flag_record s1 \<and> tvcr s' = tvcr s1"
    using w by (auto simp: ioutil_WriteFile_def op_bind_eq_Inr dest!: at_outside_state)
  with newConfig_state [OF n] assms(3) show "flag_record s'" "tvcr s' = tvcr s" by auto
qed

lemma loadConfig_played:
  assumes "reads_ok E" "\<not> flag_record t" "\<not> flag_live t" "map_of (files t) (config_file name) = Some data" "json_Unmarshal E data = Inr c"
  shows "loadConfig E name t = (Inr c, t)"
  using assms ioutil_ReadFile_Inr [of E "config_file name" t data]
  by (simp add: loadConfig_def config_file_def reads_ok_def)

lemma setConfig_overwrites: "setConfig C c h = setConfig C c h'"
  by (cases h; cases h') (simp add: setConfig_def Let_def)

text \<open>
  C39. A recorded test can be played back: after \<open>SetState\<close> and any \<open>GET\<close> and \<open>POST\<close> requests
  in recording mode, \<open>SetState\<close> in playback mode on the files left gives the helper the same
  keys, and the same requests get every response that came without an error, without the
  network. Of the file system it is asked that directories can be made and files read, of JSON
  that a configuration of ASCII texts is read back, which the generated ones are.
\<close>

theorem recorded_test_replays:
  assumes "responses_ok E" and "reads_ok E" and "dirs_ok E" and "json_ok E" and "rand_ok E" and "list_all (\<lambda>c. \<not> glob_meta c) name"
    and "list_all body_call cs" and "flag_record s" and "tvcr s = Some v" and "vc_mode v = Record" and "SetState E name h s = (Inr h1, s1)"
    and "tvcr s1 = Some v1" and "vcr_calls E cs (v1, s1) = (rs, v2, s2)"
    and "\<not> flag_record t" and "\<not> flag_live t" and "tvcr t = Some q" and "vc_mode q = Play" and "map_of (files t) = map_of (files s2)"
  shows "\<exists>t1 q1 q2 rs'. SetState E name h' t = (Inr h1, t1) \<and> tvcr t1 = Some q1 \<and> vcr_calls E cs (q1, t1) = (rs', q2, t1) \<and>
    list_all2 (\<lambda>r r'. is_ok r \<longrightarrow> r' = r) rs rs'"
proof -
  obtain s0 conf sc sd where mk: "os_MkdirAll E (test_dir name) s = (Inr (), s0)" and load: "loadConfig E name s0 = (Inr conf, sc)"
    and clear: "clear_recorded E (test_dir name) sc = (Inr (), sd)" and conf: "setConfig (hc_crypto E) conf h = Inr h1"
    and dir: "on_tvcr (vcr_SetDir (test_dir name)) sd = (Inr (), s1)"
    using assms(11) by (auto simp: SetState_def op_bind_eq_Inr Let_def test_dir_def)
  have s0: "flag_record s0" "tvcr s0 = Some v" using at_outside_state [OF mk [unfolded os_MkdirAll_def]] assms(8,9) by auto
  have sd: "tvcr sd = tvcr sc"
  proof -
    have "tvcr (remove_files E es x) = tvcr x" for es and x :: "'a test_state"
      by (induction es arbitrary: x)
        (auto simp: os_Remove_def op_bind_def split: prod.splits sum.splits if_splits dest!: at_outside_state)
    then show ?thesis using clear by (auto simp: clear_recorded_def filepath_Glob_def op_bind_def Let_def split: if_splits prod.splits sum.splits)
  qed
  note kept = config_not_recorded [of name]
  obtain data where data: "map_of (files sc) (config_file name) = Some data" "json_Unmarshal E data = Inr conf"
    using loadConfig_recorded(1) [OF assms(4,5) s0(1) load] by blast
  have v1: "v1 = vcr_SetDir (test_dir name) v" and files1: "files s1 = files sd"
    using dir assms(12) s0(2) loadConfig_recorded(3) [OF assms(4,5) s0(1) load] by (auto simp: on_tvcr_def sd)
  have rec: "vc_mode v1 = Record" "vc_dir v1 \<noteq> []"
    using assms(10) by (simp_all add: v1 vcr_SetDir_def test_dir_Clean filepath_Clean_not_Nil)
  have "map_of (files s2) (config_file name) = map_of (files s1) (config_file name)"
    by (rule recorded_others_kept [OF rec assms(13) kept])
  also have "\<dots> = Some data" using clear_recorded_kept [OF assms(6) clear kept] data(1) by (simp add: files1)
  finally have "map_of (files t) (config_file name) = Some data" by (simp add: assms(18))
  note played = loadConfig_played [OF assms(2,14,15) this data(2)]
  let ?t = "t\<lparr>tvcr := Some (v1\<lparr>vc_mode := Play\<rparr>)\<rparr>"
  have "vcr_SetDir (test_dir name) q = v1\<lparr>vc_mode := Play\<rparr>" using assms(17) by (simp add: v1 vcr_SetDir_def)
  moreover have "os_MkdirAll E (test_dir name) t = (Inr (), t)" using assms(3) by (simp add: os_MkdirAll_def at_outside_def dirs_ok_def)
  ultimately have "SetState E name h' t = (Inr h1, ?t)"
    using assms(14,16) played conf setConfig_overwrites [of "hc_crypto E" conf h' h]
    by (simp add: SetState_def Let_def test_dir_def [symmetric] clear_recorded_def on_tvcr_def)
  moreover have "map_of (files ?t) = map_of (files s2)" by (simp add: assms(18))
  from vcr_plays_back [OF assms(1,2) rec assms(7) assms(13) this]
  obtain rs' where "vcr_calls E cs (v1\<lparr>vc_mode := Play\<rparr>, ?t) = (rs', v2\<lparr>vc_mode := Play\<rparr>, ?t)"
    "list_all2 (\<lambda>r r'. is_ok r \<longrightarrow> r' = r) rs rs'" by blast
  ultimately show ?thesis by fastforce
qed

section \<open>The other helpers\<close>

text \<open>A new seed makes a full key pair, and so does every name under a helper with keys.\<close>

lemma newFullFromRawSeed_full:
  assumes "crypto_ok C" "length rawSeed = 32"
  shows "\<exists>kp. newFullFromRawSeed C rawSeed = Inr kp \<and> fullFromSeed C (kp_Seed kp) = Inr kp"
proof -
  have v: "checkValidVersionByte VersionByteSeed = Inr ()" by simp
  then obtain seed where seed: "strkey_Encode VersionByteSeed rawSeed = Inr seed" by (simp add: strkey_Encode_def)
  have dec: "strkey_Decode VersionByteSeed seed = Inr rawSeed" "newFromAddress seed = Inl ErrInvalidVersionByte"
  proof -
    show "strkey_Decode VersionByteSeed seed = Inr rawSeed" using strkey_roundtrip [of VersionByteSeed rawSeed] by (simp add: seed)
    from strkey_Decode_version [OF this, of VersionByteAccountID] show "newFromAddress seed = Inl ErrInvalidVersionByte"
      using version_bytes_distinct by (simp add: newFromAddress_def)
  qed
  have "rawSeed \<noteq> []" using assms(2) by auto
  then obtain kp where "newFullFromRawSeed C rawSeed = Inr kp"
    using assms by (auto simp: newFullFromRawSeed_def seed ed25519_GenerateKey_def Let_def)
  then show ?thesis by (auto simp: fullFromSeed_def keypair_Parse_def newFull_def dec newFullFromRawSeed_def seed and_then_eq_Inr split: prod.splits)
qed

lemma Helper_Keypair_full:
  assumes "crypto_ok C" "Alice h = Some kp"
  shows "\<exists>kp'. Helper_Keypair C h name = Inr kp' \<and> fullFromSeed C (kp_Seed kp') = Inr kp'"
  using newFullFromRawSeed_full [OF assms(1)] assms
  by (auto simp: Helper_Keypair_def Let_def hmac_sha256_def crypto_ok_def)

text \<open>A random asset code is four capital letters, which makes it a code of the short kind.\<close>

lemma RandomAssetCode_type:
  assumes "rand_ok E" "RandomAssetCode E s = (Inr code, s')"
  shows "assetCodeToType code = Inr ''credit_alphanum4''"
  using RandomAssetCode_letters [OF assms] by (auto simp: assetCodeToType_def)

text \<open>In playback mode no lumens are asked for.\<close>

lemma GetTestLumens_playback: "\<not> flag_record s \<Longrightarrow> \<not> flag_live s \<Longrightarrow> GetTestLumens E kp s = (Inr (), s)"
  by (simp add: GetTestLumens_def)

text \<open>The friendbot is asked until it answers with 200, and then not again.\<close>

lemma friendbot_loop_ok:
  "friendbot_loop E url n s = (Inr (), s') \<Longrightarrow>
    \<exists>t resp body. http_Get E url t = (Inr resp, s') \<and> rs_Body resp = Inr body \<and> rs_StatusCode resp = 200"
proof (induction n arbitrary: s)
  case (Suc n)
  then obtain resp s1 body where
    "http_Get E url s = (Inr resp, s1)" "rs_Body resp = Inr body"
    "(if rs_StatusCode resp = 200 then (Inr (), s1) else friendbot_loop E url n s1) = (Inr (), s')"
    by (auto simp: op_bind_eq_Inr)
  with Suc.IH [of s1] show ?case by (cases "rs_StatusCode resp = 200") auto
qed simp

section \<open>A test on which the hypotheses hold\<close>

text \<open>A world that counts the requests, one configuration and one response.\<close>

definition demo_config :: TestConfig where
  "demo_config = \<lparr>AliceSeed = demo_seed, BobSeed = demo_seed, CharlieSeed = demo_seed, RebeccaSeed = demo_seed,
     IssuerSeed = demo_seed, DistributorSeed = demo_seed, tc_AssetCode = ''AAAA''\<rparr>"

definition demo_response :: http_response where
  "demo_response = \<lparr>rs_StatusCode = 200, rs_Body = Inr ''pong''\<rparr>"

definition demo_test_env :: "nat test_env" where
  "demo_test_env = \<lparr>os_answer = (\<lambda>c w. (Inr (), w)), glob_pattern = (\<lambda>p names. Inr []), hc_crypto = plain_crypto,
     net_Do = (\<lambda>c w. (Inr (demo_response, None), Suc w)), DumpRequestOut = (\<lambda>q. Inr []),
     DumpResponse = (\<lambda>r. if r = demo_response then Inr [1] else Inl (NewError ''dump'')),
     ReadResponse = (\<lambda>enc. if enc = [1] then Inr demo_response else Inl (NewError ''malformed'')),
     rand_Read = (\<lambda>w. (Inr (replicate 32 0), w)), rand_Intn = (\<lambda>n w. (0, w)),
     json_Marshal = (\<lambda>c. if c = demo_config then Inr [2] else Inl (NewError ''json'')),
     json_Unmarshal = (\<lambda>enc. if enc = [2] then Inr demo_config else Inl (NewError ''json''))\<rparr>"

definition demo_test :: "bool \<Rightarrow> (string \<times> byte list) list \<Rightarrow> nat test_state" where
  "demo_test rec fs = \<lparr>files = fs, outside = 0, flag_live = False, flag_record = rec, tvcr = Some (snd (testClient False rec))\<rparr>"

lemma demo_test_ok: "responses_ok demo_test_env" "reads_ok demo_test_env" "dirs_ok demo_test_env" "json_ok demo_test_env"
  "rand_ok demo_test_env"
  by (auto simp: responses_ok_def reads_ok_def dirs_ok_def json_ok_def rand_ok_def demo_test_env_def)

lemma demo_newSeed: "newSeed demo_test_env s = (Inr demo_seed, s)"
proof -
  have "newFullFromRawSeed plain_crypto (replicate 32 0) = Inr demo_kp"
  proof -
    have "strkey_Encode VersionByteSeed (replicate 32 0) = Inr demo_seed" unfolding demo_seed_def by code_simp
    then show ?thesis
      by (simp add: newFullFromRawSeed_def ed25519_GenerateKey_def Let_def demo_kp_def) (simp add: plain_crypto_def demo_pub_def)
  qed
  then show ?thesis by (simp add: newSeed_def at_outside_def op_bind_def demo_test_env_def) (simp add: demo_kp_def)
qed

lemma demo_code: "RandomAssetCode demo_test_env s = (Inr ''AAAA'', s)"
proof -
  have "rand_Intn demo_test_env n w = (0, w)" for n w by (simp add: demo_test_env_def)
  then show ?thesis by (simp add: RandomAssetCode_def numeral_eq_Suc letters_def)
qed

lemma demo_newConfig: "newConfig demo_test_env s = (Inr demo_config, s)"
  by (simp add: newConfig_def demo_newSeed demo_code demo_config_def)

lemma demo_setConfig: "\<exists>h1. setConfig plain_crypto demo_config h = Inr h1"
  by (simp add: setConfig_def demo_config_def fullFromSeed_def demo_Parse) (simp add: demo_kp_def)

lemma demo_SetState:
  "\<exists>h1 fs. SetState demo_test_env ''a'' h (demo_test True []) =
    (Inr h1, (demo_test True fs)\<lparr>tvcr := Some (vcr_SetDir (test_dir ''a'') (snd (testClient False True)))\<rparr>)"
proof -
  let ?E = demo_test_env and ?s = "demo_test True []"
  have os: "os_answer ?E c w = (Inr (), w)" for c w by (simp add: demo_test_env_def)
  have out: "at_outside (os_answer ?E c) s = (Inr (), s)" for c and s :: "nat test_state" by (simp add: at_outside_def os)
  have hc: "hc_crypto ?E = plain_crypto" by (simp add: demo_test_env_def)
  have fs: "?s\<lparr>files := x\<rparr> = demo_test True x" for x by (simp add: demo_test_def)
  have on: "on_tvcr f (demo_test True x) = (Inr (), (demo_test True x)\<lparr>tvcr := Some (f (snd (testClient False True)))\<rparr>)" for f x
    by (simp add: on_tvcr_def demo_test_def)
  obtain h1 where h1: "setConfig plain_crypto demo_config h = Inr h1" using demo_setConfig by blast
  have load: "loadConfig ?E ''a'' ?s = (Inr demo_config, ?s\<lparr>files := [(config_file ''a'', [2])]\<rparr>)"
    by (simp add: loadConfig_def config_file_def demo_newConfig demo_test_def ioutil_WriteFile_def op_bind_def out Let_def)
      (simp add: at_outside_def demo_test_env_def)
  obtain before where b: "filepath_Join [test_dir ''a'', ''*.vcr''] = before @ ''*.vcr''" "filter glob_meta before = []"
    using glob_pattern_split [of "''a''"] by (auto simp: glob_meta_def)
  have star: "CHR ''*'' \<notin> set before" using b(2) by (auto simp: filter_empty_conv glob_meta_def)
  have "\<not> star_match before ''.vcr'' (config_file ''a'')" using config_not_recorded star_match_suffix by blast
  then have "clear_recorded ?E (test_dir ''a'') (?s\<lparr>files := [(config_file ''a'', [2])]\<rparr>) =
      (Inr (), ?s\<lparr>files := [(config_file ''a'', [2])]\<rparr>)"
    using star b(2) by (simp add: clear_recorded_def b(1) filepath_Glob_def op_bind_def demo_test_def) (simp add: glob_meta_def)
  then have "SetState ?E ''a'' h ?s =
      (Inr h1, (demo_test True [(config_file ''a'', [2])])\<lparr>tvcr := Some (vcr_SetDir (test_dir ''a'') (snd (testClient False True)))\<rparr>)"
    using load h1 hc on by (simp add: SetState_def Let_def test_dir_def [symmetric] os_MkdirAll_def out fs)
  then show ?thesis by blast
qed

lemma demo_record_call:
  assumes "vc_mode v = Record"
  shows "\<exists>vs. vcr_calls demo_test_env [CallGet ''u''] (v, s) = ([Inr demo_response], vs)"
  using assms
  by (simp add: vcr_Get_def vcr_request_def urlHash_def vcr_recorded_def answered_def vcr_live_def vcr_writeResponse_def op_bind_def
      at_outside_def ioutil_WriteFile_def Let_def demo_test_env_def)

theorem recorded_test_replays_witness:
  "\<exists>h1 s1 v1 v2 s2 t1 q1 q2. SetState demo_test_env ''a'' NewHelper (demo_test True []) = (Inr h1, s1) \<and> tvcr s1 = Some v1 \<and>
     vcr_calls demo_test_env [CallGet ''u''] (v1, s1) = ([Inr demo_response], v2, s2) \<and>
     SetState demo_test_env ''a'' NewHelper (demo_test False (files s2)) = (Inr h1, t1) \<and> tvcr t1 = Some q1 \<and>
     vcr_calls demo_test_env [CallGet ''u''] (q1, t1) = ([Inr demo_response], q2, t1)"
proof -
  let ?v = "snd (testClient False True)" and ?q = "snd (testClient False False)"
  have modes: "vc_mode ?v = Record" "vc_mode ?q = Play" by (simp_all add: testClient_def vcr_New_def vcr_Record_def)
  have start: "flag_record (demo_test b fs) = b" "\<not> flag_live (demo_test b fs)" "tvcr (demo_test True fs) = Some ?v"
      "tvcr (demo_test False fs) = Some ?q" "files (demo_test b fs) = fs" for b fs
    by (simp_all add: demo_test_def)
  obtain h1 fs where set: "SetState demo_test_env ''a'' NewHelper (demo_test True []) =
      (Inr h1, (demo_test True fs)\<lparr>tvcr := Some (vcr_SetDir (test_dir ''a'') ?v)\<rparr>)" using demo_SetState by blast
  let ?v1 = "vcr_SetDir (test_dir ''a'') ?v" and ?s1 = "(demo_test True fs)\<lparr>tvcr := Some (vcr_SetDir (test_dir ''a'') ?v)\<rparr>"
  obtain v2 s2 where calls: "vcr_calls demo_test_env [CallGet ''u''] (?v1, ?s1) = ([Inr demo_response], v2, s2)"
    using demo_record_call [of ?v1 ?s1] modes by (auto simp: vcr_SetDir_def)
  have "list_all (\<lambda>c. \<not> glob_meta c) ''a''" "list_all body_call [CallGet ''u'']" by (simp_all add: glob_meta_def)
  moreover have "flag_record (demo_test True [])" "\<not> flag_record (demo_test False (files s2))" "tvcr ?s1 = Some ?v1"
      "map_of (files (demo_test False (files s2))) = map_of (files s2)" by (simp_all add: start(1,5))
  ultimately obtain t1 q1 q2 rs' where "SetState demo_test_env ''a'' NewHelper (demo_test False (files s2)) = (Inr h1, t1)"
      "tvcr t1 = Some q1" "vcr_calls demo_test_env [CallGet ''u''] (q1, t1) = (rs', q2, t1)"
      "list_all2 (\<lambda>r r'. is_ok r \<longrightarrow> r' = r) [Inr demo_response] rs'"
    using recorded_test_replays [OF demo_test_ok _ _ _ start(3) modes(1) set _ calls _ start(2,4) modes(2)] by blast
  then show ?thesis using set calls by (fastforce simp: list_all2_Cons1)
qed

end
