(* ===== verification/Horizon_Http.thy ===== *)
theory Horizon_Http
  imports Flows Config Go_Url Test_Client "HOL-Library.AList"
begin

text \<open>
  The part of the vendored \<open>clients/horizonclient\<close> that the program calls: how a query for an
  account, a submission and the query of the root become HTTP requests, and what is read from
  their responses. The state of a client is its address, which its first request normalises.
  Over it, the functions that sign and submit are seen as the requests they send.
\<close>

section \<open>The client\<close>

text \<open>\<open>fixHorizonURLOnce\<close> has run when \<open>c_fixed\<close> holds.\<close>

record http_client = hclient +
  c_fixed :: bool
  c_AppName :: string
  c_AppVersion :: string

text \<open>
  \<open>c.HTTP\<close> is an operation on the world. The codec holds the JSON decoders, on what reading a
  body gives.
\<close>

type_synonym 'w transport = "http_request \<Rightarrow> ('w, http_response) op"

record http_codec =
  cd_Account :: "string res \<Rightarrow> hAccount res"
  cd_Transaction :: "string res \<Rightarrow> hTransaction res"
  cd_Root :: "string res \<Rightarrow> hRoot res"
  cd_Problem :: "string res \<Rightarrow> horizon_error res"

definition strings_TrimRight :: "string \<Rightarrow> char \<Rightarrow> string" where
  "strings_TrimRight s c = rev (dropWhile (\<lambda>d. d = c) (rev s))"

definition fixHorizonURL :: "http_client \<Rightarrow> string \<times> http_client" where
  "fixHorizonURL c =
     (let c = (if c_fixed c then c
               else c\<lparr>hc_HorizonURL := strings_TrimRight (hc_HorizonURL c) (CHR ''/'') @ ''/'', c_fixed := True\<rparr>)
      in (hc_HorizonURL c, c))"

definition http_NewRequest :: "http_codec \<Rightarrow> string \<Rightarrow> string \<Rightarrow> string \<Rightarrow> http_request res" where
  "http_NewRequest D method url body =
     and_then (url_Parse url) (\<lambda>_. Inr \<lparr>rq_Method = method, rq_URL = url, rq_Header = [], rq_Body = body\<rparr>)"

definition Header_Set :: "string \<Rightarrow> string \<Rightarrow> http_request \<Rightarrow> http_request" where
  "Header_Set k v req = req\<lparr>rq_Header := AList.update k v (rq_Header req)\<rparr>"

definition client_Version :: string where "client_Version = ''2.1.0''"

definition setClientAppHeaders :: "http_client \<Rightarrow> http_request \<Rightarrow> http_request" where
  "setClientAppHeaders c req =
     Header_Set ''X-App-Version'' (c_AppVersion c) (Header_Set ''X-App-Name'' (c_AppName c)
     (Header_Set ''X-Client-Version'' client_Version (Header_Set ''X-Client-Name'' ''go-stellar-sdk'' req)))"

text \<open>The time a server reports is recorded too; the program never looks at it.\<close>

definition decodeResponse :: "http_codec \<Rightarrow> http_client \<Rightarrow> (string res \<Rightarrow> 'a res) \<Rightarrow> http_response \<Rightarrow> 'a res" where
  "decodeResponse D c decode resp =
     (case url_Parse (hc_HorizonURL c) of
        Inl _ \<Rightarrow> Inl (Errorf ''unable to parse the provided horizon url: %s'' [AStr (hc_HorizonURL c)])
      | Inr _ \<Rightarrow>
          if \<not> (200 \<le> rs_StatusCode resp \<and> rs_StatusCode resp < 300) then
            (case cd_Problem D (rs_Body resp) of
               Inl e \<Rightarrow> Inl (Wrapped ''error decoding horizon.Problem'' e)
             | Inr problem \<Rightarrow> Inl (HorizonError problem))
          else map_err (Wrapped ''error decoding response'') (decode (rs_Body resp)))"

definition sendHTTPRequest ::
  "http_codec \<Rightarrow> 'w transport \<Rightarrow> http_request \<Rightarrow> (string res \<Rightarrow> 'a res) \<Rightarrow> (http_client \<times> 'w, 'a) op" where
  "sendHTTPRequest D Do req decode cw =
     (case cw of (c, w) \<Rightarrow>
        (case Do (setClientAppHeaders c req) w of
           (Inl e, w') \<Rightarrow> (Inl e, (c, w'))
         | (Inr resp, w') \<Rightarrow> (decodeResponse D c decode resp, (c, w'))))"

text \<open>A request of the interface \<open>HorizonRequest\<close> is its \<open>HTTPRequest\<close>, a function of the address.\<close>

definition sendRequest ::
  "http_codec \<Rightarrow> 'w transport \<Rightarrow> (string \<Rightarrow> http_request res) \<Rightarrow> (string res \<Rightarrow> 'a res) \<Rightarrow> (http_client \<times> 'w, 'a) op" where
  "sendRequest D Do HTTPRequest decode cw =
     (case cw of (c, w) \<Rightarrow>
        (case fixHorizonURL c of (url, c) \<Rightarrow>
           op_bind (op_lift (HTTPRequest url)) (\<lambda>req. sendHTTPRequest D Do req decode) (c, w)))"

definition sendGetRequest ::
  "http_codec \<Rightarrow> 'w transport \<Rightarrow> string \<Rightarrow> (string res \<Rightarrow> 'a res) \<Rightarrow> (http_client \<times> 'w, 'a) op" where
  "sendGetRequest D Do url decode =
     op_bind (op_lift (map_err (Wrapped ''error creating HTTP request'') (http_NewRequest D ''GET'' url [])))
       (\<lambda>req. sendHTTPRequest D Do req decode)"

section \<open>The requests\<close>

datatype url_param = ParamString string | ParamInt int | ParamUint nat | ParamBool bool

fun countParams :: "url_param list \<Rightarrow> nat" where
  "countParams [] = 0"
| "countParams (p # ps) =
     (case p of ParamString s \<Rightarrow> if s \<noteq> [] then 1 else 0 | ParamInt i \<Rightarrow> if 0 < i then 1 else 0
      | ParamUint n \<Rightarrow> if 0 < n then 1 else 0 | ParamBool b \<Rightarrow> 1) + countParams ps"

record AccountRequest =
  ar_AccountID :: string
  ar_DataKey :: string

definition AccountRequest_BuildURL :: "http_codec \<Rightarrow> AccountRequest \<Rightarrow> string res" where
  "AccountRequest_BuildURL D ar =
     (let nParams = countParams [ParamString (ar_DataKey ar), ParamString (ar_AccountID ar)] in
      if 1 \<le> nParams \<and> ar_AccountID ar = [] then Inl (NewError ''invalid request: too few parameters'')
      else if nParams \<le> 0 then Inl (NewError ''invalid request: no parameters'')
      else
        let endpoint = (if ar_DataKey ar \<noteq> [] \<and> ar_AccountID ar \<noteq> []
                        then ''accounts/'' @ ar_AccountID ar @ ''/data/'' @ ar_DataKey ar
                        else if ar_AccountID ar \<noteq> [] then ''accounts/'' @ ar_AccountID ar else [])
        in and_then (map_err (Wrapped ''failed to parse endpoint'') (url_Parse endpoint)) (\<lambda>_. Inr endpoint))"

definition AccountRequest_HTTPRequest :: "http_codec \<Rightarrow> AccountRequest \<Rightarrow> string \<Rightarrow> http_request res" where
  "AccountRequest_HTTPRequest D ar horizonURL =
     and_then (AccountRequest_BuildURL D ar) (\<lambda>endpoint. http_NewRequest D ''GET'' (horizonURL @ endpoint) [])"

record submitRequest =
  sbr_endpoint :: string
  sbr_transactionXdr :: string

definition submitRequest_HTTPRequest :: "http_codec \<Rightarrow> submitRequest \<Rightarrow> string \<Rightarrow> http_request res" where
  "submitRequest_HTTPRequest D sr horizonURL =
     and_then (http_NewRequest D ''POST'' (horizonURL @ sbr_endpoint sr) (''tx='' @ QueryEscape (sbr_transactionXdr sr)))
       (\<lambda>req. Inr (Header_Set ''Content-Type'' ''application/x-www-form-urlencoded'' req))"

section \<open>The operations\<close>

definition AccountDetail :: "http_codec \<Rightarrow> 'w transport \<Rightarrow> AccountRequest \<Rightarrow> (http_client \<times> 'w, hAccount) op" where
  "AccountDetail D Do ar =
     (if ar_AccountID ar = [] then op_lift (Inl (NewError ''no account ID provided''))
      else sendRequest D Do (AccountRequest_HTTPRequest D ar) (cd_Account D))"

definition SubmitTransactionXDR :: "http_codec \<Rightarrow> 'w transport \<Rightarrow> string \<Rightarrow> (http_client \<times> 'w, hTransaction) op" where
  "SubmitTransactionXDR D Do transactionXdr =
     sendRequest D Do (submitRequest_HTTPRequest D \<lparr>sbr_endpoint = ''transactions'', sbr_transactionXdr = transactionXdr\<rparr>)
       (cd_Transaction D)"

definition client_Root :: "http_codec \<Rightarrow> 'w transport \<Rightarrow> (http_client \<times> 'w, hRoot) op" where
  "client_Root D Do cw =
     (case cw of (c, w) \<Rightarrow> (case fixHorizonURL c of (url, c) \<Rightarrow> sendGetRequest D Do url (cd_Root D) (c, w)))"

text \<open>The client of the package over HTTP; \<open>Get\<close> and the strict decoder go past this library.\<close>

definition over_http :: "http_codec \<Rightarrow> 'w transport \<Rightarrow> (http_client \<times> 'w) client \<Rightarrow> (http_client \<times> 'w) client" where
  "over_http D Do E = E\<lparr>cl_horizon := (cl_horizon E)
     \<lparr>hz_AccountDetail := (\<lambda>a. AccountDetail D Do \<lparr>ar_AccountID = a, ar_DataKey = []\<rparr>),
      hz_SubmitTransactionXDR := SubmitTransactionXDR D Do\<rparr>\<rparr>"

section \<open>Conversations\<close>

text \<open>What an operation says to the transport, as a tree over the answers, and its result.\<close>

datatype 'a talk = Done 'a | Ask http_request "http_response res \<Rightarrow> 'a talk"

primrec run_talk :: "'w transport \<Rightarrow> 'a talk \<Rightarrow> 'w \<Rightarrow> 'a \<times> 'w" where
  "run_talk Do (Done x) = (\<lambda>w. (x, w))"
| "run_talk Do (Ask q k) = (\<lambda>w. case Do q w of (x, w') \<Rightarrow> run_talk Do (k x) w')"

primrec talk_bind :: "'a talk \<Rightarrow> ('a \<Rightarrow> 'b talk) \<Rightarrow> 'b talk" where
  "talk_bind (Done x) f = f x"
| "talk_bind (Ask q k) f = Ask q (\<lambda>x. talk_bind (k x) f)"

lemma run_talk_bind: "run_talk Do (talk_bind T f) w = (case run_talk Do T w of (x, w') \<Rightarrow> run_talk Do (f x) w')"
  by (induction T arbitrary: w) (auto split: prod.splits)

text \<open>The requests of a conversation and their answers, and the same requests without it.\<close>

primrec requests :: "'w transport \<Rightarrow> 'a talk \<Rightarrow> 'w \<Rightarrow> http_request list" where
  "requests Do (Done x) = (\<lambda>w. [])"
| "requests Do (Ask q k) = (\<lambda>w. case Do q w of (x, w') \<Rightarrow> q # requests Do (k x) w')"

primrec answers :: "'w transport \<Rightarrow> 'a talk \<Rightarrow> 'w \<Rightarrow> http_response res list" where
  "answers Do (Done x) = (\<lambda>w. [])"
| "answers Do (Ask q k) = (\<lambda>w. case Do q w of (x, w') \<Rightarrow> x # answers Do (k x) w')"

primrec do_all :: "'w transport \<Rightarrow> http_request list \<Rightarrow> 'w \<Rightarrow> http_response res list \<times> 'w" where
  "do_all Do [] = (\<lambda>w. ([], w))"
| "do_all Do (q # qs) = (\<lambda>w. case Do q w of (x, w') \<Rightarrow> (case do_all Do qs w' of (xs, w'') \<Rightarrow> (x # xs, w'')))"

lemma do_all_requests: "do_all Do (requests Do T w) w = (answers Do T w, snd (run_talk Do T w))"
  by (induction T arbitrary: w) (auto split: prod.splits)

lemma requests_bind:
  "requests Do (talk_bind T f) w = requests Do T w @ (case run_talk Do T w of (x, w') \<Rightarrow> requests Do (f x) w')"
  "answers Do (talk_bind T f) w = answers Do T w @ (case run_talk Do T w of (x, w') \<Rightarrow> answers Do (f x) w')"
  by (induction T arbitrary: w) (auto split: prod.splits)

text \<open>A transport that gives the same answers to the same requests leads to the same end.\<close>

lemma run_talk_same_answers:
  "do_all Do' (requests Do T w) v = (answers Do T w, v') \<Longrightarrow> run_talk Do' T v = (fst (run_talk Do T w), v')"
proof (induction T arbitrary: w v)
  case (Ask q k)
  then show ?case by (auto split: prod.splits)
qed simp

lemma answers_same:
  "do_all Do' (requests Do T w) v = (answers Do T w, v') \<Longrightarrow> answers Do' T v = answers Do T w"
proof (induction T arbitrary: w v)
  case (Ask q k)
  then show ?case by (auto split: prod.splits)
qed simp

text \<open>A transport that keeps the requests it is given.\<close>

definition logging :: "'w transport \<Rightarrow> ('w \<times> http_request list) transport" where
  "logging Do q = (\<lambda>(w, qs). case Do q w of (x, w') \<Rightarrow> (x, (w', qs @ [q])))"

lemma logged_requests:
  "run_talk (logging Do) T (w, qs) =
     (case run_talk Do T w of (x, w') \<Rightarrow> (x, (w', qs @ requests Do T w)))"
  by (induction T arbitrary: w qs) (auto simp: logging_def split: prod.splits)

text \<open>A transport that notes whether it answered every request.\<close>

definition watching :: "'w transport \<Rightarrow> ('w \<times> bool) transport" where
  "watching Do q = (\<lambda>(w, b). case Do q w of (x, w') \<Rightarrow> (x, (w', b \<and> is_ok x)))"

lemma watched_answers:
  "run_talk (watching Do) T (w, b) =
     (case run_talk Do T w of (x, w') \<Rightarrow> (x, (w', b \<and> list_all is_ok (answers Do T w))))"
  by (induction T arbitrary: w b) (auto simp: watching_def split: prod.splits)

section \<open>The operations as conversations\<close>

definition in_client :: "'w transport \<Rightarrow> ('a \<times> http_client) talk \<Rightarrow> 'w \<Rightarrow> 'a \<times> http_client \<times> 'w" where
  "in_client Do T w = (case run_talk Do T w of ((r, c), w') \<Rightarrow> (r, (c, w')))"

text \<open>A request that may not be possible, its answer decoded, and what follows.\<close>

definition send_talk ::
  "http_codec \<Rightarrow> http_client \<Rightarrow> (string \<Rightarrow> http_request res) \<Rightarrow> (string res \<Rightarrow> 'a res) \<Rightarrow> ('a res \<times> http_client) talk" where
  "send_talk D c HTTPRequest decode =
     (case fixHorizonURL c of (url, c) \<Rightarrow>
        (case HTTPRequest url of
           Inl e \<Rightarrow> Done (Inl e, c)
         | Inr req \<Rightarrow> Ask (setClientAppHeaders c req)
             (\<lambda>x. Done (and_then x (decodeResponse D c decode), c))))"

lemma sendRequest_talk: "sendRequest D Do R decode (c, w) = in_client Do (send_talk D c R decode) w"
  by (auto simp: sendRequest_def sendHTTPRequest_def send_talk_def in_client_def op_bind_def and_then_def
      split: prod.splits sum.splits)

text \<open>The two requests, by the client as its first request left it.\<close>

definition account_get :: "http_client \<Rightarrow> string \<Rightarrow> http_request" where
  "account_get c a = setClientAppHeaders c
     \<lparr>rq_Method = ''GET'', rq_URL = hc_HorizonURL c @ ''accounts/'' @ a, rq_Header = [], rq_Body = []\<rparr>"

definition tx_post :: "http_client \<Rightarrow> string \<Rightarrow> http_request" where
  "tx_post c tx = setClientAppHeaders c
     \<lparr>rq_Method = ''POST'', rq_URL = hc_HorizonURL c @ ''transactions'',
      rq_Header = [(''Content-Type'', ''application/x-www-form-urlencoded'')], rq_Body = ''tx='' @ QueryEscape tx\<rparr>"

definition detail_talk :: "http_codec \<Rightarrow> string \<Rightarrow> http_client \<Rightarrow> (hAccount res \<times> http_client) talk" where
  "detail_talk D a c =
     (if a = [] then Done (Inl (NewError ''no account ID provided''), c)
      else send_talk D c (AccountRequest_HTTPRequest D \<lparr>ar_AccountID = a, ar_DataKey = []\<rparr>) (cd_Account D))"

definition post_talk :: "http_codec \<Rightarrow> string \<Rightarrow> http_client \<Rightarrow> (hTransaction res \<times> http_client) talk" where
  "post_talk D tx c =
     send_talk D c (submitRequest_HTTPRequest D \<lparr>sbr_endpoint = ''transactions'', sbr_transactionXdr = tx\<rparr>) (cd_Transaction D)"

lemma AccountDetail_talk: "AccountDetail D Do \<lparr>ar_AccountID = a, ar_DataKey = []\<rparr> (c, w) = in_client Do (detail_talk D a c) w"
  by (simp add: AccountDetail_def detail_talk_def sendRequest_talk in_client_def)

lemma Submit_talk: "SubmitTransactionXDR D Do tx (c, w) = in_client Do (post_talk D tx c) w"
  by (simp add: SubmitTransactionXDR_def post_talk_def sendRequest_talk)

definition fixed_client :: "http_client \<Rightarrow> http_client" where "fixed_client c = snd (fixHorizonURL c)"

lemma fixed_client_idem [simp]: "fixed_client (fixed_client c) = fixed_client c"
  by (simp add: fixed_client_def fixHorizonURL_def Let_def)

lemma fixHorizonURL_eq: "fixHorizonURL c = (hc_HorizonURL (fixed_client c), fixed_client c)"
  by (simp add: fixed_client_def fixHorizonURL_def Let_def)

text \<open>Each is at most one request, always the same, and one if anything is decoded.\<close>

lemma detail_talk_ok:
  assumes "is_ok (AccountRequest_HTTPRequest D \<lparr>ar_AccountID = a, ar_DataKey = []\<rparr> (hc_HorizonURL (fixed_client c)))"
  shows "detail_talk D a c = Ask (account_get (fixed_client c) a)
    (\<lambda>x. Done (and_then x (decodeResponse D (fixed_client c) (cd_Account D)), fixed_client c))"
proof -
  obtain q where q: "AccountRequest_HTTPRequest D \<lparr>ar_AccountID = a, ar_DataKey = []\<rparr> (hc_HorizonURL (fixed_client c)) = Inr q"
    using assms by (auto simp: is_ok_iff)
  then have "a \<noteq> []" "setClientAppHeaders (fixed_client c) q = account_get (fixed_client c) a"
    by (auto simp: AccountRequest_HTTPRequest_def AccountRequest_BuildURL_def Let_def http_NewRequest_def account_get_def
        and_then_eq_Inr split: if_splits)
  then show ?thesis using q by (simp add: detail_talk_def send_talk_def fixHorizonURL_eq)
qed

lemma detail_talk_cases:
  obtains e c' where "detail_talk D a c = Done (Inl e, c')"
  | "detail_talk D a c = Ask (account_get (fixed_client c) a)
      (\<lambda>x. Done (and_then x (decodeResponse D (fixed_client c) (cd_Account D)), fixed_client c))"
proof (cases "AccountRequest_HTTPRequest D \<lparr>ar_AccountID = a, ar_DataKey = []\<rparr> (hc_HorizonURL (fixed_client c))")
  case (Inl e)
  then show ?thesis using that(1) by (cases "a = []") (simp_all add: detail_talk_def send_talk_def fixHorizonURL_eq)
next
  case Inr
  then show ?thesis using that(2) detail_talk_ok by (simp add: is_ok_iff)
qed

lemma post_talk_ok:
  assumes "is_ok (submitRequest_HTTPRequest D \<lparr>sbr_endpoint = ''transactions'', sbr_transactionXdr = tx\<rparr> (hc_HorizonURL (fixed_client c)))"
  shows "post_talk D tx c = Ask (tx_post (fixed_client c) tx)
    (\<lambda>x. Done (and_then x (decodeResponse D (fixed_client c) (cd_Transaction D)), fixed_client c))"
proof -
  obtain q where q: "submitRequest_HTTPRequest D \<lparr>sbr_endpoint = ''transactions'', sbr_transactionXdr = tx\<rparr> (hc_HorizonURL (fixed_client c)) = Inr q"
    using assms by (auto simp: is_ok_iff)
  then have "setClientAppHeaders (fixed_client c) q = tx_post (fixed_client c) tx"
    by (auto simp: submitRequest_HTTPRequest_def http_NewRequest_def tx_post_def Header_Set_def and_then_eq_Inr)
  then show ?thesis using q by (simp add: post_talk_def send_talk_def fixHorizonURL_eq)
qed

lemma post_talk_cases:
  obtains e where "post_talk D tx c = Done (Inl e, fixed_client c)"
  | "post_talk D tx c = Ask (tx_post (fixed_client c) tx)
      (\<lambda>x. Done (and_then x (decodeResponse D (fixed_client c) (cd_Transaction D)), fixed_client c))"
proof (cases "submitRequest_HTTPRequest D \<lparr>sbr_endpoint = ''transactions'', sbr_transactionXdr = tx\<rparr> (hc_HorizonURL (fixed_client c))")
  case (Inl e)
  then show ?thesis using that(1) by (simp add: post_talk_def send_talk_def fixHorizonURL_eq)
next
  case Inr
  then show ?thesis using that(2) post_talk_ok by (simp add: is_ok_iff)
qed

section \<open>Signing and submitting\<close>

primrec submit_talk ::
  "http_codec \<Rightarrow> string \<Rightarrow> nat \<Rightarrow> go_error option \<Rightarrow> http_client \<Rightarrow> ((SubmitResult \<times> go_error option) \<times> http_client) talk" where
  "submit_talk D tx 0 prev = (\<lambda>c. Done ((failed_attempt submitAttempts, map_option errMap prev), c))"
| "submit_talk D tx (Suc n) prev = (\<lambda>c. talk_bind (post_talk D tx c) (\<lambda>(r, c).
     let i = submitAttempts - Suc n in
     case r of
       Inl e \<Rightarrow> if retries e then submit_talk D tx n (Some e) c else Done ((failed_attempt i, Some (errMap e)), c)
     | Inr resp \<Rightarrow>
         Done ((\<lparr>sub_Ledger = htx_Ledger resp, sub_TxID = htx_Hash resp, sub_Attempt = int i, sub_ResultXDR = htx_ResultXdr resp\<rparr>,
           None), c)))"

lemma submit_loop_talk:
  "submit_loop (cl_horizon (over_http D Do E)) tx n prev (c, w) = in_client Do (submit_talk D tx n prev c) w"
proof (induction n arbitrary: prev c w)
  case (Suc n)
  then show ?case
    by (auto simp: over_http_def Submit_talk in_client_def run_talk_bind Let_def split: prod.splits sum.splits)
qed (simp add: in_client_def)

text \<open>The submissions are one request, at most as often as attempts are left.\<close>

lemma submit_talk_requests:
  "run_talk Do (submit_talk D tx n prev c) w = ((r, c'), w') \<Longrightarrow>
    \<exists>k \<le> n. requests Do (submit_talk D tx n prev c) w = replicate k (tx_post (fixed_client c) tx) \<and>
      (snd r = None \<longrightarrow> 0 < k \<or> n = 0 \<and> prev = None) \<and> (c' = fixed_client c \<or> n = 0)"
proof (induction n arbitrary: prev c w)
  case (Suc n)
  show ?case
  proof (cases rule: post_talk_cases [of D tx c])
    case (1 e)
    show ?thesis
    proof (cases "retries e")
      case True
      with Suc.prems 1 have "run_talk Do (submit_talk D tx n (Some e) (fixed_client c)) w = ((r, c'), w')" by simp
      from Suc.IH [OF this] obtain k where k: "k \<le> n"
        "requests Do (submit_talk D tx n (Some e) (fixed_client c)) w = replicate k (tx_post (fixed_client c) tx)"
        "snd r = None \<longrightarrow> 0 < k" "c' = fixed_client c \<or> n = 0" by auto
      moreover have "n = 0 \<Longrightarrow> c' = fixed_client c" using Suc.prems 1 True by simp
      ultimately show ?thesis using 1 True by (intro exI [of _ k]) auto
    qed (use Suc.prems 1 in \<open>auto simp: Let_def\<close>)
  next
    case 2
    obtain x w1 where x: "Do (tx_post (fixed_client c) tx) w = (x, w1)" by fastforce
    let ?d = "and_then x (decodeResponse D (fixed_client c) (cd_Transaction D))"
    show ?thesis
    proof (cases "\<exists>e. ?d = Inl e \<and> retries e")
      case True
      then obtain e where e: "?d = Inl e" "retries e" by blast
      with Suc.prems 2 x have run: "run_talk Do (submit_talk D tx n (Some e) (fixed_client c)) w1 = ((r, c'), w')" by simp
      from Suc.IH [OF this] obtain k where k: "k \<le> n"
        "requests Do (submit_talk D tx n (Some e) (fixed_client c)) w1 = replicate k (tx_post (fixed_client c) tx)"
        "c' = fixed_client c \<or> n = 0" by auto
      moreover have "n = 0 \<Longrightarrow> c' = fixed_client c" using run by simp
      ultimately show ?thesis using 2 x e by (intro exI [of _ "Suc k"]) auto
    next
      case False
      then show ?thesis using Suc.prems 2 x by (intro exI [of _ "Suc 0"]) (auto simp: Let_def split: sum.splits)
    qed
  qed
qed auto

lemma over_http_fields [simp]:
  "cl_crypto (over_http D Do E) = cl_crypto E" "cl_network (over_http D Do E) = cl_network E"
  by (simp_all add: over_http_def)

lemma run_flow_over_http: "run_flow (over_http D Do E) from f P fee = run_flow E from f P fee"
proof -
  have "sign_in (over_http D Do E) P from = sign_in E P from" by (intro ext) (simp add: sign_in_def)
  then show ?thesis by (simp add: run_flow_calls base_tx_def)
qed

lemma holds_tx_over_http: "holds_tx (over_http D Do E) = holds_tx E"
  by (simp add: fun_eq_iff holds_tx_def)

text \<open>A transaction function asks its provider at most once, for the seed's account.\<close>

lemma run_flow_asks:
  "(\<exists>e. \<forall>P w. run_flow E from f P fee w = (Inl e, w)) \<or>
   (\<exists>a g. SeedStr_Address (cl_crypto E) from = Inr a \<and>
      (\<forall>P w. run_flow E from f P fee w = (case P a w of (y, w') \<Rightarrow> (g y, w'))))"
proof (cases "base_tx E from fee")
  case (Inl e)
  then show ?thesis by (intro disjI1) (auto simp: run_flow_calls)
next
  case (Inr t)
  show ?thesis
  proof (cases "flow_calls (cl_crypto E) f")
    case (Inl e)
    with Inr show ?thesis by (intro disjI1) (auto simp: run_flow_calls)
  next
    case calls: (Inr as)
    let ?t = "run_actions (cl_crypto E) as t"
    have t: "SeedStr_Address (cl_crypto E) from = Inr (source ?t)"
      using Inr by (auto simp: base_tx_eq_Inr NewBaseTx_def)
    show ?thesis
    proof (cases "err ?t \<noteq> None \<or> tx_Operations (internal ?t) = []")
      case True
      then obtain e where "fst (Sign (cl_crypto E) from ?t) = Inl e" by (cases "err ?t") (auto simp: Sign_def)
      with Inr calls True show ?thesis by (intro disjI1 exI [of _ e]) (simp add: run_flow_calls sign_in_def)
    next
      case False
      with Inr calls t show ?thesis by (intro disjI2) (fastforce simp: run_flow_calls sign_in_def)
    qed
  qed
qed

text \<open>The conversation of a function that signs and submits; \<open>g\<close> signs with the answer of the provider.\<close>

definition flow_talk ::
  "http_codec \<Rightarrow> string \<Rightarrow> (int64 res \<Rightarrow> SignResult res) \<Rightarrow> http_client \<Rightarrow> (submitted \<times> http_client) talk" where
  "flow_talk D a g c = talk_bind (detail_talk D a c) (\<lambda>(r, c).
     case g (and_then r GetSequenceNumber) of
       Inl e \<Rightarrow> Done (no_submission (errMap e), c)
     | Inr sig \<Rightarrow> talk_bind (submit_talk D (sr_Signed sig) submitAttempts None c)
         (\<lambda>((res, e), c). Done (((sub_Ledger res, sub_TxID res, sub_Attempt res), e), c)))"

lemma provider_talk:
  "Client (over_http D Do E) a (c, w) = in_client Do (talk_bind (detail_talk D a c) (\<lambda>(r, c). Done (and_then r GetSequenceNumber, c))) w"
  by (auto simp: Client_def SequenceForAccount_def over_http_def AccountDetail_talk op_bind_def in_client_def run_talk_bind
      and_then_def split: prod.splits sum.splits)

lemma flow_talk_runs:
  assumes "\<And>P w. run_flow E from f P fee w = (case P a w of (y, w') \<Rightarrow> (g y, w'))"
  shows "sign_and_submit (over_http D Do E) (run_flow (over_http D Do E) from f (Client (over_http D Do E)) fee) (c, w) =
    in_client Do (flow_talk D a g c) w"
  unfolding sign_and_submit_def run_flow_over_http assms provider_talk submitNoResultXDR_def Submit_def
  by (auto simp: in_client_def flow_talk_def run_talk_bind submit_loop_talk split: prod.splits sum.splits)

text \<open>What is signed does not depend on who asks for the sequence number.\<close>

lemma asking_flow_signs:
  assumes "crypto_ok (cl_crypto E)" "wt_flow f" "\<And>P w. run_flow E from f P fee w = (case P a w of (y, w') \<Rightarrow> (g y, w'))"
    and "SeedStr_Address (cl_crypto E) from = Inr a" "g y = Inr sig"
  shows "\<exists>account seqno ty v m. y = Inr seqno \<and> AddressStr_MuxedAccount a = Inr account \<and> flow_op (cl_crypto E) f = Inr (ty, v) \<and>
    flow_memo f = Inr m \<and> holds_tx E (sr_Signed sig) (one_op_tx ty v m (flow_bounds f) fee seqno account)"
proof -
  have "run_flow E from f (\<lambda>_ w. (y, w)) fee undefined = (Inr sig, undefined)" by (simp add: assms(3,5))
  from flow_signed [OF assms(1,2) this] assms(4) show ?thesis by auto
qed

lemma in_client_logged:
  "in_client (logging Do) T (w, []) = (r, c', w', sent) \<longleftrightarrow> run_talk Do T w = ((r, c'), w') \<and> sent = requests Do T w"
  by (auto simp: in_client_def logged_requests split: prod.splits)

lemma flow_talk_requests:
  assumes "\<And>e. \<exists>e'. g (Inl e) = Inl e'" and "run_talk Do (flow_talk D a g c) w = (((res, e), c'), w')"
  shows "requests Do (flow_talk D a g c) w = [] \<and> e \<noteq> None \<or>
    (\<exists>n txt. requests Do (flow_talk D a g c) w = account_get (fixed_client c) a # replicate n (tx_post (fixed_client c) txt) \<and>
       n \<le> 3 \<and> (e = None \<longrightarrow> 0 < n) \<and> (0 < n \<longrightarrow> (\<exists>seqno sig. g (Inr seqno) = Inr sig \<and> txt = sr_Signed sig)))"
proof (cases rule: detail_talk_cases [of D a c])
  case (1 e0 c0)
  obtain e1 where "g (Inl e0) = Inl e1" using assms(1) by blast
  with 1 assms(2) show ?thesis by (auto simp: flow_talk_def no_submission_def)
next
  case 2
  obtain x w1 where x: "Do (account_get (fixed_client c) a) w = (x, w1)" by fastforce
  let ?y = "and_then (and_then x (decodeResponse D (fixed_client c) (cd_Account D))) GetSequenceNumber"
  show ?thesis
  proof (cases "g ?y")
    case (Inl e1)
    with 2 x assms(2) show ?thesis by (intro disjI2 exI [of _ "0::nat"]) (auto simp: flow_talk_def no_submission_def)
  next
    case (Inr sig)
    then obtain seqno where y: "?y = Inr seqno" using assms(1) by (cases ?y) (metis sum.distinct(1), blast)
    let ?T = "submit_talk D (sr_Signed sig) submitAttempts None (fixed_client c)"
    obtain r c1 w2 where run: "run_talk Do ?T w1 = ((r, c1), w2)" by (metis surj_pair)
    from submit_talk_requests [OF run] obtain k where k: "k \<le> 3"
        "requests Do ?T w1 = replicate k (tx_post (fixed_client c) (sr_Signed sig))" "snd r = None \<longrightarrow> 0 < k"
      by (auto simp: submitAttempts_def)
    have e: "e = snd r" using 2 x Inr run assms(2) by (auto simp: flow_talk_def run_talk_bind split: prod.splits)
    have "requests Do (flow_talk D a g c) w = account_get (fixed_client c) a # requests Do ?T w1"
      using 2 x Inr run by (simp add: flow_talk_def requests_bind split: prod.splits)
    then show ?thesis using k e Inr y by (intro disjI2 exI [of _ k] exI [of _ "sr_Signed sig"]) auto
  qed
qed

text \<open>Every request of it is a \<open>GET\<close> or a \<open>POST\<close>.\<close>

lemma flow_talk_methods: "list_all (\<lambda>q. body_call (CallDo q)) (requests Do (flow_talk D a g c) w)"
proof -
  have plain: "body_call (CallDo (account_get c a))" "body_call (CallDo (tx_post c t))" for c a t
    by (simp_all add: account_get_def tx_post_def setClientAppHeaders_def Header_Set_def)
  have submit: "list_all (\<lambda>q. body_call (CallDo q)) (requests Do (submit_talk D tx n prev c) w)" for tx n prev c w
  proof -
    obtain r c' w' where "run_talk Do (submit_talk D tx n prev c) w = ((r, c'), w')" by (metis surj_pair)
    from submit_talk_requests [OF this] show ?thesis using plain(2) by (auto simp: list_all_iff simp del: body_call.simps)
  qed
  show ?thesis
    by (cases rule: detail_talk_cases [of D a c])
      (auto simp: flow_talk_def requests_bind plain submit simp del: body_call.simps split: prod.splits sum.splits)
qed

lemma form_body: "parse_query (rq_Body (tx_post c txt)) = [(''tx'', txt)]"
proof -
  have "list_all (\<lambda>c. \<not> query_sep c) (QueryEscape txt)"
    using QueryEscape_escaped [of "txt"] by (rule list.pred_mono_strong) (auto simp: query_sep_def dest: escaped_plain)
  then show ?thesis
    by (simp add: tx_post_def setClientAppHeaders_def Header_Set_def parse_query_def split_sep_plain query_setting_def query_sep_def cut_def)
qed

section \<open>Recording and playing back\<close>

lemma do_all_vcr: "do_all (vcr_Do V) qs vs = vcr_calls V (map CallDo qs) vs"
  by (induction qs arbitrary: vs) (auto split: prod.splits)

lemma talk_replays:
  assumes "responses_ok V" "reads_ok V" "vc_mode v = Record" "vc_dir v \<noteq> []"
    and "list_all (\<lambda>q. body_call (CallDo q)) (requests (vcr_Do V) T (v, s))"
    and "run_talk (watching (vcr_Do V)) T ((v, s), True) = (x, ((v', s'), True))" "map_of (files t) = map_of (files s')"
  shows "run_talk (watching (vcr_Do V)) T ((v\<lparr>vc_mode := Play\<rparr>, t), True) = (x, ((v'\<lparr>vc_mode := Play\<rparr>, t), True))"
proof -
  let ?qs = "requests (vcr_Do V) T (v, s)" and ?rs = "answers (vcr_Do V) T (v, s)"
  have run: "run_talk (vcr_Do V) T (v, s) = (x, (v', s'))" and ok: "list_all is_ok ?rs"
    using assms(6) by (auto simp: watched_answers split: prod.splits)
  have calls: "vcr_calls V (map CallDo ?qs) (v, s) = (?rs, v', s')"
    using do_all_requests [of "vcr_Do V" T "(v, s)"] by (simp add: do_all_vcr run)
  have "list_all body_call (map CallDo ?qs)" using assms(5) by (simp add: list.pred_map comp_def)
  from vcr_plays_back [OF assms(1-4) this calls assms(7)] obtain rs' where
    "vcr_calls V (map CallDo ?qs) (v\<lparr>vc_mode := Play\<rparr>, t) = (rs', v'\<lparr>vc_mode := Play\<rparr>, t)"
    "list_all2 (\<lambda>r r'. is_ok r \<longrightarrow> r' = r) ?rs rs'" by blast
  moreover from this(2) ok have "rs' = ?rs" by (induction rule: list_all2_induct) auto
  ultimately have play: "do_all (vcr_Do V) ?qs (v\<lparr>vc_mode := Play\<rparr>, t) = (?rs, (v'\<lparr>vc_mode := Play\<rparr>, t))"
    by (simp add: do_all_vcr)
  show ?thesis using run_talk_same_answers [OF play] answers_same [OF play] ok run by (simp add: watched_answers)
qed

section \<open>A client and a server on which the hypotheses hold\<close>

definition demo_codec :: http_codec where
  "demo_codec = \<lparr>cd_Account = (\<lambda>_. Inr demo_account),
     cd_Transaction = (\<lambda>_. Inr \<lparr>htx_ID = ''id'', htx_Hash = ''hash'', htx_Ledger = 5, htx_ResultXdr = ''xdr''\<rparr>),
     cd_Root = (\<lambda>_. Inl (NewError ''json'')), cd_Problem = (\<lambda>_. Inl (NewError ''json''))\<rparr>"

definition demo_http_client :: http_client where
  "demo_http_client = \<lparr>hc_HorizonURL = ''https://horizon//'', hc_Timeout = None, c_fixed = False, c_AppName = [], c_AppVersion = []\<rparr>"

definition no_horizon :: "'w horizon" where
  "no_horizon = \<lparr>HorizonURL = [], hz_AccountDetail = (\<lambda>a w. (Inl (NewError ''no answer''), w)),
     hz_SubmitTransactionXDR = (\<lambda>tx w. (Inl (NewError ''no answer''), w)), hz_Get = (\<lambda>u w. (Inl (NewError ''no answer''), w)),
     json_Problem = (\<lambda>b. Inl (NewError ''json'')), json_AssetsPage = (\<lambda>b. Inl (NewError ''json'')),
     json_Effects = (\<lambda>b. Inl (NewError ''json'')), json_Payments = (\<lambda>b. Inl (NewError ''json'')),
     json_Transactions = (\<lambda>b. Inl (NewError ''json'')), json_Operations = (\<lambda>b. Inl (NewError ''json'')),
     json_Transaction = (\<lambda>b. Inl (NewError ''json'')), json_hAssets = (\<lambda>b. Inl (NewError ''json'')),
     json_Paths = (\<lambda>b. Inl (NewError ''json'')), error_text = (\<lambda>e. ''error'')\<rparr>"

definition demo_web :: "'w client" where
  "demo_web = \<lparr>cl_crypto = plain_crypto, cl_network = ''net'', cl_horizon = no_horizon\<rparr>"

lemma demo_web_fields [simp]:
  "cl_crypto demo_web = plain_crypto" "cl_network demo_web = ''net''" "crypto_ok (cl_crypto demo_web)"
  by (simp_all add: demo_web_def plain_crypto_ok)

lemma demo_fixed: "fixed_client demo_http_client = demo_http_client\<lparr>hc_HorizonURL := ''https://horizon/'', c_fixed := True\<rparr>"
  by (simp add: fixed_client_def fixHorizonURL_def demo_http_client_def strings_TrimRight_def)

abbreviation demo_client_fixed :: http_client where
  "demo_client_fixed \<equiv> demo_http_client\<lparr>hc_HorizonURL := ''https://horizon/'', c_fixed := True\<rparr>"

text \<open>With answers of status 200 the two requests are made and decoded.\<close>

lemma demo_requests_possible:
  "is_ok (AccountRequest_HTTPRequest demo_codec \<lparr>ar_AccountID = address_of demo_pub, ar_DataKey = []\<rparr> ''https://horizon/'')"
  "is_ok (submitRequest_HTTPRequest demo_codec \<lparr>sbr_endpoint = ''transactions'', sbr_transactionXdr = tx\<rparr> ''https://horizon/'')"
  "is_ok (url_Parse ''https://horizon/'')"
proof -
  show "is_ok (AccountRequest_HTTPRequest demo_codec \<lparr>ar_AccountID = address_of demo_pub, ar_DataKey = []\<rparr> ''https://horizon/'')"
    by code_simp
  show "is_ok (url_Parse ''https://horizon/'')" by code_simp
  have "is_ok (url_Parse ''https://horizon/transactions'')" by code_simp
  then show "is_ok (submitRequest_HTTPRequest demo_codec \<lparr>sbr_endpoint = ''transactions'', sbr_transactionXdr = tx\<rparr> ''https://horizon/'')"
    by (auto simp: submitRequest_HTTPRequest_def http_NewRequest_def is_ok_iff)
qed

lemma demo_talk:
  assumes "Do (account_get demo_client_fixed (address_of demo_pub)) w = (Inr resp, w1)"
    and "Do (tx_post demo_client_fixed (sr_Signed sig)) w1 = (Inr resp, w2)" and "rs_StatusCode resp = 200" and "g (Inr 7) = Inr sig"
  shows "run_talk Do (flow_talk demo_codec (address_of demo_pub) g demo_http_client) w =
      ((((5, ''hash'', 0), None), demo_client_fixed), w2)" (is "run_talk Do ?T w = _")
    and "requests Do (flow_talk demo_codec (address_of demo_pub) g demo_http_client) w =
      [account_get demo_client_fixed (address_of demo_pub), tx_post demo_client_fixed (sr_Signed sig)]"
    and "answers Do (flow_talk demo_codec (address_of demo_pub) g demo_http_client) w = [Inr resp, Inr resp]"
proof -
  let ?c = demo_client_fixed
  have url: "hc_HorizonURL ?c = ''https://horizon/''" "fixed_client ?c = ?c" "fixed_client demo_http_client = ?c"
    using fixed_client_idem [of demo_http_client] by (simp_all add: demo_fixed)
  have ok: "decodeResponse demo_codec ?c decode resp = map_err (Wrapped ''error decoding response'') (decode (rs_Body resp))"
    for decode :: "string res \<Rightarrow> 'x res"
    using demo_requests_possible(3) assms(3) by (auto simp: decodeResponse_def is_ok_iff)
  have detail: "detail_talk demo_codec (address_of demo_pub) demo_http_client = Ask (account_get ?c (address_of demo_pub))
      (\<lambda>x. Done (and_then x (decodeResponse demo_codec ?c (cd_Account demo_codec)), ?c))"
    using detail_talk_ok [of demo_codec "address_of demo_pub" demo_http_client] demo_requests_possible(1) by (simp add: demo_fixed)
  have post: "post_talk demo_codec tx ?c = Ask (tx_post ?c tx)
      (\<lambda>x. Done (and_then x (decodeResponse demo_codec ?c (cd_Transaction demo_codec)), ?c))" for tx
    using post_talk_ok [of demo_codec tx ?c] demo_requests_possible(2) url by simp
  have codec: "cd_Account demo_codec b = Inr demo_account"
    "cd_Transaction demo_codec b = Inr \<lparr>htx_ID = ''id'', htx_Hash = ''hash'', htx_Ledger = 5, htx_ResultXdr = ''xdr''\<rparr>" for b
    by (simp_all add: demo_codec_def)
  have seqno: "GetSequenceNumber demo_account = Inr 7"
    using demo_seqno [of "[]" 0] by (simp add: Client_def SequenceForAccount_def demo_client_def op_bind_def)
  note defs = flow_talk_def detail post ok codec seqno assms submitAttempts_def numeral_3_eq_3 Let_def
  show "run_talk Do ?T w = ((((5, ''hash'', 0), None), ?c), w2)" by (simp add: defs)
  show "requests Do ?T w = [account_get ?c (address_of demo_pub), tx_post ?c (sr_Signed sig)]" by (simp add: defs)
  show "answers Do ?T w = [Inr resp, Inr resp]" by (simp add: defs)
qed

text \<open>Setting a home domain, which asks for the sequence number 7 and signs.\<close>

definition demo_web_flow :: flow where "demo_web_flow = FlowHomeDomain ''keybase.io'' (Some (5, 9))"

lemma demo_web_asks:
  obtains g sig where "\<And>P w. run_flow (demo_web :: 'w client) demo_seed demo_web_flow P 100 w =
      (case P (address_of demo_pub) w of (y, w') \<Rightarrow> (g y, w'))" and "g (Inr 7) = Inr sig"
proof -
  obtain sig where sig: "run_flow (demo_web :: 'w client) demo_seed demo_web_flow (\<lambda>_ w. (Inr 7, w)) 100 undefined = (Inr sig, undefined)"
    using flow_returned [OF demo_web_fields(3), where f = demo_web_flow and P = "\<lambda>_ w. (Inr 7, w)" and fee = 100 and w = undefined
        and seqno = 7 and w' = undefined and ?from = demo_seed]
    by (fastforce simp: demo_web_flow_def demo_seed_ok demo_Address TrimSpace_net)
  from run_flow_asks [of "demo_web :: 'w client" demo_seed demo_web_flow 100] obtain a g
    where g: "SeedStr_Address plain_crypto demo_seed = Inr a"
      "\<And>P w. run_flow (demo_web :: 'w client) demo_seed demo_web_flow P 100 w = (case P a w of (y, w') \<Rightarrow> (g y, w'))"
    using sig by (metis Inl_Inr_False demo_web_fields(1) prod.inject)
  from sig g(2) have "g (Inr 7) = Inr sig" by simp
  with g that show ?thesis by (simp add: demo_Address)
qed

section \<open>Properties\<close>

text \<open>
  C3. What a payment, or any other function of the package that signs and submits, sends:
  nothing, and it fails; or one query for the account of the seed, and then at most three
  times one and the same form, whose only field reads back as the text of the signed
  transaction, which has exactly the one operation the arguments stand for. Nothing else is
  sent, and success is reported only after a submission.
\<close>

theorem flow_traffic:
  assumes "crypto_ok (cl_crypto E)" and "wt_flow f"
    and "sign_and_submit (over_http D (logging Do) E)
      (run_flow (over_http D (logging Do) E) from f (Client (over_http D (logging Do) E)) fee) (c, w, []) = ((res, e), c', w', sent)"
  shows "sent = [] \<and> e \<noteq> None \<or>
    (\<exists>a n txt. SeedStr_Address (cl_crypto E) from = Inr a \<and>
       sent = account_get (fixed_client c) a # replicate n (tx_post (fixed_client c) txt) \<and> n \<le> 3 \<and> (e = None \<longrightarrow> 0 < n) \<and>
       (0 < n \<longrightarrow> parse_query (rq_Body (tx_post (fixed_client c) txt)) = [(''tx'', txt)] \<and>
          (\<exists>account seqno ty v m. AddressStr_MuxedAccount a = Inr account \<and> flow_op (cl_crypto E) f = Inr (ty, v) \<and>
             flow_memo f = Inr m \<and> holds_tx E txt (one_op_tx ty v m (flow_bounds f) fee seqno account))))"
  using run_flow_asks [of E "from" f fee]
proof (elim disjE exE conjE)
  fix e0 assume "\<forall>P w. run_flow E from f P fee w = (Inl e0, w)"
  with assms(3) show ?thesis by (auto simp: run_flow_over_http sign_and_submit_def no_submission_def)
next
  fix a g assume a: "SeedStr_Address (cl_crypto E) from = Inr a"
    and asks: "\<forall>P w. run_flow E from f P fee w = (case P a w of (y, w') \<Rightarrow> (g y, w'))"
  note signs = asking_flow_signs [OF assms(1,2) asks [rule_format] a]
  have g: "\<exists>e'. g (Inl e) = Inl e'" for e using signs [of "Inl e"] by (cases "g (Inl e)") auto
  have "run_talk Do (flow_talk D a g c) w = (((res, e), c'), w') \<and> sent = requests Do (flow_talk D a g c) w"
    using assms(3) unfolding flow_talk_runs [OF asks [rule_format]] in_client_logged .
  then have run: "run_talk Do (flow_talk D a g c) w = (((res, e), c'), w')" and sent: "sent = requests Do (flow_talk D a g c) w" by auto
  have body: "\<exists>account seqno ty v m. AddressStr_MuxedAccount a = Inr account \<and> flow_op (cl_crypto E) f = Inr (ty, v) \<and>
      flow_memo f = Inr m \<and> holds_tx E t (one_op_tx ty v m (flow_bounds f) fee seqno account)"
    if "\<exists>seqno sig. g (Inr seqno) = Inr sig \<and> t = sr_Signed sig" for t
    using that signs by blast
  from flow_talk_requests [where g = g, OF g run] show ?thesis
    unfolding sent [symmetric]
  proof (elim disjE exE conjE)
    fix n t
    assume n: "sent = account_get (fixed_client c) a # replicate n (tx_post (fixed_client c) t)" "n \<le> 3" "e = None \<longrightarrow> 0 < n"
      and t: "0 < n \<longrightarrow> (\<exists>seqno sig. g (Inr seqno) = Inr sig \<and> t = sr_Signed sig)"
    have "0 < n \<longrightarrow> parse_query (rq_Body (tx_post (fixed_client c) t)) = [(''tx'', t)] \<and>
        (\<exists>account seqno ty v m. AddressStr_MuxedAccount a = Inr account \<and> flow_op (cl_crypto E) f = Inr (ty, v) \<and>
          flow_memo f = Inr m \<and> holds_tx E t (one_op_tx ty v m (flow_bounds f) fee seqno account))"
      using t body by (auto simp: form_body)
    with n a show ?thesis by blast
  qed simp
qed

theorem flow_traffic_witness:
  "\<exists>t tx. let E = over_http demo_codec (logging (\<lambda>q w. (Inr demo_response, Suc w))) demo_web in
     sign_and_submit E (run_flow E demo_seed demo_web_flow (Client E) 100) (demo_http_client, 0, []) =
       (((5, ''hash'', 0), None), demo_client_fixed, 2,
        [account_get demo_client_fixed (address_of demo_pub), tx_post demo_client_fixed t]) \<and> holds_tx E t tx"
proof -
  let ?Do = "\<lambda>q w. (Inr demo_response, Suc w)" let ?E = "over_http demo_codec (logging ?Do) demo_web"
  obtain g sig where g: "\<And>P w. run_flow (demo_web :: (http_client \<times> nat \<times> http_request list) client) demo_seed demo_web_flow P 100 w =
      (case P (address_of demo_pub) w of (y, w') \<Rightarrow> (g y, w'))" "g (Inr 7) = Inr sig" by (rule demo_web_asks) blast
  have status: "rs_StatusCode demo_response = 200" by (simp add: demo_response_def)
  note talk = demo_talk [where Do = ?Do and w = 0 and g = g, OF _ _ status g(2)]
  have run: "sign_and_submit ?E (run_flow ?E demo_seed demo_web_flow (Client ?E) 100) (demo_http_client, 0, []) =
       (((5, ''hash'', 0), None), demo_client_fixed, 2,
        [account_get demo_client_fixed (address_of demo_pub), tx_post demo_client_fixed (sr_Signed sig)])"
    unfolding flow_talk_runs [OF g(1)] in_client_logged using talk by simp
  have wt: "wt_flow demo_web_flow" by (simp add: demo_web_flow_def)
  from flow_traffic [OF demo_web_fields(3) wt run] obtain a n t tx where
    "[account_get demo_client_fixed (address_of demo_pub), tx_post demo_client_fixed (sr_Signed sig)] =
       account_get demo_client_fixed a # replicate n (tx_post demo_client_fixed t)" "0 < n"
    "holds_tx (demo_web :: (http_client \<times> nat \<times> http_request list) client) t tx"
    unfolding demo_fixed by blast
  moreover from this(1,2) have "tx_post demo_client_fixed t = tx_post demo_client_fixed (sr_Signed sig)" by (cases n) auto
  then have "t = sr_Signed sig" using form_body [of demo_client_fixed] by (metis list.inject prod.inject)
  ultimately show ?thesis using run unfolding Let_def holds_tx_over_http by blast
qed

text \<open>
  C18. A payment, or any other function that signs and submits, can be tested from a recording:
  when the client goes through the recorder and every request was answered, whatever horizon
  said, the same call in playback mode on the files left gives the same result and the same
  client, without the network and without touching a file.
\<close>

theorem flow_replays:
  fixes E :: "(http_client \<times> (VCR \<times> ('w, 'z) disk_scheme) \<times> bool) client"
  assumes "responses_ok V" and "reads_ok V" and "vc_mode v = Record" and "vc_dir v \<noteq> []"
    and "sign_and_submit (over_http D (watching (vcr_Do V)) E)
      (run_flow (over_http D (watching (vcr_Do V)) E) from f (Client (over_http D (watching (vcr_Do V)) E)) fee)
      (c, (v, s), True) = (r, c', (v', s'), True)"
    and "map_of (files t) = map_of (files s')"
  shows "sign_and_submit (over_http D (watching (vcr_Do V)) E)
      (run_flow (over_http D (watching (vcr_Do V)) E) from f (Client (over_http D (watching (vcr_Do V)) E)) fee)
      (c, (v\<lparr>vc_mode := Play\<rparr>, t), True) = (r, c', (v'\<lparr>vc_mode := Play\<rparr>, t), True)"
  using run_flow_asks [of E "from" f fee]
proof (elim disjE exE conjE)
  fix e0 assume "\<forall>P w. run_flow E from f P fee w = (Inl e0, w)"
  with assms(5) show ?thesis by (auto simp: run_flow_over_http sign_and_submit_def)
next
  fix a g assume "\<forall>P w. run_flow E from f P fee w = (case P a w of (y, w') \<Rightarrow> (g y, w'))"
  note talk = flow_talk_runs [OF this [rule_format]]
  from assms(5) have "run_talk (watching (vcr_Do V)) (flow_talk D a g c) ((v, s), True) = ((r, c'), ((v', s'), True))"
    unfolding talk in_client_def by (auto split: prod.splits)
  from talk_replays [OF assms(1-4) flow_talk_methods this assms(6)] show ?thesis unfolding talk in_client_def by simp
qed

lemma demo_recording: "vc_mode v = Record \<Longrightarrow> \<exists>v' s'. vcr_Do demo_test_env q (v, s) = (Inr demo_response, v', s') \<and> vc_mode v' = Record"
  by (simp add: vcr_Do_def vcr_request_def reqHash_def vcr_recorded_def vcr_live_def vcr_writeResponse_def answered_def op_bind_def at_outside_def
      ioutil_WriteFile_def Let_def demo_test_env_def vcr_incSeqno_def and_then_def)

theorem flow_replays_witness:
  "\<exists>fs v' q. let E = over_http demo_codec (watching (vcr_Do demo_test_env)) demo_web in
     sign_and_submit E (run_flow E demo_seed demo_web_flow (Client E) 100)
       (demo_http_client, (\<lparr>vc_dir = ''d'', vc_mode = Play, vc_seqno = (\<lambda>_. 0)\<rparr>, demo_test False fs), True) =
       (((5, ''hash'', 0), None), demo_client_fixed, (v', q), True)"
proof -
  let ?Do = "vcr_Do demo_test_env" let ?E = "over_http demo_codec (watching ?Do) demo_web"
  let ?v = "\<lparr>vc_dir = ''d'', vc_mode = Record, vc_seqno = (\<lambda>_. 0)\<rparr>" and ?s = "demo_test True []"
  obtain g sig where g: "\<And>P w. run_flow (demo_web :: (http_client \<times> (VCR \<times> nat test_state) \<times> bool) client) demo_seed demo_web_flow P 100 w =
      (case P (address_of demo_pub) w of (y, w') \<Rightarrow> (g y, w'))" "g (Inr 7) = Inr sig" by (rule demo_web_asks) blast
  have status: "rs_StatusCode demo_response = 200" by (simp add: demo_response_def)
  obtain v1 s1 where first: "?Do (account_get demo_client_fixed (address_of demo_pub)) (?v, ?s) = (Inr demo_response, (v1, s1))" "vc_mode v1 = Record"
    using demo_recording [of ?v] by fastforce
  then obtain v2 s2 where second: "?Do (tx_post demo_client_fixed (sr_Signed sig)) (v1, s1) = (Inr demo_response, (v2, s2))"
    using demo_recording by blast
  note talk = demo_talk [where Do = ?Do and g = g, OF first(1) second status g(2)]
  have run: "sign_and_submit ?E (run_flow ?E demo_seed demo_web_flow (Client ?E) 100) (demo_http_client, (?v, ?s), True) =
      (((5, ''hash'', 0), None), demo_client_fixed, (v2, s2), True)"
    unfolding flow_talk_runs [OF g(1)] using talk by (simp add: in_client_def watched_answers)
  have "map_of (files (demo_test False (files s2))) = map_of (files s2)" by (simp add: demo_test_def)
  from flow_replays [OF demo_test_ok(1,2) _ _ run this] show ?thesis by (auto simp: Let_def)
qed

end
