(* ===== verification/Horizon_Links.thy ===== *)
theory Horizon_Links
  imports Accounts
begin

text \<open>
  Where the queries of \<open>account.go\<close> and \<open>assets.go\<close> go: the URL each asks the server for, in
  terms of the address the client was given.
\<close>

section \<open>Links\<close>

lemma horizonLink_plain:
  assumes "plain_scheme s" "plain_host h" "plain_path b" "plain_path p" "p \<noteq> []" "\<not> HasPrefix p ''//''" "no_dots p" "plain_query q"
  shows "horizonLink (s @ ''://'' @ h @ b) (p @ q) = Inr (s @ ''://'' @ h @ p @ q)"
proof -
  have "plain_query []" by (simp add: plain_query_def)
  from url_Parse_plain [OF assms(1-3) this] have "url_Parse (s @ ''://'' @ h @ b) = Inr (plain_url s h b [])" by simp
  moreover note url_Parse_path [OF assms(4-6,8)] ResolveReference_plain [OF assms(4,5,7), of s h b q]
    url_String_plain [OF assms(1,2,4,8)]
  ultimately show ?thesis by (simp add: horizonLink_def)
qed

text \<open>A plain link is asked for as it is, once, whatever comes of it.\<close>

lemma op_bind_last: "(\<And>x t. snd (f x t) = t) \<Longrightarrow> snd (op_bind m f w) = snd (m w)"
  by (auto simp: op_bind_def split: prod.splits sum.splits)

lemma op_map_err_state: "snd (op_map_err f m w) = snd (m w)"
  by (auto simp: op_map_err_def split: prod.splits)

lemma get_plain:
  assumes "plain_scheme s" "plain_host h" "plain_path p" "plain_query q"
  shows "snd (getDecodeJSONStrict H (s @ ''://'' @ h @ p @ q) decode w) = snd (hz_Get H (s @ ''://'' @ h @ p @ q) w)"
proof -
  have "op_map_err errMap (op_lift (url_Parse (s @ ''://'' @ h @ p @ q))) w = (Inr (plain_url s h p q), w)"
    by (simp add: url_Parse_plain [OF assms] op_map_err_def del: append_Cons append_Nil append.simps)
  then show ?thesis
    by (simp add: getDecodeJSONStrict_def url_String_plain [OF assms] del: append_Cons append_Nil append.simps)
      (auto simp: op_map_err_def op_bind_def split: prod.splits sum.splits)
qed

section \<open>Words in links\<close>

definition plain_word :: "string \<Rightarrow> bool" where
  "plain_word s \<longleftrightarrow> list_all (\<lambda>c. (CHR ''a'' \<le> c \<and> c \<le> CHR ''z'') \<or> (CHR ''A'' \<le> c \<and> c \<le> CHR ''Z'') \<or> (CHR ''0'' \<le> c \<and> c \<le> CHR ''9'')) s"

lemma plain_word_char:
  "plain_word s \<Longrightarrow> c \<in> set s \<Longrightarrow> \<not> shouldEscape c mode \<and> unreserved c \<and> c \<noteq> CHR ''.'' \<and> c \<noteq> CHR ''/'' \<and> c \<noteq> CHR ''#'' \<and> c \<noteq> CHR ''?'' \<and> \<not> ctl_byte c"
  by (auto simp: plain_word_def list_all_iff shouldEscape_def unreserved_def ctl_byte_def less_eq_char_def less_char_def)

lemma plain_address: "plain_word (address_of pub)"
proof -
  have "plain_word b32_alphabet" unfolding b32_alphabet_def by (simp add: plain_word_def less_eq_char_def)
  then have "plain_word [b32_char v]" if "v < 32" for v using b32_char_in [OF that] by (auto simp: plain_word_def list_all_iff)
  then show ?thesis by (simp add: plain_word_def address_of_def base32_EncodeToString_def list_all_iff b32_vals_less)
qed

lemma plain_number: "plain_word (show_int i) \<or> i < 0"
  using show_nat_digits [of "nat i"] by (auto simp: show_int_def plain_word_def list_all_iff is_digit_iff less_eq_char_def)

lemma QueryEscape_word: "plain_word s \<Longrightarrow> QueryEscape s = s"
proof -
  have "escape_char c = [c]" if "unreserved c" for c
    using that by (auto simp: escape_char_def unreserved_def less_eq_char_def)
  then have "concat (map escape_char t) = t" if "\<forall>c \<in> set t. unreserved c" for t using that by (induction t) auto
  then show "plain_word s \<Longrightarrow> QueryEscape s = s" using plain_word_char [of s] by (auto simp: QueryEscape_def)
qed

lemma word_not_dot: "plain_word s \<Longrightarrow> s \<noteq> ''.'' \<and> s \<noteq> ''..''"
  by (auto simp: plain_word_def less_eq_char_def)

text \<open>A path of words, and what can follow a question mark: the bytes a text of a query may have as they are.\<close>

definition words_path :: "string list \<Rightarrow> string" where
  "words_path ws = concat (map (\<lambda>w. CHR ''/'' # w) ws)"

lemma words_path_simps [simp]: "words_path [] = []" "words_path (w # ws) = CHR ''/'' # w @ words_path ws"
  by (simp_all add: words_path_def)

lemma words_path_plain:
  assumes "list_all plain_word ws" "ws \<noteq> []" "hd ws \<noteq> []"
  shows "plain_path (words_path ws)" "no_dots (words_path ws)" "\<not> HasPrefix (words_path ws) ''//''" "words_path ws \<noteq> []"
proof -
  let ?s = "split_sep (\<lambda>c. c = CHR ''/'')"
  have split: "?s (w @ words_path vs) = w # vs" if "list_all plain_word (w # vs)" for w vs
    using that
  proof (induction vs arbitrary: w)
    case Nil
    then show ?case using plain_word_char [of w] by (auto simp: list_all_iff intro!: split_sep_plain)
  next
    case (Cons v vs)
    then have "?s w = [w]" using plain_word_char [of w] by (intro split_sep_plain) (auto simp: list_all_iff)
    with Cons show ?case by (simp add: split_sep_append)
  qed
  obtain w vs where ws: "ws = w # vs" "w \<noteq> []" using assms(2,3) by (cases ws) auto
  have "?s (words_path ws) = [] # ws" using split [of w vs] assms(1) by (simp add: ws)
  then show "no_dots (words_path ws)" using assms(1) word_not_dot by (auto simp: no_dots_def list_all_iff)
  have "\<not> shouldEscape CHR ''/'' encodePath" by (simp add: shouldEscape_def less_eq_char_def)
  then show "plain_path (words_path ws)"
    using assms(1,2) plain_word_char by (auto simp: plain_path_def HasPrefix_def list_all_iff words_path_def neq_Nil_conv)
  obtain c w' where "w = c # w'" "c \<noteq> CHR ''/''"
    using ws(2) assms(1) plain_word_char [of w] by (cases w) (auto simp: ws(1))
  then show "\<not> HasPrefix (words_path ws) ''//''" "words_path ws \<noteq> []" by (simp_all add: ws(1) HasPrefix_def)
qed

definition query_char :: "char \<Rightarrow> bool" where "query_char c \<longleftrightarrow> c \<noteq> CHR ''#'' \<and> \<not> ctl_byte c"

definition query_text :: "string \<Rightarrow> bool" where "query_text s \<longleftrightarrow> list_all query_char s"

lemma query_chars [simp]:
  "query_char CHR ''a''" "query_char CHR ''b''" "query_char CHR ''c''" "query_char CHR ''d''" "query_char CHR ''e''" "query_char CHR ''f''" "query_char CHR ''g''"
  "query_char CHR ''h''" "query_char CHR ''i''" "query_char CHR ''j''" "query_char CHR ''k''" "query_char CHR ''l''" "query_char CHR ''m''" "query_char CHR ''n''" "query_char CHR ''o''" "query_char CHR ''p''"
  "query_char CHR ''q''" "query_char CHR ''r''" "query_char CHR ''s''" "query_char CHR ''t''" "query_char CHR ''u''" "query_char CHR ''v''" "query_char CHR ''w''" "query_char CHR ''x''" "query_char CHR ''y''"
  "query_char CHR ''z''" "query_char CHR ''=''" "query_char CHR ''&''" "query_char CHR ''_''" "query_char CHR ''?''" "query_char CHR ''0''" "query_char CHR ''1''" "query_char CHR ''2''" "query_char CHR ''4''"
  by (simp_all add: query_char_def ctl_byte_def less_char_def)

lemma query_text_simps [simp]:
  "query_text []" "query_text (c # s) \<longleftrightarrow> query_char c \<and> query_text s" "query_text (s @ t) \<longleftrightarrow> query_text s \<and> query_text t"
  by (simp_all add: query_text_def)

lemma query_text_plain: "query_text q \<Longrightarrow> plain_query (CHR ''?'' # q)"
proof -
  have "\<not> ctl_byte CHR ''?''" by (simp add: ctl_byte_def less_char_def)
  then show "query_text q \<Longrightarrow> plain_query (CHR ''?'' # q)"
    by (simp add: query_text_def query_char_def [abs_def] plain_query_def HasPrefix_def)
qed

lemma word_in_query: "plain_word s \<Longrightarrow> query_text s"
  using plain_word_char [of s] by (auto simp: query_text_def query_char_def list_all_iff)

lemma escaped_in_query [simp]: "query_text (QueryEscape s)"
proof -
  have "query_char c" if "escaped c" for c
    using that escaped_plain [OF that]
    by (auto simp: query_char_def escaped_def unreserved_def ctl_byte_def less_eq_char_def less_char_def)
  then show ?thesis using QueryEscape_escaped [of s] by (auto simp: query_text_def list_all_iff)
qed

section \<open>The links of the queries\<close>

definition client_at :: "'w horizon \<Rightarrow> string \<Rightarrow> string \<Rightarrow> string \<Rightarrow> bool" where
  "client_at H s h b \<longleftrightarrow> HorizonURL H = s @ ''://'' @ h @ b \<and> plain_scheme s \<and> plain_host h \<and> plain_path b"

lemma link_asked:
  assumes "client_at H s h b" "list_all plain_word ws" "ws \<noteq> []" "hd ws \<noteq> []" "plain_query q" "l = words_path ws @ q"
  shows "horizonLink (HorizonURL H) l = Inr (s @ ''://'' @ h @ l)"
    and "snd (getDecodeJSONStrict H (s @ ''://'' @ h @ l) decode w) = snd (hz_Get H (s @ ''://'' @ h @ l) w)"
  using words_path_plain [OF assms(2-4)] assms horizonLink_plain [of s h b "words_path ws" q]
    get_plain [of s h "words_path ws" q H decode w]
  by (simp_all add: client_at_def del: append.simps)

lemma ask_mapped [simp]: "op_bind (op_map_err g (op_lift (Inr x))) f w = f x w"
  by (simp add: op_bind_def op_map_err_def)

lemma ask_plain [simp]: "op_bind (op_lift (Inr x)) f w = f x w"
  by (simp add: op_bind_def)

lemma plain_clamped [simp]: "plain_word (show_int (clamp_limit n))"
  using plain_number [of "clamp_limit n"] by (auto simp: clamp_limit_def split: if_splits)

text \<open>The page of a list that is asked for: the cursor goes into the link as it is.\<close>

definition page_query :: "string \<Rightarrow> int \<Rightarrow> string" where
  "page_query cursor n =
     (if cursor = [] then ''?order=desc&limit='' else ''?cursor='' @ cursor @ ''&order=desc&limit='') @ show_int (clamp_limit n)"

lemma paged_link_query: "paged_link link cursor (clamp_limit n) = link @ page_query cursor n"
  by (simp add: paged_link_def page_query_def)

lemma page_query_plain: "query_text cursor \<Longrightarrow> plain_query (page_query cursor n)"
  using query_text_plain [of "drop 1 (page_query cursor n)"] by (cases "cursor = []") (simp_all add: page_query_def word_in_query)

lemma plain_words [simp]:
  "plain_word ''accounts''" "plain_word ''payments''" "plain_word ''transactions''" "plain_word ''operations''"
  "plain_word ''effects''" "plain_word ''assets''" "plain_word ''paths''"
  by code_simp+

lemma asked_pages:
  assumes "client_at H s h b" "query_text cursor"
  shows "snd (RecentPayments H (address_of pub) cursor n w) =
      snd (hz_Get H (s @ ''://'' @ h @ ''/accounts/'' @ address_of pub @ ''/payments'' @ page_query cursor n) w)"
    and "snd (Transactions H (address_of pub) cursor n w) =
      snd (hz_Get H (s @ ''://'' @ h @ ''/accounts/'' @ address_of pub @ ''/transactions'' @ page_query cursor n) w)"
proof -
  note q = page_query_plain [OF assms(2), of n]
  have l: "paymentsLink (address_of pub) cursor (clamp_limit n) = words_path [''accounts'', address_of pub, ''payments''] @ page_query cursor n"
    "transactionsLink (address_of pub) cursor (clamp_limit n) = words_path [''accounts'', address_of pub, ''transactions''] @ page_query cursor n"
    by (simp_all add: paymentsLink_def transactionsLink_def paged_link_query)
  have ws: "list_all plain_word [''accounts'', address_of pub, ''payments'']" "list_all plain_word [''accounts'', address_of pub, ''transactions'']"
    by (simp_all add: plain_address)
  note asked = link_asked [OF assms(1) ws(1) _ _ q l(1)] link_asked [OF assms(1) ws(2) _ _ q l(2)]
  have "snd (RecentPayments H (address_of pub) cursor n w) =
      snd (hz_Get H (s @ ''://'' @ h @ paymentsLink (address_of pub) cursor (clamp_limit n)) w)"
    "snd (Transactions H (address_of pub) cursor n w) =
      snd (hz_Get H (s @ ''://'' @ h @ transactionsLink (address_of pub) cursor (clamp_limit n)) w)"
    by (simp_all add: RecentPayments_def Transactions_def Let_def op_bind_last op_map_err_state asked del: append.simps)
  then show "snd (RecentPayments H (address_of pub) cursor n w) =
      snd (hz_Get H (s @ ''://'' @ h @ ''/accounts/'' @ address_of pub @ ''/payments'' @ page_query cursor n) w)"
    and "snd (Transactions H (address_of pub) cursor n w) =
      snd (hz_Get H (s @ ''://'' @ h @ ''/accounts/'' @ address_of pub @ ''/transactions'' @ page_query cursor n) w)"
    by (simp_all add: paymentsLink_def transactionsLink_def paged_link_query)
qed

lemma hex_word [simp]: "plain_word (hex_EncodeToString bs)"
proof -
  have "plain_word hex_digits" unfolding hex_digits_def by (simp add: plain_word_def less_eq_char_def)
  then show ?thesis using hex_text_chars [of bs] by (auto simp: plain_word_def list_all_iff)
qed

lemma asked_by_id:
  assumes "client_at H s h b"
  shows "plain_word txid \<Longrightarrow> snd (TxDetails H txid w) = snd (hz_Get H (s @ ''://'' @ h @ ''/transactions/'' @ txid) w)"
    and "plain_word (htx_ID tx) \<Longrightarrow>
      snd (loadOperations H tx w) = snd (hz_Get H (s @ ''://'' @ h @ ''/transactions/'' @ htx_ID tx @ ''/operations'') w)"
    and "CheckTxID (error_text H) given = Inr txid \<Longrightarrow>
      snd (TxPayments H given w) = snd (hz_Get H (s @ ''://'' @ h @ ''/transactions/'' @ txid @ ''/payments'') w)"
proof -
  have q: "plain_query []" by (simp add: plain_query_def)
  have one: "''/transactions/'' @ i = words_path [''transactions'', i] @ []"
    and two: "''/transactions/'' @ i @ ''/operations'' = words_path [''transactions'', i, ''operations''] @ []"
      "''/transactions/'' @ i @ ''/payments'' = words_path [''transactions'', i, ''payments''] @ []" for i
    by simp_all
  have ws: "list_all plain_word [''transactions'', i]" "list_all plain_word [''transactions'', i, ''operations'']"
    "list_all plain_word [''transactions'', i, ''payments'']" if "plain_word i" for i
    using that by simp_all
  show "snd (TxDetails H txid w) = snd (hz_Get H (s @ ''://'' @ h @ ''/transactions/'' @ txid) w)" if "plain_word txid"
    using link_asked [OF assms ws(1) [OF that] _ _ q one]
    by (simp add: TxDetails_def op_bind_last op_map_err_state del: append.simps)
  show "snd (loadOperations H tx w) = snd (hz_Get H (s @ ''://'' @ h @ ''/transactions/'' @ htx_ID tx @ ''/operations'') w)"
    if "plain_word (htx_ID tx)"
    using link_asked [OF assms ws(2) [OF that] _ _ q two(1)]
    by (simp add: loadOperations_def op_bind_last op_map_err_state del: append.simps)
  show "snd (TxPayments H given w) = snd (hz_Get H (s @ ''://'' @ h @ ''/transactions/'' @ txid @ ''/payments'') w)"
    if "CheckTxID (error_text H) given = Inr txid"
  proof -
    have "plain_word txid" using that by (auto simp: CheckTxID_def split: sum.splits if_splits)
    from link_asked [OF assms ws(3) [OF this] _ _ q two(2)] show ?thesis
      by (simp add: TxPayments_def that op_bind_last op_map_err_state del: append.simps)
  qed
qed

lemma query_text_Join: "list_all query_text xs \<Longrightarrow> query_text sep \<Longrightarrow> query_text (Join xs sep)"
  by (induction xs sep rule: Join.induct) auto

lemma query_text_values: "query_text (values_Encode vs)"
  unfolding values_Encode_def by (rule query_text_Join) (auto simp: list_all_iff)

lemma asked_assets_page:
  assumes "client_at H s h b" "q = values_Encode (foldl (\<lambda>vs (k, v). values_Set k v vs) [] kvs)" "q \<noteq> []"
  shows "snd (assets_page H kvs w) = snd (hz_Get H (s @ ''://'' @ h @ ''/assets?'' @ q) w)"
proof -
  have none: "plain_query []" by (simp add: plain_query_def)
  have path: "''/assets'' = words_path [''assets''] @ []" "plain_path ''/assets''" using words_path_plain(1) [of "[''assets'']"] by simp_all
  have at: "plain_scheme s" "plain_host h" using assms(1) by (simp_all add: client_at_def)
  have link: "horizonLink (HorizonURL H) ''/assets'' = Inr (s @ ''://'' @ h @ ''/assets'')"
    using link_asked(1) [OF assms(1) _ _ _ none path(1)] by simp
  have parsed: "url_Parse (s @ ''://'' @ h @ ''/assets'') = Inr (plain_url s h ''/assets'' [])"
    using url_Parse_plain [OF at path(2) none] by simp
  have raw: "parse_query (url_RawQuery (plain_url s h ''/assets'' [])) = []" by (simp add: plain_url_def parse_query_def query_setting_def)
  have pq: "plain_query (CHR ''?'' # q)" using query_text_plain [OF query_text_values] by (simp add: assms(2))
  have "plain_url s h ''/assets'' []\<lparr>url_RawQuery := q\<rparr> = plain_url s h ''/assets'' (CHR ''?'' # q)"
    using assms(3) by (simp add: plain_url_def)
  then have "url_String (plain_url s h ''/assets'' []\<lparr>url_RawQuery := q\<rparr>) = s @ ''://'' @ h @ ''/assets'' @ CHR ''?'' # q"
    using url_String_plain [OF at path(2) pq] by simp
  then have "snd (assets_page H kvs w) = snd (hz_Get H (s @ ''://'' @ h @ ''/assets'' @ CHR ''?'' # q) w)"
    using get_plain [OF at path(2) pq]
    by (simp add: assets_page_def link parsed raw Let_def op_map_err_state assms(2) [symmetric] del: append.simps)
  then show ?thesis by simp
qed

text \<open>The assets of a code, of an issuer or of both.\<close>

definition asset_filter :: "string \<Rightarrow> string \<Rightarrow> string" where
  "asset_filter code issuer =
     Join ((if code = [] then [] else [''asset_code='' @ QueryEscape code]) @
           (if issuer = [] then [] else [''asset_issuer='' @ QueryEscape issuer])) ''&''"

lemma QueryEscape_keys [simp]:
  "QueryEscape ''asset_code'' = ''asset_code''" "QueryEscape ''asset_issuer'' = ''asset_issuer''" "QueryEscape ''limit'' = ''limit''"
  "QueryEscape ''order'' = ''order''" "QueryEscape ''cursor'' = ''cursor''"
  by (simp_all add: QueryEscape_def escape_char_def unreserved_def less_eq_char_def)

lemma asked_assets:
  assumes "client_at H s h b"
  shows "snd (Asset H code issuer w) =
      snd (hz_Get H (s @ ''://'' @ h @ ''/assets?asset_code='' @ QueryEscape code @ ''&asset_issuer='' @ QueryEscape issuer) w)"
    and "code \<noteq> [] \<or> issuer \<noteq> [] \<Longrightarrow> snd (AssetSearch H \<lparr>arg_AssetCode = code, arg_IssuerID = issuer\<rparr> w) =
      snd (hz_Get H (s @ ''://'' @ h @ ''/assets?'' @ asset_filter code issuer) w)"
    and "snd (AssetList H cursor limit order w) = snd (hz_Get H (s @ ''://'' @ h @ ''/assets?cursor='' @ QueryEscape cursor @
      ''&limit='' @ show_int (if limit < 1 \<or> 200 < limit then 200 else limit) @ ''&order='' @ QueryEscape order) w)"
proof -
  have "values_Encode (foldl (\<lambda>vs (k, v). values_Set k v vs) [] [(''asset_code'', code), (''asset_issuer'', issuer)]) =
      ''asset_code='' @ QueryEscape code @ ''&asset_issuer='' @ QueryEscape issuer"
    by (simp add: values_Set_def values_Encode_def less_eq_list_code less_char_def)
  from asked_assets_page [OF assms this [symmetric]] show "snd (Asset H code issuer w) =
      snd (hz_Get H (s @ ''://'' @ h @ ''/assets?asset_code='' @ QueryEscape code @ ''&asset_issuer='' @ QueryEscape issuer) w)"
    by (simp add: Asset_def op_bind_last split: list.split)
  show "snd (AssetSearch H \<lparr>arg_AssetCode = code, arg_IssuerID = issuer\<rparr> w) =
      snd (hz_Get H (s @ ''://'' @ h @ ''/assets?'' @ asset_filter code issuer) w)" if "code \<noteq> [] \<or> issuer \<noteq> []"
  proof -
    let ?kvs = "(if 0 < length code then [(''asset_code'', code)] else []) @ (if 0 < length issuer then [(''asset_issuer'', issuer)] else [])"
    have "values_Encode (foldl (\<lambda>vs (k, v). values_Set k v vs) [] ?kvs) = asset_filter code issuer"
      by (simp add: values_Set_def values_Encode_def asset_filter_def less_eq_list_code less_char_def)
    moreover have "asset_filter code issuer \<noteq> []" using that by (auto simp: asset_filter_def)
    ultimately show ?thesis
      using asked_assets_page [OF assms, of "asset_filter code issuer" ?kvs w] that
      by (cases "code = []"; cases "issuer = []") (simp_all add: AssetSearch_def op_bind_last)
  qed
  show "snd (AssetList H cursor limit order w) = snd (hz_Get H (s @ ''://'' @ h @ ''/assets?cursor='' @ QueryEscape cursor @
      ''&limit='' @ show_int (if limit < 1 \<or> 200 < limit then 200 else limit) @ ''&order='' @ QueryEscape order) w)"
  proof -
    let ?n = "show_int (if limit < 1 \<or> 200 < limit then 200 else limit)"
    have "plain_word ?n" using plain_number [of "if limit < 1 \<or> 200 < limit then 200 else limit"] by (auto split: if_splits)
    then have "values_Encode (foldl (\<lambda>vs (k, v). values_Set k v vs) [] [(''limit'', ?n), (''order'', order), (''cursor'', cursor)]) =
        ''cursor='' @ QueryEscape cursor @ ''&limit='' @ ?n @ ''&order='' @ QueryEscape order"
      by (simp add: values_Set_def values_Encode_def less_eq_list_code less_char_def QueryEscape_word)
    from asked_assets_page [OF assms this [symmetric]] show ?thesis
      by (simp add: AssetList_def Let_def op_bind_last op_map_err_state split: list.split)
  qed
qed

lemma asked_paths:
  assumes "client_at H s h b" "assetCodeToType code = Inr ty" "list_all query_text [a, to, code, issuer, amount]"
  shows "snd (FindPaymentPaths H a to code issuer amount w) = snd (hz_Get H (s @ ''://'' @ h @
      ''/paths?source_account='' @ a @ ''&destination_account='' @ to @ ''&destination_asset_type='' @ ty @
      ''&destination_asset_code='' @ code @ ''&destination_asset_issuer='' @ issuer @ ''&destination_amount='' @ amount) w)"
proof -
  let ?q = "''source_account='' @ a @ ''&destination_account='' @ to @ ''&destination_asset_type='' @ ty @
      ''&destination_asset_code='' @ code @ ''&destination_asset_issuer='' @ issuer @ ''&destination_amount='' @ amount"
  have "query_text ty" using assms(2) by (auto simp: assetCodeToType_def Let_def split: if_splits)
  then have q: "plain_query (CHR ''?'' # ?q)" using assms(3) by (intro query_text_plain) simp
  have l: "''/paths?'' @ ?q = words_path [''paths''] @ CHR ''?'' # ?q" by simp
  have "snd (FindPaymentPaths H a to code issuer amount w) = snd (hz_Get H (s @ ''://'' @ h @ ''/paths?'' @ ?q) w)"
    using link_asked [OF assms(1) _ _ _ q l]
    by (simp add: FindPaymentPaths_def assms(2) op_bind_last op_map_err_state del: append.simps)
  then show ?thesis by simp
qed

text \<open>Two queries go below the path of the address.\<close>

lemma asked_below:
  assumes "client_at H s h b"
  shows "snd (Account_Assets H (address_of pub) w) =
      snd (hz_Get H (s @ ''://'' @ h @ b @ ''/assets?asset_issuer='' @ address_of pub @ ''&limit=100&order=asc'') w)"
    and "plain_word opid \<Longrightarrow> snd (AccountMergeAmount H opid w) =
      snd (hz_Get H (s @ ''://'' @ h @ b @ ''/operations/'' @ opid @ ''/effects'') w)"
proof -
  have at: "HorizonURL H = s @ ''://'' @ h @ b" "plain_scheme s" "plain_host h" "plain_path b" using assms by (simp_all add: client_at_def)
  have below: "plain_path (b @ words_path ws)" if "list_all plain_word ws" "ws \<noteq> []" "hd ws \<noteq> []" for ws
    using words_path_plain(1) [OF that] at(4) by (cases b) (auto simp: plain_path_def HasPrefix_def)
  let ?q = "''?asset_issuer='' @ address_of pub @ ''&limit=100&order=asc''"
  have q: "plain_query ?q" using query_text_plain [of "drop 1 ?q"] by (simp add: plain_address word_in_query)
  have none: "plain_query []" by (simp add: plain_query_def)
  have "show_int 100 = ''100''" by code_simp
  then have "HorizonURL H @ ''/assets?asset_issuer='' @ address_of pub @ ''&limit='' @ show_int 100 @ ''&order=asc'' =
      s @ ''://'' @ h @ (b @ words_path [''assets'']) @ ?q" by (simp add: at(1))
  then have "snd (Account_Assets H (address_of pub) w) = snd (hz_Get H (s @ ''://'' @ h @ (b @ words_path [''assets'']) @ ?q) w)"
    using get_plain [OF at(2,3) below q, of "[''assets'']"] unfolding Account_Assets_def
    by (simp only: op_bind_last op_map_err_state op_return_apply snd_conv) simp
  then show "snd (Account_Assets H (address_of pub) w) =
      snd (hz_Get H (s @ ''://'' @ h @ b @ ''/assets?asset_issuer='' @ address_of pub @ ''&limit=100&order=asc'') w)" by simp
  have "HorizonURL H @ ''/operations/'' @ opid @ ''/effects'' = s @ ''://'' @ h @ (b @ words_path [''operations'', opid, ''effects'']) @ []"
    by (simp add: at(1))
  moreover assume "plain_word opid"
  ultimately have "snd (AccountMergeAmount H opid w) =
      snd (hz_Get H (s @ ''://'' @ h @ (b @ words_path [''operations'', opid, ''effects'']) @ []) w)"
    using get_plain [OF at(2,3) below none, of "[''operations'', opid, ''effects'']"] unfolding AccountMergeAmount_def
    by (simp only: op_bind_last op_map_err_state) (simp add: op_bind_last)
  then show "snd (AccountMergeAmount H opid w) = snd (hz_Get H (s @ ''://'' @ h @ b @ ''/operations/'' @ opid @ ''/effects'') w)" by simp
qed

section \<open>Properties\<close>

text \<open>
  C37. What the queries of the package ask for, when the client's address is a scheme, a host and
  a path \<open>b\<close>: each is the one request of the link shown. The links of \<open>horizonLink\<close> go to the
  root of the host, whatever \<open>b\<close> is; those for the assets of an account and for the effects of
  an operation go below \<open>b\<close>. The parameters of the asset queries are escaped and in order of
  their names. The cursor of a page and the arguments of a search for paths are not escaped: a
  text without \<open>#\<close> and control bytes goes into the link as it is, with any other parameters it
  has in it. (The query for recent transactions with their operations asks for each after the
  answer to the one before; it is not stated here, nor is that for fee statistics.)
\<close>

theorem queries_asked:
  assumes "client_at H s h b" and "query_text cursor" and "plain_word txid" and "plain_word (htx_ID tx)" and "plain_word opid"
    and "CheckTxID (error_text H) given = Inr found" and "code \<noteq> [] \<or> issuer \<noteq> []"
    and "assetCodeToType dest_code = Inr ty" and "list_all query_text [a, to, dest_code, dest_issuer, amount]"
  shows "snd (RecentPayments H (address_of pub) cursor n w) =
      snd (hz_Get H (s @ ''://'' @ h @ ''/accounts/'' @ address_of pub @ ''/payments'' @ page_query cursor n) w) \<and>
    snd (Transactions H (address_of pub) cursor n w) =
      snd (hz_Get H (s @ ''://'' @ h @ ''/accounts/'' @ address_of pub @ ''/transactions'' @ page_query cursor n) w) \<and>
    snd (TxDetails H txid w) = snd (hz_Get H (s @ ''://'' @ h @ ''/transactions/'' @ txid) w) \<and>
    snd (loadOperations H tx w) = snd (hz_Get H (s @ ''://'' @ h @ ''/transactions/'' @ htx_ID tx @ ''/operations'') w) \<and>
    snd (TxPayments H given w) = snd (hz_Get H (s @ ''://'' @ h @ ''/transactions/'' @ found @ ''/payments'') w) \<and>
    snd (Asset H code issuer w) =
      snd (hz_Get H (s @ ''://'' @ h @ ''/assets?asset_code='' @ QueryEscape code @ ''&asset_issuer='' @ QueryEscape issuer) w) \<and>
    snd (AssetSearch H \<lparr>arg_AssetCode = code, arg_IssuerID = issuer\<rparr> w) =
      snd (hz_Get H (s @ ''://'' @ h @ ''/assets?'' @ asset_filter code issuer) w) \<and>
    snd (AssetList H next_cursor limit order w) = snd (hz_Get H (s @ ''://'' @ h @ ''/assets?cursor='' @ QueryEscape next_cursor @
      ''&limit='' @ show_int (if limit < 1 \<or> 200 < limit then 200 else limit) @ ''&order='' @ QueryEscape order) w) \<and>
    snd (FindPaymentPaths H a to dest_code dest_issuer amount w) = snd (hz_Get H (s @ ''://'' @ h @
      ''/paths?source_account='' @ a @ ''&destination_account='' @ to @ ''&destination_asset_type='' @ ty @
      ''&destination_asset_code='' @ dest_code @ ''&destination_asset_issuer='' @ dest_issuer @ ''&destination_amount='' @ amount) w) \<and>
    snd (Account_Assets H (address_of pub) w) =
      snd (hz_Get H (s @ ''://'' @ h @ b @ ''/assets?asset_issuer='' @ address_of pub @ ''&limit=100&order=asc'') w) \<and>
    snd (AccountMergeAmount H opid w) = snd (hz_Get H (s @ ''://'' @ h @ b @ ''/operations/'' @ opid @ ''/effects'') w)"
  by (intro conjI asked_pages [OF assms(1,2)] asked_by_id [OF assms(1)] asked_assets [OF assms(1)] asked_paths [OF assms(1)]
    asked_below [OF assms(1)] assms)

text \<open>A server that notes the link it is asked for and gives no answer.\<close>

definition echo_horizon :: "string \<Rightarrow> string horizon" where
  "echo_horizon base = \<lparr>HorizonURL = base, hz_AccountDetail = (\<lambda>a w. (Inl (NewError ''no answer''), w)),
     hz_SubmitTransactionXDR = (\<lambda>tx w. (Inl (NewError ''no answer''), w)), hz_Get = (\<lambda>u w. (Inl (NewError ''no answer''), u)),
     json_Problem = (\<lambda>b. Inl (NewError ''json'')), json_AssetsPage = (\<lambda>b. Inl (NewError ''json'')),
     json_Effects = (\<lambda>b. Inl (NewError ''json'')), json_Payments = (\<lambda>b. Inl (NewError ''json'')),
     json_Transactions = (\<lambda>b. Inl (NewError ''json'')), json_Operations = (\<lambda>b. Inl (NewError ''json'')),
     json_Transaction = (\<lambda>b. Inl (NewError ''json'')), json_hAssets = (\<lambda>b. Inl (NewError ''json'')),
     json_Paths = (\<lambda>b. Inl (NewError ''json'')), error_text = (\<lambda>e. ''error'')\<rparr>"

text \<open>A cursor that adds parameters of its own, and a path that ends in a slash.\<close>

theorem queries_asked_witness:
  "let H = echo_horizon ''https://horizon/'' in
    snd (RecentPayments H (address_of demo_pub) ''1&limit=1'' 50 []) =
      ''https://horizon/accounts/'' @ address_of demo_pub @ ''/payments?cursor=1&limit=1&order=desc&limit=50'' \<and>
    snd (Account_Assets H (address_of demo_pub) []) =
      ''https://horizon//assets?asset_issuer='' @ address_of demo_pub @ ''&limit=100&order=asc''"
proof -
  let ?H = "echo_horizon ''https://horizon/''"
    and ?id = "hex_EncodeToString (replicate 32 0)"
  have at: "client_at ?H ''https'' ''horizon'' ''/''" unfolding client_at_def echo_horizon_def by simp code_simp
  have c: "query_text ''1&limit=1''" by code_simp
  have id: "CheckTxID (error_text ?H) ?id = Inr ?id" by (simp add: CheckTxID_def hex_roundtrip)
  have ty: "assetCodeToType ''USD'' = Inr ''credit_alphanum4''" "list_all query_text [[], [], ''USD'', [], ''7'']"
    by code_simp+
  have "show_int (clamp_limit 50) = ''50''" by code_simp
  then show ?thesis
    using queries_asked [where tx = "\<lparr>htx_ID = ''id'', htx_Hash = [], htx_Ledger = 5, htx_ResultXdr = []\<rparr>" and pub = demo_pub and n = 50 and w = "[]" and opid = "[]" and txid = "[]"
        and code = "''USD''", OF at c _ _ _ id _ ty]
    by (simp add: Let_def page_query_def plain_word_def less_eq_char_def echo_horizon_def)
qed

end
