(* ===== verification/Xdr_Op_Results.thy ===== *)
theory Xdr_Op_Results
  imports Xdr_Codec
begin

text \<open>
  The results of the operations of a transaction in the vendored \<open>xdr\<close> package
  (\<open>xdr_generated.go\<close>): all 24 arms of \<open>OperationResultTr\<close>, with their \<open>EncodeTo\<close> and
  \<open>DecodeFrom\<close> and the contract between the two. The program reads from them what a path payment
  cost.
\<close>

section \<open>Types\<close>

definition TransactionResultCodeTxSuccess :: int where "TransactionResultCodeTxSuccess = 0"
definition TransactionResultCodeTxFeeBumpInnerSuccess :: int where "TransactionResultCodeTxFeeBumpInnerSuccess = 1"
definition TransactionResultCodeTxFailed :: int where "TransactionResultCodeTxFailed = - 1"
definition TransactionResultCodeTxFeeBumpInnerFailed :: int where "TransactionResultCodeTxFeeBumpInnerFailed = - 13"
definition OperationResultCodeOpInner :: int where "OperationResultCodeOpInner = 0"
definition PathPaymentStrictReceiveSuccess :: int where "PathPaymentStrictReceiveSuccess = 0"
definition PathPaymentStrictReceiveNoIssuer :: int where "PathPaymentStrictReceiveNoIssuer = - 9"

lemmas result_codes [simp, go_defs] =
  TransactionResultCodeTxSuccess_def TransactionResultCodeTxFeeBumpInnerSuccess_def TransactionResultCodeTxFailed_def
  TransactionResultCodeTxFeeBumpInnerFailed_def OperationResultCodeOpInner_def PathPaymentStrictReceiveSuccess_def
  PathPaymentStrictReceiveNoIssuer_def

record ClaimOfferAtomV0 =
  cv_SellerEd25519 :: "byte list"
  cv_OfferId :: int64
  cv_AssetSold :: xdr_Asset
  cv_AmountSold :: int64
  cv_AssetBought :: xdr_Asset
  cv_AmountBought :: int64

record ClaimOfferAtom =
  co_SellerId :: AccountId
  co_OfferId :: int64
  co_AssetSold :: xdr_Asset
  co_AmountSold :: int64
  co_AssetBought :: xdr_Asset
  co_AmountBought :: int64

record ClaimLiquidityAtom =
  cl_LiquidityPoolId :: "byte list"
  cl_AssetSold :: xdr_Asset
  cl_AmountSold :: int64
  cl_AssetBought :: xdr_Asset
  cl_AmountBought :: int64

datatype ClaimAtom = ClaimV0 ClaimOfferAtomV0 | ClaimOrderBook ClaimOfferAtom | ClaimLiquidityPool ClaimLiquidityAtom

record SimplePaymentResult =
  sp_Destination :: AccountId
  sp_Asset :: xdr_Asset
  sp_Amount :: int64

record PathPaymentStrictReceiveResultSuccess =
  ok_Offers :: "ClaimAtom list"
  ok_Last :: SimplePaymentResult

record PathPaymentStrictReceiveResult =
  pp_Code :: int
  pp_Success :: "PathPaymentStrictReceiveResultSuccess option"
  pp_NoIssuer :: "xdr_Asset option"

record PathPaymentStrictSendResultSuccess =
  sk_Offers :: "ClaimAtom list"
  sk_Last :: SimplePaymentResult

record PathPaymentStrictSendResult =
  sr_Code :: int
  sr_Success :: "PathPaymentStrictSendResultSuccess option"
  sr_NoIssuer :: "xdr_Asset option"

record OfferEntry =
  oe_SellerId :: AccountId
  oe_OfferId :: int64
  oe_Selling :: xdr_Asset
  oe_Buying :: xdr_Asset
  oe_Amount :: int64
  oe_Price :: xdr_Price
  oe_Flags :: uint32

datatype ManageOfferSuccessResultOffer = ManageOfferCreated OfferEntry | ManageOfferUpdated OfferEntry | ManageOfferDeleted

record ManageOfferSuccessResult =
  mo_OffersClaimed :: "ClaimAtom list"
  mo_Offer :: ManageOfferSuccessResultOffer

record InflationPayout =
  ip_Destination :: AccountId
  ip_Amount :: int64

text \<open>
  The results of the other operations: a code alone, a code that a value follows when it is that of
  success, or the result of a path payment that fixes what is sent.
\<close>

datatype other_result =
    CodeResult int
  | OfferResult "int \<times> ManageOfferSuccessResult option"
  | MergeResult "int \<times> int64 option"
  | PayoutsResult "int \<times> InflationPayout list option"
  | BalanceResult "int \<times> ClaimableBalanceId option"
  | SendResult PathPaymentStrictSendResult

text \<open>Of the arms of \<open>OperationResultTr\<close> the program reads one.\<close>

record OperationResultTr =
  tr_Type :: OperationType
  tr_PathPaymentStrictReceiveResult :: "PathPaymentStrictReceiveResult option"
  tr_Other :: "other_result option"

record OperationResult =
  or_Code :: int
  or_Tr :: "OperationResultTr option"

section \<open>Enumerations\<close>

definition enc_ClaimAtomType :: "int xdr_encoder" where "enc_ClaimAtomType = enc_enum ''ClaimAtomType'' [0, 1, 2]"
definition dec_ClaimAtomType :: "int xdr_decoder" where "dec_ClaimAtomType = dec_enum ''ClaimAtomType'' [0, 1, 2]"

definition enc_PathCode :: "int xdr_encoder" where
  "enc_PathCode = enc_enum ''PathPaymentStrictReceiveResultCode'' [- 12..0]"
definition dec_PathCode :: "int xdr_decoder" where
  "dec_PathCode = dec_enum ''PathPaymentStrictReceiveResultCode'' [- 12..0]"

definition enc_SendCode :: "int xdr_encoder" where
  "enc_SendCode = enc_enum ''PathPaymentStrictSendResultCode'' [- 12..0]"
definition dec_SendCode :: "int xdr_decoder" where
  "dec_SendCode = dec_enum ''PathPaymentStrictSendResultCode'' [- 12..0]"

definition enc_ManageOfferEffect :: "int xdr_encoder" where "enc_ManageOfferEffect = enc_enum ''ManageOfferEffect'' [0, 1, 2]"
definition dec_ManageOfferEffect :: "int xdr_decoder" where "dec_ManageOfferEffect = dec_enum ''ManageOfferEffect'' [0, 1, 2]"

definition enc_OperationResultCode :: "int xdr_encoder" where
  "enc_OperationResultCode = enc_enum ''OperationResultCode'' [- 6..0]"
definition dec_OperationResultCode :: "int xdr_decoder" where
  "dec_OperationResultCode = dec_enum ''OperationResultCode'' [- 6..0]"

lemma xdr_ClaimAtomType: "xdr_type enc_ClaimAtomType dec_ClaimAtomType (\<lambda>t. t \<in> set [0, 1, 2])"
  unfolding enc_ClaimAtomType_def dec_ClaimAtomType_def by (rule xdr_type_enum) simp
lemma xdr_PathCode: "xdr_type enc_PathCode dec_PathCode (\<lambda>t. t \<in> set [- 12..0])"
  unfolding enc_PathCode_def dec_PathCode_def by (rule xdr_type_enum) auto
lemma xdr_SendCode: "xdr_type enc_SendCode dec_SendCode (\<lambda>t. t \<in> set [- 12..0])"
  unfolding enc_SendCode_def dec_SendCode_def by (rule xdr_type_enum) auto
lemma xdr_ManageOfferEffect: "xdr_type enc_ManageOfferEffect dec_ManageOfferEffect (\<lambda>t. t \<in> set [0, 1, 2])"
  unfolding enc_ManageOfferEffect_def dec_ManageOfferEffect_def by (rule xdr_type_enum) simp
lemma xdr_OperationResultCode: "xdr_type enc_OperationResultCode dec_OperationResultCode (\<lambda>t. t \<in> set [- 6..0])"
  unfolding enc_OperationResultCode_def dec_OperationResultCode_def by (rule xdr_type_enum) auto
lemmas xdr_result_enums = xdr_ClaimAtomType xdr_PathCode xdr_SendCode xdr_ManageOfferEffect xdr_OperationResultCode
lemmas xdr_result_enums_w [xdr_w] = xdr_result_enums [THEN xdr_written]
lemmas xdr_result_enums_r [xdr_r] = xdr_result_enums [THEN xdr_readsI]
lemmas xdr_result_enums_c [xdr_c] = xdr_result_enums [THEN xdr_canonical]

section \<open>Claims\<close>

definition enc_ClaimOfferAtomV0 :: "ClaimOfferAtomV0 xdr_encoder" where
  "enc_ClaimOfferAtomV0 s = xdr_write [enc_Uint256 (cv_SellerEd25519 s), enc_Int64 (cv_OfferId s), enc_Asset (cv_AssetSold s),
     enc_Int64 (cv_AmountSold s), enc_Asset (cv_AssetBought s), enc_Int64 (cv_AmountBought s)]"

definition dec_ClaimOfferAtomV0 :: "ClaimOfferAtomV0 xdr_decoder" where
  "dec_ClaimOfferAtomV0 =
     xdr_field ''Uint256'' dec_Uint256 (\<lambda>a.
     xdr_field ''Int64'' dec_Int64 (\<lambda>b.
     xdr_field ''Asset'' dec_Asset (\<lambda>c.
     xdr_field ''Int64'' dec_Int64 (\<lambda>d.
     xdr_field ''Asset'' dec_Asset (\<lambda>e.
     xdr_field ''Int64'' dec_Int64 (\<lambda>f.
     xdr_return \<lparr>cv_SellerEd25519 = a, cv_OfferId = b, cv_AssetSold = c, cv_AmountSold = d, cv_AssetBought = e, cv_AmountBought = f\<rparr>))))))"

definition wt_ClaimOfferAtomV0 :: "ClaimOfferAtomV0 \<Rightarrow> bool" where
  "wt_ClaimOfferAtomV0 s \<longleftrightarrow> wt_array 32 (cv_SellerEd25519 s) \<and> wt_Asset (cv_AssetSold s) \<and> wt_Asset (cv_AssetBought s)"

definition enc_ClaimOfferAtom :: "ClaimOfferAtom xdr_encoder" where
  "enc_ClaimOfferAtom s = xdr_write [enc_AccountId (co_SellerId s), enc_Int64 (co_OfferId s), enc_Asset (co_AssetSold s),
     enc_Int64 (co_AmountSold s), enc_Asset (co_AssetBought s), enc_Int64 (co_AmountBought s)]"

definition dec_ClaimOfferAtom :: "ClaimOfferAtom xdr_decoder" where
  "dec_ClaimOfferAtom =
     xdr_field ''AccountId'' dec_AccountId (\<lambda>a.
     xdr_field ''Int64'' dec_Int64 (\<lambda>b.
     xdr_field ''Asset'' dec_Asset (\<lambda>c.
     xdr_field ''Int64'' dec_Int64 (\<lambda>d.
     xdr_field ''Asset'' dec_Asset (\<lambda>e.
     xdr_field ''Int64'' dec_Int64 (\<lambda>f.
     xdr_return \<lparr>co_SellerId = a, co_OfferId = b, co_AssetSold = c, co_AmountSold = d, co_AssetBought = e, co_AmountBought = f\<rparr>))))))"

definition wt_ClaimOfferAtom :: "ClaimOfferAtom \<Rightarrow> bool" where
  "wt_ClaimOfferAtom s \<longleftrightarrow> wt_AccountId (co_SellerId s) \<and> wt_Asset (co_AssetSold s) \<and> wt_Asset (co_AssetBought s)"

definition enc_ClaimLiquidityAtom :: "ClaimLiquidityAtom xdr_encoder" where
  "enc_ClaimLiquidityAtom s = xdr_write [enc_PoolId (cl_LiquidityPoolId s), enc_Asset (cl_AssetSold s),
     enc_Int64 (cl_AmountSold s), enc_Asset (cl_AssetBought s), enc_Int64 (cl_AmountBought s)]"

definition dec_ClaimLiquidityAtom :: "ClaimLiquidityAtom xdr_decoder" where
  "dec_ClaimLiquidityAtom =
     xdr_field ''PoolId'' dec_PoolId (\<lambda>a.
     xdr_field ''Asset'' dec_Asset (\<lambda>b.
     xdr_field ''Int64'' dec_Int64 (\<lambda>c.
     xdr_field ''Asset'' dec_Asset (\<lambda>d.
     xdr_field ''Int64'' dec_Int64 (\<lambda>e.
     xdr_return \<lparr>cl_LiquidityPoolId = a, cl_AssetSold = b, cl_AmountSold = c, cl_AssetBought = d, cl_AmountBought = e\<rparr>)))))"

definition wt_ClaimLiquidityAtom :: "ClaimLiquidityAtom \<Rightarrow> bool" where
  "wt_ClaimLiquidityAtom s \<longleftrightarrow> wt_array 32 (cl_LiquidityPoolId s) \<and> wt_Asset (cl_AssetSold s) \<and> wt_Asset (cl_AssetBought s)"

fun enc_ClaimAtom :: "ClaimAtom xdr_encoder" where
  "enc_ClaimAtom (ClaimV0 a) = xdr_write [enc_ClaimAtomType 0, enc_ClaimOfferAtomV0 a]"
| "enc_ClaimAtom (ClaimOrderBook a) = xdr_write [enc_ClaimAtomType 1, enc_ClaimOfferAtom a]"
| "enc_ClaimAtom (ClaimLiquidityPool a) = xdr_write [enc_ClaimAtomType 2, enc_ClaimLiquidityAtom a]"

definition dec_ClaimAtom :: "ClaimAtom xdr_decoder" where
  "dec_ClaimAtom =
     xdr_field ''ClaimAtomType'' dec_ClaimAtomType (\<lambda>t.
       if t = 0 then xdr_field ''ClaimOfferAtomV0'' dec_ClaimOfferAtomV0 (\<lambda>a. xdr_return (ClaimV0 a))
       else if t = 1 then xdr_field ''ClaimOfferAtom'' dec_ClaimOfferAtom (\<lambda>a. xdr_return (ClaimOrderBook a))
       else if t = 2 then xdr_field ''ClaimLiquidityAtom'' dec_ClaimLiquidityAtom (\<lambda>a. xdr_return (ClaimLiquidityPool a))
       else xdr_fail (dec_switch_error ''ClaimAtom'' ''ClaimAtomType'' t))"

fun wt_ClaimAtom :: "ClaimAtom \<Rightarrow> bool" where
  "wt_ClaimAtom (ClaimV0 a) \<longleftrightarrow> wt_ClaimOfferAtomV0 a"
| "wt_ClaimAtom (ClaimOrderBook a) \<longleftrightarrow> wt_ClaimOfferAtom a"
| "wt_ClaimAtom (ClaimLiquidityPool a) \<longleftrightarrow> wt_ClaimLiquidityAtom a"

lemma xdr_ClaimOfferAtomV0: "xdr_type enc_ClaimOfferAtomV0 dec_ClaimOfferAtomV0 wt_ClaimOfferAtomV0"
  apply (rule xdr_typeI)
  subgoal by (auto simp: enc_ClaimOfferAtomV0_def wt_ClaimOfferAtomV0_def intro: xdr_w)
  subgoal by (auto simp: enc_ClaimOfferAtomV0_def dec_ClaimOfferAtomV0_def wt_ClaimOfferAtomV0_def xdr_eval dest!: xdr_r)
  subgoal by (auto simp: enc_ClaimOfferAtomV0_def dec_ClaimOfferAtomV0_def wt_ClaimOfferAtomV0_def xdr_struct) (auto dest!: xdr_c)
  done

lemma xdr_ClaimOfferAtom: "xdr_type enc_ClaimOfferAtom dec_ClaimOfferAtom wt_ClaimOfferAtom"
  apply (rule xdr_typeI)
  subgoal by (auto simp: enc_ClaimOfferAtom_def wt_ClaimOfferAtom_def intro: xdr_w)
  subgoal by (auto simp: enc_ClaimOfferAtom_def dec_ClaimOfferAtom_def wt_ClaimOfferAtom_def xdr_eval dest!: xdr_r)
  subgoal by (auto simp: enc_ClaimOfferAtom_def dec_ClaimOfferAtom_def wt_ClaimOfferAtom_def xdr_struct) (auto dest!: xdr_c)
  done

lemma xdr_ClaimLiquidityAtom: "xdr_type enc_ClaimLiquidityAtom dec_ClaimLiquidityAtom wt_ClaimLiquidityAtom"
  apply (rule xdr_typeI)
  subgoal by (auto simp: enc_ClaimLiquidityAtom_def wt_ClaimLiquidityAtom_def intro: xdr_w)
  subgoal by (auto simp: enc_ClaimLiquidityAtom_def dec_ClaimLiquidityAtom_def wt_ClaimLiquidityAtom_def xdr_eval dest!: xdr_r)
  subgoal by (auto simp: enc_ClaimLiquidityAtom_def dec_ClaimLiquidityAtom_def wt_ClaimLiquidityAtom_def xdr_struct) (auto dest!: xdr_c)
  done

lemmas xdr_claims = xdr_ClaimOfferAtomV0 xdr_ClaimOfferAtom xdr_ClaimLiquidityAtom
lemmas xdr_claims_w [xdr_w] = xdr_claims [THEN xdr_written]
lemmas xdr_claims_r [xdr_r] = xdr_claims [THEN xdr_readsI]
lemmas xdr_claims_c [xdr_c] = xdr_claims [THEN xdr_canonical]

lemma xdr_ClaimAtom: "xdr_type enc_ClaimAtom dec_ClaimAtom wt_ClaimAtom"
  apply (rule xdr_typeI)
  subgoal for x by (cases x) (auto intro!: xdr_w)
  subgoal for x by (cases x) (auto simp: dec_ClaimAtom_def xdr_eval dest!: xdr_r)
  subgoal by (auto simp: dec_ClaimAtom_def xdr_struct split: if_splits) (auto dest!: xdr_c)
  done

section \<open>The result of a path payment\<close>

text \<open>A slice without a limit in the schema: its length is any \<open>uint32\<close>.\<close>

definition no_limit :: nat where "no_limit = 4294967295"

definition enc_SimplePaymentResult :: "SimplePaymentResult xdr_encoder" where
  "enc_SimplePaymentResult s = xdr_write [enc_AccountId (sp_Destination s), enc_Asset (sp_Asset s), enc_Int64 (sp_Amount s)]"

definition dec_SimplePaymentResult :: "SimplePaymentResult xdr_decoder" where
  "dec_SimplePaymentResult =
     xdr_field ''AccountId'' dec_AccountId (\<lambda>a.
     xdr_field ''Asset'' dec_Asset (\<lambda>b.
     xdr_field ''Int64'' dec_Int64 (\<lambda>c.
     xdr_return \<lparr>sp_Destination = a, sp_Asset = b, sp_Amount = c\<rparr>)))"

definition wt_SimplePaymentResult :: "SimplePaymentResult \<Rightarrow> bool" where
  "wt_SimplePaymentResult s \<longleftrightarrow> wt_AccountId (sp_Destination s) \<and> wt_Asset (sp_Asset s)"

definition wt_Offers :: "ClaimAtom list \<Rightarrow> bool" where
  "wt_Offers p \<longleftrightarrow> length p \<le> no_limit \<and> (\<forall>x \<in> set p. wt_ClaimAtom x)"

definition enc_PathSuccess :: "PathPaymentStrictReceiveResultSuccess xdr_encoder" where
  "enc_PathSuccess s = xdr_write [enc_slice enc_ClaimAtom (ok_Offers s), enc_SimplePaymentResult (ok_Last s)]"

definition dec_PathSuccess :: "PathPaymentStrictReceiveResultSuccess xdr_decoder" where
  "dec_PathSuccess =
     xdr_then (dec_slice ''ClaimAtom'' no_limit dec_ClaimAtom) (\<lambda>a.
     xdr_field ''SimplePaymentResult'' dec_SimplePaymentResult (\<lambda>b. xdr_return \<lparr>ok_Offers = a, ok_Last = b\<rparr>))"

definition wt_PathSuccess :: "PathPaymentStrictReceiveResultSuccess \<Rightarrow> bool" where
  "wt_PathSuccess s \<longleftrightarrow> wt_Offers (ok_Offers s) \<and> wt_SimplePaymentResult (ok_Last s)"

definition enc_PathResult :: "PathPaymentStrictReceiveResult xdr_encoder" where
  "enc_PathResult u = xdr_write (enc_PathCode (pp_Code u) #
     (if pp_Code u = PathPaymentStrictReceiveSuccess then [and_then (deref (pp_Success u)) enc_PathSuccess]
      else if pp_Code u = PathPaymentStrictReceiveNoIssuer then [and_then (deref (pp_NoIssuer u)) enc_Asset]
      else []))"

definition dec_PathResult :: "PathPaymentStrictReceiveResult xdr_decoder" where
  "dec_PathResult =
     xdr_field ''PathPaymentStrictReceiveResultCode'' dec_PathCode (\<lambda>t.
       let u = \<lparr>pp_Code = t, pp_Success = None, pp_NoIssuer = None\<rparr> in
       if t = PathPaymentStrictReceiveSuccess then
         xdr_field ''PathPaymentStrictReceiveResultSuccess'' dec_PathSuccess (\<lambda>s. xdr_return (u\<lparr>pp_Success := Some s\<rparr>))
       else if t = PathPaymentStrictReceiveNoIssuer then
         xdr_field ''Asset'' dec_Asset (\<lambda>a. xdr_return (u\<lparr>pp_NoIssuer := Some a\<rparr>))
       else xdr_return u)"

definition wt_PathResult :: "PathPaymentStrictReceiveResult \<Rightarrow> bool" where
  "wt_PathResult u \<longleftrightarrow> pp_Code u \<in> set [- 12..0] \<and>
     (if pp_Code u = PathPaymentStrictReceiveSuccess
      then (case pp_Success u of None \<Rightarrow> False | Some s \<Rightarrow> wt_PathSuccess s) else pp_Success u = None) \<and>
     (if pp_Code u = PathPaymentStrictReceiveNoIssuer
      then (case pp_NoIssuer u of None \<Rightarrow> False | Some a \<Rightarrow> wt_Asset a) else pp_NoIssuer u = None)"

lemma xdr_SimplePaymentResult: "xdr_type enc_SimplePaymentResult dec_SimplePaymentResult wt_SimplePaymentResult"
  apply (rule xdr_typeI)
  subgoal by (auto simp: enc_SimplePaymentResult_def wt_SimplePaymentResult_def intro: xdr_w)
  subgoal by (auto simp: enc_SimplePaymentResult_def dec_SimplePaymentResult_def wt_SimplePaymentResult_def xdr_eval dest!: xdr_r)
  subgoal by (auto simp: enc_SimplePaymentResult_def dec_SimplePaymentResult_def wt_SimplePaymentResult_def xdr_struct)
    (auto dest!: xdr_c)
  done

lemma xdr_Offers: "xdr_type (enc_slice enc_ClaimAtom) (dec_slice ''ClaimAtom'' no_limit dec_ClaimAtom) wt_Offers"
  unfolding wt_Offers_def [abs_def] by (rule xdr_type_slice [OF xdr_ClaimAtom]) (simp add: no_limit_def)

lemmas xdr_path_parts = xdr_SimplePaymentResult xdr_Offers
lemmas xdr_path_w [xdr_w] = xdr_path_parts [THEN xdr_written]
lemmas xdr_path_r [xdr_r] = xdr_path_parts [THEN xdr_readsI]
lemmas xdr_path_c [xdr_c] = xdr_path_parts [THEN xdr_canonical]

lemma xdr_PathSuccess: "xdr_type enc_PathSuccess dec_PathSuccess wt_PathSuccess"
  apply (rule xdr_typeI)
  subgoal by (auto simp: enc_PathSuccess_def wt_PathSuccess_def intro: xdr_w)
  subgoal by (auto simp: enc_PathSuccess_def dec_PathSuccess_def wt_PathSuccess_def xdr_eval dest!: xdr_r)
  subgoal by (auto simp: enc_PathSuccess_def dec_PathSuccess_def wt_PathSuccess_def xdr_struct) (auto dest!: xdr_c)
  done

lemmas xdr_PathSuccess_w [xdr_w] = xdr_written [OF xdr_PathSuccess]
lemmas xdr_PathSuccess_r [xdr_r] = xdr_readsI [OF xdr_PathSuccess]
lemmas xdr_PathSuccess_c [xdr_c] = xdr_canonical [OF xdr_PathSuccess]

lemma xdr_PathResult: "xdr_type enc_PathResult dec_PathResult wt_PathResult"
  apply (rule xdr_typeI)
  subgoal by (auto simp: enc_PathResult_def wt_PathResult_def intro: xdr_w split: option.splits if_splits)
  subgoal by (auto simp: enc_PathResult_def dec_PathResult_def wt_PathResult_def xdr_eval Let_def dest!: xdr_r split: option.splits if_splits)
  subgoal by (auto simp: enc_PathResult_def dec_PathResult_def wt_PathResult_def xdr_struct Let_def split: if_splits)
    (auto dest!: xdr_c)
  done

lemmas xdr_PathResult_w [xdr_w] = xdr_written [OF xdr_PathResult]
lemmas xdr_PathResult_r [xdr_r] = xdr_readsI [OF xdr_PathResult]
lemmas xdr_PathResult_c [xdr_c] = xdr_canonical [OF xdr_PathResult]

definition enc_SendSuccess :: "PathPaymentStrictSendResultSuccess xdr_encoder" where
  "enc_SendSuccess s = xdr_write [enc_slice enc_ClaimAtom (sk_Offers s), enc_SimplePaymentResult (sk_Last s)]"

definition dec_SendSuccess :: "PathPaymentStrictSendResultSuccess xdr_decoder" where
  "dec_SendSuccess =
     xdr_then (dec_slice ''ClaimAtom'' no_limit dec_ClaimAtom) (\<lambda>a.
     xdr_field ''SimplePaymentResult'' dec_SimplePaymentResult (\<lambda>b. xdr_return \<lparr>sk_Offers = a, sk_Last = b\<rparr>))"

definition wt_SendSuccess :: "PathPaymentStrictSendResultSuccess \<Rightarrow> bool" where
  "wt_SendSuccess s \<longleftrightarrow> wt_Offers (sk_Offers s) \<and> wt_SimplePaymentResult (sk_Last s)"

definition enc_SendResult :: "PathPaymentStrictSendResult xdr_encoder" where
  "enc_SendResult u = xdr_write (enc_SendCode (sr_Code u) #
     (if sr_Code u = 0 then [and_then (deref (sr_Success u)) enc_SendSuccess]
      else if sr_Code u = - 9 then [and_then (deref (sr_NoIssuer u)) enc_Asset]
      else []))"

definition dec_SendResult :: "PathPaymentStrictSendResult xdr_decoder" where
  "dec_SendResult =
     xdr_field ''PathPaymentStrictSendResultCode'' dec_SendCode (\<lambda>t.
       let u = \<lparr>sr_Code = t, sr_Success = None, sr_NoIssuer = None\<rparr> in
       if t = 0 then
         xdr_field ''PathPaymentStrictSendResultSuccess'' dec_SendSuccess (\<lambda>s. xdr_return (u\<lparr>sr_Success := Some s\<rparr>))
       else if t = - 9 then
         xdr_field ''Asset'' dec_Asset (\<lambda>a. xdr_return (u\<lparr>sr_NoIssuer := Some a\<rparr>))
       else xdr_return u)"

definition wt_SendResult :: "PathPaymentStrictSendResult \<Rightarrow> bool" where
  "wt_SendResult u \<longleftrightarrow> sr_Code u \<in> set [- 12..0] \<and>
     (if sr_Code u = 0
      then (case sr_Success u of None \<Rightarrow> False | Some s \<Rightarrow> wt_SendSuccess s) else sr_Success u = None) \<and>
     (if sr_Code u = - 9
      then (case sr_NoIssuer u of None \<Rightarrow> False | Some a \<Rightarrow> wt_Asset a) else sr_NoIssuer u = None)"

lemma xdr_SendSuccess: "xdr_type enc_SendSuccess dec_SendSuccess wt_SendSuccess"
  apply (rule xdr_typeI)
  subgoal by (auto simp: enc_SendSuccess_def wt_SendSuccess_def intro: xdr_w)
  subgoal by (auto simp: enc_SendSuccess_def dec_SendSuccess_def wt_SendSuccess_def xdr_eval dest!: xdr_r)
  subgoal by (auto simp: enc_SendSuccess_def dec_SendSuccess_def wt_SendSuccess_def xdr_struct) (auto dest!: xdr_c)
  done

lemmas xdr_SendSuccess_w [xdr_w] = xdr_written [OF xdr_SendSuccess]
lemmas xdr_SendSuccess_r [xdr_r] = xdr_readsI [OF xdr_SendSuccess]
lemmas xdr_SendSuccess_c [xdr_c] = xdr_canonical [OF xdr_SendSuccess]

lemma xdr_SendResult: "xdr_type enc_SendResult dec_SendResult wt_SendResult"
  apply (rule xdr_typeI)
  subgoal by (auto simp: enc_SendResult_def wt_SendResult_def intro: xdr_w split: option.splits if_splits)
  subgoal by (auto simp: enc_SendResult_def dec_SendResult_def wt_SendResult_def xdr_eval Let_def dest!: xdr_r split: option.splits if_splits)
  subgoal by (auto simp: enc_SendResult_def dec_SendResult_def wt_SendResult_def xdr_struct Let_def split: if_splits)
    (auto dest!: xdr_c)
  done

lemmas xdr_SendResult_w [xdr_w] = xdr_written [OF xdr_SendResult]
lemmas xdr_SendResult_r [xdr_r] = xdr_readsI [OF xdr_SendResult]
lemmas xdr_SendResult_c [xdr_c] = xdr_canonical [OF xdr_SendResult]

section \<open>Offers and payouts\<close>

definition enc_OfferEntry :: "OfferEntry xdr_encoder" where
  "enc_OfferEntry s = xdr_write [enc_AccountId (oe_SellerId s), enc_Int64 (oe_OfferId s), enc_Asset (oe_Selling s), enc_Asset (oe_Buying s), enc_Int64 (oe_Amount s), enc_Price (oe_Price s), enc_Uint32 (oe_Flags s),
     enc_TransactionExt ()]"

definition dec_OfferEntry :: "OfferEntry xdr_decoder" where
  "dec_OfferEntry =
     xdr_field ''AccountId'' dec_AccountId (\<lambda>a.
     xdr_field ''Int64'' dec_Int64 (\<lambda>b.
     xdr_field ''Asset'' dec_Asset (\<lambda>c.
     xdr_field ''Asset'' dec_Asset (\<lambda>d.
     xdr_field ''Int64'' dec_Int64 (\<lambda>e.
     xdr_field ''Price'' dec_Price (\<lambda>f.
     xdr_field ''Uint32'' dec_Uint32 (\<lambda>g.
     xdr_field ''OfferEntryExt'' (dec_TransactionExt ''OfferEntryExt'') (\<lambda>_.
     xdr_return \<lparr>oe_SellerId = a, oe_OfferId = b, oe_Selling = c, oe_Buying = d, oe_Amount = e, oe_Price = f, oe_Flags = g\<rparr>))))))))"

definition wt_OfferEntry :: "OfferEntry \<Rightarrow> bool" where
  "wt_OfferEntry s \<longleftrightarrow> wt_AccountId (oe_SellerId s) \<and> wt_Asset (oe_Selling s) \<and> wt_Asset (oe_Buying s)"

lemma xdr_OfferEntry: "xdr_type enc_OfferEntry dec_OfferEntry wt_OfferEntry"
  apply (rule xdr_typeI)
  subgoal by (auto simp: enc_OfferEntry_def wt_OfferEntry_def intro: xdr_w)
  subgoal by (auto simp: enc_OfferEntry_def dec_OfferEntry_def wt_OfferEntry_def xdr_eval
      dest!: xdr_r xdr_readsI [OF xdr_TransactionExt [of "''OfferEntryExt''"]])
  subgoal by (auto simp: enc_OfferEntry_def dec_OfferEntry_def wt_OfferEntry_def xdr_struct dest!: xdr_c)
  done

lemmas xdr_offer_entry = xdr_OfferEntry
lemmas xdr_offer_entry_w [xdr_w] = xdr_offer_entry [THEN xdr_written]
lemmas xdr_offer_entry_r [xdr_r] = xdr_offer_entry [THEN xdr_readsI]
lemmas xdr_offer_entry_c [xdr_c] = xdr_offer_entry [THEN xdr_canonical]

fun enc_OfferEffect :: "ManageOfferSuccessResultOffer xdr_encoder" where
  "enc_OfferEffect (ManageOfferCreated x) = xdr_write [enc_ManageOfferEffect 0, enc_OfferEntry x]"
| "enc_OfferEffect (ManageOfferUpdated x) = xdr_write [enc_ManageOfferEffect 1, enc_OfferEntry x]"
| "enc_OfferEffect ManageOfferDeleted = xdr_write [enc_ManageOfferEffect 2]"

definition dec_OfferEffect :: "ManageOfferSuccessResultOffer xdr_decoder" where
  "dec_OfferEffect =
     xdr_field ''ManageOfferEffect'' dec_ManageOfferEffect (\<lambda>t.
       if t = 0 then xdr_field ''OfferEntry'' dec_OfferEntry (\<lambda>x. xdr_return (ManageOfferCreated x))
       else if t = 1 then xdr_field ''OfferEntry'' dec_OfferEntry (\<lambda>x. xdr_return (ManageOfferUpdated x))
       else xdr_return ManageOfferDeleted)"

fun wt_OfferEffect :: "ManageOfferSuccessResultOffer \<Rightarrow> bool" where
  "wt_OfferEffect (ManageOfferCreated x) \<longleftrightarrow> wt_OfferEntry x"
| "wt_OfferEffect (ManageOfferUpdated x) \<longleftrightarrow> wt_OfferEntry x"
| "wt_OfferEffect ManageOfferDeleted \<longleftrightarrow> True"

lemma xdr_OfferEffect: "xdr_type enc_OfferEffect dec_OfferEffect wt_OfferEffect"
  apply (rule xdr_typeI)
  subgoal for x by (cases x) (auto intro!: xdr_w)
  subgoal for x by (cases x) (auto simp: dec_OfferEffect_def xdr_eval dest!: xdr_r)
  subgoal by (auto simp: dec_OfferEffect_def xdr_struct split: if_splits dest!: xdr_c)
  done

lemmas xdr_offer_effect = xdr_OfferEffect
lemmas xdr_offer_effect_w [xdr_w] = xdr_offer_effect [THEN xdr_written]
lemmas xdr_offer_effect_r [xdr_r] = xdr_offer_effect [THEN xdr_readsI]
lemmas xdr_offer_effect_c [xdr_c] = xdr_offer_effect [THEN xdr_canonical]

definition enc_ManageOfferSuccess :: "ManageOfferSuccessResult xdr_encoder" where
  "enc_ManageOfferSuccess s = xdr_write [enc_slice enc_ClaimAtom (mo_OffersClaimed s), enc_OfferEffect (mo_Offer s)]"

definition dec_ManageOfferSuccess :: "ManageOfferSuccessResult xdr_decoder" where
  "dec_ManageOfferSuccess =
     xdr_then (dec_slice ''ClaimAtom'' no_limit dec_ClaimAtom) (\<lambda>a.
     xdr_field ''ManageOfferSuccessResultOffer'' dec_OfferEffect (\<lambda>b. xdr_return \<lparr>mo_OffersClaimed = a, mo_Offer = b\<rparr>))"

definition wt_ManageOfferSuccess :: "ManageOfferSuccessResult \<Rightarrow> bool" where
  "wt_ManageOfferSuccess s \<longleftrightarrow> wt_Offers (mo_OffersClaimed s) \<and> wt_OfferEffect (mo_Offer s)"

lemma xdr_ManageOfferSuccess: "xdr_type enc_ManageOfferSuccess dec_ManageOfferSuccess wt_ManageOfferSuccess"
  apply (rule xdr_typeI)
  subgoal by (auto simp: enc_ManageOfferSuccess_def wt_ManageOfferSuccess_def intro: xdr_w)
  subgoal by (auto simp: enc_ManageOfferSuccess_def dec_ManageOfferSuccess_def wt_ManageOfferSuccess_def xdr_eval dest!: xdr_r)
  subgoal by (auto simp: enc_ManageOfferSuccess_def dec_ManageOfferSuccess_def wt_ManageOfferSuccess_def xdr_struct dest!: xdr_c)
  done

definition enc_InflationPayout :: "InflationPayout xdr_encoder" where
  "enc_InflationPayout s = xdr_write [enc_AccountId (ip_Destination s), enc_Int64 (ip_Amount s)]"

definition dec_InflationPayout :: "InflationPayout xdr_decoder" where
  "dec_InflationPayout =
     xdr_field ''AccountId'' dec_AccountId (\<lambda>a.
     xdr_field ''Int64'' dec_Int64 (\<lambda>b.
     xdr_return \<lparr>ip_Destination = a, ip_Amount = b\<rparr>))"

definition wt_InflationPayout :: "InflationPayout \<Rightarrow> bool" where
  "wt_InflationPayout s \<longleftrightarrow> wt_AccountId (ip_Destination s)"

lemma xdr_InflationPayout: "xdr_type enc_InflationPayout dec_InflationPayout wt_InflationPayout"
  apply (rule xdr_typeI)
  subgoal by (auto simp: enc_InflationPayout_def wt_InflationPayout_def intro: xdr_w)
  subgoal by (auto simp: enc_InflationPayout_def dec_InflationPayout_def wt_InflationPayout_def xdr_eval dest!: xdr_r)
  subgoal by (auto simp: enc_InflationPayout_def dec_InflationPayout_def wt_InflationPayout_def xdr_struct dest!: xdr_c)
  done

definition wt_Payouts :: "InflationPayout list \<Rightarrow> bool" where
  "wt_Payouts p \<longleftrightarrow> length p \<le> no_limit \<and> (\<forall>x \<in> set p. wt_InflationPayout x)"

lemma xdr_Payouts: "xdr_type (enc_slice enc_InflationPayout) (dec_slice ''InflationPayout'' no_limit dec_InflationPayout) wt_Payouts"
  unfolding wt_Payouts_def [abs_def] by (rule xdr_type_slice [OF xdr_InflationPayout]) (simp add: no_limit_def)

section \<open>The results of the operations\<close>

text \<open>The type of the result of an operation.\<close>

fun result_name :: "OperationType \<Rightarrow> string" where
  "result_name OpCreateAccount = ''CreateAccountResult''"
| "result_name OpPayment = ''PaymentResult''"
| "result_name OpPathPaymentStrictReceive = ''PathPaymentStrictReceiveResult''"
| "result_name OpManageSellOffer = ''ManageSellOfferResult''"
| "result_name OpCreatePassiveSellOffer = ''ManageSellOfferResult''"
| "result_name OpSetOptions = ''SetOptionsResult''"
| "result_name OpChangeTrust = ''ChangeTrustResult''"
| "result_name OpAllowTrust = ''AllowTrustResult''"
| "result_name OpAccountMerge = ''AccountMergeResult''"
| "result_name OpInflation = ''InflationResult''"
| "result_name OpManageData = ''ManageDataResult''"
| "result_name OpBumpSequence = ''BumpSequenceResult''"
| "result_name OpManageBuyOffer = ''ManageBuyOfferResult''"
| "result_name OpPathPaymentStrictSend = ''PathPaymentStrictSendResult''"
| "result_name OpCreateClaimableBalance = ''CreateClaimableBalanceResult''"
| "result_name OpClaimClaimableBalance = ''ClaimClaimableBalanceResult''"
| "result_name OpBeginSponsoringFutureReserves = ''BeginSponsoringFutureReservesResult''"
| "result_name OpEndSponsoringFutureReserves = ''EndSponsoringFutureReservesResult''"
| "result_name OpRevokeSponsorship = ''RevokeSponsorshipResult''"
| "result_name OpClawback = ''ClawbackResult''"
| "result_name OpClawbackClaimableBalance = ''ClawbackClaimableBalanceResult''"
| "result_name OpSetTrustLineFlags = ''SetTrustLineFlagsResult''"
| "result_name OpLiquidityPoolDeposit = ''LiquidityPoolDepositResult''"
| "result_name OpLiquidityPoolWithdraw = ''LiquidityPoolWithdrawResult''"

text \<open>The codes of a result: zero is success, the rest are negative.\<close>

fun code_limit :: "OperationType \<Rightarrow> int" where
  "code_limit OpCreateAccount = - 4"
| "code_limit OpPayment = - 9"
| "code_limit OpPathPaymentStrictReceive = - 12"
| "code_limit OpManageSellOffer = - 12"
| "code_limit OpCreatePassiveSellOffer = - 12"
| "code_limit OpSetOptions = - 10"
| "code_limit OpChangeTrust = - 8"
| "code_limit OpAllowTrust = - 6"
| "code_limit OpAccountMerge = - 7"
| "code_limit OpInflation = - 1"
| "code_limit OpManageData = - 4"
| "code_limit OpBumpSequence = - 1"
| "code_limit OpManageBuyOffer = - 12"
| "code_limit OpPathPaymentStrictSend = - 12"
| "code_limit OpCreateClaimableBalance = - 5"
| "code_limit OpClaimClaimableBalance = - 5"
| "code_limit OpBeginSponsoringFutureReserves = - 3"
| "code_limit OpEndSponsoringFutureReserves = - 1"
| "code_limit OpRevokeSponsorship = - 5"
| "code_limit OpClawback = - 4"
| "code_limit OpClawbackClaimableBalance = - 3"
| "code_limit OpSetTrustLineFlags = - 5"
| "code_limit OpLiquidityPoolDeposit = - 7"
| "code_limit OpLiquidityPoolWithdraw = - 5"

definition enc_code :: "OperationType \<Rightarrow> int xdr_encoder" where
  "enc_code t = enc_enum (result_name t @ ''Code'') [code_limit t..0]"

definition dec_code :: "OperationType \<Rightarrow> int xdr_decoder" where
  "dec_code t = xdr_named (result_name t @ ''Code'') (dec_enum (result_name t @ ''Code'') [code_limit t..0])"

text \<open>A code and, if it is that of success, a value.\<close>

definition enc_coded :: "OperationType \<Rightarrow> 'a xdr_encoder \<Rightarrow> (int \<times> 'a option) xdr_encoder" where
  "enc_coded t e = (\<lambda>(c, p). xdr_write [enc_code t c, if c = 0 then and_then (deref p) e else Inr []])"

definition dec_coded :: "OperationType \<Rightarrow> 'a xdr_decoder \<Rightarrow> (int \<times> 'a option) xdr_decoder" where
  "dec_coded t d = xdr_then (dec_code t) (\<lambda>c. if c = 0 then xdr_then d (\<lambda>x. xdr_return (c, Some x)) else xdr_return (c, None))"

definition wt_coded :: "OperationType \<Rightarrow> ('a \<Rightarrow> bool) \<Rightarrow> int \<times> 'a option \<Rightarrow> bool" where
  "wt_coded t w = (\<lambda>(c, p). c \<in> set [code_limit t..0] \<and> (if c = 0 then (case p of None \<Rightarrow> False | Some x \<Rightarrow> w x) else p = None))"

fun enc_other :: "OperationType \<Rightarrow> other_result \<Rightarrow> byte list res" where
  "enc_other t (OfferResult p) =
     (if t \<in> {OpManageSellOffer, OpCreatePassiveSellOffer, OpManageBuyOffer} then enc_coded t enc_ManageOfferSuccess p else nil_arm)"
| "enc_other t (MergeResult p) = (if t = OpAccountMerge then enc_coded t enc_Int64 p else nil_arm)"
| "enc_other t (PayoutsResult p) = (if t = OpInflation then enc_coded t (enc_slice enc_InflationPayout) p else nil_arm)"
| "enc_other t (BalanceResult p) = (if t = OpCreateClaimableBalance then enc_coded t enc_ClaimableBalanceId p else nil_arm)"
| "enc_other t (SendResult p) = (if t = OpPathPaymentStrictSend then enc_SendResult p else nil_arm)"
| "enc_other t (CodeResult c) =
     (if t \<in> {OpManageSellOffer, OpCreatePassiveSellOffer, OpManageBuyOffer, OpAccountMerge, OpInflation, OpCreateClaimableBalance,
        OpPathPaymentStrictSend} then nil_arm else enc_code t c)"

definition dec_other :: "OperationType \<Rightarrow> other_result xdr_decoder" where
  "dec_other t =
     (if t \<in> {OpManageSellOffer, OpCreatePassiveSellOffer, OpManageBuyOffer} then
        xdr_then (dec_coded t (xdr_named ''ManageOfferSuccessResult'' dec_ManageOfferSuccess)) (\<lambda>p. xdr_return (OfferResult p))
      else if t = OpAccountMerge then xdr_then (dec_coded t (xdr_named ''Int64'' dec_Int64)) (\<lambda>p. xdr_return (MergeResult p))
      else if t = OpInflation then
        xdr_then (dec_coded t (dec_slice ''InflationPayout'' no_limit dec_InflationPayout)) (\<lambda>p. xdr_return (PayoutsResult p))
      else if t = OpCreateClaimableBalance then
        xdr_then (dec_coded t (xdr_named ''ClaimableBalanceId'' dec_ClaimableBalanceId)) (\<lambda>p. xdr_return (BalanceResult p))
      else if t = OpPathPaymentStrictSend then xdr_then dec_SendResult (\<lambda>p. xdr_return (SendResult p))
      else xdr_then (dec_code t) (\<lambda>c. xdr_return (CodeResult c)))"

fun wt_other :: "OperationType \<Rightarrow> other_result \<Rightarrow> bool" where
  "wt_other t (OfferResult p) \<longleftrightarrow>
     t \<in> {OpManageSellOffer, OpCreatePassiveSellOffer, OpManageBuyOffer} \<and> wt_coded t wt_ManageOfferSuccess p"
| "wt_other t (MergeResult p) \<longleftrightarrow> t = OpAccountMerge \<and> wt_coded t wt_any p"
| "wt_other t (PayoutsResult p) \<longleftrightarrow> t = OpInflation \<and> wt_coded t wt_Payouts p"
| "wt_other t (BalanceResult p) \<longleftrightarrow> t = OpCreateClaimableBalance \<and> wt_coded t wt_ClaimableBalanceId p"
| "wt_other t (SendResult p) \<longleftrightarrow> t = OpPathPaymentStrictSend \<and> wt_SendResult p"
| "wt_other t (CodeResult c) \<longleftrightarrow>
     t \<notin> {OpManageSellOffer, OpCreatePassiveSellOffer, OpManageBuyOffer, OpAccountMerge, OpInflation, OpCreateClaimableBalance,
       OpPathPaymentStrictSend} \<and> c \<in> set [code_limit t..0]"

lemma xdr_code: "xdr_type (enc_code t) (dec_code t) (\<lambda>c. c \<in> set [code_limit t..0])"
  unfolding enc_code_def dec_code_def by (rule xdr_named_type, rule xdr_type_enum) (cases t; auto)

lemma xdr_coded:
  assumes "xdr_type e d w"
  shows "xdr_type (enc_coded t e) (dec_coded t d) (wt_coded t w)"
  apply (rule xdr_typeI)
  subgoal by (auto simp: enc_coded_def wt_coded_def intro!: xdr_written [OF assms] xdr_written [OF xdr_code] split: option.splits)
  subgoal by (auto simp: enc_coded_def dec_coded_def wt_coded_def xdr_eval
      dest!: xdr_reads [OF assms, rotated] xdr_reads [OF xdr_code, rotated] split: option.splits if_splits)
  subgoal by (auto simp: enc_coded_def dec_coded_def wt_coded_def xdr_struct
      dest!: xdr_canonical [OF assms] xdr_canonical [OF xdr_code] split: if_splits)
  done

text \<open>A type under a constructor.\<close>

lemma xdr_type_con:
  assumes "xdr_type e d w" "\<And>x. enc (c x) = e x" "\<And>y. wt y \<longleftrightarrow> (\<exists>x. y = c x \<and> w x)"
  shows "xdr_type enc (xdr_then d (\<lambda>x. xdr_return (c x))) wt"
  apply (rule xdr_typeI)
  subgoal using assms(2,3) xdr_written [OF assms(1)] by auto
  subgoal for x bs r using assms(2,3) xdr_reads [OF assms(1)] by (fastforce simp: xdr_then_def xdr_return_def)
  subgoal using assms(2,3) by (auto simp: xdr_then_Inr dest!: xdr_canonical [OF assms(1)])
  done

lemmas coded_types = xdr_coded [OF xdr_named_type [OF xdr_ManageOfferSuccess]] xdr_coded [OF xdr_named_type [OF xdr_Int64]]
  xdr_coded [OF xdr_Payouts] xdr_coded [OF xdr_named_type [OF xdr_ClaimableBalanceId]]

lemma wt_other_cases:
  "t \<in> {OpManageSellOffer, OpCreatePassiveSellOffer, OpManageBuyOffer} \<Longrightarrow>
    wt_other t y \<longleftrightarrow> (\<exists>x. y = OfferResult x \<and> wt_coded t wt_ManageOfferSuccess x)"
  "wt_other OpAccountMerge y \<longleftrightarrow> (\<exists>x. y = MergeResult x \<and> wt_coded OpAccountMerge wt_any x)"
  "wt_other OpInflation y \<longleftrightarrow> (\<exists>x. y = PayoutsResult x \<and> wt_coded OpInflation wt_Payouts x)"
  "wt_other OpCreateClaimableBalance y \<longleftrightarrow> (\<exists>x. y = BalanceResult x \<and> wt_coded OpCreateClaimableBalance wt_ClaimableBalanceId x)"
  "wt_other OpPathPaymentStrictSend y \<longleftrightarrow> (\<exists>x. y = SendResult x \<and> wt_SendResult x)"
  "t \<notin> {OpManageSellOffer, OpCreatePassiveSellOffer, OpManageBuyOffer, OpAccountMerge, OpInflation, OpCreateClaimableBalance,
     OpPathPaymentStrictSend} \<Longrightarrow> wt_other t y \<longleftrightarrow> (\<exists>c. y = CodeResult c \<and> c \<in> set [code_limit t..0])"
  by (cases y; auto)+

lemma xdr_other: "xdr_type (enc_other t) (dec_other t) (wt_other t)"
proof -
  consider "t \<in> {OpManageSellOffer, OpCreatePassiveSellOffer, OpManageBuyOffer}" | "t = OpAccountMerge" | "t = OpInflation"
    | "t = OpCreateClaimableBalance" | "t = OpPathPaymentStrictSend"
    | "t \<notin> {OpManageSellOffer, OpCreatePassiveSellOffer, OpManageBuyOffer, OpAccountMerge, OpInflation, OpCreateClaimableBalance,
        OpPathPaymentStrictSend}" by blast
  then show ?thesis
  proof cases
    case 1
    then have "dec_other t = xdr_then (dec_coded t (xdr_named ''ManageOfferSuccessResult'' dec_ManageOfferSuccess)) (\<lambda>p. xdr_return (OfferResult p))"
      by (simp add: dec_other_def)
    then show ?thesis using xdr_type_con [OF coded_types(1) _ wt_other_cases(1) [OF 1], of "enc_other t"] 1 by simp
  next
    case 2
    then show ?thesis using xdr_type_con [OF coded_types(2) _ wt_other_cases(2), of "enc_other t"] by (simp add: dec_other_def)
  next
    case 3
    then show ?thesis using xdr_type_con [OF coded_types(3) _ wt_other_cases(3), of "enc_other t"] by (simp add: dec_other_def)
  next
    case 4
    then show ?thesis using xdr_type_con [OF coded_types(4) _ wt_other_cases(4), of "enc_other t"] by (simp add: dec_other_def)
  next
    case 5
    then show ?thesis using xdr_type_con [OF xdr_SendResult _ wt_other_cases(5), of "enc_other t"] by (simp add: dec_other_def)
  next
    case 6
    then have "dec_other t = xdr_then (dec_code t) (\<lambda>c. xdr_return (CodeResult c))" by (simp add: dec_other_def)
    then show ?thesis using xdr_type_con [OF xdr_code _ wt_other_cases(6) [OF 6], of "enc_other t"] 6 by simp
  qed
qed

definition enc_OperationResultTr :: "OperationResultTr xdr_encoder" where
  "enc_OperationResultTr u = xdr_write [enc_OperationType (tr_Type u),
     (if tr_Type u = OpPathPaymentStrictReceive then and_then (deref (tr_PathPaymentStrictReceiveResult u)) enc_PathResult
      else and_then (deref (tr_Other u)) (enc_other (tr_Type u)))]"

definition dec_OperationResultTr :: "OperationResultTr xdr_decoder" where
  "dec_OperationResultTr =
     xdr_field ''OperationType'' dec_OperationType (\<lambda>t.
       if t = OpPathPaymentStrictReceive then
         xdr_field (result_name t) dec_PathResult (\<lambda>p.
           xdr_return \<lparr>tr_Type = t, tr_PathPaymentStrictReceiveResult = Some p, tr_Other = None\<rparr>)
       else xdr_field (result_name t) (dec_other t) (\<lambda>p.
           xdr_return \<lparr>tr_Type = t, tr_PathPaymentStrictReceiveResult = None, tr_Other = Some p\<rparr>))"

definition wt_OperationResultTr :: "OperationResultTr \<Rightarrow> bool" where
  "wt_OperationResultTr u \<longleftrightarrow>
     (if tr_Type u = OpPathPaymentStrictReceive
      then tr_Other u = None \<and> (case tr_PathPaymentStrictReceiveResult u of None \<Rightarrow> False | Some p \<Rightarrow> wt_PathResult p)
      else tr_PathPaymentStrictReceiveResult u = None \<and> (case tr_Other u of None \<Rightarrow> False | Some p \<Rightarrow> wt_other (tr_Type u) p))"

lemma xdr_OperationResultTr: "xdr_type enc_OperationResultTr dec_OperationResultTr wt_OperationResultTr"
  apply (rule xdr_typeI)
  subgoal by (auto simp: enc_OperationResultTr_def wt_OperationResultTr_def intro: xdr_w xdr_written [OF xdr_other] split: option.splits if_splits)
  subgoal by (auto simp: enc_OperationResultTr_def dec_OperationResultTr_def wt_OperationResultTr_def xdr_eval
      dest!: xdr_r xdr_readsI [OF xdr_other] split: option.splits if_splits)
  subgoal by (auto simp: enc_OperationResultTr_def dec_OperationResultTr_def wt_OperationResultTr_def xdr_struct
      split: if_splits dest!: xdr_c xdr_canonical [OF xdr_other])
  done

lemmas xdr_OperationResultTr_w [xdr_w] = xdr_written [OF xdr_OperationResultTr]
lemmas xdr_OperationResultTr_r [xdr_r] = xdr_readsI [OF xdr_OperationResultTr]
lemmas xdr_OperationResultTr_c [xdr_c] = xdr_canonical [OF xdr_OperationResultTr]

definition enc_OperationResult :: "OperationResult xdr_encoder" where
  "enc_OperationResult u = xdr_write (enc_OperationResultCode (or_Code u) #
     (if or_Code u = OperationResultCodeOpInner then [and_then (deref (or_Tr u)) enc_OperationResultTr] else []))"

definition dec_OperationResult :: "OperationResult xdr_decoder" where
  "dec_OperationResult =
     xdr_field ''OperationResultCode'' dec_OperationResultCode (\<lambda>t.
       if t = OperationResultCodeOpInner then
         xdr_field ''OperationResultTr'' dec_OperationResultTr (\<lambda>r. xdr_return \<lparr>or_Code = t, or_Tr = Some r\<rparr>)
       else xdr_return \<lparr>or_Code = t, or_Tr = None\<rparr>)"

definition wt_OperationResult :: "OperationResult \<Rightarrow> bool" where
  "wt_OperationResult u \<longleftrightarrow> or_Code u \<in> set [- 6..0] \<and>
     (if or_Code u = OperationResultCodeOpInner
      then (case or_Tr u of None \<Rightarrow> False | Some r \<Rightarrow> wt_OperationResultTr r) else or_Tr u = None)"

definition wt_OperationResults :: "OperationResult list \<Rightarrow> bool" where
  "wt_OperationResults p \<longleftrightarrow> length p \<le> no_limit \<and> (\<forall>x \<in> set p. wt_OperationResult x)"

lemma xdr_OperationResult: "xdr_type enc_OperationResult dec_OperationResult wt_OperationResult"
  apply (rule xdr_typeI)
  subgoal by (auto simp: enc_OperationResult_def wt_OperationResult_def intro: xdr_w split: option.splits if_splits)
  subgoal by (auto simp: enc_OperationResult_def dec_OperationResult_def wt_OperationResult_def xdr_eval
      dest!: xdr_r split: option.splits if_splits)
  subgoal by (auto simp: enc_OperationResult_def dec_OperationResult_def wt_OperationResult_def xdr_struct split: if_splits)
    (auto dest!: xdr_c)
  done

lemma xdr_OperationResults:
  "xdr_type (enc_slice enc_OperationResult) (dec_slice ''OperationResult'' no_limit dec_OperationResult) wt_OperationResults"
  unfolding wt_OperationResults_def [abs_def] by (rule xdr_type_slice [OF xdr_OperationResult]) (simp add: no_limit_def)

lemmas xdr_OperationResults_w [xdr_w] = xdr_written [OF xdr_OperationResults]
lemmas xdr_OperationResults_r [xdr_r] = xdr_readsI [OF xdr_OperationResults]
lemmas xdr_OperationResults_c [xdr_c] = xdr_canonical [OF xdr_OperationResults]

end
