(* ===== verification/Xdr_Results.thy ===== *)
theory Xdr_Results
  imports Xdr_Op_Results
begin

text \<open>
  The result of a transaction in the vendored \<open>xdr\<close> package (\<open>xdr_generated.go\<close>), from which
  the program reads what a path payment cost: its types with their \<open>EncodeTo\<close> and
  \<open>DecodeFrom\<close> and the contract between the two.
\<close>

section \<open>Types\<close>

record InnerTransactionResultResult =
  irr_Code :: int
  irr_Results :: "OperationResult list option"

record InnerTransactionResult =
  itr_FeeCharged :: int64
  itr_Result :: InnerTransactionResultResult

record TransactionResultResult =
  rr_Code :: int
  rr_InnerResultPair :: "(byte list \<times> InnerTransactionResult) option"
  rr_Results :: "OperationResult list option"

record TransactionResult =
  tr_FeeCharged :: int64
  tr_Result :: TransactionResultResult

definition enc_TransactionResultCode :: "int xdr_encoder" where
  "enc_TransactionResultCode = enc_enum ''TransactionResultCode'' [- 14..1]"
definition dec_TransactionResultCode :: "int xdr_decoder" where
  "dec_TransactionResultCode = dec_enum ''TransactionResultCode'' [- 14..1]"

lemma xdr_TransactionResultCode: "xdr_type enc_TransactionResultCode dec_TransactionResultCode (\<lambda>t. t \<in> set [- 14..1])"
  unfolding enc_TransactionResultCode_def dec_TransactionResultCode_def by (rule xdr_type_enum) auto

lemmas xdr_txcode_w [xdr_w] = xdr_written [OF xdr_TransactionResultCode]
lemmas xdr_txcode_r [xdr_r] = xdr_readsI [OF xdr_TransactionResultCode]
lemmas xdr_txcode_c [xdr_c] = xdr_canonical [OF xdr_TransactionResultCode]

section \<open>The result of a transaction\<close>

text \<open>The extension point of both kinds of result is that of a transaction, under its own name.\<close>

definition enc_InnerResult :: "InnerTransactionResultResult xdr_encoder" where
  "enc_InnerResult u = xdr_write [enc_TransactionResultCode (irr_Code u),
     (if irr_Code u = TransactionResultCodeTxSuccess \<or> irr_Code u = TransactionResultCodeTxFailed
      then and_then (deref (irr_Results u)) (enc_slice enc_OperationResult)
      else if irr_Code u = TransactionResultCodeTxFeeBumpInnerSuccess \<or> irr_Code u = TransactionResultCodeTxFeeBumpInnerFailed
      then Inl (Errorf (''Code (TransactionResultCode) switch value '' @ [CHR 0x27] @ ''%d'' @ [CHR 0x27] @
             '' is not valid for union InnerTransactionResultResult'') [AInt (irr_Code u)])
      else Inr [])]"

definition dec_InnerResult :: "InnerTransactionResultResult xdr_decoder" where
  "dec_InnerResult =
     xdr_field ''TransactionResultCode'' dec_TransactionResultCode (\<lambda>t.
       if t = TransactionResultCodeTxSuccess \<or> t = TransactionResultCodeTxFailed then
         xdr_then (dec_slice ''OperationResult'' no_limit dec_OperationResult) (\<lambda>r.
           xdr_return \<lparr>irr_Code = t, irr_Results = Some r\<rparr>)
       else if t = TransactionResultCodeTxFeeBumpInnerSuccess \<or> t = TransactionResultCodeTxFeeBumpInnerFailed then
         xdr_fail (Errorf (''union InnerTransactionResultResult has invalid Code (TransactionResultCode) switch value '' @
           [CHR 0x27] @ ''%d'' @ [CHR 0x27]) [AInt t])
       else xdr_return \<lparr>irr_Code = t, irr_Results = None\<rparr>)"

definition wt_InnerResult :: "InnerTransactionResultResult \<Rightarrow> bool" where
  "wt_InnerResult u \<longleftrightarrow> irr_Code u \<in> set [- 14..1] \<and> irr_Code u \<noteq> 1 \<and> irr_Code u \<noteq> - 13 \<and>
     (if irr_Code u = 0 \<or> irr_Code u = - 1
      then (case irr_Results u of None \<Rightarrow> False | Some r \<Rightarrow> wt_OperationResults r) else irr_Results u = None)"

definition enc_InnerTransactionResult :: "InnerTransactionResult xdr_encoder" where
  "enc_InnerTransactionResult s = xdr_write [enc_Int64 (itr_FeeCharged s), enc_InnerResult (itr_Result s), enc_TransactionExt ()]"

definition dec_InnerTransactionResult :: "InnerTransactionResult xdr_decoder" where
  "dec_InnerTransactionResult =
     xdr_field ''Int64'' dec_Int64 (\<lambda>a.
     xdr_field ''InnerTransactionResultResult'' dec_InnerResult (\<lambda>b.
     xdr_field ''InnerTransactionResultExt'' (dec_TransactionExt ''InnerTransactionResultExt'') (\<lambda>_.
     xdr_return \<lparr>itr_FeeCharged = a, itr_Result = b\<rparr>)))"

definition enc_InnerPair :: "(byte list \<times> InnerTransactionResult) xdr_encoder" where
  "enc_InnerPair s = xdr_write [enc_Hash (fst s), enc_InnerTransactionResult (snd s)]"

definition dec_InnerPair :: "(byte list \<times> InnerTransactionResult) xdr_decoder" where
  "dec_InnerPair =
     xdr_field ''Hash'' dec_Hash (\<lambda>a.
     xdr_field ''InnerTransactionResult'' dec_InnerTransactionResult (\<lambda>b. xdr_return (a, b)))"

definition wt_InnerPair :: "byte list \<times> InnerTransactionResult \<Rightarrow> bool" where
  "wt_InnerPair s \<longleftrightarrow> wt_array 32 (fst s) \<and> wt_InnerResult (itr_Result (snd s))"

definition enc_TransactionResultResult :: "TransactionResultResult xdr_encoder" where
  "enc_TransactionResultResult u = xdr_write (enc_TransactionResultCode (rr_Code u) #
     (if rr_Code u = TransactionResultCodeTxFeeBumpInnerSuccess \<or> rr_Code u = TransactionResultCodeTxFeeBumpInnerFailed
      then [and_then (deref (rr_InnerResultPair u)) enc_InnerPair]
      else if rr_Code u = TransactionResultCodeTxSuccess \<or> rr_Code u = TransactionResultCodeTxFailed
      then [and_then (deref (rr_Results u)) (enc_slice enc_OperationResult)]
      else []))"

definition dec_TransactionResultResult :: "TransactionResultResult xdr_decoder" where
  "dec_TransactionResultResult =
     xdr_field ''TransactionResultCode'' dec_TransactionResultCode (\<lambda>t.
       let u = \<lparr>rr_Code = t, rr_InnerResultPair = None, rr_Results = None\<rparr> in
       if t = TransactionResultCodeTxFeeBumpInnerSuccess \<or> t = TransactionResultCodeTxFeeBumpInnerFailed then
         xdr_field ''InnerTransactionResultPair'' dec_InnerPair (\<lambda>p. xdr_return (u\<lparr>rr_InnerResultPair := Some p\<rparr>))
       else if t = TransactionResultCodeTxSuccess \<or> t = TransactionResultCodeTxFailed then
         xdr_then (dec_slice ''OperationResult'' no_limit dec_OperationResult) (\<lambda>r. xdr_return (u\<lparr>rr_Results := Some r\<rparr>))
       else xdr_return u)"

definition wt_TransactionResultResult :: "TransactionResultResult \<Rightarrow> bool" where
  "wt_TransactionResultResult u \<longleftrightarrow> rr_Code u \<in> set [- 14..1] \<and>
     (if rr_Code u = 1 \<or> rr_Code u = - 13
      then (case rr_InnerResultPair u of None \<Rightarrow> False | Some p \<Rightarrow> wt_InnerPair p) else rr_InnerResultPair u = None) \<and>
     (if rr_Code u = 0 \<or> rr_Code u = - 1
      then (case rr_Results u of None \<Rightarrow> False | Some r \<Rightarrow> wt_OperationResults r) else rr_Results u = None)"

definition enc_TransactionResult :: "TransactionResult xdr_encoder" where
  "enc_TransactionResult s = xdr_write [enc_Int64 (tr_FeeCharged s), enc_TransactionResultResult (tr_Result s), enc_TransactionExt ()]"

definition dec_TransactionResult :: "TransactionResult xdr_decoder" where
  "dec_TransactionResult =
     xdr_field ''Int64'' dec_Int64 (\<lambda>a.
     xdr_field ''TransactionResultResult'' dec_TransactionResultResult (\<lambda>b.
     xdr_field ''TransactionResultExt'' (dec_TransactionExt ''TransactionResultExt'') (\<lambda>_.
     xdr_return \<lparr>tr_FeeCharged = a, tr_Result = b\<rparr>)))"

definition wt_TransactionResult :: "TransactionResult \<Rightarrow> bool" where
  "wt_TransactionResult s \<longleftrightarrow> wt_TransactionResultResult (tr_Result s)"

lemma xdr_InnerResult: "xdr_type enc_InnerResult dec_InnerResult wt_InnerResult"
  apply (rule xdr_typeI)
  subgoal by (auto simp: enc_InnerResult_def wt_InnerResult_def intro: xdr_w split: option.splits if_splits)
  subgoal by (auto simp: enc_InnerResult_def dec_InnerResult_def wt_InnerResult_def xdr_eval
      dest!: xdr_r split: option.splits if_splits)
  subgoal by (auto simp: enc_InnerResult_def dec_InnerResult_def wt_InnerResult_def xdr_struct split: if_splits)
    (auto dest!: xdr_c)
  done

lemmas xdr_InnerResult_w [xdr_w] = xdr_written [OF xdr_InnerResult]
lemmas xdr_InnerResult_c [xdr_c] = xdr_canonical [OF xdr_InnerResult]

lemma xdr_InnerTransactionResult:
  "xdr_type enc_InnerTransactionResult dec_InnerTransactionResult (\<lambda>s. wt_InnerResult (itr_Result s))"
  apply (rule xdr_typeI)
  subgoal by (auto simp: enc_InnerTransactionResult_def intro: xdr_w)
  subgoal by (auto simp: enc_InnerTransactionResult_def dec_InnerTransactionResult_def xdr_eval
      dest!: xdr_r xdr_readsI [OF xdr_InnerResult] xdr_readsI [OF xdr_TransactionExt [of "''InnerTransactionResultExt''"]])
  subgoal by (auto simp: enc_InnerTransactionResult_def dec_InnerTransactionResult_def xdr_struct) (auto dest!: xdr_c)
  done

lemmas xdr_InnerTransactionResult_w [xdr_w] = xdr_written [OF xdr_InnerTransactionResult]
lemmas xdr_InnerTransactionResult_c [xdr_c] = xdr_canonical [OF xdr_InnerTransactionResult]

lemma xdr_InnerPair: "xdr_type enc_InnerPair dec_InnerPair wt_InnerPair"
  apply (rule xdr_typeI)
  subgoal by (auto simp: enc_InnerPair_def wt_InnerPair_def intro: xdr_w)
  subgoal by (auto simp: enc_InnerPair_def dec_InnerPair_def wt_InnerPair_def xdr_eval
      dest!: xdr_r xdr_readsI [OF xdr_InnerTransactionResult])
  subgoal by (auto simp: enc_InnerPair_def dec_InnerPair_def wt_InnerPair_def xdr_struct) (auto dest!: xdr_c)
  done

lemmas xdr_InnerPair_w [xdr_w] = xdr_written [OF xdr_InnerPair]
lemmas xdr_InnerPair_c [xdr_c] = xdr_canonical [OF xdr_InnerPair]

lemma xdr_TransactionResultResult:
  "xdr_type enc_TransactionResultResult dec_TransactionResultResult wt_TransactionResultResult"
  apply (rule xdr_typeI)
  subgoal by (auto simp: enc_TransactionResultResult_def wt_TransactionResultResult_def intro: xdr_w split: option.splits if_splits)
  subgoal by (auto simp: enc_TransactionResultResult_def dec_TransactionResultResult_def wt_TransactionResultResult_def xdr_eval Let_def
      dest!: xdr_r xdr_readsI [OF xdr_InnerPair] split: option.splits if_splits)
  subgoal by (auto simp: enc_TransactionResultResult_def dec_TransactionResultResult_def wt_TransactionResultResult_def xdr_struct Let_def
      split: if_splits) (auto dest!: xdr_c)
  done

lemmas xdr_TransactionResultResult_w [xdr_w] = xdr_written [OF xdr_TransactionResultResult]
lemmas xdr_TransactionResultResult_c [xdr_c] = xdr_canonical [OF xdr_TransactionResultResult]

lemma xdr_TransactionResult: "xdr_type enc_TransactionResult dec_TransactionResult wt_TransactionResult"
  apply (rule xdr_typeI)
  subgoal by (auto simp: enc_TransactionResult_def wt_TransactionResult_def intro: xdr_w)
  subgoal by (auto simp: enc_TransactionResult_def dec_TransactionResult_def wt_TransactionResult_def xdr_eval
      dest!: xdr_r xdr_readsI [OF xdr_TransactionResultResult] xdr_readsI [OF xdr_TransactionExt [of "''TransactionResultExt''"]])
  subgoal by (auto simp: enc_TransactionResult_def dec_TransactionResult_def wt_TransactionResult_def xdr_struct) (auto dest!: xdr_c)
  done

interpretation result_bytes: xdr_type enc_TransactionResult dec_TransactionResult wt_TransactionResult
  by (rule xdr_TransactionResult)

end
