(* ===== verification/Xdr_Text.thy ===== *)
theory Xdr_Text
  imports Base64 Tx_Hash Xdr_Results
begin

text \<open>
  \<open>SafeUnmarshalBase64\<close> of the vendored \<open>xdr\<close> package (\<open>xdr/main.go\<close>): the reader of a type
  over the stream that \<open>base64.NewDecoder\<close> makes of a text, and the check that the text was
  read to its end.
\<close>

section \<open>Reading from a text\<close>

text \<open>
  The decoder of the stream takes characters in groups of four, line breaks left out, and
  never more groups than the bytes asked for need: after \<open>n\<close> bytes it stands behind the
  last character of the group of the \<open>n\<close>-th. \<open>chars_read k s\<close> counts the characters of the
  text up to the \<open>k\<close>-th that is not a line break, as \<open>countWriter\<close> does.
\<close>

fun chars_read :: "nat \<Rightarrow> string \<Rightarrow> nat" where
  "chars_read 0 s = 0"
| "chars_read (Suc k) [] = 0"
| "chars_read (Suc k) (c # s) = Suc (if b64_newline c then chars_read (Suc k) s else chars_read k s)"

definition b64_groups :: "nat \<Rightarrow> nat" where
  "b64_groups n = 4 * ((n + 2) div 3)"

text \<open>
  A text that is not base64 as a whole fails where the stream comes to the fault, if it
  comes there: what is returned for it is the parameter \<open>bad\<close>.
\<close>

definition SafeUnmarshalBase64 :: "(string \<Rightarrow> 'a res) \<Rightarrow> 'a xdr_decoder \<Rightarrow> string \<Rightarrow> 'a res" where
  "SafeUnmarshalBase64 bad d data =
     (case base64_DecodeString data of
        Inl _ \<Rightarrow> bad data
      | Inr bytes \<Rightarrow>
          and_then (d bytes) (\<lambda>(dest, unread).
            let count = chars_read (b64_groups (length bytes - length unread)) data in
            if count \<noteq> length data then
              Inl (Errorf ''input not fully consumed. expected to read: %d, actual: %d'' [AInt (int (length data)), AInt (int count)])
            else Inr dest))"

section \<open>Facts\<close>

lemma chars_read_le: "chars_read k s \<le> length s"
  by (induction k s rule: chars_read.induct) auto

lemma chars_read_plain: "\<forall>c \<in> set s. \<not> b64_newline c \<Longrightarrow> chars_read k s = min k (length s)"
  by (induction k s rule: chars_read.induct) auto

lemma b64_char_plain: "v < 64 \<Longrightarrow> \<not> b64_newline (b64_char v)"
proof -
  assume v: "v < 64"
  have "\<forall>n \<in> set [0..<64]. \<not> b64_newline (b64_alphabet ! n)" by code_simp
  moreover have "unat v < 64" using v by (simp add: word_less_nat_alt)
  ultimately show ?thesis by (simp add: b64_char_def)
qed

lemma encoded_plain: "c \<in> set (base64_EncodeToString bs) \<Longrightarrow> \<not> b64_newline c"
proof (induction bs rule: base64_EncodeToString.induct)
  case (1 b0 b1 b2 bs)
  then show ?case using b64_vals_less [of _ b0 b1 b2] b64_char_plain by auto
next
  case (2 b0 b1)
  then show ?case using b64_vals_less [of _ b0 b1 0] b64_char_plain b64_pad(2) by (auto dest!: in_set_takeD)
next
  case (3 b0)
  then show ?case using b64_vals_less [of _ b0 0 0] b64_char_plain b64_pad(2) by (auto dest!: in_set_takeD)
qed simp

lemma b64_groups_3: "b64_groups (Suc (Suc (Suc n))) = 4 + b64_groups n"
proof -
  have "Suc (Suc (Suc n)) + 2 = (n + 2) + 3" by simp
  then have "(Suc (Suc (Suc n)) + 2) div 3 = Suc ((n + 2) div 3)" by (metis Suc_eq_plus1 div_add_self2 zero_neq_numeral)
  then show ?thesis unfolding b64_groups_def by simp
qed

lemma b64_groups_mono: "n \<le> m \<Longrightarrow> b64_groups n \<le> b64_groups m"
  by (simp add: b64_groups_def div_le_mono)

lemma b64_groups_small: "b64_groups 0 = 0" "b64_groups (Suc 0) = 4" "b64_groups (Suc (Suc 0)) = 4"
  by (simp_all add: b64_groups_def)

lemma encoded_length: "length (base64_EncodeToString bs) = b64_groups (length bs)"
  by (induction bs rule: base64_EncodeToString.induct)
    (simp_all add: b64_groups_3 b64_groups_small, simp_all add: b64_vals_def)

lemma encoded_chars_read: "chars_read k (base64_EncodeToString bs) = min k (b64_groups (length bs))"
  using chars_read_plain [of "base64_EncodeToString bs" k] encoded_plain by (auto simp: encoded_length)

text \<open>The bytes a reader leaves are a part of the last group.\<close>

lemma SafeUnmarshalBase64_encoded:
  "SafeUnmarshalBase64 bad d (base64_EncodeToString bs) = Inr x \<longleftrightarrow>
    (\<exists>unread. d bs = Inr (x, unread) \<and> b64_groups (length bs) \<le> b64_groups (length bs - length unread))"
proof -
  have m: "b64_groups (length bs - n) \<le> b64_groups (length bs)" for n by (rule b64_groups_mono) simp
  have "min (b64_groups (length bs - n)) (b64_groups (length bs)) = b64_groups (length bs) \<longleftrightarrow>
      b64_groups (length bs) \<le> b64_groups (length bs - n)" for n
    using m [of n] by (auto simp: min_def)
  then show ?thesis
    by (auto simp: SafeUnmarshalBase64_def base64_roundtrip and_then_eq_Inr encoded_chars_read encoded_length Let_def split: if_splits)
qed

lemma same_group: "n \<le> m \<Longrightarrow> b64_groups m \<le> b64_groups n \<longleftrightarrow> m \<le> 3 * ((n + 2) div 3)"
  by (simp add: b64_groups_def) linarith

lemma SafeUnmarshalBase64_whole:
  "d bs = Inr (x, []) \<Longrightarrow> SafeUnmarshalBase64 bad d (base64_EncodeToString bs) = Inr x"
  by (simp add: SafeUnmarshalBase64_encoded)

section \<open>Properties\<close>

text \<open>
  C34. The check that a text is read to its end counts characters, four for three bytes: an
  envelope followed by further bytes is accepted exactly when they fit in its last group, so
  one or two bytes can follow unnoticed, and the text of an envelope is not unique.
\<close>

theorem envelope_text_slack:
  assumes "wt_envelope e" and "MarshalEnvelope e = Inr bs"
  shows "SafeUnmarshalBase64 bad dec_TransactionEnvelope (base64_EncodeToString (bs @ extra)) = Inr e \<longleftrightarrow>
    length bs + length extra \<le> 3 * ((length bs + 2) div 3)"
proof -
  have "dec_TransactionEnvelope (bs @ extra) = Inr (e, extra)"
    using assms envelope_bytes.read_back by (simp add: MarshalEnvelope_def)
  then show ?thesis
    using same_group [of "length bs" "length bs + length extra"] by (auto simp: SafeUnmarshalBase64_encoded)
qed

definition sample_envelope :: TransactionEnvelope where
  "sample_envelope = EnvelopeTx \<lparr>v1_Tx = sample_tx, v1_Signatures = []\<rparr>"

text \<open>A parameter for the texts that are not base64: none of them is read.\<close>

definition no_text :: "string \<Rightarrow> 'a res" where
  "no_text s = Inl (NewError ''illegal base64 data'')"

lemma sample_envelope_wt: "wt_envelope sample_envelope"
  using sample_tx_wt by (simp add: sample_envelope_def wt_V1_def wt_Signatures_def)

lemma sample_envelope_size: "case MarshalEnvelope sample_envelope of Inl _ \<Rightarrow> False | Inr bs \<Rightarrow> length bs = 140"
  by code_simp

theorem envelope_text_slack_witness:
  "\<exists>bs. MarshalEnvelope sample_envelope = Inr bs \<and>
    SafeUnmarshalBase64 no_text dec_TransactionEnvelope (base64_EncodeToString (bs @ [7])) = Inr sample_envelope \<and>
    SafeUnmarshalBase64 no_text dec_TransactionEnvelope (base64_EncodeToString (bs @ [7, 7])) \<noteq> Inr sample_envelope"
proof -
  obtain bs where bs: "MarshalEnvelope sample_envelope = Inr bs" using MarshalEnvelope_ok [OF sample_envelope_wt] by blast
  then have "length bs = 140" using sample_envelope_size by simp
  with envelope_text_slack [OF sample_envelope_wt bs, of no_text "[7]"]
    envelope_text_slack [OF sample_envelope_wt bs, of no_text "[7, 7]"] bs
  show ?thesis by auto
qed

end
