(* ===== verification/Results.thy ===== *)
theory Results
  imports Xdr_Text
begin

text \<open>
  \<open>results.go\<close>: what a path payment cost, read from the text of the result of its
  transaction, and the assets it went through, read from the text of its envelope. The
  rest is the vendored \<open>xdr\<close> package's: the readers of the unions, \<open>SendAmount\<close> and
  \<open>Asset.String\<close>. The parameter \<open>bad\<close> is that of the reader of a text: what is
  returned for a text that is not base64.
\<close>

section \<open>Reading the arms of a result\<close>

fun AssetBought :: "ClaimAtom \<Rightarrow> xdr_Asset" where
  "AssetBought (ClaimV0 a) = cv_AssetBought a"
| "AssetBought (ClaimOrderBook a) = co_AssetBought a"
| "AssetBought (ClaimLiquidityPool a) = cl_AssetBought a"

fun AmountBought :: "ClaimAtom \<Rightarrow> int64" where
  "AmountBought (ClaimV0 a) = cv_AmountBought a"
| "AmountBought (ClaimOrderBook a) = co_AmountBought a"
| "AmountBought (ClaimLiquidityPool a) = cl_AmountBought a"

text \<open>
  The readers of an arm: \<open>None\<close> is \<open>ok = false\<close>, a discriminant whose arm is \<open>nil\<close>
  panics.
\<close>

definition arm :: "bool \<Rightarrow> 'a option \<Rightarrow> 'a option res" where
  "arm chosen p = (if chosen then and_then (deref p) (\<lambda>x. Inr (Some x)) else Inr None)"

definition GetResults :: "TransactionResultResult \<Rightarrow> OperationResult list option res" where
  "GetResults u = arm (rr_Code u = TransactionResultCodeTxSuccess \<or> rr_Code u = TransactionResultCodeTxFailed) (rr_Results u)"

definition GetTr :: "OperationResult \<Rightarrow> OperationResultTr option res" where
  "GetTr u = arm (or_Code u = OperationResultCodeOpInner) (or_Tr u)"

definition GetPathPaymentStrictReceiveResult :: "OperationResultTr \<Rightarrow> PathPaymentStrictReceiveResult option res" where
  "GetPathPaymentStrictReceiveResult u = arm (tr_Type u = OpPathPaymentStrictReceive) (tr_PathPaymentStrictReceiveResult u)"

definition GetSuccess :: "PathPaymentStrictReceiveResult \<Rightarrow> PathPaymentStrictReceiveResultSuccess option res" where
  "GetSuccess u = arm (pp_Code u = PathPaymentStrictReceiveSuccess) (pp_Success u)"

section \<open>The text of an asset\<close>

text \<open>\<open>AssetTypeToString\<close>; a type that is not in the map gives the empty text.\<close>

definition AssetTypeToString :: "int \<Rightarrow> string" where
  "AssetTypeToString ty =
     (if ty = AssetTypeNative then ''native''
      else if ty = AssetTypeCreditAlphanum4 then ''credit_alphanum4''
      else if ty = AssetTypeCreditAlphanum12 then ''credit_alphanum12'' else '''')"

text \<open>\<open>strings.TrimRight(string(code), "\x00")\<close>.\<close>

definition trim_zeros :: "byte list \<Rightarrow> string" where
  "trim_zeros bs = map char_of_byte (rev (dropWhile (\<lambda>b. b = 0) (rev bs)))"

text \<open>What \<open>Extract\<close> reads: type, code and issuer. \<open>strkey.MustEncode\<close> panics on an error.\<close>

definition extract_alpha :: "AlphaNum option \<Rightarrow> (string \<times> string) res" where
  "extract_alpha p =
     and_then (deref p) (\<lambda>an.
     and_then (map_err (\<lambda>e. Panic ''MustEncode'') (strkey_Encode VersionByteAccountID (accountId_Ed25519 (alpha_Issuer an)))) (\<lambda>issuer.
       Inr (trim_zeros (alpha_AssetCode an), issuer)))"

definition asset_Extract :: "xdr_Asset \<Rightarrow> (string \<times> string \<times> string) res" where
  "asset_Extract a =
     and_then
       (if xa_Type a = AssetTypeCreditAlphanum4 then extract_alpha (xa_AlphaNum4 a)
        else if xa_Type a = AssetTypeCreditAlphanum12 then extract_alpha (xa_AlphaNum12 a)
        else Inr ('''', ''''))
       (\<lambda>(c, i). Inr (AssetTypeToString (xa_Type a), c, i))"

definition asset_String :: "xdr_Asset \<Rightarrow> string res" where
  "asset_String a =
     and_then (asset_Extract a) (\<lambda>(t, c, i).
       Inr (if xa_Type a = AssetTypeNative then t else t @ ''/'' @ c @ ''/'' @ i))"

section \<open>What a path payment spent\<close>

text \<open>The loop of \<open>SendAmount\<close>, which stops at the first offer for another asset.\<close>

fun send_loop :: "xdr_Asset \<Rightarrow> int64 \<Rightarrow> ClaimAtom list \<Rightarrow> int64 res" where
  "send_loop sa ret [] = Inr ret"
| "send_loop sa ret (a # os) =
     and_then (asset_String (AssetBought a)) (\<lambda>l.
     and_then (asset_String sa) (\<lambda>r.
       if l \<noteq> r then Inr ret else send_loop sa (ret + AmountBought a) os))"

definition SendAmount :: "PathPaymentStrictReceiveResult \<Rightarrow> int64 res" where
  "SendAmount pr =
     and_then (GetSuccess pr) (\<lambda>g.
       case g of
         None \<Rightarrow> Inr 0
       | Some s \<Rightarrow>
           (case ok_Offers s of
              [] \<Rightarrow> Inr (sp_Amount (ok_Last s))
            | a # _ \<Rightarrow> send_loop (AssetBought a) 0 (ok_Offers s)))"

text \<open>\<open>ops[opIndex]\<close>: an index that is not in range panics.\<close>

definition slice_at :: "'a list \<Rightarrow> int \<Rightarrow> 'a res" where
  "slice_at xs i = (if 0 \<le> i \<and> i < int (length xs) then Inr (xs ! nat i) else Inl (Panic ''index out of range''))"

definition PathPaymentSourceAmount :: "(string \<Rightarrow> TransactionResult res) \<Rightarrow> string \<Rightarrow> int \<Rightarrow> string res" where
  "PathPaymentSourceAmount bad resultXDR opIndex =
     and_then (SafeUnmarshalBase64 bad dec_TransactionResult resultXDR) (\<lambda>result.
       if rr_Code (tr_Result result) \<noteq> TransactionResultCodeTxSuccess
       then Inl (NewError ''cannot calculate path payment source amount for failed tx'')
       else and_then (GetResults (tr_Result result)) (\<lambda>r. case r of
           None \<Rightarrow> Inl (NewError ''could not get tx result operations'')
         | Some ops \<Rightarrow>
             if opIndex \<ge> int (length ops) then Inl (NewError ''opIndex is out of range'')
             else and_then (slice_at ops opIndex) (\<lambda>op.
             and_then (GetTr op) (\<lambda>t. case t of
               None \<Rightarrow> Inl (NewError ''could not get OperationResultTr out of operation'')
             | Some tr \<Rightarrow>
                 and_then (GetPathPaymentStrictReceiveResult tr) (\<lambda>p. case p of
                   None \<Rightarrow> Inl (NewError ''could not get PathPaymentResult out of tr'')
                 | Some pathResult \<Rightarrow>
                     and_then (SendAmount pathResult) (\<lambda>sendAmount.
                       Inr (StringFromStellarXdrAmount sendAmount)))))))"

section \<open>The path of a path payment\<close>

text \<open>The arm of a path payment body, \<open>None\<close> when the discriminant is another one.\<close>

definition GetPathPaymentStrictReceiveOp :: "OperationBody \<Rightarrow> PathPaymentStrictReceiveOp option res" where
  "GetPathPaymentStrictReceiveOp b =
     (if body_Type b = OpPathPaymentStrictReceive
      then (case body_Arm b of
              Some (VPathPaymentStrictReceiveOp p) \<Rightarrow> Inr (Some p)
            | _ \<Rightarrow> Inl (Panic ''nil pointer dereference''))
      else Inr None)"

definition PathPaymentIntermediatePath :: "(string \<Rightarrow> TransactionEnvelope res) \<Rightarrow> string \<Rightarrow> int \<Rightarrow> AssetMinimal list res" where
  "PathPaymentIntermediatePath bad envelopeXDR opIndex =
     and_then (SafeUnmarshalBase64 bad dec_TransactionEnvelope envelopeXDR) (\<lambda>tx.
       if opIndex \<ge> int (length (env_Operations tx)) then Inl (NewError ''opIndex out of range'')
       else and_then (slice_at (env_Operations tx) opIndex) (\<lambda>op.
         if body_Type (op_Body op) \<noteq> OpPathPaymentStrictReceive then Inl (NewError ''not a path payment'')
         else and_then (GetPathPaymentStrictReceiveOp (op_Body op)) (\<lambda>p. case p of
             None \<Rightarrow> Inl (NewError ''not a path payment'')
           | Some pathOp \<Rightarrow> map_res XDRToAssetMinimal (pr_Path pathOp))))"

section \<open>Facts\<close>

lemma arm_eq_Inr: "arm chosen p = Inr (Some x) \<longleftrightarrow> chosen \<and> p = Some x"
  by (auto simp: arm_def and_then_eq_Inr deref_eq_Inr)

lemma slice_at_ok [simp]: "0 \<le> i \<Longrightarrow> i < int (length xs) \<Longrightarrow> slice_at xs i = Inr (xs ! nat i)"
  by (simp add: slice_at_def)

lemma slice_at_negative [simp]: "i < 0 \<Longrightarrow> slice_at xs i = Inl (Panic ''index out of range'')"
  by (simp add: slice_at_def)

text \<open>Assets as the XDR decoder builds them: one arm, arrays of their sizes.\<close>

definition wf_alpha :: "nat \<Rightarrow> AlphaNum \<Rightarrow> bool" where
  "wf_alpha n an \<longleftrightarrow> length (alpha_AssetCode an) = n \<and> length (accountId_Ed25519 (alpha_Issuer an)) = 32"

definition wf_asset :: "xdr_Asset \<Rightarrow> bool" where
  "wf_asset a \<longleftrightarrow>
     (xa_Type a = 0 \<and> xa_AlphaNum4 a = None \<and> xa_AlphaNum12 a = None) \<or>
     (xa_Type a = 1 \<and> (case xa_AlphaNum4 a of None \<Rightarrow> False | Some an \<Rightarrow> wf_alpha 4 an) \<and> xa_AlphaNum12 a = None) \<or>
     (xa_Type a = 2 \<and> xa_AlphaNum4 a = None \<and> (case xa_AlphaNum12 a of None \<Rightarrow> False | Some an \<Rightarrow> wf_alpha 12 an))"

lemma wf_asset_cases:
  assumes "wf_asset a"
  obtains (native) "a = \<lparr>xa_Type = 0, xa_AlphaNum4 = None, xa_AlphaNum12 = None\<rparr>"
  | (alpha4) an where "a = \<lparr>xa_Type = 1, xa_AlphaNum4 = Some an, xa_AlphaNum12 = None\<rparr>" "wf_alpha 4 an"
  | (alpha12) an where "a = \<lparr>xa_Type = 2, xa_AlphaNum4 = None, xa_AlphaNum12 = Some an\<rparr>" "wf_alpha 12 an"
  using assms by (cases a) (auto simp: wf_asset_def split: option.splits)

lemma trim_zeros_inject:
  assumes "length bs = length cs" "trim_zeros bs = trim_zeros cs"
  shows "bs = cs"
proof -
  have split: "bs = rev (dropWhile (\<lambda>b. b = 0) (rev bs)) @ replicate (length bs - length (dropWhile (\<lambda>b. b = 0) (rev bs))) 0"
    for bs :: "byte list"
  proof -
    have "takeWhile (\<lambda>b. b = 0) (rev bs) = replicate (length (takeWhile (\<lambda>b. b = 0) (rev bs))) 0"
      by (rule replicate_length_same [symmetric]) (auto dest: set_takeWhileD)
    moreover have "length (takeWhile (\<lambda>b. b = 0) (rev bs)) + length (dropWhile (\<lambda>b. b = 0) (rev bs)) = length bs"
      by (simp flip: length_append)
    ultimately have "takeWhile (\<lambda>b. b = 0) (rev bs) =
      replicate (length bs - length (dropWhile (\<lambda>b. b = 0) (rev bs))) 0"
      by (metis add_diff_cancel_right')
    from arg_cong [OF this, of rev] have "rev (takeWhile (\<lambda>b. b = 0) (rev bs)) =
      replicate (length bs - length (dropWhile (\<lambda>b. b = 0) (rev bs))) 0" by simp
    moreover have "bs = rev (dropWhile (\<lambda>b. b = 0) (rev bs)) @ rev (takeWhile (\<lambda>b. b = 0) (rev bs))"
      by (simp flip: rev_append)
    ultimately show ?thesis by simp
  qed
  have "rev (dropWhile (\<lambda>b. b = 0) (rev bs)) = rev (dropWhile (\<lambda>b. b = 0) (rev cs))"
    using assms(2) unfolding trim_zeros_def by (metis byte_of_char_of_byte injI inj_map_eq_map)
  then show ?thesis using split [of bs] split [of cs] assms(1) by (metis rev_rev_ident)
qed

lemma extract_alpha_Some [simp]:
  "extract_alpha (Some an) = Inr (trim_zeros (alpha_AssetCode an), address_of (accountId_Ed25519 (alpha_Issuer an)))"
  by (simp add: extract_alpha_def)

lemma alpha_text_inject:
  assumes "wf_alpha n an" "wf_alpha n bn"
    and "trim_zeros (alpha_AssetCode an) @ CHR ''/'' # address_of (accountId_Ed25519 (alpha_Issuer an)) =
         trim_zeros (alpha_AssetCode bn) @ CHR ''/'' # address_of (accountId_Ed25519 (alpha_Issuer bn))"
  shows "an = bn"
proof -
  have "length (address_of (accountId_Ed25519 (alpha_Issuer an))) = length (address_of (accountId_Ed25519 (alpha_Issuer bn)))"
    using assms(1,2) by (simp add: length_address_of wf_alpha_def)
  with assms(3) have "trim_zeros (alpha_AssetCode an) = trim_zeros (alpha_AssetCode bn)"
    and "address_of (accountId_Ed25519 (alpha_Issuer an)) = address_of (accountId_Ed25519 (alpha_Issuer bn))"
    by simp_all
  with assms(1,2) show ?thesis
    by (cases an; cases bn; cases "alpha_Issuer an"; cases "alpha_Issuer bn")
      (auto simp: wf_alpha_def address_of_inject intro: trim_zeros_inject)
qed

lemma asset_String_total: "wf_asset a \<Longrightarrow> \<exists>s. asset_String a = Inr s"
  by (erule wf_asset_cases) (simp_all add: asset_String_def asset_Extract_def)

lemma asset_String_inject:
  assumes "wf_asset a" "wf_asset b"
  shows "asset_String a = asset_String b \<longleftrightarrow> a = b"
proof
  assume "asset_String a = asset_String b"
  from assms(1) show "a = b"
  proof (cases rule: wf_asset_cases)
    case native
    from assms(2) this \<open>asset_String a = asset_String b\<close> show ?thesis
      by (cases rule: wf_asset_cases) (auto simp: asset_String_def asset_Extract_def AssetTypeToString_def)
  next
    case (alpha4 an)
    from assms(2) this \<open>asset_String a = asset_String b\<close> show ?thesis
      by (cases rule: wf_asset_cases) (auto simp: asset_String_def asset_Extract_def AssetTypeToString_def intro: alpha_text_inject)
  next
    case (alpha12 an)
    from assms(2) this \<open>asset_String a = asset_String b\<close> show ?thesis
      by (cases rule: wf_asset_cases) (auto simp: asset_String_def asset_Extract_def AssetTypeToString_def intro: alpha_text_inject)
  qed
qed simp

lemma send_loop_sum:
  "wf_asset sa \<Longrightarrow> \<forall>a \<in> set os. wf_asset (AssetBought a) \<Longrightarrow>
     send_loop sa ret os = Inr (ret + sum_list (map AmountBought (takeWhile (\<lambda>a. AssetBought a = sa) os)))"
proof (induction os arbitrary: ret)
  case (Cons a os)
  obtain l r where lr: "asset_String (AssetBought a) = Inr l" "asset_String sa = Inr r"
    using Cons.prems asset_String_total by force
  then have "l = r \<longleftrightarrow> AssetBought a = sa"
    using Cons.prems asset_String_inject [of "AssetBought a" sa] by auto
  with Cons lr show ?case by (simp add: add.assoc)
qed simp

lemma sint_sum_list: "in_int64 (sum_list (map sint ws)) \<Longrightarrow> sint (sum_list ws :: int64) = sum_list (map sint ws)"
proof -
  have "sum_list ws = (word_of_int (sum_list (map sint ws)) :: int64)" for ws :: "int64 list"
    by (induction ws) (simp_all add: wi_hom_add [symmetric])
  then show "in_int64 (sum_list (map sint ws)) \<Longrightarrow> ?thesis" by simp
qed

section \<open>Properties\<close>

text \<open>
  C31. \<open>SendAmount\<close> of a successful path payment. With no offers it is the amount of the
  last payment; otherwise it is the sum, as a 64-bit integer, of what was bought by the
  offers up to the first that is for another asset than the first one: comparing the texts
  of two assets is comparing the assets, whatever bytes their codes hold.
\<close>

theorem SendAmount_spec:
  assumes "pp_Code pr = PathPaymentStrictReceiveSuccess" and "pp_Success pr = Some s"
    and "\<forall>a \<in> set (ok_Offers s). wf_asset (AssetBought a)"
  shows "SendAmount pr =
    Inr (case ok_Offers s of
           [] \<Rightarrow> sp_Amount (ok_Last s)
         | a # _ \<Rightarrow> sum_list (map AmountBought (takeWhile (\<lambda>b. AssetBought b = AssetBought a) (ok_Offers s))))"
  using assms send_loop_sum [of "AssetBought (hd (ok_Offers s))" "ok_Offers s" 0]
  by (cases "ok_Offers s") (simp_all add: SendAmount_def GetSuccess_def arm_def)

definition usd :: xdr_Asset where
  "usd = xdr_credit ''USD'' (AccountId (replicate 32 7))"

definition demo_offer :: "xdr_Asset \<Rightarrow> int64 \<Rightarrow> ClaimAtom" where
  "demo_offer bought n = ClaimV0 \<lparr>cv_SellerEd25519 = replicate 32 1, cv_OfferId = 1, cv_AssetSold = usd, cv_AmountSold = 1,
     cv_AssetBought = bought, cv_AmountBought = n\<rparr>"

definition demo_path_result :: PathPaymentStrictReceiveResult where
  "demo_path_result = \<lparr>pp_Code = 0,
     pp_Success = Some \<lparr>ok_Offers = [demo_offer xdr_native 10000000, demo_offer xdr_native 154078, demo_offer usd 5],
       ok_Last = \<lparr>sp_Destination = AccountId (replicate 32 7), sp_Asset = usd, sp_Amount = 9\<rparr>\<rparr>,
     pp_NoIssuer = None\<rparr>"

lemma usd_wf [simp]: "wf_asset usd" "wf_asset xdr_native" "usd \<noteq> xdr_native"
  by (simp_all add: usd_def wf_asset_def xdr_credit_def wf_alpha_def copy_code_def xdr_native_def)

lemma demo_offer_simps [simp]: "AssetBought (demo_offer b n) = b" "AmountBought (demo_offer b n) = n"
  by (simp_all add: demo_offer_def)

theorem SendAmount_spec_witness: "SendAmount demo_path_result = Inr 10154078"
  using SendAmount_spec [of demo_path_result] by (simp add: demo_path_result_def)

lemma SendAmount_total:
  assumes "pp_Code pr = PathPaymentStrictReceiveSuccess" "pp_Success pr = Some s" "ok_Offers s = a # os"
    and "\<forall>b \<in> set (a # os). wf_asset (AssetBought b)"
    and "spent = sum_list (map (\<lambda>b. sint (AmountBought b)) (takeWhile (\<lambda>b. AssetBought b = AssetBought a) (a # os)))"
    and "in_int64 spent"
  shows "SendAmount pr = Inr (word_of_int spent)"
proof -
  let ?ws = "map AmountBought (takeWhile (\<lambda>b. AssetBought b = AssetBought a) (a # os))"
  have "sum_list (map sint ?ws) = spent" using assms(5) by (simp add: comp_def)
  then have "sint (sum_list ?ws) = spent" using sint_sum_list [of ?ws] assms(6) by simp
  moreover have "SendAmount pr = Inr (sum_list ?ws)"
    using send_loop_sum [of "AssetBought a" "a # os" 0] assms(1-4) by (simp add: SendAmount_def GetSuccess_def arm_def)
  ultimately show ?thesis using assms(6) by (metis sint_int64_inject sint_of_int_in_int64)
qed

lemma wt_Asset_wf: "wt_Asset a \<Longrightarrow> wf_asset a"
  by (auto simp: wt_Asset_def wf_asset_def wf_alpha_def wt_AlphaNum_def wt_AccountId_def wt_array_def split: if_splits option.splits)

lemma bought_wf: "wt_ClaimAtom a \<Longrightarrow> wf_asset (AssetBought a)"
  by (cases a) (auto simp: wt_ClaimOfferAtomV0_def wt_ClaimOfferAtom_def wt_ClaimLiquidityAtom_def wt_Asset_wf)

text \<open>A result of a path payment that succeeded with offers, within the limits of the schema.\<close>

definition path_paid :: "TransactionResult \<Rightarrow> int \<Rightarrow> ClaimAtom list \<Rightarrow> bool" where
  "path_paid result i os \<longleftrightarrow> wt_TransactionResult result \<and> rr_Code (tr_Result result) = TransactionResultCodeTxSuccess \<and>
     (\<exists>ops tr pr s. rr_Results (tr_Result result) = Some ops \<and> 0 \<le> i \<and> i < int (length ops) \<and>
        or_Code (ops ! nat i) = OperationResultCodeOpInner \<and> or_Tr (ops ! nat i) = Some tr \<and>
        tr_Type tr = OpPathPaymentStrictReceive \<and> tr_PathPaymentStrictReceiveResult tr = Some pr \<and>
        pp_Code pr = PathPaymentStrictReceiveSuccess \<and> pp_Success pr = Some s \<and> ok_Offers s = os)"

lemma path_paid_wf:
  assumes "path_paid result i os"
  shows "\<forall>b \<in> set os. wf_asset (AssetBought b)"
proof -
  obtain ops tr pr s where p: "wt_TransactionResult result" "rr_Results (tr_Result result) = Some ops"
    "rr_Code (tr_Result result) = 0" "0 \<le> i" "i < int (length ops)"
    "or_Tr (ops ! nat i) = Some tr" "or_Code (ops ! nat i) = 0" "tr_PathPaymentStrictReceiveResult tr = Some pr"
    "pp_Success pr = Some s" "ok_Offers s = os" "pp_Code pr = 0" "tr_Type tr = OpPathPaymentStrictReceive"
    using assms unfolding path_paid_def result_codes by blast
  have "wt_OperationResults ops" using p(1-3) by (simp add: wt_TransactionResult_def wt_TransactionResultResult_def)
  then have "wt_OperationResult (ops ! nat i)" using p(4,5) by (simp add: wt_OperationResults_def)
  then have "wt_PathResult pr" using p(6-8,12) by (simp add: wt_OperationResult_def wt_OperationResultTr_def)
  then have "wt_Offers os" using p(9-11) by (simp add: wt_PathResult_def wt_PathSuccess_def)
  then show ?thesis by (auto simp: wt_Offers_def bought_wf)
qed

text \<open>
  C33. From the text of the result of a transaction, as the network writes it: the text that
  \<open>PathPaymentSourceAmount\<close> returns for a path payment with offers parses to the amount
  spent, the sum of what was bought by the offers up to the first for another asset than
  the first, when that sum is in the range of an amount.
\<close>

theorem PathPaymentSourceAmount_text:
  assumes "path_paid result i (a # os)" and "enc_TransactionResult result = Inr bs"
    and "spent = sum_list (map (\<lambda>b. sint (AmountBought b)) (takeWhile (\<lambda>b. AssetBought b = AssetBought a) (a # os)))"
    and "in_int64 spent"
  shows "\<exists>text. PathPaymentSourceAmount bad (base64_EncodeToString bs) i = Inr text \<and>
    ParseStellarAmount text = Inr (word_of_int spent) \<and> sint (word_of_int spent :: int64) = spent"
proof -
  have w: "wt_TransactionResult result" using assms(1) by (simp add: path_paid_def)
  have "dec_TransactionResult bs = Inr (result, [])" using result_bytes.read_back [OF w assms(2), of "[]"] by simp
  from SafeUnmarshalBase64_whole [where d = dec_TransactionResult, OF this]
  have r: "SafeUnmarshalBase64 bad dec_TransactionResult (base64_EncodeToString bs) = Inr result" .
  obtain ops tr pr s where p: "rr_Code (tr_Result result) = TransactionResultCodeTxSuccess"
    "rr_Results (tr_Result result) = Some ops" "0 \<le> i" "i < int (length ops)"
    "or_Code (ops ! nat i) = OperationResultCodeOpInner" "or_Tr (ops ! nat i) = Some tr"
    "tr_Type tr = OpPathPaymentStrictReceive" "tr_PathPaymentStrictReceiveResult tr = Some pr"
    "pp_Code pr = PathPaymentStrictReceiveSuccess" "pp_Success pr = Some s" "ok_Offers s = a # os"
    using assms(1) unfolding path_paid_def by blast
  have "SendAmount pr = Inr (word_of_int spent)"
    by (rule SendAmount_total [OF p(9-11) path_paid_wf [OF assms(1)] assms(3,4)])
  then show ?thesis
    using r p(1-8) assms(4)
    by (simp add: PathPaymentSourceAmount_def GetResults_def GetTr_def GetPathPaymentStrictReceiveResult_def arm_def
      StringFromStellarXdrAmount_def ParseStellarAmount_StringFromInt64)
qed

definition demo_result :: TransactionResult where
  "demo_result = \<lparr>tr_FeeCharged = 100, tr_Result = \<lparr>rr_Code = 0, rr_InnerResultPair = None, rr_Results =
     Some [\<lparr>or_Code = 0, or_Tr = Some \<lparr>tr_Type = OpPathPaymentStrictReceive,
         tr_PathPaymentStrictReceiveResult = Some demo_path_result, tr_Other = None\<rparr>\<rparr>,
       \<lparr>or_Code = 0, or_Tr = Some \<lparr>tr_Type = OpSetOptions, tr_PathPaymentStrictReceiveResult = None,
         tr_Other = Some (CodeResult 0)\<rparr>\<rparr>]\<rparr>\<rparr>"

lemma demo_result_wt: "wt_TransactionResult demo_result"
  by (simp add: demo_result_def wt_TransactionResult_def wt_TransactionResultResult_def wt_OperationResults_def wt_OperationResult_def
      wt_OperationResultTr_def wt_PathResult_def demo_path_result_def wt_PathSuccess_def wt_Offers_def demo_offer_def no_limit_def
      wt_ClaimOfferAtomV0_def wt_SimplePaymentResult_def usd_def xdr_credit_def wt_Asset_def xdr_native_def wt_AlphaNum_def
      wt_AccountId_def wt_array_def copy_code_def)

theorem PathPaymentSourceAmount_text_witness:
  "\<exists>bs text. enc_TransactionResult demo_result = Inr bs \<and>
    PathPaymentSourceAmount no_text (base64_EncodeToString bs) 0 = Inr text \<and> ParseStellarAmount text = Inr 10154078"
proof -
  obtain bs where bs: "enc_TransactionResult demo_result = Inr bs"
    using result_bytes.written [OF demo_result_wt] by (auto simp: is_ok_iff)
  have "path_paid demo_result 0 [demo_offer xdr_native 10000000, demo_offer xdr_native 154078, demo_offer usd 5]"
    using demo_result_wt by (simp add: path_paid_def) (simp add: demo_result_def demo_path_result_def)
  from PathPaymentSourceAmount_text [OF this bs, of 10154078 no_text] bs show ?thesis
    by (simp add: in_int64_def int64_min_def int64_max_def)
qed

text \<open>
  The index of an operation is checked against the length of the list only: an index past
  the end is an error and a negative one a panic, in both readers. The result of a fee bump
  whose inner transaction succeeded is reported as that of a failed transaction.
\<close>

theorem operation_index_errors:
  assumes "SafeUnmarshalBase64 bad dec_TransactionResult xdr = Inr result"
    and "SafeUnmarshalBase64 bad' dec_TransactionEnvelope env_xdr = Inr e"
  shows "(rr_Code (tr_Result result) = TransactionResultCodeTxSuccess \<longrightarrow> rr_Results (tr_Result result) = Some ops \<longrightarrow>
      (i < 0 \<longrightarrow> PathPaymentSourceAmount bad xdr i = Inl (Panic ''index out of range'')) \<and>
      (int (length ops) \<le> i \<longrightarrow> PathPaymentSourceAmount bad xdr i = Inl (NewError ''opIndex is out of range''))) \<and>
    (i < 0 \<longrightarrow> PathPaymentIntermediatePath bad' env_xdr i = Inl (Panic ''index out of range'')) \<and>
    (int (length (env_Operations e)) \<le> i \<longrightarrow>
      PathPaymentIntermediatePath bad' env_xdr i = Inl (NewError ''opIndex out of range'')) \<and>
    (rr_Code (tr_Result result) = TransactionResultCodeTxFeeBumpInnerSuccess \<longrightarrow>
      PathPaymentSourceAmount bad xdr i =
        Inl (NewError ''cannot calculate path payment source amount for failed tx''))"
  using assms
  by (simp add: PathPaymentSourceAmount_def PathPaymentIntermediatePath_def GetResults_def arm_def slice_at_def)

definition demo_path_op :: Operation where
  "demo_path_op = \<lparr>op_SourceAccount = None, op_Body = \<lparr>body_Type = OpPathPaymentStrictReceive, body_Arm =
     Some (VPathPaymentStrictReceiveOp \<lparr>pr_SendAsset = xdr_native, pr_SendMax = 9, pr_Destination = KeyTypeEd25519 (replicate 32 1),
       pr_DestAsset = usd, pr_DestAmount = 5, pr_Path = [xdr_native, usd]\<rparr>)\<rparr>\<rparr>"

definition demo_envelope :: TransactionEnvelope where
  "demo_envelope = EnvelopeTx \<lparr>v1_Tx = sample_tx\<lparr>tx_Operations := [demo_path_op]\<rparr>, v1_Signatures = []\<rparr>"

lemma demo_envelope_wt: "wt_envelope demo_envelope"
  using sample_tx_wt
  by (simp add: demo_envelope_def demo_path_op_def wt_V1_def wt_Signatures_def wt_Transaction_def wt_Operations_def wt_Operation_def
      wt_OperationBody_def wt_PathPaymentStrictReceiveOp_def wt_MuxedAccount_def wt_Path_def usd_def xdr_credit_def wt_Asset_def
      xdr_native_def wt_AlphaNum_def wt_AccountId_def wt_array_def copy_code_def)

lemma demo_texts:
  obtains res_txt env_txt where "SafeUnmarshalBase64 no_text dec_TransactionResult res_txt = Inr demo_result"
    and "SafeUnmarshalBase64 no_text dec_TransactionEnvelope env_txt = Inr demo_envelope"
proof -
  obtain bs where bs: "enc_TransactionResult demo_result = Inr bs"
    using result_bytes.written [OF demo_result_wt] by (auto simp: is_ok_iff)
  obtain es where es: "enc_TransactionEnvelope demo_envelope = Inr es"
    using envelope_bytes.written [OF demo_envelope_wt] by (auto simp: is_ok_iff)
  note r = result_bytes.read_back [OF demo_result_wt bs, of "[]", unfolded append_Nil2]
  note e = envelope_bytes.read_back [OF demo_envelope_wt es, of "[]", unfolded append_Nil2]
  show ?thesis
    by (rule that [OF SafeUnmarshalBase64_whole [where d = dec_TransactionResult, OF r]
          SafeUnmarshalBase64_whole [where d = dec_TransactionEnvelope, OF e]])
qed

lemma demo_path:
  "SafeUnmarshalBase64 bad dec_TransactionEnvelope txt = Inr demo_envelope \<Longrightarrow> PathPaymentIntermediatePath bad txt 0 =
     Inr [\<lparr>AssetType = [], AssetCode = [], AssetIssuer = []\<rparr>,
          \<lparr>AssetType = [], AssetCode = ''USD'', AssetIssuer = address_of (replicate 32 7)\<rparr>]"
  using XDRToAssetMinimal_credit [of "''USD''" "AccountId (replicate 32 7)" "address_of (replicate 32 7)"]
  by (simp add: PathPaymentIntermediatePath_def demo_envelope_def demo_path_op_def env_Operations_def
      GetPathPaymentStrictReceiveOp_def usd_def)
    (simp add: XDRToAssetMinimal_def xdr_native_def AccountId_Address_def)

theorem operation_index_errors_witness:
  "\<exists>txt env_txt. PathPaymentSourceAmount no_text txt (- 1) = Inl (Panic ''index out of range'') \<and>
   PathPaymentIntermediatePath no_text env_txt 1 = Inl (NewError ''opIndex out of range'')"
proof -
  obtain res_txt env_txt where t: "SafeUnmarshalBase64 no_text dec_TransactionResult res_txt = Inr demo_result"
    "SafeUnmarshalBase64 no_text dec_TransactionEnvelope env_txt = Inr demo_envelope"
    by (rule demo_texts)
  have "length (env_Operations demo_envelope) = 1" "rr_Code (tr_Result demo_result) = 0" "rr_Results (tr_Result demo_result) \<noteq> None"
    by (simp_all add: demo_envelope_def demo_result_def env_Operations_def)
  with operation_index_errors [OF t, of _ "- 1"] operation_index_errors [OF t, of _ 1] show ?thesis by auto
qed

end
