(* ===== verification/Stellar_URI.thy ===== *)
theory Stellar_URI
  imports Flows Xdr_Text Go_Url
begin

text \<open>
  \<open>stellar_uri.go\<close>: SEP-7 payment and transaction requests as web+stellar URIs, their
  signatures, and the validation of a request against the signing key that its origin
  domain publishes.
\<close>

section \<open>What the validation asks for\<close>

text \<open>
  \<open>gr_Body\<close> is what \<open>ioutil.ReadAll\<close> returns. The world holds the web: \<open>ue_Get\<close> is the
  \<open>HTTPGetter\<close>. \<open>toml_Decode\<close> reads the field \<open>URI_REQUEST_SIGNING_KEY\<close> of a document,
  empty if it is missing;
  \<open>ue_bad\<close> is the parameter of the reader of an envelope's text.
\<close>

record getter_response =
  gr_StatusCode :: int
  gr_Body :: "string res"

record 'w uri_env =
  ue_crypto :: go_crypto
  ue_Get :: "string \<Rightarrow> ('w, getter_response) op"
  toml_Decode :: "string \<Rightarrow> string res"
  ue_bad :: "string \<Rightarrow> TransactionEnvelope res"

definition xdr_UnmarshalBase64 :: "'w uri_env \<Rightarrow> string \<Rightarrow> TransactionEnvelope res" where
  "xdr_UnmarshalBase64 E = SafeUnmarshalBase64 (ue_bad E) dec_TransactionEnvelope"

section \<open>Signing\<close>

definition payloadFromString :: "string \<Rightarrow> byte list" where
  "payloadFromString data =
     (replicate 36 0)[35 := 4] @ map byte_of ''stellar.sep.7 - URI Scheme'' @ map byte_of data"

definition SignStellarURI :: "go_crypto \<Rightarrow> string \<Rightarrow> SeedStr \<Rightarrow> (string \<times> string) res" where
  "SignStellarURI C uri seed =
     and_then (keypair_Parse C (SecureNoLogString seed)) (\<lambda>kp.
     and_then (kp_Sign C kp (payloadFromString uri)) (\<lambda>sig.
       let signatureB64 = base64_EncodeToString sig;
           signatureEsc = QueryEscape signatureB64
       in Inr (uri @ ''&signature='' @ signatureEsc, signatureB64)))"

section \<open>Domain names\<close>

text \<open>One byte of the loop: the previous byte, whether a letter was seen, the length of the label.\<close>

fun domain_loop :: "string \<Rightarrow> char \<Rightarrow> bool \<Rightarrow> nat \<Rightarrow> (char \<times> bool \<times> nat) option" where
  "domain_loop [] lst ok partlen = Some (lst, ok, partlen)"
| "domain_loop (c # s) lst ok partlen =
     (if (CHR ''a'' \<le> c \<and> c \<le> CHR ''z'') \<or> (CHR ''A'' \<le> c \<and> c \<le> CHR ''Z'') \<or> c = CHR ''_'' then
        domain_loop s c True (partlen + 1)
      else if CHR ''0'' \<le> c \<and> c \<le> CHR ''9'' then domain_loop s c ok (partlen + 1)
      else if c = CHR ''-'' then
        if lst = CHR ''.'' then None else domain_loop s c ok (partlen + 1)
      else if c = CHR ''.'' then
        if lst = CHR ''.'' \<or> lst = CHR ''-'' then None
        else if 63 < partlen \<or> partlen = 0 then None
        else domain_loop s c ok 0
      else None)"

definition isDomainName :: "string \<Rightarrow> bool" where
  "isDomainName s =
     (let l = length s in
      if l = 0 \<or> 254 < l \<or> l = 254 \<and> s ! (l - 1) \<noteq> CHR ''.'' then False
      else case domain_loop s (CHR ''.'') False 0 of
          None \<Rightarrow> False
        | Some (lst, ok, partlen) \<Rightarrow> if lst = CHR ''-'' \<or> 63 < partlen then False else ok)"

section \<open>Unvalidated requests\<close>

record unvalidatedURI =
  uv_raw :: string
  uv_values :: "(string \<times> string) list"
  uv_Operation :: string
  uv_OriginDomain :: string
  uv_Signature :: string

definition uri_value :: "(string \<times> string) list \<Rightarrow> string \<Rightarrow> string" where
  "uri_value vs key = TrimSpace (query_get vs key)"

definition newUnvalidatedURI :: "string \<Rightarrow> unvalidatedURI res" where
  "newUnvalidatedURI uri =
     and_then (url_Parse uri) (\<lambda>u.
       if url_Scheme u \<noteq> ''web+stellar'' then Inl ErrInvalidScheme
       else
         let vs = parse_query (url_RawQuery u) in
         Inr \<lparr>uv_raw = uri, uv_values = vs, uv_Operation = url_Opaque u,
              uv_OriginDomain = uri_value vs ''origin_domain'', uv_Signature = uri_value vs ''signature''\<rparr>)"

definition UnvalidatedStellarURIOriginDomain :: "string \<Rightarrow> string res" where
  "UnvalidatedStellarURIOriginDomain uri =
     and_then (newUnvalidatedURI uri) (\<lambda>uv.
       if \<not> isDomainName (uv_OriginDomain uv) then Inl (NewError ''invalid origin domain'')
       else Inr (uv_OriginDomain uv))"

text \<open>The part that was signed: up to the last ampersand.\<close>

definition last_cut :: "char \<Rightarrow> string \<Rightarrow> string option" where
  "last_cut c s = (if c \<in> set s then Some (rev (drop 1 (dropWhile (\<lambda>d. d \<noteq> c) (rev s)))) else None)"

definition payload :: "unvalidatedURI \<Rightarrow> byte list" where
  "payload u = (case last_cut (CHR ''&'') (uv_raw u) of None \<Rightarrow> [] | Some signed_part \<Rightarrow> payloadFromString signed_part)"

section \<open>The origin's key\<close>

definition originDomainSigningKey :: "'w uri_env \<Rightarrow> unvalidatedURI \<Rightarrow> ('w, string) op" where
  "originDomainSigningKey E u =
     (let wellKnownURL = ''https://'' @ uv_OriginDomain u @ ''/.well-known/stellar.toml'' in
      op_bind (op_map_err (\<lambda>_. ErrInvalidParameter ''origin_domain'') (op_lift (url_Parse wellKnownURL))) (\<lambda>_.
      op_bind (op_map_err ErrNetworkWellKnownOrigin (ue_Get E wellKnownURL)) (\<lambda>resp.
      op_bind (op_map_err ErrInvalidWellKnownOrigin (op_lift (gr_Body resp))) (\<lambda>body.
        if gr_StatusCode resp \<noteq> 200 then op_lift (Inl (ErrInvalidWellKnownOrigin (NewError ''stellar.toml not found'')))
        else
          op_bind (op_map_err ErrInvalidWellKnownOrigin (op_lift (toml_Decode E body))) (\<lambda>key.
            op_return (TrimSpace key))))))"

text \<open>
  The checks of \<open>validateOriginDomain\<close> on the key and the signature. An error of
  \<open>kp.Verify\<close> is replaced; a panic in it is not an error and ends the call.
\<close>

definition check_signature :: "go_crypto \<Rightarrow> unvalidatedURI \<Rightarrow> string \<Rightarrow> bool res" where
  "check_signature C u signingKey =
     (if signingKey = [] then Inl (ErrInvalidWellKnownOrigin (NewError ''no signing key''))
      else case keypair_Parse C signingKey of
        Inl _ \<Rightarrow> Inl (ErrInvalidWellKnownOrigin (NewError ''invalid signing key''))
      | Inr kp \<Rightarrow>
         (case base64_DecodeString (uv_Signature u) of
            Inl _ \<Rightarrow> Inl ErrBadSignature
          | Inr sig \<Rightarrow>
             (case kp_Verify C kp (payload u) sig of
                Inl (Panic p) \<Rightarrow> Inl (Panic p)
              | Inl _ \<Rightarrow> Inl ErrBadSignature
              | Inr _ \<Rightarrow> Inr True)))"

definition validateOriginDomain :: "'w uri_env \<Rightarrow> unvalidatedURI \<Rightarrow> ('w, bool) op" where
  "validateOriginDomain E u =
     (if uv_Signature u = [] then op_return False
      else op_bind (originDomainSigningKey E u) (\<lambda>signingKey. op_lift (check_signature (ue_crypto E) u signingKey)))"

section \<open>Validated requests\<close>

record ValidatedStellarURI =
  vs_URI :: string
  vs_Operation :: string
  vs_OriginDomain :: string
  vs_Message :: string
  vs_CallbackURL :: string
  vs_XDR :: string
  vs_TxEnv :: "TransactionEnvelope option"
  vs_Recipient :: string
  vs_Amount :: string
  vs_AssetCode :: string
  vs_AssetIssuer :: string
  vs_Memo :: string
  vs_MemoType :: string
  vs_Signed :: bool
  vs_ReplaceSourceAccount :: bool
  vs_ReplaceSeqnum :: bool
  vs_UnknownReplaceFields :: bool

definition empty_validated :: ValidatedStellarURI where
  "empty_validated = \<lparr>vs_URI = [], vs_Operation = [], vs_OriginDomain = [], vs_Message = [], vs_CallbackURL = [], vs_XDR = [],
     vs_TxEnv = None, vs_Recipient = [], vs_Amount = [], vs_AssetCode = [], vs_AssetIssuer = [], vs_Memo = [], vs_MemoType = [],
     vs_Signed = False, vs_ReplaceSourceAccount = False, vs_ReplaceSeqnum = False, vs_UnknownReplaceFields = False\<rparr>"

definition replace_field :: "string \<Rightarrow> ValidatedStellarURI \<Rightarrow> ValidatedStellarURI" where
  "replace_field f v =
     (let part = hd (split_sep (\<lambda>c. c = CHR '':'') f) in
      if part = ''sourceAccount'' then v\<lparr>vs_ReplaceSourceAccount := True\<rparr>
      else if part = ''seqNum'' then v\<lparr>vs_ReplaceSeqnum := True\<rparr>
      else v\<lparr>vs_UnknownReplaceFields := True\<rparr>)"

definition newValidated :: "unvalidatedURI \<Rightarrow> string \<Rightarrow> ValidatedStellarURI" where
  "newValidated u operation =
     (let v = empty_validated\<lparr>vs_URI := uv_raw u, vs_Operation := operation, vs_OriginDomain := uv_OriginDomain u,
                vs_Message := uri_value (uv_values u) ''msg''\<rparr>;
          callback = uri_value (uv_values u) ''callback'';
          v = (if HasPrefix callback ''url:'' then v\<lparr>vs_CallbackURL := drop 4 callback\<rparr> else v);
          replac = uri_value (uv_values u) ''replace''
      in if replac \<noteq> [] then
           let pieces = split_sep (\<lambda>c. c = CHR '';'') replac;
               fieldsAndHints = split_sep (\<lambda>c. c = CHR '','') (hd pieces)
           in fold replace_field fieldsAndHints v
         else v)"

definition pay_parameters :: "unvalidatedURI \<Rightarrow> bool \<Rightarrow> ValidatedStellarURI res" where
  "pay_parameters u signd =
     (let val = uri_value (uv_values u); destination = val ''destination'' in
      if destination = [] then Inl (ErrMissingParameter ''destination'')
      else
        let v = (newValidated u ''pay'')\<lparr>vs_Signed := signd, vs_Recipient := destination, vs_Amount := val ''amount'',
                  vs_AssetCode := val ''asset_code'', vs_AssetIssuer := val ''asset_issuer'', vs_Memo := val ''memo'',
                  vs_MemoType := val ''memo_type''\<rparr>
        in if vs_AssetCode v \<noteq> [] \<and> vs_AssetIssuer v = [] then Inl (ErrMissingParameter ''asset_issuer'')
           else if vs_AssetIssuer v \<noteq> [] \<and> vs_AssetCode v = [] then Inl (ErrMissingParameter ''asset_code'')
           else
             let v = (if vs_Memo v \<noteq> [] \<and> vs_MemoType v = [] then v\<lparr>vs_MemoType := ''MEMO_TEXT''\<rparr> else v)
             in if vs_MemoType v \<noteq> [] \<and> vs_Memo v = [] then Inl (ErrMissingParameter ''memo'')
                else Inr v)"

definition validatePay :: "'w uri_env \<Rightarrow> unvalidatedURI \<Rightarrow> ('w, ValidatedStellarURI) op" where
  "validatePay E u = op_bind (validateOriginDomain E u) (\<lambda>signd. op_lift (pay_parameters u signd))"

text \<open>
  \<open>op.SourceAccount.ToAccountId() == emptySourceAccount\<close> compares two structures that hold a
  pointer to the key: the first a new one, the second \<open>nil\<close>. \<open>ToAccountId\<close> gives the
  pointer as an option.
\<close>

definition ToAccountId :: "MuxedAccount \<Rightarrow> byte list option" where
  "ToAccountId m = (case m of KeyTypeEd25519 ed \<Rightarrow> Some ed | KeyTypeMuxedEd25519 i ed \<Rightarrow> Some ed)"

definition validateTxEnv :: "TransactionEnvelope \<Rightarrow> TransactionEnvelope res" where
  "validateTxEnv txEnv =
     (if list_ex (\<lambda>w. case op_SourceAccount w of None \<Rightarrow> False | Some a \<Rightarrow> ToAccountId a = None) (env_Operations txEnv)
      then Inl (ErrInvalidParameter ''SourceAccount'') else Inr txEnv)"

definition validateTx :: "'w uri_env \<Rightarrow> unvalidatedURI \<Rightarrow> ('w, ValidatedStellarURI) op" where
  "validateTx E u =
     (let xdrEncoded = uri_value (uv_values u) ''xdr'' in
      if xdrEncoded = [] then op_lift (Inl (ErrMissingParameter ''xdr''))
      else
        op_bind (validateOriginDomain E u) (\<lambda>signd.
        op_bind (op_map_err (\<lambda>_. ErrInvalidParameter ''xdr'') (op_lift (xdr_UnmarshalBase64 E xdrEncoded))) (\<lambda>txEnv.
        op_bind (op_lift (validateTxEnv txEnv)) (\<lambda>validatedTxEnv.
          op_return ((newValidated u ''tx'')\<lparr>vs_Signed := signd, vs_XDR := xdrEncoded, vs_TxEnv := Some validatedTxEnv\<rparr>)))))"

definition Validate :: "'w uri_env \<Rightarrow> unvalidatedURI \<Rightarrow> ('w, ValidatedStellarURI) op" where
  "Validate E u =
     (if uv_OriginDomain u = [] \<and> uv_Signature u \<noteq> [] then op_lift (Inl (ErrMissingParameter ''origin_domain''))
      else if uv_OriginDomain u \<noteq> [] \<and> uv_Signature u = [] then op_lift (Inl (ErrMissingParameter ''signature''))
      else if uv_OriginDomain u \<noteq> [] \<and> \<not> isDomainName (uv_OriginDomain u) then op_lift (Inl (ErrInvalidParameter ''origin_domain''))
      else if uv_Operation u = ''pay'' then validatePay E u
      else if uv_Operation u = ''tx'' then validateTx E u
      else op_lift (Inl ErrInvalidOperation))"

definition ValidateStellarURI :: "'w uri_env \<Rightarrow> string \<Rightarrow> ('w, ValidatedStellarURI) op" where
  "ValidateStellarURI E uri = op_bind (op_lift (newUnvalidatedURI uri)) (Validate E)"

definition MemoExport :: "ValidatedStellarURI \<Rightarrow> Memo res" where
  "MemoExport v =
     (if vs_MemoType v = ''MEMO_TEXT'' then Inr (NewMemoText (vs_Memo v))
      else if vs_MemoType v = ''MEMO_ID'' then
        and_then (parse_uint 64 (vs_Memo v)) (\<lambda>i. Inr (NewMemoID (word_of_nat i)))
      else if vs_MemoType v = ''MEMO_HASH'' then
        and_then (base64_DecodeString (vs_Memo v)) (\<lambda>hash. Inr (NewMemoHash (copy_hash hash)))
      else if vs_MemoType v = ''MEMO_RETURN'' then
        and_then (base64_DecodeString (vs_Memo v)) (\<lambda>hash. Inr (NewMemoReturn (copy_hash hash)))
      else if vs_MemoType v = [] \<and> vs_Memo v = [] then Inr NewMemoNone
      else Inl (NewError ''invalid memo''))"

section \<open>Facts\<close>

subsection \<open>Appending to a URI\<close>

lemma cut_append_in: "c \<in> set s \<Longrightarrow> cut c (s @ t) = (fst (cut c s), snd (cut c s) @ t)"
  by (induction s) (auto simp: cut_def)

lemma scheme_loop_append:
  assumes "scheme_loop raw seen s = Inr (sch, r)" "CHR ''?'' \<in> set s" "set s \<subseteq> set raw"
  shows "scheme_loop (raw @ t) seen (s @ t) = Inr (sch, r @ t) \<and> CHR ''?'' \<in> set r"
  using assms
proof (induction s arbitrary: seen)
  case (Cons c s)
  show ?case
  proof (cases "c = CHR ''?''")
    case True
    then show ?thesis using Cons.prems by (auto simp: less_eq_char_def)
  next
    case False
    then show ?thesis using Cons.prems Cons.IH [of "seen @ [c]"] by (auto split: if_splits)
  qed
qed simp

text \<open>Text after the query of a URI becomes part of the query.\<close>

definition with_query :: "string \<Rightarrow> url \<Rightarrow> url" where
  "with_query q u = u\<lparr>url_ForceQuery := q = [], url_RawQuery := q\<rparr>"

lemma with_query_fields [simp]:
  "url_Scheme (with_query q u) = url_Scheme u" "url_Opaque (with_query q u) = url_Opaque u" "url_RawQuery (with_query q u) = q"
  by (simp_all add: with_query_def)

lemma parse_rest_query: "parse_rest rest (with_query q u) = map_sum id (with_query q) (parse_rest rest u)"
proof -
  have "setPath p (with_query q u) = map_sum id (with_query q) (setPath p u)" for p and u :: url
    by (cases "url_unescape p encodePath") (simp_all add: setPath_def with_query_def)
  moreover have "with_query q u\<lparr>url_User := ui, url_Host := h\<rparr> = with_query q (u\<lparr>url_User := ui, url_Host := h\<rparr>)" for ui h
    by (simp add: with_query_def)
  ultimately show ?thesis
    by (simp add: parse_rest_def url_then_def split: sum.splits) (simp add: with_query_def)
qed

lemma url_Parse_append:
  assumes "url_Parse uri = Inr u" "CHR ''#'' \<notin> set uri" "CHR ''?'' \<in> set uri"
    and "CHR ''#'' \<notin> set t" "list_all (\<lambda>c. \<not> ctl_byte c) t"
  shows "url_Parse (uri @ t) = Inr (with_query (url_RawQuery u @ t) u)"
proof -
  have p: "parse_url uri = Inr u"
    using assms(1,2) by (auto simp: url_Parse_def split: sum.splits)
  have ctl: "\<not> list_ex ctl_byte uri" "\<not> list_ex ctl_byte t" "uri \<noteq> ''*''"
    using p assms(3,5) by (auto simp: parse_url_def list_all_iff list_ex_iff split: if_splits)
  then obtain scheme rest where g: "getscheme uri = Inr (scheme, rest)"
    using p by (auto simp: parse_url_def url_then_eq_Inr split: if_splits)
  have g': "getscheme (uri @ t) = Inr (scheme, rest @ t)" "CHR ''?'' \<in> set rest"
    using scheme_loop_append [of uri "[]" uri scheme rest t] g assms(3) by (auto simp: getscheme_def)
  have star: "uri @ t \<noteq> ''*''" using assms(3) by (cases uri) auto
  obtain b q where bq: "cut (CHR ''?'') rest = (b, q)" by fastforce
  have c: "cut_query rest = (b, q = [], q)" "cut_query (rest @ t) = (b, q @ t = [], q @ t)"
    using bq g'(2) cut_append_in [OF g'(2), of t] by (simp_all add: cut_query_def)
  let ?u = "\<lambda>q. with_query q (empty_url\<lparr>url_Scheme := ToLower scheme\<rparr>)"
  have e: "empty_url\<lparr>url_Scheme := ToLower scheme, url_ForceQuery := x = [], url_RawQuery := x\<rparr> = ?u x" for x
    by (simp add: with_query_def)
  have "parse_rest b (?u q) = Inr u"
    using p ctl(1,3) g c(1) by (simp add: parse_url_def e)
  then obtain v where v: "parse_rest b (empty_url\<lparr>url_Scheme := ToLower scheme\<rparr>) = Inr v" "u = with_query q v"
    unfolding parse_rest_query by (cases "parse_rest b (empty_url\<lparr>url_Scheme := ToLower scheme\<rparr>)") auto
  have "parse_url (uri @ t) = Inr (with_query (q @ t) v)"
    using ctl star g'(1) c(2) v(1) by (simp add: parse_url_def e [of "q @ t", simplified] parse_rest_query)
  moreover have "with_query (q @ t) v = with_query (url_RawQuery u @ t) u" by (simp add: v(2)) (simp add: with_query_def)
  ultimately show ?thesis using assms(2,4) by (simp add: url_Parse_def)
qed

lemma newUnvalidatedURI_append:
  assumes "newUnvalidatedURI uri = Inr u" "CHR ''#'' \<notin> set uri" "CHR ''?'' \<in> set uri"
    and "CHR ''#'' \<notin> set t" "list_all (\<lambda>c. \<not> ctl_byte c) t" "query_sep c" "\<not> ctl_byte c" "c \<noteq> CHR ''#''"
  shows "newUnvalidatedURI (uri @ c # t) = Inr \<lparr>uv_raw = uri @ c # t, uv_values = uv_values u @ parse_query t,
     uv_Operation = uv_Operation u, uv_OriginDomain = uri_value (uv_values u @ parse_query t) ''origin_domain'',
     uv_Signature = uri_value (uv_values u @ parse_query t) ''signature''\<rparr>"
proof -
  obtain p where p: "url_Parse uri = Inr p" using assms(1) by (auto simp: newUnvalidatedURI_def and_then_eq_Inr)
  have "url_Parse (uri @ c # t) = Inr (with_query (url_RawQuery p @ c # t) p)"
    using assms by (intro url_Parse_append [OF p]) auto
  with p assms(1) show ?thesis
    by (auto simp: newUnvalidatedURI_def Let_def parse_query_append [OF assms(6)] split: if_splits)
qed

lemma last_cut_append: "c \<notin> set r \<Longrightarrow> last_cut c (s @ c # r) = Some s"
proof -
  assume "c \<notin> set r"
  then have "dropWhile (\<lambda>d. d \<noteq> c) (rev r @ c # rev s) = c # rev s" by (subst dropWhile_append2) auto
  then show ?thesis by (simp add: last_cut_def)
qed

lemma payload_append:
  "CHR ''&'' \<notin> set r \<Longrightarrow> uv_raw u = s @ CHR ''&'' # r \<Longrightarrow> payload u = payloadFromString s"
  by (simp add: payload_def last_cut_append)

lemma query_one:
  assumes "list_all (\<lambda>c. \<not> query_sep c) k" "list_all (\<lambda>c. \<not> query_sep c) v" "CHR ''='' \<notin> set k"
    and "QueryUnescape k = Some k'" "QueryUnescape v = Some v'"
  shows "parse_query (k @ CHR ''='' # v) = [(k', v')]"
proof -
  have "list_all (\<lambda>c. \<not> query_sep c) (k @ CHR ''='' # v)" using assms(1,2) by (simp add: query_sep_def)
  from split_sep_plain [OF this] assms(3-5) show ?thesis by (simp add: parse_query_def query_setting_def)
qed

lemma value_unchanged:
  "map_of vs key \<noteq> None \<or> key \<notin> fst ` set ws \<Longrightarrow> uri_value (vs @ ws) key = uri_value vs key"
  by (auto simp: uri_value_def query_get_append) (simp_all add: query_get_def map_of_eq_None_iff [THEN iffD2])

lemma value_appended: "map_of vs key = None \<Longrightarrow> uri_value (vs @ [(key, v)]) key = TrimSpace v"
  by (simp add: uri_value_def query_get_append) (simp add: query_get_def)

subsection \<open>Signatures as text\<close>

lemma b64_alphabet_tight: "list_all tight b64_alphabet" "length b64_alphabet = 64"
  by (simp_all add: b64_alphabet_def tight_def less_eq_char_def)

lemma b64_char_tight: "v < 64 \<Longrightarrow> tight (b64_char v)"
  using b64_alphabet_tight by (auto simp: b64_char_def list_all_length word_less_nat_alt)

lemma b64_vals_tight: "list_all tight (map b64_char (b64_vals a b c))"
  by (simp only: list_all_iff list.set_map ball_simps) (auto intro!: b64_char_tight dest: b64_vals_less)

lemma list_all_take: "list_all P xs \<Longrightarrow> list_all P (take n xs)"
  by (auto simp: list_all_iff dest: in_set_takeD)

lemma tight_pad: "tight CHR ''=''"
  by (simp add: tight_def less_eq_char_def)

lemma base64_tight: "list_all tight (base64_EncodeToString bs)"
proof (induction bs rule: base64_EncodeToString.induct)
  case (2 b0 b1)
  from list_all_take [OF b64_vals_tight [of b0 b1 0], of 3] show ?case by (simp add: take_map tight_pad)
next
  case (3 b0)
  from list_all_take [OF b64_vals_tight [of b0 0 0], of 2] show ?case by (simp add: take_map tight_pad)
qed (use b64_vals_tight in \<open>simp_all del: list.map\<close>)

lemma TrimSpace_base64 [simp]: "TrimSpace (base64_EncodeToString bs) = base64_EncodeToString bs"
  using base64_tight [of bs] by (intro TrimSpace_tight) (auto simp: list_all_iff hd_in_set last_in_set)

lemma base64_nonempty: "bs \<noteq> [] \<Longrightarrow> base64_EncodeToString bs \<noteq> []"
  by (cases bs rule: base64_EncodeToString.cases) (auto simp: b64_vals_def)

lemma unreserved_no_ctl: "unreserved c \<Longrightarrow> \<not> ctl_byte c"
  by (auto simp: unreserved_def ctl_byte_def less_eq_char_def less_char_def)

lemma escaped_no_ctl: "escaped c \<Longrightarrow> \<not> ctl_byte c"
  using unreserved_no_ctl [of c] by (auto simp: escaped_def ctl_byte_def less_char_def)

lemma escaped_list:
  assumes "list_all escaped s"
  shows "CHR ''&'' \<notin> set s" "CHR ''#'' \<notin> set s" "CHR ''='' \<notin> set s" "list_all (\<lambda>c. \<not> query_sep c) s" "list_all (\<lambda>c. \<not> ctl_byte c) s"
  using assms escaped_plain escaped_no_ctl by (fastforce simp: list_all_iff query_sep_def)+

lemma signed_uri:
  assumes "newUnvalidatedURI uri = Inr u" "CHR ''#'' \<notin> set uri" "CHR ''?'' \<in> set uri" "map_of (uv_values u) ''signature'' = None"
  shows "newUnvalidatedURI (uri @ ''&signature='' @ QueryEscape sig) = Inr (u\<lparr>uv_raw := uri @ ''&signature='' @ QueryEscape sig,
    uv_values := uv_values u @ [(''signature'', sig)], uv_Signature := TrimSpace sig\<rparr>)"
proof -
  note esc = escaped_list [OF QueryEscape_escaped [of sig]]
  have q: "parse_query (''signature'' @ CHR ''='' # QueryEscape sig) = [(''signature'', sig)]"
    using esc by (intro query_one) (simp_all add: query_sep_def)
  have "newUnvalidatedURI (uri @ CHR ''&'' # (''signature'' @ CHR ''='' # QueryEscape sig)) =
    Inr \<lparr>uv_raw = uri @ CHR ''&'' # (''signature'' @ CHR ''='' # QueryEscape sig), uv_values = uv_values u @ [(''signature'', sig)],
      uv_Operation = uv_Operation u, uv_OriginDomain = uri_value (uv_values u @ [(''signature'', sig)]) ''origin_domain'',
      uv_Signature = uri_value (uv_values u @ [(''signature'', sig)]) ''signature''\<rparr>"
    using newUnvalidatedURI_append [OF assms(1-3), of "''signature'' @ CHR ''='' # QueryEscape sig" "CHR ''&''"] esc q
    by (simp add: query_sep_def ctl_byte_def less_char_def)
  moreover have "uv_OriginDomain u = uri_value (uv_values u) ''origin_domain''"
    using assms(1) by (auto simp: newUnvalidatedURI_def and_then_eq_Inr Let_def split: if_splits)
  ultimately show ?thesis using assms(4) by (simp add: value_appended value_unchanged)
qed

subsection \<open>Requests that differ in one parameter\<close>

lemma replace_field_URI: "replace_field f (v\<lparr>vs_URI := x\<rparr>) = (replace_field f v)\<lparr>vs_URI := x\<rparr>"
  by (simp add: replace_field_def Let_def)

lemma fold_replace_URI: "fold replace_field fs (v\<lparr>vs_URI := x\<rparr>) = (fold replace_field fs v)\<lparr>vs_URI := x\<rparr>"
  by (induction fs arbitrary: v) (simp_all add: replace_field_URI)

lemma fold_replace_cong: "v' = v\<lparr>vs_URI := x\<rparr> \<Longrightarrow> fold replace_field fs v' = (fold replace_field fs v)\<lparr>vs_URI := x\<rparr>"
  by (simp add: fold_replace_URI)

lemma newValidated_URI:
  assumes "uv_OriginDomain u' = uv_OriginDomain u"
    and "uri_value (uv_values u') ''msg'' = uri_value (uv_values u) ''msg''"
    and "uri_value (uv_values u') ''callback'' = uri_value (uv_values u) ''callback''"
    and "uri_value (uv_values u') ''replace'' = uri_value (uv_values u) ''replace''"
  shows "newValidated u' oper = (newValidated u oper)\<lparr>vs_URI := uv_raw u'\<rparr>"
  unfolding newValidated_def Let_def assms
  by (cases "HasPrefix (uri_value (uv_values u) ''callback'') ''url:''"; cases "uri_value (uv_values u) ''replace'' = []")
    (simp_all add: fold_replace_cong)

lemma pay_parameters_amount:
  assumes "newValidated u' ''pay'' = (newValidated u ''pay'')\<lparr>vs_URI := uv_raw u'\<rparr>"
    and "\<And>k. k \<noteq> ''amount'' \<Longrightarrow> uri_value (uv_values u') k = uri_value (uv_values u) k"
    and "pay_parameters u b = Inr v"
  shows "pay_parameters u' b = Inr (v\<lparr>vs_URI := uv_raw u', vs_Amount := uri_value (uv_values u') ''amount''\<rparr>)"
  using assms(3) unfolding pay_parameters_def Let_def assms(1)
  by (auto simp: assms(2) split: if_splits)

lemma payload_suffix:
  assumes "CHR ''&'' \<in> set s" "CHR ''&'' \<notin> set r"
  shows "last_cut (CHR ''&'') (s @ r) = last_cut (CHR ''&'') s"
proof -
  have "dropWhile (\<lambda>d. d \<noteq> CHR ''&'') (rev r @ rev s) = dropWhile (\<lambda>d. d \<noteq> CHR ''&'') (rev s)"
    using assms(2) by (subst dropWhile_append2) auto
  then show ?thesis using assms(1) by (simp add: last_cut_def)
qed

lemma newUnvalidatedURI_fields:
  "newUnvalidatedURI uri = Inr u \<Longrightarrow> uv_raw u = uri \<and> uv_OriginDomain u = uri_value (uv_values u) ''origin_domain'' \<and>
    uv_Signature u = uri_value (uv_values u) ''signature''"
  by (auto simp: newUnvalidatedURI_def and_then_eq_Inr Let_def split: if_splits)

lemma validateOriginDomain_cong:
  assumes "uv_OriginDomain u' = uv_OriginDomain u" "uv_Signature u' = uv_Signature u" "payload u' = payload u"
  shows "validateOriginDomain E u' = validateOriginDomain E u"
proof -
  have "check_signature C u' key = check_signature C u key" for C key unfolding check_signature_def assms ..
  moreover have "originDomainSigningKey E u' = originDomainSigningKey E u" unfolding originDomainSigningKey_def assms ..
  ultimately show ?thesis unfolding validateOriginDomain_def assms by simp
qed

lemma validateTxEnv_accepts: "validateTxEnv e = Inr e"
proof -
  have "ToAccountId a \<noteq> None" for a by (cases a) (simp_all add: ToAccountId_def)
  then show ?thesis by (auto simp: validateTxEnv_def list_ex_iff split: option.splits)
qed

section \<open>Properties\<close>

text \<open>
  C12. A request that \<open>SignStellarURI\<close> signed passes the check of its origin: with the seed's
  address as the key the domain publishes, the signed URI has the same parameters and the
  signature, the signed part is the original URI, and the origin is validated as signed.
\<close>

theorem SignStellarURI_validates:
  assumes "crypto_ok (ue_crypto E)" and "SignStellarURI (ue_crypto E) uri seed = Inr (signed_uri, sig64)"
    and "newUnvalidatedURI uri = Inr u" and "CHR ''#'' \<notin> set uri" and "CHR ''?'' \<in> set uri"
    and "map_of (uv_values u) ''signature'' = None"
    and "SeedStr_Address (ue_crypto E) seed = Inr a" and "originDomainSigningKey E u w = (Inr a, w')"
  shows "\<exists>u'. newUnvalidatedURI signed_uri = Inr u' \<and> uv_values u' = uv_values u @ [(''signature'', sig64)] \<and>
    uv_Operation u' = uv_Operation u \<and> uv_OriginDomain u' = uv_OriginDomain u \<and> payload u' = payloadFromString uri \<and>
    validateOriginDomain E u' w = (Inr True, w')"
proof -
  obtain kp sig where kp: "keypair_Parse (ue_crypto E) seed = Inr kp" and sig: "kp_Sign (ue_crypto E) kp (payloadFromString uri) = Inr sig"
    and s: "sig64 = base64_EncodeToString sig" "signed_uri = uri @ ''&signature='' @ QueryEscape sig64"
    using assms(2) by (auto simp: SignStellarURI_def and_then_eq_Inr SecureNoLogString_def Let_def)
  obtain raw where raw: "32 \<le> length raw" "kp = Full (address_of (ed_public (ue_crypto E) (take 32 raw))) seed (ed_public (ue_crypto E) (take 32 raw))
      (take 32 raw @ ed_public (ue_crypto E) (take 32 raw))"
    using kp sig by (auto simp: keypair_Parse_eq_Inr kp_Sign_def)
  have a: "a = address_of (ed_public (ue_crypto E) (take 32 raw))"
    using assms(7) kp raw(2) by (simp add: SeedStr_Address_def SecureNoLogString_def)
  have sig': "sig = ed_sign (ue_crypto E) (take 32 raw) (payloadFromString uri)" using sig raw by (simp add: kp_Sign_def)
  have l: "length sig = 64" "length (ed_public (ue_crypto E) (take 32 raw)) = 32"
    "ed_verify (ue_crypto E) (ed_public (ue_crypto E) (take 32 raw)) (payloadFromString uri) sig"
    using assms(1) raw(1) by (simp_all add: crypto_ok_def sig')
  let ?u = "u\<lparr>uv_raw := signed_uri, uv_values := uv_values u @ [(''signature'', sig64)], uv_Signature := sig64\<rparr>"
  have u': "newUnvalidatedURI signed_uri = Inr ?u"
    using signed_uri [OF assms(3-6), of sig64] s by simp
  have pay: "payload ?u = payloadFromString uri"
    using payload_append [of "''signature='' @ QueryEscape sig64" ?u uri] escaped_list(1) [OF QueryEscape_escaped [of sig64]] s(2) by simp
  have a_ne: "a \<noteq> []" using length_address_of [of "ed_public (ue_crypto E) (take 32 raw)"] a by auto
  have "check_signature (ue_crypto E) ?u a = Inr True"
    using l pay a_ne by (simp add: check_signature_def a keypair_Parse_address_of s(1) base64_roundtrip kp_Verify_def)
  moreover have "originDomainSigningKey E ?u w = (Inr a, w')" using assms(8) by (simp add: originDomainSigningKey_def)
  moreover have "sig64 \<noteq> []" using base64_nonempty [of sig] l(1) s(1) by (metis list.size(3) zero_neq_numeral)
  ultimately have "validateOriginDomain E ?u w = (Inr True, w')" by (simp add: validateOriginDomain_def)
  with u' pay show ?thesis by (intro exI [of _ ?u]) simp
qed

text \<open>
  C13. What a signature does not cover: after a semicolon, which the query parser of Go 1.13
  takes for an ampersand and \<open>payload\<close> does not, anyone can add an amount to a signed
  payment request that has none. The request is validated as before, as signed if it was,
  with that amount.
\<close>

theorem semicolon_amount_unsigned:
  assumes "newUnvalidatedURI uri = Inr u" and "CHR ''#'' \<notin> set uri" and "CHR ''?'' \<in> set uri" and "CHR ''&'' \<in> set uri"
    and "uv_Operation u = ''pay''" and "map_of (uv_values u) ''amount'' = None" and "list_all unreserved amt"
    and "ValidateStellarURI E uri w = (Inr v, w')"
  shows "ValidateStellarURI E (uri @ '';amount='' @ amt) w =
    (Inr (v\<lparr>vs_URI := uri @ '';amount='' @ amt, vs_Amount := TrimSpace amt\<rparr>), w')"
proof -
  have esc: "list_all escaped amt" using assms(7) by (auto simp: list_all_iff escaped_def)
  note e = escaped_list [OF esc]
  have "QueryUnescape amt = Some amt"
    using assms(7) unreserved_plain by (induction amt) (auto simp: option.map_id0)
  then have q: "parse_query (''amount'' @ CHR ''='' # amt) = [(''amount'', amt)]"
    using e by (intro query_one) (simp_all add: query_sep_def)
  let ?u = "\<lparr>uv_raw = uri @ '';amount='' @ amt, uv_values = uv_values u @ [(''amount'', amt)], uv_Operation = uv_Operation u,
    uv_OriginDomain = uv_OriginDomain u, uv_Signature = uv_Signature u\<rparr>"
  note f = newUnvalidatedURI_fields [OF assms(1)]
  have same: "uri_value (uv_values ?u) k = uri_value (uv_values u) k" if "k \<noteq> ''amount''" for k
    using that by (simp add: value_unchanged)
  have u': "newUnvalidatedURI (uri @ '';amount='' @ amt) = Inr ?u"
    using newUnvalidatedURI_append [OF assms(1-3), of "''amount'' @ CHR ''='' # amt" "CHR '';''"] e q f same [of "''origin_domain''"] same [of "''signature''"]
    by (simp add: query_sep_def ctl_byte_def less_char_def)
  have "payload ?u = payload u"
    using payload_suffix [OF assms(4), of "'';amount='' @ amt"] e(1) f by (simp add: payload_def)
  then have origin: "validateOriginDomain E ?u = validateOriginDomain E u" by (intro validateOriginDomain_cong) simp_all
  have "Validate E u w = (Inr v, w')" using assms(1,8) by (simp add: ValidateStellarURI_def)
  then have guards: "\<not> (uv_OriginDomain u = [] \<and> uv_Signature u \<noteq> [])" "\<not> (uv_OriginDomain u \<noteq> [] \<and> uv_Signature u = [])"
    "\<not> (uv_OriginDomain u \<noteq> [] \<and> \<not> isDomainName (uv_OriginDomain u))" and "validatePay E u w = (Inr v, w')"
    using assms(5) by (auto simp: Validate_def split: if_splits)
  then obtain b where b: "validateOriginDomain E u w = (Inr b, w')" "pay_parameters u b = Inr v"
    by (auto simp: validatePay_def op_bind_eq_Inr)
  have "newValidated ?u ''pay'' = (newValidated u ''pay'')\<lparr>vs_URI := uv_raw ?u\<rparr>"
    by (intro newValidated_URI same) simp_all
  from pay_parameters_amount [OF this same b(2)]
  have "pay_parameters ?u b = Inr (v\<lparr>vs_URI := uri @ '';amount='' @ amt, vs_Amount := TrimSpace amt\<rparr>)"
    using assms(6) by (simp add: value_appended)
  then have "validatePay E ?u w = (Inr (v\<lparr>vs_URI := uri @ '';amount='' @ amt, vs_Amount := TrimSpace amt\<rparr>), w')"
    unfolding validatePay_def origin using b(1) by simp
  moreover have "Validate E ?u = validatePay E ?u" using guards assms(5) by (auto simp: Validate_def)
  ultimately show ?thesis unfolding ValidateStellarURI_def u' by simp
qed

lemma pay_parameters_result:
  "pay_parameters u b = Inr v \<Longrightarrow> vs_Signed v = b \<and> vs_Recipient v \<noteq> [] \<and> (vs_AssetCode v = [] \<longleftrightarrow> vs_AssetIssuer v = []) \<and>
    (vs_Memo v = [] \<longleftrightarrow> vs_MemoType v = [])"
  by (auto simp: pay_parameters_def Let_def split: if_splits)

lemma replace_field_fixed:
  "vs_Operation (fold replace_field fs v) = vs_Operation v \<and> vs_OriginDomain (fold replace_field fs v) = vs_OriginDomain v \<and>
   vs_TxEnv (fold replace_field fs v) = vs_TxEnv v"
  by (induction fs arbitrary: v) (simp_all add: replace_field_def Let_def)

lemma newValidated_fields:
  "vs_Operation (newValidated u oper) = oper" "vs_OriginDomain (newValidated u oper) = uv_OriginDomain u" "vs_TxEnv (newValidated u oper) = None"
  by (simp_all add: newValidated_def Let_def replace_field_fixed empty_validated_def)

lemma pay_parameters_fields:
  "pay_parameters u b = Inr v \<Longrightarrow> vs_Operation v = ''pay'' \<and> vs_OriginDomain v = uv_OriginDomain u \<and> vs_TxEnv v = None"
  by (auto simp: pay_parameters_def Let_def newValidated_fields split: if_splits)

lemma validateOriginDomain_ok:
  assumes "validateOriginDomain E u w = (Inr b, w')"
  shows "b = (uv_Signature u \<noteq> []) \<and> (b \<longrightarrow> (\<exists>key kp sig. originDomainSigningKey E u w = (Inr key, w') \<and>
    keypair_Parse (ue_crypto E) key = Inr kp \<and> base64_DecodeString (uv_Signature u) = Inr sig \<and>
    kp_Verify (ue_crypto E) kp (payload u) sig = Inr ()))"
  using assms by (auto simp: validateOriginDomain_def op_bind_eq_Inr check_signature_def split: if_splits sum.splits go_error.splits)

lemma Validate_ok:
  "Validate E u w = (Inr v, w') \<Longrightarrow>
    (uv_OriginDomain u = [] \<longleftrightarrow> uv_Signature u = []) \<and> (uv_OriginDomain u \<noteq> [] \<longrightarrow> isDomainName (uv_OriginDomain u)) \<and>
    (\<exists>b. validateOriginDomain E u w = (Inr b, w') \<and> vs_Signed v = b \<and> vs_OriginDomain v = uv_OriginDomain u \<and>
      (uv_Operation u = ''pay'' \<and> pay_parameters u b = Inr v \<or>
       uv_Operation u = ''tx'' \<and> (\<exists>e. xdr_UnmarshalBase64 E (vs_XDR v) = Inr e \<and> vs_TxEnv v = Some e \<and> vs_Operation v = ''tx'')))"
  by (auto simp: Validate_def validatePay_def validateTx_def op_bind_eq_Inr Let_def validateTxEnv_accepts newValidated_fields
      dest: pay_parameters_result pay_parameters_fields split: if_splits)

text \<open>
  C11. What \<open>Signed\<close> means: a validated request is signed exactly when it names an origin
  domain, and then the domain has the form of a domain name, the file fetched from it held
  a key, and the signature parameter is a signature under that key of the URI up to its
  last ampersand.
\<close>

theorem Signed_sound:
  assumes "ValidateStellarURI E uri w = (Inr v, w')"
  shows "vs_Signed v = (vs_OriginDomain v \<noteq> []) \<and>
    (\<exists>u. newUnvalidatedURI uri = Inr u \<and> uv_OriginDomain u = vs_OriginDomain v \<and>
      (vs_Signed v \<longrightarrow> isDomainName (vs_OriginDomain v) \<and>
        (\<exists>key kp sig. originDomainSigningKey E u w = (Inr key, w') \<and> keypair_Parse (ue_crypto E) key = Inr kp \<and>
           base64_DecodeString (uri_value (uv_values u) ''signature'') = Inr sig \<and>
           kp_Verify (ue_crypto E) kp (payload u) sig = Inr ())))"
proof -
  obtain u where u: "newUnvalidatedURI uri = Inr u" "Validate E u w = (Inr v, w')"
    using assms by (auto simp: ValidateStellarURI_def op_bind_eq_Inr)
  note ok = Validate_ok [OF u(2)]
  obtain b where b: "validateOriginDomain E u w = (Inr b, w')" "vs_Signed v = b" "vs_OriginDomain v = uv_OriginDomain u"
    using ok by blast
  show ?thesis using u(1) ok b validateOriginDomain_ok [OF b(1)] newUnvalidatedURI_fields [OF u(1)] by auto
qed

text \<open>
  C28. The fields of a validated request belong together: a payment has a recipient, an asset
  code exactly with an issuer and a memo exactly with a memo type, and no envelope; a
  transaction has the envelope that its text decodes to.
\<close>

theorem validated_wf:
  assumes "ValidateStellarURI E uri w = (Inr v, w')"
  shows "(vs_Operation v = ''pay'' \<and> vs_Recipient v \<noteq> [] \<and> vs_TxEnv v = None \<and>
           (vs_AssetCode v = [] \<longleftrightarrow> vs_AssetIssuer v = []) \<and> (vs_Memo v = [] \<longleftrightarrow> vs_MemoType v = [])) \<or>
         (vs_Operation v = ''tx'' \<and> (\<exists>e. vs_TxEnv v = Some e \<and> xdr_UnmarshalBase64 E (vs_XDR v) = Inr e))"
proof -
  obtain u where "Validate E u w = (Inr v, w')"
    using assms by (auto simp: ValidateStellarURI_def op_bind_eq_Inr)
  from Validate_ok [OF this] show ?thesis using pay_parameters_result pay_parameters_fields by blast
qed

text \<open>
  A domain can crash the validation: if the key it publishes is well formed but not of
  32 bytes, any signature of 64 bytes ends in a panic of the verification, not in an error.
\<close>

theorem short_key_panics:
  assumes "length pub \<noteq> 32" and "base64_DecodeString (uv_Signature u) = Inr sig" and "length sig = 64"
  shows "check_signature C u (address_of pub) = Inl (Panic ''ed25519: bad public key length'')"
proof -
  have "address_of pub \<noteq> []" using length_address_of [of pub] by auto
  then show ?thesis using assms by (simp add: check_signature_def keypair_Parse_address_of kp_Verify_def)
qed

section \<open>From a signature to a request\<close>

text \<open>A request that carries the text of a transaction and nothing else.\<close>

definition tx_request :: "string \<Rightarrow> string" where
  "tx_request tx64 = ''web+stellar:tx?xdr='' @ QueryEscape tx64"

lemma tx_prefix_parsed:
  "url_Parse ''web+stellar:tx?'' = Inr (with_query [] (empty_url\<lparr>url_Scheme := ''web+stellar'', url_Opaque := ''tx''\<rparr>))"
  by code_simp

lemma tx_request_parsed:
  "newUnvalidatedURI (tx_request tx64) = Inr \<lparr>uv_raw = tx_request tx64, uv_values = [(''xdr'', tx64)],
     uv_Operation = ''tx'', uv_OriginDomain = [], uv_Signature = []\<rparr>"
proof -
  note esc = escaped_list [OF QueryEscape_escaped [of tx64]]
  have q: "parse_query (''xdr='' @ QueryEscape tx64) = [(''xdr'', tx64)]"
    using esc query_one [of "''xdr''" "QueryEscape tx64" "''xdr''" tx64] by (simp add: query_sep_def)
  have t: "TrimSpace [] = []" by (rule TrimSpace_tight) simp_all
  have u: "tx_request tx64 = ''web+stellar:tx?'' @ (''xdr='' @ QueryEscape tx64)" by (simp add: tx_request_def)
  have "url_Parse (tx_request tx64) =
      Inr (with_query (''xdr='' @ QueryEscape tx64) (empty_url\<lparr>url_Scheme := ''web+stellar'', url_Opaque := ''tx''\<rparr>))"
    unfolding u using url_Parse_append [OF tx_prefix_parsed, of "''xdr='' @ QueryEscape tx64"] esc
    by (simp add: ctl_byte_def less_char_def) (simp add: with_query_def)
  then show ?thesis
    by (simp add: newUnvalidatedURI_def q [simplified] uri_value_def query_get_def t)
qed

lemma envelope_nonempty: "MarshalEnvelope e = Inr bs \<Longrightarrow> bs \<noteq> []"
  by (cases e) (auto simp: MarshalEnvelope_def enc_EnvelopeType_def enc_enum_def EncodeInt_def split: if_splits)

lemma holds_tx_read:
  assumes "holds_tx Cl tx64 tx"
  shows "\<exists>sig. (\<forall>bad. SafeUnmarshalBase64 bad dec_TransactionEnvelope tx64 = Inr (EnvelopeTx \<lparr>v1_Tx = tx, v1_Signatures = [sig]\<rparr>)) \<and>
    tx64 \<noteq> [] \<and> TrimSpace tx64 = tx64 \<and>
    VerifyEnvelope (cl_crypto Cl) (cl_network Cl) (EnvelopeTx \<lparr>v1_Tx = tx, v1_Signatures = [sig]\<rparr>) = Inr ()"
proof -
  obtain buf sig where h: "tx64 = base64_EncodeToString buf"
    "MarshalEnvelope (EnvelopeTx \<lparr>v1_Tx = tx, v1_Signatures = [sig]\<rparr>) = Inr buf"
    "UnmarshalEnvelope buf = Inr (EnvelopeTx \<lparr>v1_Tx = tx, v1_Signatures = [sig]\<rparr>)"
    "VerifyEnvelope (cl_crypto Cl) (cl_network Cl) (EnvelopeTx \<lparr>v1_Tx = tx, v1_Signatures = [sig]\<rparr>) = Inr ()"
    using assms unfolding holds_tx_def by blast
  have "SafeUnmarshalBase64 bad dec_TransactionEnvelope tx64 = Inr (EnvelopeTx \<lparr>v1_Tx = tx, v1_Signatures = [sig]\<rparr>)" for bad
    unfolding h(1) using h(3) by (intro SafeUnmarshalBase64_whole) (simp add: UnmarshalEnvelope_Inr)
  then show ?thesis using h(1,4) base64_nonempty [OF envelope_nonempty [OF h(2)]] by auto
qed

text \<open>
  C8. What the package signs can be handed on as a request and is validated for what it is:
  the URI that carries the text of any signed transaction is accepted without asking the
  network, as unsigned, with exactly the signed transaction in it, and that envelope passes
  \<open>VerifyEnvelope\<close>.
\<close>

theorem signed_tx_request:
  assumes "crypto_ok (cl_crypto Cl)" and "wt_flow f" and "run_flow Cl from f P fee w = (Inr r, w')"
  shows "\<exists>v sig a account seqno ty op m. ValidateStellarURI E (tx_request (sr_Signed r)) w1 = (Inr v, w1) \<and>
    SeedStr_Address (cl_crypto Cl) from = Inr a \<and> AddressStr_MuxedAccount a = Inr account \<and> P a w = (Inr seqno, w') \<and>
    vs_Operation v = ''tx'' \<and> \<not> vs_Signed v \<and> vs_XDR v = sr_Signed r \<and>
    flow_op (cl_crypto Cl) f = Inr (ty, op) \<and> flow_memo f = Inr m \<and>
    vs_TxEnv v = Some (EnvelopeTx \<lparr>v1_Tx = one_op_tx ty op m (flow_bounds f) fee seqno account, v1_Signatures = [sig]\<rparr>) \<and>
    VerifyEnvelope (cl_crypto Cl) (cl_network Cl) (the (vs_TxEnv v)) = Inr ()"
proof -
  obtain a account seqno ty op m where f0: "SeedStr_Address (cl_crypto Cl) from = Inr a" "AddressStr_MuxedAccount a = Inr account"
    "P a w = (Inr seqno, w')" and f: "flow_op (cl_crypto Cl) f = Inr (ty, op)" "flow_memo f = Inr m"
    "holds_tx Cl (sr_Signed r) (one_op_tx ty op m (flow_bounds f) fee seqno account)"
    using flow_signed [OF assms] by blast
  obtain sig where s: "\<And>bad. SafeUnmarshalBase64 bad dec_TransactionEnvelope (sr_Signed r) =
      Inr (EnvelopeTx \<lparr>v1_Tx = one_op_tx ty op m (flow_bounds f) fee seqno account, v1_Signatures = [sig]\<rparr>)"
    "sr_Signed r \<noteq> []" "TrimSpace (sr_Signed r) = sr_Signed r"
    "VerifyEnvelope (cl_crypto Cl) (cl_network Cl)
      (EnvelopeTx \<lparr>v1_Tx = one_op_tx ty op m (flow_bounds f) fee seqno account, v1_Signatures = [sig]\<rparr>) = Inr ()"
    using holds_tx_read [OF f(3)] by blast
  let ?u = "\<lparr>uv_raw = tx_request (sr_Signed r), uv_values = [(''xdr'', sr_Signed r)], uv_Operation = ''tx'',
    uv_OriginDomain = [], uv_Signature = []\<rparr>"
  let ?v = "(newValidated ?u ''tx'')\<lparr>vs_Signed := False, vs_XDR := sr_Signed r, vs_TxEnv :=
    Some (EnvelopeTx \<lparr>v1_Tx = one_op_tx ty op m (flow_bounds f) fee seqno account, v1_Signatures = [sig]\<rparr>)\<rparr>"
  have "validateOriginDomain E ?u w1 = (Inr False, w1)" by (simp add: validateOriginDomain_def)
  moreover have "uri_value [(''xdr'', sr_Signed r)] ''xdr'' = sr_Signed r" by (simp add: uri_value_def query_get_def s(3))
  ultimately have "ValidateStellarURI E (tx_request (sr_Signed r)) w1 = (Inr ?v, w1)"
    using s(1,2) by (simp add: ValidateStellarURI_def tx_request_parsed Validate_def validateTx_def xdr_UnmarshalBase64_def
        validateTxEnv_accepts Let_def op_bind_def op_map_err_def)
  with f0 f(1,2) s(4) show ?thesis
    by (intro exI [of _ ?v] exI [of _ sig] exI [of _ a] exI [of _ account] exI [of _ seqno] exI [of _ ty] exI [of _ op] exI [of _ m])
      (simp add: newValidated_fields)
qed

section \<open>Domain names\<close>

text \<open>
  The reference: dot-separated labels of 1 to 63 letters, digits, underscores and hyphens
  that neither begin nor end with a hyphen, a letter or an underscore somewhere, and
  possibly a final dot; at most 253 bytes without that dot.
\<close>

definition letter :: "char \<Rightarrow> bool" where
  "letter c \<longleftrightarrow> (CHR ''a'' \<le> c \<and> c \<le> CHR ''z'') \<or> (CHR ''A'' \<le> c \<and> c \<le> CHR ''Z'') \<or> c = CHR ''_''"

definition ldh :: "char \<Rightarrow> bool" where
  "ldh c \<longleftrightarrow> letter c \<or> (CHR ''0'' \<le> c \<and> c \<le> CHR ''9'') \<or> c = CHR ''-''"

definition label_ok :: "string \<Rightarrow> bool" where
  "label_ok l \<longleftrightarrow> l \<noteq> [] \<and> length l \<le> 63 \<and> list_all ldh l \<and> hd l \<noteq> CHR ''-'' \<and> last l \<noteq> CHR ''-''"

definition domain_spec :: "string \<Rightarrow> bool" where
  "domain_spec s \<longleftrightarrow>
     length s \<le> 254 \<and> (length s = 254 \<longrightarrow> last s = CHR ''.'') \<and> list_ex letter s \<and>
     (let labels = split_sep (\<lambda>c. c = CHR ''.'') s in
        list_all label_ok (butlast labels) \<and> (last labels = [] \<or> label_ok (last labels)))"

definition labels_ok :: "string list \<Rightarrow> bool" where
  "labels_ok ls \<longleftrightarrow> list_all label_ok (butlast ls) \<and> (last ls = [] \<or> label_ok (last ls))"

definition prefix_ok :: "string \<Rightarrow> bool" where
  "prefix_ok p \<longleftrightarrow> list_all ldh p \<and> (p \<noteq> [] \<longrightarrow> hd p \<noteq> CHR ''-'')"

definition last_or_dot :: "string \<Rightarrow> char" where
  "last_or_dot p = (if p = [] then CHR ''.'' else last p)"

definition loop_accepts :: "string \<Rightarrow> char \<Rightarrow> bool \<Rightarrow> nat \<Rightarrow> bool" where
  "loop_accepts s lst ok n =
     (case domain_loop s lst ok n of None \<Rightarrow> False | Some (l, ok', m) \<Rightarrow> l \<noteq> CHR ''-'' \<and> m \<le> 63 \<and> ok')"

lemma ldh_not_dot: "ldh c \<Longrightarrow> c \<noteq> CHR ''.''"
  by (auto simp: ldh_def letter_def less_eq_char_def)

lemma last_or_dot_prefix: "prefix_ok p \<Longrightarrow> last_or_dot p = CHR ''.'' \<longleftrightarrow> p = []"
  using ldh_not_dot [of "last p"] by (auto simp: last_or_dot_def prefix_ok_def list_all_iff)

lemma loop_accepts_simps:
  "loop_accepts [] lst ok n \<longleftrightarrow> lst \<noteq> CHR ''-'' \<and> n \<le> 63 \<and> ok"
  "letter c \<Longrightarrow> loop_accepts (c # s) lst ok n = loop_accepts s c True (n + 1)"
  "ldh c \<Longrightarrow> \<not> letter c \<Longrightarrow> c \<noteq> CHR ''-'' \<Longrightarrow> loop_accepts (c # s) lst ok n = loop_accepts s c ok (n + 1)"
  "loop_accepts (CHR ''-'' # s) lst ok n \<longleftrightarrow> lst \<noteq> CHR ''.'' \<and> loop_accepts s CHR ''-'' ok (n + 1)"
  "loop_accepts (CHR ''.'' # s) lst ok n \<longleftrightarrow> lst \<noteq> CHR ''.'' \<and> lst \<noteq> CHR ''-'' \<and> n \<le> 63 \<and> n \<noteq> 0 \<and> loop_accepts s CHR ''.'' ok 0"
  "\<not> ldh c \<Longrightarrow> c \<noteq> CHR ''.'' \<Longrightarrow> \<not> loop_accepts (c # s) lst ok n"
  by (auto simp: loop_accepts_def letter_def ldh_def less_eq_char_def)

abbreviation dot_labels :: "string \<Rightarrow> string list" where
  "dot_labels s \<equiv> split_sep (\<lambda>c. c = CHR ''.'') s"

definition cons_prefix :: "string \<Rightarrow> string list \<Rightarrow> string list" where
  "cons_prefix p ls = (p @ hd ls) # tl ls"

lemma cons_prefix_simps:
  "cons_prefix p (dot_labels (CHR ''.'' # s)) = p # dot_labels s"
  "c \<noteq> CHR ''.'' \<Longrightarrow> cons_prefix p (dot_labels (c # s)) = cons_prefix (p @ [c]) (dot_labels s)"
  "cons_prefix [] (dot_labels s) = dot_labels s"
  "cons_prefix [] (cons_prefix p ls) = cons_prefix p ls"
  by (auto simp: cons_prefix_def split: list.split)

lemma labels_ok_Cons: "ls \<noteq> [] \<Longrightarrow> labels_ok (p # ls) \<longleftrightarrow> label_ok p \<and> labels_ok ls"
  by (simp add: labels_ok_def)

lemma labels_ok_first:
  "labels_ok (cons_prefix p ls) \<Longrightarrow> p \<noteq> [] \<Longrightarrow> list_all ldh p \<and> hd p \<noteq> CHR ''-''"
  by (cases "tl ls = []") (auto simp: labels_ok_def cons_prefix_def label_ok_def)

lemma prefix_label: "prefix_ok p \<Longrightarrow> label_ok p \<longleftrightarrow> p \<noteq> [] \<and> length p \<le> 63 \<and> last_or_dot p \<noteq> CHR ''-''"
  by (auto simp: prefix_ok_def label_ok_def last_or_dot_def)

lemma loop_accepts_labels:
  assumes "prefix_ok p"
  shows "loop_accepts s (last_or_dot p) ok (length p) \<longleftrightarrow>
    (ok \<or> list_ex letter s) \<and> labels_ok (cons_prefix p (dot_labels s))"
  using assms
proof (induction s arbitrary: p ok)
  case Nil
  have "labels_ok (cons_prefix p (dot_labels [])) \<longleftrightarrow> p = [] \<or> label_ok p" by (simp add: labels_ok_def cons_prefix_def)
  then show ?case using prefix_label [OF Nil] by (auto simp: loop_accepts_simps last_or_dot_def)
next
  case (Cons c s)
  consider (dot) "c = CHR ''.''" | (letter) "letter c" | (digit) "ldh c" "\<not> letter c" "c \<noteq> CHR ''-''"
    | (hyphen) "c = CHR ''-''" | (other) "\<not> ldh c" "c \<noteq> CHR ''.''" by (auto simp: ldh_def)
  then show ?case
  proof cases
    case dot
    have "prefix_ok []" by (simp add: prefix_ok_def)
    from Cons.IH [OF this, of ok] have "loop_accepts s CHR ''.'' ok 0 \<longleftrightarrow> (ok \<or> list_ex letter s) \<and> labels_ok (dot_labels s)"
      by (simp add: last_or_dot_def cons_prefix_simps)
    moreover have "\<not> letter CHR ''.''" by (simp add: letter_def less_eq_char_def)
    ultimately show ?thesis
      using prefix_label [OF Cons.prems] last_or_dot_prefix [OF Cons.prems]
      unfolding dot loop_accepts_simps cons_prefix_simps labels_ok_Cons [OF split_sep_nonempty] by auto
  next
    case letter
    then have c: "c \<noteq> CHR ''.''" "c \<noteq> CHR ''-''" "ldh c" by (auto simp: ldh_def letter_def less_eq_char_def)
    then have "prefix_ok (p @ [c])" using Cons.prems by (cases p) (auto simp: prefix_ok_def)
    from Cons.IH [OF this, of True] letter c show ?thesis by (simp add: loop_accepts_simps cons_prefix_simps last_or_dot_def del: split_sep.simps)
  next
    case digit
    then have "prefix_ok (p @ [c])" using Cons.prems by (cases p) (auto simp: prefix_ok_def)
    from Cons.IH [OF this, of ok] digit ldh_not_dot [OF digit(1)] show ?thesis
      by (simp add: loop_accepts_simps cons_prefix_simps last_or_dot_def del: split_sep.simps)
  next
    case hyphen
    have h: "ldh CHR ''-''" "\<not> letter CHR ''-''" by (simp_all add: ldh_def letter_def less_eq_char_def)
    show ?thesis
    proof (cases "p = []")
      case True
      then show ?thesis
        using labels_ok_first [of "''-''" "dot_labels s"] cons_prefix_simps(2) [of "CHR ''-''" "[]" s] by (auto simp: hyphen loop_accepts_simps cons_prefix_simps last_or_dot_def simp del: split_sep.simps)
    next
      case False
      then have "prefix_ok (p @ [c])" using Cons.prems h by (auto simp: hyphen prefix_ok_def)
      from Cons.IH [OF this, of ok] False h last_or_dot_prefix [OF Cons.prems] show ?thesis
        by (simp add: hyphen loop_accepts_simps cons_prefix_simps del: split_sep.simps) (simp add: last_or_dot_def)
    qed
  next
    case other
    then have "\<not> labels_ok (cons_prefix p (dot_labels (c # s)))"
      using labels_ok_first [of "p @ [c]" "dot_labels s"] by (auto simp: cons_prefix_simps(2) simp del: split_sep.simps)
    with other show ?thesis by (simp add: loop_accepts_simps)
  qed
qed

text \<open>C35. \<open>isDomainName\<close>, a loop over the bytes with three variables, accepts exactly the reference.\<close>

theorem isDomainName_spec: "isDomainName s \<longleftrightarrow> domain_spec s"
proof (cases "s = []")
  case True
  then show ?thesis by (simp add: isDomainName_def domain_spec_def)
next
  case False
  have "prefix_ok []" by (simp add: prefix_ok_def)
  from loop_accepts_labels [OF this, of s False]
  have "loop_accepts s CHR ''.'' False 0 \<longleftrightarrow> list_ex letter s \<and> labels_ok (dot_labels s)"
    by (simp add: last_or_dot_def cons_prefix_simps)
  moreover have "isDomainName s \<longleftrightarrow> length s \<le> 254 \<and> (length s = 254 \<longrightarrow> last s = CHR ''.'') \<and> loop_accepts s CHR ''.'' False 0"
    using False by (auto simp: isDomainName_def loop_accepts_def last_conv_nth Let_def split: option.splits)
  ultimately show ?thesis by (auto simp: domain_spec_def labels_ok_def Let_def)
qed

section \<open>A request on which the hypotheses hold\<close>

definition demo_uri :: string where
  "demo_uri = ''web+stellar:pay?destination=GA&origin_domain=a.io''"

definition demo_uri_env :: "nat uri_env" where
  "demo_uri_env = \<lparr>ue_crypto = plain_crypto, ue_Get = (\<lambda>l w. (Inr \<lparr>gr_StatusCode = 200, gr_Body = Inr []\<rparr>, Suc w)),
     toml_Decode = (\<lambda>d. Inr (address_of demo_pub)), ue_bad = no_text\<rparr>"

definition demo_values :: "(string \<times> string) list" where
  "demo_values = [(''destination'', ''GA''), (''origin_domain'', ''a.io'')]"

definition demo_unvalidated :: unvalidatedURI where
  "demo_unvalidated = \<lparr>uv_raw = demo_uri, uv_values = demo_values, uv_Operation = ''pay'', uv_OriginDomain = ''a.io'', uv_Signature = []\<rparr>"

lemma demo_newUnvalidated: "newUnvalidatedURI demo_uri = Inr demo_unvalidated"
  by code_simp

lemma address_tight: "list_all tight (address_of pub)"
proof -
  have "list_all tight b32_alphabet" by (simp add: b32_alphabet_def tight_def less_eq_char_def)
  then have "tight (b32_char v)" if "v < 32" for v using b32_char_in [OF that] by (auto simp: list_all_iff)
  then show ?thesis by (simp add: address_of_def base32_EncodeToString_def list_all_iff b32_vals_less)
qed

lemma TrimSpace_address: "TrimSpace (address_of pub) = address_of pub"
  using address_tight [of pub] by (intro TrimSpace_tight) (auto simp: list_all_iff hd_in_set last_in_set)

lemma demo_well_known: "is_ok (url_Parse ''https://a.io/.well-known/stellar.toml'')"
  by code_simp

lemma demo_key: "originDomainSigningKey demo_uri_env demo_unvalidated 0 = (Inr (address_of demo_pub), 1)"
proof -
  obtain u where "url_Parse ''https://a.io/.well-known/stellar.toml'' = Inr u" using demo_well_known by (auto simp: is_ok_iff)
  then show ?thesis
    by (simp add: originDomainSigningKey_def demo_unvalidated_def Let_def op_bind_def op_map_err_def TrimSpace_address)
      (simp add: demo_uri_env_def TrimSpace_address)
qed

definition demo_sig64 :: string where
  "demo_sig64 = base64_EncodeToString (replicate 64 0)"

definition demo_signed_uri :: string where
  "demo_signed_uri = demo_uri @ ''&signature='' @ QueryEscape demo_sig64"

lemma demo_SignStellarURI:
  "SignStellarURI (ue_crypto demo_uri_env) demo_uri demo_seed = Inr (demo_signed_uri, demo_sig64)"
  by (simp add: SignStellarURI_def SecureNoLogString_def demo_uri_env_def demo_Parse)
    (simp add: demo_kp_def kp_Sign_def plain_crypto_def Let_def demo_signed_uri_def demo_sig64_def replicate_add [symmetric])

lemma demo_uri_env_ok: "crypto_ok (ue_crypto demo_uri_env)" "SeedStr_Address (ue_crypto demo_uri_env) demo_seed = Inr (address_of demo_pub)"
  by (simp_all add: demo_uri_env_def plain_crypto_ok demo_Address)

lemma demo_uri_chars: "CHR ''#'' \<notin> set demo_uri" "CHR ''?'' \<in> set demo_uri" "map_of (uv_values demo_unvalidated) ''signature'' = None"
  "map_of (uv_values demo_unvalidated) ''amount'' = None" "CHR ''&'' \<in> set demo_uri"
  by (simp_all add: demo_uri_def demo_unvalidated_def demo_values_def)

theorem SignStellarURI_validates_witness:
  "\<exists>u'. newUnvalidatedURI demo_signed_uri = Inr u' \<and> validateOriginDomain demo_uri_env u' 0 = (Inr True, 1)"
  using SignStellarURI_validates [OF demo_uri_env_ok(1) demo_SignStellarURI demo_newUnvalidated demo_uri_chars(1-3) demo_uri_env_ok(2) demo_key]
  by blast

definition demo_signed_values :: unvalidatedURI where
  "demo_signed_values = demo_unvalidated\<lparr>uv_raw := demo_signed_uri,
     uv_values := uv_values demo_unvalidated @ [(''signature'', demo_sig64)], uv_Signature := demo_sig64\<rparr>"

lemma demo_signed_unvalidated: "newUnvalidatedURI demo_signed_uri = Inr demo_signed_values"
  unfolding demo_signed_uri_def demo_signed_values_def
  using signed_uri [OF demo_newUnvalidated demo_uri_chars(1-3), of demo_sig64] by (simp add: demo_sig64_def)

lemma demo_origin: "validateOriginDomain demo_uri_env demo_signed_values 0 = (Inr True, 1)"
proof -
  have "base64_EncodeToString (replicate 64 0) \<noteq> []" by (rule base64_nonempty) simp
  then have "uv_Signature demo_signed_values \<noteq> []" by (simp add: demo_signed_values_def demo_sig64_def)
  moreover have "originDomainSigningKey demo_uri_env demo_signed_values 0 = (Inr (address_of demo_pub), 1)"
    using demo_key by (simp add: originDomainSigningKey_def demo_signed_values_def)
  moreover have "check_signature (ue_crypto demo_uri_env) demo_signed_values (address_of demo_pub) = Inr True"
  proof -
    have "address_of demo_pub \<noteq> []" using length_address_of [of demo_pub] by auto
    then show ?thesis
      by (simp add: check_signature_def keypair_Parse_address_of demo_signed_values_def demo_sig64_def base64_roundtrip kp_Verify_def demo_pub_def)
        (simp add: demo_uri_env_def plain_crypto_def replicate_add [symmetric])
  qed
  ultimately show ?thesis by (simp add: validateOriginDomain_def)
qed

definition demo_validated :: ValidatedStellarURI where
  "demo_validated = empty_validated\<lparr>vs_URI := demo_signed_uri, vs_Operation := ''pay'', vs_OriginDomain := ''a.io'',
     vs_Signed := True, vs_Recipient := ''GA''\<rparr>"

lemma demo_value: "uri_value (uv_values demo_signed_values) k =
    (if k = ''destination'' then ''GA'' else if k = ''origin_domain'' then ''a.io'' else if k = ''signature'' then demo_sig64 else [])"
proof -
  have t: "TrimSpace [] = []" "TrimSpace ''GA'' = ''GA''" "TrimSpace ''a.io'' = ''a.io''"
    by (rule TrimSpace_tight; simp add: tight_def less_eq_char_def)+
  show ?thesis
    by (simp add: uri_value_def query_get_def demo_signed_values_def demo_unvalidated_def demo_values_def t demo_sig64_def)
qed

lemma demo_Validate: "ValidateStellarURI demo_uri_env demo_signed_uri 0 = (Inr demo_validated, 1)"
proof -
  have f: "uv_OriginDomain demo_signed_values = ''a.io''" "uv_Operation demo_signed_values = ''pay''" "uv_Signature demo_signed_values \<noteq> []"
    "uv_raw demo_signed_values = demo_signed_uri"
    using base64_nonempty [of "replicate 64 0"] by (simp_all add: demo_signed_values_def demo_unvalidated_def demo_sig64_def)
  have "isDomainName ''a.io''" by code_simp
  moreover have "pay_parameters demo_signed_values True = Inr demo_validated"
    by (simp add: pay_parameters_def newValidated_def demo_value f Let_def HasPrefix_def demo_validated_def empty_validated_def)
  ultimately show ?thesis
    using f by (simp add: ValidateStellarURI_def demo_signed_unvalidated Validate_def validatePay_def demo_origin)
qed

theorem semicolon_amount_unsigned_witness:
  "\<exists>v. ValidateStellarURI demo_uri_env (demo_signed_uri @ '';amount='' @ ''1000'') 0 = (Inr v, 1) \<and> vs_Signed v \<and> vs_Amount v = ''1000''"
proof -
  have t: "TrimSpace ''1000'' = ''1000''" by (rule TrimSpace_tight) (simp add: tight_def less_eq_char_def)
  have "CHR ''#'' \<notin> set demo_signed_uri" "CHR ''?'' \<in> set demo_signed_uri" "CHR ''&'' \<in> set demo_signed_uri"
    using escaped_list(2) [OF QueryEscape_escaped [of demo_sig64]] demo_uri_chars by (simp_all add: demo_signed_uri_def)
  moreover have "uv_Operation demo_signed_values = ''pay''" "map_of (uv_values demo_signed_values) ''amount'' = None"
    by (simp_all add: demo_signed_values_def demo_unvalidated_def demo_values_def)
  moreover have "list_all unreserved ''1000''" by (simp add: unreserved_def less_eq_char_def)
  ultimately show ?thesis
    using semicolon_amount_unsigned [OF demo_signed_unvalidated, of "''1000''" demo_uri_env 0 demo_validated 1] demo_Validate
    unfolding t by (simp add: demo_validated_def)
qed

theorem Signed_sound_witness:
  "isDomainName ''a.io'' \<and> (\<exists>key. originDomainSigningKey demo_uri_env demo_signed_values 0 = (Inr key, 1))"
  using Signed_sound [OF demo_Validate] by (auto simp: demo_signed_unvalidated) (auto simp: demo_validated_def)

theorem validated_wf_witness: "vs_Operation demo_validated = ''pay'' \<and> vs_Recipient demo_validated \<noteq> []"
  using validated_wf [OF demo_Validate] by (simp add: demo_validated_def)

theorem short_key_panics_witness:
  "check_signature plain_crypto demo_signed_values (address_of [1, 2, 3]) = Inl (Panic ''ed25519: bad public key length'')"
  by (rule short_key_panics [where sig = "replicate 64 0"]) (simp_all add: demo_signed_values_def demo_sig64_def base64_roundtrip)

theorem signed_tx_request_witness:
  "\<exists>v r. run_flow demo_client demo_seed (FlowHomeDomain ''keybase.io'' (Some (5, 9))) (Client demo_client) 100 0 = (Inr r, 0) \<and>
     ValidateStellarURI demo_uri_env (tx_request (sr_Signed r)) 0 = (Inr v, 0) \<and> vs_XDR v = sr_Signed r"
proof -
  obtain r where r: "run_flow demo_client demo_seed (FlowHomeDomain ''keybase.io'' (Some (5, 9))) (Client demo_client) 100 0 = (Inr r, 0)"
    using demo_flow by blast
  from signed_tx_request [OF demo_client_fields(3) _ this, of demo_uri_env 0] r show ?thesis by auto
qed

end
