(* ===== verification/Summary.thy ===== *)
theory Summary
  imports Xdr_Codec Go_Quote
begin

text \<open>
  \<open>summary.go\<close>: an operation in words, in the present or the past tense. A function that
  panics is a result; the summary of an operation that the decoder built panics for one
  reason only (see the properties). Fields are formatted as \<open>fmt.Sprintf\<close> formats them,
  which for a pointer to a byte slice under \<open>%x\<close> writes an ampersand before the digits.
\<close>

section \<open>Arms and values\<close>

text \<open>
  \<open>MustXOp\<close>: the arm of the body. The discriminant was compared before, so what is left is
  an arm that is not set.
\<close>

definition must_arm :: "(op_value \<Rightarrow> 'a option) \<Rightarrow> OperationBody \<Rightarrow> 'a res" where
  "must_arm f b = (case body_Arm b of Some v \<Rightarrow> deref (f v) | None \<Rightarrow> Inl (Panic ''nil pointer dereference''))"

text \<open>An address whose encoding fails panics.\<close>

definition must_text :: "string res \<Rightarrow> string res" where
  "must_text r = map_err (\<lambda>_. Panic ''GetAddress'') r"

definition SignerKey_Address :: "SignerKey \<Rightarrow> string res" where
  "SignerKey_Address k =
     must_text (case k of
        SignerEd25519 key \<Rightarrow> strkey_Encode VersionByteAccountID key
      | SignerHashX key \<Rightarrow> strkey_Encode VersionByteHashX key
      | SignerPreAuthTx key \<Rightarrow> strkey_Encode VersionByteHashTx key)"

text \<open>\<open>big.NewRat\<close> panics on a denominator that is zero.\<close>

definition Price_String :: "xdr_Price \<Rightarrow> string res" where
  "Price_String p =
     (if sint (price_D p) = 0 then Inl (Panic ''division by zero'')
      else Inr (FloatString 7 (of_int (sint (price_N p)) / of_int (sint (price_D p)))))"

section \<open>The summary of each operation\<close>

definition past :: "bool \<Rightarrow> string \<Rightarrow> string" where
  "past pastTense suffix = (if pastTense then suffix else [])"

definition tense :: "bool \<Rightarrow> string \<Rightarrow> string \<Rightarrow> string" where
  "tense pastTense present pst = (if pastTense then pst else present)"

definition create_account_summary :: "bool \<Rightarrow> CreateAccountOp \<Rightarrow> string res" where
  "create_account_summary pastTense iop =
     and_then (must_text (AccountId_Address (ca_Destination iop))) (\<lambda>dest.
       Inr (''Create'' @ past pastTense ''d'' @ '' account '' @ dest @ '' with starting balance of '' @
            StringFromStellarXdrAmount (ca_StartingBalance iop) @ '' XLM''))"

definition payment_summary :: "bool \<Rightarrow> PaymentOp \<Rightarrow> string res" where
  "payment_summary pastTense iop =
     and_then (XDRAssetAmountSummary (pay_Amount iop) (pay_Asset iop)) (\<lambda>amt.
     and_then (must_text (MuxedAccount_Address (pay_Destination iop))) (\<lambda>dest.
       Inr (tense pastTense ''Pay'' ''Paid'' @ '' '' @ amt @ '' to account '' @ dest)))"

definition path_receive_summary :: "bool \<Rightarrow> PathPaymentStrictReceiveOp \<Rightarrow> string res" where
  "path_receive_summary pastTense iop =
     and_then (XDRAssetAmountSummary (pr_DestAmount iop) (pr_DestAsset iop)) (\<lambda>amt.
     and_then (must_text (MuxedAccount_Address (pr_Destination iop))) (\<lambda>dest.
     and_then (XDRAssetAmountSummary (pr_SendMax iop) (pr_SendAsset iop)) (\<lambda>most.
       Inr (tense pastTense ''Pay'' ''Paid'' @ '' '' @ amt @ '' to account '' @ dest @ '' using at most '' @ most))))"

definition path_send_summary :: "bool \<Rightarrow> PathPaymentStrictSendOp \<Rightarrow> string res" where
  "path_send_summary pastTense iop =
     and_then (XDRAssetAmountSummary (ps_DestMin iop) (ps_DestAsset iop)) (\<lambda>least.
     and_then (must_text (MuxedAccount_Address (ps_Destination iop))) (\<lambda>dest.
     and_then (XDRAssetAmountSummary (ps_SendAmount iop) (ps_SendAsset iop)) (\<lambda>amt.
       Inr (tense pastTense ''Pay'' ''Paid'' @ '' at least '' @ least @ '' to account '' @ dest @ '' using '' @ amt))))"

definition sell_offer_summary :: "bool \<Rightarrow> ManageSellOfferOp \<Rightarrow> string res" where
  "sell_offer_summary pastTense iop =
     (let offer_id = '' (id '' @ show_int (sint (ms_OfferId iop)) @ '')'' in
      if ms_OfferId iop = 0 then
        and_then (XDRAssetAmountSummary (ms_Amount iop) (ms_Selling iop)) (\<lambda>selling.
        and_then (Price_String (ms_Price iop)) (\<lambda>price.
        and_then (XDRAssetSummary (ms_Buying iop)) (\<lambda>buying.
          Inr (''Create'' @ past pastTense ''d'' @ '' offer selling '' @ selling @ '' for '' @ price @ '' to buy '' @ buying))))
      else if ms_Amount iop = 0 then
        and_then (XDRAssetSummary (ms_Selling iop)) (\<lambda>selling.
        and_then (Price_String (ms_Price iop)) (\<lambda>price.
        and_then (XDRAssetSummary (ms_Buying iop)) (\<lambda>buying.
          Inr (''Remove'' @ past pastTense ''d'' @ '' offer selling '' @ selling @ '' for '' @ price @ '' to buy '' @ buying @ offer_id))))
      else
        and_then (XDRAssetAmountSummary (ms_Amount iop) (ms_Selling iop)) (\<lambda>selling.
        and_then (Price_String (ms_Price iop)) (\<lambda>price.
        and_then (XDRAssetSummary (ms_Buying iop)) (\<lambda>buying.
          Inr (''Update'' @ past pastTense ''d'' @ '' offer selling '' @ selling @ '' for '' @ price @ '' to buy '' @ buying @ offer_id)))))"

definition passive_offer_summary :: "bool \<Rightarrow> CreatePassiveSellOfferOp \<Rightarrow> string res" where
  "passive_offer_summary pastTense iop =
     (if cp_Amount iop = 0 then
        and_then (XDRAssetSummary (cp_Selling iop)) (\<lambda>selling.
        and_then (Price_String (cp_Price iop)) (\<lambda>price.
        and_then (XDRAssetSummary (cp_Buying iop)) (\<lambda>buying.
          Inr (''Remove'' @ past pastTense ''d'' @ '' passive offer selling '' @ selling @ '' for '' @ price @ '' to buy '' @ buying))))
      else
        and_then (XDRAssetAmountSummary (cp_Amount iop) (cp_Selling iop)) (\<lambda>selling.
        and_then (Price_String (cp_Price iop)) (\<lambda>price.
        and_then (XDRAssetSummary (cp_Buying iop)) (\<lambda>buying.
          Inr (''Create'' @ past pastTense ''d'' @ '' passive offer selling '' @ selling @ '' for '' @ price @ '' to buy '' @ buying)))))"

text \<open>The lines of \<open>all\<close>, one for each option that is set, in the order of the code.\<close>

definition option_line :: "'a option \<Rightarrow> ('a \<Rightarrow> string res) \<Rightarrow> string list res" where
  "option_line p line = (case p of None \<Rightarrow> Inr [] | Some x \<Rightarrow> and_then (line x) (\<lambda>l. Inr [l]))"

definition set_options_lines :: "(nat \<Rightarrow> bool) \<Rightarrow> bool \<Rightarrow> SetOptionsOp \<Rightarrow> string list list res" where
  "set_options_lines table pastTense iop =
     map_res (\<lambda>l. l)
       [option_line (so_InflationDest iop) (\<lambda>a.
          and_then (must_text (AccountId_Address a)) (\<lambda>addr. Inr (''Set inflation destination to '' @ addr))),
        option_line (so_ClearFlags iop) (\<lambda>n. Inr (''Clear'' @ past pastTense ''ed'' @ '' account flags '' @ show_bin (unat n))),
        option_line (so_SetFlags iop) (\<lambda>n. Inr (''Set account flags '' @ show_bin (unat n))),
        option_line (so_MasterWeight iop) (\<lambda>n. Inr (''Set master key weight to '' @ show_nat (unat n))),
        option_line (so_LowThreshold iop) (\<lambda>n. Inr (''Set low threshold to '' @ show_nat (unat n))),
        option_line (so_MedThreshold iop) (\<lambda>n. Inr (''Set medium threshold to '' @ show_nat (unat n))),
        option_line (so_HighThreshold iop) (\<lambda>n. Inr (''Set high threshold to '' @ show_nat (unat n))),
        option_line (so_HomeDomain iop) (\<lambda>d. Inr (''Set home domain to '' @ strconv_Quote table d)),
        option_line (so_Signer iop) (\<lambda>(key, weight).
          and_then (SignerKey_Address key) (\<lambda>addr.
            Inr (''Set signer key '' @ addr @ '' with weight '' @ show_nat (unat weight))))]"

definition set_options_summary :: "(nat \<Rightarrow> bool) \<Rightarrow> bool \<Rightarrow> SetOptionsOp \<Rightarrow> string res" where
  "set_options_summary table pastTense iop =
     and_then (set_options_lines table pastTense iop) (\<lambda>all. Inr (Join (concat all) [CHR 0x0A]))"

definition change_trust_summary :: "bool \<Rightarrow> ChangeTrustOp \<Rightarrow> string res" where
  "change_trust_summary pastTense iop =
     and_then (XDRChangeTrustAssetSummary (ct_Line iop)) (\<lambda>line.
       Inr (if ct_Limit iop = 0 then ''Remove'' @ past pastTense ''d'' @ '' trust line to '' @ line
            else if sint (ct_Limit iop) = int64_max then ''Establish'' @ past pastTense ''ed'' @ '' trust line to '' @ line
            else ''Establish'' @ past pastTense ''ed'' @ '' trust line to '' @ line @ '' with limit '' @ show_int (sint (ct_Limit iop))))"

text \<open>The whole array of the code is converted to a text, its zero bytes too.\<close>

definition allow_trust_summary :: "bool \<Rightarrow> AllowTrustOp \<Rightarrow> string res" where
  "allow_trust_summary pastTense iop =
     (let with_code = (\<lambda>code.
        and_then (must_text (AccountId_Address (at_Trustor iop))) (\<lambda>trustor.
          Inr ((if 0 < at_Authorize iop then ''Authorize'' else ''Deauthorize'') @ past pastTense ''d'' @ '' trustline to '' @
               map char_of_byte code @ '' for '' @ trustor)))
      in if at_AssetType iop = AssetTypeCreditAlphanum4 then and_then (deref (at_AssetCode4 iop)) with_code
         else if at_AssetType iop = AssetTypeCreditAlphanum12 then and_then (deref (at_AssetCode12 iop)) with_code
         else Inr ''invalid allow trust asset code'')"

definition merge_summary :: "bool \<Rightarrow> MuxedAccount \<Rightarrow> string res" where
  "merge_summary pastTense destination =
     and_then (must_text (MuxedAccount_Address destination)) (\<lambda>dest.
       Inr (''Merge'' @ past pastTense ''d'' @ '' account into '' @ dest))"

definition manage_data_summary :: "(nat \<Rightarrow> bool) \<Rightarrow> bool \<Rightarrow> ManageDataOp \<Rightarrow> string" where
  "manage_data_summary table pastTense iop =
     (case md_DataValue iop of
        None \<Rightarrow> ''Remove'' @ past pastTense ''d'' @ '' data '' @ strconv_Quote table (md_DataName iop)
      | Some value \<Rightarrow>
          ''Add'' @ past pastTense ''ed'' @ '' data with key '' @ md_DataName iop @ '', hex of binary data &'' @ hex_EncodeToString value)"

section \<open>The dispatch\<close>

definition opBodySummary :: "(nat \<Rightarrow> bool) \<Rightarrow> Operation \<Rightarrow> bool \<Rightarrow> string res" where
  "opBodySummary table op pastTense =
     (let b = op_Body op in
      case body_Type b of
        OpCreateAccount \<Rightarrow>
          and_then (must_arm (\<lambda>v. case v of VCreateAccountOp x \<Rightarrow> Some x | _ \<Rightarrow> None) b) (create_account_summary pastTense)
      | OpPayment \<Rightarrow>
          and_then (must_arm (\<lambda>v. case v of VPaymentOp x \<Rightarrow> Some x | _ \<Rightarrow> None) b) (payment_summary pastTense)
      | OpPathPaymentStrictReceive \<Rightarrow>
          and_then (must_arm (\<lambda>v. case v of VPathPaymentStrictReceiveOp x \<Rightarrow> Some x | _ \<Rightarrow> None) b) (path_receive_summary pastTense)
      | OpPathPaymentStrictSend \<Rightarrow>
          and_then (must_arm (\<lambda>v. case v of VPathPaymentStrictSendOp x \<Rightarrow> Some x | _ \<Rightarrow> None) b) (path_send_summary pastTense)
      | OpManageSellOffer \<Rightarrow>
          and_then (must_arm (\<lambda>v. case v of VManageSellOfferOp x \<Rightarrow> Some x | _ \<Rightarrow> None) b) (sell_offer_summary pastTense)
      | OpCreatePassiveSellOffer \<Rightarrow>
          and_then (must_arm (\<lambda>v. case v of VCreatePassiveSellOfferOp x \<Rightarrow> Some x | _ \<Rightarrow> None) b) (passive_offer_summary pastTense)
      | OpSetOptions \<Rightarrow>
          and_then (must_arm (\<lambda>v. case v of VSetOptionsOp x \<Rightarrow> Some x | _ \<Rightarrow> None) b) (set_options_summary table pastTense)
      | OpChangeTrust \<Rightarrow>
          and_then (must_arm (\<lambda>v. case v of VChangeTrustOp x \<Rightarrow> Some x | _ \<Rightarrow> None) b) (change_trust_summary pastTense)
      | OpAllowTrust \<Rightarrow>
          and_then (must_arm (\<lambda>v. case v of VAllowTrustOp x \<Rightarrow> Some x | _ \<Rightarrow> None) b) (allow_trust_summary pastTense)
      | OpAccountMerge \<Rightarrow>
          and_then (must_arm (\<lambda>v. case v of VMuxedAccount x \<Rightarrow> Some x | _ \<Rightarrow> None) b) (merge_summary pastTense)
      | OpManageData \<Rightarrow>
          and_then (must_arm (\<lambda>v. case v of VManageDataOp x \<Rightarrow> Some x | _ \<Rightarrow> None) b)
            (\<lambda>iop. Inr (manage_data_summary table pastTense iop))
      | _ \<Rightarrow> Inr ''invalid operation type'')"

definition OpSummary :: "(nat \<Rightarrow> bool) \<Rightarrow> Operation \<Rightarrow> bool \<Rightarrow> string res" where
  "OpSummary table op pastTense =
     and_then (opBodySummary table op pastTense) (\<lambda>body.
       case op_SourceAccount op of
         None \<Rightarrow> Inr body
       | Some m \<Rightarrow> and_then (must_text (MuxedAccount_Address m)) (\<lambda>addr. Inr (''[Source account '' @ addr @ ''] '' @ body)))"

section \<open>Memos in words (\<open>memo.go\<close>)\<close>

definition Memo_String :: "(nat \<Rightarrow> bool) \<Rightarrow> Memo \<Rightarrow> string res" where
  "Memo_String table m =
     (if memo_Type m = MemoTypeNone then Inr ''<none>''
      else if memo_Type m = MemoTypeText then and_then (deref (memo_Text m)) (\<lambda>x. Inr (strconv_Quote table x @ '' <text>''))
      else if memo_Type m = MemoTypeID then and_then (deref (memo_ID m)) (\<lambda>x. Inr (show_nat (unat x) @ '' <id>''))
      else if memo_Type m = MemoTypeHash then and_then (deref (memo_Hash m)) (\<lambda>x. Inr (hex_EncodeToString x @ '' <hash>''))
      else if memo_Type m = MemoTypeReturn
        then and_then (deref (memo_ReturnHash m)) (\<lambda>x. Inr (hex_EncodeToString x @ '' <return>''))
      else Inr ''<unknown>'')"

section \<open>Facts\<close>

lemma is_ok_bind [intro]: "is_ok m \<Longrightarrow> (\<And>x. is_ok (f x)) \<Longrightarrow> is_ok (and_then m f)"
  by (cases m) auto

lemma and_then_ok_Inl [simp]: "is_ok m \<Longrightarrow> and_then m (\<lambda>_. Inl e) = Inl e"
  by (cases m) auto

lemma must_text_simps [simp]: "must_text (Inr s) = Inr s"
  by (simp add: must_text_def)

lemma is_ok_must_text [simp]: "is_ok (must_text r) = is_ok r"
  by (simp add: must_text_def)

lemma strkey_Encode_total:
  "v \<in> {VersionByteAccountID, VersionByteMuxedAccount, VersionByteSeed, VersionByteHashTx, VersionByteHashX} \<Longrightarrow>
     is_ok (strkey_Encode v bs)"
  by (simp add: strkey_Encode_def checkValidVersionByte_def Let_def)

lemma address_total [simp]:
  "is_ok (AccountId_Address aid)" "is_ok (MuxedAccount_Address m)" "is_ok (SignerKey_Address k)"
  by (auto simp: AccountId_Address_def MuxedAccount_Address_def SignerKey_Address_def
      intro: strkey_Encode_total split: MuxedAccount.splits SignerKey.splits)

text \<open>
  What the decoder guarantees of an operation: the arm of its discriminant is set, and so
  are those of the assets in it.
\<close>

definition asset_arms :: "xdr_Asset \<Rightarrow> bool" where
  "asset_arms a \<longleftrightarrow> (xa_Type a = 1 \<longrightarrow> xa_AlphaNum4 a \<noteq> None) \<and> (xa_Type a = 2 \<longrightarrow> xa_AlphaNum12 a \<noteq> None)"

definition change_trust_arms :: "xdr_ChangeTrustAsset \<Rightarrow> bool" where
  "change_trust_arms a \<longleftrightarrow> (xc_Type a = 1 \<longrightarrow> xc_AlphaNum4 a \<noteq> None) \<and> (xc_Type a = 2 \<longrightarrow> xc_AlphaNum12 a \<noteq> None)"

fun arm_ok :: "op_value \<Rightarrow> OperationType \<Rightarrow> bool" where
  "arm_ok (VCreateAccountOp _) ty = (ty = OpCreateAccount)"
| "arm_ok (VPaymentOp x) ty = (ty = OpPayment \<and> asset_arms (pay_Asset x))"
| "arm_ok (VPathPaymentStrictReceiveOp x) ty =
     (ty = OpPathPaymentStrictReceive \<and> asset_arms (pr_SendAsset x) \<and> asset_arms (pr_DestAsset x))"
| "arm_ok (VPathPaymentStrictSendOp x) ty =
     (ty = OpPathPaymentStrictSend \<and> asset_arms (ps_SendAsset x) \<and> asset_arms (ps_DestAsset x))"
| "arm_ok (VManageSellOfferOp x) ty = (ty = OpManageSellOffer \<and> asset_arms (ms_Selling x) \<and> asset_arms (ms_Buying x))"
| "arm_ok (VCreatePassiveSellOfferOp x) ty =
     (ty = OpCreatePassiveSellOffer \<and> asset_arms (cp_Selling x) \<and> asset_arms (cp_Buying x))"
| "arm_ok (VSetOptionsOp _) ty = (ty = OpSetOptions)"
| "arm_ok (VChangeTrustOp x) ty = (ty = OpChangeTrust \<and> change_trust_arms (ct_Line x))"
| "arm_ok (VAllowTrustOp x) ty =
     (ty = OpAllowTrust \<and> (at_AssetType x = 1 \<longrightarrow> at_AssetCode4 x \<noteq> None) \<and> (at_AssetType x = 2 \<longrightarrow> at_AssetCode12 x \<noteq> None))"
| "arm_ok (VManageDataOp _) ty = (ty = OpManageData)"
| "arm_ok (VMuxedAccount _) ty = (ty = OpAccountMerge)"
| "arm_ok (VAccountId _) ty = False"
| "arm_ok (VBumpSequenceOp _) ty = (ty = OpBumpSequence)"
| "arm_ok (VManageBuyOfferOp _) ty = (ty = OpManageBuyOffer)"
| "arm_ok (VCreateClaimableBalanceOp _) ty = (ty = OpCreateClaimableBalance)"
| "arm_ok (VClaimClaimableBalanceOp _) ty = (ty = OpClaimClaimableBalance)"
| "arm_ok (VBeginSponsoringFutureReservesOp _) ty = (ty = OpBeginSponsoringFutureReserves)"
| "arm_ok (VRevokeSponsorshipOp _) ty = (ty = OpRevokeSponsorship)"
| "arm_ok (VClawbackOp _) ty = (ty = OpClawback)"
| "arm_ok (VClawbackClaimableBalanceOp _) ty = (ty = OpClawbackClaimableBalance)"
| "arm_ok (VSetTrustLineFlagsOp _) ty = (ty = OpSetTrustLineFlags)"
| "arm_ok (VLiquidityPoolDepositOp _) ty = (ty = OpLiquidityPoolDeposit)"
| "arm_ok (VLiquidityPoolWithdrawOp _) ty = (ty = OpLiquidityPoolWithdraw)"

definition body_ok :: "OperationBody \<Rightarrow> bool" where
  "body_ok b = (case body_Arm b of
      Some v \<Rightarrow> arm_ok v (body_Type b)
    | None \<Rightarrow> body_Type b \<notin> {OpCreateAccount, OpPayment, OpPathPaymentStrictReceive, OpPathPaymentStrictSend, OpManageSellOffer,
        OpCreatePassiveSellOffer, OpSetOptions, OpChangeTrust, OpAllowTrust, OpAccountMerge, OpManageData})"

definition body_price :: "OperationBody \<Rightarrow> xdr_Price option" where
  "body_price b = (case body_Arm b of
      Some (VManageSellOfferOp x) \<Rightarrow> Some (ms_Price x)
    | Some (VCreatePassiveSellOfferOp x) \<Rightarrow> Some (cp_Price x)
    | _ \<Rightarrow> None)"

text \<open>That it does: whatever bytes an operation is decoded from.\<close>

lemma wt_Asset_arms: "wt_Asset a \<Longrightarrow> asset_arms a"
  by (auto simp: wt_Asset_def asset_arms_def split: if_splits option.splits)

lemma wt_ChangeTrustAsset_arms: "wt_ChangeTrustAsset a \<Longrightarrow> change_trust_arms a"
  by (auto simp: wt_ChangeTrustAsset_def change_trust_arms_def split: if_splits option.splits)

lemma wt_AllowTrust_arms: "wt_AllowTrustOp v \<Longrightarrow> arm_ok (VAllowTrustOp v) OpAllowTrust"
  by (auto simp: wt_AllowTrustOp_def wt_AssetCode_def split: if_splits option.splits)

lemma wt_arm_ok: "wt_arm ty (Some v) \<Longrightarrow> arm_ok v ty"
  by (cases ty; cases v)
    (simp_all add: wt_AllowTrust_arms [simplified] wt_Asset_arms wt_ChangeTrustAsset_arms wt_PaymentOp_def
      wt_PathPaymentStrictReceiveOp_def wt_PathPaymentStrictSendOp_def wt_ManageSellOfferOp_def wt_CreatePassiveSellOfferOp_def)

lemma wt_body_ok: "wt_OperationBody b \<Longrightarrow> body_ok b"
  by (cases "body_Arm b"; cases "body_Type b") (simp_all add: wt_OperationBody_def body_ok_def wt_arm_ok del: wt_arm.simps arm_ok.simps,
    simp_all)

lemma decoded_body_ok: "dec_Operation bs = Inr (op, r) \<Longrightarrow> body_ok (op_Body op)"
  using xdr_canonical [OF xdr_Operation] wt_body_ok by (fastforce simp: wt_Operation_def)

lemma alpha_minimal_total: "is_ok (alpha_minimal a)"
  by (simp add: alpha_minimal_def is_ok_and_then AccountId_Address_def)

lemma asset_or_invalid_total: "(\<forall>msg. r \<noteq> Inl (Panic msg)) \<Longrightarrow> is_ok (asset_or_invalid r)"
  by (cases r) (auto simp: asset_or_invalid_def split: go_error.splits)

lemma XDRAssetSummary_total [simp]: "asset_arms a \<Longrightarrow> is_ok (XDRAssetSummary a)"
  using alpha_minimal_total unfolding XDRAssetSummary_def
  by (intro asset_or_invalid_total) (auto simp: XDRToAssetMinimal_def asset_arms_def is_ok_iff, (metis Inl_Inr_False)+)

lemma XDRChangeTrustAssetSummary_total [simp]: "change_trust_arms a \<Longrightarrow> is_ok (XDRChangeTrustAssetSummary a)"
  using alpha_minimal_total unfolding XDRChangeTrustAssetSummary_def
  by (intro asset_or_invalid_total) (auto simp: ChangeTrustXDRToAssetMinimal_def change_trust_arms_def is_ok_iff, (metis Inl_Inr_False)+)

lemma XDRAssetAmountSummary_total [simp]: "asset_arms a \<Longrightarrow> is_ok (XDRAssetAmountSummary n a)"
  by (simp add: XDRAssetAmountSummary_def is_ok_bind)
lemma Price_String_total: "sint (price_D p) \<noteq> 0 \<Longrightarrow> is_ok (Price_String p)"
  by (simp add: Price_String_def)

lemma Price_String_zero: "sint (price_D p) = 0 \<Longrightarrow> Price_String p = Inl (Panic ''division by zero'')"
  by (simp add: Price_String_def)

lemma option_line_total: "(\<And>x. is_ok (f x)) \<Longrightarrow> is_ok (option_line p f)"
  by (auto simp: option_line_def split: option.splits)

lemma set_options_summary_total: "is_ok (set_options_summary table t iop)"
  unfolding set_options_summary_def set_options_lines_def
  by (intro is_ok_bind) (auto simp: map_res_ok_iff is_ok_bind option_line_total split: prod.splits)

lemma simple_summaries_total:
  "is_ok (create_account_summary t a)"
  "asset_arms (pay_Asset b) \<Longrightarrow> is_ok (payment_summary t b)"
  "asset_arms (pr_SendAsset c) \<Longrightarrow> asset_arms (pr_DestAsset c) \<Longrightarrow> is_ok (path_receive_summary t c)"
  "asset_arms (ps_SendAsset d) \<Longrightarrow> asset_arms (ps_DestAsset d) \<Longrightarrow> is_ok (path_send_summary t d)"
  "change_trust_arms (ct_Line e) \<Longrightarrow> is_ok (change_trust_summary t e)"
  "is_ok (merge_summary t m)"
  by (simp_all add: create_account_summary_def payment_summary_def path_receive_summary_def path_send_summary_def
      change_trust_summary_def merge_summary_def is_ok_bind)

lemma allow_trust_summary_total:
  "at_AssetType x = 1 \<longrightarrow> at_AssetCode4 x \<noteq> None \<Longrightarrow> at_AssetType x = 2 \<longrightarrow> at_AssetCode12 x \<noteq> None \<Longrightarrow>
     is_ok (allow_trust_summary t x)"
  by (auto simp: allow_trust_summary_def Let_def is_ok_bind)

lemma sell_offer_summary_cases:
  assumes "asset_arms (ms_Selling x)" "asset_arms (ms_Buying x)"
  shows "sint (price_D (ms_Price x)) \<noteq> 0 \<Longrightarrow> is_ok (sell_offer_summary t x)"
    and "sint (price_D (ms_Price x)) = 0 \<Longrightarrow> sell_offer_summary t x = Inl (Panic ''division by zero'')"
  using assms by (simp_all add: sell_offer_summary_def Let_def is_ok_bind Price_String_total Price_String_zero)

lemma passive_offer_summary_cases:
  assumes "asset_arms (cp_Selling x)" "asset_arms (cp_Buying x)"
  shows "sint (price_D (cp_Price x)) \<noteq> 0 \<Longrightarrow> is_ok (passive_offer_summary t x)"
    and "sint (price_D (cp_Price x)) = 0 \<Longrightarrow> passive_offer_summary t x = Inl (Panic ''division by zero'')"
  using assms by (simp_all add: passive_offer_summary_def is_ok_bind Price_String_total Price_String_zero)

lemmas summary_totals = simple_summaries_total allow_trust_summary_total set_options_summary_total

lemma must_arm_Some [simp]: "body_Arm b = Some v \<Longrightarrow> must_arm f b = deref (f v)"
  by (simp add: must_arm_def)

lemma opBodySummary_cases:
  assumes "body_ok (op_Body op)"
  shows "(case body_price (op_Body op) of None \<Rightarrow> True | Some p \<Rightarrow> sint (price_D p) \<noteq> 0) \<Longrightarrow> is_ok (opBodySummary table op t)"
    and "body_price (op_Body op) = Some p \<Longrightarrow> sint (price_D p) = 0 \<Longrightarrow>
      opBodySummary table op t = Inl (Panic ''division by zero'')"
proof -
  show "is_ok (opBodySummary table op t)"
    if "case body_price (op_Body op) of None \<Rightarrow> True | Some p \<Rightarrow> sint (price_D p) \<noteq> 0"
  proof (cases "body_Arm (op_Body op)")
    case None
    with assms show ?thesis by (cases "body_Type (op_Body op)") (simp_all add: body_ok_def opBodySummary_def)
  next
    case (Some v)
    with assms that show ?thesis
      by (cases v) (simp_all add: body_ok_def body_price_def opBodySummary_def summary_totals
          sell_offer_summary_cases passive_offer_summary_cases)
  qed
  show "opBodySummary table op t = Inl (Panic ''division by zero'')"
    if "body_price (op_Body op) = Some p" "sint (price_D p) = 0"
    using assms that
    by (auto simp: body_ok_def body_price_def opBodySummary_def sell_offer_summary_cases passive_offer_summary_cases
        split: option.splits op_value.splits)
qed

text \<open>The number of line breaks in the summary of options.\<close>

definition newlines :: "string \<Rightarrow> nat" where
  "newlines s = length (filter (\<lambda>c. c = CHR 0x0A) s)"

lemma newlines_simps [simp]: "newlines [] = 0" "newlines (s @ t) = newlines s + newlines t"
  "newlines (c # s) = (if c = CHR 0x0A then Suc (newlines s) else newlines s)"
  by (simp_all add: newlines_def)

lemma newlines_zero: "CHR 0x0A \<notin> set s \<Longrightarrow> newlines s = 0"
  by (auto simp: newlines_def filter_empty_conv)

lemma newlines_Join: "\<forall>l \<in> set ls. newlines l = 0 \<Longrightarrow> newlines (Join ls [CHR 0x0A]) = length ls - 1"
  by (induction ls "[CHR 0x0A]" rule: Join.induct) auto

lemma show_nat_no_newline [simp]: "newlines (show_nat n) = 0"
  using show_nat_digits [of n] by (intro newlines_zero) (auto simp: is_digit_iff)

lemma show_bin_no_newline [simp]: "newlines (show_bin n) = 0"
proof (induction n rule: show_bin.induct)
  case (1 n)
  have "digit_char d \<noteq> CHR 0x0A" if "d < 2" for d
    using is_digit_digit_char [of d] that by (auto simp: is_digit_iff)
  with 1 show ?case by (simp add: show_bin.simps [of n])
qed

lemma Quote_no_newline [simp]: "newlines (strconv_Quote table s) = 0"
  by (intro newlines_zero strconv_Quote_no_newline)

lemma address_no_newline:
  "AccountId_Address a = Inr s \<Longrightarrow> newlines s = 0"
  "SignerKey_Address k = Inr s \<Longrightarrow> newlines s = 0"
  using strkey_Encode_plain [of _ _ s]
  by (auto simp: AccountId_Address_def SignerKey_Address_def must_text_def map_err_def plain_text_def
      intro!: newlines_zero split: SignerKey.splits sum.splits simp del: strkey_Encode_address_of)

text \<open>How many options an operation sets.\<close>

definition options_set :: "SetOptionsOp \<Rightarrow> nat" where
  "options_set o' =
     (let given = (\<lambda>p. if p then 1 else 0 :: nat) in
      given (so_InflationDest o' \<noteq> None) + given (so_ClearFlags o' \<noteq> None) + given (so_SetFlags o' \<noteq> None) +
      given (so_MasterWeight o' \<noteq> None) + given (so_LowThreshold o' \<noteq> None) + given (so_MedThreshold o' \<noteq> None) +
      given (so_HighThreshold o' \<noteq> None) + given (so_HomeDomain o' \<noteq> None) + given (so_Signer o' \<noteq> None))"

lemma option_line_Inr:
  assumes "option_line p f = Inr ls" and "\<And>x l. f x = Inr l \<Longrightarrow> newlines l = 0"
  shows "length ls = (if p \<noteq> None then 1 else 0) \<and> (\<forall>l \<in> set ls. newlines l = 0)"
  using assms by (cases p) (auto simp: option_line_def and_then_eq_Inr)
definition line_count :: "string list res \<Rightarrow> nat \<Rightarrow> bool" where
  "line_count r n \<longleftrightarrow> (\<forall>ls. r = Inr ls \<longrightarrow> length ls = n \<and> (\<forall>l \<in> set ls. newlines l = 0))"

lemma line_count_option:
  "(\<And>x l. f x = Inr l \<Longrightarrow> newlines l = 0) \<Longrightarrow> line_count (option_line p f) (if p \<noteq> None then 1 else 0)"
  using option_line_Inr [of p f] unfolding line_count_def by blast

lemma line_counts:
  "list_all2 line_count rs ns \<Longrightarrow> map_res (\<lambda>l. l) rs = Inr lss \<Longrightarrow>
     length (concat lss) = sum_list ns \<and> (\<forall>l \<in> set (concat lss). newlines l = 0)"
proof (induction arbitrary: lss rule: list_all2_induct)
  case (Cons r rs n ns)
  then obtain l ls where "lss = l # ls" "r = Inr l" "map_res (\<lambda>l. l) rs = Inr ls"
    by (auto simp: and_then_eq_Inr)
  with Cons.IH [of ls] Cons.hyps(1) show ?case by (auto simp: line_count_def)
qed simp

lemma set_options_lines_Inr:
  assumes "set_options_lines table t iop = Inr lss"
  shows "length (concat lss) = options_set iop \<and> (\<forall>l \<in> set (concat lss). newlines l = 0)"
proof -
  let ?given = "\<lambda>p. if p then 1 else 0 :: nat"
  have p: "newlines (past t ''ed'') = 0" by (simp add: past_def)
  have "length (concat lss) =
      sum_list [?given (so_InflationDest iop \<noteq> None), ?given (so_ClearFlags iop \<noteq> None), ?given (so_SetFlags iop \<noteq> None),
        ?given (so_MasterWeight iop \<noteq> None), ?given (so_LowThreshold iop \<noteq> None), ?given (so_MedThreshold iop \<noteq> None),
        ?given (so_HighThreshold iop \<noteq> None), ?given (so_HomeDomain iop \<noteq> None), ?given (so_Signer iop \<noteq> None)] \<and>
      (\<forall>l \<in> set (concat lss). newlines l = 0)"
    using assms unfolding set_options_lines_def
    by (rule line_counts [rotated])
      (simp only: list_all2_Cons list_all2_Nil simp_thms,
       intro conjI line_count_option; auto simp: and_then_eq_Inr address_no_newline must_text_def map_err_eq_Inr p)
  then show ?thesis by (simp add: options_set_def Let_def)
qed

section \<open>Properties\<close>

text \<open>
  C36. The summary of an operation that the decoder built is a text, in either tense, with
  one exception: an offer whose price has the denominator zero, which the decoder accepts,
  makes it panic.
\<close>

theorem OpSummary_total:
  assumes "body_ok (op_Body op)"
  shows "(is_ok (OpSummary table op pastTense) \<longleftrightarrow>
      (case body_price (op_Body op) of None \<Rightarrow> True | Some p \<Rightarrow> sint (price_D p) \<noteq> 0)) \<and>
    (\<forall>e. OpSummary table op pastTense = Inl e \<longrightarrow> e = Panic ''division by zero'')"
proof (cases "case body_price (op_Body op) of None \<Rightarrow> True | Some p \<Rightarrow> sint (price_D p) \<noteq> 0")
  case True
  then have "is_ok (opBodySummary table op pastTense)" by (rule opBodySummary_cases(1) [OF assms])
  then have "is_ok (OpSummary table op pastTense)"
    unfolding OpSummary_def by (rule is_ok_bind) (auto split: option.splits intro!: is_ok_bind)
  with True show ?thesis by (auto simp: is_ok_iff)
next
  case False
  then obtain p where "body_price (op_Body op) = Some p" "sint (price_D p) = 0" by (auto split: option.splits)
  with False opBodySummary_cases(2) [OF assms this] show ?thesis by (simp add: OpSummary_def)
qed

definition demo_offer_op :: "int32 \<Rightarrow> Operation" where
  "demo_offer_op d = \<lparr>op_SourceAccount = None, op_Body = \<lparr>body_Type = OpManageSellOffer, body_Arm =
     Some (VManageSellOfferOp \<lparr>ms_Selling = xdr_native, ms_Buying = xdr_native, ms_Amount = 0,
       ms_Price = \<lparr>price_N = 1, price_D = d\<rparr>, ms_OfferId = 7\<rparr>)\<rparr>\<rparr>"

theorem OpSummary_total_witness:
  "\<not> is_ok (OpSummary (\<lambda>_. True) (demo_offer_op 0) True) \<and> is_ok (OpSummary (\<lambda>_. True) (demo_offer_op 2) True)"
proof -
  have "body_ok (op_Body (demo_offer_op d))" for d
    by (simp add: demo_offer_op_def body_ok_def asset_arms_def xdr_native_def)
  then show ?thesis
    using OpSummary_total [of "demo_offer_op 0"] OpSummary_total [of "demo_offer_op 2"]
    by (simp add: body_price_def demo_offer_op_def)
qed

text \<open>
  The summary of a change of options has one line for each option that is set,
  whatever the bytes of the home domain are: what an operation says of a domain cannot be
  taken for another option.
\<close>

theorem set_options_one_line_each:
  assumes "set_options_summary table pastTense iop = Inr s" and "0 < options_set iop"
  shows "newlines s + 1 = options_set iop"
proof -
  from assms(1) obtain lss where "set_options_lines table pastTense iop = Inr lss" "s = Join (concat lss) [CHR 0x0A]"
    by (auto simp: set_options_summary_def and_then_eq_Inr)
  with set_options_lines_Inr [of table pastTense iop lss] newlines_Join [of "concat lss"] assms(2) show ?thesis by simp
qed

definition demo_options :: SetOptionsOp where
  "demo_options = empty_SetOptionsOp\<lparr>so_ClearFlags := Some 5, so_MasterWeight := Some 255,
     so_HomeDomain := Some (''a'' @ [CHR 0x0A] @ ''b'')\<rparr>"

theorem set_options_one_line_each_witness:
  "\<exists>s. set_options_summary (\<lambda>_. True) True demo_options = Inr s \<and> newlines s = 2 \<and>
     s = ''Cleared account flags 101'' @ [CHR 0x0A] @ ''Set master key weight to 255'' @ [CHR 0x0A] @
         ''Set home domain to '' @ [CHR 0x22] @ ''a'' @ [CHR 0x5C] @ ''nb'' @ [CHR 0x22]"
proof -
  let ?s = "''Cleared account flags 101'' @ [CHR 0x0A] @ ''Set master key weight to 255'' @ [CHR 0x0A] @
         ''Set home domain to '' @ [CHR 0x22] @ ''a'' @ [CHR 0x5C] @ ''nb'' @ [CHR 0x22]"
  have "set_options_summary (\<lambda>_. True) True demo_options = Inr ?s"
    by (simp add: set_options_summary_def set_options_lines_def option_line_def demo_options_def empty_SetOptionsOp_def past_def
        show_bin.simps digit_char_def char_of_def bit_Suc_0_iff show_nat.simps strconv_Quote_def decode_rune_def RuneSelf_def RuneError_def escaped_rune_def IsPrint_def)
  moreover have "options_set demo_options = 3" by (simp add: options_set_def demo_options_def empty_SetOptionsOp_def)
  ultimately show ?thesis using set_options_one_line_each [of "\<lambda>_. True" True demo_options ?s] by simp
qed

end
