(* ===== verification/Spec2Isabelle.thy ===== *)
theory Spec2Isabelle
  imports Accounts Amounts Assets Base32 Base64 Config Envelopes Error_Texts Errors Fees Flows Format Go_Decimal Go_Files Go_Prelude Go_Quote Go_Rat Go_Regexp Go_Strings Go_Text Go_Url Go_Xdr Horizon Horizon_Http Horizon_Links Keys Memos Payments Prices Results Stellar_URI Strkey Summary Test_Client Tx_Build Tx_Hash Tx_Spec Tx_Typed Vcr Xdr_Codec Xdr_Ledger Xdr_Op_Results Xdr_Ops Xdr_Results Xdr_Text Xdr_Tx Xdr_Types
begin

text \<open>
  A model of stellarnet, the Go package Keybase uses to talk to the Stellar network: it
  reads accounts from a horizon server, builds, signs and submits transactions, and handles
  the texts around them (amounts, keys, assets, memos, prices, payment URIs).

  The parts and how they interact. A payment starts with texts: an amount, an address, a
  seed, a memo. They are parsed (\<open>amounts.go\<close>, \<open>keys.go\<close>, \<open>memo.go\<close>, \<open>assets.go\<close>) and handed to
  a builder (\<open>tx.go\<close>), which collects XDR operations and, when it signs, asks a sequence
  provider (the horizon client, \<open>seq.go\<close>) for the next sequence number, hashes the
  transaction for the network and encodes a signed envelope. \<open>account.go\<close> has one function
  for each kind of transaction and the flows that submit them, retrying on some errors
  (\<open>errors.go\<close> says which), and the queries of an account. \<open>results.go\<close> and \<open>summary.go\<close> read
  results and operations back, \<open>verify.go\<close> checks envelopes, \<open>stellar_uri.go\<close> signs and
  validates SEP-7 requests, \<open>format.go\<close> and \<open>fee.go\<close> prepare figures for display.

  Theories, from the ground up.

  \<^item> \<open>Go_Prelude\<close>: errors as values (\<open>go_error\<close>, with \<open>Panic\<close> for a run-time panic), the result
    type \<open>'a res\<close> and its bind \<open>and_then\<close>, machine integers, the collections \<open>go_defs\<close> (what a
    witness evaluates) and \<open>res_simps\<close>.
  \<^item> \<open>Go_Text\<close>, \<open>Go_Strings\<close>, \<open>Go_Regexp\<close>, \<open>Go_Rat\<close>, \<open>Go_Quote\<close>, \<open>Go_Url\<close>, \<open>Base32\<close>, \<open>Base64\<close>: the parts of
    Go's standard library the program rests on (decimal and hexadecimal text, trimming,
    anchored patterns, exact rationals, quoting, \<open>net/url\<close> as of Go 1.13, the version in
    \<open>.travis.yml\<close>). A string is its bytes.
  \<^item> \<open>Go_Decimal\<close>, \<open>Strkey\<close>, \<open>Prices\<close>: vendored code (\<open>shopspring/decimal\<close>, \<open>strkey\<close> with its CRC16,
    the continued fraction of \<open>price.Parse\<close>).
  \<^item> \<open>Amounts\<close> (\<open>amounts.go\<close>, \<open>stellar/go/amount\<close>), \<open>Format\<close> (\<open>format.go\<close>), \<open>Fees\<close> (\<open>fee.go\<close>): amounts are
    texts, 64-bit stroops and exact rationals, and the lemmas relate the three.
  \<^item> \<open>Keys\<close> (\<open>keys.go\<close>, \<open>keypair\<close>, account identifiers), \<open>Errors\<close> and \<open>Error_Texts\<close> (\<open>errors.go\<close>, the
    error types of \<open>stellar_uri.go\<close>, \<open>fmt.Sprintf\<close>), \<open>Assets\<close> (\<open>assets.go\<close>), \<open>Memos\<close> (\<open>memo.go\<close>).
  \<^item> \<open>Xdr_Tx\<close>: the generated XDR types of all 24 operations, of transactions and envelopes.
    \<open>Go_Xdr\<close>: the primitives of \<open>go-xdr/xdr3\<close> and the ways its generated code combines them.
    \<open>Xdr_Types\<close> (numbers, keys, assets), \<open>Xdr_Ops\<close> (the operations the program makes),
    \<open>Xdr_Ledger\<close> (the others, with claim predicates and ledger keys) and \<open>Xdr_Codec\<close> (their union,
    transactions, envelopes, signature payloads): for each type \<open>T\<close>, \<open>enc_T\<close> (\<open>EncodeTo\<close>), \<open>dec_T\<close>
    (\<open>DecodeFrom\<close>) and \<open>wt_T\<close>, the limits XDR sets to its values. \<open>Xdr_Op_Results\<close> and
    \<open>Xdr_Results\<close>: the same for the results of operations and transactions. \<open>Tx_Hash\<close>: whole
    envelopes as bytes, and transaction hashes (\<open>network/main.go\<close>). \<open>Xdr_Text\<close>:
    \<open>SafeUnmarshalBase64\<close>, the reader of base64 XDR.
  \<^item> \<open>Tx_Build\<close> (\<open>tx.go\<close>): the builder, a record with a sticky error; one definition per method.
    \<open>Tx_Typed\<close>: that it stays within the limits of XDR, and what it signs. \<open>Tx_Spec\<close>: what a
    sequence of method calls stands for, as a list of operations, a memo and bounds, and that
    the builder implements it. \<open>Envelopes\<close> (\<open>SignEnvelope\<close>, \<open>verify.go\<close>).
  \<^item> \<open>Horizon\<close>, \<open>Accounts\<close>, \<open>Payments\<close>, \<open>Config\<close> (\<open>account.go\<close>, \<open>pages.go\<close>, \<open>seq.go\<close>, \<open>ping.go\<close>, the
    searches of \<open>assets.go\<close>): operations on the state of the world, of type \<open>('w, 'a) op\<close>.
    \<open>Flows\<close>: all the transaction functions of \<open>account.go\<close> at once, as a datatype of their
    arguments, with the operation, memo and bounds each signs. \<open>Horizon_Links\<close>: the URLs the queries ask for. \<open>Horizon_Http\<close>: the vendored
    \<open>clients/horizonclient\<close> as far as those functions call it, and the HTTP requests that
    signing and submitting sends.
  \<^item> \<open>Results\<close> (\<open>results.go\<close>), \<open>Summary\<close> (\<open>summary.go\<close>), \<open>Stellar_URI\<close> (\<open>stellar_uri.go\<close>).
  \<^item> \<open>Go_Files\<close> (paths and files), \<open>Vcr\<close> (the vendored \<open>keybase/vcr\<close>) and \<open>Test_Client\<close>
    (\<open>testclient/testclient.go\<close>): the helper of the package's own tests, which records the
    server's answers and plays them back.

  A definition has the name of the Go function or type it translates, with the type in
  front where a method's name is not unique (\<open>Memo_toXDR\<close>); records have a short prefix on
  their fields. A pointer is an option, and reading through \<open>nil\<close> is \<open>Inl (Panic _)\<close>; an XDR
  union keeps discriminant and arm apart where the code can build one that does not fit.
  Package variables are arguments or the record \<open>config\<close>.

  Parameters, for code that is not in the repository or is not computation:
  \<open>go_crypto\<close> (SHA-256 and ed25519, with the laws \<open>crypto_ok\<close>: sizes of keys, hashes and
  signatures, and that a signature verifies), \<open>horizon\<close> (the server's answers as
  operations on \<open>'w\<close>, the JSON decoders), \<open>http_codec\<close> and a
  \<open>transport\<close> (the JSON decoders and the HTTP client under \<open>Horizon_Http\<close>), \<open>uri_env\<close> (HTTP
  getter, TOML decoder), \<open>bad\<close> (what the stream decoder of base64 returns for a text that is not
  base64 as a whole), the parser of floats in \<open>Fees\<close>, the Unicode table in \<open>Go_Quote\<close>, and \<open>test_env\<close> (the answers of
  the operating system, of the network and of the random generators, and the dumps of HTTP
  messages, with the laws \<open>responses_ok\<close>: the dump of a response that the network gave to a \<open>GET\<close> or
  a \<open>POST\<close> is read back; \<open>json_ok\<close>: a configuration of ASCII texts is read back; \<open>rand_ok\<close>, \<open>reads_ok\<close>,
  \<open>dirs_ok\<close>: random numbers are in range, files can be read and directories made). Each property that
  needs a law has a witness with a concrete instance (\<open>plain_crypto\<close>, \<open>demo_client\<close>,
  \<open>demo_test_env\<close>).

  What the lemmas show. Round trips and exact characterisations of the parsers (amounts,
  keys, memos, assets, domain names); the builder's invariant and that signing gives an
  envelope with exactly the operations added, the next sequence number, and a signature
  that \<open>VerifyEnvelope\<close> accepts, whose bytes are read back as the same envelope and no other;
  that an envelope of any operations has one encoding, and which bytes are hashed for it;
  for every transaction function, that arguments that parse are always signed and what is
  signed; which failures are retried and how often; which HTTP requests a submission sends,
  and that a recorded one plays back; which link each query asks for; what a signature of a URI and a validated URI mean, and
  that a transaction of the package put in a request URI is read back from it; bounds and wrap-around where the code
  computes at 64 or 32 bits; and places where the code does not do what it is
  meant to, several of them stated as theorems about the definitions.

  Interfaces. \<open>xdr_type\<close> (what is written is read back, and what is read is what is written)
  is shown for each XDR type in turn and interpreted on envelopes, signature payloads and
  transactions. \<open>amount_codec\<close> (parse and print), \<open>asset_naming\<close> (make and name), \<open>signing_keys\<close>
  (parse a seed, sign, verify) and \<open>sticky_machine\<close> (methods that do nothing after an error)
  are locales; each is interpreted on the model's own definitions where they are.

  Loops. Loops over a slice or a text are structural recursion; the continued fraction ends
  because the terms grow past 32 bits, the submission loop because its number of attempts is
  bounded, and every other function is total. Only the reader of claim predicates, which calls
  itself on the rest of its input, has fuel: the length of the input, which is enough as every
  call reads some of it (\<open>dec_ClaimPredicate_unfold\<close> is the equation without fuel).

  Not modelled. JSON and TOML parsing and the HTTP transport (parameters above); the XDR of
  ledger entries and of messages between nodes, which the program never handles; the server time the horizon client records, which nothing
  reads; what is logged; locks and time-outs, since every function that takes the
  lock holds it for its whole body; the vendored packages the program does not call.
\<close>

end
